(* ===== verification/Go_Numbers.thy ===== *)
theory Go_Numbers
  imports Prelude "HOL-Library.Word"
begin

text \<open>
  Numbers as Go's standard library prints and reads them: \<^verbatim>\<open>strconv.Itoa\<close> and
  \<^verbatim>\<open>strconv.Atoi\<close> (with the 64-bit range check of an \<^verbatim>\<open>int\<close>), \<^verbatim>\<open>hex.EncodeToString\<close>, and the
  big-endian bytes of an \<^verbatim>\<open>int64\<close>. The lemmas give the round trip of decimal numbers and the
  fact that fixed-width big-endian hexadecimal text is ordered as the numbers are.
\<close>

subsection \<open>Decimal\<close>

definition digit_char :: "nat \<Rightarrow> char" where
  "digit_char n = char_of (48 + n)"

definition digit_val :: "char \<Rightarrow> nat option" where
  "digit_val c = (let n = of_char c in if 48 \<le> n \<and> n \<le> 57 then Some (n - 48) else None)"

fun nat_digits :: "nat \<Rightarrow> string" where
  "nat_digits n = (if n < 10 then [digit_char n] else nat_digits (n div 10) @ [digit_char (n mod 10)])"

declare nat_digits.simps [simp del]

fun digits_acc :: "nat \<Rightarrow> string \<Rightarrow> nat option" where
  "digits_acc acc [] = Some acc"
| "digits_acc acc (c # cs) =
     (case digit_val c of None \<Rightarrow> None | Some d \<Rightarrow> digits_acc (10 * acc + d) cs)"

definition parse_nat :: "string \<Rightarrow> nat option" where
  "parse_nat s = (if s = [] then None else digits_acc 0 s)"

definition Itoa :: "int \<Rightarrow> string" where
  "Itoa n = (if n < 0 then CHR ''-'' # nat_digits (nat (- n)) else nat_digits (nat n))"

text \<open>\<^verbatim>\<open>strconv.Atoi\<close>: \<open>None\<close> is either a syntax error or a value outside the 64-bit range.\<close>

definition int64_range :: "int \<Rightarrow> bool" where
  "int64_range n \<longleftrightarrow> - (2 ^ 63) \<le> n \<and> n < 2 ^ 63"

definition in_int64 :: "int \<Rightarrow> int option" where
  "in_int64 n = (if int64_range n then Some n else None)"

definition Atoi :: "string \<Rightarrow> int option" where
  "Atoi s =
     (case s of
        [] \<Rightarrow> None
      | c # cs \<Rightarrow>
          (if c = CHR ''-'' then Option.bind (parse_nat cs) (\<lambda>n. in_int64 (- int n))
           else if c = CHR ''+'' then Option.bind (parse_nat cs) (\<lambda>n. in_int64 (int n))
           else Option.bind (parse_nat s) (\<lambda>n. in_int64 (int n))))"

lemma digit_val_char [simp]: "n < 10 \<Longrightarrow> digit_val (digit_char n) = Some n"
  by (simp add: digit_val_def digit_char_def Let_def)

lemma digits_acc_append:
  "digits_acc acc (xs @ ys) = Option.bind (digits_acc acc xs) (\<lambda>a. digits_acc a ys)"
  by (induction acc xs rule: digits_acc.induct) (auto split: option.splits)

lemma digits_acc_nat_digits: "digits_acc 0 (nat_digits n) = Some n"
proof (induction n rule: nat_digits.induct)
  case (1 n)
  show ?case
  proof (cases "n < 10")
    case True
    then show ?thesis by (simp add: nat_digits.simps [of n])
  next
    case False
    with 1 show ?thesis by (simp add: nat_digits.simps [of n] digits_acc_append)
  qed
qed

lemma nat_digits_ne [simp]: "nat_digits n \<noteq> []"
  by (simp add: nat_digits.simps [of n])

lemma parse_nat_digits [simp]: "parse_nat (nat_digits n) = Some n"
  by (simp add: parse_nat_def digits_acc_nat_digits)

lemma set_nat_digits: "c \<in> set (nat_digits n) \<Longrightarrow> \<exists>d < 10. c = digit_char d"
proof (induction n rule: nat_digits.induct)
  case (1 n)
  show ?case
  proof (cases "n < 10")
    case True
    with 1 show ?thesis by (auto simp: nat_digits.simps [of n])
  next
    case False
    then have "c \<in> set (nat_digits (n div 10)) \<or> c = digit_char (n mod 10)"
      using "1.prems" by (auto simp: nat_digits.simps [of n])
    then show ?thesis
    proof
      assume "c = digit_char (n mod 10)"
      moreover have "n mod 10 < 10" by simp
      ultimately show ?thesis by blast
    qed (use False "1.IH" in blast)
  qed
qed

lemma digit_char_range: "d < 10 \<Longrightarrow> of_char (digit_char d) = (48 + d :: nat)"
  by (simp add: digit_char_def)

lemma hd_nat_digits:
  "hd (nat_digits n) \<noteq> CHR ''-''" "hd (nat_digits n) \<noteq> CHR ''+''"
proof -
  obtain d where d: "d < 10" "hd (nat_digits n) = digit_char d"
    using set_nat_digits [of "hd (nat_digits n)" n] by auto
  have "of_char (hd (nat_digits n)) \<ge> (48::nat)"
    using d digit_char_range by simp
  then show "hd (nat_digits n) \<noteq> CHR ''-''" "hd (nat_digits n) \<noteq> CHR ''+''"
    by auto
qed

lemma Atoi_Itoa:
  assumes "int64_range n"
  shows "Atoi (Itoa n) = Some n"
proof (cases "n < 0")
  case True
  then show ?thesis using assms by (simp add: Atoi_def Itoa_def in_int64_def)
next
  case False
  obtain c cs where c: "nat_digits (nat n) = c # cs"
    by (meson list.exhaust nat_digits_ne)
  then have "c \<noteq> CHR ''-''" "c \<noteq> CHR ''+''"
    using hd_nat_digits [of "nat n"] by auto
  then have "Atoi (nat_digits (nat n)) = Option.bind (parse_nat (nat_digits (nat n))) (\<lambda>k. in_int64 (int k))"
    by (simp add: Atoi_def c)
  with False assms show ?thesis by (simp add: Itoa_def in_int64_def)
qed

subsection \<open>Hexadecimal and big-endian bytes\<close>

definition hex_digit :: "nat \<Rightarrow> char" where
  "hex_digit n = (if n < 10 then char_of (48 + n) else char_of (87 + n))"

definition hex_byte :: "nat \<Rightarrow> string" where
  "hex_byte n = [hex_digit (n div 16), hex_digit (n mod 16)]"

definition EncodeToString :: "string \<Rightarrow> string" where
  "EncodeToString s = concat (map (\<lambda>c. hex_byte (of_char c)) s)"

text \<open>The \<open>k\<close> low bytes of a number, most significant first: \<^verbatim>\<open>byte(now >> (8 * (k-1-i)))\<close>.\<close>

fun be_bytes :: "nat \<Rightarrow> 64 word \<Rightarrow> string" where
  "be_bytes 0 w = []"
| "be_bytes (Suc k) w = char_of (unat (drop_bit (8 * k) w)) # be_bytes k w"

lemma length_be_bytes [simp]: "length (be_bytes k w) = k"
  by (induction k) auto

lemma length_EncodeToString [simp]: "length (EncodeToString s) = 2 * length s"
  by (induction s) (auto simp: EncodeToString_def hex_byte_def)

lemma EncodeToString_append: "EncodeToString (s @ t) = EncodeToString s @ EncodeToString t"
  by (simp add: EncodeToString_def)

lemma hex_digit_range:
  "n < 16 \<Longrightarrow> of_char (hex_digit n) \<in> {48..57 :: nat} \<union> {97..102}"
  by (auto simp: hex_digit_def)

lemma EncodeToString_range:
  assumes "c \<in> set (EncodeToString s)"
  shows "of_char c \<in> {48..57 :: nat} \<union> {97..102}"
proof -
  obtain x where "c = hex_digit (of_char x div 16) \<or> c = hex_digit (of_char x mod 16)"
    using assms by (auto simp: EncodeToString_def hex_byte_def)
  moreover have "of_char x div 16 < (16 :: nat)"
    using nat_of_char_less_256 [of x] by linarith
  ultimately show ?thesis
    using hex_digit_range [of "of_char x div 16"] hex_digit_range [of "of_char x mod 16"] by auto
qed

lemma EncodeToString_nospace: "c \<in> set (EncodeToString s) \<Longrightarrow> \<not> is_space c"
  by (drule EncodeToString_range) (auto simp: is_space_def)

lemma hex_digit_less: "m < n \<Longrightarrow> n < 16 \<Longrightarrow> hex_digit m < hex_digit n"
  by (auto simp: hex_digit_def less_char_def)

lemma of_char_less_256: "(of_char (c :: char) :: nat) < 256"
  by (metis mod_less_divisor of_char_mod_256 zero_less_numeral)

lemma list_less_append: "length xs = length ys \<Longrightarrow> xs < ys \<Longrightarrow> xs @ u < ys @ v" for xs ys :: "'a::linorder list"
  by (induction xs ys rule: list_induct2) auto

lemma hex_byte_less:
  assumes "m < n" and "n < 256"
  shows "hex_byte m < hex_byte n"
proof -
  have "m div 16 \<le> n div 16" using assms(1) by (simp add: div_le_mono)
  then have "m div 16 < n div 16 \<or> m div 16 = n div 16 \<and> m mod 16 < n mod 16"
    using assms(1) div_mult_mod_eq [of m 16] div_mult_mod_eq [of n 16] by linarith
  moreover have "n div 16 < 16" using assms(2) by (simp add: div_less_iff_less_mult)
  ultimately show ?thesis
    by (auto simp: hex_byte_def intro: hex_digit_less)
qed

lemma EncodeToString_less:
  "length s = length t \<Longrightarrow> s < t \<Longrightarrow> EncodeToString s < EncodeToString t"
proof (induction s t rule: list_induct2)
  case (Cons c s d t)
  show ?case
  proof (cases "c = d")
    case True
    with Cons show ?thesis by (simp add: EncodeToString_def hex_byte_def)
  next
    case False
    with Cons.prems have "(of_char c :: nat) < of_char d" by (simp add: less_char_def)
    then have "hex_byte (of_char c) < hex_byte (of_char d)"
      by (rule hex_byte_less) (rule of_char_less_256)
    then have "hex_byte (of_char c) @ EncodeToString s < hex_byte (of_char d) @ EncodeToString t"
      by (rule list_less_append [rotated]) (simp add: hex_byte_def)
    then show ?thesis by (simp add: EncodeToString_def)
  qed
qed simp

lemma of_char_be_byte:
  "(of_char (char_of (unat (drop_bit (8 * k) (w :: 64 word))) :: char) :: nat) = unat w div 256 ^ k mod 256"
proof -
  have "unat (drop_bit (8 * k) w) = unat w div 256 ^ k"
    by (subst unat_drop_bit_eq) (simp add: drop_bit_eq_div power_mult)
  then show ?thesis by simp
qed

lemma mod_256_Suc: "(n :: nat) mod 256 ^ Suc k = 256 ^ k * (n div 256 ^ k mod 256) + n mod 256 ^ k"
  by (simp only: power_Suc2 mod_mult2_eq)

lemma be_bytes_less:
  "unat v mod 256 ^ k < unat w mod 256 ^ k \<Longrightarrow> be_bytes k v < be_bytes k w"
proof (induction k)
  case (Suc k)
  let ?a = "unat v div 256 ^ k mod 256" and ?b = "unat w div 256 ^ k mod 256"
  let ?r = "unat v mod 256 ^ k" and ?q = "unat w mod 256 ^ k"
  have lt: "256 ^ k * ?a + ?r < 256 ^ k * ?b + ?q"
    using Suc.prems by (simp only: mod_256_Suc)
  have q: "?q < 256 ^ k" by simp
  have "?a < ?b \<or> ?a = ?b \<and> ?r < ?q"
  proof (rule ccontr)
    assume "\<not> (?a < ?b \<or> ?a = ?b \<and> ?r < ?q)"
    then consider "?a > ?b" | "?a = ?b" "\<not> ?r < ?q" by linarith
    then show False
    proof cases
      case 1
      then have "256 ^ k * Suc ?b \<le> 256 ^ k * ?a" by (intro mult_left_mono) auto
      then have "256 ^ k + 256 ^ k * ?b \<le> 256 ^ k * ?a" by simp
      with lt q show False by linarith
    qed (use lt in simp)
  qed
  then show ?case
    using Suc.IH by (auto simp: less_char_def of_char_be_byte of_char_eq_iff [symmetric, where 'a = nat] simp del: of_char_eq_iff of_char_of)
qed simp

lemma be_bytes_8_less: "v < w \<Longrightarrow> be_bytes 8 v < be_bytes 8 w"
proof -
  assume "v < w"
  then have "unat v < unat w" by (simp add: word_less_nat_alt)
  moreover have "unat x < 256 ^ 8" for x :: "64 word"
    using unsigned_less [of x, where 'a = nat] by simp
  ultimately have "unat v mod 256 ^ 8 < unat w mod 256 ^ 8" by simp
  then show ?thesis by (rule be_bytes_less)
qed

lemma uint_eq_sint:
  assumes "0 \<le> sint (w :: 64 word)"
  shows "uint w = sint w"
proof -
  have "sint w < 2 ^ 63" using sint_less [of w] by simp
  with assms show ?thesis by (simp add: uint_sint take_bit_int_eq_self)
qed

lemma sint_less_imp_less: "0 \<le> sint v \<Longrightarrow> sint v < sint w \<Longrightarrow> v < w" for v w :: "64 word"
  using uint_eq_sint [of v] uint_eq_sint [of w] by (simp add: word_less_def)

subsection \<open>The arithmetic of time.Duration\<close>

text \<open>
  A \<^verbatim>\<open>time.Duration\<close> is an \<^verbatim>\<open>int64\<close> count of nanoseconds: a product wraps, and
  \<^verbatim>\<open>Time.Sub\<close>, which \<^verbatim>\<open>time.Since\<close> calls, saturates. A point in time is the integer count of
  nanoseconds since the epoch.
\<close>

definition wrap64 :: "int \<Rightarrow> int" where
  "wrap64 n = (n + 2 ^ 63) mod 2 ^ 64 - 2 ^ 63"

definition sat64 :: "int \<Rightarrow> int" where
  "sat64 n = max (- (2 ^ 63)) (min (2 ^ 63 - 1) n)"

definition Seconds :: "int \<Rightarrow> int" where
  "Seconds n = wrap64 (n * 10 ^ 9)"

text \<open>\<^verbatim>\<open>d.Truncate(time.Second)\<close> and \<^verbatim>\<open>t.Sub(u)\<close>.\<close>

definition TruncateSecond :: "int \<Rightarrow> int" where
  "TruncateSecond d = d - sgn d * (\<bar>d\<bar> mod 10 ^ 9)"

definition time_sub :: "int \<Rightarrow> int \<Rightarrow> int" where
  "time_sub t u = sat64 (t - u)"

lemma wrap64_id: "- (2 ^ 63) \<le> n \<Longrightarrow> n < 2 ^ 63 \<Longrightarrow> wrap64 n = n"
  by (simp add: wrap64_def)

definition int32_range :: "int \<Rightarrow> bool" where
  "int32_range n \<longleftrightarrow> - (2 ^ 31) \<le> n \<and> n < 2 ^ 31"

text \<open>A count of seconds kept in an \<^verbatim>\<open>int32\<close> never overflows the duration it is turned into.\<close>

lemma Seconds_int32: "int32_range n \<Longrightarrow> Seconds n = n * 10 ^ 9"
  by (simp add: Seconds_def int32_range_def wrap64_id)

lemma time_sub_less: "int32_range n \<Longrightarrow> Seconds n < time_sub t u \<longleftrightarrow> n * 10 ^ 9 < t - u"
  by (auto simp: Seconds_int32 time_sub_def sat64_def int32_range_def)

end
