(* ===== verification/File_Tree.thy ===== *)
theory File_Tree
  imports Go_Numbers
begin

text \<open>
  The local file tree a workspace-sync process reads and writes, as far as the modelled code
  observes it: \<^verbatim>\<open>filepath.Walk\<close> over a workspace root with the callback of \<^verbatim>\<open>Store.Snapshot\<close>
  (directories named in \<^verbatim>\<open>skipDir\<close> are not entered, except the root itself; everything that is
  not a regular file is passed over; an unreadable path aborts the walk), and the
  \<^verbatim>\<open>MkdirAll\<close> / \<^verbatim>\<open>WriteFile\<close> / \<^verbatim>\<open>Rename\<close> sequence by which \<^verbatim>\<open>Store.Restore\<close> places one file.
  A directory lists its children in the lexical order in which \<^verbatim>\<open>filepath.Walk\<close> visits them.
\<close>

type_synonym bytes = string
type_synonym file_mode = "32 word"

datatype node =
    RegFile bytes file_mode
  | Special
  | Broken
  | Dir "(string \<times> node) list"

text \<open>\<open>Special\<close> is a symbolic link or a device, \<open>Broken\<close> a path whose lstat, readdir or open fails.\<close>

definition skipDir :: "string list" where
  "skipDir = [''.global'', ''.global-gen'', ''node_modules'', ''.expo'', ''.next'', ''dist'', ''build'',
     ''web-build'', ''.cache'', ''.turbo'', ''__pycache__'', ''.venv'', ''.ephemeral'']"

datatype leaf = LFile bytes file_mode | LFail

text \<open>
  What the callback is called on and keeps, in visiting order. The path is the list of
  components below the root; the empty list is the root, which is entered whatever its name.
\<close>

fun walk_at :: "string list \<Rightarrow> node \<Rightarrow> (string list \<times> leaf) list" where
  "walk_at p (RegFile d m) = [(p, LFile d m)]"
| "walk_at p Special = []"
| "walk_at p Broken = [(p, LFail)]"
| "walk_at p (Dir cs) =
     (if p \<noteq> [] \<and> last p \<in> set skipDir then []
      else concat (map (\<lambda>(n, c). walk_at (p @ [n]) c) cs))"

abbreviation walk :: "node \<Rightarrow> (string list \<times> leaf) list" where
  "walk root \<equiv> walk_at [] root"

text \<open>\<^verbatim>\<open>filepath.Rel(root, p)\<close>; the root relative to itself is \<^verbatim>\<open>"."\<close>.\<close>

definition rel_path :: "string list \<Rightarrow> string" where
  "rel_path p = (if p = [] then ''.'' else Join p ''/'')"

subsection \<open>Well-formed trees\<close>

definition good_name :: "string \<Rightarrow> bool" where
  "good_name n \<longleftrightarrow> n \<noteq> [] \<and> n \<noteq> ''.'' \<and> n \<noteq> ''..'' \<and> CHR ''/'' \<notin> set n"

fun wf_tree :: "node \<Rightarrow> bool" where
  "wf_tree (Dir cs) \<longleftrightarrow>
     distinct (map fst cs) \<and> list_all (\<lambda>(n, c). good_name n \<and> wf_tree c) cs"
| "wf_tree _ \<longleftrightarrow> True"

lemma rel_path_inj:
  assumes "\<forall>x \<in> set p. good_name x" and "\<forall>x \<in> set q. good_name x" and "rel_path p = rel_path q"
  shows "p = q"
proof -
  have ne: "Join r ''/'' \<noteq> ''.''" if "r \<noteq> []" "\<forall>x \<in> set r. good_name x" for r
  proof
    assume "Join r ''/'' = ''.''"
    moreover have "split_on CHR ''/'' (Join r ''/'') = r"
      using that by (intro split_on_Join) (auto simp: good_name_def)
    ultimately have "r = [''.'']" by simp
    with that show False by (auto simp: good_name_def)
  qed
  show ?thesis
  proof (cases "p = [] \<or> q = []")
    case True
    with assms ne [of p] ne [of q] show ?thesis by (auto simp: rel_path_def split: if_splits)
  next
    case False
    then have "Join p ''/'' = Join q ''/''" using assms(3) by (simp add: rel_path_def)
    then have "split_on CHR ''/'' (Join p ''/'') = split_on CHR ''/'' (Join q ''/'')" by simp
    with False assms show ?thesis
      using split_on_Join [of p "CHR ''/''"] split_on_Join [of q "CHR ''/''"]
      by (auto simp: good_name_def)
  qed
qed

subsection \<open>Looking a path up\<close>

fun fs_get :: "node \<Rightarrow> string list \<Rightarrow> node option" where
  "fs_get n [] = Some n"
| "fs_get (Dir cs) (x # xs) = (case map_of cs x of None \<Rightarrow> None | Some c \<Rightarrow> fs_get c xs)"
| "fs_get _ (x # xs) = None"

fun leaf_of :: "node \<Rightarrow> leaf option" where
  "leaf_of (RegFile d m) = Some (LFile d m)"
| "leaf_of Broken = Some LFail"
| "leaf_of _ = None"

text \<open>A path the walk does not cut off: no directory on the way down is skipped.\<close>

definition unskipped :: "string list \<Rightarrow> bool" where
  "unskipped q \<longleftrightarrow> (\<forall>x \<in> set (butlast q). x \<notin> set skipDir)"

lemma unskipped_Nil [simp]: "unskipped []"
  by (simp add: unskipped_def)

lemma unskipped_Cons:
  "unskipped (x # xs) \<longleftrightarrow> xs = [] \<or> x \<notin> set skipDir \<and> unskipped xs"
  by (auto simp: unskipped_def)

lemma walk_at_prefix: "(r, l) \<in> set (walk_at p n) \<Longrightarrow> \<exists>q. r = p @ q"
proof (induction p n rule: walk_at.induct)
  case (4 p cs)
  then show ?case by (fastforce split: if_splits)
qed auto

lemma walk_at_Dir_iff:
  "(r, l) \<in> set (walk_at p (Dir cs)) \<longleftrightarrow>
     (p \<noteq> [] \<longrightarrow> last p \<notin> set skipDir) \<and> (\<exists>(x, c) \<in> set cs. (r, l) \<in> set (walk_at (p @ [x]) c))"
  by auto

lemma walk_at_iff:
  "wf_tree n \<Longrightarrow> (p @ q, l) \<in> set (walk_at p n) \<longleftrightarrow>
     (\<exists>c. fs_get n q = Some c \<and> leaf_of c = Some l) \<and>
     (q \<noteq> [] \<longrightarrow> (p \<noteq> [] \<longrightarrow> last p \<notin> set skipDir) \<and> unskipped q)"
proof (induction n arbitrary: p q)
  case (Dir cs)
  have dist: "distinct (map fst cs)" and wf: "\<And>m c. (m, c) \<in> set cs \<Longrightarrow> wf_tree c"
    using Dir.prems by (auto simp: list_all_iff)
  show ?case
  proof (cases q)
    case Nil
    have "(p, l) \<notin> set (walk_at (p @ [x]) c)" for x c
      using walk_at_prefix [of p l "p @ [x]" c] by auto
    with Nil show ?thesis by (auto simp: walk_at_Dir_iff simp del: walk_at.simps)
  next
    case (Cons x xs)
    have "(p @ q, l) \<in> set (walk_at (p @ [m]) c) \<Longrightarrow> m = x" for m c
      using walk_at_prefix [of "p @ q" l "p @ [m]" c] Cons by auto
    then have "(p @ q, l) \<in> set (walk_at p (Dir cs)) \<longleftrightarrow>
        (p \<noteq> [] \<longrightarrow> last p \<notin> set skipDir) \<and>
        (\<exists>c. (x, c) \<in> set cs \<and> (p @ q, l) \<in> set (walk_at (p @ [x]) c))"
      unfolding walk_at_Dir_iff by blast
    also have "(\<exists>c. (x, c) \<in> set cs \<and> (p @ q, l) \<in> set (walk_at (p @ [x]) c)) \<longleftrightarrow>
        (\<exists>c. map_of cs x = Some c \<and> (\<exists>d. fs_get c xs = Some d \<and> leaf_of d = Some l) \<and>
          (xs \<noteq> [] \<longrightarrow> x \<notin> set skipDir \<and> unskipped xs))"
    proof (rule ex_cong1)
      fix c
      have "(x, c) \<in> set cs \<longleftrightarrow> map_of cs x = Some c"
        using dist by (metis map_of_is_SomeI map_of_SomeD)
      moreover have "((p @ [x]) @ xs, l) \<in> set (walk_at (p @ [x]) c) \<longleftrightarrow>
          (\<exists>d. fs_get c xs = Some d \<and> leaf_of d = Some l) \<and>
          (xs \<noteq> [] \<longrightarrow> x \<notin> set skipDir \<and> unskipped xs)" if "(x, c) \<in> set cs"
        using Dir.IH [of "(x, c)" c "p @ [x]" xs] wf [OF that] that by simp
      ultimately show "((x, c) \<in> set cs \<and> (p @ q, l) \<in> set (walk_at (p @ [x]) c)) \<longleftrightarrow>
          (map_of cs x = Some c \<and> (\<exists>d. fs_get c xs = Some d \<and> leaf_of d = Some l) \<and>
          (xs \<noteq> [] \<longrightarrow> x \<notin> set skipDir \<and> unskipped xs))"
        using Cons by auto
    qed
    finally show ?thesis
      using Cons by (auto simp: unskipped_Cons split: option.splits)
  qed
next
  case (RegFile d m)
  show ?case by (cases q) auto
next
  case Special
  show ?case by (cases q) auto
next
  case Broken
  show ?case by (cases q) auto
qed

lemmas walk_iff = walk_at_iff [where p = "[]", simplified]

lemma walk_at_names:
  "wf_tree n \<Longrightarrow> (p @ q, l) \<in> set (walk_at p n) \<Longrightarrow> x \<in> set q \<Longrightarrow> good_name x"
proof (induction n arbitrary: p q)
  case (Dir cs)
  then obtain m c where c: "(m, c) \<in> set cs" "(p @ q, l) \<in> set (walk_at (p @ [m]) c)"
    unfolding walk_at_Dir_iff by auto
  then obtain r where r: "q = m # r"
    using walk_at_prefix by fastforce
  from Dir.prems(1) c(1) have "good_name m" "wf_tree c" by (auto simp: list_all_iff)
  moreover from c r have "((p @ [m]) @ r, l) \<in> set (walk_at (p @ [m]) c)" by simp
  ultimately show ?case
    using Dir.IH [OF c(1), of c "p @ [m]" r] Dir.prems(3) r by auto
qed auto

lemma walk_at_branch: "(r, l) \<in> set (walk_at (p @ [m]) c) \<Longrightarrow> r ! length p = m"
  using walk_at_prefix [of r l "p @ [m]" c] by auto

lemma distinct_walk_at: "wf_tree n \<Longrightarrow> distinct (map fst (walk_at p n))"
proof (induction n arbitrary: p)
  case (Dir cs)
  have each: "distinct (map fst (walk_at (p @ [m]) c))" if "(m, c) \<in> set cs" for m c
    using Dir that by (fastforce simp: list_all_iff)
  have "distinct (map fst cs)" using Dir.prems by simp
  then have "distinct (concat (map (\<lambda>(m, c). map fst (walk_at (p @ [m]) c)) cs))"
    using each
  proof (induction cs)
    case (Cons a cs)
    obtain m c where a: "a = (m, c)" by fastforce
    have "set (map fst (walk_at (p @ [m]) c)) \<inter> set (map fst (walk_at (p @ [m']) c')) = {}"
      if "(m', c') \<in> set cs" for m' c'
    proof -
      have "m \<noteq> m'" using Cons.prems(1) that a by force
      then show ?thesis by (auto dest!: walk_at_branch)
    qed
    then have "set (map fst (walk_at (p @ [m]) c)) \<inter>
        set (concat (map (\<lambda>(m, c). map fst (walk_at (p @ [m]) c)) cs)) = {}"
      by (fastforce simp only: set_concat set_map)
    moreover have "distinct (concat (map (\<lambda>(m, c). map fst (walk_at (p @ [m]) c)) cs))"
      using Cons by simp
    ultimately show ?case using Cons.prems(2) a by simp
  qed simp
  then show ?case by (auto simp: map_concat comp_def case_prod_unfold)
qed auto

subsection \<open>Placing a file\<close>

text \<open>
  Setting the node at a path: \<open>None\<close> where a directory on the way is not one (\<^verbatim>\<open>ENOTDIR\<close>) or
  the destination is a directory (\<^verbatim>\<open>EISDIR\<close>). Permission bits are recorded and not enforced.
\<close>

fun insert_child :: "string \<Rightarrow> node \<Rightarrow> (string \<times> node) list \<Rightarrow> (string \<times> node) list" where
  "insert_child x c [] = [(x, c)]"
| "insert_child x c ((y, d) # cs) =
     (if x = y then (x, c) # cs
      else if x < y then (x, c) # (y, d) # cs
      else (y, d) # insert_child x c cs)"

fun fs_new :: "string list \<Rightarrow> node \<Rightarrow> node" where
  "fs_new [] f = f"
| "fs_new (x # xs) f = Dir [(x, fs_new xs f)]"

fun fs_put :: "node \<Rightarrow> string list \<Rightarrow> node \<Rightarrow> node option" where
  "fs_put (Dir cs) [] f = None"
| "fs_put n [] f = Some f"
| "fs_put (Dir cs) (x # xs) f =
     (case map_of cs x of
        None \<Rightarrow> Some (Dir (insert_child x (fs_new xs f) cs))
      | Some c \<Rightarrow> map_option (\<lambda>c'. Dir (insert_child x c' cs)) (fs_put c xs f))"
| "fs_put _ (x # xs) f = None"

text \<open>A directory tree in which every directory lists its children in strictly ascending order.\<close>

fun ordered_tree :: "node \<Rightarrow> bool" where
  "ordered_tree (Dir cs) \<longleftrightarrow>
     sorted_wrt (<) (map fst cs) \<and> list_all (\<lambda>(n, c). good_name n \<and> ordered_tree c) cs"
| "ordered_tree _ \<longleftrightarrow> True"

lemma ordered_imp_wf: "ordered_tree n \<Longrightarrow> wf_tree n"
proof (induction n)
  case (Dir cs)
  then have "sorted_wrt (<) (map fst cs)" by simp
  then have "distinct (map fst cs)" by (simp add: strict_sorted_iff)
  moreover have "list_all (\<lambda>(n, c). good_name n \<and> wf_tree c) cs"
    using Dir by (fastforce simp: list_all_iff)
  ultimately show ?case by simp
qed simp_all

lemma set_insert_child:
  "sorted_wrt (<) (map fst cs) \<Longrightarrow>
     set (insert_child x c cs) = insert (x, c) {yd \<in> set cs. fst yd \<noteq> x}"
  by (induction x c cs rule: insert_child.induct) auto

lemma fst_insert_child: "fst ` set (insert_child x c cs) = insert x (fst ` set cs)"
  by (induction x c cs rule: insert_child.induct) auto

lemma sorted_insert_child:
  "sorted_wrt (<) (map fst cs) \<Longrightarrow> sorted_wrt (<) (map fst (insert_child x c cs))"
proof (induction x c cs rule: insert_child.induct)
  case (2 x c y d cs)
  have "fst z > y" if "z \<in> set (insert_child x c cs)" "x > y" for z
    using that 2 fst_insert_child [of x c cs] by force
  with 2 show ?case by auto
qed simp

lemma map_of_insert_child:
  "map_of (insert_child x c cs) y = (if y = x then Some c else map_of cs y)"
  by (induction x c cs rule: insert_child.induct) auto

lemma ordered_fs_new:
  "\<forall>x \<in> set q. good_name x \<Longrightarrow> ordered_tree f \<Longrightarrow> ordered_tree (fs_new q f)"
  by (induction q) auto

lemma ordered_fs_put:
  "ordered_tree n \<Longrightarrow> \<forall>x \<in> set q. good_name x \<Longrightarrow> ordered_tree f \<Longrightarrow> fs_put n q f = Some n' \<Longrightarrow>
     ordered_tree n'"
proof (induction n q f arbitrary: n' rule: fs_put.induct)
  case (3 cs x xs f)
  have ins: "ordered_tree (Dir (insert_child x c cs))" if "ordered_tree c" for c
    using "3.prems"(1,2) that by (auto simp: list_all_iff sorted_insert_child set_insert_child)
  show ?case
  proof (cases "map_of cs x")
    case None
    with "3.prems" ins ordered_fs_new [of xs f] show ?thesis by auto
  next
    case (Some c)
    with "3.prems" obtain c' where c': "fs_put c xs f = Some c'" "n' = Dir (insert_child x c' cs)"
      by auto
    have "ordered_tree c"
      using Some "3.prems"(1) by (auto simp: list_all_iff dest!: map_of_SomeD)
    with "3.IH" Some c'(1) "3.prems" have "ordered_tree c'" by auto
    with ins c'(2) show ?thesis by simp
  qed
qed auto

lemma fs_get_fs_new: "fs_get (fs_new q f) q = Some f"
  by (induction q) auto

lemma fs_get_fs_put_same: "fs_put n q f = Some n' \<Longrightarrow> fs_get n' q = Some f"
  by (induction n q f arbitrary: n' rule: fs_put.induct)
    (auto simp: map_of_insert_child fs_get_fs_new split: option.splits)

definition leaf_at :: "node \<Rightarrow> string list \<Rightarrow> leaf option" where
  "leaf_at n q = Option.bind (fs_get n q) leaf_of"

lemma leaf_at_iff: "leaf_at n q = Some l \<longleftrightarrow> (\<exists>c. fs_get n q = Some c \<and> leaf_of c = Some l)"
  by (auto simp: leaf_at_def bind_eq_Some_conv)

lemma leaf_at_Dir:
  "leaf_at (Dir cs) [] = None"
  "leaf_at (Dir cs) (x # r) = (case map_of cs x of None \<Rightarrow> None | Some c \<Rightarrow> leaf_at c r)"
  by (auto simp: leaf_at_def split: option.splits)

lemma leaf_at_leaf: "leaf_at (RegFile d m) r = (if r = [] then Some (LFile d m) else None)"
  by (cases r) (auto simp: leaf_at_def)

lemma leaf_at_nondir: "leaf_at Special r = None" "leaf_at Broken r = (if r = [] then Some LFail else None)"
  by (cases r; simp add: leaf_at_def)+

lemma leaf_at_fs_new:
  "leaf_at (fs_new q (RegFile d m)) r = (if r = q then Some (LFile d m) else None)"
proof (induction q arbitrary: r)
  case (Cons x q)
  then show ?case by (cases r) (auto simp: leaf_at_Dir)
qed (simp add: leaf_at_leaf)

lemma leaf_at_fs_put:
  "fs_put n q (RegFile d m) = Some n' \<Longrightarrow>
     leaf_at n' r = (if r = q then Some (LFile d m) else leaf_at n r)"
proof (induction n q "RegFile d m" arbitrary: n' r rule: fs_put.induct)
  case (3 cs x xs)
  show ?case
  proof (cases r)
    case Nil
    with 3 show ?thesis by (auto simp: leaf_at_Dir split: option.splits)
  next
    case (Cons y ys)
    with 3 show ?thesis
      by (auto simp: leaf_at_Dir map_of_insert_child leaf_at_fs_new split: option.splits)
  qed
qed (auto simp: leaf_at_leaf leaf_at_nondir)

fun is_dir :: "node \<Rightarrow> bool" where
  "is_dir (Dir _) = True"
| "is_dir _ = False"

lemma fs_get_nondir: "\<not> is_dir t \<Longrightarrow> fs_get t (x # xs) = None"
  by (cases t) auto

text \<open>
  Files placed one by one from a tree never collide: a partial copy has a directory exactly
  where the tree has one.
\<close>

definition fits :: "node \<Rightarrow> node \<Rightarrow> bool" where
  "fits n t \<longleftrightarrow> (\<forall>r c. fs_get n r = Some c \<longrightarrow> (\<exists>c'. fs_get t r = Some c' \<and> is_dir c = is_dir c'))"

lemma fits_is_dir: "fits n t \<Longrightarrow> is_dir n = is_dir t"
  by (auto simp: fits_def dest!: spec [of _ "[]"])

lemma fits_leaf: "\<not> is_dir n \<Longrightarrow> fits n t \<longleftrightarrow> \<not> is_dir t"
proof
  assume "\<not> is_dir n" "\<not> is_dir t"
  then show "fits n t"
    unfolding fits_def by (metis fs_get.simps(1) fs_get.elims is_dir.simps(1) option.distinct(1) option.inject)
qed (auto dest: fits_is_dir)

lemma fits_Dir:
  "fits (Dir cs) (Dir ts) \<longleftrightarrow>
     (\<forall>x c. map_of cs x = Some c \<longrightarrow> (\<exists>t. map_of ts x = Some t \<and> fits c t))"
proof
  assume fits: "fits (Dir cs) (Dir ts)"
  show "\<forall>x c. map_of cs x = Some c \<longrightarrow> (\<exists>t. map_of ts x = Some t \<and> fits c t)"
  proof (intro allI impI)
    fix x c assume x: "map_of cs x = Some c"
    have step: "\<exists>c'. fs_get (Dir ts) (x # r) = Some c' \<and> is_dir d = is_dir c'" if "fs_get c r = Some d" for r d
      using fits x that by (auto simp: fits_def dest!: spec [of _ "x # r"])
    obtain t where t: "map_of ts x = Some t"
      using step [of "[]" c] by (auto split: option.splits)
    with step have "fits c t" by (auto simp: fits_def)
    with t show "\<exists>t. map_of ts x = Some t \<and> fits c t" by blast
  qed
next
  assume sub: "\<forall>x c. map_of cs x = Some c \<longrightarrow> (\<exists>t. map_of ts x = Some t \<and> fits c t)"
  show "fits (Dir cs) (Dir ts)"
    unfolding fits_def
  proof (intro allI impI)
    fix r c assume "fs_get (Dir cs) r = Some c"
    with sub show "\<exists>c'. fs_get (Dir ts) r = Some c' \<and> is_dir c = is_dir c'"
      by (cases r) (fastforce simp: fits_def split: option.splits)+
  qed
qed

lemma fits_fs_new:
  "fs_get t q = Some c \<Longrightarrow> \<not> is_dir c \<Longrightarrow> \<not> is_dir f \<Longrightarrow> fits (fs_new q f) t"
proof (induction q arbitrary: t)
  case (Cons x q)
  then obtain ts where "t = Dir ts" by (cases t) auto
  with Cons show ?case by (auto simp: fits_Dir split: option.splits)
qed (auto simp: fits_leaf)

lemma fs_put_fits:
  "fits n t \<Longrightarrow> fs_get t q = Some c \<Longrightarrow> \<not> is_dir c \<Longrightarrow> \<not> is_dir f \<Longrightarrow>
     \<exists>n'. fs_put n q f = Some n' \<and> fits n' t"
proof (induction n q f arbitrary: t rule: fs_put.induct)
  case (3 cs x xs f)
  then obtain ts where t: "t = Dir ts" by (cases t) auto
  obtain u where u: "map_of ts x = Some u" "fs_get u xs = Some c"
    using "3.prems"(2) t by (auto split: option.splits)
  have ins: "fits (Dir (insert_child x d cs)) (Dir ts)" if "fits d u" for d
    using "3.prems"(1) t that u(1) by (auto simp: fits_Dir map_of_insert_child)
  show ?case
  proof (cases "map_of cs x")
    case None
    with u ins "3.prems"(3,4) t fits_fs_new [of u xs c f] show ?thesis by auto
  next
    case (Some d)
    with "3.prems"(1) t u have "fits d u" by (fastforce simp: fits_Dir)
    with "3.IH" [OF Some _ u(2)] "3.prems"(3,4) obtain d' where "fs_put d xs f = Some d'" "fits d' u"
      by auto
    with Some ins t show ?thesis by auto
  qed
qed (use fits_is_dir in \<open>fastforce simp: fits_leaf fs_get_nondir\<close>)+

subsection \<open>Creating the directories on the way\<close>

fun fs_mkdir :: "node \<Rightarrow> string list \<Rightarrow> node option" where
  "fs_mkdir (Dir cs) [] = Some (Dir cs)"
| "fs_mkdir n [] = None"
| "fs_mkdir (Dir cs) (x # xs) =
     (case map_of cs x of
        None \<Rightarrow> Some (Dir (insert_child x (fs_new xs (Dir [])) cs))
      | Some c \<Rightarrow> map_option (\<lambda>c'. Dir (insert_child x c' cs)) (fs_mkdir c xs))"
| "fs_mkdir _ (x # xs) = None"

lemma leaf_at_fs_new_dir: "leaf_at (fs_new q (Dir [])) r = None"
proof (induction q arbitrary: r)
  case Nil
  show ?case by (cases r) (auto simp: leaf_at_Dir)
next
  case (Cons x q)
  then show ?case by (cases r) (auto simp: leaf_at_Dir)
qed

lemma leaf_at_fs_mkdir: "fs_mkdir n q = Some n' \<Longrightarrow> leaf_at n' r = leaf_at n r"
proof (induction n q arbitrary: n' r rule: fs_mkdir.induct)
  case (3 cs x xs)
  show ?case
  proof (cases r)
    case Nil
    with 3 show ?thesis by (auto simp: leaf_at_Dir split: option.splits)
  next
    case (Cons y ys)
    with 3 show ?thesis
      by (auto simp: leaf_at_Dir map_of_insert_child leaf_at_fs_new_dir split: option.splits)
  qed
qed auto

lemma ordered_fs_mkdir:
  "ordered_tree n \<Longrightarrow> \<forall>x \<in> set q. good_name x \<Longrightarrow> fs_mkdir n q = Some n' \<Longrightarrow> ordered_tree n'"
proof (induction n q arbitrary: n' rule: fs_mkdir.induct)
  case (3 cs x xs)
  have ins: "ordered_tree (Dir (insert_child x c cs))" if "ordered_tree c" for c
    using "3.prems"(1,2) that by (auto simp: list_all_iff sorted_insert_child set_insert_child)
  show ?case
  proof (cases "map_of cs x")
    case None
    with "3.prems" ins ordered_fs_new [of xs "Dir []"] show ?thesis by auto
  next
    case (Some c)
    with "3.prems" obtain c' where c': "fs_mkdir c xs = Some c'" "n' = Dir (insert_child x c' cs)"
      by auto
    have "ordered_tree c"
      using Some "3.prems"(1) by (auto simp: list_all_iff dest!: map_of_SomeD)
    with "3.IH" Some c'(1) "3.prems" have "ordered_tree c'" by auto
    with ins c'(2) show ?thesis by simp
  qed
qed auto

lemma fits_fs_new_dir: "fs_get t q = Some c \<Longrightarrow> is_dir c \<Longrightarrow> fits (fs_new q (Dir [])) t"
proof (induction q arbitrary: t)
  case Nil
  then obtain ts where "t = Dir ts" by (cases t) auto
  then show ?case by (simp add: fits_Dir)
next
  case (Cons x q)
  then obtain ts where "t = Dir ts" by (cases t) auto
  with Cons show ?case by (auto simp: fits_Dir split: option.splits)
qed

lemma fs_mkdir_fits:
  "fits n t \<Longrightarrow> fs_get t q = Some c \<Longrightarrow> is_dir c \<Longrightarrow> \<exists>n'. fs_mkdir n q = Some n' \<and> fits n' t"
proof (induction n q arbitrary: t rule: fs_mkdir.induct)
  case (3 cs x xs)
  then obtain ts where t: "t = Dir ts" by (cases t) auto
  obtain u where u: "map_of ts x = Some u" "fs_get u xs = Some c"
    using "3.prems"(2) t by (auto split: option.splits)
  have ins: "fits (Dir (insert_child x d cs)) (Dir ts)" if "fits d u" for d
    using "3.prems"(1) t that u(1) by (auto simp: fits_Dir map_of_insert_child)
  show ?case
  proof (cases "map_of cs x")
    case None
    with u ins "3.prems"(3) t fits_fs_new_dir [of u xs c] show ?thesis by auto
  next
    case (Some d)
    with "3.prems"(1) t u have "fits d u" by (fastforce simp: fits_Dir)
    with "3.IH" [OF Some _ u(2)] "3.prems"(3) obtain d' where "fs_mkdir d xs = Some d'" "fits d' u"
      by auto
    with Some ins t show ?thesis by auto
  qed
qed (use fits_is_dir in \<open>fastforce simp: fits_leaf fs_get_nondir\<close>)+

lemma fs_get_butlast_dir: "fs_get t q = Some c \<Longrightarrow> q \<noteq> [] \<Longrightarrow> \<exists>d. fs_get t (butlast q) = Some d \<and> is_dir d"
proof (induction t q rule: fs_get.induct)
  case (2 cs x xs)
  then show ?case by (auto split: option.splits if_splits)
qed auto

subsection \<open>Writing beside the destination and renaming\<close>

fun remove_child :: "string \<Rightarrow> (string \<times> node) list \<Rightarrow> (string \<times> node) list" where
  "remove_child x [] = []"
| "remove_child x ((y, d) # cs) = (if x = y then cs else (y, d) # remove_child x cs)"

fun fs_del :: "node \<Rightarrow> string list \<Rightarrow> node" where
  "fs_del (Dir cs) [x] = Dir (remove_child x cs)"
| "fs_del (Dir cs) (x # y # ys) =
     (case map_of cs x of None \<Rightarrow> Dir cs | Some c \<Rightarrow> Dir (insert_child x (fs_del c (y # ys)) cs))"
| "fs_del n _ = n"

text \<open>
  \<^verbatim>\<open>os.WriteFile\<close>: an existing file keeps its mode, and a link is written through, which changes
  nothing at this path.
\<close>

definition write_file :: "node \<Rightarrow> string list \<Rightarrow> bytes \<Rightarrow> file_mode \<Rightarrow> node option" where
  "write_file n p d mode =
     (case fs_get n p of
        None \<Rightarrow> fs_put n p (RegFile d mode)
      | Some (RegFile _ mode0) \<Rightarrow> fs_put n p (RegFile d mode0)
      | Some Special \<Rightarrow> Some n
      | Some _ \<Rightarrow> None)"

definition ws_tmp :: "string list \<Rightarrow> string list" where
  "ws_tmp q = butlast q @ [last q @ ''.ws-tmp'']"

text \<open>The file as it lands: the temporary name is written, then renamed over the destination.\<close>

definition place_file :: "node \<Rightarrow> string list \<Rightarrow> bytes \<Rightarrow> file_mode \<Rightarrow> bool \<times> node" where
  "place_file n q d mode =
     (if q = [] then (False, n)
      else case write_file n (ws_tmp q) d mode of
        None \<Rightarrow> (False, n)
      | Some n1 \<Rightarrow> (case fs_get n1 (ws_tmp q) of
          None \<Rightarrow> (False, n1)
        | Some f \<Rightarrow> (case fs_put (fs_del n1 (ws_tmp q)) q f of
            None \<Rightarrow> (False, n1)
          | Some n2 \<Rightarrow> (True, n2))))"

lemma remove_insert_child:
  "map_of cs x = None \<Longrightarrow> remove_child x (insert_child x c cs) = cs"
  by (induction x c cs rule: insert_child.induct) (auto split: if_splits)

lemma insert_insert_child:
  "sorted_wrt (<) (map fst cs) \<Longrightarrow> map_of cs x = Some c \<Longrightarrow> insert_child x c (insert_child x d cs) = cs"
  by (induction x d cs rule: insert_child.induct) (auto dest!: map_of_SomeD split: if_splits)

lemma fs_del_fs_put:
  "ordered_tree n \<Longrightarrow> fs_get n p = Some (Dir ds) \<Longrightarrow> fs_get n (p @ [x]) = None \<Longrightarrow>
     \<exists>n'. fs_put n (p @ [x]) f = Some n' \<and> fs_del n' (p @ [x]) = n"
proof (induction p arbitrary: n)
  case Nil
  then show ?case by (auto simp: remove_insert_child split: option.splits)
next
  case (Cons y p)
  then obtain cs c where n: "n = Dir cs" and c: "map_of cs y = Some c"
    by (cases n) (auto split: option.splits)
  then have ord: "ordered_tree c" "sorted_wrt (<) (map fst cs)"
    using Cons.prems(1) by (auto simp: list_all_iff dest!: map_of_SomeD)
  with Cons n c obtain c' where c': "fs_put c (p @ [x]) f = Some c'" "fs_del c' (p @ [x]) = c"
    by fastforce
  obtain z zs where px: "p @ [x] = z # zs" by (cases "p @ [x]") auto
  from c' show ?case
    using n c ord(2) by (simp add: px map_of_insert_child insert_insert_child)
qed

text \<open>With the temporary name free, the two steps amount to setting the node.\<close>

lemma place_file_fresh:
  assumes "ordered_tree n" "q \<noteq> []" "fs_get n (butlast q) = Some (Dir ds)" "fs_get n (ws_tmp q) = None"
    and "fs_put n q (RegFile d m) = Some n'"
  shows "place_file n q d m = (True, n')"
proof -
  obtain n1 where "fs_put n (ws_tmp q) (RegFile d m) = Some n1" "fs_del n1 (ws_tmp q) = n"
    using fs_del_fs_put [OF assms(1,3), of "last q @ ''.ws-tmp''"] assms(4) by (auto simp: ws_tmp_def)
  with assms show ?thesis
    by (simp add: place_file_def write_file_def fs_get_fs_put_same)
qed

subsection \<open>The components of a path: filepath.Join with the root\<close>

text \<open>
  \<^verbatim>\<open>filepath.Join(root, path)\<close> cleans its result. A path that climbs above the root names no
  node of the tree; the walk writes none.
\<close>

definition path_step :: "string list \<Rightarrow> string \<Rightarrow> string list" where
  "path_step acc x = (if x = [] \<or> x = ''.'' then acc else if x = ''..'' then butlast acc else acc @ [x])"

definition path_components :: "string \<Rightarrow> string list" where
  "path_components s = foldl path_step [] (split_on CHR ''/'' s)"

lemma foldl_path_step: "\<forall>x \<in> set q. good_name x \<Longrightarrow> foldl path_step acc q = acc @ q"
  by (induction q arbitrary: acc) (auto simp: path_step_def good_name_def)

lemma path_components_rel: "\<forall>x \<in> set q. good_name x \<Longrightarrow> path_components (rel_path q) = q"
proof (cases "q = []")
  case True
  then show ?thesis by (simp add: path_components_def rel_path_def path_step_def)
next
  case False
  assume "\<forall>x \<in> set q. good_name x"
  with False show ?thesis
    using split_on_Join [of q "CHR ''/''"]
    by (auto simp: path_components_def rel_path_def foldl_path_step good_name_def)
qed

end
