(* ===== verification/Object_Store.thy ===== *)
theory Object_Store
  imports File_Tree
begin

text \<open>
  The environment of \<^verbatim>\<open>operators/workspace-sync/internal/store\<close>: the object-storage client
  (minio-go) and the few external functions the package calls. None of them is code of this
  repository, so each is a parameter of the definitions that call it, gathered in the records
  \<open>s3\<close> and \<open>gosys\<close>; \<open>s3_ok\<close> and \<open>json_ok\<close> state the documented behaviour the package relies on.
\<close>

type_synonym key = string

text \<open>The content of the bucket: what a reader that reaches the storage would find.\<close>

type_synonym bucket = "key \<rightharpoonup> bytes"

text \<open>\<^verbatim>\<open>minio.ToErrorResponse(err).Code\<close>: the code distinguishes only a missing key.\<close>

datatype s3err = NoSuchKey | S3Other string

record s3 =
  s3_get :: "bucket \<Rightarrow> key \<Rightarrow> (s3err, bytes) result"
  s3_stat :: "bucket \<Rightarrow> key \<Rightarrow> s3err option"
  s3_put :: "bucket \<Rightarrow> key \<Rightarrow> bytes \<Rightarrow> s3err option \<times> bucket"
  s3_remove :: "bucket \<Rightarrow> key \<Rightarrow> s3err option \<times> bucket"
  s3_list :: "bucket \<Rightarrow> string \<Rightarrow> key list \<times> s3err option"

text \<open>
  What S3 documents of these calls: a read that succeeds returns the stored bytes and a
  \<^verbatim>\<open>NoSuchKey\<close> answer means the key is absent; a write or a removal that succeeds took effect, and
  one that fails either took effect or did nothing; a listing names stored keys below the prefix,
  each once, and all of them when it ends without an error. Any call may fail at any time.
\<close>

definition s3_ok :: "s3 \<Rightarrow> bool" where
  "s3_ok c \<longleftrightarrow>
     (\<forall>b k v. s3_get c b k = Inr v \<longrightarrow> b k = Some v) \<and>
     (\<forall>b k. s3_get c b k = Inl NoSuchKey \<longrightarrow> b k = None) \<and>
     (\<forall>b k. s3_stat c b k = None \<longrightarrow> b k \<noteq> None) \<and>
     (\<forall>b k. s3_stat c b k = Some NoSuchKey \<longrightarrow> b k = None) \<and>
     (\<forall>b k v b'. s3_put c b k v = (None, b') \<longrightarrow> b' = b(k \<mapsto> v)) \<and>
     (\<forall>b k v e b'. s3_put c b k v = (Some e, b') \<longrightarrow> b' = b \<or> b' = b(k \<mapsto> v)) \<and>
     (\<forall>b k b'. s3_remove c b k = (None, b') \<longrightarrow> b' = b(k := None)) \<and>
     (\<forall>b k e b'. s3_remove c b k = (Some e, b') \<longrightarrow> b' = b \<or> b' = b(k := None)) \<and>
     (\<forall>b p ks e. s3_list c b p = (ks, e) \<longrightarrow> distinct ks \<and>
        set ks \<subseteq> {k. b k \<noteq> None \<and> HasPrefix k p}) \<and>
     (\<forall>b p ks. s3_list c b p = (ks, None) \<longrightarrow> set ks = {k. b k \<noteq> None \<and> HasPrefix k p})"

lemma s3_getD:
  assumes "s3_ok c"
  shows "s3_get c b k = Inr v \<Longrightarrow> b k = Some v"
    and "s3_get c b k = Inl NoSuchKey \<Longrightarrow> b k = None"
  using assms by (auto simp: s3_ok_def)

lemma s3_statD:
  assumes "s3_ok c"
  shows "s3_stat c b k = None \<Longrightarrow> \<exists>v. b k = Some v"
    and "s3_stat c b k = Some NoSuchKey \<Longrightarrow> b k = None"
  using assms by (auto simp: s3_ok_def)

lemma s3_putD:
  assumes "s3_ok c"
  shows "s3_put c b k v = (None, b') \<Longrightarrow> b' = b(k \<mapsto> v)"
    and "s3_put c b k v = (r, b') \<Longrightarrow> b' = b \<or> b' = b(k \<mapsto> v)"
  using assms by (cases r; simp add: s3_ok_def)+

lemma s3_removeD:
  assumes "s3_ok c"
  shows "s3_remove c b k = (None, b') \<Longrightarrow> b' = b(k := None)"
    and "s3_remove c b k = (r, b') \<Longrightarrow> b' = b \<or> b' = b(k := None)"
  using assms by (cases r; simp add: s3_ok_def)+

lemma s3_listD:
  assumes "s3_ok c"
  shows "s3_list c b p = (ks, e) \<Longrightarrow> k \<in> set ks \<Longrightarrow> b k \<noteq> None \<and> HasPrefix k p"
    and "s3_list c b p = (ks, e) \<Longrightarrow> distinct ks"
    and "s3_list c b p = (ks, None) \<Longrightarrow> set ks = {k. b k \<noteq> None \<and> HasPrefix k p}"
  using assms unfolding s3_ok_def by blast+

text \<open>A storage that answers every call: no error other than a missing key.\<close>

definition s3_up :: "s3 \<Rightarrow> bool" where
  "s3_up c \<longleftrightarrow>
     (\<forall>b k. s3_get c b k = (case b k of None \<Rightarrow> Inl NoSuchKey | Some v \<Rightarrow> Inr v)) \<and>
     (\<forall>b k. s3_stat c b k = (case b k of None \<Rightarrow> Some NoSuchKey | Some v \<Rightarrow> None)) \<and>
     (\<forall>b k v. s3_put c b k v = (None, b(k \<mapsto> v))) \<and>
     (\<forall>b k. s3_remove c b k = (None, b(k := None))) \<and>
     (\<forall>b p. finite (dom b) \<longrightarrow> snd (s3_list c b p) = None)"

lemma s3_upD:
  assumes "s3_up c"
  shows "s3_get c b k = (case b k of None \<Rightarrow> Inl NoSuchKey | Some v \<Rightarrow> Inr v)"
    and "s3_stat c b k = (case b k of None \<Rightarrow> Some NoSuchKey | Some v \<Rightarrow> None)"
    and "s3_put c b k v = (None, b(k \<mapsto> v))"
    and "s3_remove c b k = (None, b(k := None))"
    and "finite (dom b) \<Longrightarrow> snd (s3_list c b p) = None"
  using assms by (simp_all add: s3_up_def)

subsection \<open>The data of the package\<close>

record entry =
  e_path :: string
  e_hash :: string
  e_mode :: file_mode
  e_size :: nat

record manifest =
  m_id :: string
  m_workspaceID :: string
  m_parent :: string
  m_name :: string
  m_description :: string
  m_trigger :: string
  m_createdAt :: int
  m_entries :: "entry list"

text \<open>
  The functions of Go's library and of the pod the package calls: SHA-256, the JSON encoding of
  a manifest with the coercion of strings to valid UTF-8 it applies, \<^verbatim>\<open>mksquashfs\<close> (an image of
  a tree, or a failure), the umask of the process.
\<close>

record gosys =
  sha256 :: "bytes \<Rightarrow> bytes"
  json_marshal :: "manifest \<Rightarrow> bytes"
  json_decode :: "bytes \<Rightarrow> manifest option"
  valid_utf8 :: "string \<Rightarrow> string"
  mksquashfs :: "node \<Rightarrow> bytes option"
  umask :: file_mode

definition json_entry :: "gosys \<Rightarrow> entry \<Rightarrow> entry" where
  "json_entry sys e = e\<lparr>e_path := valid_utf8 sys (e_path e), e_hash := valid_utf8 sys (e_hash e)\<rparr>"

definition json_image :: "gosys \<Rightarrow> manifest \<Rightarrow> manifest" where
  "json_image sys m =
     m\<lparr>m_id := valid_utf8 sys (m_id m), m_workspaceID := valid_utf8 sys (m_workspaceID m),
       m_parent := valid_utf8 sys (m_parent m), m_name := valid_utf8 sys (m_name m),
       m_description := valid_utf8 sys (m_description m), m_trigger := valid_utf8 sys (m_trigger m),
       m_entries := map (json_entry sys) (m_entries m)\<rparr>"

definition ascii :: "string \<Rightarrow> bool" where
  "ascii s \<longleftrightarrow> (\<forall>c \<in> set s. of_char c < (128 :: nat))"

text \<open>
  \<^verbatim>\<open>encoding/json\<close> decodes what it encoded, with each string coerced to valid UTF-8; the
  coercion keeps an ASCII string.
\<close>

definition json_ok :: "gosys \<Rightarrow> bool" where
  "json_ok sys \<longleftrightarrow> (\<forall>m. json_decode sys (json_marshal sys m) = Some (json_image sys m)) \<and>
     (\<forall>s. ascii s \<longrightarrow> valid_utf8 sys s = s)"

lemma json_okD:
  assumes "json_ok sys"
  shows "json_decode sys (json_marshal sys m) = Some (json_image sys m)"
    and "ascii s \<Longrightarrow> valid_utf8 sys s = s"
  using assms by (auto simp: json_ok_def)

text \<open>The content address of a file: \<^verbatim>\<open>hex.EncodeToString(sha256.Sum256(data))\<close>.\<close>

definition hex_sha :: "gosys \<Rightarrow> bytes \<Rightarrow> string" where
  "hex_sha sys d = EncodeToString (sha256 sys d)"

text \<open>
  The errors the package returns, by the value or the message that tells them apart.
\<close>

datatype serr =
    ErrNotConfigured
  | ErrNoArchive
  | ErrReadOnly
  | ErrNothingToSave
  | ErrUnchanged
  | ErrConfig string
  | ErrStorage string s3err
  | ErrDecode string
  | ErrWalk string
  | ErrChecksum string
  | ErrPinMissing string s3err
  | ErrWrite string

record store =
  st_prefix :: string
  st_staging :: string
  st_keep :: int
  st_pinned :: string
  st_readOnly :: bool
  st_noArchive :: bool
  st_restoredDigest :: string
  st_pinnedCheckpoints :: "string set"
  st_workspaceID :: string

lemma ascii_EncodeToString [simp]: "ascii (EncodeToString s)"
  using EncodeToString_range by (fastforce simp: ascii_def)

lemma ascii_hex_sha [simp]: "ascii (hex_sha sys d)"
  by (simp add: hex_sha_def)

subsection \<open>Key layout\<close>

definition objectKey :: "store \<Rightarrow> string \<Rightarrow> key" where
  "objectKey s hash = st_prefix s @ ''/objects/'' @ hash"

definition manifestKey :: "store \<Rightarrow> string \<Rightarrow> key" where
  "manifestKey s cid = st_prefix s @ ''/checkpoints/'' @ cid @ ''.json''"

definition archiveKey :: "store \<Rightarrow> key" where
  "archiveKey s = st_prefix s @ ''/archive.sqsh''"

definition checkpointArchiveKey :: "store \<Rightarrow> string \<Rightarrow> key" where
  "checkpointArchiveKey s cid = st_prefix s @ ''/checkpoints/'' @ cid @ ''.sqsh''"

definition latestKey :: "store \<Rightarrow> key" where
  "latestKey s = st_prefix s @ ''/checkpoints/LATEST''"

definition pinsPrefix :: "store \<Rightarrow> string" where
  "pinsPrefix s = st_prefix s @ ''/pins/''"

lemma append_ends: "xs @ u = ys @ v \<Longrightarrow> length u = length v \<Longrightarrow> u = v"
  by simp

lemma LATEST_not_json: "''LATEST'' \<noteq> cid @ ''.json''"
proof
  assume "''LATEST'' = cid @ ''.json''"
  then have "rev ''LATEST'' = rev (cid @ ''.json'')" by simp
  then show False by simp
qed

lemma LATEST_not_sqsh: "''LATEST'' \<noteq> cid @ ''.sqsh''"
proof
  assume "''LATEST'' = cid @ ''.sqsh''"
  then have "rev ''LATEST'' = rev (cid @ ''.sqsh'')" by simp
  then show False by simp
qed

lemma json_not_sqsh: "cid @ ''.json'' \<noteq> cid' @ ''.sqsh''"
  by (auto dest: append_ends)

lemmas key_defs = objectKey_def manifestKey_def archiveKey_def checkpointArchiveKey_def latestKey_def
  pinsPrefix_def

lemma key_distinct [simp]:
  "objectKey s h \<noteq> manifestKey s cid" "manifestKey s cid \<noteq> objectKey s h"
  "objectKey s h \<noteq> latestKey s" "latestKey s \<noteq> objectKey s h"
  "objectKey s h \<noteq> archiveKey s" "archiveKey s \<noteq> objectKey s h"
  "objectKey s h \<noteq> checkpointArchiveKey s cid" "checkpointArchiveKey s cid \<noteq> objectKey s h"
  "manifestKey s cid \<noteq> latestKey s" "latestKey s \<noteq> manifestKey s cid"
  "manifestKey s cid \<noteq> archiveKey s" "archiveKey s \<noteq> manifestKey s cid"
  "manifestKey s cid \<noteq> checkpointArchiveKey s cid'" "checkpointArchiveKey s cid' \<noteq> manifestKey s cid"
  "latestKey s \<noteq> archiveKey s" "archiveKey s \<noteq> latestKey s"
  "latestKey s \<noteq> checkpointArchiveKey s cid" "checkpointArchiveKey s cid \<noteq> latestKey s"
  using LATEST_not_json LATEST_not_sqsh json_not_sqsh json_not_sqsh [symmetric]
  by (auto simp: key_defs)

lemma key_inject [simp]:
  "objectKey s h = objectKey s h' \<longleftrightarrow> h = h'"
  "manifestKey s i = manifestKey s i' \<longleftrightarrow> i = i'"
  "checkpointArchiveKey s i = checkpointArchiveKey s i' \<longleftrightarrow> i = i'"
  by (auto simp: key_defs)

end
