(* ===== verification/Checkpoint_Store.thy ===== *)
theory Checkpoint_Store
  imports Object_Store
begin

text \<open>
  The content-addressed checkpoint store, \<^verbatim>\<open>operators/workspace-sync/internal/store/store.go\<close>:
  configuration, key layout, identifiers and digests, the snapshot of a tree, retention, and
  restore. An operation takes the store, the bucket and the local tree it works on and returns
  them updated, with \<open>Inl\<close> of the error the Go function returns. The bucket after a failed
  operation is part of its result: what a half-finished snapshot or prune leaves behind is what
  the safety properties are about.
\<close>

unbundle bit_operations_syntax

subsection \<open>Configuration\<close>

record config =
  c_endpoint :: string
  c_bucket :: string
  c_accessKey :: string
  c_secretKey :: string
  c_region :: string
  c_workspaceID :: string
  c_appID :: string
  c_staging :: string
  c_keepCheckpoints :: int
  c_checkpointID :: string
  c_readOnly :: bool
  c_noArchive :: bool
  c_pinnedCheckpoints :: "string list"

definition DefaultKeepCheckpoints :: int where
  "DefaultKeepCheckpoints = 5"

definition UnboundedKeepCheckpoints :: int where
  "UnboundedKeepCheckpoints = - 1"

text \<open>\<open>splitList\<close>: blanks are dropped, so an empty variable or a trailing comma yields no entry.\<close>

definition splitList :: "string \<Rightarrow> string list" where
  "splitList v = (if TrimSpace v = [] then [] else filter (\<lambda>p. p \<noteq> []) (map TrimSpace (split_on CHR '','' v)))"

definition keep_from_env :: "string \<Rightarrow> int" where
  "keep_from_env v =
     (if v = [] then DefaultKeepCheckpoints
      else if v = ''unbounded'' then UnboundedKeepCheckpoints
      else (case Atoi v of
              Some n \<Rightarrow> if n > 0 then n else DefaultKeepCheckpoints
            | None \<Rightarrow> DefaultKeepCheckpoints))"

text \<open>\<open>FromEnv\<close> over the environment; an unset variable reads as the empty string.\<close>

definition FromEnv :: "(string \<Rightarrow> string) \<Rightarrow> (serr, config) result" where
  "FromEnv env =
     (let c = \<lparr> c_endpoint = env ''S3_ENDPOINT_URL'', c_bucket = env ''S3_BUCKET_NAME'',
                c_accessKey = env ''S3_ACCESS_KEY_ID'', c_secretKey = env ''S3_SECRET_ACCESS_KEY'',
                c_region = (if env ''S3_REGION'' = [] then ''us-east-1'' else env ''S3_REGION''),
                c_workspaceID = env ''WORKSPACE_ID'', c_appID = env ''APP_ID'',
                c_staging = (if env ''STAGING_ROOT'' = [] then ''/ws-staging'' else env ''STAGING_ROOT''),
                c_keepCheckpoints = keep_from_env (env ''KEEP_CHECKPOINTS''),
                c_checkpointID = env ''CHECKPOINT_ID'',
                c_readOnly = (env ''WORKSPACE_READ_ONLY'' = ''true''),
                c_noArchive = (env ''WORKSPACE_NO_ARCHIVE'' = ''true''),
                c_pinnedCheckpoints = splitList (env ''PINNED_CHECKPOINTS'') \<rparr>
      in if c_workspaceID c = [] then Inl (ErrConfig ''WORKSPACE_ID is required'')
         else if c_appID c = [] then Inl (ErrConfig ''APP_ID is required'')
         else if c_endpoint c = [] \<or> c_bucket c = [] \<or> c_accessKey c = [] \<or> c_secretKey c = []
              then Inl ErrNotConfigured
         else Inr c)"

text \<open>\<open>New\<close>: the part that builds the store (the client it also opens is the parameter \<open>s3\<close>).\<close>

definition New :: "config \<Rightarrow> store" where
  "New cfg =
     \<lparr> st_prefix = c_appID cfg @ ''/'' @ c_workspaceID cfg,
       st_staging = (if c_staging cfg = [] then ''/ws-staging'' else c_staging cfg),
       st_keep = (if c_keepCheckpoints cfg = 0 then DefaultKeepCheckpoints else c_keepCheckpoints cfg),
       st_pinned = c_checkpointID cfg,
       st_readOnly = c_readOnly cfg,
       st_noArchive = c_noArchive cfg,
       st_restoredDigest = [],
       st_pinnedCheckpoints = set (c_pinnedCheckpoints cfg),
       st_workspaceID = c_workspaceID cfg \<rparr>"

subsection \<open>Identifiers and digests\<close>

text \<open>
  \<open>newID\<close>: eight big-endian bytes of the time in nanoseconds, then eight bytes of a hash of the
  time and the process id, in hexadecimal.
\<close>

definition newID :: "gosys \<Rightarrow> 64 word \<Rightarrow> nat \<Rightarrow> string" where
  "newID sys now pid =
     EncodeToString (be_bytes 8 now @ take 8 (sha256 sys (Itoa (sint now) @ '' '' @ Itoa (int pid))))"

definition digest_line :: "entry \<Rightarrow> string" where
  "digest_line e =
     e_path e @ CHR 0x00 # e_hash e @ CHR 0x00 # Itoa (uint (e_mode e)) @ CHR 0x00 #
     Itoa (int (e_size e)) @ [CHR 0x0A]"

definition digest_text :: "entry list \<Rightarrow> string" where
  "digest_text es = concat (map digest_line es)"

definition manifestDigest :: "gosys \<Rightarrow> manifest \<Rightarrow> string" where
  "manifestDigest sys m = hex_sha sys (digest_text (m_entries m))"

subsection \<open>Retention: what survives\<close>

fun plan_loop :: "nat \<Rightarrow> int \<Rightarrow> string set \<Rightarrow> string list \<Rightarrow> string list \<times> string list" where
  "plan_loop i keep pinned [] = ([], [])"
| "plan_loop i keep pinned (cid # ids) =
     (let (survivors, doomed) = plan_loop (Suc i) keep pinned ids in
      if int i < keep then (cid # survivors, doomed)
      else if cid \<in> pinned then (cid # survivors, doomed)
      else (survivors, cid # doomed))"

definition planRetention :: "string list \<Rightarrow> int \<Rightarrow> string set \<Rightarrow> string list \<times> string list" where
  "planRetention newestFirst keep pinned =
     (if keep \<le> 0 then (newestFirst, []) else plan_loop 0 keep pinned newestFirst)"

subsection \<open>Listing\<close>

definition checkpoint_name :: "string \<Rightarrow> key \<Rightarrow> string option" where
  "checkpoint_name prefix k =
     (let name = TrimPrefix k prefix in
      if \<not> HasSuffix name ''.json'' then None
      else (let name = TrimSuffix name ''.json'' in if name = [] then None else Some name))"

definition ListCheckpoints :: "s3 \<Rightarrow> store \<Rightarrow> bucket \<Rightarrow> (serr, string list) result" where
  "ListCheckpoints c s b =
     (let prefix = st_prefix s @ ''/checkpoints/'' in
      case s3_list c b prefix of
        (ks, Some e) \<Rightarrow> Inl (ErrStorage ''list checkpoints'' e)
      | (ks, None) \<Rightarrow> Inr (rev (sort (List.map_filter (checkpoint_name prefix) ks))))"

text \<open>A pin marker is \<^verbatim>\<open><checkpointId>/<holder>\<close>; anything else below \<^verbatim>\<open>pins/\<close> is not one.\<close>

definition pinMarkerCheckpoint :: "string \<Rightarrow> string" where
  "pinMarkerCheckpoint rel =
     (case Cut rel CHR ''/'' of
        (cid, holder, ok) \<Rightarrow>
          if \<not> ok \<or> cid = [] \<or> holder = [] \<or> CHR ''/'' \<in> set holder then [] else cid)"

definition ListPinMarkers :: "s3 \<Rightarrow> store \<Rightarrow> bucket \<Rightarrow> (serr, string set) result" where
  "ListPinMarkers c s b =
     (case s3_list c b (pinsPrefix s) of
        (ks, Some e) \<Rightarrow> Inl (ErrStorage ''list pins'' e)
      | (ks, None) \<Rightarrow> Inr (set (filter (\<lambda>cid. cid \<noteq> [])
                          (map (\<lambda>k. pinMarkerCheckpoint (TrimPrefix k (pinsPrefix s))) ks))))"

definition GetManifest :: "gosys \<Rightarrow> s3 \<Rightarrow> store \<Rightarrow> bucket \<Rightarrow> string \<Rightarrow> (serr, manifest) result" where
  "GetManifest sys c s b cid =
     (case s3_get c b (manifestKey s cid) of
        Inl e \<Rightarrow> Inl (ErrStorage ''get manifest'' e)
      | Inr v \<Rightarrow> (case json_decode sys v of None \<Rightarrow> Inl (ErrDecode cid) | Some m \<Rightarrow> Inr m))"

subsection \<open>Prune\<close>

text \<open>First pass: surplus manifests and their archives. An archive may be absent.\<close>

fun remove_doomed :: "s3 \<Rightarrow> store \<Rightarrow> bucket \<Rightarrow> string list \<Rightarrow> serr option \<times> bucket" where
  "remove_doomed c s b [] = (None, b)"
| "remove_doomed c s b (cid # ids) =
     (case s3_remove c b (manifestKey s cid) of
        (Some e, b1) \<Rightarrow> (Some (ErrStorage ''remove manifest'' e), b1)
      | (None, b1) \<Rightarrow>
          (case s3_remove c b1 (checkpointArchiveKey s cid) of
             (_, b2) \<Rightarrow> remove_doomed c s b2 ids))"

text \<open>Mark: every hash a surviving manifest references; an unreadable manifest aborts.\<close>

fun mark_live :: "gosys \<Rightarrow> s3 \<Rightarrow> store \<Rightarrow> bucket \<Rightarrow> string list \<Rightarrow> (serr, string set) result" where
  "mark_live sys c s b [] = Inr {}"
| "mark_live sys c s b (cid # ids) =
     (case GetManifest sys c s b cid of
        Inl e \<Rightarrow> Inl e
      | Inr m \<Rightarrow> (case mark_live sys c s b ids of
                   Inl e \<Rightarrow> Inl e
                 | Inr live \<Rightarrow> Inr (set (map e_hash (m_entries m)) \<union> live)))"

text \<open>Sweep: every listed object no surviving manifest references is removed.\<close>

fun sweep :: "s3 \<Rightarrow> store \<Rightarrow> bucket \<Rightarrow> string set \<Rightarrow> key list \<Rightarrow> serr option \<times> bucket" where
  "sweep c s b live [] = (None, b)"
| "sweep c s b live (k # ks) =
     (let hash = TrimPrefix k (st_prefix s @ ''/objects/'') in
      if hash = [] \<or> hash \<in> live then sweep c s b live ks
      else (case s3_remove c b k of
              (Some e, b1) \<Rightarrow> (Some (ErrStorage ''remove object'' e), b1)
            | (None, b1) \<Rightarrow> sweep c s b1 live ks))"

definition Prune :: "gosys \<Rightarrow> s3 \<Rightarrow> store \<Rightarrow> bucket \<Rightarrow> serr option \<times> bucket" where
  "Prune sys c s b =
     (if st_readOnly s then (Some ErrReadOnly, b)
      else case ListCheckpoints c s b of
        Inl e \<Rightarrow> (Some e, b)
      | Inr all \<Rightarrow> (case ListPinMarkers c s b of
          Inl e \<Rightarrow> (Some e, b)
        | Inr marked \<Rightarrow>
            (let (ids, doomed) = planRetention all (st_keep s) (st_pinnedCheckpoints s \<union> marked) in
             case remove_doomed c s b doomed of
               (Some e, b1) \<Rightarrow> (Some e, b1)
             | (None, b1) \<Rightarrow> (case mark_live sys c s b1 ids of
                 Inl e \<Rightarrow> (Some e, b1)
               | Inr live \<Rightarrow> (case s3_list c b1 (st_prefix s @ ''/objects/'') of
                   (ks, lerr) \<Rightarrow> (case sweep c s b1 live ks of
                       (Some e, b2) \<Rightarrow> (Some e, b2)
                     | (None, b2) \<Rightarrow> (map_option (ErrStorage ''list objects'') lerr, b2)))))))"

subsection \<open>Snapshot\<close>

text \<open>\<open>putIfAbsent\<close>: whether an upload happened. A failed stat of any kind leads to an upload.\<close>

definition putIfAbsent :: "s3 \<Rightarrow> store \<Rightarrow> bucket \<Rightarrow> string \<Rightarrow> bytes \<Rightarrow> (serr, bool) result \<times> bucket" where
  "putIfAbsent c s b hash data =
     (case s3_stat c b (objectKey s hash) of
        None \<Rightarrow> (Inr False, b)
      | Some _ \<Rightarrow> (case s3_put c b (objectKey s hash) data of
                    (None, b') \<Rightarrow> (Inr True, b')
                  | (Some e, b') \<Rightarrow> (Inl (ErrStorage ''upload'' e), b')))"

text \<open>The walk of \<open>Snapshot\<close>: each file is hashed, uploaded if absent and recorded, in visiting order.\<close>

fun upload_all :: "gosys \<Rightarrow> s3 \<Rightarrow> store \<Rightarrow> bucket \<Rightarrow> (string list \<times> leaf) list
                     \<Rightarrow> (serr, entry list) result \<times> bucket" where
  "upload_all sys c s b [] = (Inr [], b)"
| "upload_all sys c s b ((p, LFail) # vs) = (Inl (ErrWalk (rel_path p)), b)"
| "upload_all sys c s b ((p, LFile d m) # vs) =
     (case putIfAbsent c s b (hex_sha sys d) d of
        (Inl e, b1) \<Rightarrow> (Inl e, b1)
      | (Inr put, b1) \<Rightarrow> (case upload_all sys c s b1 vs of
            (Inl e, b2) \<Rightarrow> (Inl e, b2)
          | (Inr es, b2) \<Rightarrow>
              (Inr (\<lparr> e_path = rel_path p, e_hash = hex_sha sys d, e_mode = m, e_size = length d \<rparr> # es), b2)))"

definition setLatest :: "s3 \<Rightarrow> store \<Rightarrow> bucket \<Rightarrow> string \<Rightarrow> serr option \<times> bucket" where
  "setLatest c s b cid =
     (case s3_put c b (latestKey s) cid of (r, b') \<Rightarrow> (map_option (ErrStorage ''put latest'') r, b'))"

definition UploadArchive :: "s3 \<Rightarrow> store \<Rightarrow> bucket \<Rightarrow> bytes \<Rightarrow> serr option \<times> bucket" where
  "UploadArchive c s b img =
     (case s3_put c b (archiveKey s) img of (r, b') \<Rightarrow> (map_option (ErrStorage ''put archive'') r, b'))"

definition UploadCheckpointArchive :: "s3 \<Rightarrow> store \<Rightarrow> bucket \<Rightarrow> string \<Rightarrow> bytes \<Rightarrow> serr option \<times> bucket" where
  "UploadCheckpointArchive c s b cid img =
     (case s3_put c b (checkpointArchiveKey s cid) img of
        (r, b') \<Rightarrow> (map_option (ErrStorage ''put checkpoint archive'') r, b'))"

text \<open>The best-effort archive phase: a failure is logged and the checkpoint stands.\<close>

definition archive_phase :: "gosys \<Rightarrow> s3 \<Rightarrow> store \<Rightarrow> bucket \<Rightarrow> node \<Rightarrow> string \<Rightarrow> bucket" where
  "archive_phase sys c s b root cid =
     (if st_noArchive s then b
      else case mksquashfs sys root of
        None \<Rightarrow> b
      | Some img \<Rightarrow> (case UploadArchive c s b img of
          (_, b1) \<Rightarrow> snd (UploadCheckpointArchive c s b1 cid img)))"

text \<open>What the caller of a snapshot supplies, with the time and process id the checkpoint is named from.\<close>

record save_args =
  sv_name :: string
  sv_desc :: string
  sv_trigger :: string
  sv_parent :: string
  sv_now :: "64 word"
  sv_pid :: nat
  sv_created :: int

definition snapshot_manifest :: "gosys \<Rightarrow> store \<Rightarrow> save_args \<Rightarrow> entry list \<Rightarrow> manifest" where
  "snapshot_manifest sys s a es =
     \<lparr> m_id = newID sys (sv_now a) (sv_pid a), m_workspaceID = st_workspaceID s, m_parent = sv_parent a,
       m_name = sv_name a, m_description = sv_desc a, m_trigger = sv_trigger a,
       m_createdAt = sv_created a, m_entries = sort_key e_path es \<rparr>"

text \<open>The durable half: the manifest is written after every object it names, the pointer after it.\<close>

definition commit_manifest :: "gosys \<Rightarrow> s3 \<Rightarrow> store \<Rightarrow> bucket \<Rightarrow> manifest \<Rightarrow> serr option \<times> bucket" where
  "commit_manifest sys c s b m =
     (case s3_put c b (manifestKey s (m_id m)) (json_marshal sys m) of
        (Some e, b1) \<Rightarrow> (Some (ErrStorage ''write manifest'' e), b1)
      | (None, b1) \<Rightarrow> setLatest c s b1 (m_id m))"

definition Snapshot :: "gosys \<Rightarrow> s3 \<Rightarrow> store \<Rightarrow> bucket \<Rightarrow> node \<Rightarrow> save_args
                          \<Rightarrow> (serr, manifest) result \<times> store \<times> bucket" where
  "Snapshot sys c s b root a =
     (if st_readOnly s then (Inl ErrReadOnly, s, b)
      else case upload_all sys c s b (walk root) of
        (Inl e, b1) \<Rightarrow> (Inl e, s, b1)
      | (Inr es, b1) \<Rightarrow>
          (let m = snapshot_manifest sys s a es; digest = manifestDigest sys m in
           if m_entries m = [] then (Inl ErrNothingToSave, s, b1)
           else if st_restoredDigest s \<noteq> [] \<and> digest = st_restoredDigest s then (Inl ErrUnchanged, s, b1)
           else case commit_manifest sys c s b1 m of
             (Some e, b2) \<Rightarrow> (Inl e, s, b2)
           | (None, b2) \<Rightarrow>
               (let s' = s\<lparr>st_restoredDigest := digest\<rparr>;
                    b3 = archive_phase sys c s' b2 root (m_id m)
                in (Inr m, s', snd (Prune sys c s' b3)))))"

subsection \<open>Restore\<close>

definition Latest :: "s3 \<Rightarrow> store \<Rightarrow> bucket \<Rightarrow> (serr, string) result" where
  "Latest c s b =
     (case s3_get c b (latestKey s) of
        Inl NoSuchKey \<Rightarrow> Inr []
      | Inl e \<Rightarrow> Inl (ErrStorage ''read latest'' e)
      | Inr v \<Rightarrow> Inr (TrimSpace v))"

definition Resolve :: "s3 \<Rightarrow> store \<Rightarrow> bucket \<Rightarrow> (serr, string) result" where
  "Resolve c s b =
     (if st_pinned s = [] then Latest c s b
      else case s3_stat c b (manifestKey s (st_pinned s)) of
             Some e \<Rightarrow> Inl (ErrPinMissing (st_pinned s) e)
           | None \<Rightarrow> Inr (st_pinned s))"

definition restore_mode :: "gosys \<Rightarrow> entry \<Rightarrow> file_mode" where
  "restore_mode sys e = (if e_mode e = 0 then 420 else e_mode e) AND NOT (umask sys)"

text \<open>
  One entry: the directories, the object, the checksum, the file. The second component is the
  tree as the step leaves it, also when it fails.
\<close>

definition restore_entry :: "gosys \<Rightarrow> s3 \<Rightarrow> store \<Rightarrow> bucket \<Rightarrow> entry \<Rightarrow> node \<Rightarrow> serr option \<times> node" where
  "restore_entry sys c s b e n =
     (let q = path_components (e_path e) in
      case fs_mkdir n (butlast q) of
        None \<Rightarrow> (Some (ErrWrite (e_path e)), n)
      | Some n1 \<Rightarrow> (case s3_get c b (objectKey s (e_hash e)) of
          Inl er \<Rightarrow> (Some (ErrStorage ''get object'' er), n1)
        | Inr data \<Rightarrow>
            if hex_sha sys data \<noteq> e_hash e then (Some (ErrChecksum (e_path e)), n1)
            else (case place_file n1 q data (restore_mode sys e) of
                    (False, n2) \<Rightarrow> (Some (ErrWrite (e_path e)), n2)
                  | (True, n2) \<Rightarrow> (None, n2))))"

fun restore_entries :: "gosys \<Rightarrow> s3 \<Rightarrow> store \<Rightarrow> bucket \<Rightarrow> entry list \<Rightarrow> node \<Rightarrow> serr option \<times> node" where
  "restore_entries sys c s b [] n = (None, n)"
| "restore_entries sys c s b (e # es) n =
     (case restore_entry sys c s b e n of
        (Some er, n1) \<Rightarrow> (Some er, n1)
      | (None, n1) \<Rightarrow> restore_entries sys c s b es n1)"

definition Restore :: "gosys \<Rightarrow> s3 \<Rightarrow> store \<Rightarrow> bucket \<Rightarrow> node \<Rightarrow> manifest \<Rightarrow> serr option \<times> store \<times> node" where
  "Restore sys c s b root m =
     (let s' = s\<lparr>st_restoredDigest := manifestDigest sys m\<rparr> in
      case restore_entries sys c s' b (m_entries m) root of (r, n) \<Rightarrow> (r, s', n))"

text \<open>Archives: a missing object is reported as \<open>ErrNoArchive\<close>, anything else as a failure.\<close>

definition downloadTo :: "s3 \<Rightarrow> bucket \<Rightarrow> key \<Rightarrow> (serr, bytes) result" where
  "downloadTo c b k =
     (case s3_stat c b k of
        Some NoSuchKey \<Rightarrow> Inl ErrNoArchive
      | Some e \<Rightarrow> Inl (ErrStorage ''stat'' e)
      | None \<Rightarrow> (case s3_get c b k of
                  Inl e \<Rightarrow> Inl (ErrStorage ''get archive'' e)
                | Inr v \<Rightarrow> Inr v))"

definition DownloadArchive :: "s3 \<Rightarrow> store \<Rightarrow> bucket \<Rightarrow> (serr, bytes) result" where
  "DownloadArchive c s b = downloadTo c b (archiveKey s)"

definition DownloadCheckpointArchive :: "s3 \<Rightarrow> store \<Rightarrow> bucket \<Rightarrow> string \<Rightarrow> (serr, bytes) result" where
  "DownloadCheckpointArchive c s b cid = downloadTo c b (checkpointArchiveKey s cid)"

definition ArchiveExists :: "s3 \<Rightarrow> store \<Rightarrow> bucket \<Rightarrow> bool" where
  "ArchiveExists c s b \<longleftrightarrow> s3_stat c b (archiveKey s) = None"

subsection \<open>The bound on one storage call\<close>

text \<open>\<open>callBudget\<close> in nanoseconds, with the wrap-around of \<^verbatim>\<open>time.Duration\<close> arithmetic.\<close>

definition callBudget :: "int \<Rightarrow> int" where
  "callBudget sz = wrap64 (60 * 10 ^ 9 + wrap64 (sgn sz * (\<bar>sz\<bar> div 2 ^ 20) * 10 ^ 9))"

end
