(* ===== verification/Mem_Storage.thy ===== *)
theory Mem_Storage
  imports Object_Store
begin

text \<open>
  A concrete environment for the checkpoint store: an object storage held in memory and a codec
  for manifests. It shows that the hypotheses of \<open>Object_Store\<close> can hold together, and the
  examples of the development run on it.
\<close>

subsection \<open>Storage in memory\<close>

definition mem_s3 :: s3 where
  "mem_s3 =
     \<lparr> s3_get = (\<lambda>b k. case b k of None \<Rightarrow> Inl NoSuchKey | Some v \<Rightarrow> Inr v),
       s3_stat = (\<lambda>b k. case b k of None \<Rightarrow> Some NoSuchKey | Some v \<Rightarrow> None),
       s3_put = (\<lambda>b k v. (None, b(k \<mapsto> v))),
       s3_remove = (\<lambda>b k. (None, b(k := None))),
       s3_list = (\<lambda>b p. if finite (dom b) then (sorted_list_of_set {k \<in> dom b. HasPrefix k p}, None)
                        else ([], Some (S3Other ''listing does not end''))) \<rparr>"

lemma mem_s3_ok: "s3_ok mem_s3"
  by (auto simp: s3_ok_def mem_s3_def split: option.splits if_splits)

lemma mem_s3_up: "s3_up mem_s3"
  by (simp add: s3_up_def mem_s3_def)

text \<open>A storage that cannot be reached: every call fails, and nothing is written.\<close>

definition down_s3 :: s3 where
  "down_s3 =
     \<lparr> s3_get = (\<lambda>b k. Inl (S3Other ''unreachable'')),
       s3_stat = (\<lambda>b k. Some (S3Other ''unreachable'')),
       s3_put = (\<lambda>b k v. (Some (S3Other ''unreachable''), b)),
       s3_remove = (\<lambda>b k. (Some (S3Other ''unreachable''), b)),
       s3_list = (\<lambda>b p. ([], Some (S3Other ''unreachable''))) \<rparr>"

lemma down_s3_ok: "s3_ok down_s3"
  by (auto simp: s3_ok_def down_s3_def)

subsection \<open>A codec for manifests\<close>

fun enc_str :: "string \<Rightarrow> string" where
  "enc_str [] = [CHR 0x00]"
| "enc_str (c # s) = CHR 0x01 # c # enc_str s"

fun dec_str :: "string \<Rightarrow> string \<times> string" where
  "dec_str (CHR 0x01 # c # r) = (case dec_str r of (s, r') \<Rightarrow> (c # s, r'))"
| "dec_str (x # r) = ([], r)"
| "dec_str [] = ([], [])"

lemma dec_enc_str [simp]: "dec_str (enc_str s @ r) = (s, r)"
  by (induction s) auto

definition enc_int :: "int \<Rightarrow> string" where
  "enc_int n = enc_str (nat_digits (if 0 \<le> n then nat (2 * n) else nat (- 2 * n - 1)))"

definition dec_int :: "string \<Rightarrow> int \<times> string" where
  "dec_int s = (case dec_str s of (d, r) \<Rightarrow>
     (case parse_nat d of
        None \<Rightarrow> 0
      | Some k \<Rightarrow> if even k then int (k div 2) else - int ((k + 1) div 2), r))"

lemma dec_enc_int [simp]: "dec_int (enc_int n @ r) = (n, r)"
  by (auto simp: enc_int_def dec_int_def parse_nat_digits even_nat_iff nat_mult_distrib)

definition enc_entry :: "entry \<Rightarrow> string" where
  "enc_entry e = enc_str (e_path e) @ enc_str (e_hash e) @ enc_int (uint (e_mode e)) @ enc_int (int (e_size e))"

definition dec_entry :: "string \<Rightarrow> entry \<times> string" where
  "dec_entry s =
     (case dec_str s of (p, s) \<Rightarrow> case dec_str s of (h, s) \<Rightarrow>
      case dec_int s of (m, s) \<Rightarrow> case dec_int s of (z, s) \<Rightarrow>
      (\<lparr> e_path = p, e_hash = h, e_mode = word_of_int m, e_size = nat z \<rparr>, s))"

lemma dec_enc_entry [simp]: "dec_entry (enc_entry e @ r) = (e, r)"
  by (simp add: dec_entry_def enc_entry_def)

fun enc_entries :: "entry list \<Rightarrow> string" where
  "enc_entries [] = [CHR 0x00]"
| "enc_entries (e # es) = CHR 0x01 # enc_entry e @ enc_entries es"

text \<open>The first argument bounds the number of entries; the length of the text is always enough.\<close>

fun dec_entries :: "nat \<Rightarrow> string \<Rightarrow> entry list" where
  "dec_entries (Suc n) (x # s) =
     (if x = CHR 0x01 then (case dec_entry s of (e, r) \<Rightarrow> e # dec_entries n r) else [])"
| "dec_entries _ _ = []"

lemma dec_enc_entries: "length es < n \<Longrightarrow> dec_entries n (enc_entries es) = es"
proof (induction es arbitrary: n)
  case Nil
  then show ?case by (cases n) auto
next
  case (Cons e es)
  then show ?case by (cases n) auto
qed

lemma length_enc_entries: "length es < length (enc_entries es)"
  by (induction es) auto

definition enc_manifest :: "manifest \<Rightarrow> string" where
  "enc_manifest m =
     enc_str (m_id m) @ enc_str (m_workspaceID m) @ enc_str (m_parent m) @ enc_str (m_name m) @
     enc_str (m_description m) @ enc_str (m_trigger m) @ enc_int (m_createdAt m) @ enc_entries (m_entries m)"

definition dec_manifest :: "string \<Rightarrow> manifest" where
  "dec_manifest s =
     (case dec_str s of (i, s) \<Rightarrow> case dec_str s of (w, s) \<Rightarrow> case dec_str s of (p, s) \<Rightarrow>
      case dec_str s of (n, s) \<Rightarrow> case dec_str s of (d, s) \<Rightarrow> case dec_str s of (t, s) \<Rightarrow>
      case dec_int s of (c, s) \<Rightarrow>
      \<lparr> m_id = i, m_workspaceID = w, m_parent = p, m_name = n, m_description = d, m_trigger = t,
        m_createdAt = c, m_entries = dec_entries (length s) s \<rparr>)"

lemma dec_enc_manifest [simp]: "dec_manifest (enc_manifest m) = m"
  by (simp add: dec_manifest_def enc_manifest_def dec_enc_entries length_enc_entries)

text \<open>The environment of the examples; the content address of a file is its own hexadecimal text.\<close>

definition demo_sys :: gosys where
  "demo_sys =
     \<lparr> sha256 = (\<lambda>d. CHR 0x01 # d), json_marshal = enc_manifest, json_decode = (\<lambda>v. Some (dec_manifest v)),
       valid_utf8 = (\<lambda>s. s), mksquashfs = (\<lambda>n. Some ''image''), umask = 0x12 \<rparr>"

lemma json_image_demo [simp]: "json_image demo_sys m = m"
proof -
  have "json_entry demo_sys e = e" for e
    by (simp add: json_entry_def demo_sys_def)
  then show ?thesis by (simp add: json_image_def demo_sys_def map_idI)
qed

lemma demo_sys_ok: "json_ok demo_sys"
  by (simp add: json_ok_def) (simp add: demo_sys_def)

definition demo_store :: store where
  "demo_store =
     \<lparr> st_prefix = ''app/ws'', st_staging = ''/ws-staging'', st_keep = 1, st_pinned = [],
       st_readOnly = False, st_noArchive = False, st_restoredDigest = [], st_pinnedCheckpoints = {},
       st_workspaceID = ''ws'' \<rparr>"

end
