(* ===== verification/Store_Retention.thy ===== *)
theory Store_Retention
  imports Checkpoint_Store Mem_Storage
begin

text \<open>
  What the checkpoint store keeps and what it destroys: the retention plan as an abstract
  policy, the listing it is computed from, and \<^verbatim>\<open>Prune\<close>. The bucket invariant \<open>store_inv\<close> says
  that every checkpoint of the workspace is complete: its manifest decodes and each object it
  names is there with the content its name promises.
\<close>

subsection \<open>The retention policy\<close>

text \<open>
  What a retention policy owes its caller: it only sorts the checkpoints it is given into kept
  and dropped ones, in their order, and never drops one of the newest \<open>keep\<close> or a pinned one.
\<close>

locale retention_policy =
  fixes plan :: "string list \<Rightarrow> int \<Rightarrow> string set \<Rightarrow> string list \<times> string list"
  assumes split: "plan ids keep pinned = (sv, dm) \<Longrightarrow> mset sv + mset dm = mset ids"
    and recent: "plan ids keep pinned = (sv, dm) \<Longrightarrow> distinct ids \<Longrightarrow> i < length ids \<Longrightarrow>
                   int i < keep \<Longrightarrow> ids ! i \<in> set sv"
    and pins: "plan ids keep pinned = (sv, dm) \<Longrightarrow> cid \<in> set dm \<Longrightarrow> cid \<notin> pinned"
    and off: "keep \<le> 0 \<Longrightarrow> plan ids keep pinned = (ids, [])"
begin

lemma kept_or_dropped: "plan ids keep pinned = (sv, dm) \<Longrightarrow> set ids = set sv \<union> set dm"
  using split by (metis set_mset_mset set_mset_union)

lemma disjoint:
  assumes "plan ids keep pinned = (sv, dm)" and "distinct ids"
  shows "set sv \<inter> set dm = {}" and "distinct sv" and "distinct dm"
proof -
  have "mset ids = mset (sv @ dm)"
    using split [OF assms(1)] by simp
  with assms(2) have "distinct (sv @ dm)"
    using mset_eq_imp_distinct_iff by metis
  then show "set sv \<inter> set dm = {}" and "distinct sv" and "distinct dm"
    by auto
qed

text \<open>The newest checkpoint survives every policy.\<close>

lemma newest_kept:
  assumes "plan (cid # ids) keep pinned = (sv, dm)" and "distinct (cid # ids)"
  shows "cid \<in> set sv"
proof (cases "keep \<le> 0")
  case True
  with off [of keep "cid # ids" pinned] assms(1) show ?thesis by auto
next
  case False
  with recent [OF assms, of 0] show ?thesis by simp
qed

end

lemma plan_loop_mset:
  "plan_loop i keep pinned ids = (sv, dm) \<Longrightarrow> mset sv + mset dm = mset ids"
  by (induction i keep pinned ids arbitrary: sv dm rule: plan_loop.induct)
    (auto split: prod.splits if_splits)

lemma plan_loop_filter:
  "plan_loop i keep pinned ids =
     (map snd (filter (\<lambda>(j, cid). int j < keep \<or> cid \<in> pinned) (enumerate i ids)),
      map snd (filter (\<lambda>(j, cid). \<not> (int j < keep \<or> cid \<in> pinned)) (enumerate i ids)))"
  by (induction ids arbitrary: i) (auto split: prod.splits)

lemma plan_loop_doomed:
  "plan_loop i keep pinned ids = (sv, dm) \<Longrightarrow> cid \<in> set dm \<Longrightarrow> cid \<notin> pinned"
  by (auto simp: plan_loop_filter)

lemma plan_loop_recent:
  "plan_loop i keep pinned ids = (sv, dm) \<Longrightarrow> j < length ids \<Longrightarrow> int (i + j) < keep \<Longrightarrow> ids ! j \<in> set sv"
proof (induction ids arbitrary: i j sv dm)
  case (Cons x ids)
  obtain sv' dm' where rest: "plan_loop (Suc i) keep pinned ids = (sv', dm')"
    by fastforce
  show ?case
  proof (cases j)
    case 0
    with Cons.prems rest show ?thesis by (auto split: if_splits)
  next
    case (Suc k)
    with Cons.IH [OF rest, of k] Cons.prems rest show ?thesis by (auto split: if_splits)
  qed
qed simp

interpretation ret: retention_policy planRetention
  by unfold_locales
    (auto simp: planRetention_def plan_loop_mset plan_loop_doomed split: if_splits
      intro: plan_loop_recent [where i = 0, simplified])

text \<open>On a list in descending order, the index of a checkpoint counts the newer ones.\<close>

lemma plan_loop_rank:
  assumes "sorted_wrt (>) ids" and "plan_loop i keep pinned ids = (sv, dm)"
  shows "set sv = {cid \<in> set ids. int (i + card {x \<in> set ids. cid < x}) < keep \<or> cid \<in> pinned}"
  using assms
proof (induction ids arbitrary: i sv dm)
  case (Cons y ids)
  obtain sv' dm' where rest: "plan_loop (Suc i) keep pinned ids = (sv', dm')"
    by fastforce
  have sorted_tail: "sorted_wrt (>) ids"
    using Cons.prems(1) by simp
  have newer: "{x \<in> set (y # ids). cid < x} = insert y {x \<in> set ids. cid < x}" if "cid \<in> set ids" for cid
    using Cons.prems(1) that by auto
  have count: "card {x \<in> set (y # ids). cid < x} = Suc (card {x \<in> set ids. cid < x})"
    if "cid \<in> set ids" for cid
  proof -
    have "y \<notin> {x \<in> set ids. cid < x}" using Cons.prems(1) by auto
    with newer [OF that] show ?thesis by simp
  qed
  define rank where "rank cid = card {x \<in> set (y # ids). cid < x}" for cid
  have "{x \<in> set (y # ids). y < x} = {}"
    using Cons.prems(1) by auto
  then have "rank y = 0"
    by (simp only: rank_def card.empty)
  moreover have "set sv' = {cid \<in> set ids. int (i + rank cid) < keep \<or> cid \<in> pinned}"
  proof -
    have "int (Suc i + card {x \<in> set ids. cid < x}) = int (i + rank cid)" if "cid \<in> set ids" for cid
      unfolding rank_def count [OF that] by simp
    then show ?thesis
      unfolding Cons.IH [OF sorted_tail rest] by metis
  qed
  moreover have "set sv = (if int i < keep \<or> y \<in> pinned then insert y (set sv') else set sv')"
    using Cons.prems(2) rest by (clarsimp split: if_splits)
  ultimately have "set sv = {cid \<in> set (y # ids). int (i + rank cid) < keep \<or> cid \<in> pinned}"
    by (cases "int i < keep \<or> y \<in> pinned") auto
  then show ?case
    unfolding rank_def .
qed simp

subsection \<open>What a bucket holds\<close>

definition checkpoints :: "store \<Rightarrow> bucket \<Rightarrow> string set" where
  "checkpoints s b = {cid. cid \<noteq> [] \<and> b (manifestKey s cid) \<noteq> None}"

definition pin_markers :: "store \<Rightarrow> bucket \<Rightarrow> string set" where
  "pin_markers s b = {cid. cid \<noteq> [] \<and> CHR ''/'' \<notin> set cid \<and>
     (\<exists>holder. holder \<noteq> [] \<and> CHR ''/'' \<notin> set holder \<and> b (pinsPrefix s @ cid @ CHR ''/'' # holder) \<noteq> None)}"

text \<open>
  The abstract retention rule: retention is off, or fewer than \<open>keep\<close> checkpoints are newer, or
  the checkpoint is pinned by the configuration or by a marker.
\<close>

definition keeps :: "store \<Rightarrow> bucket \<Rightarrow> string \<Rightarrow> bool" where
  "keeps s b cid \<longleftrightarrow> st_keep s \<le> 0 \<or> int (card {x \<in> checkpoints s b. cid < x}) < st_keep s \<or>
     cid \<in> st_pinnedCheckpoints s \<union> pin_markers s b"

definition complete :: "gosys \<Rightarrow> store \<Rightarrow> bucket \<Rightarrow> manifest \<Rightarrow> bool" where
  "complete sys s b m \<longleftrightarrow>
     (\<forall>e \<in> set (m_entries m). \<exists>d. b (objectKey s (e_hash e)) = Some d \<and> hex_sha sys d = e_hash e)"

definition content_addressed :: "gosys \<Rightarrow> store \<Rightarrow> bucket \<Rightarrow> bool" where
  "content_addressed sys s b \<longleftrightarrow> (\<forall>h d. b (objectKey s h) = Some d \<longrightarrow> hex_sha sys d = h)"

definition store_inv :: "gosys \<Rightarrow> store \<Rightarrow> bucket \<Rightarrow> bool" where
  "store_inv sys s b \<longleftrightarrow> content_addressed sys s b \<and>
     (\<forall>cid v. cid \<noteq> [] \<longrightarrow> b (manifestKey s cid) = Some v \<longrightarrow>
        (\<exists>m. json_decode sys v = Some m \<and> complete sys s b m))"

lemma checkpoint_name_append:
  "checkpoint_name p (p @ r) = Some cid \<longleftrightarrow> cid \<noteq> [] \<and> r = cid @ ''.json''"
  by (auto simp: checkpoint_name_def Let_def HasSuffix_iff split: if_splits)

lemma checkpoint_name_iff:
  "checkpoint_name (st_prefix s @ ''/checkpoints/'') k = Some cid \<and> HasPrefix k (st_prefix s @ ''/checkpoints/'')
     \<longleftrightarrow> cid \<noteq> [] \<and> k = manifestKey s cid" (is "?L \<longleftrightarrow> ?R")
proof -
  let ?p = "st_prefix s @ ''/checkpoints/''"
  have key: "manifestKey s cid = ?p @ cid @ ''.json''"
    by (simp add: manifestKey_def)
  have "?L \<longleftrightarrow> (\<exists>r. k = ?p @ r \<and> checkpoint_name ?p (?p @ r) = Some cid)"
    unfolding HasPrefix_iff by (rule iffI; elim conjE exE; hypsubst; blast)
  also have "\<dots> \<longleftrightarrow> ?R"
    unfolding checkpoint_name_append key by blast
  finally show ?thesis .
qed

lemma set_map_filter_names:
  assumes "set ks = {k. b k \<noteq> None \<and> HasPrefix k (st_prefix s @ ''/checkpoints/'')}"
  shows "set (List.map_filter (checkpoint_name (st_prefix s @ ''/checkpoints/'')) ks) = checkpoints s b"
proof -
  let ?name = "checkpoint_name (st_prefix s @ ''/checkpoints/'')"
  have "set (List.map_filter ?name ks) = {cid. \<exists>k \<in> set ks. ?name k = Some cid}"
    by (rule set_map_filter)
  also have "\<dots> = {cid. \<exists>k. b k \<noteq> None \<and> ?name k = Some cid \<and> HasPrefix k (st_prefix s @ ''/checkpoints/'')}"
    unfolding assms by blast
  also have "\<dots> = checkpoints s b"
    unfolding checkpoint_name_iff checkpoints_def by blast
  finally show ?thesis .
qed

lemma distinct_map_filter_names:
  fixes s :: store
  assumes "distinct ks" and "\<forall>k \<in> set ks. HasPrefix k (st_prefix s @ ''/checkpoints/'')"
  shows "distinct (List.map_filter (checkpoint_name (st_prefix s @ ''/checkpoints/'')) ks)"
proof -
  let ?name = "checkpoint_name (st_prefix s @ ''/checkpoints/'')"
  have "k = k'" if "k \<in> set ks" "k' \<in> set ks" "?name k = Some cid" "?name k' = Some cid" for k k' cid
    using assms(2) that checkpoint_name_iff [of s k cid] checkpoint_name_iff [of s k' cid] by metis
  then show ?thesis
    by (rule distinct_map_filter [OF assms(1)])
qed

lemma ListCheckpoints_correct:
  assumes "s3_ok c" and "ListCheckpoints c s b = Inr ids"
  shows "set ids = checkpoints s b" and "sorted_wrt (>) ids"
proof -
  let ?p = "st_prefix s @ ''/checkpoints/''"
  obtain ks where ks: "s3_list c b ?p = (ks, None)" and
    ids: "ids = rev (sort (List.map_filter (checkpoint_name ?p) ks))"
    using assms(2) by (auto simp: ListCheckpoints_def Let_def split: prod.splits option.splits)
  note listed = s3_listD(3) [OF assms(1) ks]
  have "\<forall>k \<in> set ks. HasPrefix k ?p"
    using listed by blast
  then have dist: "distinct (List.map_filter (checkpoint_name ?p) ks)"
    by (rule distinct_map_filter_names [OF s3_listD(2) [OF assms(1) ks]])
  show "set ids = checkpoints s b"
    using set_map_filter_names [OF listed] ids by simp
  have "sorted_wrt (<) (sort (List.map_filter (checkpoint_name ?p) ks))"
    using dist by (simp add: strict_sorted_iff)
  then show "sorted_wrt (>) ids"
    using ids by (simp add: sorted_wrt_rev)
qed

lemma pinMarkerCheckpoint_iff:
  "cid \<noteq> [] \<Longrightarrow> pinMarkerCheckpoint rel = cid \<longleftrightarrow>
     CHR ''/'' \<notin> set cid \<and> (\<exists>holder. holder \<noteq> [] \<and> CHR ''/'' \<notin> set holder \<and> rel = cid @ CHR ''/'' # holder)"
  by (cases "Cut rel CHR ''/''")
    (auto simp: pinMarkerCheckpoint_def Cut_found dest!: Cut_TrueD split: if_splits prod.splits)

lemma ListPinMarkers_correct:
  assumes "s3_ok c" and "ListPinMarkers c s b = Inr P"
  shows "P = pin_markers s b"
proof -
  let ?p = "pinsPrefix s"
  obtain ks where ks: "s3_list c b ?p = (ks, None)" and
    P: "P = set (filter (\<lambda>cid. cid \<noteq> []) (map (\<lambda>k. pinMarkerCheckpoint (TrimPrefix k ?p)) ks))"
    using assms(2) by (auto simp: ListPinMarkers_def split: prod.splits option.splits)
  have listed: "k \<in> set ks \<longleftrightarrow> (\<exists>rel. k = ?p @ rel \<and> b (?p @ rel) \<noteq> None)" for k
    using s3_listD(3) [OF assms(1) ks] by (auto simp: HasPrefix_iff)
  have "cid \<in> P \<longleftrightarrow> cid \<noteq> [] \<and> (\<exists>rel. b (?p @ rel) \<noteq> None \<and> pinMarkerCheckpoint rel = cid)" for cid
    unfolding P using listed by (auto simp: image_iff) (metis TrimPrefix_append)+
  then show ?thesis
    unfolding pin_markers_def using pinMarkerCheckpoint_iff by (auto; metis)
qed

text \<open>The plan computed from a listing is the abstract rule.\<close>

lemma planRetention_keeps:
  assumes "set ids = checkpoints s b" and "sorted_wrt (>) ids"
    and "planRetention ids (st_keep s) (st_pinnedCheckpoints s \<union> pin_markers s b) = (sv, dm)"
  shows "set sv = {cid \<in> checkpoints s b. keeps s b cid}"
    and "set dm = {cid \<in> checkpoints s b. \<not> keeps s b cid}"
proof -
  show sv: "set sv = {cid \<in> checkpoints s b. keeps s b cid}"
  proof (cases "st_keep s \<le> 0")
    case True
    with assms show ?thesis by (auto simp: planRetention_def keeps_def)
  next
    case False
    with assms(3) have "plan_loop 0 (st_keep s) (st_pinnedCheckpoints s \<union> pin_markers s b) ids = (sv, dm)"
      by (simp add: planRetention_def)
    from plan_loop_rank [OF assms(2) this] False show ?thesis
      by (simp add: assms(1) keeps_def)
  qed
  have "distinct (rev ids)"
    using assms(2) strict_sorted_iff [of "rev ids"] by (simp add: sorted_wrt_rev)
  then have "set sv \<inter> set dm = {}" and "checkpoints s b = set sv \<union> set dm"
    using ret.disjoint(1) [OF assms(3)] ret.kept_or_dropped [OF assms(3)] assms(1) by auto
  then show "set dm = {cid \<in> checkpoints s b. \<not> keeps s b cid}"
    using sv by blast
qed

subsection \<open>Prune\<close>

text \<open>A bucket that lost keys of \<open>K\<close> and nothing else.\<close>

definition shrunk :: "key set \<Rightarrow> bucket \<Rightarrow> bucket \<Rightarrow> bool" where
  "shrunk K b b' \<longleftrightarrow> (\<forall>k. b' k = b k \<or> k \<in> K \<and> b' k = None)"

lemma shrunk_refl [simp]: "shrunk K b b"
  by (simp add: shrunk_def)

lemma shrunk_trans: "shrunk K b b1 \<Longrightarrow> shrunk K' b1 b2 \<Longrightarrow> K \<subseteq> L \<Longrightarrow> K' \<subseteq> L \<Longrightarrow> shrunk L b b2"
  unfolding shrunk_def by (metis subsetD)

lemma shrunk_mono: "shrunk K b b' \<Longrightarrow> K \<subseteq> L \<Longrightarrow> shrunk L b b'"
  by (auto simp: shrunk_def)

lemma shrunk_same: "shrunk K b b' \<Longrightarrow> k \<notin> K \<Longrightarrow> b' k = b k"
  by (auto simp: shrunk_def)

lemma shrunk_Some: "shrunk K b b' \<Longrightarrow> b' k = Some v \<Longrightarrow> b k = Some v"
  by (metis option.distinct(1) shrunk_def)

lemma shrunk_remove: "s3_ok c \<Longrightarrow> s3_remove c b k = (r, b') \<Longrightarrow> k \<in> K \<Longrightarrow> shrunk K b b'"
  by (drule (1) s3_removeD(2)) (auto simp: shrunk_def split: if_splits)

definition doomed_keys :: "store \<Rightarrow> string set \<Rightarrow> key set" where
  "doomed_keys s D = manifestKey s ` D \<union> checkpointArchiveKey s ` D"

lemma doomed_keys_iff [simp]:
  "manifestKey s cid \<in> doomed_keys s D \<longleftrightarrow> cid \<in> D"
  "checkpointArchiveKey s cid \<in> doomed_keys s D \<longleftrightarrow> cid \<in> D"
  "objectKey s h \<notin> doomed_keys s D"
  "latestKey s \<notin> doomed_keys s D"
  by (auto simp: doomed_keys_def)

lemma remove_doomed_shrunk:
  assumes "s3_ok c"
  shows "remove_doomed c s b ids = (r, b') \<Longrightarrow> shrunk (doomed_keys s (set ids)) b b'"
proof (induction ids arbitrary: b)
  case (Cons cid ids)
  let ?K = "doomed_keys s (set (cid # ids))"
  obtain r1 b1 where b1: "s3_remove c b (manifestKey s cid) = (r1, b1)" by fastforce
  have s1: "shrunk ?K b b1"
    by (rule shrunk_remove [OF assms b1]) simp
  show ?case
  proof (cases r1)
    case None
    obtain r2 b2 where b2: "s3_remove c b1 (checkpointArchiveKey s cid) = (r2, b2)" by fastforce
    have "shrunk ?K b1 b2"
      by (rule shrunk_remove [OF assms b2]) simp
    moreover have "shrunk (doomed_keys s (set ids)) b2 b'"
      using Cons b1 b2 None by simp
    then have "shrunk ?K b2 b'"
      by (rule shrunk_mono) (auto simp: doomed_keys_def)
    ultimately show ?thesis
      using s1 by (blast intro: shrunk_trans)
  next
    case (Some e)
    with Cons.prems b1 s1 show ?thesis by simp
  qed
qed simp

lemma remove_doomed_gone:
  assumes "s3_ok c"
  shows "remove_doomed c s b ids = (None, b') \<Longrightarrow> cid \<in> set ids \<Longrightarrow> b' (manifestKey s cid) = None"
proof (induction ids arbitrary: b)
  case (Cons x ids)
  then obtain b1 where b1: "s3_remove c b (manifestKey s x) = (None, b1)"
    by (auto split: prod.splits option.splits)
  obtain r2 b2 where b2: "s3_remove c b1 (checkpointArchiveKey s x) = (r2, b2)" by fastforce
  have rest: "remove_doomed c s b2 ids = (None, b')"
    using Cons.prems(1) b1 b2 by simp
  have gone: "b2 (manifestKey s x) = None"
    using s3_removeD(1) [OF assms b1] s3_removeD(2) [OF assms b2] by auto
  show ?case
  proof (cases "cid \<in> set ids")
    case True
    with Cons.IH rest show ?thesis by blast
  next
    case False
    with Cons.prems(2) gone remove_doomed_shrunk [OF assms rest] show ?thesis
      by (metis set_ConsD shrunk_def)
  qed
qed simp

lemma GetManifest_Inr:
  "s3_ok c \<Longrightarrow> GetManifest sys c s b cid = Inr m \<Longrightarrow>
     \<exists>v. b (manifestKey s cid) = Some v \<and> json_decode sys v = Some m"
  by (auto simp: GetManifest_def dest: s3_getD(1) split: sum.splits option.splits)

lemma mark_live_Inr:
  assumes "s3_ok c"
  shows "mark_live sys c s b ids = Inr live \<Longrightarrow>
     live = {h. \<exists>cid \<in> set ids. \<exists>v m. b (manifestKey s cid) = Some v \<and> json_decode sys v = Some m \<and>
                 h \<in> e_hash ` set (m_entries m)} \<and>
     (\<forall>cid \<in> set ids. \<exists>v m. b (manifestKey s cid) = Some v \<and> json_decode sys v = Some m)"
proof (induction ids arbitrary: live)
  case (Cons cid ids)
  then obtain m live' where m: "GetManifest sys c s b cid = Inr m" "mark_live sys c s b ids = Inr live'"
      "live = set (map e_hash (m_entries m)) \<union> live'"
    by (auto split: sum.splits)
  obtain v where v: "b (manifestKey s cid) = Some v" "json_decode sys v = Some m"
    using GetManifest_Inr [OF assms m(1)] by blast
  have "{h. \<exists>w m'. b (manifestKey s cid) = Some w \<and> json_decode sys w = Some m' \<and>
      h \<in> e_hash ` set (m_entries m')} = set (map e_hash (m_entries m))"
    using v by auto
  with Cons.IH [OF m(2)] m(3) v show ?case by auto
qed simp

text \<open>The hashes the manifests of a bucket reference.\<close>

definition referenced :: "gosys \<Rightarrow> store \<Rightarrow> bucket \<Rightarrow> string set" where
  "referenced sys s b = {h. \<exists>cid v m. cid \<noteq> [] \<and> b (manifestKey s cid) = Some v \<and>
     json_decode sys v = Some m \<and> h \<in> e_hash ` set (m_entries m)}"

definition dead_objects :: "store \<Rightarrow> string set \<Rightarrow> key set" where
  "dead_objects s live = objectKey s ` (- live)"

lemma dead_objects_iff [simp]:
  "objectKey s h \<in> dead_objects s live \<longleftrightarrow> h \<notin> live"
  "manifestKey s cid \<notin> dead_objects s live"
  "checkpointArchiveKey s cid \<notin> dead_objects s live"
  "latestKey s \<notin> dead_objects s live"
  by (auto simp: dead_objects_def)

lemma TrimPrefix_objectKey [simp]: "TrimPrefix (objectKey s h) (st_prefix s @ ''/objects/'') = h"
  using TrimPrefix_append [of "st_prefix s @ ''/objects/''" h] by (simp add: objectKey_def)

lemma HasPrefix_objects: "HasPrefix k (st_prefix s @ ''/objects/'') \<longleftrightarrow> (\<exists>h. k = objectKey s h)"
  by (simp add: HasPrefix_iff objectKey_def)

lemma sweep_shrunk:
  assumes "s3_ok c"
  shows "sweep c s b live (map (objectKey s) hs) = (r, b') \<Longrightarrow> shrunk (dead_objects s live) b b'"
proof (induction hs arbitrary: b)
  case (Cons h hs)
  show ?case
  proof (cases "h = [] \<or> h \<in> live")
    case True
    with Cons show ?thesis by simp
  next
    case False
    obtain r1 b1 where b1: "s3_remove c b (objectKey s h) = (r1, b1)" by fastforce
    have "shrunk (dead_objects s live) b b1"
      by (rule shrunk_remove [OF assms b1]) (use False in simp)
    with Cons False b1 show ?thesis
      by (cases r1) (auto intro: shrunk_trans)
  qed
qed simp

lemma sweep_gone:
  assumes "s3_ok c"
  shows "sweep c s b live (map (objectKey s) hs) = (None, b') \<Longrightarrow> h \<in> set hs \<Longrightarrow> h \<noteq> [] \<Longrightarrow> h \<notin> live \<Longrightarrow>
     b' (objectKey s h) = None"
proof (induction hs arbitrary: b)
  case (Cons x hs)
  show ?case
  proof (cases "x = [] \<or> x \<in> live")
    case True
    with Cons show ?thesis by auto
  next
    case False
    with Cons.prems(1) obtain b1 where b1: "s3_remove c b (objectKey s x) = (None, b1)"
      and rest: "sweep c s b1 live (map (objectKey s) hs) = (None, b')"
      by (auto split: prod.splits option.splits)
    from s3_removeD(1) [OF assms b1] have "b1 (objectKey s x) = None" by simp
    then have "b' (objectKey s x) = None"
      using sweep_shrunk [OF assms rest] by (metis shrunk_def)
    with Cons rest show ?thesis by auto
  qed
qed simp

lemma listed_objects:
  assumes "s3_ok c" and "s3_list c b (st_prefix s @ ''/objects/'') = (ks, e)"
  obtains hs where "ks = map (objectKey s) hs"
    and "e = None \<Longrightarrow> set hs = {h. b (objectKey s h) \<noteq> None}"
proof
  let ?hash = "\<lambda>k. TrimPrefix k (st_prefix s @ ''/objects/'')"
  have "objectKey s (?hash k) = k" if "k \<in> set ks" for k
    using s3_listD(1) [OF assms that] HasPrefix_objects [of k s] by auto
  then show ks: "ks = map (objectKey s) (map ?hash ks)"
    by (simp add: map_idI)
  show "set (map ?hash ks) = {h. b (objectKey s h) \<noteq> None}" if "e = None"
  proof -
    have "set ks = {k. b k \<noteq> None \<and> (\<exists>h. k = objectKey s h)}"
      using s3_listD(3) [OF assms(1)] assms(2) that HasPrefix_objects by simp
    then show ?thesis by (auto simp: image_iff) force
  qed
qed

text \<open>The checkpoints a prune may drop.\<close>

definition surplus :: "store \<Rightarrow> bucket \<Rightarrow> string set" where
  "surplus s b = {cid \<in> checkpoints s b. \<not> keeps s b cid}"

lemma live_is_referenced:
  assumes "s3_ok c" and "mark_live sys c s b1 sv = Inr live"
    and "set sv = checkpoints s b - surplus s b" and "shrunk (doomed_keys s (surplus s b)) b b1"
    and "\<forall>cid \<in> surplus s b. b1 (manifestKey s cid) = None"
  shows "live = referenced sys s b1"
proof -
  have "cid \<in> set sv \<longleftrightarrow> cid \<noteq> [] \<and> b1 (manifestKey s cid) \<noteq> None" for cid
    using assms(3-5) shrunk_same [OF assms(4), of "manifestKey s cid"]
    by (cases "cid \<in> surplus s b") (auto simp: checkpoints_def)
  with mark_live_Inr [OF assms(1,2)] show ?thesis
    by (auto simp: referenced_def)
qed

text \<open>
  Every outcome of a prune, in two shrinking steps: manifests and archives of surplus
  checkpoints first, then objects no remaining manifest references.
\<close>

lemma Prune_steps:
  assumes "s3_ok c" and "Prune sys c s b = (r, b')"
  obtains b1 where "shrunk (doomed_keys s (surplus s b)) b b1"
    and "shrunk (dead_objects s (referenced sys s b1)) b1 b'"
    and "r = None \<Longrightarrow> \<forall>cid \<in> surplus s b. b1 (manifestKey s cid) = None"
    and "r = None \<Longrightarrow> \<forall>h. h \<noteq> [] \<longrightarrow> b' (objectKey s h) \<noteq> None \<longrightarrow> h \<in> referenced sys s b1"
proof -
  consider (stop) e where "r = Some e" "b' = b" |
    (go) ids P where "ListCheckpoints c s b = Inr ids" "ListPinMarkers c s b = Inr P" "\<not> st_readOnly s"
    using assms(2) by (auto simp: Prune_def split: if_splits sum.splits)
  then show ?thesis
  proof cases
    case stop
    then show ?thesis using that [of b] by simp
  next
    case go
    obtain sv dm where plan: "planRetention ids (st_keep s) (st_pinnedCheckpoints s \<union> P) = (sv, dm)"
      by fastforce
    have "P = pin_markers s b"
      by (rule ListPinMarkers_correct [OF assms(1) go(2)])
    note parts = planRetention_keeps [OF ListCheckpoints_correct [OF assms(1) go(1)] plan [unfolded this]]
    have dm: "set dm = surplus s b" and sv: "set sv = checkpoints s b - surplus s b"
      using parts by (auto simp: surplus_def)
    obtain r1 b1 where rm: "remove_doomed c s b dm = (r1, b1)" by fastforce
    have s1: "shrunk (doomed_keys s (surplus s b)) b b1"
      using remove_doomed_shrunk [OF assms(1) rm] dm by simp
    show ?thesis
    proof (cases "r1 = None \<and> (\<exists>live. mark_live sys c s b1 sv = Inr live)")
      case False
      with assms(2) go plan rm have "b' = b1 \<and> r \<noteq> None"
        by (auto simp: Prune_def split: option.splits sum.splits)
      with s1 that [of b1] show ?thesis by simp
    next
      case True
      then obtain live where live: "r1 = None" "mark_live sys c s b1 sv = Inr live" by blast
      have gone: "\<forall>cid \<in> surplus s b. b1 (manifestKey s cid) = None"
        using remove_doomed_gone [OF assms(1)] rm live(1) dm by blast
      note ref = live_is_referenced [OF assms(1) live(2) sv s1 gone]
      obtain ks e where ks: "s3_list c b1 (st_prefix s @ ''/objects/'') = (ks, e)" by fastforce
      obtain hs where hs: "ks = map (objectKey s) hs" "e = None \<Longrightarrow> set hs = {h. b1 (objectKey s h) \<noteq> None}"
        using listed_objects [OF assms(1) ks] by blast
      obtain r2 b2 where sw: "sweep c s b1 live (map (objectKey s) hs) = (r2, b2)" by fastforce
      have fin: "b' = b2" "r = None \<Longrightarrow> r2 = None \<and> e = None"
        using assms(2) go plan rm live ks sw hs(1) by (auto simp: Prune_def split: option.splits)
      have s2: "shrunk (dead_objects s (referenced sys s b1)) b1 b'"
        using sweep_shrunk [OF assms(1) sw] fin(1) ref by simp
      have "h \<in> referenced sys s b1" if "r = None" "h \<noteq> []" "b' (objectKey s h) \<noteq> None" for h
      proof (rule ccontr)
        assume "h \<notin> referenced sys s b1"
        moreover have "h \<in> set hs"
          using that fin(2) hs(2) by (auto dest: shrunk_Some [OF s2])
        moreover have "sweep c s b1 live (map (objectKey s) hs) = (None, b')"
          using sw fin that(1) by simp
        ultimately show False
          using sweep_gone [OF assms(1), of s b1 live hs b' h] that(2,3) ref by simp
      qed
      with that [OF s1 s2] gone show ?thesis by blast
    qed
  qed
qed

lemma Prune_store_inv:
  assumes "s3_ok c" and "store_inv sys s b" and "Prune sys c s b = (r, b')"
  shows "store_inv sys s b'"
proof -
  from assms(1,3) obtain b1 where b1: "shrunk (doomed_keys s (surplus s b)) b b1"
      "shrunk (dead_objects s (referenced sys s b1)) b1 b'"
    by (rule Prune_steps)
  have up: "b k = Some v" if "b' k = Some v" for k v
    using that shrunk_Some b1 by blast
  have "\<exists>m. json_decode sys v = Some m \<and> complete sys s b' m"
    if cid: "cid \<noteq> []" "b' (manifestKey s cid) = Some v" for cid v
  proof -
    obtain m where m: "json_decode sys v = Some m" "complete sys s b m"
      using assms(2) cid(1) up [OF cid(2)] by (auto simp: store_inv_def)
    have "b1 (manifestKey s cid) = Some v"
      using cid(2) shrunk_Some b1(2) by blast
    with m(1) cid(1) have "e_hash e \<in> referenced sys s b1" if "e \<in> set (m_entries m)" for e
      using that by (auto simp: referenced_def)
    then have "b' (objectKey s (e_hash e)) = b (objectKey s (e_hash e))" if "e \<in> set (m_entries m)" for e
      using that shrunk_same [OF b1(2)] shrunk_same [OF b1(1)] by simp
    with m show ?thesis by (auto simp: complete_def)
  qed
  moreover have "content_addressed sys s b'"
    using assms(2) up by (auto simp: store_inv_def content_addressed_def)
  ultimately show ?thesis by (auto simp: store_inv_def)
qed

lemma Prune_keeps:
  assumes "s3_ok c" and "Prune sys c s b = (r, b')"
  shows "cid \<notin> surplus s b \<Longrightarrow> b' (manifestKey s cid) = b (manifestKey s cid)"
    and "k \<notin> doomed_keys s (surplus s b) \<Longrightarrow> \<not> HasPrefix k (st_prefix s @ ''/objects/'') \<Longrightarrow> b' k = b k"
    and "b' k \<noteq> None \<Longrightarrow> b' k = b k"
proof -
  from assms obtain b1 where b1: "shrunk (doomed_keys s (surplus s b)) b b1"
      "shrunk (dead_objects s (referenced sys s b1)) b1 b'"
    by (rule Prune_steps)
  show "b' (manifestKey s cid) = b (manifestKey s cid)" if "cid \<notin> surplus s b"
    using shrunk_same [OF b1(1), of "manifestKey s cid"] shrunk_same [OF b1(2), of "manifestKey s cid"] that
    by simp
  show "b' k = b k" if "k \<notin> doomed_keys s (surplus s b)" "\<not> HasPrefix k (st_prefix s @ ''/objects/'')"
    using shrunk_same [OF b1(1), of k] shrunk_same [OF b1(2), of k] that
    by (auto simp: dead_objects_def HasPrefix_objects)
  show "b' k = b k" if "b' k \<noteq> None"
    using that b1 by (metis shrunk_def)
qed

subsection \<open>A prune against a reachable storage succeeds\<close>

lemma remove_doomed_up: "s3_up c \<Longrightarrow> fst (remove_doomed c s b ids) = None"
  by (induction ids arbitrary: b) (auto simp: s3_upD)

lemma sweep_up: "s3_up c \<Longrightarrow> fst (sweep c s b live ks) = None"
  by (induction ks arbitrary: b) (auto simp: s3_upD Let_def)

lemma mark_live_up:
  "s3_up c \<Longrightarrow> \<forall>cid \<in> set ids. \<exists>v m. b (manifestKey s cid) = Some v \<and> json_decode sys v = Some m \<Longrightarrow>
     \<exists>live. mark_live sys c s b ids = Inr live"
proof (induction ids)
  case (Cons cid ids)
  then obtain v m live where "b (manifestKey s cid) = Some v" "json_decode sys v = Some m"
      "mark_live sys c s b ids = Inr live"
    by auto
  with Cons.prems(1) show ?case by (simp add: GetManifest_def s3_upD)
qed simp

lemma shrunk_finite: "shrunk K b b' \<Longrightarrow> finite (dom b) \<Longrightarrow> finite (dom b')"
  by (rule finite_subset [of "dom b'" "dom b"]) (auto dest: shrunk_Some)

lemma ListCheckpoints_up:
  "s3_up c \<Longrightarrow> finite (dom b) \<Longrightarrow> \<exists>ids. ListCheckpoints c s b = Inr ids"
  using s3_upD(5) [of c b "st_prefix s @ ''/checkpoints/''"]
  by (cases "s3_list c b (st_prefix s @ ''/checkpoints/'')") (simp add: ListCheckpoints_def)

lemma ListPinMarkers_up:
  "s3_up c \<Longrightarrow> finite (dom b) \<Longrightarrow> \<exists>P. ListPinMarkers c s b = Inr P"
  using s3_upD(5) [of c b "pinsPrefix s"]
  by (cases "s3_list c b (pinsPrefix s)") (simp add: ListPinMarkers_def)

lemma Prune_up:
  assumes "s3_ok c" "s3_up c" "finite (dom b)" "store_inv sys s b" "\<not> st_readOnly s"
  shows "\<exists>b'. Prune sys c s b = (None, b')"
proof -
  obtain ids P where l: "ListCheckpoints c s b = Inr ids" "ListPinMarkers c s b = Inr P"
    using ListCheckpoints_up ListPinMarkers_up assms(2,3) by blast
  obtain sv dm where plan: "planRetention ids (st_keep s) (st_pinnedCheckpoints s \<union> P) = (sv, dm)"
    by fastforce
  note parts = planRetention_keeps [OF ListCheckpoints_correct [OF assms(1) l(1)]
      plan [unfolded ListPinMarkers_correct [OF assms(1) l(2)]]]
  obtain b1 where rm: "remove_doomed c s b dm = (None, b1)"
    using remove_doomed_up [OF assms(2), of s b dm] by (cases "remove_doomed c s b dm") auto
  note s1 = remove_doomed_shrunk [OF assms(1) rm]
  have "\<exists>v m. b1 (manifestKey s cid) = Some v \<and> json_decode sys v = Some m" if "cid \<in> set sv" for cid
  proof -
    have "b1 (manifestKey s cid) = b (manifestKey s cid)"
      using that parts shrunk_same [OF s1, of "manifestKey s cid"] by auto
    with that parts assms(4) show ?thesis
      by (fastforce simp: checkpoints_def store_inv_def)
  qed
  then obtain live where live: "mark_live sys c s b1 sv = Inr live"
    using mark_live_up [OF assms(2)] by blast
  obtain ks where ks: "s3_list c b1 (st_prefix s @ ''/objects/'') = (ks, None)"
    using s3_upD(5) [OF assms(2) shrunk_finite [OF s1 assms(3)]] by (metis prod.collapse)
  obtain b2 where "sweep c s b1 live ks = (None, b2)"
    using sweep_up [OF assms(2), of s b1 live ks] by (cases "sweep c s b1 live ks") auto
  with l plan rm live ks assms(5) show ?thesis
    by (simp add: Prune_def)
qed

subsection \<open>A bucket with two checkpoints\<close>

definition demo_manifest :: "string \<Rightarrow> bytes \<Rightarrow> manifest" where
  "demo_manifest cid d =
     \<lparr> m_id = cid, m_workspaceID = ''ws'', m_parent = [], m_name = [], m_description = [], m_trigger = ''periodic'',
       m_createdAt = 0, m_entries = [\<lparr> e_path = ''f'', e_hash = hex_sha demo_sys d, e_mode = 420, e_size = length d \<rparr>] \<rparr>"

definition demo_bucket :: bucket where
  "demo_bucket =
     [manifestKey demo_store ''1'' \<mapsto> enc_manifest (demo_manifest ''1'' ''x''),
      manifestKey demo_store ''2'' \<mapsto> enc_manifest (demo_manifest ''2'' ''y''),
      objectKey demo_store (hex_sha demo_sys ''x'') \<mapsto> ''x'',
      objectKey demo_store (hex_sha demo_sys ''y'') \<mapsto> ''y'']"

lemma demo_bucket_inv: "store_inv demo_sys demo_store demo_bucket"
  unfolding store_inv_def content_addressed_def demo_bucket_def
  by (auto simp: complete_def demo_manifest_def split: if_splits) (simp add: demo_sys_def)+

lemma demo_checkpoints: "checkpoints demo_store demo_bucket = {''1'', ''2''}"
  by (auto simp: checkpoints_def demo_bucket_def split: if_splits)

lemma demo_keeps:
  "keeps demo_store demo_bucket ''2''" "\<not> keeps demo_store demo_bucket ''1''"
proof -
  have newer: "{x \<in> checkpoints demo_store demo_bucket. ''2'' < x} = {}"
      "{x \<in> checkpoints demo_store demo_bucket. ''1'' < x} = {''2''}"
    by (auto simp: demo_checkpoints less_char_def)
  show "keeps demo_store demo_bucket ''2''"
    by (simp add: keeps_def newer(1) demo_store_def [THEN arg_cong [where f = st_keep]])
  have "pin_markers demo_store demo_bucket = {}"
    by (auto simp: pin_markers_def demo_bucket_def key_defs split: if_splits)
  then show "\<not> keeps demo_store demo_bucket ''1''"
    unfolding keeps_def newer(2) by (simp add: demo_store_def)
qed

lemma demo_Prune: "Prune demo_sys mem_s3 demo_store demo_bucket = (None, snd (Prune demo_sys mem_s3 demo_store demo_bucket))"
proof -
  have "\<not> st_readOnly demo_store" by (simp add: demo_store_def)
  then obtain b' where "Prune demo_sys mem_s3 demo_store demo_bucket = (None, b')"
    using Prune_up [OF mem_s3_ok mem_s3_up _ demo_bucket_inv] by (auto simp: demo_bucket_def)
  then show ?thesis by simp
qed

subsection \<open>Properties of retention\<close>

text \<open>
  C1: whatever a prune returns - success, a refusal, or a storage error at any step - the bucket
  it leaves still holds only complete checkpoints, every checkpoint the retention rule keeps is
  untouched, and no key other than manifests and archives of surplus checkpoints and objects of
  the workspace is affected.
\<close>

theorem Prune_safe:
  assumes "s3_ok c" and "store_inv sys s b" and "Prune sys c s b = (r, b')"
  shows "store_inv sys s b' \<and>
    (\<forall>cid \<in> checkpoints s b. keeps s b cid \<longrightarrow> b' (manifestKey s cid) = b (manifestKey s cid)) \<and>
    (\<forall>k. (\<forall>cid \<in> checkpoints s b. \<not> keeps s b cid \<longrightarrow> k \<noteq> manifestKey s cid \<and> k \<noteq> checkpointArchiveKey s cid) \<longrightarrow>
         \<not> HasPrefix k (st_prefix s @ ''/objects/'') \<longrightarrow> b' k = b k)"
proof (intro conjI ballI allI impI)
  show "store_inv sys s b'"
    by (rule Prune_store_inv [OF assms])
  show "b' (manifestKey s cid) = b (manifestKey s cid)" if "cid \<in> checkpoints s b" "keeps s b cid" for cid
    by (rule Prune_keeps(1) [OF assms(1,3)]) (use that in \<open>simp add: surplus_def\<close>)
  show "b' k = b k"
    if "\<forall>cid \<in> checkpoints s b. \<not> keeps s b cid \<longrightarrow> k \<noteq> manifestKey s cid \<and> k \<noteq> checkpointArchiveKey s cid"
      and "\<not> HasPrefix k (st_prefix s @ ''/objects/'')" for k
    by (rule Prune_keeps(2) [OF assms(1,3)]) (use that in \<open>auto simp: surplus_def doomed_keys_def\<close>)
qed

theorem Prune_safe_witness:
  "s3_ok mem_s3 \<and> store_inv demo_sys demo_store demo_bucket \<and>
   store_inv demo_sys demo_store (snd (Prune demo_sys mem_s3 demo_store demo_bucket)) \<and>
   snd (Prune demo_sys mem_s3 demo_store demo_bucket) (manifestKey demo_store ''2'')
     = Some (enc_manifest (demo_manifest ''2'' ''y''))"
  using Prune_safe [OF mem_s3_ok demo_bucket_inv demo_Prune] mem_s3_ok demo_bucket_inv demo_keeps(1)
    demo_checkpoints
  by (auto simp: demo_bucket_def)

text \<open>
  C2: a prune that reports success has done all of it: the checkpoints left are exactly those
  the retention rule keeps, and the objects left are exactly those a remaining manifest references.
\<close>

theorem Prune_exact:
  assumes "s3_ok c" and "store_inv sys s b" and "Prune sys c s b = (None, b')"
  shows "checkpoints s b' = {cid \<in> checkpoints s b. keeps s b cid} \<and>
    {h. h \<noteq> [] \<and> b' (objectKey s h) \<noteq> None} = referenced sys s b' - {[]}"
proof
  from assms(1,3) obtain b1 where b1: "shrunk (doomed_keys s (surplus s b)) b b1"
      "shrunk (dead_objects s (referenced sys s b1)) b1 b'"
      "\<forall>cid \<in> surplus s b. b1 (manifestKey s cid) = None"
      "\<forall>h. h \<noteq> [] \<longrightarrow> b' (objectKey s h) \<noteq> None \<longrightarrow> h \<in> referenced sys s b1"
    by (rule Prune_steps) simp_all
  have same: "b' (manifestKey s cid) = b1 (manifestKey s cid)" for cid
    using shrunk_same [OF b1(2), of "manifestKey s cid"] by simp
  then have ref: "referenced sys s b' = referenced sys s b1"
    by (simp add: referenced_def)
  have "b' (manifestKey s cid) = (if cid \<in> surplus s b then None else b (manifestKey s cid))" for cid
    using b1(3) shrunk_same [OF b1(1), of "manifestKey s cid"] same by simp
  then show "checkpoints s b' = {cid \<in> checkpoints s b. keeps s b cid}"
    by (auto simp: checkpoints_def surplus_def split: if_splits)
  have "b' (objectKey s h) \<noteq> None" if "h \<in> referenced sys s b'" for h
    using Prune_store_inv [OF assms] that by (fastforce simp: referenced_def store_inv_def complete_def)
  with b1(4) ref show "{h. h \<noteq> [] \<and> b' (objectKey s h) \<noteq> None} = referenced sys s b' - {[]}"
    by blast
qed

theorem Prune_exact_witness:
  "s3_ok mem_s3 \<and> store_inv demo_sys demo_store demo_bucket \<and>
   checkpoints demo_store (snd (Prune demo_sys mem_s3 demo_store demo_bucket)) = {''2''}"
  using Prune_exact [OF mem_s3_ok demo_bucket_inv demo_Prune] mem_s3_ok demo_bucket_inv demo_keeps
  by (auto simp: demo_checkpoints)

text \<open>
  The plan is the reference split: with retention off everything survives; otherwise the
  survivors are the newest \<open>keep\<close> checkpoints followed by the pinned ones among the rest, a pin
  taking no slot, and the rest of the rest is removed, both in the order of the listing.
\<close>

theorem planRetention_reference:
  "planRetention ids keep pinned =
     (if keep \<le> 0 then (ids, [])
      else (take (nat keep) ids @ filter (\<lambda>cid. cid \<in> pinned) (drop (nat keep) ids),
            filter (\<lambda>cid. cid \<notin> pinned) (drop (nat keep) ids)))"
proof -
  have "plan_loop i keep pinned ids =
      (take (nat (keep - int i)) ids @ filter (\<lambda>cid. cid \<in> pinned) (drop (nat (keep - int i)) ids),
       filter (\<lambda>cid. cid \<notin> pinned) (drop (nat (keep - int i)) ids))" for i
  proof (induction ids arbitrary: i)
    case (Cons x ids)
    have step: "nat (keep - int i) = Suc (nat (keep - int (Suc i)))" if "int i < keep"
      using that by simp
    show ?case
    proof (cases "int i < keep")
      case True
      with Cons step show ?thesis by simp
    next
      case False
      with Cons show ?thesis by simp
    qed
  qed simp
  from this [of 0] show ?thesis by (simp add: planRetention_def)
qed

text \<open>
  A listing that succeeds is the workspace's checkpoints, each once, in descending order of
  their ids: archives, the LATEST pointer and everything else below the prefix are left out.
\<close>

theorem ListCheckpoints_exact:
  assumes "s3_ok c" and "ListCheckpoints c s b = Inr ids"
  shows "finite (checkpoints s b) \<and> ids = rev (sorted_list_of_set (checkpoints s b))"
proof
  note facts = ListCheckpoints_correct [OF assms]
  then show "finite (checkpoints s b)" by (metis List.finite_set)
  have "sorted_wrt (<) (rev ids)"
    using facts(2) by (simp add: sorted_wrt_rev)
  with facts(1) show "ids = rev (sorted_list_of_set (checkpoints s b))"
    by (metis rev_rev_ident set_rev sorted_list_of_set.idem_if_sorted_distinct strict_sorted_iff)
qed

theorem ListCheckpoints_exact_witness:
  "s3_ok mem_s3 \<and> ListCheckpoints mem_s3 demo_store demo_bucket = Inr [''2'', ''1'']"
proof -
  obtain ids where ids: "ListCheckpoints mem_s3 demo_store demo_bucket = Inr ids"
    using ListCheckpoints_up [OF mem_s3_up] by (fastforce simp: demo_bucket_def)
  have "sorted_list_of_set {''1'', ''2''} = [''1'', ''2'']"
    by (simp add: less_char_def)
  with ListCheckpoints_exact [OF mem_s3_ok ids] ids show ?thesis
    by (simp add: demo_checkpoints mem_s3_ok)
qed

text \<open>
  ids order checkpoints by time: of two ids, the one minted at a later time is the greater
  string, whatever the processes, so the descending listing is newest first.
\<close>

theorem newID_order:
  assumes "0 \<le> sint t1" and "sint t1 < sint t2"
  shows "newID sys t1 p1 < newID sys t2 p2"
proof -
  have "EncodeToString (be_bytes 8 t1) < EncodeToString (be_bytes 8 t2)"
    by (intro EncodeToString_less be_bytes_8_less sint_less_imp_less assms) simp
  then show ?thesis
    unfolding newID_def EncodeToString_append by (intro list_less_append) simp_all
qed

theorem newID_order_witness:
  "0 \<le> sint (1790000000000000000 :: 64 word) \<and> sint (1790000000000000000 :: 64 word) < sint (1790000000000000256 :: 64 word) \<and>
   newID demo_sys 1790000000000000000 7 < newID demo_sys 1790000000000000256 1"
  using newID_order [of 1790000000000000000 1790000000000000256 demo_sys 7 1] by simp

end
