(* ===== verification/Store_Snapshot.thy ===== *)
theory Store_Snapshot
  imports Store_Retention
begin

text \<open>
  What a snapshot writes. The bucket changes in four phases - objects, manifest, LATEST pointer,
  archives - before the prune, and each keeps every checkpoint complete, so a snapshot cut short
  anywhere leaves an absent checkpoint and never a corrupt one.
\<close>

subsection \<open>The baseline digest does not change where things are stored\<close>

lemma keys_restoredDigest [simp]:
  "objectKey (s\<lparr>st_restoredDigest := d\<rparr>) = objectKey s"
  "manifestKey (s\<lparr>st_restoredDigest := d\<rparr>) = manifestKey s"
  "archiveKey (s\<lparr>st_restoredDigest := d\<rparr>) = archiveKey s"
  "checkpointArchiveKey (s\<lparr>st_restoredDigest := d\<rparr>) = checkpointArchiveKey s"
  "latestKey (s\<lparr>st_restoredDigest := d\<rparr>) = latestKey s"
  "pinsPrefix (s\<lparr>st_restoredDigest := d\<rparr>) = pinsPrefix s"
  by (auto simp: key_defs fun_eq_iff)

lemma inv_restoredDigest [simp]:
  "checkpoints (s\<lparr>st_restoredDigest := d\<rparr>) b = checkpoints s b"
  "pin_markers (s\<lparr>st_restoredDigest := d\<rparr>) b = pin_markers s b"
  "keeps (s\<lparr>st_restoredDigest := d\<rparr>) b = keeps s b"
  "surplus (s\<lparr>st_restoredDigest := d\<rparr>) b = surplus s b"
  "doomed_keys (s\<lparr>st_restoredDigest := d\<rparr>) D = doomed_keys s D"
  "complete sys (s\<lparr>st_restoredDigest := d\<rparr>) b = complete sys s b"
  "store_inv sys (s\<lparr>st_restoredDigest := d\<rparr>) b = store_inv sys s b"
  by (auto simp: checkpoints_def pin_markers_def keeps_def surplus_def doomed_keys_def complete_def
      content_addressed_def store_inv_def fun_eq_iff)

lemma store_invD:
  "store_inv sys s b \<Longrightarrow> cid \<noteq> [] \<Longrightarrow> b (manifestKey s cid) = Some v \<Longrightarrow> json_decode sys v = Some m \<Longrightarrow>
     complete sys s b m"
  unfolding store_inv_def by force

subsection \<open>Uploading the objects\<close>

text \<open>Objects were added under their own content address, and nothing else changed.\<close>

definition grown :: "gosys \<Rightarrow> store \<Rightarrow> bytes set \<Rightarrow> bucket \<Rightarrow> bucket \<Rightarrow> bool" where
  "grown sys s D b b' \<longleftrightarrow> (\<forall>k. b' k = b k \<or> (\<exists>d \<in> D. k = objectKey s (hex_sha sys d) \<and> b' k = Some d))"

lemma grown_refl [simp]: "grown sys s D b b"
  by (simp add: grown_def)

lemma grown_trans: "grown sys s D b b1 \<Longrightarrow> grown sys s D' b1 b2 \<Longrightarrow> grown sys s (D \<union> D') b b2"
  unfolding grown_def by (metis UnCI)

lemma grown_mono: "grown sys s D b b' \<Longrightarrow> D \<subseteq> D' \<Longrightarrow> grown sys s D' b b'"
  unfolding grown_def by blast

lemma grown_other: "grown sys s D b b' \<Longrightarrow> \<not> HasPrefix k (st_prefix s @ ''/objects/'') \<Longrightarrow> b' k = b k"
  by (auto simp: grown_def HasPrefix_objects)

lemma grown_present: "grown sys s D b b' \<Longrightarrow> b k \<noteq> None \<Longrightarrow> b' k \<noteq> None"
  unfolding grown_def by (metis option.distinct(1))

lemma no_object_prefix [simp]:
  "\<not> HasPrefix (manifestKey s cid) (st_prefix s @ ''/objects/'')"
  "\<not> HasPrefix (latestKey s) (st_prefix s @ ''/objects/'')"
  "\<not> HasPrefix (archiveKey s) (st_prefix s @ ''/objects/'')"
  "\<not> HasPrefix (checkpointArchiveKey s cid) (st_prefix s @ ''/objects/'')"
  by (auto simp: HasPrefix_objects)

lemma grown_store_inv:
  assumes "store_inv sys s b" and "grown sys s D b b'"
  shows "store_inv sys s b'"
proof -
  have ca: "content_addressed sys s b'"
    using assms unfolding store_inv_def content_addressed_def grown_def by (metis key_inject(1) option.inject)
  have "\<exists>d. b' (objectKey s h) = Some d \<and> hex_sha sys d = h" if "b (objectKey s h) \<noteq> None" for h
    using grown_present [OF assms(2) that] ca by (auto simp: content_addressed_def)
  then have "complete sys s b' m" if "complete sys s b m" for m
    using that by (fastforce simp: complete_def)
  moreover have "b' (manifestKey s cid) = b (manifestKey s cid)" for cid
    by (rule grown_other [OF assms(2)]) simp
  ultimately show ?thesis
    using assms(1) ca unfolding store_inv_def by metis
qed

definition tree_data :: "(string list \<times> leaf) list \<Rightarrow> bytes set" where
  "tree_data vs = {d. \<exists>p m. (p, LFile d m) \<in> set vs}"

lemma tree_data_simps [simp]:
  "tree_data [] = {}"
  "tree_data ((p, LFile d m) # vs) = insert d (tree_data vs)"
  "tree_data ((p, LFail) # vs) = tree_data vs"
  by (auto simp: tree_data_def)

definition entry_of :: "gosys \<Rightarrow> string list \<times> leaf \<Rightarrow> entry" where
  "entry_of sys v = (case v of
     (p, LFile d m) \<Rightarrow> \<lparr> e_path = rel_path p, e_hash = hex_sha sys d, e_mode = m, e_size = length d \<rparr>)"

lemma putIfAbsent_grown:
  assumes "s3_ok c" and "putIfAbsent c s b (hex_sha sys d) d = (r, b')"
  shows "grown sys s {d} b b'" and "r = Inr put \<Longrightarrow> b' (objectKey s (hex_sha sys d)) \<noteq> None"
proof -
  let ?k = "objectKey s (hex_sha sys d)"
  have cases: "(s3_stat c b ?k = None \<and> b' = b) \<or> (\<exists>e q. s3_stat c b ?k = Some e \<and> s3_put c b ?k d = (q, b') \<and>
      (r = Inr put \<longrightarrow> q = None))"
    using assms(2) by (auto simp: putIfAbsent_def split: option.splits prod.splits)
  then show "grown sys s {d} b b'"
    using s3_putD(2) [OF assms(1), of b ?k d] by (auto simp: grown_def split: if_splits)
  show "b' ?k \<noteq> None" if "r = Inr put"
    using cases that s3_statD(1) [OF assms(1), of b ?k] s3_putD(1) [OF assms(1), of b ?k d] by fastforce
qed

lemma upload_all_correct:
  assumes "s3_ok c"
  shows "upload_all sys c s b vs = (r, b') \<Longrightarrow> grown sys s (tree_data vs) b b' \<and>
    (\<forall>es. r = Inr es \<longrightarrow> es = map (entry_of sys) vs \<and> (\<forall>v \<in> set vs. snd v \<noteq> LFail) \<and>
       (\<forall>d \<in> tree_data vs. b' (objectKey s (hex_sha sys d)) \<noteq> None))"
proof (induction vs arbitrary: b r b')
  case (Cons v vs)
  obtain p l where v: "v = (p, l)" by fastforce
  show ?case
  proof (cases l)
    case LFail
    with Cons.prems v show ?thesis by auto
  next
    case (LFile d m)
    obtain r1 b1 where put: "putIfAbsent c s b (hex_sha sys d) d = (r1, b1)" by fastforce
    note g1 = putIfAbsent_grown(1) [OF assms put]
    show ?thesis
    proof (cases r1)
      case (Inl e)
      with Cons.prems put v LFile g1 show ?thesis by (auto intro: grown_mono)
    next
      case (Inr q)
      obtain r2 b2 where rest: "upload_all sys c s b1 vs = (r2, b2)" by fastforce
      have fin: "b' = b2" "\<And>es. r = Inr es \<Longrightarrow> \<exists>es'. r2 = Inr es' \<and> es = entry_of sys v # es'"
        using Cons.prems put Inr rest v LFile by (auto simp: entry_of_def split: sum.splits)
      note IH = Cons.IH [OF rest]
      have "grown sys s ({d} \<union> tree_data vs) b b'"
        using grown_trans [OF g1] IH fin(1) by blast
      moreover have "b' (objectKey s (hex_sha sys d)) \<noteq> None"
        using putIfAbsent_grown(2) [OF assms put Inr] IH fin(1) grown_present by blast
      ultimately show ?thesis
        using IH fin v LFile by (auto; fastforce)
    qed
  qed
qed simp

lemma upload_all_errors: "upload_all sys c s b vs = (Inl e, b') \<Longrightarrow> e \<noteq> ErrNothingToSave \<and> e \<noteq> ErrUnchanged"
  by (induction sys c s b vs arbitrary: b' rule: upload_all.induct)
    (auto simp: putIfAbsent_def split: sum.splits prod.splits option.splits)

lemma simps_manifest_entries:
  "m_entries (snapshot_manifest sys s a es) = sort_key e_path es"
  by (simp add: snapshot_manifest_def)

subsection \<open>Committing the manifest\<close>

lemma store_inv_other:
  assumes "store_inv sys s b" and "\<And>cid. b' (manifestKey s cid) = b (manifestKey s cid)"
    and "\<And>h. b' (objectKey s h) = b (objectKey s h)"
  shows "store_inv sys s b'"
  using assms by (simp add: store_inv_def complete_def content_addressed_def)

lemma store_inv_manifest:
  assumes "store_inv sys s b" and "json_decode sys v = Some m" and "complete sys s b m"
  shows "store_inv sys s (b(manifestKey s cid \<mapsto> v))"
  using assms by (auto simp: store_inv_def complete_def content_addressed_def split: if_splits)

lemma complete_json_image:
  assumes "json_ok sys" and "complete sys s b m"
    and "\<And>e. e \<in> set (m_entries m) \<Longrightarrow> ascii (e_hash e)"
  shows "complete sys s b (json_image sys m)"
  using assms(2,3) json_okD(2) [OF assms(1)] by (auto simp: complete_def json_image_def json_entry_def)

lemma commit_outcomes:
  assumes "s3_ok c" and "commit_manifest sys c s b m = (r, b')"
  defines "b1 \<equiv> b(manifestKey s (m_id m) \<mapsto> json_marshal sys m)"
  shows "b' = b \<or> b' = b1 \<or> b' = b1(latestKey s \<mapsto> m_id m)"
    and "r = None \<Longrightarrow> b' = b1(latestKey s \<mapsto> m_id m)"
proof -
  obtain r1 x where put: "s3_put c b (manifestKey s (m_id m)) (json_marshal sys m) = (r1, x)" by fastforce
  obtain r2 y where lat: "s3_put c x (latestKey s) (m_id m) = (r2, y)" by fastforce
  have x: "x = b \<or> x = b1" "r1 = None \<Longrightarrow> x = b1"
    using s3_putD [OF assms(1), of b] put by (auto simp: b1_def)
  have y: "y = x \<or> y = x(latestKey s \<mapsto> m_id m)" "r2 = None \<Longrightarrow> y = x(latestKey s \<mapsto> m_id m)"
    using s3_putD [OF assms(1), of x] lat by auto
  have "b' = (if r1 = None then y else x)" "r = None \<Longrightarrow> r1 = None \<and> r2 = None"
    using assms(2) put lat by (auto simp: commit_manifest_def setLatest_def split: option.splits)
  with x y show "b' = b \<or> b' = b1 \<or> b' = b1(latestKey s \<mapsto> m_id m)"
    and "r = None \<Longrightarrow> b' = b1(latestKey s \<mapsto> m_id m)"
    by (auto split: if_splits)
qed

lemma archive_phase_other:
  assumes "s3_ok c" and "k \<noteq> archiveKey s" and "k \<noteq> checkpointArchiveKey s cid"
  shows "archive_phase sys c s b root cid k = b k"
proof (cases "st_noArchive s \<or> mksquashfs sys root = None")
  case True
  then show ?thesis by (auto simp: archive_phase_def)
next
  case False
  then obtain img where img: "mksquashfs sys root = Some img" and na: "\<not> st_noArchive s" by auto
  obtain r1 b1 where p1: "s3_put c b (archiveKey s) img = (r1, b1)" by fastforce
  obtain r2 b2 where p2: "s3_put c b1 (checkpointArchiveKey s cid) img = (r2, b2)" by fastforce
  have "b2 k = b k"
    using s3_putD(2) [OF assms(1) p1] s3_putD(2) [OF assms(1) p2] assms(2,3) by auto
  with img na p1 p2 show ?thesis
    by (simp add: archive_phase_def UploadArchive_def UploadCheckpointArchive_def)
qed

subsection \<open>The whole snapshot\<close>

definition tree_manifest :: "gosys \<Rightarrow> store \<Rightarrow> save_args \<Rightarrow> node \<Rightarrow> manifest" where
  "tree_manifest sys s a root = snapshot_manifest sys s a (map (entry_of sys) (walk root))"

lemma tree_manifest_id [simp]: "m_id (tree_manifest sys s a root) = newID sys (sv_now a) (sv_pid a)"
  by (simp add: tree_manifest_def snapshot_manifest_def)

lemma newID_nonempty [simp]: "newID sys t p \<noteq> []"
proof -
  have "length (newID sys t p) \<ge> 16" by (simp add: newID_def)
  then show ?thesis by auto
qed

lemma Snapshot_cases:
  assumes "s3_ok c" and "Snapshot sys c s b root a = (r, s', b')"
  obtains (readonly) "st_readOnly s" "r = Inl ErrReadOnly" "s' = s" "b' = b"
  | (refused) e where "\<not> st_readOnly s" "r = Inl e" "s' = s" "grown sys s (tree_data (walk root)) b b'"
      "e = ErrNothingToSave \<and> walk root = [] \<or>
       e = ErrUnchanged \<and> manifestDigest sys (tree_manifest sys s a root) = st_restoredDigest s \<or>
       e \<noteq> ErrNothingToSave \<and> e \<noteq> ErrUnchanged"
  | (commit) b1 r1 b2 where "\<not> st_readOnly s" "grown sys s (tree_data (walk root)) b b1"
      "walk root \<noteq> []" "\<forall>v \<in> set (walk root). snd v \<noteq> LFail"
      "\<forall>d \<in> tree_data (walk root). b1 (objectKey s (hex_sha sys d)) \<noteq> None"
      "st_restoredDigest s \<noteq> [] \<longrightarrow> manifestDigest sys (tree_manifest sys s a root) \<noteq> st_restoredDigest s"
      "commit_manifest sys c s b1 (tree_manifest sys s a root) = (r1, b2)"
      "case r1 of
         Some e \<Rightarrow> r = Inl e \<and> s' = s \<and> b' = b2
       | None \<Rightarrow> r = Inr (tree_manifest sys s a root) \<and>
           s' = s\<lparr>st_restoredDigest := manifestDigest sys (tree_manifest sys s a root)\<rparr> \<and>
           b' = snd (Prune sys c s' (archive_phase sys c s' b2 root (newID sys (sv_now a) (sv_pid a))))"
proof (cases "st_readOnly s")
  case True
  with assms(2) show ?thesis by (intro readonly) (auto simp: Snapshot_def)
next
  case False
  obtain r1 b1 where up: "upload_all sys c s b (walk root) = (r1, b1)" by fastforce
  note uc = upload_all_correct [OF assms(1) up]
  let ?m = "tree_manifest sys s a root"
  show ?thesis
  proof (cases r1)
    case (Inl e)
    with up have "e \<noteq> ErrNothingToSave" "e \<noteq> ErrUnchanged"
      using upload_all_errors [of sys c s b "walk root" e b1] by simp_all
    with assms(2) False up Inl uc show ?thesis by (intro refused [of e]) (auto simp: Snapshot_def)
  next
    case (Inr es)
    with uc have es: "snapshot_manifest sys s a es = ?m" by (simp add: tree_manifest_def)
    have empty: "m_entries ?m = [] \<longleftrightarrow> walk root = []"
      by (metis list.map_disc_iff mset_zero_iff mset_sort simps_manifest_entries tree_manifest_def)
    consider "m_entries ?m = []" | "m_entries ?m \<noteq> []" "st_restoredDigest s \<noteq> []" "manifestDigest sys ?m = st_restoredDigest s"
      | "m_entries ?m \<noteq> []" "st_restoredDigest s \<noteq> [] \<longrightarrow> manifestDigest sys ?m \<noteq> st_restoredDigest s" by blast
    then show ?thesis
    proof cases
      case 1
      with assms(2) False up Inr uc es empty show ?thesis
        by (intro refused [of ErrNothingToSave]) (auto simp: Snapshot_def Let_def)
    next
      case 2
      with assms(2) False up Inr uc es show ?thesis
        by (intro refused [of ErrUnchanged]) (auto simp: Snapshot_def Let_def)
    next
      case 3
      obtain r2 b2 where cm: "commit_manifest sys c s b1 ?m = (r2, b2)" by fastforce
      show ?thesis
        by (rule commit [OF False _ _ _ _ 3(2) cm])
          (use assms(2) False up Inr uc es 3 cm empty in \<open>auto simp: Snapshot_def Let_def split: option.splits\<close>)
    qed
  qed
qed

lemma set_tree_manifest: "set (m_entries (tree_manifest sys s a root)) = entry_of sys ` set (walk root)"
  by (simp add: tree_manifest_def simps_manifest_entries)

lemma walk_entry:
  assumes "\<forall>v \<in> set (walk root). snd v \<noteq> LFail" and "e \<in> set (m_entries (tree_manifest sys s a root))"
  obtains p d m where "(p, LFile d m) \<in> set (walk root)"
    and "e = \<lparr> e_path = rel_path p, e_hash = hex_sha sys d, e_mode = m, e_size = length d \<rparr>"
proof -
  from assms(2) obtain v where v: "v \<in> set (walk root)" "e = entry_of sys v"
    by (auto simp: set_tree_manifest)
  with assms(1) obtain p d m where "v = (p, LFile d m)"
    by (metis leaf.exhaust prod.collapse)
  with v that show thesis by (simp add: entry_of_def)
qed

lemma tree_manifest_complete:
  assumes "store_inv sys s b1" and "\<forall>v \<in> set (walk root). snd v \<noteq> LFail"
    and "\<forall>d \<in> tree_data (walk root). b1 (objectKey s (hex_sha sys d)) \<noteq> None"
  shows "complete sys s b1 (tree_manifest sys s a root)"
  unfolding complete_def
proof
  fix e assume "e \<in> set (m_entries (tree_manifest sys s a root))"
  with assms(2) obtain p d m where "(p, LFile d m) \<in> set (walk root)" "e_hash e = hex_sha sys d"
    by (elim walk_entry) auto
  with assms(1,3) show "\<exists>d. b1 (objectKey s (e_hash e)) = Some d \<and> hex_sha sys d = e_hash e"
    by (fastforce simp: tree_data_def store_inv_def content_addressed_def)
qed

lemma commit_store_inv:
  assumes "s3_ok c" "json_ok sys" "store_inv sys s b1" "complete sys s b1 (tree_manifest sys s a root)"
    and "\<forall>v \<in> set (walk root). snd v \<noteq> LFail"
    and "commit_manifest sys c s b1 (tree_manifest sys s a root) = (r, b2)"
  shows "store_inv sys s b2"
proof -
  let ?m = "tree_manifest sys s a root"
  let ?b = "b1(manifestKey s (m_id ?m) \<mapsto> json_marshal sys ?m)"
  have "ascii (e_hash e)" if "e \<in> set (m_entries ?m)" for e
    using assms(5) that by (elim walk_entry) auto
  then have "complete sys s b1 (json_image sys ?m)"
    by (rule complete_json_image [OF assms(2,4)])
  then have m: "store_inv sys s ?b"
    by (rule store_inv_manifest [OF assms(3) json_okD(1) [OF assms(2)]])
  then have "store_inv sys s (?b(latestKey s \<mapsto> m_id ?m))"
    by (rule store_inv_other) simp_all
  with m assms(3) commit_outcomes(1) [OF assms(1,6)] show ?thesis by metis
qed

lemma archive_store_inv:
  "s3_ok c \<Longrightarrow> store_inv sys s b \<Longrightarrow> store_inv sys s (archive_phase sys c s b root cid)"
  by (rule store_inv_other) (simp_all add: archive_phase_other)

lemma Snapshot_store_inv:
  assumes "s3_ok c" "json_ok sys" "store_inv sys s b" and "Snapshot sys c s b root a = (r, s', b')"
  shows "store_inv sys s b'"
  using assms(1,4)
proof (cases rule: Snapshot_cases)
  case readonly
  with assms(3) show ?thesis by simp
next
  case (refused e)
  with assms(3) show ?thesis by (blast intro: grown_store_inv)
next
  case (commit b1 r1 b2)
  have b1: "store_inv sys s b1"
    using assms(3) commit(2) by (rule grown_store_inv)
  have b2: "store_inv sys s b2"
    by (rule commit_store_inv [OF assms(1,2) b1 tree_manifest_complete [OF b1 commit(4,5)] commit(4,7)])
  show ?thesis
  proof (cases r1)
    case None
    with commit(8) have s': "s' = s\<lparr>st_restoredDigest := manifestDigest sys (tree_manifest sys s a root)\<rparr>"
      and b': "b' = snd (Prune sys c s' (archive_phase sys c s' b2 root (newID sys (sv_now a) (sv_pid a))))"
      by auto
    have "store_inv sys s' (archive_phase sys c s' b2 root (newID sys (sv_now a) (sv_pid a)))"
      using b2 s' by (intro archive_store_inv assms) simp
    then have "store_inv sys s' b'"
      using Prune_store_inv [OF assms(1)] b' by (metis prod.collapse)
    with s' show ?thesis by simp
  next
    case (Some e)
    with commit(8) b2 show ?thesis by simp
  qed
qed

lemma surplus_newest: "\<forall>x \<in> checkpoints s b. x \<le> cid \<Longrightarrow> cid \<notin> surplus s b"
proof -
  assume "\<forall>x \<in> checkpoints s b. x \<le> cid"
  then have "{x \<in> checkpoints s b. cid < x} = {}" by auto
  then have "keeps s b cid" by (simp only: keeps_def card.empty) auto
  then show ?thesis by (simp add: surplus_def)
qed

lemma checkpoints_put: "cid \<noteq> [] \<Longrightarrow> checkpoints s (b(manifestKey s cid \<mapsto> v)) = insert cid (checkpoints s b)"
  by (auto simp: checkpoints_def)

lemma checkpoints_same: "(\<And>cid. b' (manifestKey s cid) = b (manifestKey s cid)) \<Longrightarrow> checkpoints s b' = checkpoints s b"
  by (simp add: checkpoints_def)

text \<open>What a successful snapshot did before the prune, and what the prune keeps of it.\<close>

lemma Snapshot_Inr:
  assumes "s3_ok c" and "Snapshot sys c s b root a = (Inr m, s', b')"
  obtains b3 where "m = tree_manifest sys s a root" "\<not> st_readOnly s" "\<forall>v \<in> set (walk root). snd v \<noteq> LFail"
    "walk root \<noteq> []"
    "s' = s\<lparr>st_restoredDigest := manifestDigest sys m\<rparr>"
    "b3 (manifestKey s (m_id m)) = Some (json_marshal sys m)" "b3 (latestKey s) = Some (m_id m)"
    "checkpoints s b3 = insert (m_id m) (checkpoints s b)"
    "\<forall>d \<in> tree_data (walk root). b3 (objectKey s (hex_sha sys d)) \<noteq> None"
    "\<forall>h v. b3 (objectKey s h) = Some v \<longrightarrow> b (objectKey s h) = Some v \<or> v \<in> tree_data (walk root)"
    "b' = snd (Prune sys c s' b3)"
  using assms
proof (cases rule: Snapshot_cases)
  case (commit b1 r1 b2)
  let ?m = "tree_manifest sys s a root"
  have r1: "r1 = None" and m: "m = ?m"
    and s': "s' = s\<lparr>st_restoredDigest := manifestDigest sys ?m\<rparr>"
    and b': "b' = snd (Prune sys c s' (archive_phase sys c s' b2 root (m_id ?m)))"
    using commit(8) by (auto split: option.splits)
  note b2 = commit_outcomes(2) [OF assms(1) commit(7) r1]
  let ?b3 = "archive_phase sys c s' b2 root (m_id ?m)"
  have "?b3 k = b2 k" if "k \<noteq> archiveKey s" "k \<noteq> checkpointArchiveKey s (m_id ?m)" for k
    using that s' by (intro archive_phase_other assms) simp_all
  note arch = this [simplified]
  have "checkpoints s ?b3 = checkpoints s b2"
    by (rule checkpoints_same) (simp add: arch)
  also have "\<dots> = checkpoints s (b1(manifestKey s (m_id ?m) \<mapsto> json_marshal sys ?m))"
    by (rule checkpoints_same) (simp add: b2)
  also have "\<dots> = insert (m_id ?m) (checkpoints s b1)"
    by (rule checkpoints_put) simp
  also have "checkpoints s b1 = checkpoints s b"
    by (rule checkpoints_same) (rule grown_other [OF commit(2)], simp)
  finally have cps: "checkpoints s ?b3 = insert (m_id ?m) (checkpoints s b)" .
  have obj: "?b3 (objectKey s h) = b1 (objectKey s h)" for h
    using arch [of "objectKey s h"] b2 by simp
  have man: "?b3 (manifestKey s (m_id ?m)) = Some (json_marshal sys ?m)" "?b3 (latestKey s) = Some (m_id ?m)"
    using arch [of "manifestKey s (m_id ?m)"] arch [of "latestKey s"] b2 by simp_all
  show ?thesis
  proof (rule that [of ?b3])
    show "\<forall>h v. ?b3 (objectKey s h) = Some v \<longrightarrow> b (objectKey s h) = Some v \<or> v \<in> tree_data (walk root)"
      using commit(2) obj unfolding grown_def by (metis option.inject)
  qed (use m s' b' commit(1,3,4,5) cps obj man in simp_all)
qed simp_all

lemma Snapshot_manifest:
  assumes "s3_ok c" and "Snapshot sys c s b root a = (Inr m, s', b')"
    and "\<forall>cid \<in> checkpoints s b. cid \<le> newID sys (sv_now a) (sv_pid a)"
  shows "b' (manifestKey s (m_id m)) = Some (json_marshal sys m)" and "b' (latestKey s) = Some (m_id m)"
proof -
  from assms(1,2) obtain b3 where b3: "m = tree_manifest sys s a root"
      "s' = s\<lparr>st_restoredDigest := manifestDigest sys m\<rparr>"
      "b3 (manifestKey s (m_id m)) = Some (json_marshal sys m)" "b3 (latestKey s) = Some (m_id m)"
      "checkpoints s b3 = insert (m_id m) (checkpoints s b)" "b' = snd (Prune sys c s' b3)"
    by (elim Snapshot_Inr)
  obtain r where pr: "Prune sys c s' b3 = (r, b')" using b3(6) by (metis prod.collapse)
  have "m_id m \<notin> surplus s' b3"
    using assms(3) b3(1,2,5) by (intro surplus_newest) auto
  then show "b' (manifestKey s (m_id m)) = Some (json_marshal sys m)"
    using Prune_keeps(1) [OF assms(1) pr] b3(2,3) by simp
  show "b' (latestKey s) = Some (m_id m)"
    using Prune_keeps(2) [OF assms(1) pr, of "latestKey s"] b3(2,4) by simp
qed

subsection \<open>A small tree\<close>

definition demo_tree :: node where
  "demo_tree = Dir [(''dist'', Dir [(''out'', RegFile ''o'' 420)]), (''f'', RegFile ''x'' 493), (''link'', Special)]"

definition demo_args :: save_args where
  "demo_args = \<lparr> sv_name = [], sv_desc = [], sv_trigger = ''agent'', sv_parent = [], sv_now = 1790000000000000000,
     sv_pid = 7, sv_created = 0 \<rparr>"

lemma demo_walk: "walk demo_tree = [([''f''], LFile ''x'' 493)]"
  by (simp add: demo_tree_def skipDir_def)

lemma demo_Snapshot:
  "\<exists>m s' b'. Snapshot demo_sys mem_s3 demo_store Map.empty demo_tree demo_args = (Inr m, s', b')"
proof -
  have "\<not> st_readOnly demo_store" "st_restoredDigest demo_store = []"
    by (simp_all add: demo_store_def)
  then show ?thesis
    by (simp add: Snapshot_def demo_walk putIfAbsent_def s3_upD [OF mem_s3_up] simps_manifest_entries
        commit_manifest_def setLatest_def Let_def)
qed

subsection \<open>Properties of a snapshot\<close>

text \<open>
  C3: a snapshot keeps every checkpoint of the workspace complete whatever happens to it - a
  refusal, an unreadable file, a storage error in any phase, a failed prune, or success: every
  manifest in the bucket decodes and every object it names is stored with the content its hash
  promises. A partial run leaves an absent checkpoint, never a corrupt one.
\<close>

theorem Snapshot_crash_consistent:
  assumes "s3_ok c" "json_ok sys" "store_inv sys s b" and "Snapshot sys c s b root a = (r, s', b')"
  shows "store_inv sys s' b' \<and>
    (\<forall>cid v. cid \<noteq> [] \<longrightarrow> b' (manifestKey s cid) = Some v \<longrightarrow>
       (\<exists>m. json_decode sys v = Some m \<and>
         (\<forall>e \<in> set (m_entries m). \<exists>d. b' (objectKey s (e_hash e)) = Some d \<and> hex_sha sys d = e_hash e)))"
proof -
  have "s' = s \<or> (\<exists>d. s' = s\<lparr>st_restoredDigest := d\<rparr>)"
    using assms(1,4) by (cases rule: Snapshot_cases) (auto split: option.splits)
  then have "store_inv sys s' b' \<longleftrightarrow> store_inv sys s b'" by auto
  with Snapshot_store_inv [OF assms] show ?thesis
    by (simp add: store_inv_def complete_def)
qed

theorem Snapshot_crash_consistent_witness:
  "s3_ok down_s3 \<and> json_ok demo_sys \<and> store_inv demo_sys demo_store demo_bucket \<and>
   Snapshot demo_sys down_s3 demo_store demo_bucket demo_tree demo_args
     = (Inl (ErrStorage ''upload'' (S3Other ''unreachable'')), demo_store, demo_bucket) \<and>
   (\<exists>m s' b'. Snapshot demo_sys mem_s3 demo_store Map.empty demo_tree demo_args = (Inr m, s', b') \<and>
     store_inv demo_sys s' b')"
proof -
  have "\<not> st_readOnly demo_store" by (simp add: demo_store_def)
  then have down: "Snapshot demo_sys down_s3 demo_store demo_bucket demo_tree demo_args
     = (Inl (ErrStorage ''upload'' (S3Other ''unreachable'')), demo_store, demo_bucket)"
    by (simp add: Snapshot_def demo_walk putIfAbsent_def) (simp add: down_s3_def)
  have "store_inv demo_sys demo_store Map.empty"
    by (simp add: store_inv_def content_addressed_def)
  then show ?thesis
    using Snapshot_crash_consistent [OF down_s3_ok demo_sys_ok demo_bucket_inv down]
      Snapshot_crash_consistent [OF mem_s3_ok demo_sys_ok] demo_Snapshot down_s3_ok demo_sys_ok down demo_bucket_inv
    by blast
qed

text \<open>
  C4: a snapshot that succeeds, named later than every checkpoint of the workspace, is published:
  its manifest is stored, LATEST names it, it is one of the workspace's complete checkpoints even
  after the prune that ends the snapshot, and the store's baseline is its digest.
\<close>

theorem Snapshot_published:
  assumes "s3_ok c" "json_ok sys" "store_inv sys s b" and "Snapshot sys c s b root a = (Inr m, s', b')"
    and "\<forall>cid \<in> checkpoints s b. cid \<le> newID sys (sv_now a) (sv_pid a)"
  shows "m_id m = newID sys (sv_now a) (sv_pid a) \<and> b' (manifestKey s (m_id m)) = Some (json_marshal sys m) \<and>
    b' (latestKey s) = Some (m_id m) \<and> m_id m \<in> checkpoints s b' \<and> complete sys s b' (json_image sys m) \<and>
    st_restoredDigest s' = manifestDigest sys m"
proof -
  have mid: "m_id m = newID sys (sv_now a) (sv_pid a)" "st_restoredDigest s' = manifestDigest sys m"
    using assms(1,4) by (elim Snapshot_Inr; simp)+
  note man = Snapshot_manifest [OF assms(1,4,5)]
  have "m_id m \<in> checkpoints s b'"
    using man(1) mid by (simp add: checkpoints_def)
  moreover have "complete sys s b' (json_image sys m)"
    by (rule store_invD [OF Snapshot_store_inv [OF assms(1-4)] _ man(1) json_okD(1) [OF assms(2)]]) (simp add: mid)
  ultimately show ?thesis
    using man mid by simp
qed

theorem Snapshot_published_witness:
  "\<exists>m s' b'. Snapshot demo_sys mem_s3 demo_store Map.empty demo_tree demo_args = (Inr m, s', b') \<and>
     b' (latestKey demo_store) = Some (newID demo_sys 1790000000000000000 7) \<and>
     newID demo_sys 1790000000000000000 7 \<in> checkpoints demo_store b'"
proof -
  obtain m s' b' where snap: "Snapshot demo_sys mem_s3 demo_store Map.empty demo_tree demo_args = (Inr m, s', b')"
    using demo_Snapshot by blast
  have "store_inv demo_sys demo_store Map.empty" "checkpoints demo_store Map.empty = {}"
    by (simp_all add: store_inv_def content_addressed_def checkpoints_def)
  with Snapshot_published [OF mem_s3_ok demo_sys_ok _ snap] snap show ?thesis
    by (auto simp: demo_args_def)
qed

lemma walk_names: "wf_tree root \<Longrightarrow> (q, l) \<in> set (walk root) \<Longrightarrow> x \<in> set q \<Longrightarrow> good_name x"
  using walk_at_names [where p = "[]"] by simp

lemma entry_of_path: "\<forall>v \<in> set vs. snd v \<noteq> LFail \<Longrightarrow> map (e_path \<circ> entry_of sys) vs = map (rel_path \<circ> fst) vs"
  by (auto simp: entry_of_def split: leaf.splits)

lemma tree_manifest_sorted:
  assumes "wf_tree root" and "\<forall>v \<in> set (walk root). snd v \<noteq> LFail"
  shows "sorted_wrt (<) (map e_path (m_entries (tree_manifest sys s a root)))"
proof -
  let ?es = "map (entry_of sys) (walk root)"
  have "inj_on rel_path (fst ` set (walk root))"
    using assms(1) by (intro inj_onI rel_path_inj) (auto dest: walk_names)
  then have "distinct (map (rel_path \<circ> fst) (walk root))"
    using distinct_walk_at [OF assms(1), of "[]"] by (metis distinct_map list.map_comp list.set_map)
  then have "distinct (map e_path ?es)"
    unfolding list.map_comp entry_of_path [OF assms(2)] .
  then have "distinct (map e_path (sort_key e_path ?es))"
    by (metis (mono_tags) distinct_map distinct_sort set_sort)
  moreover have "sorted (map e_path (sort_key e_path ?es))"
    by simp
  ultimately show ?thesis
    by (simp add: tree_manifest_def simps_manifest_entries strict_sorted_iff)
qed

text \<open>
  C6: the manifest of a successful snapshot is the tree: its entries are, in strictly ascending
  order of their paths, one for each regular file no excluded directory lies above, with the
  file's own path, hash, permission bits and size; the workspace root is never excluded itself.
\<close>

theorem Snapshot_captures:
  assumes "s3_ok c" and "wf_tree root" and "Snapshot sys c s b root a = (Inr m, s', b')"
  shows "sorted_wrt (<) (map e_path (m_entries m)) \<and>
    set (m_entries m) = {\<lparr> e_path = rel_path q, e_hash = hex_sha sys d, e_mode = mode, e_size = length d \<rparr> | q d mode.
       leaf_at root q = Some (LFile d mode) \<and> unskipped q}"
proof
  from assms(1,3) have m: "m = tree_manifest sys s a root" and ok: "\<forall>v \<in> set (walk root). snd v \<noteq> LFail"
    by (elim Snapshot_Inr; simp)+
  show "sorted_wrt (<) (map e_path (m_entries m))"
    unfolding m by (rule tree_manifest_sorted [OF assms(2) ok])
  have "(q, LFile d mode) \<in> set (walk root) \<longleftrightarrow> leaf_at root q = Some (LFile d mode) \<and> unskipped q" for q d mode
    using walk_iff [OF assms(2), of q "LFile d mode"] by (auto simp: leaf_at_iff)
  moreover have "set (m_entries m) = {entry_of sys (q, LFile d mode) | q d mode. (q, LFile d mode) \<in> set (walk root)}"
    unfolding m set_tree_manifest using ok by (auto simp: image_iff) (metis leaf.exhaust snd_conv)+
  ultimately show "set (m_entries m) = {\<lparr> e_path = rel_path q, e_hash = hex_sha sys d, e_mode = mode, e_size = length d \<rparr> | q d mode.
       leaf_at root q = Some (LFile d mode) \<and> unskipped q}"
    by (simp add: entry_of_def)
qed

theorem Snapshot_captures_witness:
  "wf_tree demo_tree \<and> (\<exists>m s' b'. Snapshot demo_sys mem_s3 demo_store Map.empty demo_tree demo_args = (Inr m, s', b') \<and>
     sorted_wrt (<) (map e_path (m_entries m)) \<and>
     \<lparr> e_path = ''f'', e_hash = hex_sha demo_sys ''x'', e_mode = 493, e_size = 1 \<rparr> \<in> set (m_entries m))"
proof -
  have wf: "wf_tree demo_tree"
    by (simp add: demo_tree_def good_name_def)
  have "leaf_at demo_tree [''f''] = Some (LFile ''x'' 493)" "unskipped [''f'']" "rel_path [''f''] = ''f''"
    by (simp_all add: demo_tree_def leaf_at_def unskipped_def rel_path_def)
  then have f: "\<lparr> e_path = ''f'', e_hash = hex_sha demo_sys ''x'', e_mode = 493, e_size = 1 \<rparr>
      \<in> {\<lparr> e_path = rel_path q, e_hash = hex_sha demo_sys d, e_mode = mode, e_size = length d \<rparr> | q d mode.
       leaf_at demo_tree q = Some (LFile d mode) \<and> unskipped q}"
    by (intro CollectI exI [of _ "[''f'']"] exI [of _ "''x''"] exI [of _ 493]) simp
  obtain m s' b' where snap: "Snapshot demo_sys mem_s3 demo_store Map.empty demo_tree demo_args = (Inr m, s', b')"
    using demo_Snapshot by blast
  from Snapshot_captures [OF mem_s3_ok wf snap] f snap wf show ?thesis by auto
qed



end
