(* ===== verification/Store_Restore.thy ===== *)
theory Store_Restore
  imports Store_Snapshot
begin

text \<open>
  Restoring a checkpoint: safety of a single restore (what it writes was verified against the
  manifest), the resolution of the checkpoint to restore, and the round trip of a tree through
  snapshot and restore.
\<close>

subsection \<open>What exists in a partially restored tree\<close>

lemma fs_get_fs_new_prefix: "fs_get (fs_new q f) r = Some c \<Longrightarrow> \<not> is_dir f \<or> f = Dir [] \<Longrightarrow> \<exists>u. q = r @ u"
proof (induction q arbitrary: r)
  case Nil
  then show ?case by (cases r; cases f) auto
next
  case (Cons x q)
  then show ?case by (cases r) (auto split: if_splits)
qed

lemma fs_get_fs_put_prefix:
  "fs_put n q f = Some n' \<Longrightarrow> \<not> is_dir f \<Longrightarrow> fs_get n' r = Some c \<Longrightarrow> (\<exists>c'. fs_get n r = Some c') \<or> (\<exists>u. q = r @ u)"
proof (induction n q f arbitrary: n' r rule: fs_put.induct)
  case (3 cs x xs f)
  show ?case
  proof (cases r)
    case (Cons y ys)
    show ?thesis
    proof (cases "y = x")
      case True
      then show ?thesis
        using 3 Cons fs_get_fs_new_prefix [of xs f ys c]
        by (fastforce simp: map_of_insert_child split: option.splits)
    next
      case False
      then show ?thesis
        using "3.prems" Cons by (auto simp: map_of_insert_child split: option.splits)
    qed
  qed simp
qed (auto simp: fs_get_nondir elim!: fs_get.elims)

lemma fs_get_fs_mkdir_prefix:
  "fs_mkdir n q = Some n' \<Longrightarrow> fs_get n' r = Some c \<Longrightarrow> (\<exists>c'. fs_get n r = Some c') \<or> (\<exists>u. q = r @ u)"
proof (induction n q arbitrary: n' r rule: fs_mkdir.induct)
  case (3 cs x xs)
  show ?case
  proof (cases r)
    case (Cons y ys)
    show ?thesis
    proof (cases "y = x")
      case True
      then show ?thesis
        using 3 Cons fs_get_fs_new_prefix [of xs "Dir []" ys c]
        by (fastforce simp: map_of_insert_child split: option.splits)
    next
      case False
      then show ?thesis
        using "3.prems" Cons by (auto simp: map_of_insert_child split: option.splits)
    qed
  qed simp
qed auto

lemma fs_mkdir_get: "fs_mkdir n q = Some n' \<Longrightarrow> \<exists>ds. fs_get n' q = Some (Dir ds)"
proof (induction n q arbitrary: n' rule: fs_mkdir.induct)
  case (3 cs x xs)
  then show ?case by (auto simp: map_of_insert_child fs_get_fs_new split: option.splits)
qed auto

lemma Join_extends: "\<exists>v. Join (p @ (x @ y) # u) sep = Join (p @ [x]) sep @ y @ v"
proof (induction p)
  case Nil
  show ?case by (cases u) auto
next
  case (Cons z p)
  then show ?case by (cases p) auto
qed

lemma list_less_extend: "y \<noteq> [] \<Longrightarrow> xs < xs @ y" for xs :: string
  by (induction xs) (auto simp: neq_Nil_conv)

lemma rel_path_ws_tmp: "q \<noteq> [] \<Longrightarrow> rel_path q < rel_path (ws_tmp q @ u)"
proof -
  assume "q \<noteq> []"
  then have q: "q = butlast q @ [last q]" by simp
  obtain v where "Join (ws_tmp q @ u) ''/'' = Join q ''/'' @ ''.ws-tmp'' @ v"
    using Join_extends [of "butlast q" "last q" "''.ws-tmp''" u "''/''"] q by (auto simp: ws_tmp_def)
  then show ?thesis
    using list_less_extend [of "''.ws-tmp'' @ v" "Join q ''/''"] \<open>q \<noteq> []\<close> by (simp add: rel_path_def ws_tmp_def)
qed

lemma leaf_of_LFile: "leaf_of c = Some (LFile d m) \<longleftrightarrow> c = RegFile d m"
  by (cases c) auto

subsection \<open>One file after another\<close>

type_synonym saved_file = "string list \<times> bytes \<times> file_mode"

definition rmode :: "gosys \<Rightarrow> file_mode \<Rightarrow> file_mode" where
  "rmode sys m = (if m = 0 then 420 else m) AND NOT (umask sys)"

definition file_entry :: "gosys \<Rightarrow> saved_file \<Rightarrow> entry" where
  "file_entry sys x = (case x of (q, d, m) \<Rightarrow>
     \<lparr> e_path = rel_path q, e_hash = hex_sha sys d, e_mode = m, e_size = length d \<rparr>)"

text \<open>The files of \<open>done\<close> have been restored from the tree \<open>t\<close>, and nothing else is there.\<close>

definition partial :: "gosys \<Rightarrow> node \<Rightarrow> saved_file list \<Rightarrow> node \<Rightarrow> bool" where
  "partial sys t xs n \<longleftrightarrow> ordered_tree n \<and> fits n t \<and> is_dir n \<and>
     (\<forall>r l. leaf_at n r = Some l \<longleftrightarrow> (\<exists>d m. (r, d, m) \<in> set xs \<and> l = LFile d (rmode sys m))) \<and>
     (\<forall>r c. r \<noteq> [] \<longrightarrow> fs_get n r = Some c \<longrightarrow> (\<exists>q d m u. (q, d, m) \<in> set xs \<and> q = r @ u))"

lemma partial_tmp_free:
  assumes "partial sys t xs n" and "\<forall>(q', d', m') \<in> set xs. rel_path q' < rel_path q" and "q \<noteq> []"
    and "fs_mkdir n (butlast q) = Some n1"
  shows "fs_get n1 (ws_tmp q) = None"
proof (rule ccontr)
  assume "fs_get n1 (ws_tmp q) \<noteq> None"
  then obtain c where c: "fs_get n1 (ws_tmp q) = Some c" by auto
  have ne: "ws_tmp q \<noteq> []" by (simp add: ws_tmp_def)
  have "\<not> (\<exists>u. butlast q = ws_tmp q @ u)" by (simp add: ws_tmp_def)
  with fs_get_fs_mkdir_prefix [OF assms(4) c] obtain c' where "fs_get n (ws_tmp q) = Some c'" by auto
  with assms(1) ne obtain q' d m u where q': "(q', d, m) \<in> set xs" "q' = ws_tmp q @ u"
    unfolding partial_def by blast
  with assms(2) have "rel_path (ws_tmp q @ u) < rel_path q" by auto
  with rel_path_ws_tmp [OF assms(3), of u] show False by simp
qed

lemma partial_step:
  assumes "partial sys t xs n" and "\<forall>(q', d', m') \<in> set xs. rel_path q' < rel_path q"
    and "q \<noteq> []" "\<forall>x \<in> set q. good_name x" and "leaf_at t q = Some (LFile d m)"
  obtains n1 n2 where "fs_mkdir n (butlast q) = Some n1"
    and "place_file n1 q d (rmode sys m) = (True, n2)" and "partial sys t (xs @ [(q, d, m)]) n2"
proof -
  note P = assms(1) [unfolded partial_def]
  have cq: "fs_get t q = Some (RegFile d m)" "\<not> is_dir (RegFile d m)"
    using assms(5) by (simp_all add: leaf_at_iff leaf_of_LFile)
  obtain dq where "fs_get t (butlast q) = Some dq" "is_dir dq"
    using fs_get_butlast_dir [OF cq(1) assms(3)] by blast
  then obtain n1 where n1: "fs_mkdir n (butlast q) = Some n1" "fits n1 t"
    using fs_mkdir_fits [of n t "butlast q" dq] P by auto
  then obtain n2 where n2: "fs_put n1 q (RegFile d (rmode sys m)) = Some n2" "fits n2 t"
    using fs_put_fits [OF n1(2) cq, of "RegFile d (rmode sys m)"] by auto
  have good: "\<forall>x \<in> set (butlast q). good_name x"
    using assms(4) by (auto dest: in_set_butlastD)
  have o1: "ordered_tree n1"
    using P good n1(1) by (blast intro: ordered_fs_mkdir)
  obtain ds where "fs_get n1 (butlast q) = Some (Dir ds)"
    using fs_mkdir_get [OF n1(1)] by blast
  then have placed: "place_file n1 q d (rmode sys m) = (True, n2)"
    using o1 assms(3) partial_tmp_free [OF assms(1,2,3) n1(1)] n2(1) by (intro place_file_fresh)
  have lf: "leaf_at n2 r = (if r = q then Some (LFile d (rmode sys m)) else leaf_at n r)" for r
    using leaf_at_fs_put [OF n2(1)] leaf_at_fs_mkdir [OF n1(1)] by simp
  have fresh: "leaf_at n q = None"
    using P assms(2) by (cases "leaf_at n q") auto
  have "partial sys t (xs @ [(q, d, m)]) n2"
    unfolding partial_def
  proof (intro conjI allI impI)
    show "ordered_tree n2"
      by (rule ordered_fs_put [OF o1 assms(4) _ n2(1)]) simp
    show "fits n2 t" by fact
    show "is_dir n2"
      using fits_is_dir [OF n2(2)] fits_is_dir [of n t] P by simp
    show "leaf_at n2 r = Some l \<longleftrightarrow>
        (\<exists>d' m'. (r, d', m') \<in> set (xs @ [(q, d, m)]) \<and> l = LFile d' (rmode sys m'))" for r l
    proof (cases "r = q")
      case True
      then have "\<not> (\<exists>d' m'. (r, d', m') \<in> set xs)"
        using fresh P by (metis option.distinct(1))
      with True lf show ?thesis by auto
    next
      case False
      with lf P show ?thesis by auto
    qed
    show "\<exists>q' d' m' u. (q', d', m') \<in> set (xs @ [(q, d, m)]) \<and> q' = r @ u" if "r \<noteq> []" "fs_get n2 r = Some c" for r c
    proof -
      have "(\<exists>c. fs_get n r = Some c) \<or> (\<exists>u. q = r @ u)"
        using fs_get_fs_put_prefix [OF n2(1) _ that(2)] fs_get_fs_mkdir_prefix [OF n1(1)]
        by (metis append.assoc append_butlast_last_id assms(3) is_dir.simps(2))
      with P that(1) show ?thesis by (auto; blast)
    qed
  qed
  with that n1(1) placed show thesis by blast
qed

lemma restore_entry_file:
  assumes "s3_up c" and "b (objectKey s (hex_sha sys d)) = Some d" and "\<forall>x \<in> set q. good_name x"
    and "fs_mkdir n (butlast q) = Some n1" and "place_file n1 q d (rmode sys m) = (True, n2)"
  shows "restore_entry sys c s b (file_entry sys (q, d, m)) n = (None, n2)"
proof -
  have "restore_mode sys (file_entry sys (q, d, m)) = rmode sys m"
    by (simp add: restore_mode_def rmode_def file_entry_def)
  moreover have "e_path (file_entry sys (q, d, m)) = rel_path q" "e_hash (file_entry sys (q, d, m)) = hex_sha sys d"
    by (simp_all add: file_entry_def)
  ultimately show ?thesis
    using assms(2,4,5)
    by (simp add: restore_entry_def path_components_rel [OF assms(3)] s3_upD [OF assms(1)])
qed

lemma restore_entries_files:
  assumes "s3_up c"
  shows "partial sys t xs n \<Longrightarrow> sorted_wrt (<) (map (\<lambda>(q, d, m). rel_path q) (xs @ ys)) \<Longrightarrow>
    \<forall>(q, d, m) \<in> set ys. q \<noteq> [] \<and> (\<forall>x \<in> set q. good_name x) \<and> leaf_at t q = Some (LFile d m) \<and>
      b (objectKey s (hex_sha sys d)) = Some d \<Longrightarrow>
    \<exists>n'. restore_entries sys c s b (map (file_entry sys) ys) n = (None, n') \<and> partial sys t (xs @ ys) n'"
proof (induction ys arbitrary: xs n)
  case (Cons y ys)
  obtain q d m where y: "y = (q, d, m)" by (cases y)
  have less: "\<forall>(q', d', m') \<in> set xs. rel_path q' < rel_path q"
    using Cons.prems(2) by (auto simp: y sorted_wrt_append)
  have q: "q \<noteq> []" "\<forall>x \<in> set q. good_name x" "leaf_at t q = Some (LFile d m)"
    "b (objectKey s (hex_sha sys d)) = Some d"
    using Cons.prems(3) y by auto
  obtain n1 n2 where step: "fs_mkdir n (butlast q) = Some n1" "place_file n1 q d (rmode sys m) = (True, n2)"
      "partial sys t (xs @ [(q, d, m)]) n2"
    using partial_step [OF Cons.prems(1) less q(1,2,3)] by blast
  have "\<exists>n'. restore_entries sys c s b (map (file_entry sys) ys) n2 = (None, n') \<and>
      partial sys t ((xs @ [(q, d, m)]) @ ys) n'"
    by (rule Cons.IH [OF step(3)]) (use Cons.prems(2,3) y in auto)
  moreover have "restore_entry sys c s b (file_entry sys (q, d, m)) n = (None, n2)"
    by (rule restore_entry_file) (fact assms q step)+
  ultimately show ?case
    by (simp add: y)
qed simp

lemma partial_empty: "is_dir t \<Longrightarrow> partial sys t [] (Dir [])"
proof -
  assume "is_dir t"
  then obtain ts where "t = Dir ts" by (cases t) auto
  moreover have "leaf_at (Dir []) r = None" for r
    by (cases r) (simp_all add: leaf_at_Dir)
  ultimately show ?thesis
    by (auto simp: partial_def fits_Dir neq_Nil_conv)
qed

subsection \<open>The files of a manifest\<close>

definition restored_leaf :: "gosys \<Rightarrow> node \<Rightarrow> string list \<Rightarrow> leaf option" where
  "restored_leaf sys t q =
     (case leaf_at t q of
        Some (LFile d m) \<Rightarrow> if unskipped q then Some (LFile d (rmode sys m)) else None
      | _ \<Rightarrow> None)"

definition tree_files :: "node \<Rightarrow> saved_file list" where
  "tree_files t = sort_key (\<lambda>(q, d, m). rel_path q)
     (map (\<lambda>(q, l). case l of LFile d m \<Rightarrow> (q, d, m)) (walk t))"

lemma map_sort_key: "map f (sort_key (\<lambda>x. k (f x)) xs) = sort_key k (map f xs)"
proof -
  have ins: "map f (insort_key (\<lambda>x. k (f x)) y ys) = insort_key k (f y) (map f ys)" for y ys
    by (induction ys) auto
  show ?thesis by (induction xs) (auto simp: ins)
qed

lemma tree_manifest_files:
  assumes "\<forall>v \<in> set (walk t). snd v \<noteq> LFail"
  shows "m_entries (tree_manifest sys s a t) = map (file_entry sys) (tree_files t)"
proof -
  let ?file = "\<lambda>(q, l). case l of LFile d m \<Rightarrow> (q, d, m)"
  have "map (entry_of sys) (walk t) = map (file_entry sys) (map ?file (walk t))"
    using assms by (auto simp: entry_of_def file_entry_def split: leaf.splits)
  moreover have "(\<lambda>(q, d, m). rel_path q) = (\<lambda>x. e_path (file_entry sys x))"
    by (auto simp: file_entry_def)
  ultimately show ?thesis
    by (simp only: tree_manifest_def simps_manifest_entries tree_files_def map_sort_key)
qed

lemma set_tree_files:
  assumes "wf_tree t" and "\<forall>v \<in> set (walk t). snd v \<noteq> LFail"
  shows "(q, d, m) \<in> set (tree_files t) \<longleftrightarrow> leaf_at t q = Some (LFile d m) \<and> unskipped q"
proof -
  have "(q, d, m) \<in> set (tree_files t) \<longleftrightarrow> (q, LFile d m) \<in> set (walk t)"
    using assms(2) by (force simp: tree_files_def split: leaf.splits)
  then show ?thesis
    using walk_iff [OF assms(1), of q "LFile d m"] by (auto simp: leaf_at_iff)
qed

lemma tree_files_good:
  "wf_tree t \<Longrightarrow> \<forall>v \<in> set (walk t). snd v \<noteq> LFail \<Longrightarrow> (q, d, m) \<in> set (tree_files t) \<Longrightarrow> x \<in> set q \<Longrightarrow> good_name x"
  by (force simp: tree_files_def dest: walk_names split: leaf.splits)

lemma tree_files_sorted:
  assumes "wf_tree t" and "\<forall>v \<in> set (walk t). snd v \<noteq> LFail"
  shows "sorted_wrt (<) (map (\<lambda>(q, d, m). rel_path q) (tree_files t))"
proof -
  have "(\<lambda>(q, d, m). rel_path q) = e_path \<circ> file_entry demo_sys"
    by (auto simp: file_entry_def)
  then show ?thesis
    using tree_manifest_sorted [OF assms, of demo_sys demo_store demo_args] tree_manifest_files [OF assms(2)]
    by simp
qed

subsection \<open>The way back\<close>

definition ascii_manifest :: "manifest \<Rightarrow> bool" where
  "ascii_manifest m \<longleftrightarrow> ascii (m_id m) \<and> ascii (m_workspaceID m) \<and> ascii (m_parent m) \<and> ascii (m_name m) \<and>
     ascii (m_description m) \<and> ascii (m_trigger m) \<and> (\<forall>e \<in> set (m_entries m). ascii (e_path e) \<and> ascii (e_hash e))"

lemma json_image_ascii:
  assumes "json_ok sys" and "ascii_manifest m"
  shows "json_image sys m = m"
proof -
  have "json_entry sys e = e" if "e \<in> set (m_entries m)" for e
    using assms that by (auto simp: json_entry_def ascii_manifest_def json_okD(2))
  then have "map (json_entry sys) (m_entries m) = m_entries m"
    by (simp add: map_idI)
  with assms show ?thesis
    by (auto simp: json_image_def ascii_manifest_def json_okD(2))
qed

text \<open>No two of the given contents share a hash: what the content address relies on of SHA-256.\<close>

definition collision_free :: "gosys \<Rightarrow> bytes set \<Rightarrow> bool" where
  "collision_free sys D \<longleftrightarrow> (\<forall>d \<in> D. \<forall>d' \<in> D. hex_sha sys d = hex_sha sys d' \<longrightarrow> d = d')"

lemma Snapshot_objects:
  assumes "s3_ok c" "json_ok sys" "store_inv sys s b" and "Snapshot sys c s b t a = (Inr m, s', b')"
    and "\<forall>cid \<in> checkpoints s b. cid \<le> newID sys (sv_now a) (sv_pid a)"
    and "collision_free sys (tree_data (walk t) \<union> ran b)" and "d \<in> tree_data (walk t)"
  shows "b' (objectKey s (hex_sha sys d)) = Some d"
proof -
  from assms(1,4) obtain b3 where m: "m = tree_manifest sys s a t"
    and b3: "\<forall>h v. b3 (objectKey s h) = Some v \<longrightarrow> b (objectKey s h) = Some v \<or> v \<in> tree_data (walk t)"
    and b': "b' = snd (Prune sys c s' b3)"
    by (elim Snapshot_Inr)
  have inv: "store_inv sys s b'"
    by (rule Snapshot_store_inv [OF assms(1-4)])
  have man: "b' (manifestKey s (m_id m)) = Some (json_marshal sys m)" "m_id m \<noteq> []"
    using Snapshot_manifest [OF assms(1,4,5)] m by simp_all
  have comp: "complete sys s b' (json_image sys m)"
    by (rule store_invD [OF inv man(2,1) json_okD(1) [OF assms(2)]])
  obtain q mode where "(q, LFile d mode) \<in> set (walk t)"
    using assms(7) by (auto simp: tree_data_def)
  then have "entry_of sys (q, LFile d mode) \<in> set (m_entries m)"
    unfolding m set_tree_manifest by blast
  then have "json_entry sys (entry_of sys (q, LFile d mode)) \<in> set (m_entries (json_image sys m))"
    by (simp add: json_image_def)
  with comp obtain d' where d': "b' (objectKey s (hex_sha sys d)) = Some d'" "hex_sha sys d' = hex_sha sys d"
    using json_okD(2) [OF assms(2)] by (fastforce simp: complete_def json_entry_def entry_of_def)
  have "b3 (objectKey s (hex_sha sys d)) = Some d'"
    using Prune_keeps(3) [OF assms(1), of sys s' b3 _ b'] b' d'(1) by (metis option.distinct(1) prod.collapse)
  then have "d' \<in> tree_data (walk t) \<union> ran b"
    using b3 by (auto intro: ranI)
  with assms(6,7) d' have "d' = d"
    unfolding collision_free_def by blast
  with d'(1) show ?thesis by simp
qed

lemma Restore_tree:
  assumes "s3_up c" "wf_tree t" "is_dir t" "\<forall>v \<in> set (walk t). snd v \<noteq> LFail"
    and "\<forall>d \<in> tree_data (walk t). b (objectKey s (hex_sha sys d)) = Some d"
    and "m_entries m = map (file_entry sys) (tree_files t)"
  shows "\<exists>n. Restore sys c s b (Dir []) m = (None, s\<lparr>st_restoredDigest := manifestDigest sys m\<rparr>, n) \<and>
    ordered_tree n \<and> is_dir n \<and> (\<forall>q. leaf_at n q = restored_leaf sys t q)"
proof -
  let ?s = "s\<lparr>st_restoredDigest := manifestDigest sys m\<rparr>"
  have files: "q \<noteq> [] \<and> (\<forall>x \<in> set q. good_name x) \<and> leaf_at t q = Some (LFile d mode) \<and>
      b (objectKey ?s (hex_sha sys d)) = Some d" if x: "(q, d, mode) \<in> set (tree_files t)" for q d mode
  proof -
    have "leaf_at t q = Some (LFile d mode)" and u: "unskipped q"
      using x set_tree_files [OF assms(2,4)] by auto
    moreover from this have "(q, LFile d mode) \<in> set (walk t)"
      using walk_iff [OF assms(2), of q "LFile d mode"] by (auto simp: leaf_at_iff)
    then have "d \<in> tree_data (walk t)" by (auto simp: tree_data_def)
    moreover have "q \<noteq> []"
      using calculation(1) assms(3) by (cases t) (auto simp: leaf_at_Dir)
    ultimately show ?thesis
      using assms(5) tree_files_good [OF assms(2,4) x] by auto
  qed
  have "\<exists>n. restore_entries sys c ?s b (map (file_entry sys) (tree_files t)) (Dir []) = (None, n) \<and>
      partial sys t ([] @ tree_files t) n"
    by (rule restore_entries_files [OF assms(1) partial_empty [OF assms(3)]])
      (use tree_files_sorted [OF assms(2,4)] files in auto)
  then obtain n where n: "restore_entries sys c ?s b (map (file_entry sys) (tree_files t)) (Dir []) = (None, n)"
      "partial sys t (tree_files t) n" by auto
  have "leaf_at n q = Some l \<longleftrightarrow> restored_leaf sys t q = Some l" for q l
    using n(2) unfolding partial_def set_tree_files [OF assms(2,4)]
    by (auto simp: restored_leaf_def split: option.splits leaf.splits)
  then have "leaf_at n q = restored_leaf sys t q" for q
    by (metis option.exhaust)
  with n show ?thesis
    by (simp add: Restore_def assms(6) partial_def)
qed

lemma sorted_key_unique:
  fixes f :: "'a \<Rightarrow> 'b :: linorder"
  shows "sorted_wrt (<) (map f xs) \<Longrightarrow> sorted_wrt (<) (map f ys) \<Longrightarrow> set xs = set ys \<Longrightarrow> xs = ys"
proof (induction xs arbitrary: ys)
  case (Cons x xs)
  then obtain y zs where ys: "ys = y # zs" by (cases ys) auto
  have "x = y"
  proof (rule ccontr)
    assume "x \<noteq> y"
    with Cons.prems(3) ys have "x \<in> set zs" "y \<in> set xs" by auto
    with Cons.prems(1,2) ys have "f y < f x" "f x < f y" by auto
    then show False by simp
  qed
  moreover have "x \<notin> set xs" "y \<notin> set zs"
    using Cons.prems(1,2) ys by auto
  with Cons.prems(3) ys \<open>x = y\<close> have "set xs = set zs" by auto
  ultimately show ?case
    using Cons.IH [of zs] Cons.prems(1,2) ys by simp
qed simp

lemma restored_files:
  assumes "wf_tree t" "\<forall>v \<in> set (walk t). snd v \<noteq> LFail" "wf_tree n"
    and "\<forall>q. leaf_at n q = restored_leaf sys t q"
    and "\<forall>q d m. leaf_at t q = Some (LFile d m) \<longrightarrow> rmode sys m = m"
  shows "\<forall>v \<in> set (walk n). snd v \<noteq> LFail" and "tree_files n = tree_files t"
proof -
  have leaves: "leaf_at n q = Some l \<longleftrightarrow> (\<exists>d m. l = LFile d m \<and> leaf_at t q = Some (LFile d m) \<and> unskipped q)" for q l
    using assms(4,5) by (auto simp: restored_leaf_def split: option.splits leaf.splits if_splits)
  show ok: "\<forall>v \<in> set (walk n). snd v \<noteq> LFail"
  proof
    fix v assume "v \<in> set (walk n)"
    then have "leaf_at n (fst v) = Some (snd v)"
      using walk_iff [OF assms(3), of "fst v" "snd v"] by (simp add: leaf_at_iff)
    then show "snd v \<noteq> LFail" using leaves by fastforce
  qed
  have "set (tree_files n) = set (tree_files t)"
    using set_tree_files [OF assms(3) ok] set_tree_files [OF assms(1,2)] leaves by auto
  then show "tree_files n = tree_files t"
    by (rule sorted_key_unique [OF tree_files_sorted [OF assms(3) ok] tree_files_sorted [OF assms(1,2)]])
qed

lemma upload_all_up:
  "s3_up c \<Longrightarrow> \<forall>v \<in> set vs. snd v \<noteq> LFail \<Longrightarrow> \<exists>es b'. upload_all sys c s b vs = (Inr es, b')"
proof (induction vs arbitrary: b)
  case (Cons v vs)
  then obtain p d m where v: "v = (p, LFile d m)"
    by (cases v; cases "snd v") auto
  have "\<exists>q b1. putIfAbsent c s b (hex_sha sys d) d = (Inr q, b1)"
    by (cases "s3_stat c b (objectKey s (hex_sha sys d))") (auto simp: putIfAbsent_def s3_upD [OF Cons.prems(1)])
  then obtain q b1 where "putIfAbsent c s b (hex_sha sys d) d = (Inr q, b1)" by blast
  moreover obtain es b2 where "upload_all sys c s b1 vs = (Inr es, b2)"
    using Cons.IH [of b1] Cons.prems by auto
  ultimately show ?case by (simp add: v)
qed simp

subsection \<open>What a restore may write\<close>

lemma map_of_remove_child_sorted:
  "sorted_wrt (<) (map fst cs) \<Longrightarrow> map_of (remove_child x cs) y = Some c \<Longrightarrow> map_of cs y = Some c"
  by (induction x cs rule: remove_child.induct) (auto dest!: map_of_SomeD split: if_splits)

lemma sorted_remove_child:
  "sorted_wrt (<) (map fst cs) \<Longrightarrow> sorted_wrt (<) (map fst (remove_child x cs)) \<and> set (remove_child x cs) \<subseteq> set cs"
  by (induction x cs rule: remove_child.induct) auto

lemma ordered_child: "ordered_tree (Dir cs) \<Longrightarrow> map_of cs x = Some c \<Longrightarrow> ordered_tree c"
  by (auto simp: list_all_iff dest!: map_of_SomeD)

lemma ordered_fs_del: "ordered_tree n \<Longrightarrow> ordered_tree (fs_del n p)"
proof (induction n p rule: fs_del.induct)
  case (1 cs x)
  then show ?case
    using sorted_remove_child [of cs x] by (auto simp: list_all_iff)
next
  case (2 cs x y ys)
  show ?case
  proof (cases "map_of cs x")
    case (Some c)
    have "ordered_tree (fs_del c (y # ys))"
      using 2 Some ordered_child [OF "2.prems" Some] by blast
    moreover have "good_name x"
      using Some "2.prems" by (auto simp: list_all_iff dest!: map_of_SomeD)
    ultimately show ?thesis
      using "2.prems" Some by (auto simp: list_all_iff sorted_insert_child set_insert_child)
  qed (use 2 in simp)
qed simp_all

lemma leaf_at_fs_del:
  "ordered_tree n \<Longrightarrow> leaf_at (fs_del n p) q = Some l \<Longrightarrow> leaf_at n q = Some l"
proof (induction n p arbitrary: q rule: fs_del.induct)
  case (1 cs x)
  show ?case
  proof (cases q)
    case Nil
    with 1 show ?thesis by (simp add: leaf_at_Dir)
  next
    case (Cons y ys)
    then obtain c where c: "map_of (remove_child x cs) y = Some c" "leaf_at c ys = Some l"
      using "1.prems"(2) by (auto simp: leaf_at_Dir split: option.splits)
    have "map_of cs y = Some c"
      using c(1) "1.prems"(1) map_of_remove_child_sorted by fastforce
    with Cons c(2) show ?thesis by (simp add: leaf_at_Dir)
  qed
next
  case (2 cs x y ys)
  show ?case
  proof (cases "map_of cs x")
    case None
    with 2 show ?thesis by simp
  next
    case (Some c)
    with 2 ordered_child [OF "2.prems"(1) Some] show ?thesis
      by (cases q) (auto simp: leaf_at_Dir map_of_insert_child split: option.splits if_splits)
  qed
qed simp_all

lemma leaf_at_fs_new_any: "leaf_at (fs_new q f) r = Some l \<Longrightarrow> \<not> is_dir f \<Longrightarrow> r = q \<and> leaf_of f = Some l"
proof (induction q arbitrary: r)
  case Nil
  then show ?case by (cases f; cases r) (auto simp: leaf_at_def)
next
  case (Cons x q)
  then show ?case by (cases r) (auto simp: leaf_at_Dir split: if_splits)
qed

lemma leaf_at_fs_put_any:
  "fs_put n q f = Some n' \<Longrightarrow> \<not> is_dir f \<Longrightarrow> leaf_at n' r = Some l \<Longrightarrow> leaf_at n r = Some l \<or> r = q \<and> leaf_of f = Some l"
proof (induction n q f arbitrary: n' r rule: fs_put.induct)
  case (3 cs x xs f)
  show ?case
  proof (cases r)
    case Nil
    with 3 show ?thesis by (auto simp: leaf_at_Dir split: option.splits)
  next
    case (Cons y ys)
    with 3 show ?thesis
      by (fastforce simp: leaf_at_Dir map_of_insert_child dest: leaf_at_fs_new_any split: option.splits if_splits)
  qed
qed (use leaf_at_fs_new_any [of "[]"] in auto)

lemma good_ws_tmp: "q \<noteq> [] \<Longrightarrow> \<forall>x \<in> set q. good_name x \<Longrightarrow> \<forall>x \<in> set (ws_tmp q). good_name x"
  by (auto simp: ws_tmp_def good_name_def dest: in_set_butlastD)

lemma write_file_leaf:
  assumes "ordered_tree n" "\<forall>x \<in> set p. good_name x" and "write_file n p d mode = Some n'"
  shows "ordered_tree n'"
    and "leaf_at n' x = Some (LFile d' m') \<Longrightarrow> leaf_at n x = Some (LFile d' m') \<or> d' = d \<and> x = p"
    and "fs_get n' p = Some f \<Longrightarrow> \<not> is_dir f \<and> ordered_tree f \<and> (leaf_of f = Some (LFile d' m') \<longrightarrow> d' = d)"
proof -
  have "(\<exists>m0. fs_put n p (RegFile d m0) = Some n') \<or> fs_get n p = Some Special \<and> n = n'"
    using assms(3) by (simp add: write_file_def split: option.splits node.splits) blast+
  then consider (put) m0 where "fs_put n p (RegFile d m0) = Some n'" | (link) "fs_get n p = Some Special" "n = n'"
    by blast
  note outcomes = this
  from outcomes show "ordered_tree n'"
  proof cases
    case (put m0)
    show ?thesis by (rule ordered_fs_put [OF assms(1,2) _ put]) simp
  qed (use assms(1) in simp)
  from outcomes show "leaf_at n x = Some (LFile d' m') \<or> d' = d \<and> x = p" if "leaf_at n' x = Some (LFile d' m')"
    by cases (use that leaf_at_fs_put [of n p d _ n' x] in \<open>auto split: if_splits\<close>)
  from outcomes show "\<not> is_dir f \<and> ordered_tree f \<and> (leaf_of f = Some (LFile d' m') \<longrightarrow> d' = d)" if "fs_get n' p = Some f"
    by cases (use that fs_get_fs_put_same [of n p _ n'] in auto)
qed

text \<open>Placing a file adds that content, at its path or under the temporary name, and no other.\<close>

lemma place_file_leaf:
  assumes "ordered_tree n" "\<forall>x \<in> set q. good_name x" and "place_file n q d mode = (r, n')"
  shows "ordered_tree n'"
    and "leaf_at n' x = Some (LFile d' m') \<Longrightarrow> leaf_at n x = Some (LFile d' m') \<or> d' = d \<and> x \<in> {q, ws_tmp q}"
proof -
  consider (none) "n' = n" | (tmp) "q \<noteq> []" "write_file n (ws_tmp q) d mode = Some n'" |
    (full) n1 f where "q \<noteq> []" "write_file n (ws_tmp q) d mode = Some n1" "fs_get n1 (ws_tmp q) = Some f"
      "fs_put (fs_del n1 (ws_tmp q)) q f = Some n'"
    using assms(3) by (auto simp: place_file_def split: if_splits option.splits)
  note outcomes = this
  have tmp: "\<forall>x \<in> set (ws_tmp q). good_name x" if "q \<noteq> []"
    by (rule good_ws_tmp [OF that assms(2)])
  from outcomes show "ordered_tree n'"
  proof cases
    case (full n1 f)
    note w = write_file_leaf [OF assms(1) tmp [OF full(1)] full(2)]
    show ?thesis
      using ordered_fs_put [OF ordered_fs_del [OF w(1)] assms(2) _ full(4)] w(3) [OF full(3)] by blast
  qed (use assms(1) write_file_leaf(1) [OF assms(1) tmp] in auto)
  from outcomes show "leaf_at n x = Some (LFile d' m') \<or> d' = d \<and> x \<in> {q, ws_tmp q}"
    if "leaf_at n' x = Some (LFile d' m')"
  proof cases
    case tmp': tmp
    then show ?thesis
      using write_file_leaf(2) [OF assms(1) tmp tmp'(2) that] by blast
  next
    case (full n1 f)
    note w = write_file_leaf [OF assms(1) tmp [OF full(1)] full(2)]
    have "leaf_at (fs_del n1 (ws_tmp q)) x = Some (LFile d' m') \<or> x = q \<and> leaf_of f = Some (LFile d' m')"
      using leaf_at_fs_put_any [OF full(4) _ that] w(3) [OF full(3)] by blast
    then show ?thesis
      using leaf_at_fs_del [OF w(1)] w(2) w(3) [OF full(3)] by blast
  qed (use that in simp)
qed

lemma path_components_good: "x \<in> set (path_components s) \<Longrightarrow> good_name x"
proof -
  have step: "CHR ''/'' \<notin> set p \<Longrightarrow> \<forall>x \<in> set acc. good_name x \<Longrightarrow> \<forall>x \<in> set (path_step acc p). good_name x" for p acc
    by (cases "p = ''..''") (auto simp: path_step_def good_name_def dest: in_set_butlastD)
  have "\<forall>p \<in> set ps. CHR ''/'' \<notin> set p \<Longrightarrow> \<forall>x \<in> set acc. good_name x \<Longrightarrow>
      \<forall>x \<in> set (foldl path_step acc ps). good_name x" for ps acc
  proof (induction ps arbitrary: acc)
    case (Cons p ps)
    then show ?case using step [of p acc] by simp
  qed simp
  from this [OF split_on_pieces, of "[]" s] have "\<forall>x \<in> set (path_components s). good_name x"
    by (simp add: path_components_def)
  then show "x \<in> set (path_components s) \<Longrightarrow> good_name x" by blast
qed

lemma restore_entry_outcome:
  assumes "ordered_tree n" and "restore_entry sys c s b e n = (r, n')"
  shows "ordered_tree n'"
    and "leaf_at n' q = Some (LFile d mode) \<Longrightarrow> leaf_at n q = Some (LFile d mode) \<or>
      hex_sha sys d = e_hash e \<and> q \<in> {path_components (e_path e), ws_tmp (path_components (e_path e))}"
    and "r = None \<Longrightarrow> \<exists>data. s3_get c b (objectKey s (e_hash e)) = Inr data \<and> hex_sha sys data = e_hash e"
proof -
  let ?q = "path_components (e_path e)"
  have good: "\<forall>x \<in> set ?q. good_name x" "\<forall>x \<in> set (butlast ?q). good_name x"
    using path_components_good by (auto dest: in_set_butlastD)
  have outcomes: "n' = n \<and> r \<noteq> None \<or> (\<exists>n1. fs_mkdir n (butlast ?q) = Some n1 \<and> (n' = n1 \<and> r \<noteq> None \<or>
      (\<exists>data ok. s3_get c b (objectKey s (e_hash e)) = Inr data \<and> hex_sha sys data = e_hash e \<and>
         place_file n1 ?q data (restore_mode sys e) = (ok, n'))))"
  proof (cases "fs_mkdir n (butlast ?q)")
    case None
    with assms(2) show ?thesis by (auto simp: restore_entry_def Let_def)
  next
    case mk: (Some n1)
    show ?thesis
    proof (cases "s3_get c b (objectKey s (e_hash e))")
      case (Inl er)
      with mk assms(2) show ?thesis by (simp add: restore_entry_def Let_def) metis
    next
      case (Inr data)
      obtain ok n2 where "place_file n1 ?q data (restore_mode sys e) = (ok, n2)" by fastforce
      with mk Inr assms(2) show ?thesis
        by (cases "hex_sha sys data = e_hash e"; cases ok) (auto simp: restore_entry_def Let_def)
    qed
  qed
  have n1: "ordered_tree n1" "leaf_at n1 x = leaf_at n x" if "fs_mkdir n (butlast ?q) = Some n1" for n1 x
    using ordered_fs_mkdir [OF assms(1) good(2) that] leaf_at_fs_mkdir [OF that] by auto
  from outcomes show "ordered_tree n'"
    using assms(1) n1(1) place_file_leaf(1) [OF _ good(1)] by metis
  from outcomes show "leaf_at n q = Some (LFile d mode) \<or> hex_sha sys d = e_hash e \<and> q \<in> {?q, ws_tmp ?q}"
    if "leaf_at n' q = Some (LFile d mode)"
    using that n1 place_file_leaf(2) [OF _ good(1)] by metis
  from outcomes show "\<exists>data. s3_get c b (objectKey s (e_hash e)) = Inr data \<and> hex_sha sys data = e_hash e" if "r = None"
    using that by blast
qed

lemma restore_entries_outcome:
  "ordered_tree n \<Longrightarrow> restore_entries sys c s b es n = (r, n') \<Longrightarrow>
     (\<forall>q d mode. leaf_at n' q = Some (LFile d mode) \<longrightarrow> leaf_at n q = Some (LFile d mode) \<or>
        (\<exists>e \<in> set es. hex_sha sys d = e_hash e \<and> q \<in> {path_components (e_path e), ws_tmp (path_components (e_path e))})) \<and>
     (r = None \<longrightarrow> (\<forall>e \<in> set es. \<exists>data. s3_get c b (objectKey s (e_hash e)) = Inr data \<and> hex_sha sys data = e_hash e))"
proof (induction es arbitrary: n)
  case (Cons e es)
  obtain r1 n1 where one: "restore_entry sys c s b e n = (r1, n1)" by fastforce
  note o = restore_entry_outcome [OF Cons.prems(1) one]
  show ?case
  proof (cases r1)
    case None
    with Cons.prems(2) one have "restore_entries sys c s b es n1 = (r, n')" by simp
    from Cons.IH [OF o(1) this] o(2,3) None show ?thesis
      by (metis list.set_intros(1) list.set_intros(2) set_ConsD)
  next
    case (Some er)
    with Cons.prems(2) one o(2) show ?thesis by auto
  qed
qed simp

subsection \<open>The small tree again\<close>

lemma demo_tree_wf: "wf_tree demo_tree" "is_dir demo_tree"
  by (simp_all add: demo_tree_def good_name_def)

lemma demo_empty_inv: "store_inv demo_sys demo_store Map.empty" "checkpoints demo_store Map.empty = {}"
  by (simp_all add: store_inv_def content_addressed_def checkpoints_def)

lemma demo_collision_free: "collision_free demo_sys D"
proof -
  have "EncodeToString d = EncodeToString d' \<Longrightarrow> d = d'" for d d'
  proof -
    assume eq: "EncodeToString d = EncodeToString d'"
    then have "length d = length d'"
      using length_EncodeToString [of d] length_EncodeToString [of d'] by simp
    then show "d = d'"
      using EncodeToString_less [of d d'] EncodeToString_less [of d' d] eq by (metis less_irrefl linorder_neqE)
  qed
  then show ?thesis
    by (auto simp: collision_free_def hex_sha_def demo_sys_def)
qed

lemma demo_manifest_ascii: "ascii_manifest (tree_manifest demo_sys demo_store demo_args demo_tree)"
proof -
  have "ascii (newID demo_sys 1790000000000000000 7)" by (simp add: newID_def)
  then show ?thesis
    by (simp add: ascii_manifest_def tree_manifest_def snapshot_manifest_def demo_walk entry_of_def rel_path_def)
      (simp add: ascii_def demo_args_def demo_store_def)
qed

subsection \<open>Properties of restore\<close>

text \<open>
  C5: a workspace survives the round trip. After a successful snapshot of a tree, a pod of the
  same workspace that reads the same bucket resolves LATEST to that checkpoint, reads its manifest
  back, and a restore into an empty directory succeeds and rebuilds exactly the captured files:
  every regular file below no excluded directory, with its content, and with its permission bits
  as the umask leaves them (\<^verbatim>\<open>0644\<close> for none), and no other file.
\<close>

theorem Snapshot_Restore_roundtrip:
  assumes "s3_ok c" "s3_up c" "json_ok sys" "store_inv sys s b" "wf_tree t" "is_dir t"
    and "Snapshot sys c s b t a = (Inr m, s', b')" and "ascii_manifest m"
    and "\<forall>cid \<in> checkpoints s b. cid \<le> newID sys (sv_now a) (sv_pid a)"
    and "collision_free sys (tree_data (walk t) \<union> ran b)"
    and "st_prefix p = st_prefix s" and "st_pinned p = []"
  shows "Resolve c p b' = Inr (m_id m) \<and> GetManifest sys c p b' (m_id m) = Inr m \<and>
    (\<exists>n. Restore sys c p b' (Dir []) m = (None, p\<lparr>st_restoredDigest := manifestDigest sys m\<rparr>, n) \<and>
       (\<forall>q. leaf_at n q = restored_leaf sys t q))"
proof (intro conjI)
  have keys: "latestKey p = latestKey s" "manifestKey p = manifestKey s" "objectKey p = objectKey s"
    using assms(11) by (auto simp: key_defs)
  have m: "m = tree_manifest sys s a t" and ok: "\<forall>v \<in> set (walk t). snd v \<noteq> LFail"
    using assms(1,7) by (elim Snapshot_Inr; simp)+
  note stored = Snapshot_manifest [OF assms(1,7,9)]
  have "TrimSpace (m_id m) = m_id m"
    by (rule TrimSpace_id) (auto simp: m newID_def dest: EncodeToString_nospace)
  with stored(2) show "Resolve c p b' = Inr (m_id m)"
    by (simp add: Resolve_def Latest_def assms(12) s3_upD [OF assms(2)] keys)
  show "GetManifest sys c p b' (m_id m) = Inr m"
    using stored(1) json_image_ascii [OF assms(3,8)]
    by (simp add: GetManifest_def s3_upD [OF assms(2)] keys json_okD(1) [OF assms(3)])
  have "\<forall>d \<in> tree_data (walk t). b' (objectKey p (hex_sha sys d)) = Some d"
    using Snapshot_objects [OF assms(1,3,4,7,9,10)] keys by simp
  moreover have "m_entries m = map (file_entry sys) (tree_files t)"
    unfolding m by (rule tree_manifest_files [OF ok])
  ultimately show "\<exists>n. Restore sys c p b' (Dir []) m = (None, p\<lparr>st_restoredDigest := manifestDigest sys m\<rparr>, n) \<and>
       (\<forall>q. leaf_at n q = restored_leaf sys t q)"
    using Restore_tree [OF assms(2,5,6) ok] by blast
qed

theorem Snapshot_Restore_roundtrip_witness:
  "\<exists>m s' b' n. Snapshot demo_sys mem_s3 demo_store Map.empty demo_tree demo_args = (Inr m, s', b') \<and>
     Resolve mem_s3 demo_store b' = Inr (m_id m) \<and> fst (Restore demo_sys mem_s3 demo_store b' (Dir []) m) = None \<and>
     snd (snd (Restore demo_sys mem_s3 demo_store b' (Dir []) m)) = n \<and>
     leaf_at n [''f''] = Some (LFile ''x'' 493) \<and> leaf_at n [''dist'', ''out''] = None"
proof -
  obtain m s' b' where snap: "Snapshot demo_sys mem_s3 demo_store Map.empty demo_tree demo_args = (Inr m, s', b')"
    using demo_Snapshot by blast
  from mem_s3_ok snap have "m = tree_manifest demo_sys demo_store demo_args demo_tree"
    by (elim Snapshot_Inr)
  then have "ascii_manifest m"
    using demo_manifest_ascii by simp
  moreover have "restored_leaf demo_sys demo_tree [''f''] = Some (LFile ''x'' 493)"
      "restored_leaf demo_sys demo_tree [''dist'', ''out''] = None"
    by (simp_all add: restored_leaf_def demo_tree_def leaf_at_def unskipped_def skipDir_def rmode_def demo_sys_def)
  moreover have "st_pinned demo_store = []" by (simp add: demo_store_def)
  ultimately show ?thesis
    using Snapshot_Restore_roundtrip [OF mem_s3_ok mem_s3_up demo_sys_ok demo_empty_inv(1) demo_tree_wf snap,
        of demo_store] snap demo_empty_inv(2) demo_collision_free
    by fastforce
qed

text \<open>
  A pod that restored a checkpoint and changed nothing does not move LATEST. When the umask
  keeps the modes of the tree, a snapshot of the restored tree by the store that restored it is
  refused as unchanged, whatever the bucket holds by then, and neither the pointer nor any manifest
  is touched.
\<close>

theorem Restore_then_Snapshot_unchanged:
  assumes "s3_ok c" "s3_up c" "wf_tree t" "is_dir t" "\<forall>v \<in> set (walk t). snd v \<noteq> LFail" "walk t \<noteq> []"
    and "\<forall>q d m. leaf_at t q = Some (LFile d m) \<longrightarrow> rmode sys m = m"
    and "\<forall>d \<in> tree_data (walk t). b (objectKey p (hex_sha sys d)) = Some d"
    and "Restore sys c p b (Dir []) (tree_manifest sys s a t) = (r, p', n)"
    and "\<forall>d. sha256 sys d \<noteq> []" and "\<not> st_readOnly p"
    and "Snapshot sys c p' b2 n a2 = (r2, p2, b2')"
  shows "r = None \<and> r2 = Inl ErrUnchanged \<and> p2 = p' \<and>
    (\<forall>k. \<not> HasPrefix k (st_prefix p @ ''/objects/'') \<longrightarrow> b2' k = b2 k)"
proof -
  let ?m = "tree_manifest sys s a t" and ?p = "p\<lparr>st_restoredDigest := manifestDigest sys (tree_manifest sys s a t)\<rparr>"
  obtain n' where n': "Restore sys c p b (Dir []) ?m = (None, ?p, n')" "ordered_tree n'"
      "\<forall>q. leaf_at n' q = restored_leaf sys t q"
    using Restore_tree [OF assms(2-5) assms(8) tree_manifest_files [OF assms(5)]] by blast
  with assms(9) have p: "r = None" "p' = ?p" "n' = n" by simp_all
  have wfn: "wf_tree n" using n'(2) p(3) ordered_imp_wf by blast
  note fs = restored_files [OF assms(3,5) wfn n'(3) [unfolded p(3)] assms(7)]
  obtain es b1 where up: "upload_all sys c p' b2 (walk n) = (Inr es, b1)"
    using upload_all_up [OF assms(2) fs(1)] by blast
  then have es: "es = map (entry_of sys) (walk n)"
    using upload_all_correct [OF assms(1) up] by simp
  have entries: "m_entries (snapshot_manifest sys p' a2 es) = m_entries ?m"
    using tree_manifest_files [OF fs(1), of sys p' a2] tree_manifest_files [OF assms(5), of sys s a] fs(2) es
    by (simp add: tree_manifest_def)
  then have dig: "manifestDigest sys (snapshot_manifest sys p' a2 es) = st_restoredDigest p'"
    by (simp add: manifestDigest_def p(2))
  have "m_entries ?m \<noteq> []"
    using assms(6) set_tree_manifest [of sys s a t] by fastforce
  moreover have "length (st_restoredDigest p') > 0"
    using assms(10) by (simp add: p(2) manifestDigest_def hex_sha_def)
  moreover have "\<not> st_readOnly p'" using assms(11) p(2) by simp
  ultimately have "(r2, p2, b2') = (Inl ErrUnchanged, p', b1)"
    using assms(12) up entries dig by (simp add: Snapshot_def Let_def)
  moreover have "b1 k = b2 k" if "\<not> HasPrefix k (st_prefix p @ ''/objects/'')" for k
    using upload_all_correct [OF assms(1) up] grown_other [of sys p' _ b2 b1 k] that p(2) by auto
  ultimately show ?thesis using p(1) by simp
qed

theorem Restore_then_Snapshot_unchanged_witness:
  "\<exists>p' n. Restore demo_sys mem_s3 demo_store [objectKey demo_store (hex_sha demo_sys ''x'') \<mapsto> ''x''] (Dir [])
       (tree_manifest demo_sys demo_store demo_args demo_tree) = (None, p', n) \<and>
     fst (Snapshot demo_sys mem_s3 p' demo_bucket n demo_args) = Inl ErrUnchanged"
proof -
  let ?b = "[objectKey demo_store (hex_sha demo_sys ''x'') \<mapsto> ''x'']"
  obtain r p' n where re: "Restore demo_sys mem_s3 demo_store ?b (Dir [])
      (tree_manifest demo_sys demo_store demo_args demo_tree) = (r, p', n)"
    by (metis prod_cases3)
  obtain r2 p2 b2' where sn: "Snapshot demo_sys mem_s3 p' demo_bucket n demo_args = (r2, p2, b2')"
    by (metis prod_cases3)
  have modes: "\<forall>q d m. leaf_at demo_tree q = Some (LFile d m) \<longrightarrow> rmode demo_sys m = m"
  proof (intro allI impI)
    fix q d m assume "leaf_at demo_tree q = Some (LFile d m)"
    then have "m = 420 \<or> m = 493"
      by (cases q; cases "tl q")
        (auto simp: demo_tree_def leaf_at_Dir leaf_at_leaf leaf_at_nondir split: if_splits option.splits)
    then show "rmode demo_sys m = m"
      by (auto simp: rmode_def demo_sys_def)
  qed
  have "\<not> st_readOnly demo_store" "\<forall>d. sha256 demo_sys d \<noteq> []"
    by (simp_all add: demo_store_def demo_sys_def)
  moreover have "\<forall>v \<in> set (walk demo_tree). snd v \<noteq> LFail" "walk demo_tree \<noteq> []"
      "\<forall>d \<in> tree_data (walk demo_tree). ?b (objectKey demo_store (hex_sha demo_sys d)) = Some d"
    by (simp_all add: demo_walk)
  ultimately show ?thesis
    using Restore_then_Snapshot_unchanged [OF mem_s3_ok mem_s3_up demo_tree_wf _ _ modes _ re _ _ sn] re sn by simp
qed



text \<open>
  the checkpoint a restore uses is never a substitute. A pinned store resolves to its pin,
  which then exists in the workspace, or fails; an unpinned one resolves to what LATEST holds, or
  to no checkpoint only when the pointer is absent. A storage that cannot answer gives an error,
  never an empty workspace.
\<close>

theorem Resolve_no_fallback:
  assumes "s3_ok c" and "Resolve c s b = Inr cid"
  shows "(st_pinned s \<noteq> [] \<longrightarrow> cid = st_pinned s \<and> b (manifestKey s cid) \<noteq> None) \<and>
    (st_pinned s = [] \<longrightarrow> (case b (latestKey s) of None \<Rightarrow> cid = [] | Some v \<Rightarrow> cid = TrimSpace v))"
  using assms(2)
  by (auto simp: Resolve_def Latest_def dest: s3_statD(1) [OF assms(1)] s3_getD [OF assms(1)]
      split: if_splits option.splits sum.splits s3err.splits)

theorem Resolve_no_fallback_witness:
  "Resolve mem_s3 demo_store Map.empty = Inr [] \<and> Resolve down_s3 demo_store Map.empty \<noteq> Inr [] \<and>
   Resolve mem_s3 (demo_store\<lparr>st_pinned := ''1''\<rparr>) demo_bucket = Inr ''1'' \<and> demo_bucket (manifestKey demo_store ''1'') \<noteq> None"
proof -
  have pinned: "Resolve mem_s3 (demo_store\<lparr>st_pinned := ''1''\<rparr>) demo_bucket = Inr ''1''"
  proof -
    have "manifestKey (demo_store\<lparr>st_pinned := ''1''\<rparr>) = manifestKey demo_store"
      by (simp add: manifestKey_def fun_eq_iff)
    then show ?thesis
      by (simp add: Resolve_def s3_upD [OF mem_s3_up] demo_bucket_def)
  qed
  have "st_pinned demo_store = []" by (simp add: demo_store_def)
  then have "Resolve mem_s3 demo_store Map.empty = Inr []" "Resolve down_s3 demo_store Map.empty \<noteq> Inr []"
    by (simp_all add: Resolve_def Latest_def s3_upD [OF mem_s3_up]) (simp add: down_s3_def)
  with pinned Resolve_no_fallback [OF mem_s3_ok pinned] show ?thesis
    by (auto simp: manifestKey_def)
qed

end
