(* ===== verification/Store_Config.thy ===== *)
theory Store_Config
  imports Store_Restore
begin

text \<open>
  The small functions the store is configured and identified with: the environment it is read
  from, lists in variables, the digest text that decides whether a tree is unchanged, and the time
  budget of a storage call.
\<close>

subsection \<open>The digest text\<close>

lemma digits_no_sep: "CHR 0x00 \<notin> set (nat_digits n)" "CHR 0x0A \<notin> set (nat_digits n)"
proof -
  have "of_char c \<ge> (48 :: nat)" if "c \<in> set (nat_digits n)" for c
    using set_nat_digits [OF that] digit_char_range by auto
  then show "CHR 0x00 \<notin> set (nat_digits n)" "CHR 0x0A \<notin> set (nat_digits n)"
    by fastforce+
qed

lemma Itoa_nat: "0 \<le> n \<Longrightarrow> Itoa n = nat_digits (nat n)"
  by (simp add: Itoa_def)

lemma nat_digits_inj: "nat_digits m = nat_digits n \<Longrightarrow> m = n"
  by (metis option.inject parse_nat_digits)

lemma sep_unique:
  fixes c :: char
  assumes "x @ c # u = y @ c # v" and "c \<notin> set x" and "c \<notin> set y"
  shows "x = y \<and> u = v"
proof -
  have "(x, u, True) = Cut (x @ c # u) c"
    by (rule Cut_found [OF assms(2), symmetric])
  also have "\<dots> = (y, v, True)"
    unfolding assms(1) by (rule Cut_found [OF assms(3)])
  finally show ?thesis by simp
qed

lemma digest_line_cancel:
  assumes "digest_line e @ r = digest_line e' @ r'"
    and "CHR 0x00 \<notin> set (e_path e) \<union> set (e_hash e) \<union> set (e_path e') \<union> set (e_hash e')"
  shows "e = e' \<and> r = r'"
proof -
  let ?m = "nat_digits (nat (uint (e_mode e)))" and ?m' = "nat_digits (nat (uint (e_mode e')))"
  let ?z = "nat_digits (e_size e)" and ?z' = "nat_digits (e_size e')"
  have "e_path e @ CHR 0x00 # (e_hash e @ CHR 0x00 # (?m @ CHR 0x00 # (?z @ CHR 0x0A # r))) =
      e_path e' @ CHR 0x00 # (e_hash e' @ CHR 0x00 # (?m' @ CHR 0x00 # (?z' @ CHR 0x0A # r')))"
    using assms(1) by (simp add: digest_line_def Itoa_nat)
  from sep_unique [OF this] assms(2)
  have "e_path e = e_path e'" and 1: "e_hash e @ CHR 0x00 # (?m @ CHR 0x00 # (?z @ CHR 0x0A # r)) =
      e_hash e' @ CHR 0x00 # (?m' @ CHR 0x00 # (?z' @ CHR 0x0A # r'))"
    by auto
  from sep_unique [OF 1] assms(2)
  have "e_hash e = e_hash e'" and 2: "?m @ CHR 0x00 # (?z @ CHR 0x0A # r) = ?m' @ CHR 0x00 # (?z' @ CHR 0x0A # r')"
    by auto
  from sep_unique [OF 2 digits_no_sep(1) digits_no_sep(1)]
  have "?m = ?m'" and 3: "?z @ CHR 0x0A # r = ?z' @ CHR 0x0A # r'"
    by auto
  moreover from sep_unique [OF 3 digits_no_sep(2) digits_no_sep(2)] have "?z = ?z'" "r = r'"
    by auto
  ultimately show ?thesis
    using \<open>e_path e = e_path e'\<close> \<open>e_hash e = e_hash e'\<close> by (auto dest!: nat_digits_inj intro!: entry.equality simp: word_unat_eq_iff)
qed

lemma digest_line_ne [simp]: "digest_line e \<noteq> []"
  by (simp add: digest_line_def)

text \<open>
  The digest a checkpoint is compared by is taken of an unambiguous text: two entry lists whose
  paths and hashes hold no NUL byte have the same digest text only if they are the same list, so
  a tree is taken for unchanged only if every path, hash, mode and size is, up to a SHA-256 collision.
  Newlines in file names do not matter.
\<close>

theorem digest_text_injective:
  assumes "\<forall>e \<in> set es \<union> set es'. CHR 0x00 \<notin> set (e_path e) \<union> set (e_hash e)"
  shows "digest_text es = digest_text es' \<longleftrightarrow> es = es'"
proof -
  have "digest_text xs = digest_text ys \<Longrightarrow> \<forall>e \<in> set xs \<union> set ys. CHR 0x00 \<notin> set (e_path e) \<union> set (e_hash e) \<Longrightarrow>
      xs = ys" for xs ys
  proof (induction xs arbitrary: ys)
    case Nil
    then show ?case by (cases ys) (simp_all add: digest_text_def)
  next
    case (Cons x xs)
    then obtain y zs where ys: "ys = y # zs" by (cases ys) (auto simp: digest_text_def)
    have "digest_line x @ digest_text xs = digest_line y @ digest_text zs"
      using Cons.prems(1) ys by (simp add: digest_text_def)
    from digest_line_cancel [OF this] Cons.prems(2) ys have "x = y" "digest_text xs = digest_text zs"
      by auto
    with Cons.IH [of zs] Cons.prems(2) ys show ?case by simp
  qed
  with assms show ?thesis by blast
qed

theorem digest_text_injective_witness:
  "digest_text [\<lparr> e_path = ''a'', e_hash = ''00'', e_mode = 420, e_size = 1 \<rparr>] \<noteq>
   digest_text [\<lparr> e_path = ''a'', e_hash = ''00'', e_mode = 493, e_size = 1 \<rparr>]"
  using digest_text_injective [of "[\<lparr> e_path = ''a'', e_hash = ''00'', e_mode = 420, e_size = 1 \<rparr>]"
      "[\<lparr> e_path = ''a'', e_hash = ''00'', e_mode = 493, e_size = 1 \<rparr>]"]
  by simp

subsection \<open>The environment\<close>

text \<open>
  a store is built only from a complete environment, and its retention is never empty. An
  environment is accepted exactly when the workspace, the application and the four storage
  settings are all given; the store it gives is rooted at the application, and keeps everything
  (\<^verbatim>\<open>unbounded\<close>) or a positive number of checkpoints, whatever \<^verbatim>\<open>KEEP_CHECKPOINTS\<close> holds.
\<close>

theorem FromEnv_New:
  "(\<exists>cfg. FromEnv env = Inr cfg) =
     (\<forall>v \<in> {''WORKSPACE_ID'', ''APP_ID'', ''S3_ENDPOINT_URL'', ''S3_BUCKET_NAME'', ''S3_ACCESS_KEY_ID'',
            ''S3_SECRET_ACCESS_KEY''}. env v \<noteq> []) \<and>
   (FromEnv env = Inr cfg \<longrightarrow>
     st_prefix (New cfg) = env ''APP_ID'' @ ''/'' @ env ''WORKSPACE_ID'' \<and>
     (if env ''KEEP_CHECKPOINTS'' = ''unbounded'' then st_keep (New cfg) = -1 else st_keep (New cfg) > 0) \<and>
     st_staging (New cfg) \<noteq> [] \<and> [] \<notin> st_pinnedCheckpoints (New cfg))"
proof (intro conjI impI)
  show "(\<exists>cfg. FromEnv env = Inr cfg) =
     (\<forall>v \<in> {''WORKSPACE_ID'', ''APP_ID'', ''S3_ENDPOINT_URL'', ''S3_BUCKET_NAME'', ''S3_ACCESS_KEY_ID'',
            ''S3_SECRET_ACCESS_KEY''}. env v \<noteq> [])"
    by (simp add: FromEnv_def Let_def)
  assume ok: "FromEnv env = Inr cfg"
  show "st_prefix (New cfg) = env ''APP_ID'' @ ''/'' @ env ''WORKSPACE_ID''" "st_staging (New cfg) \<noteq> []"
    using ok by (auto simp: FromEnv_def New_def Let_def split: if_splits)
  have "c_keepCheckpoints cfg = keep_from_env (env ''KEEP_CHECKPOINTS'')"
    using ok by (auto simp: FromEnv_def Let_def split: if_splits)
  then show "if env ''KEEP_CHECKPOINTS'' = ''unbounded'' then st_keep (New cfg) = -1 else st_keep (New cfg) > 0"
    by (auto simp: New_def keep_from_env_def DefaultKeepCheckpoints_def UnboundedKeepCheckpoints_def
        split: option.splits)
  have "c_pinnedCheckpoints cfg = splitList (env ''PINNED_CHECKPOINTS'')"
    using ok by (auto simp: FromEnv_def Let_def split: if_splits)
  then show "[] \<notin> st_pinnedCheckpoints (New cfg)"
    by (auto simp: New_def splitList_def)
qed

definition demo_env :: "string \<Rightarrow> string" where
  "demo_env v = (if v = ''APP_ID'' then ''app'' else if v = ''WORKSPACE_ID'' then ''ws''
     else if v = ''KEEP_CHECKPOINTS'' then ''-3'' else if v = ''PINNED_CHECKPOINTS'' then '' a, ,b,'' else ''x'')"

theorem FromEnv_New_witness:
  "\<exists>cfg. FromEnv demo_env = Inr cfg \<and> st_prefix (New cfg) = ''app/ws'' \<and> st_keep (New cfg) > 0"
proof -
  obtain cfg where cfg: "FromEnv demo_env = Inr cfg"
    by (simp add: FromEnv_def demo_env_def Let_def)
  from FromEnv_New [of demo_env cfg] cfg show ?thesis
    by (auto simp: demo_env_def)
qed

subsection \<open>The time budget of a storage call\<close>

text \<open>
  The budget of a call grows with the body and does not overflow: for every body below eight
  pebibytes it is a minute plus a second per whole MiB, computed in 64-bit nanoseconds.
\<close>

theorem callBudget_exact:
  assumes "0 \<le> sz" and "sz < 2 ^ 53"
  shows "callBudget sz = (60 + sz div 2 ^ 20) * 10 ^ 9 \<and> 60 * 10 ^ 9 \<le> callBudget sz"
proof -
  have q: "0 \<le> sz div 2 ^ 20" "sz div 2 ^ 20 < 2 ^ 33"
    using assms by auto
  have "sgn sz * (\<bar>sz\<bar> div 2 ^ 20) = sz div 2 ^ 20"
    using assms(1) by (cases "sz = 0") auto
  then have "callBudget sz = wrap64 (60 * 10 ^ 9 + wrap64 (sz div 2 ^ 20 * 10 ^ 9))"
    by (simp only: callBudget_def)
  also have "wrap64 (sz div 2 ^ 20 * 10 ^ 9) = sz div 2 ^ 20 * 10 ^ 9"
    using q by (intro wrap64_id) auto
  also have "wrap64 (60 * 10 ^ 9 + sz div 2 ^ 20 * 10 ^ 9) = 60 * 10 ^ 9 + sz div 2 ^ 20 * 10 ^ 9"
    using q by (intro wrap64_id) auto
  finally have "callBudget sz = (60 + sz div 2 ^ 20) * 10 ^ 9"
    by (simp add: algebra_simps)
  with q(1) show ?thesis by simp
qed

theorem callBudget_exact_witness:
  "callBudget (5 * 2 ^ 20 + 7) = 65 * 10 ^ 9"
  using callBudget_exact [of "5 * 2 ^ 20 + 7"] by simp

end
