(* ===== verification/Workspace_Server.thy ===== *)
theory Workspace_Server
  imports Store_Config
begin

text \<open>
  The sidecar process, \<^verbatim>\<open>operators/workspace-sync/cmd/main.go\<close>: the restore on startup, the one
  snapshot engine behind its triggers, the HTTP handlers, the periodic backstop and the shutdown
  sequence. A handler is a function of the server's state and of what the outside decides: the
  request, the clock, and whether the save slot could be taken within the caller's wait (the slot
  itself, under interleaving, is the subject of \<open>Save_Slot\<close>).
\<close>

subsection \<open>The workspace as the workload sees it\<close>

text \<open>
  A plain directory, or a FUSE overlay mounted over it. Unmounting drops the overlay with its
  upper layer, so the plain directory below becomes visible again.
\<close>

record fsview =
  f_plain :: node
  f_overlay :: "node option"

definition visible :: "fsview \<Rightarrow> node" where
  "visible f = (case f_overlay f of None \<Rightarrow> f_plain f | Some n \<Rightarrow> n)"

definition set_visible :: "node \<Rightarrow> fsview \<Rightarrow> fsview" where
  "set_visible n f = (case f_overlay f of None \<Rightarrow> f\<lparr>f_plain := n\<rparr> | Some _ \<Rightarrow> f\<lparr>f_overlay := Some n\<rparr>)"

text \<open>
  The pod around the process: whether the directories can be made and handed to the workload's
  uid, whether the readiness marker can be written, and what squashfuse and fuse-overlayfs make of an image (\<open>None\<close>: the command fails).
\<close>

record pod =
  pd_mkdir :: bool
  pd_staging :: bool
  pd_chown_upper :: bool
  pd_chown_tree :: bool
  pd_ready :: bool
  pd_squashfuse :: "bytes \<Rightarrow> node option"
  pd_overlayfs :: "node \<Rightarrow> node option"

datatype verr =
    SaveInProgress
  | StoreErr serr
  | MountErr string
  | FsErr string

definition mountFuse :: "pod \<Rightarrow> bytes \<Rightarrow> fsview \<Rightarrow> (verr, fsview) result" where
  "mountFuse pd img f =
     (if \<not> pd_staging pd then Inl (FsErr ''create staging dir'')
      else if \<not> pd_chown_upper pd then Inl (FsErr ''chown upper dir'')
      else case pd_squashfuse pd img of
        None \<Rightarrow> Inl (MountErr ''squashfuse'')
      | Some lower \<Rightarrow> (case pd_overlayfs pd lower of
          None \<Rightarrow> Inl (MountErr ''fuse-overlayfs'')
        | Some merged \<Rightarrow> Inr (f\<lparr>f_overlay := Some merged\<rparr>)))"

definition unmountFuse :: "fsview \<Rightarrow> fsview" where
  "unmountFuse f = f\<lparr>f_overlay := None\<rparr>"

definition workspaceUID :: "string \<Rightarrow> int" where
  "workspaceUID v =
     (if v = [] then 1000
      else case Atoi v of Some n \<Rightarrow> if n \<ge> 0 then n else 1000 | None \<Rightarrow> 1000)"

subsection \<open>Restore on startup\<close>

definition restoreFromCheckpoint ::
  "gosys \<Rightarrow> s3 \<Rightarrow> pod \<Rightarrow> store \<Rightarrow> bucket \<Rightarrow> fsview \<Rightarrow> string \<Rightarrow> verr option \<times> store \<times> fsview" where
  "restoreFromCheckpoint sys c pd s b f cid =
     (case GetManifest sys c s b cid of
        Inl e \<Rightarrow> (Some (StoreErr e), s, f)
      | Inr m \<Rightarrow> (case Restore sys c s b (visible f) m of
          (Some e, s', n) \<Rightarrow> (Some (StoreErr e), s', set_visible n f)
        | (None, s', n) \<Rightarrow>
            (if pd_chown_tree pd then (None, s', set_visible n f)
             else (Some (FsErr ''chown restored workspace''), s', set_visible n f))))"

definition restoreFromManifest ::
  "gosys \<Rightarrow> s3 \<Rightarrow> pod \<Rightarrow> store \<Rightarrow> bucket \<Rightarrow> fsview \<Rightarrow> verr option \<times> store \<times> fsview" where
  "restoreFromManifest sys c pd s b f =
     (case Latest c s b of
        Inl e \<Rightarrow> (Some (StoreErr e), s, f)
      | Inr cid \<Rightarrow> if cid = [] then (None, s, f) else restoreFromCheckpoint sys c pd s b f cid)"

text \<open>Whether the result is an overlay is the \<open>Inr\<close> value.\<close>

definition as_plain :: "verr option \<times> store \<times> fsview \<Rightarrow> (verr, bool) result \<times> store \<times> fsview" where
  "as_plain r = (case r of (None, s, f) \<Rightarrow> (Inr False, s, f) | (Some e, s, f) \<Rightarrow> (Inl e, s, f))"

definition restore_pinned ::
  "gosys \<Rightarrow> s3 \<Rightarrow> pod \<Rightarrow> store \<Rightarrow> bucket \<Rightarrow> fsview \<Rightarrow> (verr, bool) result \<times> store \<times> fsview" where
  "restore_pinned sys c pd s b f =
     (case Resolve c s b of
        Inl e \<Rightarrow> (Inl (StoreErr e), s, f)
      | Inr cid \<Rightarrow> (case DownloadCheckpointArchive c s b cid of
          Inr img \<Rightarrow> (case mountFuse pd img f of
              Inl e \<Rightarrow> (Inl e, s, unmountFuse f)
            | Inr f' \<Rightarrow> (Inr True, s, f'))
        | Inl ErrNoArchive \<Rightarrow> as_plain (restoreFromCheckpoint sys c pd s b f cid)
        | Inl e \<Rightarrow> (Inl (StoreErr e), s, f)))"

definition restoreWorkspace ::
  "gosys \<Rightarrow> s3 \<Rightarrow> pod \<Rightarrow> store \<Rightarrow> bucket \<Rightarrow> fsview \<Rightarrow> (verr, bool) result \<times> store \<times> fsview" where
  "restoreWorkspace sys c pd s b f =
     (if \<not> pd_mkdir pd then (Inl (FsErr ''create workspace root''), s, f)
      else if st_pinned s \<noteq> [] then restore_pinned sys c pd s b f
      else if st_noArchive s then as_plain (restoreFromManifest sys c pd s b f)
      else case DownloadArchive c s b of
        Inr img \<Rightarrow> (case mountFuse pd img f of
            Inl e \<Rightarrow> (Inl e, s, unmountFuse f)
          | Inr f' \<Rightarrow> (Inr True, s, f'))
      | Inl ErrNoArchive \<Rightarrow> as_plain (restoreFromManifest sys c pd s b f)
      | Inl e \<Rightarrow> (Inl (StoreErr e), s, f))"

text \<open>\<open>runRestore\<close>: the one-shot command; a deployment without storage has nothing to restore.\<close>

definition runRestore ::
  "gosys \<Rightarrow> s3 \<Rightarrow> pod \<Rightarrow> (string \<Rightarrow> string) \<Rightarrow> bucket \<Rightarrow> fsview \<Rightarrow> verr option \<times> fsview" where
  "runRestore sys c pd env b f =
     (case FromEnv env of
        Inl ErrNotConfigured \<Rightarrow> (None, f)
      | Inl e \<Rightarrow> (Some (StoreErr e), f)
      | Inr cfg \<Rightarrow> (case restoreWorkspace sys c pd (New cfg) b f of
          (Inl e, _, f') \<Rightarrow> (Some e, f')
        | (Inr _, _, f') \<Rightarrow> (None, f')))"

subsection \<open>Generations of a refreshing reader\<close>

text \<open>
  \<^verbatim>\<open>cmd/refresh.go\<close>: the directory of generations and the link the workload reads through, with
  the outcome of each system call that can fail.
\<close>

record genfs =
  gf_dirs :: "int \<rightharpoonup> node"
  gf_link :: "int option"

record generations =
  g_n :: int
  g_id :: string

record genio =
  gi_clear :: bool
  gi_mkdir :: bool
  gi_chown :: bool
  gi_symlink :: bool
  gi_rename :: bool
  gi_prune :: bool

definition refreshEnabled :: "string \<Rightarrow> store option \<Rightarrow> (string, bool) result" where
  "refreshEnabled v s =
     (if v \<noteq> ''true'' then Inr False
      else case s of
        None \<Rightarrow> Inl ''not configured''
      | Some s \<Rightarrow>
          if \<not> st_readOnly s then Inl ''writable''
          else if st_pinned s \<noteq> [] then Inl ''pinned''
          else if \<not> st_noArchive s then Inl ''archive-mounted''
          else Inr True)"

text \<open>\<open>build\<close>: the generation is complete or absent.\<close>

definition gen_build ::
  "genio \<Rightarrow> gosys \<Rightarrow> s3 \<Rightarrow> store \<Rightarrow> bucket \<Rightarrow> genfs \<Rightarrow> int \<Rightarrow> string \<Rightarrow> (verr, nat) result \<times> store \<times> genfs" where
  "gen_build io sys c s b gf n cid =
     (let none = gf\<lparr>gf_dirs := (gf_dirs gf)(n := None)\<rparr> in
      if \<not> gi_clear io then (Inl (FsErr ''clearing generation''), s, gf)
      else if \<not> gi_mkdir io then (Inl (FsErr ''mkdir generation''), s, none)
      else if cid = [] then
        (if gi_chown io then (Inr 0, s, gf\<lparr>gf_dirs := (gf_dirs gf)(n \<mapsto> Dir [])\<rparr>)
         else (Inl (FsErr ''chown generation''), s, none))
      else case GetManifest sys c s b cid of
        Inl e \<Rightarrow> (Inl (StoreErr e), s, none)
      | Inr m \<Rightarrow> (case Restore sys c s b (Dir []) m of
          (Some e, s', t) \<Rightarrow> (Inl (StoreErr e), s', none)
        | (None, s', t) \<Rightarrow>
            (if gi_chown io then (Inr (length (m_entries m)), s', gf\<lparr>gf_dirs := (gf_dirs gf)(n \<mapsto> t)\<rparr>)
             else (Inl (FsErr ''chown generation''), s', none))))"

definition gen_point :: "genio \<Rightarrow> genfs \<Rightarrow> int \<Rightarrow> verr option \<times> genfs" where
  "gen_point io gf n =
     (if \<not> gi_symlink io then (Some (FsErr ''creating link''), gf)
      else if \<not> gi_rename io then (Some (FsErr ''switching link''), gf)
      else (None, gf\<lparr>gf_link := Some n\<rparr>))"

definition gen_advance ::
  "genio \<Rightarrow> gosys \<Rightarrow> s3 \<Rightarrow> store \<Rightarrow> bucket \<Rightarrow> genfs \<Rightarrow> generations \<Rightarrow> string
     \<Rightarrow> (verr, nat) result \<times> store \<times> genfs \<times> generations" where
  "gen_advance io sys c s b gf g cid =
     (let nxt = g_n g + 1 in
      case gen_build io sys c s b gf nxt cid of
        (Inl e, s', gf1) \<Rightarrow> (Inl e, s', gf1, g)
      | (Inr files, s', gf1) \<Rightarrow> (case gen_point io gf1 nxt of
          (Some e, gf2) \<Rightarrow> (Inl e, s', gf2\<lparr>gf_dirs := (gf_dirs gf2)(nxt := None)\<rparr>, g)
        | (None, gf2) \<Rightarrow>
            (Inr files, s',
             (if g_n g > 1 \<and> gi_prune io then gf2\<lparr>gf_dirs := (gf_dirs gf2)(g_n g - 1 := None)\<rparr> else gf2),
             \<lparr> g_n = nxt, g_id = cid \<rparr>)))"

text \<open>Whatever was there is removed first; \<open>None\<close> is a startup that failed.\<close>

definition startGenerations ::
  "genio \<Rightarrow> gosys \<Rightarrow> s3 \<Rightarrow> store \<Rightarrow> bucket \<Rightarrow> (verr, generations \<times> store \<times> genfs) result" where
  "startGenerations io sys c s b =
     (let empty = \<lparr> gf_dirs = Map.empty, gf_link = None \<rparr> in
      if \<not> gi_clear io then Inl (FsErr ''clearing'')
      else if \<not> gi_mkdir io then Inl (FsErr ''mkdir'')
      else if \<not> gi_chown io then Inl (FsErr ''chown'')
      else case Latest c s b of
        Inl e \<Rightarrow> Inl (StoreErr e)
      | Inr cid \<Rightarrow> (case gen_build io sys c s b empty 1 cid of
          (Inl e, _, _) \<Rightarrow> Inl e
        | (Inr files, s', gf1) \<Rightarrow> (case gen_point io gf1 1 of
            (Some e, _) \<Rightarrow> Inl e
          | (None, gf2) \<Rightarrow> Inr (\<lparr> g_n = 1, g_id = cid \<rparr>, s', gf2))))"

subsection \<open>The server\<close>

record saveState =
  ss_trigger :: string
  ss_since :: int
  ss_finished :: "int option"
  ss_outcome :: string
  ss_checkpointID :: string

record server =
  v_store :: "store option"
  v_fs :: fsview
  v_gens :: "generations option"
  v_genfs :: genfs
  v_last :: string
  v_current :: "saveState option"
  v_lastDone :: "saveState option"

definition srv_readOnly :: "server \<Rightarrow> bool" where
  "srv_readOnly v = (case v_store v of None \<Rightarrow> False | Some s \<Rightarrow> st_readOnly s)"

text \<open>A response: the status and the fields of its JSON body, a plain-text error as \<^verbatim>\<open>error\<close>.\<close>

type_synonym response = "nat \<times> (string \<times> string) list"

definition save_view :: "int \<Rightarrow> saveState \<Rightarrow> (string \<times> string) list" where
  "save_view now st =
     [(''trigger'', ss_trigger st), (''since'', Itoa (ss_since st))] @
     (case ss_finished st of
        None \<Rightarrow> [(''elapsedSeconds'', Itoa (now - ss_since st))]
      | Some t \<Rightarrow> [(''finished'', Itoa t), (''outcome'', ss_outcome st)] @
          (if ss_checkpointID st \<noteq> [] then [(''checkpointId'', ss_checkpointID st)] else []))"

definition busy :: "int \<Rightarrow> server \<Rightarrow> (string \<times> string) list" where
  "busy now v =
     [(''error'', ''a save is in progress; retry when it completes'')] @
     (case v_current v of None \<Rightarrow> [] | Some st \<Rightarrow> map (\<lambda>(k, x). (''inProgress.'' @ k, x)) (save_view now st)) @
     (case v_lastDone v of None \<Rightarrow> [] | Some st \<Rightarrow> map (\<lambda>(k, x). (''lastCompleted.'' @ k, x)) (save_view now st))"

subsection \<open>Startup\<close>

text \<open>
  The phases of \<open>runServe\<close> before it serves: configuration, staging directory, restore (or
  generations), readiness marker. An error ends the process before the marker exists.
\<close>

definition runServe_start ::
  "gosys \<Rightarrow> s3 \<Rightarrow> pod \<Rightarrow> genio \<Rightarrow> (string \<Rightarrow> string) \<Rightarrow> bucket \<Rightarrow> fsview \<Rightarrow> (verr, server) result" where
  "runServe_start sys c pd io env b f =
     (let cfg = FromEnv env;
          serve = (\<lambda>s f gens gf. if pd_ready pd
             then Inr \<lparr> v_store = s, v_fs = f, v_gens = gens, v_genfs = gf, v_last = [], v_current = None, v_lastDone = None \<rparr>
             else Inl (FsErr ''write readiness marker''));
          nogen = \<lparr> gf_dirs = Map.empty, gf_link = None \<rparr>
      in case cfg of
        Inl e \<Rightarrow>
          if e \<noteq> ErrNotConfigured then Inl (StoreErr e)
          else if \<not> pd_staging pd then Inl (FsErr ''creating staging directory'')
          else (case refreshEnabled (env ''WORKSPACE_REFRESH'') None of
                  Inl m \<Rightarrow> Inl (FsErr m)
                | Inr _ \<Rightarrow> serve None f None nogen)
      | Inr cfg \<Rightarrow>
          if \<not> pd_staging pd then Inl (FsErr ''creating staging directory'')
          else (case refreshEnabled (env ''WORKSPACE_REFRESH'') (Some (New cfg)) of
                  Inl m \<Rightarrow> Inl (FsErr m)
                | Inr True \<Rightarrow> (case startGenerations io sys c (New cfg) b of
                      Inl e \<Rightarrow> Inl e
                    | Inr (g, s', gf) \<Rightarrow> serve (Some s') f (Some g) gf)
                | Inr False \<Rightarrow> (case restoreWorkspace sys c pd (New cfg) b f of
                      (Inl e, _, _) \<Rightarrow> Inl e
                    | (Inr _, s', f') \<Rightarrow> serve (Some s') f' None nogen)))"

subsection \<open>One save\<close>

text \<open>What the outside supplies to a save: the clock at its points and the process id.\<close>

record clock =
  ck_nano :: "64 word"
  ck_pid :: nat
  ck_created :: int
  ck_start :: int
  ck_end :: int

definition save_args_of :: "clock \<Rightarrow> string \<Rightarrow> string \<Rightarrow> string \<Rightarrow> string \<Rightarrow> save_args" where
  "save_args_of ck name desc trigger parent =
     \<lparr> sv_name = name, sv_desc = desc, sv_trigger = trigger, sv_parent = parent, sv_now = ck_nano ck,
       sv_pid = ck_pid ck, sv_created = ck_created ck \<rparr>"

definition save_begin :: "string \<Rightarrow> int \<Rightarrow> server \<Rightarrow> server" where
  "save_begin trigger now v =
     v\<lparr>v_current := Some \<lparr> ss_trigger = trigger, ss_since = now, ss_finished = None, ss_outcome = [], ss_checkpointID = [] \<rparr>\<rparr>"

definition save_finish :: "int \<Rightarrow> (serr, manifest) result \<Rightarrow> server \<Rightarrow> server" where
  "save_finish now r v =
     (case v_current v of
        None \<Rightarrow> v
      | Some cur \<Rightarrow>
          (let done = cur\<lparr>ss_finished := Some now\<rparr> in
           case r of
             Inr m \<Rightarrow> v\<lparr>v_last := m_id m, v_current := None,
                         v_lastDone := Some (done\<lparr>ss_checkpointID := m_id m, ss_outcome := ''saved''\<rparr>)\<rparr>
           | Inl e \<Rightarrow> v\<lparr>v_current := None,
                         v_lastDone := Some (done\<lparr>ss_outcome :=
                            (if e = ErrUnchanged \<or> e = ErrNothingToSave then ''skipped'' else ''failed'')\<rparr>)\<rparr>))"

text \<open>\<open>snapshotCtx\<close>; \<open>free\<close>: the slot could be taken within the wait.\<close>

definition snapshotCtx ::
  "gosys \<Rightarrow> s3 \<Rightarrow> bool \<Rightarrow> clock \<Rightarrow> string \<Rightarrow> string \<Rightarrow> string \<Rightarrow> server \<Rightarrow> bucket
     \<Rightarrow> (verr, manifest) result \<times> server \<times> bucket" where
  "snapshotCtx sys c free ck name desc trigger v b =
     (case v_store v of
        None \<Rightarrow> (Inl (StoreErr ErrNotConfigured), v, b)
      | Some s \<Rightarrow>
          if \<not> free then (Inl SaveInProgress, v, b)
          else
            (let v1 = save_begin trigger (ck_start ck) v in
             case Snapshot sys c s b (visible (v_fs v1)) (save_args_of ck name desc trigger (v_last v1)) of
               (r, s', b') \<Rightarrow>
                 (map_sum StoreErr (\<lambda>m. m) r, save_finish (ck_end ck) r (v1\<lparr>v_store := Some s'\<rparr>), b')))"

subsection \<open>HTTP handlers\<close>

text \<open>\<open>free w\<close>: the save slot can be taken within \<open>w\<close> seconds (a negative wait: within the context's time).\<close>

definition checkpointWait :: "(string \<Rightarrow> string) \<Rightarrow> int" where
  "checkpointWait env =
     (case Atoi (env ''WORKSPACE_SYNC_CHECKPOINT_WAIT_SECONDS'') of
        Some n \<Rightarrow> if n \<ge> 0 then n else 60
      | None \<Rightarrow> 60)"

definition request_wait :: "int \<Rightarrow> string \<Rightarrow> int" where
  "request_wait dflt q =
     (case Atoi q of Some n \<Rightarrow> if n \<ge> 0 \<and> n \<le> 300 then n else dflt | None \<Rightarrow> dflt)"

definition read_only_refusal :: response where
  "read_only_refusal = (409, [(''error'', ''workspace is read-only; checkpoints are disabled for this job'')])"

definition slot_busy :: "int \<Rightarrow> server \<Rightarrow> response" where
  "slot_busy now v = (503, (''Retry-After'', ''15'') # busy now v)"

definition handle_checkpoint ::
  "gosys \<Rightarrow> s3 \<Rightarrow> (string \<Rightarrow> string) \<Rightarrow> (int \<Rightarrow> bool) \<Rightarrow> clock \<Rightarrow> string \<Rightarrow> string \<Rightarrow> string \<Rightarrow> string \<Rightarrow> server \<Rightarrow> bucket
     \<Rightarrow> response \<times> server \<times> bucket" where
  "handle_checkpoint sys c env free ck meth waitq name desc v b =
     (if meth \<noteq> ''POST'' then ((405, [(''error'', ''POST only'')]), v, b)
      else if srv_readOnly v then (read_only_refusal, v, b)
      else case snapshotCtx sys c (free (request_wait (checkpointWait env) waitq)) ck name desc ''on-demand'' v b of
        (Inr m, v', b') \<Rightarrow> ((200, [(''checkpointId'', m_id m), (''files'', Itoa (int (length (m_entries m))))]), v', b')
      | (Inl SaveInProgress, v', b') \<Rightarrow> (slot_busy (ck_start ck) v', v', b')
      | (Inl (StoreErr ErrUnchanged), v', b') \<Rightarrow> ((200, [(''checkpointId'', []), (''skipped'', ''unchanged'')]), v', b')
      | (Inl (StoreErr ErrNothingToSave), v', b') \<Rightarrow> ((200, [(''checkpointId'', []), (''skipped'', ''nothing-to-save'')]), v', b')
      | (Inl (StoreErr ErrNotConfigured), v', b') \<Rightarrow> ((200, [(''checkpointId'', []), (''skipped'', ''not-configured'')]), v', b')
      | (Inl e, v', b') \<Rightarrow> ((500, [(''error'', ''checkpoint failed'')]), v', b'))"

definition handle_flush ::
  "gosys \<Rightarrow> s3 \<Rightarrow> (string \<Rightarrow> string) \<Rightarrow> (int \<Rightarrow> bool) \<Rightarrow> clock \<Rightarrow> server \<Rightarrow> bucket \<Rightarrow> response \<times> server \<times> bucket" where
  "handle_flush sys c env free ck v b =
     (if srv_readOnly v then (read_only_refusal, v, b)
      else case snapshotCtx sys c (free (checkpointWait env)) ck [] [] ''teardown'' v b of
        (Inr m, v', b') \<Rightarrow> ((200, [(''checkpointId'', m_id m)]), v', b')
      | (Inl SaveInProgress, v', b') \<Rightarrow> (slot_busy (ck_start ck) v', v', b')
      | (Inl (StoreErr ErrNotConfigured), v', b') \<Rightarrow> ((200, [(''skipped'', ''not-configured'')]), v', b')
      | (Inl e, v', b') \<Rightarrow> ((500, [(''error'', ''flush failed'')]), v', b'))"

definition handle_healthz :: response where
  "handle_healthz = (200, [(''body'', ''ok'')])"

text \<open>The target of \<^verbatim>\<open>/restore\<close>: the id of the request or LATEST; \<open>None\<close> is the 404.\<close>

definition restore_target :: "s3 \<Rightarrow> store \<Rightarrow> bucket \<Rightarrow> string \<Rightarrow> string option" where
  "restore_target c s b cid =
     (if cid \<noteq> [] then Some cid
      else case Latest c s b of Inl _ \<Rightarrow> None | Inr l \<Rightarrow> if l = [] then None else Some l)"

text \<open>The part of \<^verbatim>\<open>/restore\<close> after the target's manifest and archive were fetched.\<close>

definition restore_swap ::
  "gosys \<Rightarrow> s3 \<Rightarrow> pod \<Rightarrow> store \<Rightarrow> bucket \<Rightarrow> fsview \<Rightarrow> bytes option \<Rightarrow> manifest \<Rightarrow> verr option \<times> store \<times> fsview" where
  "restore_swap sys c pd s b f img m =
     (let f0 = unmountFuse f in
      case img of
        Some i \<Rightarrow> (case mountFuse pd i f0 of Inl e \<Rightarrow> (Some e, s, f0) | Inr f1 \<Rightarrow> (None, s, f1))
      | None \<Rightarrow> (case Restore sys c s b (visible f0) m of
          (Some e, s', n) \<Rightarrow> (Some (StoreErr e), s', set_visible n f0)
        | (None, s', n) \<Rightarrow> (None, s', set_visible n f0)))"

definition handle_restore ::
  "gosys \<Rightarrow> s3 \<Rightarrow> pod \<Rightarrow> (string \<Rightarrow> string) \<Rightarrow> (int \<Rightarrow> bool) \<Rightarrow> int \<Rightarrow> string \<Rightarrow> string \<Rightarrow> server \<Rightarrow> bucket \<Rightarrow> response \<times> server" where
  "handle_restore sys c pd env free now meth cid v b =
     (if meth \<noteq> ''POST'' then ((405, [(''error'', ''POST only'')]), v)
      else case v_store v of
        None \<Rightarrow> ((503, [(''error'', ''object storage not configured'')]), v)
      | Some s \<Rightarrow>
          if srv_readOnly v then ((409, [(''error'', ''workspace is pinned and read-only; restore is disabled for this job'')]), v)
          else if \<not> free (checkpointWait env) then (slot_busy now v, v)
          else case restore_target c s b cid of
            None \<Rightarrow> ((404, [(''error'', ''no checkpoint to restore'')]), v)
          | Some target \<Rightarrow> (case GetManifest sys c s b target of
              Inl e \<Rightarrow> ((404, [(''error'', ''checkpoint not found'')]), v)
            | Inr m \<Rightarrow>
                (let arch = DownloadCheckpointArchive c s b target in
                 if \<not> is_ok arch \<and> arch \<noteq> Inl ErrNoArchive then ((500, [(''error'', ''archive'')]), v)
                 else case restore_swap sys c pd s b (v_fs v) (case arch of Inr i \<Rightarrow> Some i | Inl _ \<Rightarrow> None) m of
                   (Some e, s', f') \<Rightarrow> ((500, [(''error'', ''restore'')]), v\<lparr>v_store := Some s', v_fs := f'\<rparr>)
                 | (None, s', f') \<Rightarrow>
                     ((200, [(''restored'', ''true''), (''checkpoint'', target)]),
                      v\<lparr>v_store := Some s', v_fs := f', v_last := target\<rparr>))))"

definition handle_refresh ::
  "gosys \<Rightarrow> s3 \<Rightarrow> genio \<Rightarrow> (string \<Rightarrow> string) \<Rightarrow> (int \<Rightarrow> bool) \<Rightarrow> int \<Rightarrow> string \<Rightarrow> server \<Rightarrow> bucket \<Rightarrow> response \<times> server" where
  "handle_refresh sys c io env free now meth v b =
     (if meth \<noteq> ''POST'' then ((405, [(''error'', ''POST only'')]), v)
      else case (v_gens v, v_store v) of
        (Some g, Some s) \<Rightarrow>
          if \<not> free (checkpointWait env)
          then ((503, (''Retry-After'', ''15'') # busy now v @ [(''outcome'', ''failed'')]), v)
          else (case Latest c s b of
              Inl e \<Rightarrow> ((502, [(''outcome'', ''failed''), (''error'', ''reading LATEST pointer'')]), v)
            | Inr cid \<Rightarrow>
                if cid = g_id g then ((200, [(''outcome'', ''unchanged''), (''checkpoint'', cid)]), v)
                else if cid = [] then ((409, [(''outcome'', ''failed''), (''error'', ''no LATEST checkpoint'')]), v)
                else (case gen_advance io sys c s b (v_genfs v) g cid of
                    (Inl e, s', gf', g') \<Rightarrow>
                      ((500, [(''outcome'', ''failed''), (''error'', ''refresh'')]), v\<lparr>v_store := Some s', v_genfs := gf', v_gens := Some g'\<rparr>)
                  | (Inr files, s', gf', g') \<Rightarrow>
                      ((200, [(''outcome'', ''refreshed''), (''checkpoint'', cid), (''files'', Itoa (int files))]),
                       v\<lparr>v_store := Some s', v_genfs := gf', v_gens := Some g'\<rparr>)))
      | _ \<Rightarrow> ((409, [(''outcome'', ''failed''), (''error'', ''refresh is not enabled for this workspace'')]), v))"

definition handle_list :: "s3 \<Rightarrow> server \<Rightarrow> bucket \<Rightarrow> nat \<times> string list" where
  "handle_list c v b =
     (case v_store v of
        None \<Rightarrow> (503, [''object storage not configured''])
      | Some s \<Rightarrow> (case ListCheckpoints c s b of Inl e \<Rightarrow> (500, [''error'']) | Inr ids \<Rightarrow> (200, ids)))"

subsection \<open>Backstop and shutdown\<close>

definition backstop_interval :: "(string \<Rightarrow> string) \<Rightarrow> int" where
  "backstop_interval env =
     (case Atoi (env ''WORKSPACE_SYNC_INTERVAL_SECONDS'') of Some n \<Rightarrow> if n > 0 then n else 0 | None \<Rightarrow> 0)"

definition periodic_tick ::
  "gosys \<Rightarrow> s3 \<Rightarrow> (string \<Rightarrow> string) \<Rightarrow> (int \<Rightarrow> bool) \<Rightarrow> clock \<Rightarrow> server \<Rightarrow> bucket \<Rightarrow> server \<times> bucket" where
  "periodic_tick sys c env free ck v b =
     (if srv_readOnly v \<or> backstop_interval env \<le> 0 then (v, b)
      else case snapshotCtx sys c (free 0) ck [] [] ''periodic'' v b of (_, v', b') \<Rightarrow> (v', b'))"

definition shutdown_budget :: "(string \<Rightarrow> string) \<Rightarrow> int" where
  "shutdown_budget env =
     (case Atoi (env ''WORKSPACE_SYNC_SHUTDOWN_BUDGET_SECONDS'') of Some n \<Rightarrow> if n > 0 then n else 90 | None \<Rightarrow> 90)"

text \<open>
  On SIGTERM: the backstop is stopped, the overlay is unmounted, the HTTP server drained, and only
  then the teardown snapshot is taken. The first component is the outcome of the snapshot, if one
  was attempted.
\<close>

definition shutdown ::
  "gosys \<Rightarrow> s3 \<Rightarrow> (string \<Rightarrow> string) \<Rightarrow> (int \<Rightarrow> bool) \<Rightarrow> clock \<Rightarrow> server \<Rightarrow> bucket
     \<Rightarrow> (verr, manifest) result option \<times> server \<times> bucket" where
  "shutdown sys c env free ck v b =
     (let v1 = v\<lparr>v_fs := unmountFuse (v_fs v)\<rparr> in
      if env ''WORKSPACE_SYNC_TEARDOWN'' = ''false'' then (None, v1, b)
      else if srv_readOnly v1 then (None, v1, b)
      else case snapshotCtx sys c (free (shutdown_budget env)) ck [] [] ''teardown'' v1 b of
        (r, v', b') \<Rightarrow> (Some r, v', b'))"

end
