(* ===== verification/Save_Slot.thy ===== *)
theory Save_Slot
  imports Workspace_Server
begin

text \<open>
  The one-slot semaphore of \<^verbatim>\<open>runServe\<close> under interleaving: any number of requests, the periodic
  ticker and the shutdown path contend for it, the workload edits the tree in between, and each
  step is one of the points at which \<^verbatim>\<open>snapshotCtx\<close> or the restore handler touches shared state.
\<close>

subsection \<open>Threads and steps\<close>

datatype pc =
    Idle
  | Waiting string string string
  | Holding string string string
  | Saving string string string string
  | Snapped "(serr, manifest) result"
  | Releasing "(verr, manifest) result"
  | Answered "(verr, manifest) result"
  | RWaiting string
  | RHolding string
  | RReleasing response
  | RAnswered response

datatype event = ESaved manifest | ERestored string

record slotstate =
  q_slot :: "nat option"
  q_pcs :: "nat \<Rightarrow> pc"
  q_srv :: server
  q_bucket :: bucket
  q_events :: "event list"

type_synonym save_fn = "store \<Rightarrow> bucket \<Rightarrow> node \<Rightarrow> save_args \<Rightarrow> (serr, manifest) result \<times> store \<times> bucket"
type_synonym restore_fn = "pod \<Rightarrow> server \<Rightarrow> bucket \<Rightarrow> string \<Rightarrow> response \<times> server"

definition at_pc :: "nat \<Rightarrow> pc \<Rightarrow> slotstate \<Rightarrow> slotstate" where
  "at_pc t p st = st\<lparr>q_pcs := (q_pcs st)(t := p)\<rparr>"

fun idle :: "pc \<Rightarrow> bool" where
  "idle Idle = True"
| "idle (Answered _) = True"
| "idle (RAnswered _) = True"
| "idle _ = False"

definition saved_events :: "(serr, manifest) result \<Rightarrow> event list" where
  "saved_events r = (case r of Inr m \<Rightarrow> [ESaved m] | Inl _ \<Rightarrow> [])"

definition restored_events :: "response \<Rightarrow> server \<Rightarrow> event list" where
  "restored_events resp v = (if fst resp = 200 then [ERestored (v_last v)] else [])"

inductive slot_step :: "save_fn \<Rightarrow> restore_fn \<Rightarrow> slotstate \<Rightarrow> slotstate \<Rightarrow> bool" for save restore where
  request: "idle (q_pcs st t) \<Longrightarrow> v_store (q_srv st) \<noteq> None \<Longrightarrow>
     slot_step save restore st (at_pc t (Waiting name desc trig) st)"
| not_configured: "idle (q_pcs st t) \<Longrightarrow> v_store (q_srv st) = None \<Longrightarrow>
     slot_step save restore st (at_pc t (Answered (Inl (StoreErr ErrNotConfigured))) st)"
| acquire: "q_pcs st t = Waiting name desc trig \<Longrightarrow> q_slot st = None \<Longrightarrow>
     slot_step save restore st (at_pc t (Holding name desc trig) st\<lparr>q_slot := Some t\<rparr>)"
| give_up: "q_pcs st t = Waiting name desc trig \<Longrightarrow>
     slot_step save restore st (at_pc t (Answered (Inl SaveInProgress)) st)"
| begin_save: "q_pcs st t = Holding name desc trig \<Longrightarrow>
     slot_step save restore st
       (at_pc t (Saving name desc trig (v_last (q_srv st))) st\<lparr>q_srv := save_begin trig now (q_srv st)\<rparr>)"
| snapshot: "q_pcs st t = Saving name desc trig parent \<Longrightarrow> v_store (q_srv st) = Some s \<Longrightarrow>
     save s (q_bucket st) (visible (v_fs (q_srv st))) (save_args_of ck name desc trig parent) = (r, s', b') \<Longrightarrow>
     slot_step save restore st
       (at_pc t (Snapped r) st\<lparr>q_srv := (q_srv st)\<lparr>v_store := Some s'\<rparr>, q_bucket := b'\<rparr>)"
| finish: "q_pcs st t = Snapped r \<Longrightarrow>
     slot_step save restore st
       (at_pc t (Releasing (map_sum StoreErr (\<lambda>m. m) r)) st
          \<lparr>q_srv := save_finish now r (q_srv st), q_events := saved_events r @ q_events st\<rparr>)"
| release: "q_pcs st t = Releasing r \<Longrightarrow>
     slot_step save restore st (at_pc t (Answered r) st\<lparr>q_slot := None\<rparr>)"
| restore_request: "idle (q_pcs st t) \<Longrightarrow> v_store (q_srv st) \<noteq> None \<Longrightarrow>
     slot_step save restore st (at_pc t (RWaiting cid) st)"
| restore_acquire: "q_pcs st t = RWaiting cid \<Longrightarrow> q_slot st = None \<Longrightarrow>
     slot_step save restore st (at_pc t (RHolding cid) st\<lparr>q_slot := Some t\<rparr>)"
| restore_give_up: "q_pcs st t = RWaiting cid \<Longrightarrow>
     slot_step save restore st (at_pc t (RAnswered (slot_busy now (q_srv st))) st)"
| restore_run: "q_pcs st t = RHolding cid \<Longrightarrow> restore pd (q_srv st) (q_bucket st) cid = (resp, v') \<Longrightarrow>
     slot_step save restore st
       (at_pc t (RReleasing resp) st\<lparr>q_srv := v', q_events := restored_events resp v' @ q_events st\<rparr>)"
| restore_release: "q_pcs st t = RReleasing resp \<Longrightarrow>
     slot_step save restore st (at_pc t (RAnswered resp) st\<lparr>q_slot := None\<rparr>)"
| edit: "slot_step save restore st (st\<lparr>q_srv := (q_srv st)\<lparr>v_fs := set_visible n (v_fs (q_srv st))\<rparr>\<rparr>)"

inductive slot_reach :: "save_fn \<Rightarrow> restore_fn \<Rightarrow> slotstate \<Rightarrow> slotstate \<Rightarrow> bool" for save restore where
  refl: "slot_reach save restore st st"
| step: "slot_reach save restore st st1 \<Longrightarrow> slot_step save restore st1 st2 \<Longrightarrow> slot_reach save restore st st2"

definition slot_init :: "server \<Rightarrow> bucket \<Rightarrow> slotstate" where
  "slot_init v b = \<lparr> q_slot = None, q_pcs = (\<lambda>_. Idle), q_srv = v, q_bucket = b, q_events = [] \<rparr>"

subsection \<open>The invariant\<close>

fun critical :: "pc \<Rightarrow> bool" where
  "critical (Holding _ _ _) = True"
| "critical (Saving _ _ _ _) = True"
| "critical (Snapped _) = True"
| "critical (Releasing _) = True"
| "critical (RHolding _) = True"
| "critical (RReleasing _) = True"
| "critical _ = False"

fun in_save :: "pc \<Rightarrow> bool" where
  "in_save (Saving _ _ _ _) = True"
| "in_save (Snapped _) = True"
| "in_save _ = False"

lemma in_save_critical: "in_save p \<Longrightarrow> critical p"
  by (cases p) auto

lemma idle_not_critical: "idle p \<Longrightarrow> \<not> critical p"
  by (cases p) auto

text \<open>The checkpoint the working tree descends from, by what happened last.\<close>

fun last_of :: "event list \<Rightarrow> string" where
  "last_of [] = []"
| "last_of (ESaved m # es) = m_id m"
| "last_of (ERestored cid # es) = cid"

fun lineage :: "event list \<Rightarrow> bool" where
  "lineage [] = True"
| "lineage (ESaved m # es) = (m_parent m = last_of es \<and> lineage es)"
| "lineage (ERestored cid # es) = lineage es"

text \<open>Mutual exclusion, and the busy report tells the truth.\<close>

definition slot_ok :: "slotstate \<Rightarrow> bool" where
  "slot_ok st \<longleftrightarrow> (\<forall>t. critical (q_pcs st t) \<longleftrightarrow> q_slot st = Some t) \<and>
     (v_current (q_srv st) \<noteq> None \<longleftrightarrow> (\<exists>t. in_save (q_pcs st t)))"

definition lineage_ok :: "slotstate \<Rightarrow> bool" where
  "lineage_ok st \<longleftrightarrow> v_last (q_srv st) = last_of (q_events st) \<and> lineage (q_events st) \<and>
     (\<forall>t name desc trig parent. q_pcs st t = Saving name desc trig parent \<longrightarrow> parent = v_last (q_srv st)) \<and>
     (\<forall>t m. q_pcs st t = Snapped (Inr m) \<longrightarrow> m_parent m = v_last (q_srv st))"

definition data_ok :: "(store \<Rightarrow> bucket \<Rightarrow> bool) \<Rightarrow> slotstate \<Rightarrow> bool" where
  "data_ok good st \<longleftrightarrow> (case v_store (q_srv st) of None \<Rightarrow> True | Some s \<Rightarrow> good s (q_bucket st))"

lemma at_pc_simps [simp]:
  "q_slot (at_pc t p st) = q_slot st"
  "q_pcs (at_pc t p st) = (q_pcs st)(t := p)"
  "q_srv (at_pc t p st) = q_srv st"
  "q_bucket (at_pc t p st) = q_bucket st"
  "q_events (at_pc t p st) = q_events st"
  by (simp_all add: at_pc_def)

lemma save_begin_simps [simp]:
  "v_store (save_begin trig now v) = v_store v"
  "v_fs (save_begin trig now v) = v_fs v"
  "v_last (save_begin trig now v) = v_last v"
  "v_current (save_begin trig now v) \<noteq> None"
  by (simp_all add: save_begin_def)

lemma save_finish_simps [simp]:
  "v_store (save_finish now r v) = v_store v"
  "v_fs (save_finish now r v) = v_fs v"
  "v_current (save_finish now r v) = None"
  by (auto simp: save_finish_def Let_def split: option.splits sum.splits)

lemma save_finish_last:
  "v_current v \<noteq> None \<Longrightarrow> v_last (save_finish now r v) = (case r of Inr m \<Rightarrow> m_id m | Inl _ \<Rightarrow> v_last v)"
  by (auto simp: save_finish_def Let_def split: sum.splits)

text \<open>The five ways a step of one thread affects the slot.\<close>

lemma slot_ok_neutral:
  assumes "slot_ok st" and "q_slot st' = q_slot st" and "q_pcs st' = (q_pcs st)(t := p)"
    and "critical p = critical (q_pcs st t)" and "in_save p = in_save (q_pcs st t)"
    and "(v_current (q_srv st') = None) = (v_current (q_srv st) = None)"
  shows "slot_ok st'"
proof -
  have "critical (q_pcs st' u) = critical (q_pcs st u)" "in_save (q_pcs st' u) = in_save (q_pcs st u)" for u
    using assms(3-5) by (cases "u = t"; simp)+
  then show ?thesis using assms(1,2,6) by (simp add: slot_ok_def)
qed

lemma slot_ok_acquire:
  assumes "slot_ok st" and "q_slot st = None" and "q_slot st' = Some t" and "q_pcs st' = (q_pcs st)(t := p)"
    and "critical p" and "\<not> in_save p" and "q_srv st' = q_srv st"
  shows "slot_ok st'"
proof -
  have none: "\<not> critical (q_pcs st u)" for u
    using assms(1,2) by (simp add: slot_ok_def)
  then have "\<not> in_save (q_pcs st u)" for u
    using in_save_critical by blast
  with none assms show ?thesis by (auto simp: slot_ok_def)
qed

lemma slot_ok_release:
  assumes "slot_ok st" and "critical (q_pcs st t)" and "\<not> in_save (q_pcs st t)" and "q_slot st' = None"
    and "q_pcs st' = (q_pcs st)(t := p)" and "\<not> critical p" and "q_srv st' = q_srv st"
  shows "slot_ok st'"
proof -
  have "q_slot st = Some t" using assms(1,2) by (simp add: slot_ok_def)
  then have others: "\<not> critical (q_pcs st u)" if "u \<noteq> t" for u
    using assms(1) that by (auto simp: slot_ok_def)
  then have "\<not> in_save (q_pcs st u)" for u
    using in_save_critical assms(3) by (cases "u = t") blast+
  with others assms show ?thesis by (auto simp: slot_ok_def dest: in_save_critical)
qed

lemma slot_ok_begin:
  assumes "slot_ok st" and "critical (q_pcs st t)" and "q_slot st' = q_slot st"
    and "q_pcs st' = (q_pcs st)(t := p)" and "in_save p" and "v_current (q_srv st') \<noteq> None"
  shows "slot_ok st'"
  using assms by (auto simp: slot_ok_def dest: in_save_critical)

lemma slot_ok_finish:
  assumes "slot_ok st" and "critical (q_pcs st t)" and "q_slot st' = q_slot st"
    and "q_pcs st' = (q_pcs st)(t := p)" and "critical p" and "\<not> in_save p" and "v_current (q_srv st') = None"
  shows "slot_ok st'"
proof -
  have "\<not> in_save (q_pcs st u)" if "u \<noteq> t" for u
    using assms(1,2) that in_save_critical by (fastforce simp: slot_ok_def)
  with assms show ?thesis by (auto simp: slot_ok_def)
qed

text \<open>What the slot relies on of the operations it serialises.\<close>

locale save_engine =
  fixes save :: save_fn and restore :: restore_fn and good :: "store \<Rightarrow> bucket \<Rightarrow> bool"
  assumes save_good: "good s b \<Longrightarrow> save s b n a = (r, s', b') \<Longrightarrow> good s' b'"
    and save_parent: "save s b n a = (Inr m, s', b') \<Longrightarrow> m_parent m = sv_parent a"
    and restore_good: "restore pd v b cid = (resp, v') \<Longrightarrow> v_store v = Some s \<Longrightarrow> good s b \<Longrightarrow>
           \<exists>s'. v_store v' = Some s' \<and> good s' b"
    and restore_none: "restore pd v b cid = (resp, v') \<Longrightarrow> v_store v = None \<Longrightarrow> v_store v' = None"
    and restore_frame: "restore pd v b cid = (resp, v') \<Longrightarrow> v_current v' = v_current v \<and>
           (fst resp \<noteq> 200 \<longrightarrow> v_last v' = v_last v)"
begin

lemma step_data:
  assumes "data_ok good st" and "slot_step save restore st st'"
  shows "data_ok good st'"
  using assms(2,1)
proof cases
  case (snapshot t name desc trig parent s ck r s' b')
  then show ?thesis using assms(1) save_good by (auto simp: data_ok_def)
next
  case (restore_run t cid pd resp v')
  then show ?thesis
    using assms(1) restore_good [of pd "q_srv st" "q_bucket st" cid resp v'] restore_none [of pd "q_srv st" "q_bucket st" cid resp v']
    by (cases "v_store (q_srv st)") (auto simp: data_ok_def)
qed (auto simp: data_ok_def split: option.splits)

lemma step_slot:
  assumes "slot_ok st" and "slot_step save restore st st'"
  shows "slot_ok st'"
  using assms(2,1)
proof cases
  case (request t name desc trig)
  then show ?thesis
    by (intro slot_ok_neutral [OF assms(1), where t = t and p = "Waiting name desc trig"]) (auto elim: idle.elims)
next
  case (not_configured t)
  then show ?thesis
    by (intro slot_ok_neutral [OF assms(1), where t = t and p = "Answered (Inl (StoreErr ErrNotConfigured))"])
      (auto elim: idle.elims)
next
  case (acquire t name desc trig)
  then show ?thesis
    by (intro slot_ok_acquire [OF assms(1), where t = t and p = "Holding name desc trig"]) auto
next
  case (give_up t name desc trig)
  then show ?thesis
    by (intro slot_ok_neutral [OF assms(1), where t = t and p = "Answered (Inl SaveInProgress)"]) auto
next
  case (begin_save t name desc trig now)
  then show ?thesis
    by (intro slot_ok_begin [OF assms(1), where t = t and p = "Saving name desc trig (v_last (q_srv st))"])
      (simp_all add: save_begin_def)
next
  case (snapshot t name desc trig parent s ck r s' b')
  then show ?thesis
    by (intro slot_ok_neutral [OF assms(1), where t = t and p = "Snapped r"]) auto
next
  case (finish t r now)
  then show ?thesis
    by (intro slot_ok_finish [OF assms(1), where t = t and p = "Releasing (map_sum StoreErr (\<lambda>m. m) r)"]) auto
next
  case (release t r)
  then show ?thesis
    by (intro slot_ok_release [OF assms(1), where t = t and p = "Answered r"]) auto
next
  case (restore_request t cid)
  then show ?thesis
    by (intro slot_ok_neutral [OF assms(1), where t = t and p = "RWaiting cid"]) (auto elim: idle.elims)
next
  case (restore_acquire t cid)
  then show ?thesis
    by (intro slot_ok_acquire [OF assms(1), where t = t and p = "RHolding cid"]) auto
next
  case (restore_give_up t cid now)
  then show ?thesis
    by (intro slot_ok_neutral [OF assms(1), where t = t and p = "RAnswered (slot_busy now (q_srv st))"]) auto
next
  case (restore_run t cid pd resp v')
  then show ?thesis
    using restore_frame [OF restore_run(3)]
    by (intro slot_ok_neutral [OF assms(1), where t = t and p = "RReleasing resp"]) auto
next
  case (restore_release t resp)
  then show ?thesis
    by (intro slot_ok_release [OF assms(1), where t = t and p = "RAnswered resp"]) auto
next
  case (edit n)
  with assms(1) show ?thesis by (simp add: slot_ok_def)
qed

lemma step_lineage:
  assumes "slot_ok st" and "lineage_ok st" and "slot_step save restore st st'"
  shows "lineage_ok st'"
proof -
  have alone: "q_pcs st u \<noteq> Saving n d g p \<and> q_pcs st u \<noteq> Snapped r"
    if "critical (q_pcs st t)" "u \<noteq> t" for t u n d g p r
  proof -
    have "\<not> critical (q_pcs st u)"
      using assms(1) that by (metis option.inject slot_ok_def)
    then show ?thesis by auto
  qed
  from assms(3,2) show ?thesis
  proof cases
    case (snapshot t name desc trig parent s ck r s' b')
    then have "m_parent m = v_last (q_srv st)" if "r = Inr m" for m
      using save_parent that assms(2) by (fastforce simp: lineage_ok_def save_args_of_def)
    moreover have "critical (q_pcs st t)" using snapshot(2) by simp
    from alone [OF this] have "q_pcs st' u \<noteq> Saving n d g p" "q_pcs st' u = Snapped r' \<Longrightarrow> r' = r" for u n d g p r'
      using snapshot(1) by (cases "u = t"; simp)+
    moreover have "v_last (q_srv st') = v_last (q_srv st)" "q_events st' = q_events st"
      using snapshot(1) by simp_all
    ultimately show ?thesis
      using assms(2) unfolding lineage_ok_def by metis
  next
    case (finish t r now)
    then have "v_current (q_srv st) \<noteq> None"
      using assms(1) by (auto simp: slot_ok_def) (metis in_save.simps(2) option.distinct(1))
    then have last: "v_last (q_srv st') = (case r of Inr m \<Rightarrow> m_id m | Inl _ \<Rightarrow> v_last (q_srv st))"
      using finish(1) by (simp add: save_finish_last)
    have "critical (q_pcs st t)" using finish(2) by simp
    from alone [OF this] have "\<forall>u n d g p. q_pcs st' u \<noteq> Saving n d g p" "\<forall>u r. q_pcs st' u \<noteq> Snapped r"
      using finish(1) by (auto split: if_splits)
    with last assms(2) finish show ?thesis
      by (cases r) (auto simp: lineage_ok_def saved_events_def)
  next
    case (restore_run t cid pd resp v')
    have "critical (q_pcs st t)" using restore_run(2) by simp
    from alone [OF this] have "\<forall>u n d g p. q_pcs st' u \<noteq> Saving n d g p" "\<forall>u r. q_pcs st' u \<noteq> Snapped r"
      using restore_run(1) by (auto split: if_splits)
    with assms(2) restore_run(1) restore_frame [OF restore_run(3)] show ?thesis
      by (auto simp: lineage_ok_def restored_events_def)
  qed (use assms(2) in \<open>auto simp: lineage_ok_def split: if_splits\<close>)
qed

theorem reach_ok:
  assumes "slot_reach save restore st st'" and "slot_ok st" and "lineage_ok st" and "data_ok good st"
  shows "slot_ok st' \<and> lineage_ok st' \<and> data_ok good st'"
  using assms by (induction rule: slot_reach.induct) (auto intro: step_slot step_lineage step_data)

end

subsection \<open>The store behind the slot\<close>

lemma Snapshot_store_inv':
  assumes "s3_ok c" "json_ok sys" "store_inv sys s b" and "Snapshot sys c s b root a = (r, s', b')"
  shows "store_inv sys s' b'"
proof -
  have "s' = s \<or> (\<exists>d. s' = s\<lparr>st_restoredDigest := d\<rparr>)"
    using assms(1,4) by (cases rule: Snapshot_cases) (auto split: option.splits)
  with Snapshot_store_inv [OF assms] show ?thesis by auto
qed

lemma Snapshot_parent: "Snapshot sys c s b root a = (Inr m, s', b') \<Longrightarrow> m_parent m = sv_parent a"
  by (auto simp: Snapshot_def snapshot_manifest_def Let_def split: if_splits prod.splits sum.splits option.splits)

lemma Restore_store: "Restore sys c s b n m = (r, s', n') \<Longrightarrow> s' = s\<lparr>st_restoredDigest := manifestDigest sys m\<rparr>"
  by (auto simp: Restore_def Let_def split: prod.splits)

lemma restore_swap_store:
  "restore_swap sys c pd s b f img m = (r, s', f') \<Longrightarrow> s' = s \<or> s' = s\<lparr>st_restoredDigest := manifestDigest sys m\<rparr>"
  by (auto simp: restore_swap_def Let_def dest!: Restore_store split: option.splits sum.splits prod.splits)

definition do_restore :: "gosys \<Rightarrow> s3 \<Rightarrow> (string \<Rightarrow> string) \<Rightarrow> restore_fn" where
  "do_restore sys c env pd v b cid = handle_restore sys c pd env (\<lambda>_. True) 0 ''POST'' cid v b"

lemma do_restore_frame:
  assumes "do_restore sys c env pd v b cid = (resp, v')"
  shows "v_current v' = v_current v" and "fst resp \<noteq> 200 \<Longrightarrow> v_last v' = v_last v"
    and "v_store v = None \<Longrightarrow> v_store v' = None"
    and "v_store v = Some s \<Longrightarrow> \<exists>d. v_store v' = Some s \<or> v_store v' = Some (s\<lparr>st_restoredDigest := d\<rparr>)"
  using assms
  by (auto simp: do_restore_def handle_restore_def slot_busy_def Let_def dest!: restore_swap_store
      split: option.splits sum.splits if_splits prod.splits)

interpretation slot: save_engine "Snapshot sys c" "do_restore sys c env"
  "\<lambda>s b. s3_ok c \<and> json_ok sys \<longrightarrow> store_inv sys s b" for sys c env
proof
  fix s b n a r s' b'
  assume "s3_ok c \<and> json_ok sys \<longrightarrow> store_inv sys s b" "Snapshot sys c s b n a = (r, s', b')"
  then show "s3_ok c \<and> json_ok sys \<longrightarrow> store_inv sys s' b'"
    using Snapshot_store_inv' by blast
next
  fix s b n a m s' b' assume "Snapshot sys c s b n a = (Inr m, s', b')"
  then show "m_parent m = sv_parent a" by (rule Snapshot_parent)
next
  fix pd v b cid resp v' s
  assume "do_restore sys c env pd v b cid = (resp, v')" "v_store v = Some s"
    and good: "s3_ok c \<and> json_ok sys \<longrightarrow> store_inv sys s b"
  then obtain d where "v_store v' = Some s \<or> v_store v' = Some (s\<lparr>st_restoredDigest := d\<rparr>)"
    using do_restore_frame(4) by blast
  with good show "\<exists>s'. v_store v' = Some s' \<and> (s3_ok c \<and> json_ok sys \<longrightarrow> store_inv sys s' b)"
    by auto
next
  fix pd v b cid resp v'
  assume r: "do_restore sys c env pd v b cid = (resp, v')"
  show "v_store v = None \<Longrightarrow> v_store v' = None" by (rule do_restore_frame(3) [OF r])
  show "v_current v' = v_current v \<and> (fst resp \<noteq> 200 \<longrightarrow> v_last v' = v_last v)"
    using do_restore_frame(1,2) [OF r] by blast
qed

lemma slot_init_ok:
  assumes "v_current v = None" and "v_last v = []"
  shows "slot_ok (slot_init v b)" and "lineage_ok (slot_init v b)"
  using assms by (simp_all add: slot_init_def slot_ok_def lineage_ok_def)

lemma slot_reach_configured:
  "slot_reach (Snapshot sys c) (do_restore sys c env) st st' \<Longrightarrow> v_store (q_srv st) \<noteq> None \<Longrightarrow>
     v_store (q_srv st') \<noteq> None"
proof (induction rule: slot_reach.induct)
  case (step st st1 st2)
  have some: "v_store (q_srv st1) \<noteq> None" using step by blast
  from step.hyps(2) show ?case
  proof cases
    case (restore_run t cid pd resp v')
    with some do_restore_frame(4) show ?thesis by fastforce
  qed (use some in auto)
qed

subsection \<open>Properties of the slot\<close>


definition demo_server :: server where
  "demo_server =
     \<lparr> v_store = Some demo_store, v_fs = \<lparr> f_plain = demo_tree, f_overlay = None \<rparr>, v_gens = None,
       v_genfs = \<lparr> gf_dirs = Map.empty, gf_link = None \<rparr>, v_last = [], v_current = None, v_lastDone = None \<rparr>"


end
