(* ===== verification/Server_Props.thy ===== *)
theory Server_Props
  imports Save_Slot
begin

text \<open>
  What the sidecar guarantees to its callers: a read-only workspace is never written, an
  acknowledged checkpoint is durable, a start never presents an unreachable workspace as empty, a
  refused restore leaves the workspace alone, and a refresh swaps whole trees.
\<close>

subsection \<open>The request dispatcher\<close>

text \<open>What the outside decides about one request.\<close>

record input =
  i_free :: "int \<Rightarrow> bool"
  i_clock :: clock
  i_pod :: pod
  i_genio :: genio

datatype request =
    CheckpointReq string string string string
  | FlushReq
  | HealthzReq
  | RestoreReq string string
  | RefreshReq string
  | ListReq
  | TickEv
  | ShutdownEv

definition mux :: "gosys \<Rightarrow> s3 \<Rightarrow> (string \<Rightarrow> string) \<Rightarrow> input \<times> request \<Rightarrow> server \<times> bucket \<Rightarrow> server \<times> bucket" where
  "mux sys c env ir vb =
     (case (ir, vb) of ((i, req), (v, b)) \<Rightarrow>
      (case req of
         CheckpointReq meth q name desc \<Rightarrow> snd (handle_checkpoint sys c env (i_free i) (i_clock i) meth q name desc v b)
       | FlushReq \<Rightarrow> snd (handle_flush sys c env (i_free i) (i_clock i) v b)
       | HealthzReq \<Rightarrow> (v, b)
       | RestoreReq meth cid \<Rightarrow> (snd (handle_restore sys c (i_pod i) env (i_free i) (ck_start (i_clock i)) meth cid v b), b)
       | RefreshReq meth \<Rightarrow> (snd (handle_refresh sys c (i_genio i) env (i_free i) (ck_start (i_clock i)) meth v b), b)
       | ListReq \<Rightarrow> (v, b)
       | TickEv \<Rightarrow> periodic_tick sys c env (i_free i) (i_clock i) v b
       | ShutdownEv \<Rightarrow> snd (shutdown sys c env (i_free i) (i_clock i) v b)))"

subsection \<open>A read-only server\<close>

lemma gen_advance_store:
  assumes "gen_advance io sys c s b gf g cid = (r, s', gf', g')"
  shows "s' = s \<or> (\<exists>d. s' = s\<lparr>st_restoredDigest := d\<rparr>)"
proof -
  obtain r1 s1 gf1 where bd: "gen_build io sys c s b gf (g_n g + 1) cid = (r1, s1, gf1)" by (metis prod_cases3)
  have "s' = s1"
    using assms bd by (auto simp: gen_advance_def Let_def split: sum.splits prod.splits option.splits)
  moreover have "s1 = s \<or> (\<exists>d. s1 = s\<lparr>st_restoredDigest := d\<rparr>)"
    using bd by (auto simp: gen_build_def Let_def dest!: Restore_store split: if_splits sum.splits prod.splits option.splits)
  ultimately show ?thesis by simp
qed

lemma refresh_readOnly: "srv_readOnly v \<Longrightarrow> srv_readOnly (snd (handle_refresh sys c io env free now meth v b))"
  by (auto simp: handle_refresh_def srv_readOnly_def dest!: gen_advance_store
      split: option.splits sum.splits prod.splits)

lemma mux_readOnly:
  assumes "srv_readOnly v"
  shows "snd (mux sys c env ir (v, b)) = b" and "srv_readOnly (fst (mux sys c env ir (v, b)))"
proof -
  obtain s where s: "v_store v = Some s" "st_readOnly s"
    using assms by (auto simp: srv_readOnly_def split: option.splits)
  obtain i req where ir: "ir = (i, req)" by fastforce
  show "snd (mux sys c env ir (v, b)) = b"
    using assms by (cases req) (auto simp: ir mux_def handle_checkpoint_def handle_flush_def periodic_tick_def
        shutdown_def Let_def srv_readOnly_def split: option.splits)
  show "srv_readOnly (fst (mux sys c env ir (v, b)))"
    using assms s refresh_readOnly [OF assms]
    by (cases req) (auto simp: ir mux_def handle_checkpoint_def handle_flush_def handle_restore_def periodic_tick_def
        shutdown_def Let_def srv_readOnly_def split: option.splits)
qed

text \<open>
  A read-only sidecar is incapable of writing: whatever sequence of requests, backstop ticks
  and shutdown it receives, in whatever state of pod, clock and storage, the bucket is unchanged.
\<close>

theorem read_only_server:
  assumes "srv_readOnly v"
  shows "snd (fold (mux sys c env) irs (v, b)) = b"
proof -
  have "srv_readOnly (fst vb) \<Longrightarrow> snd (fold (mux sys c env) irs vb) = snd vb" for vb
  proof (induction irs arbitrary: vb)
    case (Cons ir irs)
    then show ?case
      using mux_readOnly [of "fst vb" sys c env ir "snd vb"] by simp
  qed simp
  from this [of "(v, b)"] assms show ?thesis by simp
qed

theorem read_only_server_witness:
  "let v = demo_server\<lparr>v_store := Some (demo_store\<lparr>st_readOnly := True\<rparr>)\<rparr>;
       i = \<lparr> i_free = (\<lambda>_. True), i_clock = \<lparr> ck_nano = 5, ck_pid = 1, ck_created = 0, ck_start = 0, ck_end = 0 \<rparr>,
             i_pod = \<lparr> pd_mkdir = True, pd_staging = True, pd_chown_upper = True, pd_chown_tree = True, pd_ready = True,
                       pd_squashfuse = (\<lambda>_. None), pd_overlayfs = Some \<rparr>,
             i_genio = \<lparr> gi_clear = True, gi_mkdir = True, gi_chown = True, gi_symlink = True, gi_rename = True, gi_prune = True \<rparr> \<rparr>
   in srv_readOnly v \<and>
      snd (fold (mux demo_sys mem_s3 (\<lambda>_. [])) [(i, CheckpointReq ''POST'' [] [] []), (i, FlushReq), (i, ShutdownEv)] (v, demo_bucket)) = demo_bucket"
  unfolding Let_def by (intro conjI read_only_server) (simp_all add: srv_readOnly_def demo_server_def)

subsection \<open>An acknowledged checkpoint\<close>

text \<open>
  C11: a checkpoint that was acknowledged is durable. When \<^verbatim>\<open>POST /checkpoint\<close> answers 200 with a
  checkpoint id, the bucket holds that checkpoint complete, LATEST names it, and the server will
  record it as the parent of the next save; a 200 without an id saved nothing and moved nothing.
\<close>

theorem checkpoint_acknowledged:
  assumes "s3_ok c" "json_ok sys" "v_store v = Some s" "store_inv sys s b"
    and "\<forall>cid \<in> checkpoints s b. cid \<le> newID sys (ck_nano ck) (ck_pid ck)"
    and "handle_checkpoint sys c env free ck meth q name desc v b = (resp, v', b')"
    and "fst resp = 200" and "map_of (snd resp) ''checkpointId'' = Some cid"
  shows "if cid = [] then (\<forall>k. \<not> HasPrefix k (st_prefix s @ ''/objects/'') \<longrightarrow> b' k = b k) \<and> v_last v' = v_last v
    else b' (latestKey s) = Some cid \<and> v_last v' = cid \<and>
      (\<exists>m. b' (manifestKey s cid) = Some (json_marshal sys m) \<and> m_parent m = v_last v \<and> complete sys s b' (json_image sys m))"
proof -
  let ?a = "save_args_of ck name desc ''on-demand'' (v_last v)"
  let ?free = "free (request_wait (checkpointWait env) q)"
  obtain r s1 b1 where sn: "Snapshot sys c s b (visible (v_fs v)) ?a = (r, s1, b1)" by (metis prod_cases3)
  let ?v1 = "save_finish (ck_end ck) r ((save_begin ''on-demand'' (ck_start ck) v)\<lparr>v_store := Some s1\<rparr>)"
  have "?free" "meth = ''POST''" "\<not> srv_readOnly v"
    using assms(3,6,7) by (auto simp: handle_checkpoint_def read_only_refusal_def slot_busy_def snapshotCtx_def split: if_splits)
  then have res: "v' = ?v1" "b' = b1"
      "(\<exists>m. r = Inr m \<and> cid = m_id m) \<or> cid = [] \<and> r \<in> {Inl ErrUnchanged, Inl ErrNothingToSave, Inl ErrNotConfigured}"
    using assms(3,6,7,8) sn
    by (cases r; auto simp: handle_checkpoint_def snapshotCtx_def Let_def split: serr.splits)+
  have last: "v_last v' = (case r of Inr m \<Rightarrow> m_id m | Inl _ \<Rightarrow> v_last v)"
    unfolding res(1) by (cases r) (simp_all add: save_finish_last save_begin_def)
  from res(3) show ?thesis
  proof
    assume "\<exists>m. r = Inr m \<and> cid = m_id m"
    then obtain m where m: "r = Inr m" "cid = m_id m" by blast
    have newest: "\<forall>x \<in> checkpoints s b. x \<le> newID sys (sv_now ?a) (sv_pid ?a)"
      using assms(5) by (simp add: save_args_of_def)
    note man = Snapshot_manifest [OF assms(1) sn [unfolded m(1)] newest]
    have "m = tree_manifest sys s ?a (visible (v_fs v))"
      using assms(1) sn m(1) by (elim Snapshot_Inr) simp_all
    then have ne: "cid \<noteq> []" using m(2) by simp
    have "complete sys s b' (json_image sys m)"
      using store_invD [OF Snapshot_store_inv [OF assms(1,2,4) sn] ne _ json_okD(1) [OF assms(2)]] man(1) m(2) res(2) by simp
    moreover have "m_parent m = v_last v"
      using Snapshot_parent sn m(1) by (fastforce simp: save_args_of_def)
    ultimately show ?thesis
      using man m last ne res(2) by auto
  next
    assume none: "cid = [] \<and> r \<in> {Inl ErrUnchanged, Inl ErrNothingToSave, Inl ErrNotConfigured}"
    have "\<forall>k. \<not> HasPrefix k (st_prefix s @ ''/objects/'') \<longrightarrow> b1 k = b k"
      using assms(1) sn
    proof (cases rule: Snapshot_cases)
      case (refused e)
      then show ?thesis using grown_other by blast
    next
      case (commit b2 r1 b3)
      then obtain e where "r1 = Some e" "r = Inl e" using none by (auto split: option.splits)
      with commit(7) none show ?thesis
        by (auto simp: commit_manifest_def setLatest_def split: prod.splits option.splits)
    qed simp
    with none last res(2) show ?thesis by auto
  qed
qed

definition demo_clock :: clock where
  "demo_clock = \<lparr> ck_nano = 1790000000000000000, ck_pid = 7, ck_created = 0, ck_start = 0, ck_end = 1 \<rparr>"

theorem checkpoint_acknowledged_witness:
  "\<exists>cid v' b'. handle_checkpoint demo_sys mem_s3 (\<lambda>_. []) (\<lambda>_. True) demo_clock ''POST'' [] [] [] demo_server Map.empty
       = ((200, [(''checkpointId'', cid), (''files'', Itoa 1)]), v', b') \<and> b' (latestKey demo_store) = Some cid \<and> v_last v' = cid"
proof -
  let ?a = "save_args_of demo_clock [] [] ''on-demand'' []"
  have "\<not> st_readOnly demo_store" "st_restoredDigest demo_store = []"
    by (simp_all add: demo_store_def)
  then obtain m s' b' where sn: "Snapshot demo_sys mem_s3 demo_store Map.empty demo_tree ?a = (Inr m, s', b')"
      and m: "m = snapshot_manifest demo_sys demo_store ?a [\<lparr>e_path = rel_path [''f''], e_hash = hex_sha demo_sys ''x'', e_mode = 493, e_size = 1\<rparr>]"
    by (simp add: Snapshot_def demo_walk putIfAbsent_def s3_upD [OF mem_s3_up] simps_manifest_entries
        commit_manifest_def setLatest_def Let_def)
  have srv: "v_store demo_server = Some demo_store" "\<not> srv_readOnly demo_server" "v_last demo_server = []"
      "visible (v_fs demo_server) = demo_tree"
    by (simp_all add: demo_server_def srv_readOnly_def demo_store_def visible_def)
  then obtain v' where h: "handle_checkpoint demo_sys mem_s3 (\<lambda>_. []) (\<lambda>_. True) demo_clock ''POST'' [] [] [] demo_server Map.empty
       = ((200, [(''checkpointId'', m_id m), (''files'', Itoa 1)]), v', b')"
    using sn by (simp add: handle_checkpoint_def snapshotCtx_def Let_def save_begin_def m simps_manifest_entries)
  have ne: "m_id m \<noteq> []" by (simp add: m snapshot_manifest_def)
  have "\<forall>cid \<in> checkpoints demo_store Map.empty. cid \<le> newID demo_sys (ck_nano demo_clock) (ck_pid demo_clock)"
    by (simp add: demo_empty_inv)
  from checkpoint_acknowledged [OF mem_s3_ok demo_sys_ok srv(1) demo_empty_inv(1) this h, of "m_id m"] ne
  have "b' (latestKey demo_store) = Some (m_id m)" "v_last v' = m_id m" by simp_all
  with h show ?thesis by blast
qed

subsection \<open>Restore on startup\<close>

lemma downloadTo_Inr: "s3_ok c \<Longrightarrow> downloadTo c b k = Inr img \<Longrightarrow> b k = Some img"
  by (auto simp: downloadTo_def dest: s3_getD(1) split: option.splits s3err.splits sum.splits)

lemma downloadTo_NoArchive: "s3_ok c \<Longrightarrow> downloadTo c b k = Inl ErrNoArchive \<Longrightarrow> b k = None"
  by (auto simp: downloadTo_def dest: s3_statD(2) split: option.splits s3err.splits sum.splits)

lemma Latest_Inr: "s3_ok c \<Longrightarrow> Latest c s b = Inr cid \<Longrightarrow> (case b (latestKey s) of None \<Rightarrow> cid = [] | Some v \<Rightarrow> cid = TrimSpace v)"
  by (auto simp: Latest_def dest: s3_getD split: option.splits s3err.splits sum.splits)

lemma visible_simps [simp]:
  "visible (set_visible n f) = n"
  "visible (f\<lparr>f_overlay := Some n\<rparr>) = n"
  "visible (unmountFuse f) = f_plain f"
  by (auto simp: visible_def set_visible_def unmountFuse_def split: option.splits)

text \<open>The tree is the whole of a checkpoint of the workspace, restored file by file.\<close>

definition restored_as :: "gosys \<Rightarrow> s3 \<Rightarrow> store \<Rightarrow> bucket \<Rightarrow> node \<Rightarrow> string \<Rightarrow> node \<Rightarrow> bool" where
  "restored_as sys c s b n0 cid n \<longleftrightarrow>
     (\<exists>m s'. GetManifest sys c s b cid = Inr m \<and> Restore sys c s b n0 m = (None, s', n))"

text \<open>The tree is what the pod's mount tools make of a stored image.\<close>

definition mounted_from :: "pod \<Rightarrow> bucket \<Rightarrow> key \<Rightarrow> node \<Rightarrow> bool" where
  "mounted_from pd b k n \<longleftrightarrow>
     (\<exists>img lower. b k = Some img \<and> pd_squashfuse pd img = Some lower \<and> pd_overlayfs pd lower = Some n)"

lemma restoreFromCheckpoint_None:
  "restoreFromCheckpoint sys c pd s b f cid = (None, s', f') \<Longrightarrow> restored_as sys c s b (visible f) cid (visible f')"
  by (auto simp: restoreFromCheckpoint_def restored_as_def split: sum.splits prod.splits option.splits if_splits)

lemma restoreFromManifest_None:
  "restoreFromManifest sys c pd s b f = (None, s', f') \<Longrightarrow>
     (Latest c s b = Inr [] \<and> f' = f) \<or> (\<exists>cid. Latest c s b = Inr cid \<and> restored_as sys c s b (visible f) cid (visible f'))"
  by (auto simp: restoreFromManifest_def dest: restoreFromCheckpoint_None split: sum.splits if_splits)

lemma mountFuse_Inr:
  "s3_ok c \<Longrightarrow> downloadTo c b k = Inr img \<Longrightarrow> mountFuse pd img f = Inr f' \<Longrightarrow> mounted_from pd b k (visible f')"
  by (auto simp: mountFuse_def mounted_from_def dest: downloadTo_Inr split: if_splits option.splits)

lemma as_plain_Inr: "as_plain x = (Inr fused, s', f') \<Longrightarrow> \<not> fused \<and> x = (None, s', f')"
  by (auto simp: as_plain_def split: prod.splits option.splits)

lemma restore_pinned_Inr:
  assumes "s3_ok c" and "st_pinned s \<noteq> []" and "restore_pinned sys c pd s b f = (Inr fused, s', f')"
  shows "b (manifestKey s (st_pinned s)) \<noteq> None \<and>
    (if fused then mounted_from pd b (checkpointArchiveKey s (st_pinned s)) (visible f')
     else restored_as sys c s b (visible f) (st_pinned s) (visible f'))"
proof -
  have res: "Resolve c s b = Inr (st_pinned s)" "b (manifestKey s (st_pinned s)) \<noteq> None"
    using assms by (auto simp: restore_pinned_def Resolve_def dest: s3_statD(1) split: option.splits)
  show ?thesis
  proof (cases "DownloadCheckpointArchive c s b (st_pinned s)")
    case (Inr img)
    then show ?thesis
      using assms(3) res mountFuse_Inr [OF assms(1), of b "checkpointArchiveKey s (st_pinned s)" img pd f]
      by (auto simp: restore_pinned_def DownloadCheckpointArchive_def split: sum.splits)
  next
    case (Inl e)
    then have "e = ErrNoArchive"
      using assms(3) res by (auto simp: restore_pinned_def split: serr.splits)
    with Inl assms(3) res show ?thesis
      by (auto simp: restore_pinned_def dest!: as_plain_Inr restoreFromCheckpoint_None)
  qed
qed


definition demo_pod :: pod where
  "demo_pod = \<lparr> pd_mkdir = True, pd_staging = True, pd_chown_upper = True, pd_chown_tree = True, pd_ready = True,
     pd_squashfuse = (\<lambda>img. if img = ''image'' then Some (Dir [(''a'', RegFile ''1'' 420)]) else None), pd_overlayfs = Some \<rparr>"


subsection \<open>Undo to a checkpoint\<close>

text \<open>
  \<^verbatim>\<open>/restore\<close> does not touch the workspace until it can name and fetch its target. Every answer
  other than 200 and 500 leaves the server - the tree, the mounts, the lineage - exactly as it was;
  a 200 means the tree is the target checkpoint's stored image mounted, or the target's manifest
  restored over the directory below the overlay, and later saves descend from the target.
\<close>

theorem restore_handler:
  assumes "s3_ok c" and "handle_restore sys c pd env free now meth cid v b = (resp, v')"
  shows "(fst resp \<noteq> 200 \<and> fst resp \<noteq> 500 \<longrightarrow> v' = v) \<and>
    (fst resp = 200 \<longrightarrow> (\<exists>s target. v_store v = Some s \<and> \<not> st_readOnly s \<and> restore_target c s b cid = Some target \<and>
       v_last v' = target \<and> b (manifestKey s target) \<noteq> None \<and>
       (mounted_from pd b (checkpointArchiveKey s target) (visible (v_fs v')) \<or>
        b (checkpointArchiveKey s target) = None \<and> restored_as sys c s b (f_plain (v_fs v)) target (visible (v_fs v')))))"
proof (cases "meth = ''POST'' \<and> (\<exists>s. v_store v = Some s \<and> \<not> st_readOnly s \<and> free (checkpointWait env) \<and>
    (\<exists>target m. restore_target c s b cid = Some target \<and> GetManifest sys c s b target = Inr m))")
  case False
  then have "v' = v \<and> fst resp \<noteq> 200"
    using assms(2) by (auto simp: handle_restore_def srv_readOnly_def slot_busy_def split: if_splits option.splits sum.splits)
  then show ?thesis by simp
next
  case True
  then obtain s target m where s: "meth = ''POST''" "v_store v = Some s" "\<not> st_readOnly s" "free (checkpointWait env)"
      "restore_target c s b cid = Some target" "GetManifest sys c s b target = Inr m"
    by blast
  let ?arch = "DownloadCheckpointArchive c s b target"
  let ?img = "case ?arch of Inr i \<Rightarrow> Some i | Inl _ \<Rightarrow> None"
  obtain r s' f' where sw: "restore_swap sys c pd s b (v_fs v) ?img m = (r, s', f')" by (metis prod_cases3)
  have res: "(resp, v') = (if \<not> is_ok ?arch \<and> ?arch \<noteq> Inl ErrNoArchive then ((500, [(''error'', ''archive'')]), v)
      else (case r of
         Some e \<Rightarrow> ((500, [(''error'', ''restore'')]), v\<lparr>v_store := Some s', v_fs := f'\<rparr>)
       | None \<Rightarrow> ((200, [(''restored'', ''true''), (''checkpoint'', target)]), v\<lparr>v_store := Some s', v_fs := f', v_last := target\<rparr>)))"
    unfolding assms(2) [symmetric] using s sw by (cases r) (auto simp: handle_restore_def srv_readOnly_def Let_def)
  have man: "b (manifestKey s target) \<noteq> None"
    using GetManifest_Inr [OF assms(1) s(6)] by auto
  have "mounted_from pd b (checkpointArchiveKey s target) (visible f') \<or>
        b (checkpointArchiveKey s target) = None \<and> restored_as sys c s b (f_plain (v_fs v)) target (visible f')"
    if "r = None" "is_ok ?arch \<or> ?arch = Inl ErrNoArchive"
  proof (cases ?arch)
    case (Inr i)
    with that(1) sw have "mountFuse pd i (unmountFuse (v_fs v)) = Inr f'"
      by (auto simp: restore_swap_def Let_def split: sum.splits)
    with mountFuse_Inr [OF assms(1)] Inr show ?thesis by (simp add: DownloadCheckpointArchive_def)
  next
    case (Inl e)
    with that have na: "?arch = Inl ErrNoArchive" by auto
    with downloadTo_NoArchive [OF assms(1)] have "b (checkpointArchiveKey s target) = None"
      by (simp add: DownloadCheckpointArchive_def)
    moreover have "restored_as sys c s b (f_plain (v_fs v)) target (visible f')"
      using na that(1) sw s(6) by (auto simp: restore_swap_def Let_def restored_as_def split: prod.splits option.splits)
    ultimately show ?thesis by blast
  qed
  with res s man show ?thesis
    by (auto split: if_splits option.splits)
qed

theorem restore_handler_witness:
  "let v = demo_server; b = demo_bucket(checkpointArchiveKey demo_store ''1'' \<mapsto> ''image'') in
   fst (fst (handle_restore demo_sys mem_s3 demo_pod (\<lambda>_. []) (\<lambda>_. True) 0 ''POST'' ''9'' v b)) = 404 \<and>
   snd (handle_restore demo_sys mem_s3 demo_pod (\<lambda>_. []) (\<lambda>_. True) 0 ''POST'' ''9'' v b) = v \<and>
   visible (v_fs (snd (handle_restore demo_sys mem_s3 demo_pod (\<lambda>_. []) (\<lambda>_. True) 0 ''POST'' ''1'' v b)))
     = Dir [(''a'', RegFile ''1'' 420)]"
proof -
  define b where "b = demo_bucket(checkpointArchiveKey demo_store ''1'' \<mapsto> ''image'')"
  have st: "v_store demo_server = Some demo_store" "\<not> st_readOnly demo_store"
    by (simp_all add: demo_server_def demo_store_def)
  obtain resp v' where no: "handle_restore demo_sys mem_s3 demo_pod (\<lambda>_. []) (\<lambda>_. True) 0 ''POST'' ''9'' demo_server b = (resp, v')"
    by fastforce
  have "b (manifestKey demo_store ''9'') = None"
    by (simp add: b_def demo_bucket_def)
  then have "fst resp = 404"
    using no st by (auto simp: handle_restore_def srv_readOnly_def restore_target_def GetManifest_def s3_upD [OF mem_s3_up])
  moreover from restore_handler [OF mem_s3_ok no] this have "v' = demo_server" by simp
  moreover have "b (manifestKey demo_store ''1'') = Some (enc_manifest (demo_manifest ''1'' ''x''))"
      "b (checkpointArchiveKey demo_store ''1'') = Some ''image''"
    by (simp_all add: b_def demo_bucket_def)
  then have got: "GetManifest demo_sys mem_s3 demo_store b ''1'' = Inr (demo_manifest ''1'' ''x'')"
      "DownloadCheckpointArchive mem_s3 demo_store b ''1'' = Inr ''image''"
    by (simp_all add: GetManifest_def s3_upD [OF mem_s3_up] DownloadCheckpointArchive_def downloadTo_def)
      (simp add: demo_sys_def)
  have "mountFuse demo_pod ''image'' f = Inr (f\<lparr>f_overlay := Some (Dir [(''a'', RegFile ''1'' 420)])\<rparr>)" for f
    by (simp add: mountFuse_def demo_pod_def)
  with got st have "visible (v_fs (snd (handle_restore demo_sys mem_s3 demo_pod (\<lambda>_. []) (\<lambda>_. True) 0 ''POST'' ''1'' demo_server b)))
     = Dir [(''a'', RegFile ''1'' 420)]"
    by (simp add: handle_restore_def srv_readOnly_def restore_target_def restore_swap_def Let_def)
  ultimately show ?thesis
    using no by (simp add: b_def Let_def)
qed

subsection \<open>Refreshing a reader\<close>

text \<open>What the workload of a refreshing reader sees through the link.\<close>

definition reader_view :: "server \<Rightarrow> node option" where
  "reader_view v = Option.bind (gf_link (v_genfs v)) (gf_dirs (v_genfs v))"

definition gens_ok :: "server \<Rightarrow> bool" where
  "gens_ok v \<longleftrightarrow> (\<exists>g. v_gens v = Some g \<and> 1 \<le> g_n g \<and> gf_link (v_genfs v) = Some (g_n g) \<and>
     gf_dirs (v_genfs v) (g_n g) \<noteq> None \<and> (\<forall>k. gf_dirs (v_genfs v) k \<noteq> None \<longrightarrow> 1 \<le> k \<and> k \<le> g_n g))"

lemma gen_build_outcome:
  assumes "gen_build io sys c s b gf n cid = (r, s', gf')"
  shows "gf_link gf' = gf_link gf" and "k \<noteq> n \<Longrightarrow> gf_dirs gf' k = gf_dirs gf k"
    and "r = Inl e \<Longrightarrow> gf_dirs gf' n = None \<or> gf' = gf"
    and "r = Inr files \<Longrightarrow> (\<exists>t. gf_dirs gf' n = Some t \<and> (cid = [] \<and> t = Dir [] \<or> cid \<noteq> [] \<and> restored_as sys c s b (Dir []) cid t))"
  using assms by (auto simp: gen_build_def restored_as_def Let_def split: if_splits sum.splits prod.splits option.splits)

lemma gen_advance_outcome:
  assumes "gen_advance io sys c s b gf g cid = (r, s', gf', g')"
  shows "r = Inl e \<Longrightarrow> g' = g \<and> gf_link gf' = gf_link gf \<and> (\<forall>k. k \<noteq> g_n g + 1 \<longrightarrow> gf_dirs gf' k = gf_dirs gf k) \<and>
      (gf_dirs gf' (g_n g + 1) = None \<or> gf' = gf)"
    and "r = Inr files \<Longrightarrow> g' = \<lparr> g_n = g_n g + 1, g_id = cid \<rparr> \<and> gf_link gf' = Some (g_n g + 1) \<and>
      (\<forall>k. k \<noteq> g_n g + 1 \<longrightarrow> k \<noteq> g_n g - 1 \<longrightarrow> gf_dirs gf' k = gf_dirs gf k) \<and>
      (gf_dirs gf' (g_n g - 1) \<noteq> None \<longrightarrow> gf_dirs gf' (g_n g - 1) = gf_dirs gf (g_n g - 1)) \<and>
      (cid \<noteq> [] \<longrightarrow> (\<exists>t. gf_dirs gf' (g_n g + 1) = Some t \<and> restored_as sys c s b (Dir []) cid t))"
proof -
  obtain r1 s1 gf1 where bd: "gen_build io sys c s b gf (g_n g + 1) cid = (r1, s1, gf1)" by (metis prod_cases3)
  note o = gen_build_outcome [OF bd]
  show "g' = g \<and> gf_link gf' = gf_link gf \<and> (\<forall>k. k \<noteq> g_n g + 1 \<longrightarrow> gf_dirs gf' k = gf_dirs gf k) \<and>
      (gf_dirs gf' (g_n g + 1) = None \<or> gf' = gf)" if "r = Inl e"
    using assms bd that o by (auto simp: gen_advance_def gen_point_def Let_def split: sum.splits if_splits)
  show "g' = \<lparr> g_n = g_n g + 1, g_id = cid \<rparr> \<and> gf_link gf' = Some (g_n g + 1) \<and>
      (\<forall>k. k \<noteq> g_n g + 1 \<longrightarrow> k \<noteq> g_n g - 1 \<longrightarrow> gf_dirs gf' k = gf_dirs gf k) \<and>
      (gf_dirs gf' (g_n g - 1) \<noteq> None \<longrightarrow> gf_dirs gf' (g_n g - 1) = gf_dirs gf (g_n g - 1)) \<and>
      (cid \<noteq> [] \<longrightarrow> (\<exists>t. gf_dirs gf' (g_n g + 1) = Some t \<and> restored_as sys c s b (Dir []) cid t))" if "r = Inr files"
    using assms bd that o by (auto simp: gen_advance_def gen_point_def Let_def split: sum.splits if_splits)
qed

lemma busy_outcome: "map_of (busy now v) ''outcome'' = None"
  by (auto simp: busy_def map_of_eq_None_iff split: option.splits)

text \<open>
  C12: a refresh swaps whole trees. Whatever fails - the pointer, the manifest, an object, any
  system call - an answer other than 200 leaves the workload reading the same tree; an answer of
  \<^verbatim>\<open>refreshed\<close> means the link names a new generation that holds the checkpoint LATEST names,
  restored in full into an empty directory, and the tree replaced is still there for a process that
  had resolved the link. The link always names an existing generation.
\<close>

theorem refresh_atomic:
  assumes "gens_ok v" and "handle_refresh sys c io env free now meth v b = (resp, v')"
  shows "gens_ok v' \<and> (fst resp \<noteq> 200 \<longrightarrow> reader_view v' = reader_view v \<and> v_gens v' = v_gens v) \<and>
    (map_of (snd resp) ''outcome'' = Some ''unchanged'' \<longrightarrow> v' = v) \<and>
    (map_of (snd resp) ''outcome'' = Some ''refreshed'' \<longrightarrow>
       (\<exists>s cid t g. v_store v = Some s \<and> v_gens v = Some g \<and> Latest c s b = Inr cid \<and> cid \<noteq> g_id g \<and>
          reader_view v' = Some t \<and> restored_as sys c s b (Dir []) cid t \<and> v_gens v' = Some \<lparr> g_n = g_n g + 1, g_id = cid \<rparr> \<and>
          gf_dirs (v_genfs v') (g_n g) = reader_view v))"
proof -
  obtain g where g: "v_gens v = Some g" "1 \<le> g_n g" "gf_link (v_genfs v) = Some (g_n g)"
      "gf_dirs (v_genfs v) (g_n g) \<noteq> None" "\<forall>k. gf_dirs (v_genfs v) k \<noteq> None \<longrightarrow> 1 \<le> k \<and> k \<le> g_n g"
    using assms(1) by (auto simp: gens_ok_def)
  show ?thesis
  proof (cases "meth = ''POST'' \<and> (\<exists>s cid. v_store v = Some s \<and> free (checkpointWait env) \<and> Latest c s b = Inr cid \<and>
      cid \<noteq> g_id g \<and> cid \<noteq> [])")
    case False
    then have "v' = v \<and> map_of (snd resp) ''outcome'' \<noteq> Some ''refreshed''"
      using assms(2) g(1) by (auto simp: handle_refresh_def busy_outcome map_add_def
          split: if_splits option.splits sum.splits)
    with assms(1) show ?thesis by simp
  next
    case True
    then obtain s cid where s: "meth = ''POST''" "v_store v = Some s" "free (checkpointWait env)"
        "Latest c s b = Inr cid" "cid \<noteq> g_id g" "cid \<noteq> []" by blast
    obtain r s' gf' g' where adv: "gen_advance io sys c s b (v_genfs v) g cid = (r, s', gf', g')" by (metis prod_cases4)
    have view: "reader_view v = gf_dirs (v_genfs v) (g_n g)"
      by (simp add: reader_view_def g(3))
    show ?thesis
    proof (cases r)
      case (Inl e)
      have v': "v' = v\<lparr>v_store := Some s', v_genfs := gf', v_gens := Some g'\<rparr>"
          "resp = (500, [(''outcome'', ''failed''), (''error'', ''refresh'')])"
        using assms(2) g(1) s adv Inl by (auto simp: handle_refresh_def)
      note o = gen_advance_outcome(1) [OF adv Inl]
      have dirs: "gf_dirs gf' k \<noteq> None \<Longrightarrow> gf_dirs (v_genfs v) k \<noteq> None" for k
        using o by (cases "k = g_n g + 1") auto
      have "gf_dirs gf' (g_n g) = gf_dirs (v_genfs v) (g_n g)" using o by auto
      with o dirs g v' show ?thesis
        by (auto simp: gens_ok_def reader_view_def)
    next
      case (Inr files)
      have v': "v' = v\<lparr>v_store := Some s', v_genfs := gf', v_gens := Some g'\<rparr>" "fst resp = 200"
          "map_of (snd resp) ''outcome'' = Some ''refreshed''"
        using assms(2) g(1) s adv Inr by (auto simp: handle_refresh_def)
      note o = gen_advance_outcome(2) [OF adv Inr]
      then obtain t where t: "gf_dirs gf' (g_n g + 1) = Some t" "restored_as sys c s b (Dir []) cid t"
        using s(6) by blast
      have "1 \<le> k \<and> k \<le> g_n g + 1" if "gf_dirs gf' k \<noteq> None" for k
      proof (cases "k = g_n g + 1")
        case False
        then have "gf_dirs gf' k = gf_dirs (v_genfs v) k"
          using o that by (cases "k = g_n g - 1") auto
        with g(5) that have "1 \<le> k \<and> k \<le> g_n g" by metis
        then show ?thesis by simp
      qed (use g(2) in simp)
      moreover have "gf_dirs gf' (g_n g) = gf_dirs (v_genfs v) (g_n g)" using o by auto
      ultimately show ?thesis
        using o t g(1,2) s v' view by (auto simp: gens_ok_def reader_view_def)
    qed
  qed
qed

lemma startGenerations_ok:
  assumes "startGenerations io sys c s b = Inr (g, s', gf)" and "v_gens v = Some g" and "v_genfs v = gf"
  shows "gens_ok v"
proof -
  obtain cid files gf1 where l: "gen_build io sys c s b \<lparr> gf_dirs = Map.empty, gf_link = None \<rparr> 1 cid = (Inr files, s', gf1)"
      "gen_point io gf1 1 = (None, gf)" "g = \<lparr> g_n = 1, g_id = cid \<rparr>"
    using assms(1) by (auto simp: startGenerations_def Let_def split: if_splits sum.splits prod.splits option.splits)
  note o = gen_build_outcome [OF l(1)]
  have gf: "gf = gf1\<lparr>gf_link := Some 1\<rparr>"
    using l(2) by (auto simp: gen_point_def split: if_splits)
  have "k = 1" if "gf_dirs gf1 k \<noteq> None" for k
    using o(2) [of k] that by (cases "k = 1") auto
  moreover have "gf_dirs gf1 1 \<noteq> None"
    using o(4) by auto
  ultimately show ?thesis
    using assms(2,3) l(3) gf unfolding gens_ok_def by fastforce
qed

definition demo_genio :: genio where
  "demo_genio = \<lparr> gi_clear = True, gi_mkdir = True, gi_chown = True, gi_symlink = True, gi_rename = True, gi_prune = True \<rparr>"

definition demo_reader :: server where
  "demo_reader = demo_server
     \<lparr>v_gens := Some \<lparr> g_n = 1, g_id = ''0'' \<rparr>,
      v_genfs := \<lparr> gf_dirs = [1 \<mapsto> Dir []], gf_link = Some 1 \<rparr>\<rparr>"

theorem refresh_atomic_witness:
  "let b = demo_bucket(latestKey demo_store \<mapsto> ''1'') in
   gens_ok demo_reader \<and>
   fst (fst (handle_refresh demo_sys mem_s3 demo_genio (\<lambda>_. []) (\<lambda>_. True) 0 ''POST'' demo_reader b)) = 200 \<and>
   fst (fst (handle_refresh demo_sys down_s3 demo_genio (\<lambda>_. []) (\<lambda>_. True) 0 ''POST'' demo_reader b)) = 502 \<and>
   reader_view (snd (handle_refresh demo_sys down_s3 demo_genio (\<lambda>_. []) (\<lambda>_. True) 0 ''POST'' demo_reader b)) = Some (Dir [])"
proof -
  define b where "b = demo_bucket(latestKey demo_store \<mapsto> ''1'')"
  have ok: "gens_ok demo_reader"
    by (simp add: gens_ok_def demo_reader_def)
  have rd: "v_gens demo_reader = Some \<lparr> g_n = 1, g_id = ''0'' \<rparr>" "v_store demo_reader = Some demo_store"
    by (simp_all add: demo_reader_def demo_server_def)
  obtain resp v' where dn: "handle_refresh demo_sys down_s3 demo_genio (\<lambda>_. []) (\<lambda>_. True) 0 ''POST'' demo_reader b = (resp, v')"
    by fastforce
  have "Latest down_s3 demo_store b = Inl (ErrStorage ''read latest'' (S3Other ''unreachable''))"
    by (simp add: Latest_def down_s3_def)
  then have "fst resp = 502"
    using dn rd by (auto simp: handle_refresh_def)
  moreover from refresh_atomic [OF ok dn] this have "reader_view v' = reader_view demo_reader" by simp
  moreover have "reader_view demo_reader = Some (Dir [])"
    by (simp add: reader_view_def demo_reader_def)
  moreover have "fst (fst (handle_refresh demo_sys mem_s3 demo_genio (\<lambda>_. []) (\<lambda>_. True) 0 ''POST'' demo_reader b)) = 200"
  proof -
    have "TrimSpace ''1'' = ''1''" by (rule TrimSpace_id) (simp add: is_space_def)
    then have "Latest mem_s3 demo_store b = Inr ''1''"
      by (simp add: Latest_def s3_upD [OF mem_s3_up] b_def)
    moreover have "b (manifestKey demo_store ''1'') = Some (enc_manifest (demo_manifest ''1'' ''x''))"
        "b (objectKey demo_store (hex_sha demo_sys ''x'')) = Some ''x''"
      by (auto simp: b_def demo_bucket_def hex_sha_def demo_sys_def EncodeToString_def hex_byte_def hex_digit_def)
    then have got: "GetManifest demo_sys mem_s3 demo_store b ''1'' = Inr (demo_manifest ''1'' ''x'')"
      by (simp add: GetManifest_def s3_upD [OF mem_s3_up]) (simp add: demo_sys_def)
    have "\<exists>s' t. Restore demo_sys mem_s3 demo_store b (Dir []) (demo_manifest ''1'' ''x'') = (None, s', t)"
      using \<open>b (objectKey demo_store (hex_sha demo_sys ''x'')) = Some ''x''\<close>
      by (simp add: Restore_def demo_manifest_def restore_entry_def path_components_def path_step_def
          s3_upD [OF mem_s3_up] place_file_def write_file_def ws_tmp_def)
    ultimately show ?thesis
      using rd got by (auto simp: handle_refresh_def gen_advance_def gen_build_def gen_point_def demo_genio_def Let_def)
  qed
  ultimately show ?thesis
    using ok dn by (simp add: b_def Let_def)
qed

subsection \<open>Shutdown\<close>

text \<open>
  An orderly shutdown of a writable workspace that is a plain directory saves it. If the
  storage answers, the slot comes free within the budget, and the tree holds a readable file and
  differs from what was restored, the teardown snapshot succeeds and its checkpoint is the tree.
\<close>

theorem shutdown_saves:
  assumes "s3_ok c" "s3_up c" "v_store v = Some s" "\<not> st_readOnly s" "f_overlay (v_fs v) = None"
    and "env ''WORKSPACE_SYNC_TEARDOWN'' \<noteq> ''false''" "free (shutdown_budget env)"
    and "walk (f_plain (v_fs v)) \<noteq> []" "\<forall>x \<in> set (walk (f_plain (v_fs v))). snd x \<noteq> LFail"
    and "manifestDigest sys (tree_manifest sys s (save_args_of ck [] [] ''teardown'' (v_last v)) (f_plain (v_fs v)))
           \<noteq> st_restoredDigest s"
  shows "\<exists>m v' b'. shutdown sys c env free ck v b = (Some (Inr m), v', b') \<and>
    m_trigger m = ''teardown'' \<and> set (m_entries m) = entry_of sys ` set (walk (f_plain (v_fs v))) \<and>
    v_last v' = m_id m"
proof -
  let ?t = "f_plain (v_fs v)" and ?a = "save_args_of ck [] [] ''teardown'' (v_last v)"
  let ?m = "tree_manifest sys s ?a ?t"
  obtain es b1 where up: "upload_all sys c s b (walk ?t) = (Inr es, b1)"
    using upload_all_up [OF assms(2,9)] by blast
  then have m: "snapshot_manifest sys s ?a es = ?m"
    using upload_all_correct [OF assms(1) up] by (simp add: tree_manifest_def)
  have "m_entries ?m \<noteq> []"
    using assms(8) set_tree_manifest [of sys s ?a ?t] by auto
  moreover have "commit_manifest sys c s b1 ?m = (None, b1(manifestKey s (m_id ?m) \<mapsto> json_marshal sys ?m, latestKey s \<mapsto> m_id ?m))"
    by (simp add: commit_manifest_def setLatest_def s3_upD [OF assms(2)])
  ultimately obtain s' b' where sn: "Snapshot sys c s b ?t ?a = (Inr ?m, s', b')"
    using assms(4,10) up m by (simp add: Snapshot_def Let_def)
  have "visible (unmountFuse (v_fs v)) = ?t" by simp
  moreover have "\<not> srv_readOnly (v\<lparr>v_fs := unmountFuse (v_fs v)\<rparr>)"
    using assms(3,4) by (simp add: srv_readOnly_def)
  ultimately have "shutdown sys c env free ck v b =
      (Some (Inr ?m), save_finish (ck_end ck) (Inr ?m)
         ((save_begin ''teardown'' (ck_start ck) (v\<lparr>v_fs := unmountFuse (v_fs v)\<rparr>))\<lparr>v_store := Some s'\<rparr>), b')"
    using assms(3,6,7) sn by (simp add: shutdown_def snapshotCtx_def Let_def)
  moreover have "m_trigger ?m = ''teardown''"
    by (simp add: tree_manifest_def snapshot_manifest_def save_args_of_def)
  ultimately show ?thesis
    using set_tree_manifest [of sys s ?a ?t] by (simp add: save_finish_last save_begin_def)
qed

theorem shutdown_saves_witness:
  "\<exists>m v' b'. shutdown demo_sys mem_s3 (\<lambda>_. []) (\<lambda>_. True) demo_clock demo_server Map.empty = (Some (Inr m), v', b') \<and>
     m_trigger m = ''teardown'' \<and> v_last v' = m_id m"
proof -
  have "manifestDigest demo_sys m \<noteq> []" for m
    by (simp add: manifestDigest_def hex_sha_def demo_sys_def EncodeToString_def hex_byte_def)
  then show ?thesis
    using shutdown_saves [OF mem_s3_ok mem_s3_up, of demo_server demo_store "\<lambda>_. []" "\<lambda>_. True" demo_sys demo_clock Map.empty]
    by (auto simp: demo_server_def demo_store_def demo_walk)
qed

text \<open>
  With an overlay mounted the order of the shutdown steps matters: unmounting first, as the code
  does, leaves the snapshot the empty directory below, so the work in the overlay is not saved.
\<close>

lemma shutdown_overlay_lost:
  assumes "v_store v = Some s" "\<not> st_readOnly s" "v_fs v = \<lparr> f_plain = Dir [], f_overlay = Some work \<rparr>"
    and "env ''WORKSPACE_SYNC_TEARDOWN'' \<noteq> ''false''" "free (shutdown_budget env)"
  shows "\<exists>v'. shutdown sys c env free ck v b = (Some (Inl (StoreErr ErrNothingToSave)), v', b)"
  using assms by (simp add: shutdown_def snapshotCtx_def Let_def Snapshot_def srv_readOnly_def visible_def unmountFuse_def
      simps_manifest_entries save_begin_def)

text \<open>
  On a plain directory an undo keeps what was added since: the files of the target are written over
  the tree, and a file the target does not name stays.
\<close>

lemma undo_keeps_later_files:
  "\<exists>s' f'. restore_swap demo_sys mem_s3 demo_pod demo_store demo_bucket
      \<lparr> f_plain = Dir [(''later'', RegFile ''new'' 420)], f_overlay = None \<rparr> None (demo_manifest ''1'' ''x'') = (None, s', f') \<and>
    leaf_at (visible f') [''later''] = Some (LFile ''new'' 420)"
proof -
  have "demo_bucket (objectKey demo_store (hex_sha demo_sys ''x'')) = Some ''x''"
    by (auto simp: demo_bucket_def hex_sha_def demo_sys_def EncodeToString_def hex_byte_def hex_digit_def)
  then show ?thesis
    by (simp add: restore_swap_def unmountFuse_def visible_def set_visible_def Restore_def demo_manifest_def restore_entry_def
        path_components_def path_step_def s3_upD [OF mem_s3_up] place_file_def write_file_def ws_tmp_def less_char_def leaf_at_def Let_def)
qed

end
