(* ===== verification/Kube_API.thy ===== *)
theory Kube_API
  imports Go_Numbers "HOL-Library.AList" "HOL-Library.State_Monad"
begin

text \<open>
  The vocabulary of the ephemeral-job operator: Go maps, the Kubernetes objects it reads and
  writes (the fields its code touches), the errors of the API server, and the log of the calls
  one pass makes. The API server, the clock and the callback receiver are not part of the
  repository: \<open>EphemeralJob\<close> gathers them in a record of parameters, each answer an arbitrary
  function of the calls made before it.
\<close>

subsection \<open>Go maps\<close>

text \<open>
  A Go map is an association list whose order stands for the order in which a \<^verbatim>\<open>range\<close> over it
  visits the keys. Reading an absent key yields the zero value.
\<close>

type_synonym 'v gomap = "(string \<times> 'v) list"
type_synonym smap = "string gomap"

definition mget :: "smap \<Rightarrow> string \<Rightarrow> string" where
  "mget m k = (case map_of m k of Some v \<Rightarrow> v | None \<Rightarrow> [])"

definition has_key :: "'v gomap \<Rightarrow> string \<Rightarrow> bool" where
  "has_key m k \<longleftrightarrow> map_of m k \<noteq> None"

definition map_eq :: "smap \<Rightarrow> smap \<Rightarrow> bool" where
  "map_eq m n \<longleftrightarrow> list_all (\<lambda>k. map_of m k = map_of n k) (map fst m @ map fst n)"

lemma map_eq_iff: "map_eq m n \<longleftrightarrow> map_of m = map_of n"
proof
  assume eq: "map_eq m n"
  show "map_of m = map_of n"
  proof
    fix k
    show "map_of m k = map_of n k"
    proof (cases "k \<in> set (map fst m @ map fst n)")
      case True
      with eq show ?thesis by (auto simp: map_eq_def list_all_iff)
    next
      case False
      then have "map_of m k = None" "map_of n k = None"
        by (auto simp: map_of_eq_None_iff simp flip: set_map)
      then show ?thesis by simp
    qed
  qed
qed (simp add: map_eq_def list_all_iff)

text \<open>Copying one map over another, key by key: \<^verbatim>\<open>for k, v := range src { dst[k] = v }\<close>.\<close>

definition copy_into :: "'v gomap \<Rightarrow> 'v gomap \<Rightarrow> 'v gomap" where
  "copy_into src dst = fold (\<lambda>(k, v) m. AList.update k v m) src dst"

lemma map_of_copy_into:
  "distinct (map fst src) \<Longrightarrow> map_of (copy_into src dst) = map_of dst ++ map_of src"
proof (induction src arbitrary: dst)
  case (Cons p src)
  obtain k v where p: "p = (k, v)" by force
  have "k \<notin> fst ` set src" using Cons.prems p by simp
  then have "map_of src k = None" by (simp add: map_of_eq_None_iff)
  moreover have "map_of (copy_into (p # src) dst) = map_of (AList.update k v dst) ++ map_of src"
    using Cons by (simp add: copy_into_def p)
  ultimately show ?case
    by (auto simp: p update_conv' map_add_def fun_eq_iff split: option.splits)
qed (simp add: copy_into_def)

lemma distinct_update_keys: "distinct (map fst m) \<Longrightarrow> distinct (map fst (AList.update k v m))"
  by (rule distinct_update)

lemma distinct_copy_into: "distinct (map fst dst) \<Longrightarrow> distinct (map fst (copy_into src dst))"
  by (induction src arbitrary: dst) (auto simp: copy_into_def distinct_update)

subsection \<open>Errors of the API server\<close>

datatype errkind =
  KNotFound | KConflict | KAlreadyExists | KBadRequest | KForbidden | KInvalid | KOther

datatype kerr = KErr (err_kind: errkind) (err_text: string)

definition IsNotFound :: "kerr \<Rightarrow> bool" where
  "IsNotFound e \<longleftrightarrow> err_kind e = KNotFound"

text \<open>\<^verbatim>\<open>client.IgnoreNotFound\<close> on the error of a call that returns only an error.\<close>

definition IgnoreNotFound :: "kerr option \<Rightarrow> kerr option" where
  "IgnoreNotFound r = (case r of Some e \<Rightarrow> if IsNotFound e then None else Some e | None \<Rightarrow> None)"

subsection \<open>Containers and pods\<close>

datatype env_source =
    ConfigMapKeyRef string string bool
  | SecretKeyRef string string bool
  | OtherRef string

record env_var =
  ev_name :: string
  ev_value :: string
  ev_from :: "env_source option"

abbreviation plain_env :: "string \<Rightarrow> string \<Rightarrow> env_var" where
  "plain_env n v \<equiv> \<lparr> ev_name = n, ev_value = v, ev_from = None \<rparr>"

abbreviation ref_env :: "string \<Rightarrow> env_source \<Rightarrow> env_var" where
  "ref_env n r \<equiv> \<lparr> ev_name = n, ev_value = [], ev_from = Some r \<rparr>"

datatype mount_propagation = HostToContainer | Bidirectional

record volume_mount =
  vm_name :: string
  vm_path :: string
  vm_readOnly :: bool
  vm_propagation :: "mount_propagation option"

abbreviation mount :: "string \<Rightarrow> string \<Rightarrow> volume_mount" where
  "mount n p \<equiv> \<lparr> vm_name = n, vm_path = p, vm_readOnly = False, vm_propagation = None \<rparr>"

datatype volume_source =
    EmptyDir
  | ServiceAccountToken string int string
  | OtherSource string

record volume =
  vol_name :: string
  vol_source :: volume_source

text \<open>A resource list maps \<^verbatim>\<open>cpu\<close>, \<^verbatim>\<open>memory\<close>, \<^verbatim>\<open>ephemeral-storage\<close> to a quantity, an exact number.\<close>

type_synonym resource_list = "int gomap"

record resources =
  rs_requests :: resource_list
  rs_limits :: resource_list

record security_context =
  sc_privileged :: "bool option"
  sc_runAsUser :: "int option"
  sc_runAsNonRoot :: "bool option"
  sc_allowPrivilegeEscalation :: "bool option"
  sc_readOnlyRootFilesystem :: "bool option"
  sc_drop :: "string list"
  sc_seccomp :: "string option"

record probe =
  pr_exec :: "string list"
  pr_initialDelay :: int
  pr_period :: int
  pr_failureThreshold :: int

record container_port =
  cp_name :: string
  cp_port :: int

record container =
  ct_name :: string
  ct_image :: string
  ct_command :: "string list"
  ct_args :: "string list"
  ct_env :: "env_var list"
  ct_mounts :: "volume_mount list"
  ct_resources :: resources
  ct_security :: "security_context option"
  ct_pullPolicy :: string
  ct_readiness :: "probe option"
  ct_liveness :: "probe option"
  ct_startup :: "probe option"
  ct_ports :: "container_port list"
  ct_workingDir :: string
  ct_restart :: "string option"

record toleration =
  tol_key :: string
  tol_op :: string
  tol_value :: string
  tol_effect :: string

record pod_spec =
  ps_restart :: string
  ps_automount :: "bool option"
  ps_nodeSelector :: smap
  ps_tolerations :: "toleration list"
  ps_priorityClass :: string
  ps_dnsOptions :: "(string \<times> string) list"
  ps_security :: "security_context option"
  ps_init :: "container list"
  ps_containers :: "container list"
  ps_volumes :: "volume list"
  ps_pullSecrets :: "string list"
  ps_grace :: "int option"
  ps_runtimeClass :: "string option"

record terminated =
  tm_exit :: int
  tm_reason :: string
  tm_message :: string

record container_status =
  cs_name :: string
  cs_ready :: bool
  cs_waiting :: "(string \<times> string) option"
  cs_terminated :: "terminated option"
  cs_lastTerminated :: "terminated option"

record pod_condition =
  pc_type :: string
  pc_status :: string
  pc_reason :: string
  pc_message :: string

record pod =
  p_name :: string
  p_generateName :: string
  p_ns :: string
  p_labels :: smap
  p_controller :: "string option"
  p_deleting :: bool
  p_spec :: pod_spec
  p_phase :: string
  p_reason :: string
  p_conditions :: "pod_condition list"
  p_initStatuses :: "container_status list"
  p_statuses :: "container_status list"

subsection \<open>Jobs, services, events and network policies\<close>

record job_condition =
  jc_type :: string
  jc_status :: string
  jc_reason :: string
  jc_message :: string

text \<open>One rule of a \<^verbatim>\<open>podFailurePolicy\<close>: the action on a pod condition of a given type and status.\<close>

record failure_rule =
  fr_action :: string
  fr_onType :: string
  fr_onStatus :: string

record job =
  j_name :: string
  j_ns :: string
  j_uid :: string
  j_labels :: smap
  j_controller :: "string option"
  j_backoff :: "int option"
  j_failurePolicy :: "failure_rule list"
  j_activeDeadline :: "int option"
  j_ttl :: "int option"
  j_podLabels :: smap
  j_podSpec :: pod_spec
  j_conditions :: "job_condition list"

record service_port =
  sp_name :: string
  sp_port :: int

record service =
  sv_name :: string
  sv_ns :: string
  sv_labels :: smap
  sv_controller :: "string option"
  sv_type :: string
  sv_selector :: smap
  sv_ports :: "service_port list"

record event_obj =
  eo_reason :: string
  eo_message :: string
  eo_count :: int

text \<open>
  A \<^verbatim>\<open>CiliumNetworkPolicy\<close> as the operator authors it: each rule names endpoints by label or a
  host by name, on one TCP port. A spec without an \<^verbatim>\<open>ingress\<close> entry is \<open>None\<close> there.
\<close>

datatype rule_peer = Endpoints smap | FQDN string

record rule =
  ru_peer :: rule_peer
  ru_port :: string
  ru_protocol :: string

record policy_spec =
  pol_selector :: smap
  pol_ingress :: "rule list option"
  pol_egress :: "rule list option"

record policy =
  pol_ns :: string
  pol_name :: string
  pol_labels :: smap
  pol_controller :: "string option"
  pol_version :: string
  pol_spec :: policy_spec

text \<open>A status condition of the custom resource (\<^verbatim>\<open>metav1.Condition\<close>).\<close>

record condition =
  cd_type :: string
  cd_status :: string
  cd_reason :: string
  cd_message :: string
  cd_generation :: int

end
