(* ===== verification/EphemeralJob.thy ===== *)
theory EphemeralJob
  imports Kube_API
begin

text \<open>
  The \<^verbatim>\<open>EphemeralJob\<close> resource (\<^verbatim>\<open>api/v1alpha1/ephemeraljob_types.go\<close>), the calls a reconcile
  pass makes, and the parameters that stand for everything outside the operator.
\<close>

subsection \<open>Phases, conditions and reasons\<close>

text \<open>A phase is a string; \<open>PhaseUnset\<close> is the empty one a new object has.\<close>

datatype phase =
    PhaseUnset | PhasePending | PhaseQueued | PhaseAdmitted | PhaseProvisioning | PhaseRunning
  | PhaseSucceeded | PhaseFailed | PhaseTimedOut | PhaseCancelled

fun phase_string :: "phase \<Rightarrow> string" where
  "phase_string PhaseUnset = []"
| "phase_string PhasePending = ''Pending''"
| "phase_string PhaseQueued = ''Queued''"
| "phase_string PhaseAdmitted = ''Admitted''"
| "phase_string PhaseProvisioning = ''Provisioning''"
| "phase_string PhaseRunning = ''Running''"
| "phase_string PhaseSucceeded = ''Succeeded''"
| "phase_string PhaseFailed = ''Failed''"
| "phase_string PhaseTimedOut = ''TimedOut''"
| "phase_string PhaseCancelled = ''Cancelled''"

lemma phase_string_inj: "phase_string p = phase_string q \<Longrightarrow> p = q"
  by (cases p; cases q) simp_all

lemma phase_string_no_bar: "CHR ''|'' \<notin> set (phase_string p)"
  by (cases p) simp_all

abbreviation "ConditionCapacity \<equiv> ''CapacityAvailable''"
abbreviation "ConditionComplete \<equiv> ''Complete''"
abbreviation "ConditionCallbackDelivered \<equiv> ''CallbackDelivered''"
abbreviation "ConditionReadyNotified \<equiv> ''ReadyNotified''"

abbreviation "ReasonQuotaRejected \<equiv> ''QuotaRejected''"
abbreviation "ReasonWaitingForCapacity \<equiv> ''WaitingForCapacity''"
abbreviation "ReasonCapacityUnavailable \<equiv> ''CapacityUnavailable''"
abbreviation "ReasonScheduled \<equiv> ''Scheduled''"
abbreviation "ReasonPlacementUnsatisfiable \<equiv> ''PlacementUnsatisfiable''"
abbreviation "ReasonCapacityTimeout \<equiv> ''CapacityTimeout''"
abbreviation "ReasonAdmissionRejected \<equiv> ''AdmissionRejected''"

subsection \<open>The resource\<close>

record identity_token =
  it_audience :: string
  it_expirationSeconds :: "int option"

record peer_spec =
  pe_jobName :: string
  pe_targetPort :: int
  pe_listenPort :: int

record workspace_spec =
  ws_workspaceID :: string
  ws_appID :: string
  ws_checkpointIntervalSeconds :: "int option"
  ws_checkpointOnShutdown :: "bool option"
  ws_sharedWorkspaceID :: string
  ws_keepCheckpoints :: "int option"
  ws_retainAllCheckpoints :: bool
  ws_checkpointID :: string
  ws_readOnly :: bool
  ws_sharedWorkspaceReadOnly :: bool
  ws_sharedWorkspaceRefresh :: bool
  ws_pinnedCheckpoints :: "string list"

datatype run_mode = ModeJob | ModeService

datatype isolation = IsolationDefault | IsolationSandboxed

record service_spec =
  ss_ports :: "service_port list"
  ss_type :: string

record ej_spec =
  sp_image :: string
  sp_command :: "string list"
  sp_args :: "string list"
  sp_env :: smap
  sp_identityToken :: "identity_token option"
  sp_resources :: "resources option"
  sp_input :: "string option"
  sp_output :: "string option"
  sp_callbackURL :: string
  sp_timeoutSeconds :: int
  sp_capacityWaitSeconds :: "int option"
  sp_ttlSecondsAfterFinished :: int
  sp_placementClass :: string
  sp_mode :: run_mode
  sp_ports :: "container_port list"
  sp_workingDir :: string
  sp_readinessProbe :: "probe option"
  sp_livenessProbe :: "probe option"
  sp_imagePullPolicy :: string
  sp_sidecars :: "container list"
  sp_volumes :: "volume list"
  sp_volumeMounts :: "volume_mount list"
  sp_imagePullSecrets :: "string list"
  sp_service :: "service_spec option"
  sp_idleTimeoutSeconds :: int
  sp_readinessDeadlineSeconds :: int
  sp_maxLifetimeSeconds :: int
  sp_terminationGracePeriodSeconds :: "int option"
  sp_requestID :: string
  sp_cancelled :: bool
  sp_workspacePersistence :: "workspace_spec option"
  sp_isolation :: isolation
  sp_peer :: "peer_spec option"

record ej_status =
  es_phase :: phase
  es_conditions :: "condition list"
  es_terminalEventID :: string
  es_jobName :: string
  es_podName :: string
  es_serviceName :: string
  es_lastActivityTime :: "int option"
  es_startTime :: "int option"
  es_completionTime :: "int option"
  es_exitCode :: "int option"
  es_message :: string
  es_observedGeneration :: int

text \<open>
  The spec's \<^verbatim>\<open>Output\<close> has the one field \<^verbatim>\<open>ObjectPrefix\<close>, its \<^verbatim>\<open>Input\<close> the raw bytes. The deletion
  timestamp is read only for being set.
\<close>

record ephemeralJob =
  ej_name :: string
  ej_ns :: string
  ej_uid :: string
  ej_generation :: int
  ej_labels :: smap
  ej_created :: int
  ej_deleting :: bool
  ej_spec :: ej_spec
  ej_status :: ej_status

subsection \<open>The log of a pass\<close>

record payload =
  pl_jobId :: string
  pl_status :: phase
  pl_exitCode :: "int option"
  pl_output :: "string option"
  pl_message :: string
  pl_terminalEventId :: string
  pl_requestId :: string
  pl_uid :: string
  pl_timestamp :: int
  pl_labels :: smap
  pl_reason :: "string option"

datatype propagation = Foreground | Background

text \<open>
  One call of a pass. A call that changes something outside the operator carries its outcome; a
  read carries only what was asked.
\<close>

datatype event =
    Clock
  | GetEJ string string
  | GetJob string string
  | GetService string string
  | GetNamespace string
  | GetConfigMap string string
  | GetPolicy string string
  | ListPods string smap
  | ListEvents string string string
  | ListNodes
  | ReadLogs string string
  | CreateJob job "(kerr, job) result"
  | CreatePod pod "(kerr, pod) result"
  | CreateService service "kerr option"
  | CreatePolicy policy "kerr option"
  | UpdatePolicy policy "kerr option"
  | DeleteJob string string propagation "kerr option"
  | DeletePod string string "kerr option"
  | DeleteEJ string string "kerr option"
  | UpdateStatus ephemeralJob "(kerr, ephemeralJob) result"
  | Post string payload "(kerr, nat) result"

type_synonym log = "event list"

subsection \<open>The parameters\<close>

text \<open>
  \<open>kube\<close> gathers what is not the operator's: its process environment, the library functions it
  calls on values (SHA-256, the JSON of the output, quoting, duration printing, the quantity and
  URL parsers, the list of conditions), and the answers of the API server, the clock, the pod log
  and the callback receiver. An answer may depend on every call of the pass before it, so two
  reads of one object in a pass may differ. A successful create or status update answers with the
  object as the server stored it.
\<close>

record kube =
  k_env :: "string \<Rightarrow> string"
  k_sha256 :: "string \<Rightarrow> string"
  k_outputJSON :: "string \<Rightarrow> string option"
  k_quote :: "string \<Rightarrow> string"
  k_duration :: "int \<Rightarrow> string"
  k_quantity :: "string \<Rightarrow> int"
  k_hostname :: "string \<Rightarrow> string option"
  k_setCondition :: "condition list \<Rightarrow> condition \<Rightarrow> condition list"
  k_findCondition :: "condition list \<Rightarrow> string \<Rightarrow> condition option"
  k_isTrue :: "condition list \<Rightarrow> string \<Rightarrow> bool"
  k_schemeErr :: "kerr option"
  k_payloadOK :: "payload \<Rightarrow> bool"
  k_urlOK :: "string \<Rightarrow> bool"
  k_now :: "log \<Rightarrow> int"
  k_getEJ :: "log \<Rightarrow> string \<Rightarrow> string \<Rightarrow> (kerr, ephemeralJob) result"
  k_getJob :: "log \<Rightarrow> string \<Rightarrow> string \<Rightarrow> (kerr, job) result"
  k_getService :: "log \<Rightarrow> string \<Rightarrow> string \<Rightarrow> kerr option"
  k_getNamespace :: "log \<Rightarrow> string \<Rightarrow> (kerr, smap) result"
  k_getConfigMap :: "log \<Rightarrow> string \<Rightarrow> string \<Rightarrow> (kerr, smap) result"
  k_getPolicy :: "log \<Rightarrow> string \<Rightarrow> string \<Rightarrow> (kerr, policy) result"
  k_listPods :: "log \<Rightarrow> string \<Rightarrow> smap \<Rightarrow> (kerr, pod list) result"
  k_listEvents :: "log \<Rightarrow> string \<Rightarrow> string \<Rightarrow> string \<Rightarrow> (kerr, event_obj list) result"
  k_listNodes :: "log \<Rightarrow> (kerr, smap list) result"
  k_readLogs :: "log \<Rightarrow> string \<Rightarrow> string \<Rightarrow> string option"
  k_createJob :: "log \<Rightarrow> job \<Rightarrow> (kerr, job) result"
  k_createPod :: "log \<Rightarrow> pod \<Rightarrow> (kerr, pod) result"
  k_createService :: "log \<Rightarrow> service \<Rightarrow> kerr option"
  k_createPolicy :: "log \<Rightarrow> policy \<Rightarrow> kerr option"
  k_updatePolicy :: "log \<Rightarrow> policy \<Rightarrow> kerr option"
  k_deleteJob :: "log \<Rightarrow> string \<Rightarrow> string \<Rightarrow> kerr option"
  k_deletePod :: "log \<Rightarrow> string \<Rightarrow> string \<Rightarrow> kerr option"
  k_deleteEJ :: "log \<Rightarrow> string \<Rightarrow> string \<Rightarrow> kerr option"
  k_updateStatus :: "log \<Rightarrow> ephemeralJob \<Rightarrow> (kerr, ephemeralJob) result"
  k_post :: "log \<Rightarrow> string \<Rightarrow> payload \<Rightarrow> (kerr, nat) result"

text \<open>
  The contract of \<^verbatim>\<open>apimachinery\<close>'s condition list: a condition that was set is found as set, the
  others are as before, and a condition is true when its status says so.
\<close>

definition conditions_ok :: "kube \<Rightarrow> bool" where
  "conditions_ok K \<longleftrightarrow>
     (\<forall>cs c t. k_findCondition K (k_setCondition K cs c) t =
                 (if t = cd_type c then Some c else k_findCondition K cs t)) \<and>
     (\<forall>cs t. k_isTrue K cs t =
               (case k_findCondition K cs t of Some c \<Rightarrow> cd_status c = ''True'' | None \<Rightarrow> False))"

subsection \<open>Calls\<close>

type_synonym 'a io = "(log, 'a) state"

definition call :: "(log \<Rightarrow> 'r) \<Rightarrow> ('r \<Rightarrow> event) \<Rightarrow> 'r io" where
  "call ask record_of = State (\<lambda>h. let r = ask h in (r, h @ [record_of r]))"

lemma run_call [simp]: "run_state (call ask f) h = (ask h, h @ [f (ask h)])"
  by (simp add: call_def Let_def)

abbreviation return_io :: "'a \<Rightarrow> 'a io" where
  "return_io \<equiv> State_Monad.return"

definition now :: "kube \<Rightarrow> int io" where
  "now K = call (k_now K) (\<lambda>_. Clock)"

definition since :: "kube \<Rightarrow> int \<Rightarrow> int io" where
  "since K t = do { n \<leftarrow> now K; return_io (time_sub n t) }"

definition getEJ :: "kube \<Rightarrow> string \<Rightarrow> string \<Rightarrow> (kerr, ephemeralJob) result io" where
  "getEJ K ns n = call (\<lambda>h. k_getEJ K h ns n) (\<lambda>_. GetEJ ns n)"

definition getJob :: "kube \<Rightarrow> string \<Rightarrow> string \<Rightarrow> (kerr, job) result io" where
  "getJob K ns n = call (\<lambda>h. k_getJob K h ns n) (\<lambda>_. GetJob ns n)"

definition getService :: "kube \<Rightarrow> string \<Rightarrow> string \<Rightarrow> kerr option io" where
  "getService K ns n = call (\<lambda>h. k_getService K h ns n) (\<lambda>_. GetService ns n)"

definition getNamespace :: "kube \<Rightarrow> string \<Rightarrow> (kerr, smap) result io" where
  "getNamespace K n = call (\<lambda>h. k_getNamespace K h n) (\<lambda>_. GetNamespace n)"

definition getConfigMap :: "kube \<Rightarrow> string \<Rightarrow> string \<Rightarrow> (kerr, smap) result io" where
  "getConfigMap K ns n = call (\<lambda>h. k_getConfigMap K h ns n) (\<lambda>_. GetConfigMap ns n)"

definition getPolicy :: "kube \<Rightarrow> string \<Rightarrow> string \<Rightarrow> (kerr, policy) result io" where
  "getPolicy K ns n = call (\<lambda>h. k_getPolicy K h ns n) (\<lambda>_. GetPolicy ns n)"

definition listPods :: "kube \<Rightarrow> string \<Rightarrow> smap \<Rightarrow> (kerr, pod list) result io" where
  "listPods K ns sel = call (\<lambda>h. k_listPods K h ns sel) (\<lambda>_. ListPods ns sel)"

definition listEvents :: "kube \<Rightarrow> string \<Rightarrow> string \<Rightarrow> string \<Rightarrow> (kerr, event_obj list) result io" where
  "listEvents K ns f v = call (\<lambda>h. k_listEvents K h ns f v) (\<lambda>_. ListEvents ns f v)"

definition listNodes :: "kube \<Rightarrow> (kerr, smap list) result io" where
  "listNodes K = call (k_listNodes K) (\<lambda>_. ListNodes)"

definition readLogs :: "kube \<Rightarrow> string \<Rightarrow> string \<Rightarrow> string option io" where
  "readLogs K ns n = call (\<lambda>h. k_readLogs K h ns n) (\<lambda>_. ReadLogs ns n)"

definition createJob :: "kube \<Rightarrow> job \<Rightarrow> (kerr, job) result io" where
  "createJob K j = call (\<lambda>h. k_createJob K h j) (CreateJob j)"

definition createPod :: "kube \<Rightarrow> pod \<Rightarrow> (kerr, pod) result io" where
  "createPod K p = call (\<lambda>h. k_createPod K h p) (CreatePod p)"

definition createService :: "kube \<Rightarrow> service \<Rightarrow> kerr option io" where
  "createService K s = call (\<lambda>h. k_createService K h s) (CreateService s)"

definition createPolicy :: "kube \<Rightarrow> policy \<Rightarrow> kerr option io" where
  "createPolicy K p = call (\<lambda>h. k_createPolicy K h p) (CreatePolicy p)"

definition updatePolicy :: "kube \<Rightarrow> policy \<Rightarrow> kerr option io" where
  "updatePolicy K p = call (\<lambda>h. k_updatePolicy K h p) (UpdatePolicy p)"

definition removeJob :: "kube \<Rightarrow> string \<Rightarrow> string \<Rightarrow> propagation \<Rightarrow> kerr option io" where
  "removeJob K ns n pol = call (\<lambda>h. k_deleteJob K h ns n) (DeleteJob ns n pol)"

definition removePod :: "kube \<Rightarrow> string \<Rightarrow> string \<Rightarrow> kerr option io" where
  "removePod K ns n = call (\<lambda>h. k_deletePod K h ns n) (DeletePod ns n)"

definition removeEJ :: "kube \<Rightarrow> string \<Rightarrow> string \<Rightarrow> kerr option io" where
  "removeEJ K ns n = call (\<lambda>h. k_deleteEJ K h ns n) (DeleteEJ ns n)"

text \<open>
  \<^verbatim>\<open>r.Status().Update(ctx, ej)\<close> overwrites \<open>ej\<close> with the stored object when it succeeds and leaves
  it alone when it fails: the pair is the error and the object afterwards.
\<close>

definition updateStatus :: "kube \<Rightarrow> ephemeralJob \<Rightarrow> (kerr option \<times> ephemeralJob) io" where
  "updateStatus K ej = do {
     r \<leftarrow> call (\<lambda>h. k_updateStatus K h ej) (UpdateStatus ej);
     return_io (case r of Inl e \<Rightarrow> (Some e, ej) | Inr ej' \<Rightarrow> (None, ej'))
   }"

definition httpPost :: "kube \<Rightarrow> string \<Rightarrow> payload \<Rightarrow> (kerr, nat) result io" where
  "httpPost K url p = call (\<lambda>h. k_post K h url p) (Post url p)"

lemmas io_defs = now_def since_def getEJ_def getJob_def getService_def getNamespace_def
  getConfigMap_def getPolicy_def listPods_def listEvents_def listNodes_def readLogs_def
  createJob_def createPod_def createService_def createPolicy_def updatePolicy_def
  removeJob_def removePod_def removeEJ_def updateStatus_def httpPost_def

end
