(* ===== verification/Job_Capacity.thy ===== *)
theory Job_Capacity
  imports EphemeralJob
begin

text \<open>
  \<^verbatim>\<open>helpers.go\<close>, \<^verbatim>\<open>placement.go\<close>, \<^verbatim>\<open>capacity.go\<close> and \<^verbatim>\<open>job_storage.go\<close> of the operator: what a Job
  and its pod say about themselves. \<open>jobFinished\<close> and its relatives read a Job's conditions,
  \<open>ResolvePlacement\<close> turns a class into node placement, and \<open>AssessCapacity\<close> decides why a pod
  does not run and whether waiting can help.
\<close>

subsection \<open>Helpers\<close>

definition meta_SetStatusCondition :: "kube \<Rightarrow> ephemeralJob \<Rightarrow> condition \<Rightarrow> ephemeralJob" where
  "meta_SetStatusCondition K ej c =
     ej\<lparr>ej_status := (ej_status ej)\<lparr>es_conditions := k_setCondition K (es_conditions (ej_status ej)) c\<rparr>\<rparr>"

definition meta_IsStatusConditionTrue :: "kube \<Rightarrow> ephemeralJob \<Rightarrow> string \<Rightarrow> bool" where
  "meta_IsStatusConditionTrue K ej t = k_isTrue K (es_conditions (ej_status ej)) t"

definition meta_FindStatusCondition :: "kube \<Rightarrow> ephemeralJob \<Rightarrow> string \<Rightarrow> condition option" where
  "meta_FindStatusCondition K ej t = k_findCondition K (es_conditions (ej_status ej)) t"

definition isTerminal :: "phase \<Rightarrow> bool" where
  "isTerminal p \<longleftrightarrow> p \<in> {PhaseSucceeded, PhaseFailed, PhaseTimedOut}"

definition jobNameFor :: "ephemeralJob \<Rightarrow> string" where
  "jobNameFor ej = ''ej-'' @ ej_name ej"

definition tenantFromNamespace :: "string \<Rightarrow> string" where
  "tenantFromNamespace ns = TrimPrefix ns ''tenant-''"

definition conditionDetail :: "job_condition \<Rightarrow> string" where
  "conditionDetail c =
     (if jc_message c = [] then jc_reason c
      else if jc_reason c = [] then jc_message c
      else jc_reason c @ '': '' @ jc_message c)"

text \<open>\<open>jobFinished\<close>: \<open>None\<close> is a Job that is not done, \<open>Some\<close> its phase, exit code and detail.\<close>

fun finished_by :: "job_condition list \<Rightarrow> (phase \<times> int option \<times> string) option" where
  "finished_by [] = None"
| "finished_by (c # cs) =
     (if jc_status c \<noteq> ''True'' then finished_by cs
      else if jc_type c = ''Complete'' then Some (PhaseSucceeded, Some 0, conditionDetail c)
      else if jc_type c = ''Failed'' then
        (if jc_reason c = ''DeadlineExceeded'' then Some (PhaseTimedOut, None, conditionDetail c)
         else Some (PhaseFailed, None, conditionDetail c))
      else finished_by cs)"

definition jobFinished :: "job option \<Rightarrow> (phase \<times> int option \<times> string) option" where
  "jobFinished job = (case job of None \<Rightarrow> None | Some j \<Rightarrow> finished_by (j_conditions j))"

definition jobIsFinished :: "job \<Rightarrow> bool" where
  "jobIsFinished j \<longleftrightarrow>
     list_ex (\<lambda>c. (jc_type c = ''Complete'' \<or> jc_type c = ''Failed'') \<and> jc_status c = ''True'') (j_conditions j)"

definition jobAdmissionRejected :: "job option \<Rightarrow> (string \<times> string) option" where
  "jobAdmissionRejected job =
     (case job of None \<Rightarrow> None
      | Some j \<Rightarrow>
          map_option (\<lambda>c. (jc_reason c, jc_message c))
            (List.find (\<lambda>c. jc_type c = ''Failed'' \<and> jc_status c = ''True'' \<and>
                            (jc_reason c = ''FailedCreate'' \<or> Contains (jc_message c) ''exceeded quota''))
               (j_conditions j)))"

definition admissionRejectionThreshold :: int where
  "admissionRejectionThreshold = 3"

definition jobPodCreationBlocked :: "kube \<Rightarrow> job option \<Rightarrow> (string \<times> string) option io" where
  "jobPodCreationBlocked K job =
     (case job of None \<Rightarrow> return_io None
      | Some j \<Rightarrow> do {
          r \<leftarrow> listEvents K (j_ns j) ''involvedObject.uid'' (j_uid j);
          return_io (case r of Inl _ \<Rightarrow> None
                     | Inr es \<Rightarrow>
                         map_option (\<lambda>e. (eo_reason e, eo_message e))
                           (List.find (\<lambda>e. eo_reason e = ''FailedCreate'' \<and> eo_count e \<ge> admissionRejectionThreshold) es))
        })"

definition jobRefusedAtAdmission :: "kerr \<Rightarrow> bool" where
  "jobRefusedAtAdmission e \<longleftrightarrow> err_kind e = KBadRequest \<or> err_kind e = KForbidden \<or> err_kind e = KInvalid"

definition deleteJob :: "kube \<Rightarrow> ephemeralJob \<Rightarrow> kerr option io" where
  "deleteJob K ej = do {
     r \<leftarrow> removeJob K (ej_ns ej) (jobNameFor ej) Background;
     return_io (IgnoreNotFound r)
   }"

subsection \<open>Placement\<close>

record placement =
  pm_nodeSelector :: smap
  pm_tolerations :: "toleration list"
  pm_priorityClassName :: string

definition placements :: "placement gomap" where
  "placements =
     [(''home'', \<lparr> pm_nodeSelector = [(''workload-location'', ''on-prem''), (''node-role.kubernetes.io/worker'', [])],
                   pm_tolerations = [], pm_priorityClassName = ''burst-tenant'' \<rparr>),
      (''burst'', \<lparr> pm_nodeSelector = [(''workload-location'', ''hetzner''), (''node-role.kubernetes.io/worker'', [])],
                    pm_tolerations = [\<lparr> tol_key = ''workload-class'', tol_op = ''Equal'', tol_value = ''burst'',
                                        tol_effect = ''NoSchedule'' \<rparr>],
                    pm_priorityClassName = ''burst-tenant'' \<rparr>)]"

definition ResolvePlacement :: "string \<Rightarrow> placement option" where
  "ResolvePlacement class = map_of placements (if class = [] then ''burst'' else class)"

subsection \<open>Capacity\<close>

record capacity =
  cap_reason :: string
  cap_message :: string
  cap_terminal :: bool
  cap_ready :: bool

definition waiting_for :: "string \<Rightarrow> capacity" where
  "waiting_for msg = \<lparr> cap_reason = ReasonWaitingForCapacity, cap_message = msg,
                       cap_terminal = False, cap_ready = False \<rparr>"

definition scheduled_cap :: capacity where
  "scheduled_cap = \<lparr> cap_reason = ReasonScheduled, cap_message = [], cap_terminal = False, cap_ready = True \<rparr>"

definition podCondition :: "pod \<Rightarrow> string \<Rightarrow> pod_condition option" where
  "podCondition p t = List.find (\<lambda>c. pc_type c = t) (p_conditions p)"

definition unschedulableMessage :: "pod_condition option \<Rightarrow> string" where
  "unschedulableMessage c =
     (case c of None \<Rightarrow> ''pod is not yet scheduled''
      | Some c \<Rightarrow> if pc_message c \<noteq> [] then pc_message c else pc_reason c)"

text \<open>
  \<open>noNodeMatchesSelector\<close>. A label the node does not carry reads as the empty string, as
  \<^verbatim>\<open>labels[k]\<close> does in Go.
\<close>

definition node_matches :: "smap \<Rightarrow> smap \<Rightarrow> bool" where
  "node_matches sel labels \<longleftrightarrow> list_all (\<lambda>(k, v). mget labels k = v) sel"

definition noNodeMatchesSelector :: "kube \<Rightarrow> pod \<Rightarrow> (kerr, bool) result io" where
  "noNodeMatchesSelector K p =
     (if ps_nodeSelector (p_spec p) = [] then return_io (Inr False)
      else do {
        r \<leftarrow> listNodes K;
        return_io (case r of Inl e \<Rightarrow> Inl e
                   | Inr ns \<Rightarrow> Inr (\<not> list_ex (node_matches (ps_nodeSelector (p_spec p))) ns))
      })"

text \<open>The first event of the autoscaler decides, in the order of the list.\<close>

fun autoscaler_says :: "event_obj list \<Rightarrow> capacity option" where
  "autoscaler_says [] = None"
| "autoscaler_says (e # es) =
     (if eo_reason e = ''TriggeredScaleUp''
        then Some (waiting_for (''burst capacity is being provisioned: '' @ eo_message e))
      else if eo_reason e = ''NotTriggerScaleUp''
        then Some \<lparr> cap_reason = ReasonCapacityUnavailable,
                    cap_message = ''burst capacity ceiling reached: '' @ eo_message e,
                    cap_terminal = True, cap_ready = False \<rparr>
      else autoscaler_says es)"

text \<open>\<^verbatim>\<open>%v\<close> of a map: the entries in the order of their keys.\<close>

definition show_map :: "smap \<Rightarrow> string" where
  "show_map m = ''map['' @ Join (map (\<lambda>(k, v). k @ '':'' @ v) (sort_key fst m)) '' '' @ '']''"

definition AssessCapacityBySelector :: "kube \<Rightarrow> string \<Rightarrow> smap \<Rightarrow> (kerr, capacity) result io" where
  "AssessCapacityBySelector K ns sel = do {
     r \<leftarrow> listPods K ns sel;
     case r of
       Inl e \<Rightarrow> return_io (Inl (KErr (err_kind e)
                  (''listing pods in '' @ ns @ '' for '' @ show_map sel @ '': '' @ err_text e)))
     | Inr [] \<Rightarrow> return_io (Inr (waiting_for ''pod not yet created''))
     | Inr (p # _) \<Rightarrow>
         if p_phase p = ''Running'' \<or> p_phase p = ''Succeeded'' then return_io (Inr scheduled_cap)
         else (let scheduled = podCondition p ''PodScheduled'' in
           if (case scheduled of Some c \<Rightarrow> pc_status c = ''True'' | None \<Rightarrow> False)
             then return_io (Inr scheduled_cap)
           else do {
             ev \<leftarrow> listEvents K ns ''involvedObject.name'' (p_name p);
             case ev of
               Inl _ \<Rightarrow> return_io (Inr (waiting_for (unschedulableMessage scheduled)))
             | Inr es \<Rightarrow>
                 (case autoscaler_says es of
                    Some c \<Rightarrow> return_io (Inr c)
                  | None \<Rightarrow> do {
                      none \<leftarrow> noNodeMatchesSelector K p;
                      return_io (Inr (if none = Inr True
                        then \<lparr> cap_reason = ReasonPlacementUnsatisfiable,
                               cap_message = unschedulableMessage scheduled,
                               cap_terminal = True, cap_ready = False \<rparr>
                        else waiting_for (unschedulableMessage scheduled)))
                    })
           })
   }"

definition AssessCapacity :: "kube \<Rightarrow> string \<Rightarrow> string \<Rightarrow> (kerr, capacity) result io" where
  "AssessCapacity K ns jobName = AssessCapacityBySelector K ns [(''job-name'', jobName)]"

end
