(* ===== verification/Pod_Builder.thy ===== *)
theory Pod_Builder
  imports Job_Capacity
begin

text \<open>
  The objects the operator authors: the sync sidecar (\<^verbatim>\<open>workspace_sync.go\<close>), the storage
  environment of a workload (\<^verbatim>\<open>output_storage.go\<close>), and the container, pod, Job and Service of
  \<^verbatim>\<open>ephemeraljob_controller.go\<close>.
\<close>

subsection \<open>Names and settings of the sync sidecar\<close>

definition envOr :: "kube \<Rightarrow> string \<Rightarrow> string \<Rightarrow> string" where
  "envOr K k d = (if k_env K k \<noteq> [] then k_env K k else d)"

definition workspaceSyncImage :: "kube \<Rightarrow> string" where
  "workspaceSyncImage K = envOr K ''WORKSPACE_SYNC_IMAGE'' ''workspace-sync:dev''"

definition workspaceSyncSecretTemplate :: "kube \<Rightarrow> string" where
  "workspaceSyncSecretTemplate K = envOr K ''WORKSPACE_SYNC_SECRET'' ''{fleetId}-sdk-secrets''"

definition workspaceSyncConfigTemplate :: "kube \<Rightarrow> string" where
  "workspaceSyncConfigTemplate K = envOr K ''WORKSPACE_SYNC_CONFIG'' ''{fleetId}-config''"

definition expandWorkspaceSyncRef :: "string \<Rightarrow> string \<Rightarrow> string \<Rightarrow> string" where
  "expandWorkspaceSyncRef template namespace fleetID =
     ReplaceAll (ReplaceAll template ''{namespace}'' namespace) ''{fleetId}'' (ToLower fleetID)"

definition resolveWorkspaceSyncSecret :: "kube \<Rightarrow> string \<Rightarrow> string \<Rightarrow> string" where
  "resolveWorkspaceSyncSecret K namespace fleetID =
     expandWorkspaceSyncRef (workspaceSyncSecretTemplate K) namespace fleetID"

definition resolveWorkspaceSyncConfig :: "kube \<Rightarrow> string \<Rightarrow> string \<Rightarrow> string" where
  "resolveWorkspaceSyncConfig K namespace fleetID =
     expandWorkspaceSyncRef (workspaceSyncConfigTemplate K) namespace fleetID"

definition resolveFleetID :: "kube \<Rightarrow> string \<Rightarrow> string io" where
  "resolveFleetID K namespace = do {
     r \<leftarrow> getNamespace K namespace;
     return_io (case r of Inl _ \<Rightarrow> [] | Inr labels \<Rightarrow> mget labels ''app-id'')
   }"

definition minKeepCheckpoints :: int where
  "minKeepCheckpoints = 1"

definition maxKeepCheckpoints :: int where
  "maxKeepCheckpoints = 50"

definition unboundedKeepCheckpoints :: int where
  "unboundedKeepCheckpoints = 0"

definition crdDefaultKeepCheckpoints :: int where
  "crdDefaultKeepCheckpoints = 5"

definition resolveKeepCheckpoints :: "workspace_spec option \<Rightarrow> int" where
  "resolveKeepCheckpoints ws =
     (case ws of
        None \<Rightarrow> crdDefaultKeepCheckpoints
      | Some w \<Rightarrow>
          if ws_retainAllCheckpoints w then unboundedKeepCheckpoints
          else (case ws_keepCheckpoints w of
                  None \<Rightarrow> crdDefaultKeepCheckpoints
                | Some n \<Rightarrow> if n < minKeepCheckpoints then minKeepCheckpoints
                            else if n > maxKeepCheckpoints then maxKeepCheckpoints else n))"

definition keepCheckpointsEnv :: "int \<Rightarrow> string" where
  "keepCheckpointsEnv keep = (if keep = unboundedKeepCheckpoints then ''unbounded'' else Itoa keep)"

subsection \<open>The sync sidecar\<close>

record sync_target =
  tg_name :: string
  tg_workspaceID :: string
  tg_root :: string
  tg_staging :: string
  tg_port :: string
  tg_readOnly :: bool
  tg_noArchive :: bool
  tg_refresh :: bool

definition WorkspaceMountPath :: string where
  "WorkspaceMountPath = ''/workspace''"

definition WorkspaceVolumeName :: string where
  "WorkspaceVolumeName = ''workspace''"

definition workspaceStagingPath :: string where
  "workspaceStagingPath = ''/ws-staging''"

definition sharedWorkspaceDirName :: string where
  "sharedWorkspaceDirName = ''.global''"

text \<open>The restricted security context of both instances: uid 1000, no root, no escalation.\<close>

definition restricted :: "int option \<Rightarrow> security_context" where
  "restricted uid = \<lparr> sc_privileged = None, sc_runAsUser = uid, sc_runAsNonRoot = Some True,
     sc_allowPrivilegeEscalation = Some False, sc_readOnlyRootFilesystem = Some True,
     sc_drop = [''ALL''], sc_seccomp = Some ''RuntimeDefault'' \<rparr>"

text \<open>The variables every instance gets, in the order of the code, then those set on request.\<close>

definition sync_base_env :: "kube \<Rightarrow> workspace_spec \<Rightarrow> int \<Rightarrow> string \<Rightarrow> string \<Rightarrow> sync_target \<Rightarrow> env_var list" where
  "sync_base_env K ws keep namespace fleetID target =
     (let secret = resolveWorkspaceSyncSecret K namespace fleetID;
          config = resolveWorkspaceSyncConfig K namespace fleetID
      in [plain_env ''WORKSPACE_ID'' (tg_workspaceID target),
          plain_env ''WORKSPACE_ROOT'' (tg_root target),
          plain_env ''STAGING_ROOT'' (tg_staging target),
          plain_env ''WORKSPACE_SYNC_PORT'' (tg_port target),
          plain_env ''APP_ID'' (ws_appID ws),
          ref_env ''S3_ENDPOINT_URL'' (ConfigMapKeyRef config ''S3_ENDPOINT_URL'' True),
          ref_env ''S3_BUCKET_NAME'' (ConfigMapKeyRef config ''S3_BUCKET_NAME'' True),
          ref_env ''S3_ACCESS_KEY_ID'' (SecretKeyRef secret ''S3_ACCESS_KEY_ID'' True),
          ref_env ''S3_SECRET_ACCESS_KEY'' (SecretKeyRef secret ''S3_SECRET_ACCESS_KEY'' True),
          ref_env ''S3_REGION'' (ConfigMapKeyRef config ''S3_REGION'' True),
          plain_env ''WORKSPACE_UID'' ''1000'',
          plain_env ''KEEP_CHECKPOINTS'' (keepCheckpointsEnv keep)])"

definition sync_optional_env :: "workspace_spec \<Rightarrow> sync_target \<Rightarrow> env_var list" where
  "sync_optional_env ws target =
     (if ws_checkpointID ws \<noteq> [] then [plain_env ''CHECKPOINT_ID'' (ws_checkpointID ws)] else []) @
     (if ws_readOnly ws \<or> tg_readOnly target then [plain_env ''WORKSPACE_READ_ONLY'' ''true''] else []) @
     (if tg_refresh target then [plain_env ''WORKSPACE_REFRESH'' ''true''] else []) @
     [plain_env ''WORKSPACE_NO_ARCHIVE'' ''true''] @
     (case ws_checkpointOnShutdown ws of
        Some False \<Rightarrow> [plain_env ''WORKSPACE_SYNC_TEARDOWN'' ''false''] | _ \<Rightarrow> []) @
     (case ws_checkpointIntervalSeconds ws of
        Some n \<Rightarrow> if n > 0 then [plain_env ''WORKSPACE_SYNC_INTERVAL_SECONDS'' (Itoa n)] else []
      | None \<Rightarrow> []) @
     (if ws_pinnedCheckpoints ws \<noteq> []
      then [plain_env ''PINNED_CHECKPOINTS'' (Join (ws_pinnedCheckpoints ws) '','')] else [])"

definition workspaceSyncContainerFor ::
    "kube \<Rightarrow> workspace_spec \<Rightarrow> int \<Rightarrow> string \<Rightarrow> string \<Rightarrow> sync_target \<Rightarrow> container" where
  "workspaceSyncContainerFor K ws keep namespace fleetID target =
     \<lparr> ct_name = tg_name target, ct_image = workspaceSyncImage K, ct_command = [], ct_args = [''serve''],
       ct_env = sync_base_env K ws keep namespace fleetID target @ sync_optional_env ws target,
       ct_mounts = [mount WorkspaceVolumeName WorkspaceMountPath, mount ''ws-staging'' workspaceStagingPath],
       ct_resources = \<lparr> rs_requests = [], rs_limits = [] \<rparr>,
       ct_security = Some (restricted (Some 1000)),
       ct_pullPolicy = ''IfNotPresent'',
       ct_readiness = None, ct_liveness = None,
       ct_startup = Some \<lparr> pr_exec = [''test'', ''-f'', tg_staging target @ ''/.ready''], pr_initialDelay = 1,
                           pr_period = 2, pr_failureThreshold = 300 \<rparr>,
       ct_ports = [], ct_workingDir = [], ct_restart = Some ''Always'' \<rparr>"

definition session_target :: "workspace_spec \<Rightarrow> sync_target" where
  "session_target ws =
     \<lparr> tg_name = ''workspace-sync'', tg_workspaceID = ws_workspaceID ws, tg_root = WorkspaceMountPath,
       tg_staging = workspaceStagingPath, tg_port = ''7070'', tg_readOnly = False, tg_noArchive = False,
       tg_refresh = False \<rparr>"

definition workspaceSyncContainer :: "kube \<Rightarrow> workspace_spec \<Rightarrow> int \<Rightarrow> string \<Rightarrow> string \<Rightarrow> container" where
  "workspaceSyncContainer K ws keep namespace fleetID =
     workspaceSyncContainerFor K ws keep namespace fleetID (session_target ws)"

definition shared_target :: "workspace_spec \<Rightarrow> sync_target" where
  "shared_target ws =
     \<lparr> tg_name = ''workspace-sync-shared'', tg_workspaceID = ws_sharedWorkspaceID ws,
       tg_root = WorkspaceMountPath @ ''/'' @ sharedWorkspaceDirName,
       tg_staging = workspaceStagingPath @ ''/'' @ sharedWorkspaceDirName,
       tg_port = ''7071'', tg_readOnly = ws_sharedWorkspaceReadOnly ws, tg_noArchive = True,
       tg_refresh = ws_sharedWorkspaceRefresh ws \<rparr>"

subsection \<open>Labels, volumes, mounts\<close>

abbreviation "labelJobUID \<equiv> ''compute.nutgraf.in/ephemeraljob-uid''"
abbreviation "labelJobName \<equiv> ''compute.nutgraf.in/ephemeraljob-name''"
abbreviation "labelSessionPeer \<equiv> ''compute.nutgraf.in/session-peer''"

definition authoredLabels :: "ephemeralJob \<Rightarrow> smap \<Rightarrow> smap" where
  "authoredLabels ej own =
     (let merged = copy_into own (copy_into (ej_labels ej) [])
      in if sp_peer (ej_spec ej) \<noteq> None then AList.update labelSessionPeer ''true'' merged else merged)"

definition serviceNameFor :: "ephemeralJob \<Rightarrow> string" where
  "serviceNameFor ej = ej_name ej @ ''-svc''"

definition hasVolume :: "volume list \<Rightarrow> string \<Rightarrow> bool" where
  "hasVolume vs n \<longleftrightarrow> list_ex (\<lambda>v. vol_name v = n) vs"

definition appendVolumeIfAbsent :: "volume list \<Rightarrow> volume \<Rightarrow> volume list" where
  "appendVolumeIfAbsent vs v = (if hasVolume vs (vol_name v) then vs else vs @ [v])"

definition appendMountIfAbsent :: "volume_mount list \<Rightarrow> volume_mount \<Rightarrow> volume_mount list" where
  "appendMountIfAbsent ms m =
     (if list_ex (\<lambda>x. vm_path x = vm_path m \<or> vm_name x = vm_name m) ms then ms else ms @ [m])"

subsection \<open>Resources\<close>

definition set_default :: "string \<Rightarrow> 'v \<Rightarrow> 'v gomap \<Rightarrow> 'v gomap" where
  "set_default n q rl = (if has_key rl n then rl else AList.update n q rl)"

definition withRequests :: "kube \<Rightarrow> string \<Rightarrow> string \<Rightarrow> container \<Rightarrow> container" where
  "withRequests K cpu memory c =
     c\<lparr>ct_resources := (ct_resources c)\<lparr>rs_requests :=
         set_default ''memory'' (k_quantity K memory)
           (set_default ''cpu'' (k_quantity K cpu) (rs_requests (ct_resources c)))\<rparr>\<rparr>"

definition default_limit :: "kube \<Rightarrow> resources \<Rightarrow> string \<Rightarrow> string \<Rightarrow> int" where
  "default_limit K rs name def =
     (let limit = k_quantity K def
      in case map_of (rs_requests rs) name of
           Some req \<Rightarrow> if req > limit then req else limit
         | None \<Rightarrow> limit)"

definition with_limit :: "kube \<Rightarrow> string \<times> string \<Rightarrow> resources \<Rightarrow> resources" where
  "with_limit K nd rs =
     rs\<lparr>rs_limits := set_default (fst nd) (default_limit K rs (fst nd) (snd nd)) (rs_limits rs)\<rparr>"

definition withLimits :: "kube \<Rightarrow> string \<Rightarrow> string \<Rightarrow> string \<Rightarrow> container \<Rightarrow> container" where
  "withLimits K cpu memory ephemeralStorage c =
     c\<lparr>ct_resources := fold (with_limit K)
         [(''cpu'', cpu), (''memory'', memory), (''ephemeral-storage'', ephemeralStorage)] (ct_resources c)\<rparr>"

definition sidecar_envelope :: "kube \<Rightarrow> container \<Rightarrow> container" where
  "sidecar_envelope K c = withLimits K ''1'' ''1Gi'' ''1Gi'' (withRequests K ''50m'' ''64Mi'' c)"

subsection \<open>The workload container\<close>

definition withOutputStorageEnv :: "kube \<Rightarrow> ephemeralJob \<Rightarrow> env_var list \<Rightarrow> string \<Rightarrow> env_var list" where
  "withOutputStorageEnv K ej env fleetID =
     (case sp_output (ej_spec ej) of
        None \<Rightarrow> env
      | Some _ \<Rightarrow>
          (let secret = resolveWorkspaceSyncSecret K (ej_ns ej) fleetID;
               config = resolveWorkspaceSyncConfig K (ej_ns ej) fleetID
           in env @ filter (\<lambda>v. \<not> has_key (sp_env (ej_spec ej)) (ev_name v))
                [ref_env ''S3_ENDPOINT_URL'' (ConfigMapKeyRef config ''S3_ENDPOINT_URL'' False),
                 ref_env ''S3_BUCKET_NAME'' (ConfigMapKeyRef config ''S3_BUCKET_NAME'' False),
                 ref_env ''S3_ACCESS_KEY_ID'' (SecretKeyRef secret ''S3_ACCESS_KEY_ID'' False),
                 ref_env ''S3_SECRET_ACCESS_KEY'' (SecretKeyRef secret ''S3_SECRET_ACCESS_KEY'' False),
                 ref_env ''S3_REGION'' (ConfigMapKeyRef config ''S3_REGION'' True)]))"

definition workload_env :: "kube \<Rightarrow> ej_spec \<Rightarrow> env_var list" where
  "workload_env K sp =
     map (\<lambda>(k, v). plain_env k v) (sp_env sp) @
     (case sp_input sp of
        Some raw \<Rightarrow> if raw \<noteq> [] \<and> \<not> has_key (sp_env sp) ''EPHEMERAL_JOB_INPUT''
                    then [plain_env ''EPHEMERAL_JOB_INPUT'' raw] else []
      | None \<Rightarrow> []) @
     (case sp_output sp of
        Some out \<Rightarrow> if has_key (sp_env sp) ''EPHEMERAL_JOB_OUTPUT'' then []
                    else (case k_outputJSON K out of
                            Some encoded \<Rightarrow> [plain_env ''EPHEMERAL_JOB_OUTPUT'' encoded] | None \<Rightarrow> [])
      | None \<Rightarrow> [])"

definition buildWorkloadContainer :: "kube \<Rightarrow> ephemeralJob \<Rightarrow> container" where
  "buildWorkloadContainer K ej =
     (let sp = ej_spec ej;
          c = \<lparr> ct_name = ''workload'', ct_image = sp_image sp, ct_command = sp_command sp, ct_args = sp_args sp,
                ct_env = workload_env K sp,
                ct_mounts = [mount ''workspace'' ''/workspace'', mount ''result'' ''/result''],
                ct_resources = (case sp_resources sp of Some rs \<Rightarrow> rs | None \<Rightarrow> \<lparr> rs_requests = [], rs_limits = [] \<rparr>),
                ct_security = Some (restricted None), ct_pullPolicy = [],
                ct_readiness = None, ct_liveness = None, ct_startup = None, ct_ports = [], ct_workingDir = [],
                ct_restart = None \<rparr>;
          c = withLimits K ''4'' ''8Gi'' ''20Gi'' (withRequests K ''2'' ''4Gi'' c)
      in c\<lparr>ct_pullPolicy := sp_imagePullPolicy sp,
           ct_readiness := sp_readinessProbe sp, ct_liveness := sp_livenessProbe sp,
           ct_ports := sp_ports sp, ct_workingDir := sp_workingDir sp,
           ct_mounts := (if sp_volumeMounts sp \<noteq> [] then sp_volumeMounts sp else ct_mounts c)\<rparr>)"

subsection \<open>The pod\<close>

text \<open>The first volume of the given name becomes an empty directory; a missing one is added.\<close>

fun empty_first :: "string \<Rightarrow> volume list \<Rightarrow> volume list" where
  "empty_first n [] = [\<lparr> vol_name = n, vol_source = EmptyDir \<rparr>]"
| "empty_first n (v # vs) = (if vol_name v = n then v\<lparr>vol_source := EmptyDir\<rparr> # vs else v # empty_first n vs)"

definition base_volumes :: "ej_spec \<Rightarrow> volume list" where
  "base_volumes sp =
     (if sp_volumes sp = []
      then [\<lparr> vol_name = WorkspaceVolumeName, vol_source = EmptyDir \<rparr>, \<lparr> vol_name = ''result'', vol_source = EmptyDir \<rparr>]
      else sp_volumes sp)"

definition workspace_volumes :: "ej_spec \<Rightarrow> volume list \<Rightarrow> volume list" where
  "workspace_volumes sp vs =
     (case sp_workspacePersistence sp of
        None \<Rightarrow> vs
      | Some _ \<Rightarrow> appendVolumeIfAbsent (empty_first WorkspaceVolumeName vs)
                    \<lparr> vol_name = ''ws-staging'', vol_source = EmptyDir \<rparr>)"

definition identity_volumes :: "ej_spec \<Rightarrow> volume list \<Rightarrow> volume list" where
  "identity_volumes sp vs =
     (case sp_identityToken sp of
        None \<Rightarrow> vs
      | Some it \<Rightarrow>
          appendVolumeIfAbsent vs
            \<lparr> vol_name = ''platform-identity-token'',
              vol_source = ServiceAccountToken (it_audience it)
                (case it_expirationSeconds it of Some n \<Rightarrow> n | None \<Rightarrow> 600) ''token'' \<rparr>)"

definition workload_mounts :: "ej_spec \<Rightarrow> volume_mount list \<Rightarrow> volume_mount list" where
  "workload_mounts sp ms =
     (let ms1 = (case sp_workspacePersistence sp of
                   None \<Rightarrow> ms
                 | Some _ \<Rightarrow> appendMountIfAbsent ms
                     \<lparr> vm_name = WorkspaceVolumeName, vm_path = WorkspaceMountPath, vm_readOnly = False,
                       vm_propagation = Some HostToContainer \<rparr>);
          ms2 = appendMountIfAbsent ms1 (mount ''tmp'' ''/tmp'')
      in case sp_identityToken sp of
           None \<Rightarrow> ms2
         | Some _ \<Rightarrow> appendMountIfAbsent ms2
             \<lparr> vm_name = ''platform-identity-token'', vm_path = ''/var/run/secrets/platform.soloz.io/identity'',
               vm_readOnly = True, vm_propagation = None \<rparr>)"

definition sync_containers :: "kube \<Rightarrow> ephemeralJob \<Rightarrow> string \<Rightarrow> container list" where
  "sync_containers K ej fleetID =
     (case sp_workspacePersistence (ej_spec ej) of
        None \<Rightarrow> []
      | Some ws \<Rightarrow>
          (let keep = resolveKeepCheckpoints (Some ws)
           in workspaceSyncContainer K ws keep (ej_ns ej) fleetID #
              (if ws_sharedWorkspaceID ws \<noteq> []
               then [workspaceSyncContainerFor K ws keep (ej_ns ej) fleetID (shared_target ws)] else [])))"

definition minWorkspaceGraceSeconds :: int where
  "minWorkspaceGraceSeconds = 120"

definition pod_grace :: "ej_spec \<Rightarrow> int option" where
  "pod_grace sp =
     (if sp_workspacePersistence sp \<noteq> None \<and>
         (case sp_terminationGracePeriodSeconds sp of None \<Rightarrow> True | Some g \<Rightarrow> g < minWorkspaceGraceSeconds)
      then Some minWorkspaceGraceSeconds
      else sp_terminationGracePeriodSeconds sp)"

definition runtimeClassFor :: "ephemeralJob \<Rightarrow> string option" where
  "runtimeClassFor ej =
     (if sp_isolation (ej_spec ej) = IsolationSandboxed \<or> sp_peer (ej_spec ej) \<noteq> None
      then Some ''sandboxed'' else None)"

definition pod_spec_of :: "kube \<Rightarrow> ephemeralJob \<Rightarrow> placement \<Rightarrow> container \<Rightarrow> string \<Rightarrow> pod_spec" where
  "pod_spec_of K ej p container fleetID =
     (let sp = ej_spec ej;
          c = container\<lparr>ct_env := withOutputStorageEnv K ej (ct_env container) fleetID,
                        ct_mounts := workload_mounts sp (ct_mounts container)\<rparr>
      in \<lparr> ps_restart = (if sp_mode sp = ModeService then ''Always'' else ''Never''),
           ps_automount = Some False,
           ps_nodeSelector = pm_nodeSelector p,
           ps_tolerations = pm_tolerations p,
           ps_priorityClass = pm_priorityClassName p,
           ps_dnsOptions = [(''ndots'', ''2'')],
           ps_security = Some \<lparr> sc_privileged = None, sc_runAsUser = Some 1000, sc_runAsNonRoot = Some True,
             sc_allowPrivilegeEscalation = None, sc_readOnlyRootFilesystem = None, sc_drop = [],
             sc_seccomp = Some ''RuntimeDefault'' \<rparr>,
           ps_init = map (sidecar_envelope K) (sync_containers K ej fleetID),
           ps_containers = c # map (sidecar_envelope K) (sp_sidecars sp),
           ps_volumes = identity_volumes sp
             (appendVolumeIfAbsent (workspace_volumes sp (base_volumes sp)) \<lparr> vol_name = ''tmp'', vol_source = EmptyDir \<rparr>),
           ps_pullSecrets = sp_imagePullSecrets sp,
           ps_grace = pod_grace sp,
           ps_runtimeClass = runtimeClassFor ej \<rparr>)"

definition buildPodSpec :: "kube \<Rightarrow> ephemeralJob \<Rightarrow> placement \<Rightarrow> container \<Rightarrow> pod_spec io" where
  "buildPodSpec K ej p container = do {
     fleetID \<leftarrow> resolveFleetID K (ej_ns ej);
     return_io (pod_spec_of K ej p container fleetID)
   }"

subsection \<open>Job, Pod and Service\<close>

definition job_labels :: "ephemeralJob \<Rightarrow> string \<Rightarrow> smap" where
  "job_labels ej fleetID = authoredLabels ej
     [(labelJobUID, ej_uid ej), (''tenant-id'', tenantFromNamespace (ej_ns ej)), (''app-id'', fleetID),
      (''cost-center'', ''platform'')]"

definition buildJob :: "kube \<Rightarrow> ephemeralJob \<Rightarrow> string \<Rightarrow> placement \<Rightarrow> job io" where
  "buildJob K ej name p = do {
     fleetID \<leftarrow> resolveFleetID K (ej_ns ej);
     spec \<leftarrow> buildPodSpec K ej p (buildWorkloadContainer K ej);
     return_io
       \<lparr> j_name = name, j_ns = ej_ns ej, j_uid = [], j_labels = job_labels ej fleetID, j_controller = None,
         j_backoff = Some 0,
         j_failurePolicy = [\<lparr> fr_action = ''Ignore'', fr_onType = ''DisruptionTarget'', fr_onStatus = ''True'' \<rparr>],
         j_activeDeadline = None,
         j_ttl = Some (sp_ttlSecondsAfterFinished (ej_spec ej)),
         j_podLabels = authoredLabels ej [(labelJobUID, ej_uid ej), (''app-id'', fleetID)],
         j_podSpec = spec, j_conditions = [] \<rparr>
   }"

definition buildPod :: "kube \<Rightarrow> ephemeralJob \<Rightarrow> string \<Rightarrow> placement \<Rightarrow> pod io" where
  "buildPod K ej name p = do {
     fleetID \<leftarrow> resolveFleetID K (ej_ns ej);
     spec \<leftarrow> buildPodSpec K ej p (buildWorkloadContainer K ej);
     return_io
       \<lparr> p_name = [], p_generateName = name @ ''-'', p_ns = ej_ns ej,
         p_labels = authoredLabels ej
           [(labelJobUID, ej_uid ej), (labelJobName, ej_name ej),
            (''tenant-id'', tenantFromNamespace (ej_ns ej)), (''app-id'', fleetID), (''cost-center'', ''platform'')],
         p_controller = None, p_deleting = False, p_spec = spec,
         p_phase = [], p_reason = [], p_conditions = [], p_initStatuses = [], p_statuses = [] \<rparr>
   }"

definition buildService :: "ephemeralJob \<Rightarrow> service_spec \<Rightarrow> string \<Rightarrow> service" where
  "buildService ej ss name =
     \<lparr> sv_name = name, sv_ns = ej_ns ej,
       sv_labels = authoredLabels ej
         [(labelJobUID, ej_uid ej), (''tenant-id'', tenantFromNamespace (ej_ns ej))],
       sv_controller = None,
       sv_type = (if ss_type ss = [] then ''ClusterIP'' else ss_type ss),
       sv_selector = [(labelJobUID, ej_uid ej)],
       sv_ports = ss_ports ss \<rparr>"

end
