(* ===== verification/Session_Peer.thy ===== *)
theory Session_Peer
  imports Pod_Builder
begin

text \<open>
  \<^verbatim>\<open>session_peer.go\<close>: a session peer, the network policies of the pair and of a job's storage, and
  how a policy is applied.
\<close>

datatype network_mode = NetworkPolicyCilium | NetworkPolicyNone

definition ParseNetworkPolicyMode :: "(string \<Rightarrow> string) \<Rightarrow> string \<Rightarrow> (string, network_mode) result" where
  "ParseNetworkPolicyMode quote s =
     (if s = ''cilium'' then Inr NetworkPolicyCilium
      else if s = ''none'' then Inr NetworkPolicyNone
      else if s = [] then Inl ''--network-policy is required: cilium or none (ADR-106)''
      else Inl (''--network-policy='' @ quote s @ '': must be cilium or none (ADR-106)''))"

text \<open>The fields of the reconciler; the clients are the parameter \<open>kube\<close>.\<close>

record reconciler =
  r_provisioningBudget :: int
  r_networkPolicy :: network_mode
  r_hasClientset :: bool

definition labelSandbox :: string where
  "labelSandbox = ''agents.x-k8s.io/sandbox''"

definition hasContainerPort :: "container_port list \<Rightarrow> int \<Rightarrow> bool" where
  "hasContainerPort ports port \<longleftrightarrow> list_ex (\<lambda>p. cp_port p = port) ports"

subsection \<open>Policies\<close>

definition tcp_rule :: "rule_peer \<Rightarrow> string \<Rightarrow> rule" where
  "tcp_rule peer port = \<lparr> ru_peer = peer, ru_port = port, ru_protocol = ''TCP'' \<rparr>"

definition pod_of :: "ephemeralJob \<Rightarrow> smap" where
  "pod_of ej = [(labelJobUID, ej_uid ej)]"

definition policy_for :: "ephemeralJob \<Rightarrow> string \<Rightarrow> policy_spec \<Rightarrow> policy" where
  "policy_for ej suffix spec =
     \<lparr> pol_ns = ej_ns ej, pol_name = ej_name ej @ suffix,
       pol_labels = [(labelJobUID, ej_uid ej), (labelJobName, ej_name ej)],
       pol_controller = None, pol_version = [], pol_spec = spec \<rparr>"

definition sessionPeerPolicies :: "ephemeralJob \<Rightarrow> peer_spec \<Rightarrow> ephemeralJob \<Rightarrow> string \<Rightarrow> policy list" where
  "sessionPeerPolicies peer ps owner storageHost =
     (let peerPod = Endpoints (pod_of peer); ownerPod = Endpoints (pod_of owner);
          listen = Itoa (pe_listenPort ps); target = Itoa (pe_targetPort ps);
          peerSide = \<lparr> pol_selector = pod_of peer,
                       pol_ingress = Some [tcp_rule ownerPod listen],
                       pol_egress = Some [tcp_rule ownerPod target, tcp_rule (FQDN storageHost) ''443''] \<rparr>;
          ownerSide = \<lparr> pol_selector = pod_of owner,
                        pol_ingress = Some [tcp_rule peerPod target],
                        pol_egress = Some [tcp_rule peerPod listen] \<rparr>
      in [policy_for peer ''-peer'' peerSide, policy_for peer ''-peer-owner'' ownerSide])"

definition storage_policy :: "ephemeralJob \<Rightarrow> string \<Rightarrow> policy" where
  "storage_policy ej host =
     policy_for ej ''-storage''
       \<lparr> pol_selector = pod_of ej, pol_ingress = None, pol_egress = Some [tcp_rule (FQDN host) ''443''] \<rparr>"

text \<open>\<^verbatim>\<open>SetControllerReference\<close> on a fresh object: it records the owner, or fails on the scheme.\<close>

definition own_policy :: "kube \<Rightarrow> ephemeralJob \<Rightarrow> policy \<Rightarrow> (kerr, policy) result" where
  "own_policy K ej p =
     (case k_schemeErr K of Some e \<Rightarrow> Inl e | None \<Rightarrow> Inr (p\<lparr>pol_controller := Some (ej_uid ej)\<rparr>))"

definition applyPolicy :: "kube \<Rightarrow> policy \<Rightarrow> kerr option io" where
  "applyPolicy K want = do {
     r \<leftarrow> getPolicy K (pol_ns want) (pol_name want);
     case r of
       Inl e \<Rightarrow> if IsNotFound e then createPolicy K want else return_io (Some e)
     | Inr got \<Rightarrow>
         if pol_spec got = pol_spec want \<and> map_eq (pol_labels got) (pol_labels want) then return_io None
         else updatePolicy K (want\<lparr>pol_version := pol_version got\<rparr>)
   }"

fun apply_policies :: "kube \<Rightarrow> ephemeralJob \<Rightarrow> policy list \<Rightarrow> kerr option io" where
  "apply_policies K ej [] = return_io None"
| "apply_policies K ej (p # ps) =
     (case own_policy K ej p of
        Inl e \<Rightarrow> return_io (Some e)
      | Inr p \<Rightarrow> do {
          r \<leftarrow> applyPolicy K p;
          case r of Some e \<Rightarrow> return_io (Some e) | None \<Rightarrow> apply_policies K ej ps
        })"

subsection \<open>Reconciling\<close>

definition sessionStorageHost :: "kube \<Rightarrow> string \<Rightarrow> (kerr, string) result io" where
  "sessionStorageHost K namespace = do {
     fleetID \<leftarrow> resolveFleetID K namespace;
     let name = resolveWorkspaceSyncConfig K namespace fleetID;
     r \<leftarrow> getConfigMap K namespace name;
     return_io (case r of
       Inl e \<Rightarrow> Inl (KErr (err_kind e)
         (''reading '' @ namespace @ ''/'' @ name @ '' for the session's storage endpoint: '' @ err_text e))
     | Inr data \<Rightarrow>
         (case k_hostname K (mget data ''S3_ENDPOINT_URL'') of
            Some host \<Rightarrow> if host \<noteq> [] then Inr host
              else Inl (KErr KOther (namespace @ ''/'' @ name @ '' S3_ENDPOINT_URL '' @
                          k_quote K (mget data ''S3_ENDPOINT_URL'') @ '' has no host''))
          | None \<Rightarrow> Inl (KErr KOther (namespace @ ''/'' @ name @ '' S3_ENDPOINT_URL '' @
                          k_quote K (mget data ''S3_ENDPOINT_URL'') @ '' has no host''))))
   }"

text \<open>A peer is accepted, refused for good with a reason, or the pass fails and is retried.\<close>

datatype peer_outcome = PeerOK | PeerInvalid string string | PeerErr kerr

text \<open>The tests on the owning job, in the order of the code's \<^verbatim>\<open>switch\<close>.\<close>

definition owner_refusal :: "kube \<Rightarrow> peer_spec \<Rightarrow> ephemeralJob \<Rightarrow> (string \<times> string) option" where
  "owner_refusal K ps owner =
     (if sp_peer (ej_spec owner) \<noteq> None
        then Some (''InvalidPeer'', k_quote K (ej_name owner) @
               '' is itself a session peer; a peer must belong to the session's own job'')
      else if isTerminal (es_phase (ej_status owner))
        then Some (''PeerOwnerFinished'', k_quote K (ej_name owner) @ '' has finished ('' @
               phase_string (es_phase (ej_status owner)) @ '')'')
      else if \<not> hasContainerPort (sp_ports (ej_spec owner)) (pe_targetPort ps)
        then Some (''InvalidPeer'', ''spec.peer.targetPort '' @ Itoa (pe_targetPort ps) @ '' is not one of '' @
               k_quote K (ej_name owner) @ CHR 0x27 # ''s spec.ports'')
      else None)"

definition reconcileSessionPeer :: "kube \<Rightarrow> reconciler \<Rightarrow> ephemeralJob \<Rightarrow> peer_outcome io" where
  "reconcileSessionPeer K R ej =
     (case sp_peer (ej_spec ej) of
        None \<Rightarrow> return_io PeerOK
      | Some ps \<Rightarrow>
          if has_key (ej_labels ej) labelSandbox
            then return_io (PeerInvalid ''InvalidPeer'' (''a session peer must not carry the '' @ labelSandbox @
              '' label: it would inherit the external hosts declared for sandboxes, which a peer must not reach''))
          else if \<not> hasContainerPort (sp_ports (ej_spec ej)) (pe_listenPort ps)
            then return_io (PeerInvalid ''InvalidPeer'' (''spec.peer.listenPort '' @ Itoa (pe_listenPort ps) @
              '' is not one of this job's spec.ports''))
          else do {
            r \<leftarrow> getEJ K (ej_ns ej) (pe_jobName ps);
            case r of
              Inl e \<Rightarrow> return_io (if IsNotFound e
                then PeerInvalid ''PeerOwnerNotFound'' (''spec.peer.jobName '' @ k_quote K (pe_jobName ps) @
                       '' is not an EphemeralJob in '' @ ej_ns ej)
                else PeerErr e)
            | Inr owner \<Rightarrow>
                (case owner_refusal K ps owner of
                   Some (reason, msg) \<Rightarrow> return_io (PeerInvalid reason msg)
                 | None \<Rightarrow> do {
                     h \<leftarrow> sessionStorageHost K (ej_ns ej);
                     case h of
                       Inl e \<Rightarrow> return_io (PeerErr e)
                     | Inr storageHost \<Rightarrow>
                         if r_networkPolicy R \<noteq> NetworkPolicyCilium then return_io PeerOK
                         else do {
                           a \<leftarrow> apply_policies K ej (sessionPeerPolicies ej ps owner storageHost);
                           return_io (case a of Some e \<Rightarrow> PeerErr e | None \<Rightarrow> PeerOK)
                         }
                   })
          })"

definition reconcileStorageEgress :: "kube \<Rightarrow> reconciler \<Rightarrow> ephemeralJob \<Rightarrow> kerr option io" where
  "reconcileStorageEgress K R ej =
     (if r_networkPolicy R \<noteq> NetworkPolicyCilium \<or> sp_peer (ej_spec ej) \<noteq> None \<or>
         (sp_output (ej_spec ej) = None \<and> sp_workspacePersistence (ej_spec ej) = None)
      then return_io None
      else do {
        h \<leftarrow> sessionStorageHost K (ej_ns ej);
        case h of
          Inl e \<Rightarrow> return_io (Some e)
        | Inr host \<Rightarrow>
            (case own_policy K ej (storage_policy ej host) of
               Inl e \<Rightarrow> return_io (Some e)
             | Inr p \<Rightarrow> applyPolicy K p)
      })"

end
