(* ===== verification/Reconciler.thy ===== *)
theory Reconciler
  imports Session_Peer
begin

text \<open>
  One pass of \<^verbatim>\<open>EphemeralJobReconciler\<close> (\<^verbatim>\<open>ephemeraljob_controller.go\<close>): the status writes, the
  lifecycle callback, the Job and Service lifecycles, and \<open>Reconcile\<close> itself. A pass is a
  computation over the log of its calls; the object it holds is passed on explicitly, because a
  status update replaces it by what the server stored.
\<close>

subsection \<open>Results of a pass\<close>

record rresult =
  rr_requeue :: bool
  rr_requeueAfter :: int

definition no_requeue :: rresult where
  "no_requeue = \<lparr> rr_requeue = False, rr_requeueAfter = 0 \<rparr>"

definition defaultRequeue :: int where
  "defaultRequeue = 10 * 10 ^ 9"

definition after :: "int \<Rightarrow> rresult" where
  "after d = \<lparr> rr_requeue = False, rr_requeueAfter = d \<rparr>"

type_synonym pass = "(kerr, rresult) result io"

definition ended :: "kerr option io \<Rightarrow> pass" where
  "ended m = do { e \<leftarrow> m; return_io (case e of Some e \<Rightarrow> Inl e | None \<Rightarrow> Inr no_requeue) }"

text \<open>A nil pointer that is dereferenced: the pass panics, which the queue treats as an error.\<close>

definition nil_deref :: kerr where
  "nil_deref = KErr KOther ''invalid memory address or nil pointer dereference''"

abbreviation with_status :: "(ej_status \<Rightarrow> ej_status) \<Rightarrow> ephemeralJob \<Rightarrow> ephemeralJob" where
  "with_status f ej \<equiv> ej\<lparr>ej_status := f (ej_status ej)\<rparr>"

abbreviation with_message :: "string \<Rightarrow> ephemeralJob \<Rightarrow> ephemeralJob" where
  "with_message m \<equiv> with_status (es_message_update (\<lambda>_. m))"

definition minDuration :: "int \<Rightarrow> int \<Rightarrow> int" where
  "minDuration a b = (if a < b then a else b)"

subsection \<open>Event identifiers and reasons\<close>

definition event_hash :: "kube \<Rightarrow> string \<Rightarrow> string" where
  "event_hash K s = take 32 (EncodeToString (k_sha256 K s))"

definition terminal_preimage :: "ephemeralJob \<Rightarrow> phase \<Rightarrow> string" where
  "terminal_preimage ej phase =
     (if sp_requestID (ej_spec ej) = [] then ej_uid ej else sp_requestID (ej_spec ej)) @ ''|'' @ phase_string phase"

definition ready_preimage :: "ephemeralJob \<Rightarrow> string \<Rightarrow> string" where
  "ready_preimage ej podName = ej_uid ej @ ''|'' @ podName @ ''|ready''"

definition terminalEventID :: "kube \<Rightarrow> ephemeralJob \<Rightarrow> phase \<Rightarrow> string" where
  "terminalEventID K ej phase = event_hash K (terminal_preimage ej phase)"

definition readyEventID :: "kube \<Rightarrow> ephemeralJob \<Rightarrow> string \<Rightarrow> string" where
  "readyEventID K ej podName = event_hash K (ready_preimage ej podName)"

definition callbackReason :: "kube \<Rightarrow> ephemeralJob \<Rightarrow> string" where
  "callbackReason K ej =
     (case meta_FindStatusCondition K ej ConditionCapacity of
        Some c \<Rightarrow> if cd_reason c = ReasonCapacityTimeout then cd_reason c
                  else (case meta_FindStatusCondition K ej ConditionComplete of
                          Some d \<Rightarrow> cd_reason d | None \<Rightarrow> [])
      | None \<Rightarrow> (case meta_FindStatusCondition K ej ConditionComplete of
                   Some d \<Rightarrow> cd_reason d | None \<Rightarrow> []))"

subsection \<open>The lifecycle callback\<close>

definition callback_payload ::
    "kube \<Rightarrow> ephemeralJob \<Rightarrow> phase \<Rightarrow> int option \<Rightarrow> string \<Rightarrow> int \<Rightarrow> payload" where
  "callback_payload K ej phase exit eventID at =
     \<lparr> pl_jobId = ej_name ej, pl_status = phase, pl_exitCode = exit, pl_output = sp_output (ej_spec ej),
       pl_message = es_message (ej_status ej), pl_terminalEventId = eventID,
       pl_requestId = sp_requestID (ej_spec ej), pl_uid = ej_uid ej, pl_timestamp = at,
       pl_labels = ej_labels ej,
       pl_reason = (if callbackReason K ej \<noteq> [] then Some (callbackReason K ej) else None) \<rparr>"

definition delivered :: "kube \<Rightarrow> ephemeralJob \<Rightarrow> phase \<Rightarrow> string \<Rightarrow> nat \<Rightarrow> ephemeralJob" where
  "delivered K ej phase gate code =
     meta_SetStatusCondition K ej
       \<lparr> cd_type = gate, cd_status = ''True'', cd_reason = phase_string phase,
         cd_message = ''callback responded '' @ Itoa (int code), cd_generation = ej_generation ej \<rparr>"

definition fireLifecycleCallback ::
    "kube \<Rightarrow> ephemeralJob \<Rightarrow> phase \<Rightarrow> int option \<Rightarrow> string \<Rightarrow> string \<Rightarrow> (kerr option \<times> ephemeralJob) io" where
  "fireLifecycleCallback K ej phase exit gate eventID =
     (if sp_callbackURL (ej_spec ej) = [] then return_io (None, ej)
      else if meta_IsStatusConditionTrue K ej gate then return_io (None, ej)
      else do {
        at \<leftarrow> now K;
        let body = callback_payload K ej phase exit eventID at;
        if \<not> k_payloadOK K body then return_io (None, ej)
        else if \<not> k_urlOK K (sp_callbackURL (ej_spec ej)) then return_io (None, ej)
        else do {
          resp \<leftarrow> httpPost K (sp_callbackURL (ej_spec ej)) body;
          case resp of
            Inl e \<Rightarrow> return_io (Some e, ej)
          | Inr code \<Rightarrow>
              if code \<ge> 500 then return_io (Some (KErr KOther
                   (''callback to '' @ sp_callbackURL (ej_spec ej) @ '' returned '' @ Itoa (int code))), ej)
              else do {
                (e, ej) \<leftarrow> updateStatus K (delivered K ej phase gate code);
                return_io (IgnoreNotFound e, ej)
              }
        }
      })"

definition fireCallback :: "kube \<Rightarrow> ephemeralJob \<Rightarrow> phase \<Rightarrow> int option \<Rightarrow> kerr option io" where
  "fireCallback K ej phase exit = do {
     (e, _) \<leftarrow> fireLifecycleCallback K ej phase exit ConditionCallbackDelivered (terminalEventID K ej phase);
     return_io e
   }"

subsection \<open>Phases\<close>

definition setPhase :: "kube \<Rightarrow> ephemeralJob \<Rightarrow> phase \<Rightarrow> capacity \<Rightarrow> ephemeralJob" where
  "setPhase K ej phase c =
     meta_SetStatusCondition K
       (with_status (\<lambda>s. s\<lparr>es_phase := phase, es_message := cap_message c,
                           es_observedGeneration := ej_generation ej\<rparr>) ej)
       \<lparr> cd_type = ConditionCapacity, cd_status = (if cap_ready c then ''True'' else ''False''),
         cd_reason = cap_reason c, cd_message = cap_message c, cd_generation = ej_generation ej \<rparr>"

text \<open>The object a job that ends with a callback is stored as.\<close>

definition finished_as :: "kube \<Rightarrow> ephemeralJob \<Rightarrow> phase \<Rightarrow> string \<Rightarrow> int option \<Rightarrow> int \<Rightarrow> ephemeralJob" where
  "finished_as K ej phase reason exit at =
     meta_SetStatusCondition K
       (with_status (\<lambda>s. s\<lparr>es_phase := phase, es_completionTime := Some at, es_exitCode := exit,
                           es_observedGeneration := ej_generation ej,
                           es_terminalEventID := terminalEventID K ej phase\<rparr>) ej)
       \<lparr> cd_type = ConditionComplete, cd_status = (if phase \<noteq> PhaseSucceeded then ''False'' else ''True''),
         cd_reason = reason, cd_message = es_message (ej_status ej), cd_generation = ej_generation ej \<rparr>"

definition markFinishedWithReason ::
    "kube \<Rightarrow> ephemeralJob \<Rightarrow> phase \<Rightarrow> string \<Rightarrow> int option \<Rightarrow> kerr option io" where
  "markFinishedWithReason K ej phase reason exit = do {
     at \<leftarrow> now K;
     (e, ej) \<leftarrow> updateStatus K (finished_as K ej phase reason exit at);
     case IgnoreNotFound e of
       Some e \<Rightarrow> return_io (Some e)
     | None \<Rightarrow> fireCallback K ej phase exit
   }"

definition markFinished :: "kube \<Rightarrow> ephemeralJob \<Rightarrow> phase \<Rightarrow> int option \<Rightarrow> kerr option io" where
  "markFinished K ej phase exit = markFinishedWithReason K ej phase (phase_string phase) exit"

definition terminal_as :: "kube \<Rightarrow> ephemeralJob \<Rightarrow> phase \<Rightarrow> string \<Rightarrow> string \<Rightarrow> int \<Rightarrow> ephemeralJob" where
  "terminal_as K ej phase reason msg at =
     meta_SetStatusCondition K
       (with_status (\<lambda>s. s\<lparr>es_phase := phase, es_completionTime := Some at, es_message := msg,
                           es_observedGeneration := ej_generation ej,
                           es_terminalEventID := terminalEventID K ej phase\<rparr>) ej)
       \<lparr> cd_type = ConditionCapacity, cd_status = ''False'', cd_reason = reason, cd_message = msg,
         cd_generation = ej_generation ej \<rparr>"

definition markTerminal :: "kube \<Rightarrow> ephemeralJob \<Rightarrow> phase \<Rightarrow> string \<Rightarrow> string \<Rightarrow> kerr option io" where
  "markTerminal K ej phase reason msg = do {
     at \<leftarrow> now K;
     (e, _) \<leftarrow> updateStatus K (terminal_as K ej phase reason msg at);
     return_io (IgnoreNotFound e)
   }"

definition reconcileTTL :: "kube \<Rightarrow> ephemeralJob \<Rightarrow> pass" where
  "reconcileTTL K ej =
     (case es_completionTime (ej_status ej) of
        None \<Rightarrow> return_io (Inr no_requeue)
      | Some completion \<Rightarrow> do {
          let ttl = Seconds (sp_ttlSecondsAfterFinished (ej_spec ej));
          elapsed \<leftarrow> since K completion;
          if elapsed < ttl then return_io (Inr (after (wrap64 (ttl - elapsed))))
          else ended (do { r \<leftarrow> removeEJ K (ej_ns ej) (ej_name ej); return_io (IgnoreNotFound r) })
        })"

definition validateSpec :: "ephemeralJob \<Rightarrow> (string \<times> string) option" where
  "validateSpec ej =
     (if sp_mode (ej_spec ej) = ModeService \<and> sp_idleTimeoutSeconds (ej_spec ej) \<le> 0
      then Some (''InvalidSpec'',
        ''mode=Service requires idleTimeoutSeconds: without it the workload would never be reaped'')
      else None)"

subsection \<open>What a pod says\<close>

definition workloadReady :: "pod \<Rightarrow> bool" where
  "workloadReady p =
     (case List.find (\<lambda>c. cs_name c = ''workload'') (p_statuses p) of Some c \<Rightarrow> cs_ready c | None \<Rightarrow> False)"

definition blocking :: "string set" where
  "blocking = {''CrashLoopBackOff'', ''ImagePullBackOff'', ''ErrImagePull'', ''CreateContainerConfigError'',
     ''CreateContainerError'', ''RunContainerError'', ''InvalidImageName''}"

definition last_exit_text :: "terminated option \<Rightarrow> string" where
  "last_exit_text t =
     (case t of None \<Rightarrow> []
      | Some t \<Rightarrow> if tm_message t \<noteq> [] then '' (last exit: '' @ TrimSpace (tm_message t) @ '')''
                  else if tm_exit t \<noteq> 0 then '' (last exit code '' @ Itoa (tm_exit t) @ '')''
                  else [])"

fun describe_blocker :: "kube \<Rightarrow> string \<Rightarrow> container_status list \<Rightarrow> string" where
  "describe_blocker K kind [] = []"
| "describe_blocker K kind (c # cs) =
     (case cs_waiting c of
        None \<Rightarrow> describe_blocker K kind cs
      | Some (reason, msg) \<Rightarrow>
          if reason \<notin> blocking then describe_blocker K kind cs
          else kind @ '' '' @ k_quote K (cs_name c) @ '' is '' @ reason @
               (if msg \<noteq> [] then '': '' @ msg else []) @ last_exit_text (cs_lastTerminated c))"

definition podStartupBlocker :: "kube \<Rightarrow> pod \<Rightarrow> string" where
  "podStartupBlocker K p =
     (let m = describe_blocker K ''init container'' (p_initStatuses p)
      in if m \<noteq> [] then m else describe_blocker K ''container'' (p_statuses p))"

definition podExitCode :: "pod \<Rightarrow> int option" where
  "podExitCode p =
     (case List.find (\<lambda>c. cs_terminated c \<noteq> None) (p_statuses p) of
        Some c \<Rightarrow> map_option tm_exit (cs_terminated c) | None \<Rightarrow> None)"

definition podTerminationMessage :: "pod \<Rightarrow> string" where
  "podTerminationMessage p =
     (case List.map_filter (\<lambda>c. case cs_terminated c of
              Some t \<Rightarrow> if tm_exit t \<noteq> 0 \<and> TrimSpace (tm_message t) \<noteq> [] then Some (TrimSpace (tm_message t)) else None
            | None \<Rightarrow> None) (p_statuses p) of
        m # _ \<Rightarrow> m
      | [] \<Rightarrow>
          (case List.map_filter (\<lambda>c. case cs_terminated c of
                  Some t \<Rightarrow> if tm_reason t \<noteq> []
                    then Some (''container '' @ cs_name c @ '' terminated: '' @ tm_reason t) else None
                | None \<Rightarrow> None) (p_statuses p) of
             m # _ \<Rightarrow> m
           | [] \<Rightarrow> if p_reason p \<noteq> [] then p_reason p else ''pod failed''))"

definition podForJob :: "kube \<Rightarrow> job \<Rightarrow> (kerr, pod option) result io" where
  "podForJob K j = do {
     r \<leftarrow> listPods K (j_ns j) [(''job-name'', j_name j)];
     return_io (case r of Inl e \<Rightarrow> Inl e | Inr [] \<Rightarrow> Inr None | Inr (p # _) \<Rightarrow> Inr (Some p))
   }"

definition deletePod :: "kube \<Rightarrow> pod \<Rightarrow> kerr option io" where
  "deletePod K p = do { r \<leftarrow> removePod K (p_ns p) (p_name p); return_io (IgnoreNotFound r) }"

definition containerLogTail :: "kube \<Rightarrow> reconciler \<Rightarrow> pod \<Rightarrow> string io" where
  "containerLogTail K R p =
     (if \<not> r_hasClientset R then return_io []
      else do {
        r \<leftarrow> readLogs K (p_ns p) (p_name p);
        return_io (case r of None \<Rightarrow> [] | Some out \<Rightarrow> TrimSpace (take 2048 out))
      })"

definition failureDetail :: "kube \<Rightarrow> reconciler \<Rightarrow> job \<Rightarrow> string \<Rightarrow> (string \<times> int option) io" where
  "failureDetail K R j jobDetail = do {
     let parts = (if jobDetail \<noteq> [] then [jobDetail] else []);
     r \<leftarrow> podForJob K j;
     case r of
       Inr (Some p) \<Rightarrow> do {
         let m = podTerminationMessage p;
         let parts = parts @ (if m \<noteq> [] \<and> m \<noteq> ''pod failed'' then [m] else []) @
                     (case podExitCode p of Some n \<Rightarrow> [''exit code '' @ Itoa n] | None \<Rightarrow> []);
         tail \<leftarrow> containerLogTail K R p;
         return_io (Join (parts @ (if tail \<noteq> [] then [''last output: '' @ tail] else [])) ''; '', podExitCode p)
       }
     | _ \<Rightarrow> return_io (Join parts ''; '', None)
   }"

subsection \<open>Job mode\<close>

text \<open>
  \<open>ensureJob\<close> returns the Job, or none when a finished Job of another request is being deleted,
  and the object with the Job's name recorded.
\<close>

definition ensureJob :: "kube \<Rightarrow> ephemeralJob \<Rightarrow> ((kerr, job option) result \<times> ephemeralJob) io" where
  "ensureJob K ej = do {
     let name = jobNameFor ej;
     r \<leftarrow> getJob K (ej_ns ej) name;
     case r of
       Inr existing \<Rightarrow>
         if \<not> jobIsFinished existing then return_io (Inr (Some existing), ej)
         else if j_controller existing = Some (ej_uid ej) then return_io (Inr (Some existing), ej)
         else do {
           d \<leftarrow> removeJob K (j_ns existing) (j_name existing) Foreground;
           return_io (case IgnoreNotFound d of Some e \<Rightarrow> Inl e | None \<Rightarrow> Inr None, ej)
         }
     | Inl err \<Rightarrow>
         if \<not> IsNotFound err then return_io (Inl err, ej)
         else (case ResolvePlacement (sp_placementClass (ej_spec ej)) of
             None \<Rightarrow> return_io (Inl (KErr KOther (''unknown placement class '' @
                                 k_quote K (sp_placementClass (ej_spec ej)))), ej)
           | Some p \<Rightarrow> do {
               j \<leftarrow> buildJob K ej name p;
               case k_schemeErr K of
                 Some e \<Rightarrow> return_io (Inl e, ej)
               | None \<Rightarrow> do {
                   c \<leftarrow> createJob K (j\<lparr>j_controller := Some (ej_uid ej)\<rparr>);
                   case c of
                     Inr created \<Rightarrow> return_io (Inr (Some created), with_status (es_jobName_update (\<lambda>_. name)) ej)
                   | Inl e \<Rightarrow>
                       if err_kind e = KAlreadyExists then do {
                         g \<leftarrow> getJob K (ej_ns ej) name;
                         return_io (case g of Inl e \<Rightarrow> Inl e | Inr existing \<Rightarrow> Inr (Some existing), ej)
                       }
                       else return_io (Inl e, ej)
                 }
             })
   }"

text \<open>The last step of a pass that goes on: write the status, and come back in ten seconds.\<close>

definition write_and_requeue :: "kube \<Rightarrow> ephemeralJob \<Rightarrow> pass" where
  "write_and_requeue K ej = do {
     (e, _) \<leftarrow> updateStatus K ej;
     return_io (case e of
         Some e \<Rightarrow> if IsNotFound e then Inr no_requeue else Inl e
       | None \<Rightarrow> Inr (after defaultRequeue))
   }"

definition job_running :: "kube \<Rightarrow> ephemeralJob \<Rightarrow> job \<Rightarrow> capacity \<Rightarrow> pass" where
  "job_running K ej job cap =
     (case es_startTime (ej_status ej) of
        None \<Rightarrow> return_io (Inl nil_deref)
      | Some start \<Rightarrow> do {
          ran \<leftarrow> since K start;
          if ran > Seconds (sp_timeoutSeconds (ej_spec ej)) then do {
            d \<leftarrow> removeJob K (j_ns job) (j_name job) Background;
            case IgnoreNotFound d of
              Some e \<Rightarrow> return_io (Inl e)
            | None \<Rightarrow> ended (markFinished K (with_message (''workload ran '' @ k_duration K (TruncateSecond ran) @
                 '', exceeding its '' @ Itoa (sp_timeoutSeconds (ej_spec ej)) @ ''s execution budget'') ej) PhaseTimedOut None)
          }
          else write_and_requeue K (setPhase K ej PhaseRunning cap)
        })"

definition job_ready :: "kube \<Rightarrow> ephemeralJob \<Rightarrow> job \<Rightarrow> capacity \<Rightarrow> pass" where
  "job_ready K ej job cap =
     (case es_startTime (ej_status ej) of
        Some _ \<Rightarrow> job_running K ej job cap
      | None \<Rightarrow> do {
          at \<leftarrow> now K;
          (e, ej) \<leftarrow> updateStatus K (with_status (es_startTime_update (\<lambda>_. Some at)) ej);
          case e of
            Some e \<Rightarrow> return_io (if IsNotFound e then Inr no_requeue else Inl e)
          | None \<Rightarrow> job_running K ej job cap
        })"

definition job_unplaceable :: "kube \<Rightarrow> ephemeralJob \<Rightarrow> job \<Rightarrow> capacity \<Rightarrow> pass" where
  "job_unplaceable K ej job cap = do {
     r \<leftarrow> podForJob K job;
     d \<leftarrow> (case r of Inr (Some p) \<Rightarrow> deletePod K p | _ \<Rightarrow> return_io None);
     case d of
       Some e \<Rightarrow> return_io (Inl e)
     | None \<Rightarrow> ended (markFinished K (with_message (cap_message cap) ej) PhaseFailed None)
   }"

definition capacity_timeout_message :: "kube \<Rightarrow> int \<Rightarrow> int \<Rightarrow> capacity \<Rightarrow> string" where
  "capacity_timeout_message K waited limit cap =
     ''capacity wait deadline exceeded: waiting '' @ k_duration K (TruncateSecond waited) @
     '' for capacity, over '' @ Itoa limit @ ''s limit: '' @ cap_message cap"

definition capacity_timed_out :: "kube \<Rightarrow> ephemeralJob \<Rightarrow> string \<Rightarrow> kerr option io" where
  "capacity_timed_out K ej msg =
     markFinishedWithReason K
       (meta_SetStatusCondition K (with_message msg ej)
          \<lparr> cd_type = ConditionCapacity, cd_status = ''False'', cd_reason = ReasonCapacityTimeout,
            cd_message = msg, cd_generation = ej_generation ej \<rparr>)
       PhaseTimedOut ReasonCapacityTimeout None"

text \<open>The capacity wait bound: \<open>Some\<close> is the time waited when it is over the limit.\<close>

definition capacity_overdue :: "kube \<Rightarrow> ephemeralJob \<Rightarrow> (int \<times> int) option io" where
  "capacity_overdue K ej =
     (case sp_capacityWaitSeconds (ej_spec ej) of
        None \<Rightarrow> return_io None
      | Some limit \<Rightarrow>
          if limit > 0 then do {
            waited \<leftarrow> since K (ej_created ej);
            return_io (if waited > Seconds limit then Some (waited, limit) else None)
          } else return_io None)"

definition over_budget :: "kube \<Rightarrow> reconciler \<Rightarrow> ephemeralJob \<Rightarrow> capacity \<Rightarrow> ephemeralJob io" where
  "over_budget K R ej cap = do {
     waited \<leftarrow> since K (ej_created ej);
     return_io (if waited > r_provisioningBudget R
       then with_message (''waiting '' @ k_duration K (TruncateSecond waited) @ '' for burst capacity, over the '' @
              k_duration K (r_provisioningBudget R) @ '' budget for this placement class: '' @ cap_message cap) ej
       else ej)
   }"

definition job_provisioning :: "kube \<Rightarrow> reconciler \<Rightarrow> ephemeralJob \<Rightarrow> job \<Rightarrow> capacity \<Rightarrow> pass" where
  "job_provisioning K R ej job cap = do {
     let ej = setPhase K ej PhaseProvisioning cap;
     if cap_terminal cap then write_and_requeue K ej
     else do {
       r \<leftarrow> podForJob K job;
       (case r of
          Inr (Some p) \<Rightarrow>
            if podStartupBlocker K p \<noteq> [] then write_and_requeue K (with_message (podStartupBlocker K p) ej)
            else do { ej \<leftarrow> over_budget K R ej cap; write_and_requeue K ej }
        | _ \<Rightarrow> do { ej \<leftarrow> over_budget K R ej cap; write_and_requeue K ej })
     }
   }"

definition job_waiting :: "kube \<Rightarrow> reconciler \<Rightarrow> ephemeralJob \<Rightarrow> job \<Rightarrow> capacity \<Rightarrow> pass" where
  "job_waiting K R ej job cap = do {
     over \<leftarrow> capacity_overdue K ej;
     case over of
       Some (waited, limit) \<Rightarrow> do {
         d \<leftarrow> removeJob K (j_ns job) (j_name job) Background;
         case IgnoreNotFound d of
           Some e \<Rightarrow> return_io (Inl e)
         | None \<Rightarrow> ended (capacity_timed_out K ej (capacity_timeout_message K waited limit cap))
       }
     | None \<Rightarrow> job_provisioning K R ej job cap
   }"

definition job_done :: "kube \<Rightarrow> reconciler \<Rightarrow> ephemeralJob \<Rightarrow> job \<Rightarrow> phase \<Rightarrow> int option \<Rightarrow> string \<Rightarrow> pass" where
  "job_done K R ej job phase exit detail =
     (if phase = PhaseSucceeded then ended (markFinished K ej phase exit)
      else do {
        (d, code) \<leftarrow> failureDetail K R job detail;
        if d \<noteq> [] then ended (markFinished K (with_message d ej) phase (if exit = None then code else exit))
        else ended (markFinished K ej phase exit)
      })"

definition job_pass :: "kube \<Rightarrow> reconciler \<Rightarrow> ephemeralJob \<Rightarrow> job \<Rightarrow> pass" where
  "job_pass K R ej job =
     (case jobAdmissionRejected (Some job) of
        Some (reason, msg) \<Rightarrow>
          ended (markTerminal K ej PhaseFailed ReasonQuotaRejected (reason @ '': '' @ msg))
      | None \<Rightarrow> do {
          blocked \<leftarrow> jobPodCreationBlocked K (Some job);
          case blocked of
            Some (reason, msg) \<Rightarrow>
              ended (markTerminal K ej PhaseFailed ReasonQuotaRejected (reason @ '': '' @ msg))
          | None \<Rightarrow>
              (case jobFinished (Some job) of
                 Some (phase, exit, detail) \<Rightarrow> job_done K R ej job phase exit detail
               | None \<Rightarrow> do {
                   c \<leftarrow> AssessCapacity K (ej_ns ej) (j_name job);
                   case c of
                     Inl e \<Rightarrow> return_io (Inl e)
                   | Inr cap \<Rightarrow>
                       if cap_ready cap then job_ready K ej job cap
                       else if cap_reason cap = ReasonPlacementUnsatisfiable then job_unplaceable K ej job cap
                       else job_waiting K R ej job cap
                 })
        })"

text \<open>The lifetime bound of a mode: \<open>True\<close> when it is set and passed.\<close>

definition past_lifetime :: "kube \<Rightarrow> ephemeralJob \<Rightarrow> bool io" where
  "past_lifetime K ej =
     (if sp_maxLifetimeSeconds (ej_spec ej) > 0 then do {
        lived \<leftarrow> since K (ej_created ej);
        return_io (lived > Seconds (sp_maxLifetimeSeconds (ej_spec ej)))
      } else return_io False)"

definition reconcileJobMode :: "kube \<Rightarrow> reconciler \<Rightarrow> ephemeralJob \<Rightarrow> pass" where
  "reconcileJobMode K R ej = do {
     past \<leftarrow> past_lifetime K ej;
     if past then do {
       d \<leftarrow> deleteJob K ej;
       case d of
         Some e \<Rightarrow> return_io (Inl e)
       | None \<Rightarrow> ended (markFinished K (with_message (''reached the '' @ Itoa (sp_maxLifetimeSeconds (ej_spec ej)) @
                          ''s maximum lifetime without finishing'') ej) PhaseTimedOut None)
     }
     else do {
       (r, ej) \<leftarrow> ensureJob K ej;
       case r of
         Inl e \<Rightarrow>
           if jobRefusedAtAdmission e
             then ended (markFinishedWithReason K (with_message (err_text e) ej) PhaseFailed ReasonAdmissionRejected None)
           else return_io (Inl e)
       | Inr None \<Rightarrow> return_io (Inr (after defaultRequeue))
       | Inr (Some job) \<Rightarrow> job_pass K R ej job
     }
   }"

subsection \<open>Service mode\<close>

definition ensurePod :: "kube \<Rightarrow> ephemeralJob \<Rightarrow> string \<Rightarrow> placement \<Rightarrow> (kerr, pod) result io" where
  "ensurePod K ej name p = do {
     r \<leftarrow> listPods K (ej_ns ej) [(labelJobUID, ej_uid ej)];
     case r of
       Inl e \<Rightarrow> return_io (Inl e)
     | Inr pods \<Rightarrow>
         (case List.find (\<lambda>q. \<not> p_deleting q) pods of
            Some q \<Rightarrow> return_io (Inr q)
          | None \<Rightarrow> do {
              q \<leftarrow> buildPod K ej name p;
              case k_schemeErr K of
                Some e \<Rightarrow> return_io (Inl e)
              | None \<Rightarrow> createPod K (q\<lparr>p_controller := Some (ej_uid ej)\<rparr>)
            })
   }"

definition ensureService :: "kube \<Rightarrow> ephemeralJob \<Rightarrow> service_spec \<Rightarrow> string \<Rightarrow> kerr option io" where
  "ensureService K ej ss name = do {
     r \<leftarrow> getService K (ej_ns ej) name;
     case r of
       None \<Rightarrow> return_io None
     | Some err \<Rightarrow>
         if \<not> IsNotFound err then return_io (Some err)
         else (case k_schemeErr K of
             Some e \<Rightarrow> return_io (Some e)
           | None \<Rightarrow> do {
               c \<leftarrow> createService K ((buildService ej ss name)\<lparr>sv_controller := Some (ej_uid ej)\<rparr>);
               return_io (case c of
                   Some e \<Rightarrow> if err_kind e = KAlreadyExists then None else Some e
                 | None \<Rightarrow> None)
             })
   }"

text \<open>A conflict is a retry, not an error.\<close>

definition updateServiceStatus :: "kube \<Rightarrow> ephemeralJob \<Rightarrow> pass" where
  "updateServiceStatus K ej = do {
     (e, _) \<leftarrow> updateStatus K ej;
     return_io (case e of
         Some e \<Rightarrow> if err_kind e = KConflict then Inr \<lparr> rr_requeue = True, rr_requeueAfter = 0 \<rparr>
                   else if IsNotFound e then Inr no_requeue else Inl e
       | None \<Rightarrow> Inr no_requeue)
   }"

definition update_then :: "kube \<Rightarrow> ephemeralJob \<Rightarrow> rresult \<Rightarrow> pass" where
  "update_then K ej next = do {
     r \<leftarrow> updateServiceStatus K ej;
     return_io (case r of Inl e \<Rightarrow> Inl e | Inr res \<Rightarrow> if rr_requeue res then Inr res else Inr next)
   }"

definition service_expired :: "kube \<Rightarrow> ephemeralJob \<Rightarrow> pod \<Rightarrow> capacity \<Rightarrow> pass" where
  "service_expired K ej pod cap = do {
     d \<leftarrow> deletePod K pod;
     case d of
       Some e \<Rightarrow> return_io (Inl e)
     | None \<Rightarrow> do {
         let ej = with_message (''reached the '' @ Itoa (sp_maxLifetimeSeconds (ej_spec ej)) @ ''s maximum lifetime'') ej;
         let ej = (if meta_FindStatusCondition K ej ConditionCapacity = None
                   then meta_SetStatusCondition K ej
                     \<lparr> cd_type = ConditionCapacity, cd_status = ''False'', cd_reason = cap_reason cap,
                       cd_message = cap_message cap, cd_generation = ej_generation ej \<rparr>
                   else ej);
         ended (markFinished K ej PhaseSucceeded None)
       }
   }"

definition service_waiting :: "kube \<Rightarrow> reconciler \<Rightarrow> ephemeralJob \<Rightarrow> pod \<Rightarrow> capacity \<Rightarrow> pass" where
  "service_waiting K R ej pod cap = do {
     over \<leftarrow> capacity_overdue K ej;
     case over of
       Some (waited, limit) \<Rightarrow> do {
         d \<leftarrow> deletePod K pod;
         case d of
           Some e \<Rightarrow> return_io (Inl e)
         | None \<Rightarrow> ended (capacity_timed_out K ej (capacity_timeout_message K waited limit cap))
       }
     | None \<Rightarrow> do {
         ej \<leftarrow> over_budget K R (setPhase K ej PhaseProvisioning cap) cap;
         update_then K ej (after defaultRequeue)
       }
   }"

definition service_unready :: "kube \<Rightarrow> ephemeralJob \<Rightarrow> pod \<Rightarrow> capacity \<Rightarrow> pass" where
  "service_unready K ej pod cap =
     (case es_startTime (ej_status ej) of
        None \<Rightarrow> return_io (Inl nil_deref)
      | Some start \<Rightarrow> do {
          waited \<leftarrow> since K start;
          if waited > Seconds (sp_readinessDeadlineSeconds (ej_spec ej)) then do {
            d \<leftarrow> deletePod K pod;
            case d of
              Some e \<Rightarrow> return_io (Inl e)
            | None \<Rightarrow> ended (markFinished K (with_message (''workload did not become ready within '' @
                 Itoa (sp_readinessDeadlineSeconds (ej_spec ej)) @ ''s of starting'') ej) PhaseFailed None)
          }
          else do {
            let msg = (if podStartupBlocker K pod \<noteq> [] then podStartupBlocker K pod
                       else ''workload container is not ready'');
            update_then K
              (with_status (\<lambda>s. s\<lparr>es_message := msg, es_podName := p_name pod\<rparr>) (setPhase K ej PhaseProvisioning cap))
              (after defaultRequeue)
          }
        })"

text \<open>The idle clock, after the ready callback.\<close>

definition service_idle :: "kube \<Rightarrow> ephemeralJob \<Rightarrow> pod \<Rightarrow> capacity \<Rightarrow> pass" where
  "service_idle K ej pod cap =
     (case es_lastActivityTime (ej_status ej) of
        None \<Rightarrow> return_io (Inl nil_deref)
      | Some active \<Rightarrow> do {
          idle \<leftarrow> since K active;
          let budget = Seconds (sp_idleTimeoutSeconds (ej_spec ej));
          if idle > budget then do {
            d \<leftarrow> deletePod K pod;
            case d of
              Some e \<Rightarrow> return_io (Inl e)
            | None \<Rightarrow> ended (markFinished K (with_message (''idle for '' @ k_duration K (TruncateSecond idle) @
                 '', exceeding the '' @ Itoa (sp_idleTimeoutSeconds (ej_spec ej)) @ ''s idle budget'') ej) PhaseSucceeded None)
          }
          else do {
            let ej = with_status (\<lambda>s. s\<lparr>es_podName := p_name pod\<rparr>) (setPhase K ej PhaseRunning cap);
            let ej = (if sp_service (ej_spec ej) \<noteq> None
                      then with_status (es_serviceName_update (\<lambda>_. serviceNameFor ej)) ej else ej);
            update_then K ej (after (minDuration (wrap64 (budget - idle)) defaultRequeue))
          }
        })"

definition pod_replaced :: "kube \<Rightarrow> ephemeralJob \<Rightarrow> pod \<Rightarrow> ephemeralJob" where
  "pod_replaced K ej pod =
     (if es_podName (ej_status ej) \<noteq> p_name pod
      then meta_SetStatusCondition K ej
        \<lparr> cd_type = ConditionReadyNotified, cd_status = ''False'', cd_reason = ''PodReplaced'',
          cd_message = ''a new pod is serving; the caller is told again'', cd_generation = ej_generation ej \<rparr>
      else ej)"

definition service_serving :: "kube \<Rightarrow> ephemeralJob \<Rightarrow> pod \<Rightarrow> capacity \<Rightarrow> int \<Rightarrow> pass" where
  "service_serving K ej pod cap at = do {
     let ej = pod_replaced K ej pod;
     let ej = (if es_lastActivityTime (ej_status ej) = None
               then with_status (es_lastActivityTime_update (\<lambda>_. Some at)) ej else ej);
     (_, ej) \<leftarrow> fireLifecycleCallback K ej PhaseRunning None ConditionReadyNotified (readyEventID K ej (p_name pod));
     service_idle K ej pod cap
   }"

definition service_ready :: "kube \<Rightarrow> ephemeralJob \<Rightarrow> pod \<Rightarrow> capacity \<Rightarrow> pass" where
  "service_ready K ej pod cap = do {
     at \<leftarrow> now K;
     let ej = (if es_startTime (ej_status ej) = None
               then with_status (es_startTime_update (\<lambda>_. Some at)) ej else ej);
     if \<not> workloadReady pod then service_unready K ej pod cap
     else service_serving K ej pod cap at
   }"

definition service_pass :: "kube \<Rightarrow> reconciler \<Rightarrow> ephemeralJob \<Rightarrow> pod \<Rightarrow> pass" where
  "service_pass K R ej pod =
     (if p_phase pod = ''Failed''
        then ended (markFinished K (with_message (podTerminationMessage pod) ej) PhaseFailed (podExitCode pod))
      else if p_phase pod = ''Succeeded''
        then ended (markFinished K ej PhaseSucceeded (podExitCode pod))
      else do {
        c \<leftarrow> AssessCapacityBySelector K (ej_ns ej) [(labelJobUID, ej_uid ej)];
        case c of
          Inl e \<Rightarrow> return_io (Inl e)
        | Inr cap \<Rightarrow> do {
            past \<leftarrow> past_lifetime K ej;
            if past then service_expired K ej pod cap
            else if \<not> cap_ready cap then service_waiting K R ej pod cap
            else service_ready K ej pod cap
          }
      })"

definition reconcileServiceMode :: "kube \<Rightarrow> reconciler \<Rightarrow> ephemeralJob \<Rightarrow> pass" where
  "reconcileServiceMode K R ej =
     (case ResolvePlacement (sp_placementClass (ej_spec ej)) of
        None \<Rightarrow> return_io (Inl (KErr KOther (''unknown placement class '' @ k_quote K (sp_placementClass (ej_spec ej)))))
      | Some p \<Rightarrow> do {
          s \<leftarrow> (case sp_service (ej_spec ej) of
                  Some ss \<Rightarrow> ensureService K ej ss (serviceNameFor ej)
                | None \<Rightarrow> return_io None);
          case s of
            Some e \<Rightarrow> return_io (Inl e)
          | None \<Rightarrow> do {
              r \<leftarrow> ensurePod K ej (jobNameFor ej) p;
              case r of
                Inl e \<Rightarrow>
                  if jobRefusedAtAdmission e
                    then ended (markFinishedWithReason K (with_message (err_text e) ej) PhaseFailed
                                  ReasonAdmissionRejected None)
                  else return_io (Inl e)
              | Inr pod \<Rightarrow> service_pass K R ej pod
            }
        })"

subsection \<open>The pass\<close>

definition reconcile_live :: "kube \<Rightarrow> reconciler \<Rightarrow> ephemeralJob \<Rightarrow> pass" where
  "reconcile_live K R ej =
     (if sp_cancelled (ej_spec ej)
        then ended (markTerminal K ej PhaseCancelled ''Cancelled'' ''cancelled by the submitter'')
      else (case validateSpec ej of
        Some (reason, msg) \<Rightarrow> ended (markTerminal K ej PhaseFailed reason msg)
      | None \<Rightarrow> do {
          p \<leftarrow> reconcileSessionPeer K R ej;
          case p of
            PeerErr e \<Rightarrow> return_io (Inl e)
          | PeerInvalid reason msg \<Rightarrow> ended (markTerminal K ej PhaseFailed reason msg)
          | PeerOK \<Rightarrow> do {
              s \<leftarrow> reconcileStorageEgress K R ej;
              case s of
                Some e \<Rightarrow> return_io (Inl e)
              | None \<Rightarrow>
                  if sp_mode (ej_spec ej) = ModeService then reconcileServiceMode K R ej
                  else reconcileJobMode K R ej
            }
        }))"

definition Reconcile :: "kube \<Rightarrow> reconciler \<Rightarrow> string \<Rightarrow> string \<Rightarrow> pass" where
  "Reconcile K R ns name = do {
     r \<leftarrow> getEJ K ns name;
     case r of
       Inl e \<Rightarrow> return_io (if IsNotFound e then Inr no_requeue else Inl e)
     | Inr ej \<Rightarrow>
         if ej_deleting ej then return_io (Inr no_requeue)
         else if isTerminal (es_phase (ej_status ej)) then reconcileTTL K ej
         else reconcile_live K R ej
   }"

end
