(* ===== verification/Pass_Logic.thy ===== *)
theory Pass_Logic
  imports Reconciler
begin

text \<open>
  What the calls of a pass have in common, proved once. \<open>keeps P m\<close> says that \<open>m\<close> only extends
  the log, and by calls that satisfy \<open>P\<close> together. The locale \<open>pass_invariant\<close> is the interface
  between the shape of the reconciler and a property of its logs: a property \<open>N\<close> of the calls in
  the middle of a pass and a property \<open>S\<close> of a whole one, with what the writing fragments of the
  code must satisfy; its conclusion is that \<open>Reconcile\<close> satisfies \<open>S\<close>.
\<close>

definition keeps :: "(log \<Rightarrow> bool) \<Rightarrow> 'a io \<Rightarrow> bool" where
  "keeps P m \<longleftrightarrow> (\<forall>h. \<exists>x new. run_state m h = (x, h @ new) \<and> P new)"

named_theorems keep \<open>rules for \<open>keeps\<close>\<close>

lemma keepsI: "(\<And>h. \<exists>x new. run_state m h = (x, h @ new) \<and> P new) \<Longrightarrow> keeps P m"
  by (simp add: keeps_def)

lemma keepsE:
  assumes "keeps P m"
  obtains x new where "run_state m h = (x, h @ new)" and "P new"
  using assms unfolding keeps_def by meson

lemma keeps_mono: "keeps P m \<Longrightarrow> (\<And>new. P new \<Longrightarrow> Q new) \<Longrightarrow> keeps Q m"
  unfolding keeps_def by meson

lemma keeps_conj: "keeps P m \<Longrightarrow> keeps Q m \<Longrightarrow> keeps (\<lambda>new. P new \<and> Q new) m"
  unfolding keeps_def by (metis Pair_inject append_same_eq same_append_eq)

lemma keeps_call: "(\<And>r. P [f r]) \<Longrightarrow> keeps P (call ask f)"
  by (auto simp: keeps_def)

lemma keeps_return: "P [] \<Longrightarrow> keeps P (return_io x)"
  by (auto simp: keeps_def)

lemma keeps_seq:
  assumes "keeps P m" and "\<And>x. keeps Q (f x)" and "\<And>a b. P a \<Longrightarrow> Q b \<Longrightarrow> T (a @ b)"
  shows "keeps T (m \<bind> f)"
proof (rule keepsI)
  fix h
  obtain x a where a: "run_state m h = (x, h @ a)" "P a"
    using assms(1) by (rule keepsE)
  obtain y b where b: "run_state (f x) (h @ a) = (y, (h @ a) @ b)" "Q b"
    using assms(2) by (rule keepsE)
  show "\<exists>x new. run_state (m \<bind> f) h = (x, h @ new) \<and> T new"
    using a b assms(3) by (intro exI [of _ y] exI [of _ "a @ b"]) simp
qed

text \<open>The rules for the branches of the code keep the equation of the branch.\<close>

lemma keeps_sum [keep]:
  "(\<And>e. r = Inl e \<Longrightarrow> keeps P (f e)) \<Longrightarrow> (\<And>x. r = Inr x \<Longrightarrow> keeps P (g x)) \<Longrightarrow>
   keeps P (case r of Inl e \<Rightarrow> f e | Inr x \<Rightarrow> g x)"
  by (cases r) auto

lemma keeps_option [keep]:
  "(r = None \<Longrightarrow> keeps P f) \<Longrightarrow> (\<And>x. r = Some x \<Longrightarrow> keeps P (g x)) \<Longrightarrow>
   keeps P (case r of None \<Rightarrow> f | Some x \<Rightarrow> g x)"
  by (cases r) auto

lemma keeps_prod [keep]: "(\<And>x y. r = (x, y) \<Longrightarrow> keeps P (f x y)) \<Longrightarrow> keeps P (case r of (x, y) \<Rightarrow> f x y)"
  by (cases r) auto

lemma keeps_list [keep]:
  "(r = [] \<Longrightarrow> keeps P f) \<Longrightarrow> (\<And>x xs. r = x # xs \<Longrightarrow> keeps P (g x xs)) \<Longrightarrow>
   keeps P (case r of [] \<Rightarrow> f | x # xs \<Rightarrow> g x xs)"
  by (cases r) auto

lemma keeps_peer [keep]:
  "(r = PeerOK \<Longrightarrow> keeps P f) \<Longrightarrow> (\<And>x y. r = PeerInvalid x y \<Longrightarrow> keeps P (g x y)) \<Longrightarrow>
   (\<And>e. r = PeerErr e \<Longrightarrow> keeps P (k e)) \<Longrightarrow>
   keeps P (case r of PeerOK \<Rightarrow> f | PeerInvalid x y \<Rightarrow> g x y | PeerErr e \<Rightarrow> k e)"
  by (cases r) auto

lemma keeps_if [keep]: "(b \<Longrightarrow> keeps P f) \<Longrightarrow> (\<not> b \<Longrightarrow> keeps P g) \<Longrightarrow> keeps P (if b then f else g)"
  by simp

lemma keeps_Let [keep]: "(\<And>x. x = v \<Longrightarrow> keeps P (f x)) \<Longrightarrow> keeps P (let x = v in f x)"
  by simp

subsection \<open>Invariants of the calls in the middle of a pass\<close>

text \<open>A call that changes nothing outside the operator.\<close>

fun is_read :: "event \<Rightarrow> bool" where
  "is_read Clock = True"
| "is_read (GetEJ _ _) = True"
| "is_read (GetJob _ _) = True"
| "is_read (GetService _ _) = True"
| "is_read (GetNamespace _) = True"
| "is_read (GetConfigMap _ _) = True"
| "is_read (GetPolicy _ _) = True"
| "is_read (ListPods _ _) = True"
| "is_read (ListEvents _ _ _) = True"
| "is_read ListNodes = True"
| "is_read (ReadLogs _ _) = True"
| "is_read _ = False"

locale log_invariant =
  fixes N :: "log \<Rightarrow> bool"
  assumes nil: "N []"
    and append: "N a \<Longrightarrow> N b \<Longrightarrow> N (a @ b)"
    and read: "is_read e \<Longrightarrow> N [e]"
begin

lemma keeps_bind [keep]: "keeps N m \<Longrightarrow> (\<And>x. keeps N (f x)) \<Longrightarrow> keeps N (m \<bind> f)"
  by (rule keeps_seq [where P = N and Q = N]) (assumption+, rule append)

lemma keeps_pure [keep]: "keeps N (return_io x)"
  by (rule keeps_return) (rule nil)

lemma keeps_reads [keep]:
  "keeps N (now K)" "keeps N (getEJ K ns n)" "keeps N (getJob K ns n)" "keeps N (getService K ns n)"
  "keeps N (getNamespace K n)" "keeps N (getConfigMap K ns n)" "keeps N (getPolicy K ns n)"
  "keeps N (listPods K ns sel)" "keeps N (listEvents K ns f v)" "keeps N (listNodes K)"
  "keeps N (readLogs K ns n)"
  by (auto simp: io_defs intro!: keeps_call read)

lemma keeps_since [keep]: "keeps N (since K t)"
  unfolding since_def by (intro keep)

lemma keeps_fleet [keep]: "keeps N (resolveFleetID K ns)"
  unfolding resolveFleetID_def by (intro keep)

lemma keeps_buildPodSpec [keep]: "keeps N (buildPodSpec K ej p c)"
  unfolding buildPodSpec_def by (intro keep)

lemma keeps_buildJob [keep]: "keeps N (buildJob K ej n p)"
  unfolding buildJob_def by (intro keep)

lemma keeps_buildPod [keep]: "keeps N (buildPod K ej n p)"
  unfolding buildPod_def by (intro keep)

lemma keeps_blocked [keep]: "keeps N (jobPodCreationBlocked K j)"
  unfolding jobPodCreationBlocked_def by (intro keep)

lemma keeps_noNode [keep]: "keeps N (noNodeMatchesSelector K p)"
  unfolding noNodeMatchesSelector_def by (intro keep)

lemma keeps_assess [keep]: "keeps N (AssessCapacityBySelector K ns sel)" "keeps N (AssessCapacity K ns n)"
  unfolding AssessCapacity_def AssessCapacityBySelector_def by (intro keep)+

lemma keeps_storageHost [keep]: "keeps N (sessionStorageHost K ns)"
  unfolding sessionStorageHost_def by (intro keep)

lemma keeps_podForJob [keep]: "keeps N (podForJob K j)"
  unfolding podForJob_def by (intro keep)

lemma keeps_logTail [keep]: "keeps N (containerLogTail K R p)"
  unfolding containerLogTail_def by (intro keep)

lemma keeps_failureDetail [keep]: "keeps N (failureDetail K R j d)"
  unfolding failureDetail_def by (intro keep)

lemma keeps_overdue [keep]: "keeps N (capacity_overdue K ej)"
  unfolding capacity_overdue_def by (intro keep)

lemma keeps_over_budget [keep]: "keeps N (over_budget K R ej cap)"
  unfolding over_budget_def by (intro keep)

lemma keeps_past_lifetime [keep]: "keeps N (past_lifetime K ej)"
  unfolding past_lifetime_def by (intro keep)

end

subsection \<open>Invariants of a whole pass\<close>

lemma finished_by_terminal: "finished_by cs = Some (p, x, d) \<Longrightarrow> isTerminal p"
  by (induction cs rule: finished_by.induct) (auto simp: isTerminal_def split: if_splits)

lemma jobFinished_terminal: "jobFinished j = Some (p, x, d) \<Longrightarrow> isTerminal p"
  by (auto simp: jobFinished_def split: option.splits dest: finished_by_terminal)

locale pass_invariant = log_invariant +
  fixes S :: "log \<Rightarrow> bool" and K :: kube
  assumes whole: "N a \<Longrightarrow> S a"
    and tail: "N a \<Longrightarrow> S b \<Longrightarrow> S (a @ b)"
    and create: "N [CreateJob j cj]" "N [CreatePod p cp]" "N [CreateService s cs]" "N [CreatePolicy q cq]"
      "N [UpdatePolicy q cq]"
    and delete: "N [DeleteJob ns n pol d]" "N [DeletePod ns n d]" "N [DeleteEJ ns n d]"
    and status: "keeps N (updateStatus K ej)"
    and ready: "keeps N (fireLifecycleCallback K ej PhaseRunning None ConditionReadyNotified eid)"
    and finish: "isTerminal ph \<Longrightarrow> keeps S (markFinishedWithReason K ej ph reason exit)"
    and refuse: "ph \<in> {PhaseFailed, PhaseCancelled} \<Longrightarrow> keeps S (markTerminal K ej ph reason msg)"
begin

lemma keeps_tail: "keeps N m \<Longrightarrow> (\<And>x. keeps S (f x)) \<Longrightarrow> keeps S (m \<bind> f)"
  by (rule keeps_seq [where P = N and Q = S]) (assumption+, rule tail)

lemma keeps_whole: "keeps N m \<Longrightarrow> keeps S m"
  by (rule keeps_mono) (assumption, rule whole)

lemma keeps_stop: "keeps S (return_io x)"
  by (rule keeps_whole) (rule keeps_pure)

lemma keeps_ended: "keeps S m \<Longrightarrow> keeps S (ended m)"
proof (rule keepsI)
  fix h
  assume "keeps S m"
  then obtain x new where "run_state m h = (x, h @ new)" "S new"
    by (rule keepsE)
  then show "\<exists>x new. run_state (ended m) h = (x, h @ new) \<and> S new"
    by (simp add: ended_def)
qed

lemma keeps_writes [keep]:
  "keeps N (createJob K j)" "keeps N (createPod K p)" "keeps N (createService K s)"
  "keeps N (createPolicy K q)" "keeps N (updatePolicy K q)" "keeps N (removeJob K ns n pol)"
  "keeps N (removePod K ns n)" "keeps N (removeEJ K ns n)" "keeps N (updateStatus K ej)"
  using status
  by (auto simp: createJob_def createPod_def createService_def createPolicy_def updatePolicy_def
      removeJob_def removePod_def removeEJ_def intro!: keeps_call create delete)

lemma keeps_deletes [keep]: "keeps N (deleteJob K ej)" "keeps N (deletePod K p)"
  unfolding deleteJob_def deletePod_def by (intro keep)+

lemma keeps_ensure [keep]:
  "keeps N (ensureJob K ej)" "keeps N (ensurePod K ej n p)" "keeps N (ensureService K ej ss n)"
  unfolding ensureJob_def ensurePod_def ensureService_def by (intro keep)+

lemma keeps_applyPolicy [keep]: "keeps N (applyPolicy K q)"
  unfolding applyPolicy_def by (intro keep)

lemma keeps_policies [keep]: "keeps N (apply_policies K ej qs)"
  by (induction qs) (auto intro!: keep)

lemma keeps_peer_storage [keep]:
  "keeps N (reconcileSessionPeer K R ej)" "keeps N (reconcileStorageEgress K R ej)"
  unfolding reconcileSessionPeer_def reconcileStorageEgress_def by (intro keep)+

lemma keeps_updates [keep]:
  "keeps N (write_and_requeue K ej)" "keeps N (updateServiceStatus K ej)" "keeps N (update_then K ej res)"
  unfolding write_and_requeue_def updateServiceStatus_def update_then_def by (intro keep)+

lemma keeps_finished: "isTerminal ph \<Longrightarrow> keeps S (markFinished K ej ph exit)"
  unfolding markFinished_def by (rule finish)

lemma keeps_timed_out: "keeps S (capacity_timed_out K ej msg)"
  unfolding capacity_timed_out_def by (rule finish) (simp add: isTerminal_def)

lemmas tails = keeps_sum keeps_option keeps_prod keeps_list keeps_peer keeps_if keeps_Let
  keeps_tail keeps_stop keeps_ended keeps_finished keeps_timed_out finish refuse

lemma keeps_job_running: "keeps S (job_running K ej job cap)"
  unfolding job_running_def by (intro tails keep keeps_whole) (simp add: isTerminal_def)

lemma keeps_job_ready: "keeps S (job_ready K ej job cap)"
  unfolding job_ready_def by (intro tails keep keeps_job_running)

lemma keeps_job_unplaceable: "keeps S (job_unplaceable K ej job cap)"
  unfolding job_unplaceable_def by (intro tails keep) (simp add: isTerminal_def)

lemma keeps_job_provisioning: "keeps N (job_provisioning K R ej job cap)"
  unfolding job_provisioning_def by (intro keep)

lemma keeps_job_waiting: "keeps S (job_waiting K R ej job cap)"
  unfolding job_waiting_def by (intro tails keep keeps_whole [OF keeps_job_provisioning])

lemma keeps_job_done: "isTerminal ph \<Longrightarrow> keeps S (job_done K R ej job ph exit d)"
  unfolding job_done_def by (intro tails keep)

lemma keeps_job_pass: "keeps S (job_pass K R ej job)"
  unfolding job_pass_def
  by (intro tails keep keeps_job_done keeps_job_ready keeps_job_unplaceable keeps_job_waiting)
    (auto dest: jobFinished_terminal)

lemma keeps_reconcileJobMode: "keeps S (reconcileJobMode K R ej)"
  unfolding reconcileJobMode_def by (intro tails keep keeps_job_pass) (simp_all add: isTerminal_def)

lemma keeps_service_expired: "keeps S (service_expired K ej pod cap)"
  unfolding service_expired_def by (intro tails keep) (simp add: isTerminal_def)

lemma keeps_service_waiting: "keeps S (service_waiting K R ej pod cap)"
  unfolding service_waiting_def by (intro tails keep keeps_whole [OF keeps_updates(3)])

lemma keeps_service_unready: "keeps S (service_unready K ej pod cap)"
  unfolding service_unready_def
  by (intro tails keep keeps_whole [OF keeps_updates(3)]) (simp add: isTerminal_def)

lemma keeps_service_idle: "keeps S (service_idle K ej pod cap)"
  unfolding service_idle_def
  by (intro tails keep keeps_whole [OF keeps_updates(3)]) (simp add: isTerminal_def)

lemma keeps_service_ready: "keeps S (service_ready K ej pod cap)"
  unfolding service_ready_def service_serving_def
  by (intro tails keep ready keeps_service_unready keeps_service_idle)

lemma keeps_service_pass: "keeps S (service_pass K R ej pod)"
  unfolding service_pass_def
  by (intro tails keep keeps_service_expired keeps_service_waiting keeps_service_ready) (simp_all add: isTerminal_def)

lemma keeps_reconcileServiceMode: "keeps S (reconcileServiceMode K R ej)"
  unfolding reconcileServiceMode_def
  by (intro tails keep keeps_service_pass) (simp_all add: isTerminal_def)

lemma keeps_reconcileTTL: "keeps N (reconcileTTL K ej)"
  unfolding reconcileTTL_def ended_def by (intro keep)

lemma keeps_reconcile_live: "keeps S (reconcile_live K R ej)"
  unfolding reconcile_live_def
  by (intro tails keep keeps_reconcileServiceMode keeps_reconcileJobMode) simp_all

lemma keeps_Reconcile: "keeps S (Reconcile K R ns name)"
  unfolding Reconcile_def
  by (intro tails keep keeps_whole [OF keeps_reconcileTTL] keeps_reconcile_live)

end

end
