(* ===== verification/Demo_Cluster.thy ===== *)
theory Demo_Cluster
  imports Reconciler
begin

text \<open>
  A concrete cluster: one request, a condition list kept as an association list, an API server
  that stores what it is sent, a receiver that answers 200. It shows that the hypotheses of the
  operator's properties can hold, and the properties are evaluated on it.
\<close>

fun list_setCondition :: "condition list \<Rightarrow> condition \<Rightarrow> condition list" where
  "list_setCondition [] c = [c]"
| "list_setCondition (d # cs) c = (if cd_type d = cd_type c then c # cs else d # list_setCondition cs c)"

definition list_findCondition :: "condition list \<Rightarrow> string \<Rightarrow> condition option" where
  "list_findCondition cs t = List.find (\<lambda>d. cd_type d = t) cs"

definition demo_spec :: ej_spec where
  "demo_spec =
     \<lparr> sp_image = ''img'', sp_command = [], sp_args = [], sp_env = [(''A'', ''1'')], sp_identityToken = None,
       sp_resources = None, sp_input = None, sp_output = None, sp_callbackURL = ''http://cb'',
       sp_timeoutSeconds = 600, sp_capacityWaitSeconds = None, sp_ttlSecondsAfterFinished = 3600,
       sp_placementClass = ''burst'', sp_mode = ModeJob, sp_ports = [], sp_workingDir = [],
       sp_readinessProbe = None, sp_livenessProbe = None, sp_imagePullPolicy = [], sp_sidecars = [],
       sp_volumes = [], sp_volumeMounts = [], sp_imagePullSecrets = [], sp_service = None,
       sp_idleTimeoutSeconds = 0, sp_readinessDeadlineSeconds = 300, sp_maxLifetimeSeconds = 100,
       sp_terminationGracePeriodSeconds = None, sp_requestID = [], sp_cancelled = False,
       sp_workspacePersistence = None, sp_isolation = IsolationDefault, sp_peer = None \<rparr>"

definition demo_status :: ej_status where
  "demo_status =
     \<lparr> es_phase = PhaseUnset, es_conditions = [], es_terminalEventID = [], es_jobName = [], es_podName = [],
       es_serviceName = [], es_lastActivityTime = None, es_startTime = None, es_completionTime = None,
       es_exitCode = None, es_message = [], es_observedGeneration = 0 \<rparr>"

definition demo_ej :: ephemeralJob where
  "demo_ej =
     \<lparr> ej_name = ''r1'', ej_ns = ''tenant-t'', ej_uid = ''u1'', ej_generation = 1, ej_labels = [], ej_created = 0,
       ej_deleting = False, ej_spec = demo_spec, ej_status = demo_status \<rparr>"

abbreviation "not_found \<equiv> KErr KNotFound ''not found''"

definition demo_kube :: "ephemeralJob \<Rightarrow> int \<Rightarrow> kube" where
  "demo_kube ej t =
     \<lparr> k_env = (\<lambda>_. []), k_sha256 = (\<lambda>s. s), k_outputJSON = Some, k_quote = (\<lambda>s. s), k_duration = Itoa,
       k_quantity = (\<lambda>s. int (length s)), k_hostname = Some,
       k_setCondition = list_setCondition, k_findCondition = list_findCondition,
       k_isTrue = (\<lambda>cs t. case list_findCondition cs t of Some c \<Rightarrow> cd_status c = ''True'' | None \<Rightarrow> False),
       k_schemeErr = None, k_payloadOK = (\<lambda>_. True), k_urlOK = (\<lambda>_. True),
       k_now = (\<lambda>_. t),
       k_getEJ = (\<lambda>_ _ _. Inr ej), k_getJob = (\<lambda>_ _ _. Inl not_found), k_getService = (\<lambda>_ _ _. Some not_found),
       k_getNamespace = (\<lambda>_ _. Inr [(''app-id'', ''App'')]),
       k_getConfigMap = (\<lambda>_ _ _. Inr [(''S3_ENDPOINT_URL'', ''s3.host'')]),
       k_getPolicy = (\<lambda>_ _ _. Inl not_found), k_listPods = (\<lambda>_ _ _. Inr []), k_listEvents = (\<lambda>_ _ _ _. Inr []),
       k_listNodes = (\<lambda>_. Inr []), k_readLogs = (\<lambda>_ _ _. None),
       k_createJob = (\<lambda>_ j. Inr j), k_createPod = (\<lambda>_ p. Inr p), k_createService = (\<lambda>_ _. None),
       k_createPolicy = (\<lambda>_ _. None), k_updatePolicy = (\<lambda>_ _. None), k_deleteJob = (\<lambda>_ _ _. None),
       k_deletePod = (\<lambda>_ _ _. None), k_deleteEJ = (\<lambda>_ _ _. None), k_updateStatus = (\<lambda>_ e. Inr e),
       k_post = (\<lambda>_ _ _. Inr 200) \<rparr>"

definition demo_reconciler :: reconciler where
  "demo_reconciler = \<lparr> r_provisioningBudget = 300 * 10 ^ 9, r_networkPolicy = NetworkPolicyCilium, r_hasClientset = False \<rparr>"

lemma list_find_set: "list_findCondition (list_setCondition cs c) t =
    (if t = cd_type c then Some c else list_findCondition cs t)"
  by (induction cs) (auto simp: list_findCondition_def)

lemma demo_ej_simps [simp]:
  "ej_name demo_ej = ''r1''" "ej_ns demo_ej = ''tenant-t''" "ej_uid demo_ej = ''u1''" "ej_generation demo_ej = 1"
  "ej_labels demo_ej = []" "ej_created demo_ej = 0" "\<not> ej_deleting demo_ej" "ej_spec demo_ej = demo_spec"
  "ej_status demo_ej = demo_status"
  by (simp_all add: demo_ej_def)

lemma demo_kube_simps [simp]:
  "k_env (demo_kube ej t) x = []"
  "k_sha256 (demo_kube ej t) x = x"
  "k_outputJSON (demo_kube ej t) x = Some x"
  "k_quote (demo_kube ej t) x = x"
  "k_duration (demo_kube ej t) n = Itoa n"
  "k_quantity (demo_kube ej t) x = int (length x)"
  "k_hostname (demo_kube ej t) x = Some x"
  "k_setCondition (demo_kube ej t) cs c = list_setCondition cs c"
  "k_findCondition (demo_kube ej t) cs x = list_findCondition cs x"
  "k_isTrue (demo_kube ej t) cs x = (case list_findCondition cs x of Some c \<Rightarrow> cd_status c = ''True'' | None \<Rightarrow> False)"
  "k_schemeErr (demo_kube ej t) = None"
  "k_payloadOK (demo_kube ej t) p"
  "k_urlOK (demo_kube ej t) x"
  "k_now (demo_kube ej t) h = t"
  "k_getEJ (demo_kube ej t) h x y = Inr ej"
  "k_getJob (demo_kube ej t) h x y = Inl not_found"
  "k_getService (demo_kube ej t) h x y = Some not_found"
  "k_getNamespace (demo_kube ej t) h x = Inr [(''app-id'', ''App'')]"
  "k_getConfigMap (demo_kube ej t) h x y = Inr [(''S3_ENDPOINT_URL'', ''s3.host'')]"
  "k_getPolicy (demo_kube ej t) h x y = Inl not_found"
  "k_listPods (demo_kube ej t) h x sel = Inr []"
  "k_listEvents (demo_kube ej t) h x y z = Inr []"
  "k_listNodes (demo_kube ej t) h = Inr []"
  "k_readLogs (demo_kube ej t) h x y = None"
  "k_createJob (demo_kube ej t) h j = Inr j"
  "k_createPod (demo_kube ej t) h q = Inr q"
  "k_createService (demo_kube ej t) h s = None"
  "k_createPolicy (demo_kube ej t) h pol = None"
  "k_updatePolicy (demo_kube ej t) h pol = None"
  "k_deleteJob (demo_kube ej t) h x y = None"
  "k_deletePod (demo_kube ej t) h x y = None"
  "k_deleteEJ (demo_kube ej t) h x y = None"
  "k_updateStatus (demo_kube ej t) h e = Inr e"
  "k_post (demo_kube ej t) h x pl = Inr 200"
  by (simp_all add: demo_kube_def)

lemma demo_conditions_ok: "conditions_ok (demo_kube ej t)"
  by (simp add: conditions_ok_def demo_kube_def list_find_set)

end
