(* ===== verification/Lifecycle.thy ===== *)
theory Lifecycle
  imports Pass_Logic Demo_Cluster
begin

text \<open>
  The life of an \<^verbatim>\<open>EphemeralJob\<close> over many passes: a terminal status is recorded before the caller
  is told, a terminal phase is final, the caller is told of an ending at most once, and a job past
  its lifetime is ended.
\<close>

subsection \<open>Logs\<close>

fun terminal_post :: "event \<Rightarrow> bool" where
  "terminal_post (Post url p r) = isTerminal (pl_status p)"
| "terminal_post _ = False"

text \<open>The object a status update leaves the operator with; none when the write was refused.\<close>

fun settled :: "ephemeralJob \<Rightarrow> (kerr, ephemeralJob) result \<Rightarrow> ephemeralJob option" where
  "settled e (Inr e') = Some e'"
| "settled e (Inl err) = (if IsNotFound err then Some e else None)"

text \<open>
  A terminal callback is \<open>backed\<close> by a log when a status with its phase and a completion time was
  written before, and the callback carries the event id of the object that write gave.
\<close>

definition backed :: "kube \<Rightarrow> log \<Rightarrow> payload \<Rightarrow> bool" where
  "backed K pre p \<longleftrightarrow>
     (\<exists>e r e'. UpdateStatus e r \<in> set pre \<and> settled e r = Some e' \<and>
        es_phase (ej_status e) = pl_status p \<and> es_completionTime (ej_status e) \<noteq> None \<and>
        es_terminalEventID (ej_status e) = terminalEventID K e (pl_status p) \<and>
        pl_terminalEventId p = terminalEventID K e' (pl_status p) \<and>
        pl_uid p = ej_uid e' \<and> pl_jobId p = ej_name e')"

definition callbacks_backed :: "kube \<Rightarrow> log \<Rightarrow> bool" where
  "callbacks_backed K log \<longleftrightarrow>
     (\<forall>pre url p r post. log = pre @ Post url p r # post \<and> isTerminal (pl_status p) \<longrightarrow> backed K pre p)"

lemma backed_mono: "backed K pre p \<Longrightarrow> set pre \<subseteq> set pre' \<Longrightarrow> backed K pre' p"
  unfolding backed_def by blast

lemma callbacks_backed_append:
  assumes "callbacks_backed K a" and "callbacks_backed K b"
  shows "callbacks_backed K (a @ b)"
  unfolding callbacks_backed_def
proof (intro allI impI, elim conjE)
  fix pre url p r post
  assume eq: "a @ b = pre @ Post url p r # post" and t: "isTerminal (pl_status p)"
  then consider (left) u us where "a = pre @ u # us" "u # us @ b = Post url p r # post"
    | (right) us where "pre = a @ us" "b = us @ Post url p r # post"
    by (auto simp: append_eq_append_conv2 append_eq_Cons_conv Cons_eq_append_conv)
  then show "backed K pre p"
  proof cases
    case left
    then have "a = pre @ Post url p r # us" by simp
    with t show ?thesis using assms(1) unfolding callbacks_backed_def by blast
  next
    case right
    with t have "backed K us p" using assms(2) unfolding callbacks_backed_def by blast
    with right show ?thesis by (auto intro: backed_mono)
  qed
qed

lemma callbacks_backed_none:
  assumes "\<And>e. e \<in> set log \<Longrightarrow> \<not> terminal_post e"
  shows "callbacks_backed K log"
proof -
  have "\<not> isTerminal (pl_status p)" if "log = pre @ Post url p r # post" for pre url p r post
    using assms [of "Post url p r"] that by simp
  then show ?thesis unfolding callbacks_backed_def by blast
qed

subsection \<open>The logs of a callback and of an ending\<close>

text \<open>What one lifecycle callback adds to the log: nothing, a stamp, a post, or a post and its gate.\<close>

definition callback_log :: "kube \<Rightarrow> ephemeralJob \<Rightarrow> phase \<Rightarrow> int option \<Rightarrow> string \<Rightarrow> string \<Rightarrow> log \<Rightarrow> bool" where
  "callback_log K ej ph exit gate eid rest \<longleftrightarrow>
     rest = [] \<or> rest = [Clock] \<or>
     (\<exists>at r. rest = [Clock, Post (sp_callbackURL (ej_spec ej)) (callback_payload K ej ph exit eid at) r]) \<or>
     (\<exists>at code r. rest = [Clock, Post (sp_callbackURL (ej_spec ej)) (callback_payload K ej ph exit eid at) (Inr code),
                          UpdateStatus (delivered K ej ph gate code) r])"

lemma lifecycle_log:
  "keeps (callback_log K ej ph exit gate eid) (fireLifecycleCallback K ej ph exit gate eid)"
  by (rule keepsI)
    (auto simp: fireLifecycleCallback_def io_defs Let_def callback_log_def split: sum.splits)

lemma terminalEventID_kept [simp]:
  "terminalEventID K (finished_as K ej ph reason exit at) q = terminalEventID K ej q"
  "terminalEventID K (delivered K ej ph gate code) q = terminalEventID K ej q"
  by (simp_all add: terminalEventID_def terminal_preimage_def finished_as_def delivered_def
      meta_SetStatusCondition_def)

lemma finished_as_status [simp]:
  "es_phase (ej_status (finished_as K ej ph reason exit at)) = ph"
  "es_completionTime (ej_status (finished_as K ej ph reason exit at)) = Some at"
  "es_terminalEventID (ej_status (finished_as K ej ph reason exit at)) = terminalEventID K ej ph"
  "ej_spec (finished_as K ej ph reason exit at) = ej_spec ej"
  "es_conditions (ej_status (finished_as K ej ph reason exit at)) = k_setCondition K (es_conditions (ej_status ej))
     \<lparr> cd_type = ConditionComplete, cd_status = (if ph \<noteq> PhaseSucceeded then ''False'' else ''True''),
       cd_reason = reason, cd_message = es_message (ej_status ej), cd_generation = ej_generation ej \<rparr>"
  by (simp_all add: finished_as_def meta_SetStatusCondition_def)

text \<open>An ending writes the status; only when that was stored does the callback follow.\<close>

definition finish_log :: "kube \<Rightarrow> ephemeralJob \<Rightarrow> phase \<Rightarrow> string \<Rightarrow> int option \<Rightarrow> log \<Rightarrow> bool" where
  "finish_log K ej ph reason exit new \<longleftrightarrow>
     (\<exists>at r rest. new = Clock # UpdateStatus (finished_as K ej ph reason exit at) r # rest \<and>
        (case settled (finished_as K ej ph reason exit at) r of
           None \<Rightarrow> rest = []
         | Some e' \<Rightarrow> callback_log K e' ph exit ConditionCallbackDelivered (terminalEventID K e' ph) rest))"

lemma markFinished_run:
  fixes K ej ph reason exit h
  defines "e \<equiv> finished_as K ej ph reason exit (k_now K h)"
  defines "r \<equiv> k_updateStatus K (h @ [Clock]) e"
  shows "run_state (markFinishedWithReason K ej ph reason exit) h =
      (case settled e r of
         None \<Rightarrow> (Some (projl r), h @ [Clock, UpdateStatus e r])
       | Some e' \<Rightarrow> run_state (fireCallback K e' ph exit) (h @ [Clock, UpdateStatus e r]))"
  by (cases r) (auto simp: markFinishedWithReason_def now_def updateStatus_def IgnoreNotFound_def
      e_def [symmetric] r_def [symmetric])

lemma fireCallback_log:
  "keeps (callback_log K ej ph exit ConditionCallbackDelivered (terminalEventID K ej ph)) (fireCallback K ej ph exit)"
proof (rule keepsI)
  fix h
  obtain x rest where "run_state (fireLifecycleCallback K ej ph exit ConditionCallbackDelivered
        (terminalEventID K ej ph)) h = (x, h @ rest)"
      "callback_log K ej ph exit ConditionCallbackDelivered (terminalEventID K ej ph) rest"
    by (rule keepsE [OF lifecycle_log])
  then show "\<exists>x new. run_state (fireCallback K ej ph exit) h = (x, h @ new) \<and>
      callback_log K ej ph exit ConditionCallbackDelivered (terminalEventID K ej ph) new"
    by (simp add: fireCallback_def case_prod_unfold)
qed

lemma markFinished_log: "keeps (finish_log K ej ph reason exit) (markFinishedWithReason K ej ph reason exit)"
proof (rule keepsI)
  fix h
  let ?e = "finished_as K ej ph reason exit (k_now K h)"
  let ?r = "k_updateStatus K (h @ [Clock]) ?e"
  let ?h = "h @ [Clock, UpdateStatus ?e ?r]"
  note run = markFinished_run [of K ej ph reason exit h]
  show "\<exists>x new. run_state (markFinishedWithReason K ej ph reason exit) h = (x, h @ new) \<and>
      finish_log K ej ph reason exit new"
  proof (cases "settled ?e ?r")
    case None
    then show ?thesis
      unfolding run finish_log_def by auto
  next
    case (Some e')
    obtain x rest where "run_state (fireCallback K e' ph exit) ?h = (x, ?h @ rest)"
      and cb: "callback_log K e' ph exit ConditionCallbackDelivered (terminalEventID K e' ph) rest"
      by (rule keepsE [OF fireCallback_log])
    with Some cb show ?thesis
      unfolding run finish_log_def by (auto intro!: exI [of _ "k_now K h"])
  qed
qed

subsection \<open>The caller is told only of what is recorded\<close>

lemma callback_log_payload:
  assumes "callback_log K ej ph exit gate eid rest" and "Post url p r \<in> set rest"
  shows "pl_status p = ph \<and> pl_terminalEventId p = eid \<and> pl_uid p = ej_uid ej \<and> pl_jobId p = ej_name ej"
  using assms by (auto simp: callback_log_def callback_payload_def)

lemma callbacks_backed_single: "\<not> terminal_post e \<Longrightarrow> callbacks_backed K [e]"
  by (rule callbacks_backed_none) simp

lemma callbacks_backed_finish:
  assumes "finish_log K ej ph reason exit new"
  shows "callbacks_backed K new"
proof -
  obtain at r rest where new: "new = Clock # UpdateStatus (finished_as K ej ph reason exit at) r # rest"
    and rest: "case settled (finished_as K ej ph reason exit at) r of
           None \<Rightarrow> rest = []
         | Some e' \<Rightarrow> callback_log K e' ph exit ConditionCallbackDelivered (terminalEventID K e' ph) rest"
    using assms by (auto simp: finish_log_def)
  let ?e = "finished_as K ej ph reason exit at"
  have "backed K pre p" if eq: "new = pre @ Post url p s # post" for pre url p s post
  proof -
    obtain pre' where pre: "pre = Clock # UpdateStatus ?e r # pre'" and rest': "rest = pre' @ Post url p s # post"
      using eq new by (auto simp: Cons_eq_append_conv)
    obtain e' where e': "settled ?e r = Some e'"
      and cb: "callback_log K e' ph exit ConditionCallbackDelivered (terminalEventID K e' ph) rest"
      using rest rest' by (auto split: option.splits)
    have p: "pl_status p = ph \<and> pl_terminalEventId p = terminalEventID K e' ph \<and> pl_uid p = ej_uid e' \<and> pl_jobId p = ej_name e'"
      using callback_log_payload [OF cb, of url p s] rest' by simp
    then show ?thesis
      unfolding backed_def pre using e'
      by (intro exI [of _ ?e] exI [of _ r] exI [of _ e']) simp
  qed
  then show ?thesis unfolding callbacks_backed_def by blast
qed

lemma keeps_single:
  assumes "\<And>r. P [UpdateStatus ej r]"
  shows "keeps P (updateStatus K ej)"
  using assms by (auto simp: keeps_def updateStatus_def)

lemma markTerminal_log:
  "keeps (\<lambda>new. \<exists>at r. new = [Clock, UpdateStatus (terminal_as K ej ph reason msg at) r])
     (markTerminal K ej ph reason msg)"
  by (auto simp: keeps_def markTerminal_def updateStatus_def now_def case_prod_unfold)

lemma ready_callback_quiet:
  assumes "callback_log K ej PhaseRunning exit gate eid rest" and "e \<in> set rest"
  shows "\<not> terminal_post e"
  using assms by (auto simp: callback_log_def callback_payload_def isTerminal_def)

interpretation order: pass_invariant "callbacks_backed K" "callbacks_backed K" K for K
proof
  show "callbacks_backed K []" by (rule callbacks_backed_none) simp
  show "callbacks_backed K [e]" if "is_read e" for e
    using that by (intro callbacks_backed_none) (cases e; simp)
  show "keeps (callbacks_backed K) (updateStatus K ej)" for ej
    by (rule keeps_single) (rule callbacks_backed_none, simp)
  show "keeps (callbacks_backed K) (fireLifecycleCallback K ej PhaseRunning None ConditionReadyNotified eid)" for ej eid
    by (rule keeps_mono [OF lifecycle_log]) (rule callbacks_backed_none, rule ready_callback_quiet)
  show "keeps (callbacks_backed K) (markFinishedWithReason K ej ph reason exit)" for ej ph reason exit
    by (rule keeps_mono [OF markFinished_log]) (rule callbacks_backed_finish)
  show "keeps (callbacks_backed K) (markTerminal K ej ph reason msg)" for ej ph reason msg
    by (rule keeps_mono [OF markTerminal_log]) (auto intro!: callbacks_backed_none)
qed (auto intro: callbacks_backed_append callbacks_backed_single)


definition demo_late :: kube where
  "demo_late = demo_kube demo_ej (101 * 10 ^ 9)"

definition demo_expired :: ephemeralJob where
  "demo_expired = finished_as demo_late
     (with_message (''reached the '' @ Itoa 100 @ ''s maximum lifetime without finishing'') demo_ej)
     PhaseTimedOut ''TimedOut'' None (101 * 10 ^ 9)"

lemma demo_expired_run:
  "\<exists>post. run_state (Reconcile demo_late demo_reconciler ''tenant-t'' ''r1'') [] =
     (Inr no_requeue, [] @ [GetEJ ''tenant-t'' ''r1'', Clock, DeleteJob ''tenant-t'' ''ej-r1'' Background None, Clock,
        UpdateStatus demo_expired (Inr demo_expired), Clock] @
        Post ''http://cb'' (callback_payload demo_late demo_expired PhaseTimedOut None
          (terminalEventID demo_late demo_expired PhaseTimedOut) (101 * 10 ^ 9)) (Inr 200) # post)"
  by (simp add: Reconcile_def reconcile_live_def reconcileSessionPeer_def reconcileStorageEgress_def
      reconcileJobMode_def past_lifetime_def deleteJob_def ended_def markFinished_def markFinishedWithReason_def
      fireCallback_def fireLifecycleCallback_def io_defs demo_late_def demo_spec_def demo_status_def
      demo_reconciler_def isTerminal_def validateSpec_def time_sub_def sat64_def Seconds_def wrap64_def
      jobNameFor_def IgnoreNotFound_def demo_expired_def
      meta_IsStatusConditionTrue_def list_findCondition_def)


subsection \<open>The stored object after a log\<close>

text \<open>
  What the API server holds after a call: a stored status replaces the object, a deletion or an
  answer that the object is gone removes it.
\<close>

fun apply_event :: "event \<Rightarrow> ephemeralJob option \<Rightarrow> ephemeralJob option" where
  "apply_event (UpdateStatus e (Inr e')) st = Some e'"
| "apply_event (UpdateStatus e (Inl err)) st = (if IsNotFound err then None else st)"
| "apply_event (DeleteEJ ns n None) st = None"
| "apply_event (DeleteEJ ns n (Some err)) st = (if IsNotFound err then None else st)"
| "apply_event _ st = st"

definition after_log :: "log \<Rightarrow> ephemeralJob option \<Rightarrow> ephemeralJob option" where
  "after_log log st = fold apply_event log st"

lemma after_log_simps [simp]:
  "after_log [] st = st" "after_log (e # es) st = after_log es (apply_event e st)"
  "after_log (xs @ ys) st = after_log ys (after_log xs st)"
  by (simp_all add: after_log_def)

fun closed :: "ephemeralJob option \<Rightarrow> bool" where
  "closed None = True"
| "closed (Some ej) = isTerminal (es_phase (ej_status ej))"

definition quiet :: "log \<Rightarrow> bool" where
  "quiet log \<longleftrightarrow> (\<forall>e \<in> set log. \<not> terminal_post e)"

definition echoed :: "log \<Rightarrow> bool" where
  "echoed log \<longleftrightarrow> (\<forall>e e'. UpdateStatus e (Inr e') \<in> set log \<longrightarrow> es_phase (ej_status e') = es_phase (ej_status e))"

text \<open>At most one terminal callback, and with one the stored object has ended.\<close>

definition told_once :: "log \<Rightarrow> bool" where
  "told_once log \<longleftrightarrow>
     (echoed log \<longrightarrow> length (filter terminal_post log) \<le> 1 \<and>
        (filter terminal_post log \<noteq> [] \<longrightarrow> (\<forall>st. closed (after_log log st))))"

definition answered :: "kube \<Rightarrow> log \<Rightarrow> bool" where
  "answered K log \<longleftrightarrow> (\<forall>e r. UpdateStatus e r \<in> set log \<longrightarrow> (\<exists>h. r = k_updateStatus K h e))"

lemma quiet_filter: "quiet log \<longleftrightarrow> filter terminal_post log = []"
  by (auto simp: quiet_def filter_empty_conv)

lemma quiet_told_once: "quiet log \<Longrightarrow> told_once log"
  by (simp add: told_once_def quiet_filter)

lemma told_once_append: "quiet a \<Longrightarrow> told_once b \<Longrightarrow> told_once (a @ b)"
  by (auto simp: told_once_def quiet_filter echoed_def)

lemma delivered_phase [simp]: "es_phase (ej_status (delivered K ej ph gate code)) = es_phase (ej_status ej)"
  by (simp add: delivered_def meta_SetStatusCondition_def)

lemma told_once_finish:
  assumes "isTerminal ph" and "finish_log K ej ph reason exit new"
  shows "told_once new"
proof -
  obtain at r rest where new: "new = Clock # UpdateStatus (finished_as K ej ph reason exit at) r # rest"
    and rest: "case settled (finished_as K ej ph reason exit at) r of
           None \<Rightarrow> rest = []
         | Some e' \<Rightarrow> callback_log K e' ph exit ConditionCallbackDelivered (terminalEventID K e' ph) rest"
    using assms(2) by (auto simp: finish_log_def)
  let ?e = "finished_as K ej ph reason exit at"
  show ?thesis
    unfolding told_once_def
  proof (intro impI)
    assume echo: "echoed new"
    have "length (filter terminal_post rest) \<le> 1"
      using rest by (auto simp: callback_log_def split: option.splits)
    moreover have "closed (after_log new st)" if posts: "filter terminal_post rest \<noteq> []" for st
    proof -
      obtain e' where e': "settled ?e r = Some e'"
        and cb: "callback_log K e' ph exit ConditionCallbackDelivered (terminalEventID K e' ph) rest"
        using rest posts by (auto split: option.splits)
      have stored: "apply_event (UpdateStatus ?e r) st = None \<or> apply_event (UpdateStatus ?e r) st = Some e'"
        using e' by (cases r) (auto split: if_splits)
      have phase: "es_phase (ej_status e') = ph"
        using e' echo by (cases r) (auto simp: echoed_def new split: if_splits)
      have "closed (after_log rest (apply_event (UpdateStatus ?e r) st))"
        using cb
        unfolding callback_log_def
      proof (elim disjE exE)
        fix t code s
        assume eq: "rest = [Clock, Post (sp_callbackURL (ej_spec e')) (callback_payload K e' ph exit (terminalEventID K e' ph) t)
            (Inr code), UpdateStatus (delivered K e' ph ConditionCallbackDelivered code) s]"
        show ?thesis
        proof (cases s)
          case (Inr e'')
          then have "es_phase (ej_status e'') = ph"
            using echo phase by (auto simp: echoed_def new eq)
          with assms(1) Inr show ?thesis by (simp add: eq)
        qed (use stored phase assms(1) eq in auto)
      qed (use posts stored phase assms(1) in auto)
      then show ?thesis by (simp add: new)
    qed
    ultimately show "length (filter terminal_post new) \<le> 1 \<and>
        (filter terminal_post new \<noteq> [] \<longrightarrow> (\<forall>st. closed (after_log new st)))"
      by (simp add: new)
  qed
qed

interpretation once: pass_invariant quiet told_once K for K
proof
  show "quiet [e]" if "is_read e" for e
    using that by (cases e) (simp_all add: quiet_def)
  show "keeps quiet (updateStatus K ej)" for ej
    by (rule keeps_single) (simp add: quiet_def)
  show "keeps quiet (fireLifecycleCallback K ej PhaseRunning None ConditionReadyNotified eid)" for ej eid
    by (rule keeps_mono [OF lifecycle_log]) (auto simp: quiet_def dest: ready_callback_quiet)
  show "keeps told_once (markFinishedWithReason K ej ph reason exit)" if "isTerminal ph" for ej ph reason exit
    by (rule keeps_mono [OF markFinished_log]) (rule told_once_finish [OF that])
  show "keeps told_once (markTerminal K ej ph reason msg)" for ej ph reason msg
    by (rule keeps_mono [OF markTerminal_log]) (auto intro!: quiet_told_once simp: quiet_def)
qed (auto simp: quiet_def intro: quiet_told_once told_once_append)

text \<open>Every status write in a log got one of the server's answers.\<close>

lemma answered_append: "answered K a \<Longrightarrow> answered K b \<Longrightarrow> answered K (a @ b)"
  by (auto simp: answered_def)

interpretation reply: log_invariant "answered K" for K
proof
  show "answered K [e]" if "is_read e" for e
    using that by (cases e) (simp_all add: answered_def)
qed (auto simp: answered_def)

lemma answered_update: "keeps (answered K) (updateStatus K ej)"
  by (auto simp: keeps_def updateStatus_def answered_def)

lemma answered_post: "keeps (answered K) (httpPost K url p)"
  unfolding httpPost_def by (rule keeps_call) (simp add: answered_def)

lemma answered_callback: "keeps (answered K) (fireLifecycleCallback K ej ph exit gate eid)"
  unfolding fireLifecycleCallback_def by (intro keep answered_update answered_post)

interpretation reply: pass_invariant "answered K" "answered K" K for K
proof
  show "keeps (answered K) (markFinishedWithReason K ej ph reason exit)" for ej ph reason exit
    unfolding markFinishedWithReason_def fireCallback_def by (intro keep answered_update answered_callback)
  show "keeps (answered K) (markTerminal K ej ph reason msg)" for ej ph reason msg
    unfolding markTerminal_def by (intro keep answered_update)
qed (auto simp: answered_def intro: answered_append answered_update answered_callback)

subsection \<open>Passes over one object\<close>

text \<open>
  What a pass finds: either the stored object, or an older copy of one that still exists, and then
  the server refuses every status write with a conflict. A stored status keeps the phase sent.
\<close>

definition stale_writes :: "kube \<Rightarrow> bool" where
  "stale_writes K \<longleftrightarrow> (\<forall>h e. \<exists>err. k_updateStatus K h e = Inl err \<and> err_kind err = KConflict)"

definition serves :: "kube \<Rightarrow> string \<Rightarrow> string \<Rightarrow> ephemeralJob option \<Rightarrow> bool" where
  "serves K ns name st \<longleftrightarrow>
     (\<forall>ej. k_getEJ K [] ns name = Inr ej \<longrightarrow> st = Some ej \<or> st \<noteq> None \<and> stale_writes K) \<and>
     (\<forall>h e e'. k_updateStatus K h e = Inr e' \<longrightarrow> es_phase (ej_status e') = es_phase (ej_status e))"

text \<open>
  The life of one object: passes of the operator, edits by the submitter or its SDK, which leave the
  phase alone, and a deletion from outside. The state is the stored object and the log of all passes.
\<close>

inductive life_step :: "reconciler \<Rightarrow> string \<Rightarrow> string \<Rightarrow> ephemeralJob option \<times> log \<Rightarrow> ephemeralJob option \<times> log \<Rightarrow> bool"
  for R ns name where
  pass: "serves K ns name st \<Longrightarrow> run_state (Reconcile K R ns name) [] = (res, log) \<Longrightarrow>
         life_step R ns name (st, hist) (after_log log st, hist @ log)"
| edit: "es_phase (ej_status ej') = es_phase (ej_status ej) \<Longrightarrow>
         life_step R ns name (Some ej, hist) (Some ej', hist)"
| gone: "life_step R ns name (st, hist) (None, hist)"

inductive_cases life_stepE [elim]: "life_step R ns name (st, hist) (st', hist')"

abbreviation life :: "reconciler \<Rightarrow> string \<Rightarrow> string \<Rightarrow> ephemeralJob option \<times> log \<Rightarrow> ephemeralJob option \<times> log \<Rightarrow> bool" where
  "life R ns name \<equiv> (life_step R ns name)\<^sup>*\<^sup>*"

lemma apply_delete: "apply_event (DeleteEJ ns n r) st = st \<or> apply_event (DeleteEJ ns n r) st = None"
  by (cases r) auto

lemma reconcileTTL_log:
  "keeps (\<lambda>new. quiet new \<and> (\<forall>st. after_log new st = st \<or> after_log new st = None)) (reconcileTTL K ej)"
  by (rule keepsI)
    (auto simp: reconcileTTL_def ended_def io_defs Let_def quiet_def apply_delete split: option.splits
      simp del: not_None_eq not_Some_eq)

lemma stale_quiet:
  assumes "stale_writes K" and "answered K log" and "callbacks_backed K log"
  shows "quiet log"
  unfolding quiet_def
proof (intro ballI notI)
  fix e assume "e \<in> set log" and "terminal_post e"
  then obtain url p r where "Post url p r \<in> set log" and "isTerminal (pl_status p)"
    by (metis terminal_post.elims(2))
  then obtain pre post where log: "log = pre @ Post url p r # post"
    by (meson split_list)
  with assms(3) \<open>isTerminal _\<close> have "backed K pre p" unfolding callbacks_backed_def by blast
  then obtain e s e' where "UpdateStatus e s \<in> set log" and settled: "settled e s = Some e'"
    unfolding backed_def log by auto
  with assms(2) obtain h where "s = k_updateStatus K h e" unfolding answered_def by blast
  with assms(1) obtain err where "s = Inl err" "err_kind err = KConflict" unfolding stale_writes_def by metis
  with settled show False by (simp add: IsNotFound_def)
qed

lemma stale_after:
  assumes "stale_writes K" and "answered K log"
  shows "after_log log st = st \<or> after_log log st = None"
  using assms(2)
proof (induction log arbitrary: st)
  case (Cons e log)
  have "answered K log" using Cons.prems by (auto simp: answered_def)
  note IH = Cons.IH [OF this]
  have "apply_event e st = st \<or> apply_event e st = None"
  proof (cases e)
    case (UpdateStatus x r)
    with Cons.prems obtain h where "r = k_updateStatus K h x" unfolding answered_def by auto
    with assms(1) obtain err where "r = Inl err" unfolding stale_writes_def by metis
    then show ?thesis by (simp add: UpdateStatus)
  next
    case (DeleteEJ a b r)
    then show ?thesis by (simp add: apply_delete)
  qed auto
  with IH show ?case by (metis after_log_simps(2))
qed simp

text \<open>One pass, from a closed object and from any: the two facts the induction over passes needs.\<close>

lemma pass_shape:
  assumes "run_state (Reconcile K R ns name) [] = (res, log)"
  shows "answered K log" "callbacks_backed K log" "told_once log"
  using reply.keeps_Reconcile [of K R ns name] order.keeps_Reconcile [of K R ns name]
    once.keeps_Reconcile [of K R ns name] assms
  unfolding keeps_def by (metis append_Nil prod.inject)+

lemma serves_echoed:
  assumes "serves K ns name st" and "answered K log"
  shows "echoed log"
  using assms unfolding serves_def answered_def echoed_def by metis

lemma pass_from_closed:
  assumes "serves K ns name (Some ej)" and "isTerminal (es_phase (ej_status ej))"
    and run: "run_state (Reconcile K R ns name) [] = (res, log)"
  shows "quiet log \<and> (after_log log (Some ej) = Some ej \<or> after_log log (Some ej) = None)"
proof (cases "k_getEJ K [] ns name")
  case (Inl e)
  then have "log = [GetEJ ns name]"
    using run by (simp add: Reconcile_def getEJ_def)
  then show ?thesis by (simp add: quiet_def)
next
  case (Inr found)
  with assms(1) have "found = ej \<or> stale_writes K"
    by (auto simp: serves_def)
  then consider "found = ej" | "stale_writes K" by (rule disjE)
  then show ?thesis
  proof cases
    case 1
    show ?thesis
    proof (cases "ej_deleting ej")
      case True
      with 1 Inr have "log = [GetEJ ns name]"
        using run by (simp add: Reconcile_def getEJ_def)
      then show ?thesis by (simp add: quiet_def)
    next
      case False
      obtain x new where ttl: "run_state (reconcileTTL K ej) [GetEJ ns name] = (x, [GetEJ ns name] @ new)"
        and new: "quiet new \<and> (\<forall>st. after_log new st = st \<or> after_log new st = None)"
        by (rule keepsE [OF reconcileTTL_log])
      have "log = GetEJ ns name # new"
        using 1 Inr False assms(2) ttl run by (simp add: Reconcile_def getEJ_def)
      with new show ?thesis by (simp add: quiet_def)
    qed
  next
    case 2
    show ?thesis
      by (rule conjI [OF stale_quiet [OF 2 pass_shape(1,2) [OF run]] stale_after [OF 2 pass_shape(1) [OF run]]])
  qed
qed

lemma step_closed:
  assumes "life_step R ns name (Some ej, hist) (st, hist')" and "isTerminal (es_phase (ej_status ej))"
  shows "(\<forall>ej'. st = Some ej' \<longrightarrow> es_phase (ej_status ej') = es_phase (ej_status ej)) \<and>
    filter terminal_post hist' = filter terminal_post hist"
  using assms(1)
proof (rule life_stepE)
  fix K res log
  assume "st = after_log log (Some ej)" "hist' = hist @ log" "serves K ns name (Some ej)"
    "run_state (Reconcile K R ns name) [] = (res, log)"
  with pass_from_closed [OF _ assms(2)] show ?thesis
    by (metis filter_append append_Nil2 quiet_filter option.sel option.distinct(1))
qed auto

lemma step_from_none:
  assumes "life_step R ns name (None, hist) (st, hist')"
  shows "st = None \<and> filter terminal_post hist' = filter terminal_post hist"
  using assms
proof (rule life_stepE)
  fix K res log
  assume *: "st = after_log log None" "hist' = hist @ log" "serves K ns name None"
    "run_state (Reconcile K R ns name) [] = (res, log)"
  then obtain e where "k_getEJ K [] ns name = Inl e"
    unfolding serves_def by (cases "k_getEJ K [] ns name") auto
  with * show ?thesis by (auto simp: Reconcile_def getEJ_def)
qed auto

lemma closed_step:
  assumes "life_step R ns name (st, hist) (st', hist')" and "closed st"
  shows "closed st' \<and> filter terminal_post hist' = filter terminal_post hist"
proof (cases st)
  case None
  with assms(1) step_from_none show ?thesis by (metis closed.simps(1))
next
  case (Some ej)
  with assms(2) have t: "isTerminal (es_phase (ej_status ej))" by simp
  have "(\<forall>ej'. st' = Some ej' \<longrightarrow> es_phase (ej_status ej') = es_phase (ej_status ej)) \<and>
    filter terminal_post hist' = filter terminal_post hist"
    using step_closed [OF _ t] assms(1) Some by blast
  with t show ?thesis by (cases st') auto
qed



lemma demo_life: "life demo_reconciler ''tenant-t'' ''r1'' (Some demo_ej, [])
    (after_log (snd (run_state (Reconcile demo_late demo_reconciler ''tenant-t'' ''r1'') [])) (Some demo_ej),
     snd (run_state (Reconcile demo_late demo_reconciler ''tenant-t'' ''r1'') []))"
proof -
  have "serves demo_late ''tenant-t'' ''r1'' (Some demo_ej)"
    by (simp add: serves_def demo_late_def)
  from life_step.pass [OF this surjective_pairing, of demo_reconciler "[]"] show ?thesis by simp
qed


text \<open>The demo request after its ending, and a later pass over it.\<close>

lemma demo_expired_fields:
  "es_completionTime (ej_status demo_expired) = Some (101 * 10 ^ 9)" "ej_spec demo_expired = demo_spec"
  "\<not> ej_deleting demo_expired"
  by (simp_all add: demo_expired_def) (simp add: finished_as_def meta_SetStatusCondition_def)


end
