(* ===== verification/Operator_Passes.thy ===== *)
theory Operator_Passes
  imports Lifecycle
begin

text \<open>
  What single passes do: a job past its lifetime is ended, a cancelled one is marked, a Job is
  created, adopted or replaced by the rules of \<open>ensureJob\<close>, capacity is assessed from what the
  cluster shows, and waiting for it deletes nothing before the bound the submitter set.
\<close>

subsection \<open>Passes that end a job\<close>

definition ending_write :: "ephemeralJob \<Rightarrow> (kerr, ephemeralJob) result \<Rightarrow> bool" where
  "ending_write e r \<longleftrightarrow>
     es_phase (ej_status e) \<in> {PhaseSucceeded, PhaseFailed, PhaseTimedOut, PhaseCancelled} \<and>
     es_completionTime (ej_status e) \<noteq> None \<and> settled e r \<noteq> None"

definition finishes :: "pass \<Rightarrow> bool" where
  "finishes m \<longleftrightarrow>
     (\<forall>h res h'. run_state m h = (Inr res, h') \<longrightarrow> (\<exists>e r. UpdateStatus e r \<in> set h' \<and> ending_write e r))"

named_theorems ends \<open>rules for \<open>finishes\<close>\<close>

lemma finishes_bind [ends]: "(\<And>x. finishes (f x)) \<Longrightarrow> finishes (m \<bind> f)"
  by (auto simp: finishes_def split: prod.splits)

lemma finishes_error [ends]: "finishes (return_io (Inl e))"
  by (simp add: finishes_def)

lemma finishes_sum [ends]:
  "(\<And>e. r = Inl e \<Longrightarrow> finishes (f e)) \<Longrightarrow> (\<And>x. r = Inr x \<Longrightarrow> finishes (g x)) \<Longrightarrow>
   finishes (case r of Inl e \<Rightarrow> f e | Inr x \<Rightarrow> g x)"
  by (cases r) auto

lemma finishes_option [ends]:
  "(r = None \<Longrightarrow> finishes f) \<Longrightarrow> (\<And>x. r = Some x \<Longrightarrow> finishes (g x)) \<Longrightarrow>
   finishes (case r of None \<Rightarrow> f | Some x \<Rightarrow> g x)"
  by (cases r) auto

lemma finishes_prod [ends]: "(\<And>x y. r = (x, y) \<Longrightarrow> finishes (f x y)) \<Longrightarrow> finishes (case r of (x, y) \<Rightarrow> f x y)"
  by (cases r) auto

lemma finishes_peer [ends]:
  "(r = PeerOK \<Longrightarrow> finishes f) \<Longrightarrow> (\<And>x y. r = PeerInvalid x y \<Longrightarrow> finishes (g x y)) \<Longrightarrow>
   (\<And>e. r = PeerErr e \<Longrightarrow> finishes (k e)) \<Longrightarrow>
   finishes (case r of PeerOK \<Rightarrow> f | PeerInvalid x y \<Rightarrow> g x y | PeerErr e \<Rightarrow> k e)"
  by (cases r) auto

lemma finishes_if [ends]: "(b \<Longrightarrow> finishes f) \<Longrightarrow> (\<not> b \<Longrightarrow> finishes g) \<Longrightarrow> finishes (if b then f else g)"
  by simp

lemma finishes_Let [ends]: "(\<And>x. finishes (f x)) \<Longrightarrow> finishes (let x = v in f x)"
  by simp

lemma finishes_finish:
  assumes "isTerminal ph"
  shows "finishes (ended (markFinishedWithReason K ej ph reason exit))"
  unfolding finishes_def
proof (intro allI impI)
  fix h res h'
  let ?e = "finished_as K ej ph reason exit (k_now K h)"
  let ?r = "k_updateStatus K (h @ [Clock]) ?e"
  let ?h = "h @ [Clock, UpdateStatus ?e ?r]"
  assume run: "run_state (ended (markFinishedWithReason K ej ph reason exit)) h = (Inr res, h')"
  show "\<exists>e r. UpdateStatus e r \<in> set h' \<and> ending_write e r"
  proof (cases "settled ?e ?r")
    case None
    with run show ?thesis by (simp add: ended_def markFinished_run)
  next
    case (Some e')
    obtain x rest where "run_state (fireCallback K e' ph exit) ?h = (x, ?h @ rest)"
      by (rule keepsE [OF fireCallback_log])
    with run Some have "h' = ?h @ rest" by (simp add: ended_def markFinished_run)
    moreover have "ending_write ?e ?r"
      using assms Some by (auto simp: ending_write_def isTerminal_def)
    ultimately show ?thesis by auto
  qed
qed

lemma terminal_as_status [simp]:
  "es_phase (ej_status (terminal_as K ej ph reason msg at)) = ph"
  "es_completionTime (ej_status (terminal_as K ej ph reason msg at)) = Some at"
  by (simp_all add: terminal_as_def meta_SetStatusCondition_def)

lemma markTerminal_run:
  fixes K ej ph reason msg h
  defines "e \<equiv> terminal_as K ej ph reason msg (k_now K h)"
  defines "r \<equiv> k_updateStatus K (h @ [Clock]) e"
  shows "run_state (markTerminal K ej ph reason msg) h =
    (case settled e r of None \<Rightarrow> Some (projl r) | Some _ \<Rightarrow> None, h @ [Clock, UpdateStatus e r])"
  by (cases r) (auto simp: markTerminal_def now_def updateStatus_def IgnoreNotFound_def
      e_def [symmetric] r_def [symmetric])

lemma finishes_refuse:
  assumes "ph \<in> {PhaseFailed, PhaseCancelled}"
  shows "finishes (ended (markTerminal K ej ph reason msg))"
  unfolding finishes_def
proof (intro allI impI)
  fix h res h'
  let ?e = "terminal_as K ej ph reason msg (k_now K h)"
  let ?r = "k_updateStatus K (h @ [Clock]) ?e"
  assume "run_state (ended (markTerminal K ej ph reason msg)) h = (Inr res, h')"
  then have "h' = h @ [Clock, UpdateStatus ?e ?r]" and "settled ?e ?r \<noteq> None"
    by (auto simp: ended_def markTerminal_run split: option.splits)
  with assms show "\<exists>e r. UpdateStatus e r \<in> set h' \<and> ending_write e r"
    by (intro exI [of _ ?e] exI [of _ ?r]) (auto simp: ending_write_def)
qed

lemma finishes_finished: "isTerminal ph \<Longrightarrow> finishes (ended (markFinished K ej ph exit))"
  unfolding markFinished_def by (rule finishes_finish)

definition past_all :: "kube \<Rightarrow> ephemeralJob \<Rightarrow> bool" where
  "past_all K ej \<longleftrightarrow> 0 < sp_maxLifetimeSeconds (ej_spec ej) \<and> int32_range (sp_maxLifetimeSeconds (ej_spec ej)) \<and>
     (\<forall>h. ej_created ej + sp_maxLifetimeSeconds (ej_spec ej) * 10 ^ 9 < k_now K h)"

lemma finishes_past:
  assumes "past_all K ej" and "finishes (f True)"
  shows "finishes (past_lifetime K ej \<bind> f)"
proof -
  have "run_state (past_lifetime K ej) h = (True, h @ [Clock])" for h
  proof -
    have "sp_maxLifetimeSeconds (ej_spec ej) * 10 ^ 9 < k_now K h - ej_created ej"
      using assms(1) unfolding past_all_def by (metis add.commute less_diff_eq)
    then show ?thesis
      using assms(1) time_sub_less [of "sp_maxLifetimeSeconds (ej_spec ej)" "k_now K h" "ej_created ej"]
      by (simp add: past_all_def past_lifetime_def io_defs)
  qed
  with assms(2) show ?thesis by (simp add: finishes_def)
qed

lemma finishes_expired: "finishes (service_expired K ej pod cap)"
  unfolding service_expired_def by (intro ends finishes_finished) (simp add: isTerminal_def)

lemma finishes_service_pass: "past_all K ej \<Longrightarrow> finishes (service_pass K R ej pod)"
  unfolding service_pass_def
  by (rule ends, (intro finishes_finished, simp add: isTerminal_def), rule ends,
      (intro finishes_finished, simp add: isTerminal_def))
    (rule finishes_bind, rule finishes_sum, rule finishes_error, rule finishes_past, simp_all add: finishes_expired)

lemma finishes_job_mode: "past_all K ej \<Longrightarrow> finishes (reconcileJobMode K R ej)"
  unfolding reconcileJobMode_def
  by (erule finishes_past) (simp, intro ends finishes_finished, simp add: isTerminal_def)

lemma finishes_service_mode: "past_all K ej \<Longrightarrow> finishes (reconcileServiceMode K R ej)"
  unfolding reconcileServiceMode_def
  by (intro ends finishes_finish finishes_service_pass) (simp_all add: isTerminal_def)

lemma finishes_live: "past_all K ej \<Longrightarrow> finishes (reconcile_live K R ej)"
  unfolding reconcile_live_def
  by (intro ends finishes_refuse finishes_service_mode finishes_job_mode) simp_all

lemma Reconcile_live:
  assumes "k_getEJ K [] ns name = Inr ej" and "\<not> ej_deleting ej" and "\<not> isTerminal (es_phase (ej_status ej))"
  shows "run_state (Reconcile K R ns name) [] = run_state (reconcile_live K R ej) [GetEJ ns name]"
  using assms by (simp add: Reconcile_def getEJ_def)

text \<open>
  C16: no job outlives its bound. A pass that finds a live request, in either mode, whose maximum
  lifetime is over on every reading of the clock, and that meets no error, writes an ending: a
  status with a final phase and a completion time, stored or of an object already gone. Whatever
  the pod, the capacity, the client or the peer do, the pass cannot end otherwise.
\<close>

theorem lifetime_bound:
  assumes "k_getEJ K [] ns name = Inr ej" and "\<not> ej_deleting ej" and "\<not> isTerminal (es_phase (ej_status ej))"
    and "0 < sp_maxLifetimeSeconds (ej_spec ej)" and "int32_range (sp_maxLifetimeSeconds (ej_spec ej))"
    and "\<And>h. ej_created ej + sp_maxLifetimeSeconds (ej_spec ej) * 10 ^ 9 < k_now K h"
    and "run_state (Reconcile K R ns name) [] = (Inr res, log)"
  shows "\<exists>e r. UpdateStatus e r \<in> set log \<and> ending_write e r"
proof -
  have "past_all K ej" using assms(4-6) by (simp add: past_all_def)
  then have "finishes (reconcile_live K R ej)" by (rule finishes_live)
  moreover have "run_state (reconcile_live K R ej) [GetEJ ns name] = (Inr res, log)"
    using assms(7) Reconcile_live [OF assms(1-3)] by simp
  ultimately show ?thesis unfolding finishes_def by blast
qed

theorem lifetime_bound_witness:
  "\<exists>e r. UpdateStatus e r \<in> set (snd (run_state (Reconcile demo_late demo_reconciler ''tenant-t'' ''r1'') [])) \<and>
     ending_write e r"
proof -
  obtain log where run: "run_state (Reconcile demo_late demo_reconciler ''tenant-t'' ''r1'') [] = (Inr no_requeue, log)"
    using demo_expired_run by blast
  have "\<exists>e r. UpdateStatus e r \<in> set log \<and> ending_write e r"
    by (rule lifetime_bound [of demo_late "''tenant-t''" "''r1''" demo_ej, OF _ _ _ _ _ _ run])
      (simp_all add: demo_late_def demo_spec_def demo_status_def isTerminal_def int32_range_def)
  with run show ?thesis by simp
qed

subsection \<open>Cancellation\<close>

text \<open>
  what a cancellation does, exactly. A pass over a cancelled request that is not terminal makes
  one status write, phase \<open>Cancelled\<close> with a completion time, and nothing else: it deletes neither
  the Job nor the pod, posts no callback and reads nothing of them. And since \<open>Cancelled\<close> does not
  count as terminal, a later pass over the stored object does the same again, with a new completion
  time, and never the retention that deletes a finished request.
\<close>

theorem cancel_pass:
  assumes "k_getEJ K [] ns name = Inr ej" and "\<not> ej_deleting ej" and "\<not> isTerminal (es_phase (ej_status ej))"
    and "sp_cancelled (ej_spec ej)"
  shows "\<exists>e res r. run_state (Reconcile K R ns name) [] = (res, [GetEJ ns name, Clock, UpdateStatus e r]) \<and>
     es_phase (ej_status e) = PhaseCancelled \<and> es_completionTime (ej_status e) = Some (k_now K [GetEJ ns name]) \<and>
     \<not> isTerminal (es_phase (ej_status e)) \<and> ej_spec e = ej_spec ej"
proof -
  let ?e = "terminal_as K ej PhaseCancelled ''Cancelled'' ''cancelled by the submitter'' (k_now K [GetEJ ns name])"
  have "run_state (Reconcile K R ns name) [] =
      run_state (ended (markTerminal K ej PhaseCancelled ''Cancelled'' ''cancelled by the submitter'')) [GetEJ ns name]"
    using Reconcile_live [OF assms(1-3)] assms(4) by (simp add: reconcile_live_def)
  moreover have "ej_spec ?e = ej_spec ej"
    by (simp add: terminal_as_def meta_SetStatusCondition_def)
  ultimately show ?thesis
    by (intro exI [of _ ?e]) (auto simp: ended_def markTerminal_run isTerminal_def)
qed

definition demo_cancelled :: ephemeralJob where
  "demo_cancelled = demo_ej\<lparr>ej_spec := demo_spec\<lparr>sp_cancelled := True\<rparr>,
     ej_status := demo_status\<lparr>es_phase := PhaseRunning\<rparr>\<rparr>"

theorem cancel_pass_witness:
  "\<exists>res e r. run_state (Reconcile (demo_kube demo_cancelled 5) demo_reconciler ''tenant-t'' ''r1'') [] =
     (res, [GetEJ ''tenant-t'' ''r1'', Clock, UpdateStatus e r]) \<and> es_phase (ej_status e) = PhaseCancelled"
  using cancel_pass [of "demo_kube demo_cancelled 5" "''tenant-t''" "''r1''" demo_cancelled demo_reconciler]
  by (auto simp: demo_cancelled_def isTerminal_def)

subsection \<open>Adopting, replacing and creating the Job\<close>

lemma buildJob_run:
  "\<exists>j new. run_state (buildJob K ej name p) h = (j, h @ new) \<and> list_all is_read new \<and>
     j_name j = name \<and> j_ns j = ej_ns ej \<and> j_backoff j = Some 0 \<and> j_activeDeadline j = None \<and>
     ps_nodeSelector (j_podSpec j) = pm_nodeSelector p \<and> ps_tolerations (j_podSpec j) = pm_tolerations p \<and>
     ps_priorityClass (j_podSpec j) = pm_priorityClassName p"
  by (simp add: buildJob_def buildPodSpec_def resolveFleetID_def io_defs pod_spec_of_def Let_def)

text \<open>
  C17: a request never runs twice and never loses another's work. \<open>ensureJob\<close> makes at most one write.
  It creates a Job only when none of the request's name exists, and the Job it creates is controlled
  by the request, carries its derived name, no retry, no deadline of its own, and the placement of
  the request's class. It deletes a Job only when that Job is finished and not the request's own,
  waits for the deletion, and then hands back none. A Job that is unfinished, or finished and the
  request's own, is handed back untouched.
\<close>

theorem ensureJob_safe:
  assumes "run_state (ensureJob K ej) h = ((r, ej'), h @ new)"
  shows "(\<forall>j c. CreateJob j c \<in> set new \<longrightarrow>
            (\<exists>e p. k_getJob K h (ej_ns ej) (jobNameFor ej) = Inl e \<and> IsNotFound e \<and>
              ResolvePlacement (sp_placementClass (ej_spec ej)) = Some p \<and>
              j_controller j = Some (ej_uid ej) \<and> j_name j = jobNameFor ej \<and> j_ns j = ej_ns ej \<and>
              j_backoff j = Some 0 \<and> j_activeDeadline j = None \<and>
              ps_nodeSelector (j_podSpec j) = pm_nodeSelector p \<and> ps_tolerations (j_podSpec j) = pm_tolerations p \<and>
              ps_priorityClass (j_podSpec j) = pm_priorityClassName p)) \<and>
         (\<forall>ns n pol d. DeleteJob ns n pol d \<in> set new \<longrightarrow>
            (\<exists>j. k_getJob K h (ej_ns ej) (jobNameFor ej) = Inr j \<and> jobIsFinished j \<and>
              j_controller j \<noteq> Some (ej_uid ej) \<and> ns = j_ns j \<and> n = j_name j \<and> pol = Foreground \<and>
              (\<forall>j. r \<noteq> Inr (Some j)))) \<and>
         (\<forall>j. k_getJob K h (ej_ns ej) (jobNameFor ej) = Inr j \<and>
              (\<not> jobIsFinished j \<or> j_controller j = Some (ej_uid ej)) \<longrightarrow>
            r = Inr (Some j) \<and> ej' = ej \<and> list_all is_read new) \<and>
         length (filter (\<lambda>e. \<not> is_read e) new) \<le> 1"
proof (cases "k_getJob K h (ej_ns ej) (jobNameFor ej)")
  case (Inr j)
  with assms show ?thesis
    by (auto simp: ensureJob_def io_defs Let_def IgnoreNotFound_def split: if_splits option.splits)
next
  case (Inl e)
  show ?thesis
  proof (cases "IsNotFound e \<and> ResolvePlacement (sp_placementClass (ej_spec ej)) \<noteq> None")
    case False
    with assms Inl show ?thesis
      by (auto simp: ensureJob_def io_defs Let_def split: if_splits option.splits)
  next
    case True
    then obtain p where p: "ResolvePlacement (sp_placementClass (ej_spec ej)) = Some p" by blast
    let ?h = "h @ [GetJob (ej_ns ej) (jobNameFor ej)]"
    obtain j mid where build: "run_state (buildJob K ej (jobNameFor ej) p) ?h = (j, ?h @ mid)"
      and reads: "list_all is_read mid"
      and j: "j_name j = jobNameFor ej" "j_ns j = ej_ns ej" "j_backoff j = Some 0" "j_activeDeadline j = None"
        "ps_nodeSelector (j_podSpec j) = pm_nodeSelector p" "ps_tolerations (j_podSpec j) = pm_tolerations p"
        "ps_priorityClass (j_podSpec j) = pm_priorityClassName p"
      using buildJob_run [of K ej "jobNameFor ej" p ?h] by blast
    have quiet: "filter (\<lambda>e. \<not> is_read e) mid = []" "\<And>x c. CreateJob x c \<notin> set mid" "\<And>a b c d. DeleteJob a b c d \<notin> set mid"
      using reads by (auto simp: list_all_iff filter_empty_conv)
    show ?thesis
      using assms Inl True p build quiet j
      by (auto simp: ensureJob_def getJob_def createJob_def Let_def split: option.splits sum.splits if_splits)
  qed
qed

definition demo_foreign_job :: job where
  "demo_foreign_job =
     \<lparr> j_name = ''ej-r1'', j_ns = ''tenant-t'', j_uid = ''ju'', j_labels = [], j_controller = Some ''other'',
       j_backoff = None, j_failurePolicy = [], j_activeDeadline = None, j_ttl = None, j_podLabels = [],
       j_podSpec = \<lparr> ps_restart = [], ps_automount = None, ps_nodeSelector = [], ps_tolerations = [],
         ps_priorityClass = [], ps_dnsOptions = [], ps_security = None, ps_init = [], ps_containers = [],
         ps_volumes = [], ps_pullSecrets = [], ps_grace = None, ps_runtimeClass = None \<rparr>,
       j_conditions = [\<lparr> jc_type = ''Complete'', jc_status = ''True'', jc_reason = [], jc_message = [] \<rparr>] \<rparr>"

theorem ensureJob_safe_witness:
  "\<exists>r ej' new. run_state (ensureJob ((demo_kube demo_ej 5)\<lparr>k_getJob := \<lambda>_ _ _. Inr demo_foreign_job\<rparr>) demo_ej) [] =
     ((r, ej'), [] @ new) \<and> DeleteJob ''tenant-t'' ''ej-r1'' Foreground None \<in> set new \<and>
     (\<forall>j. r \<noteq> Inr (Some j)) \<and> length (filter (\<lambda>e. \<not> is_read e) new) \<le> 1"
proof -
  let ?K = "(demo_kube demo_ej 5)\<lparr>k_getJob := \<lambda>_ _ _. Inr demo_foreign_job\<rparr>"
  have run: "run_state (ensureJob ?K demo_ej) [] =
      ((Inr None, demo_ej), [] @ [GetJob ''tenant-t'' ''ej-r1'', DeleteJob ''tenant-t'' ''ej-r1'' Foreground None])"
    by (simp add: ensureJob_def io_defs Let_def jobIsFinished_def demo_foreign_job_def jobNameFor_def IgnoreNotFound_def)
  show ?thesis
    by (intro exI conjI, rule run) (use ensureJob_safe [OF run] in auto)
qed

subsection \<open>Capacity\<close>

definition first_pod :: "kube \<Rightarrow> log \<Rightarrow> string \<Rightarrow> smap \<Rightarrow> pod option" where
  "first_pod K h ns sel =
     (case k_listPods K h ns sel of Inr (p # _) \<Rightarrow> Some p | _ \<Rightarrow> None)"

definition has_node :: "pod \<Rightarrow> bool" where
  "has_node p \<longleftrightarrow> p_phase p = ''Running'' \<or> p_phase p = ''Succeeded'' \<or>
     (\<exists>c. podCondition p ''PodScheduled'' = Some c \<and> pc_status c = ''True'')"

lemma autoscaler_says_cases:
  "autoscaler_says es = Some c \<Longrightarrow>
     \<not> cap_ready c \<and> cap_reason c \<in> {ReasonWaitingForCapacity, ReasonCapacityUnavailable} \<and>
     (cap_terminal c \<longleftrightarrow> cap_reason c = ReasonCapacityUnavailable) \<and>
     (cap_terminal c \<longrightarrow> (\<exists>e \<in> set es. eo_reason e = ''NotTriggerScaleUp''))"
  by (induction es rule: autoscaler_says.induct) (auto simp: waiting_for_def split: if_splits)

text \<open>The branches of the assessment, by what the listings answer.\<close>

lemma assess_no_pod:
  "k_listPods K h ns sel = Inr [] \<Longrightarrow>
   run_state (AssessCapacityBySelector K ns sel) h = (Inr (waiting_for ''pod not yet created''), h @ [ListPods ns sel])"
  by (simp add: AssessCapacityBySelector_def listPods_def)

lemma assess_has_node:
  "k_listPods K h ns sel = Inr (p # ps) \<Longrightarrow> has_node p \<Longrightarrow>
   run_state (AssessCapacityBySelector K ns sel) h = (Inr scheduled_cap, h @ [ListPods ns sel])"
  by (auto simp: AssessCapacityBySelector_def listPods_def has_node_def Let_def)

text \<open>What the pending pod's events and the nodes say; the nodes are asked only when the events do not.\<close>

definition pending_verdict :: "kube \<Rightarrow> log \<Rightarrow> string \<Rightarrow> pod \<Rightarrow> capacity" where
  "pending_verdict K h ns p =
     (let msg = unschedulableMessage (podCondition p ''PodScheduled'');
          h1 = h @ [ListEvents ns ''involvedObject.name'' (p_name p)]
      in case k_listEvents K h ns ''involvedObject.name'' (p_name p) of
           Inl _ \<Rightarrow> waiting_for msg
         | Inr es \<Rightarrow>
             (case autoscaler_says es of
                Some c \<Rightarrow> c
              | None \<Rightarrow>
                  if ps_nodeSelector (p_spec p) \<noteq> [] \<and>
                     (\<exists>nodes. k_listNodes K h1 = Inr nodes \<and> \<not> list_ex (node_matches (ps_nodeSelector (p_spec p))) nodes)
                  then \<lparr> cap_reason = ReasonPlacementUnsatisfiable, cap_message = msg, cap_terminal = True, cap_ready = False \<rparr>
                  else waiting_for msg))"

lemma assess_pending:
  assumes "k_listPods K h ns sel = Inr (p # ps)" and "\<not> has_node p"
  shows "\<exists>new. run_state (AssessCapacityBySelector K ns sel) h =
    (Inr (pending_verdict K (h @ [ListPods ns sel]) ns p), h @ new) \<and> list_all is_read new"
proof -
  have not: "p_phase p \<noteq> ''Running''" "p_phase p \<noteq> ''Succeeded''"
    "\<not> (case podCondition p ''PodScheduled'' of Some c \<Rightarrow> pc_status c = ''True'' | None \<Rightarrow> False)"
    using assms(2) by (auto simp: has_node_def split: option.splits)
  show ?thesis
    using assms(1) not
    by (auto simp: AssessCapacityBySelector_def listPods_def listEvents_def listNodes_def noNodeMatchesSelector_def
        pending_verdict_def Let_def split: sum.splits option.splits)
qed

lemma pending_verdict_facts:
  fixes K h ns p
  defines "cap \<equiv> pending_verdict K h ns p"
  shows "\<not> cap_ready cap"
    and "cap_terminal cap \<Longrightarrow> cap_reason cap \<in> {ReasonCapacityUnavailable, ReasonPlacementUnsatisfiable}"
    and "cap_reason cap = ReasonCapacityUnavailable \<Longrightarrow>
      \<exists>es e. e \<in> set es \<and> eo_reason e = ''NotTriggerScaleUp'' \<and>
        k_listEvents K h ns ''involvedObject.name'' (p_name p) = Inr es"
    and "cap_reason cap = ReasonPlacementUnsatisfiable \<Longrightarrow>
      ps_nodeSelector (p_spec p) \<noteq> [] \<and> (\<exists>h0 nodes. k_listNodes K h0 = Inr nodes \<and>
        (\<forall>n \<in> set nodes. \<not> node_matches (ps_nodeSelector (p_spec p)) n))"
proof -
  consider (other) "cap = waiting_for (unschedulableMessage (podCondition p ''PodScheduled''))"
    | (says) es where "k_listEvents K h ns ''involvedObject.name'' (p_name p) = Inr es" "autoscaler_says es = Some cap"
    | (none) h0 nodes where "ps_nodeSelector (p_spec p) \<noteq> []" "k_listNodes K h0 = Inr nodes"
        "\<not> list_ex (node_matches (ps_nodeSelector (p_spec p))) nodes"
        "cap = \<lparr> cap_reason = ReasonPlacementUnsatisfiable,
                 cap_message = unschedulableMessage (podCondition p ''PodScheduled''), cap_terminal = True, cap_ready = False \<rparr>"
    unfolding cap_def pending_verdict_def Let_def
    by (cases "k_listEvents K h ns ''involvedObject.name'' (p_name p)") (fastforce split: option.splits if_splits)+
  note cases = this
  show "\<not> cap_ready cap"
    by (cases rule: cases) (auto simp: waiting_for_def dest: autoscaler_says_cases)
  show "cap_reason cap \<in> {ReasonCapacityUnavailable, ReasonPlacementUnsatisfiable}" if "cap_terminal cap"
    using that by (cases rule: cases) (auto simp: waiting_for_def dest: autoscaler_says_cases)
  show "\<exists>es e. e \<in> set es \<and> eo_reason e = ''NotTriggerScaleUp'' \<and>
        k_listEvents K h ns ''involvedObject.name'' (p_name p) = Inr es" if "cap_reason cap = ReasonCapacityUnavailable"
    using that by (cases rule: cases) (auto simp: waiting_for_def dest: autoscaler_says_cases)
  show "ps_nodeSelector (p_spec p) \<noteq> [] \<and> (\<exists>h0 nodes. k_listNodes K h0 = Inr nodes \<and>
        (\<forall>n \<in> set nodes. \<not> node_matches (ps_nodeSelector (p_spec p)) n))"
    if "cap_reason cap = ReasonPlacementUnsatisfiable"
    using that by (cases rule: cases) (auto simp: waiting_for_def list_ex_iff dest: autoscaler_says_cases)
qed

text \<open>
  the three answers on capacity are kept apart. For the first pod the selector lists:
  the answer is ready exactly when that pod has a node; a terminal answer is never ready, and is
  either the autoscaler's own refusal, found among the pod's events, or an unsatisfiable placement;
  and a placement is called unsatisfiable only when the pod names a selector and every node the
  cluster listed differs from it on some label. An assessment that fails is a failed listing of
  pods: unreadable events or nodes leave the pod waiting. Nothing is written.
\<close>

theorem AssessCapacity_sound:
  assumes "run_state (AssessCapacityBySelector K ns sel) h = (r, h')"
  shows "(\<exists>new. h' = h @ new \<and> list_all is_read new) \<and>
    (r = Inr cap \<longrightarrow>
      (cap_ready cap \<longleftrightarrow> (\<exists>p. first_pod K h ns sel = Some p \<and> has_node p)) \<and>
      (cap_terminal cap \<longrightarrow> \<not> cap_ready cap \<and> cap_reason cap \<in> {ReasonCapacityUnavailable, ReasonPlacementUnsatisfiable}) \<and>
      (cap_reason cap = ReasonCapacityUnavailable \<longrightarrow>
         (\<exists>p es e. first_pod K h ns sel = Some p \<and> e \<in> set es \<and> eo_reason e = ''NotTriggerScaleUp'' \<and>
            k_listEvents K (h @ [ListPods ns sel]) ns ''involvedObject.name'' (p_name p) = Inr es)) \<and>
      (cap_reason cap = ReasonPlacementUnsatisfiable \<longrightarrow>
         (\<exists>p nodes h0. first_pod K h ns sel = Some p \<and> k_listNodes K h0 = Inr nodes \<and> ps_nodeSelector (p_spec p) \<noteq> [] \<and>
            (\<forall>n \<in> set nodes. \<exists>(k, v) \<in> set (ps_nodeSelector (p_spec p)). mget n k \<noteq> v)))) \<and>
    (\<forall>e. r = Inl e \<longrightarrow> (\<exists>e0. k_listPods K h ns sel = Inl e0 \<and> err_kind e = err_kind e0))"
proof (cases "k_listPods K h ns sel")
  case (Inl e)
  with assms show ?thesis
    by (auto simp: AssessCapacityBySelector_def listPods_def)
next
  case (Inr pods)
  consider (none) "pods = []" | (node) p ps where "pods = p # ps" "has_node p"
    | (pending) p ps where "pods = p # ps" "\<not> has_node p"
    by (cases pods) auto
  then show ?thesis
  proof cases
    case none
    with assms Inr assess_no_pod show ?thesis
      by (auto simp: waiting_for_def first_pod_def)
  next
    case (node p ps)
    with assms Inr assess_has_node show ?thesis
      by (auto simp: scheduled_cap_def first_pod_def)
  next
    case (pending p ps)
    let ?cap = "pending_verdict K (h @ [ListPods ns sel]) ns p"
    have fp: "first_pod K h ns sel = Some p" using Inr pending by (simp add: first_pod_def)
    obtain new where "r = Inr ?cap" "h' = h @ new" "list_all is_read new"
      using assess_pending [of K h ns sel p ps] Inr pending assms by auto
    then show ?thesis
      using pending_verdict_facts [of K "h @ [ListPods ns sel]" ns p] fp pending(2)
      by (auto simp: node_matches_def list_all_iff) blast
  qed
qed

definition demo_pod :: pod where
  "demo_pod =
     \<lparr> p_name = ''p1'', p_generateName = [], p_ns = ''tenant-t'', p_labels = [], p_controller = None,
       p_deleting = False, p_spec = (j_podSpec demo_foreign_job)\<lparr>ps_nodeSelector := [(''workload-location'', ''home'')]\<rparr>,
       p_phase = ''Pending'', p_reason = [], p_conditions = [], p_initStatuses = [], p_statuses = [] \<rparr>"

definition demo_pending :: kube where
  "demo_pending = (demo_kube demo_ej 5)\<lparr>k_listPods := \<lambda>_ _ _. Inr [demo_pod],
     k_listNodes := \<lambda>_. Inr [[(''workload-location'', ''on-prem'')]]\<rparr>"

theorem AssessCapacity_sound_witness:
  "\<exists>cap h'. run_state (AssessCapacityBySelector demo_pending ''tenant-t'' []) [] = (Inr cap, h') \<and>
     cap_reason cap = ReasonPlacementUnsatisfiable \<and>
     (\<exists>p nodes h0. first_pod demo_pending [] ''tenant-t'' [] = Some p \<and> k_listNodes demo_pending h0 = Inr nodes \<and>
        (\<forall>n \<in> set nodes. \<exists>(k, v) \<in> set (ps_nodeSelector (p_spec p)). mget n k \<noteq> v))"
proof -
  obtain cap h' where run: "run_state (AssessCapacityBySelector demo_pending ''tenant-t'' []) [] = (Inr cap, h')"
    and reason: "cap_reason cap = ReasonPlacementUnsatisfiable"
    by (simp add: AssessCapacityBySelector_def io_defs demo_pending_def demo_pod_def podCondition_def
        noNodeMatchesSelector_def node_matches_def mget_def demo_kube_def)
  from AssessCapacity_sound [OF run, of cap] reason run show ?thesis by blast
qed

text \<open>
  A label a node does not carry counts as carried when the selector asks for the empty value, which
  both placement classes do for the worker role: a node without the role satisfies them.
\<close>

lemma node_without_role_matches:
  "node_matches (pm_nodeSelector (the (ResolvePlacement ''home''))) [(''workload-location'', ''on-prem'')] \<and>
   node_matches (pm_nodeSelector (the (ResolvePlacement ''burst''))) [(''workload-location'', ''hetzner'')]"
  by (simp add: node_matches_def ResolvePlacement_def placements_def mget_def)

subsection \<open>Waiting for capacity\<close>

fun is_delete :: "event \<Rightarrow> bool" where
  "is_delete (DeleteJob _ _ _ _) = True"
| "is_delete (DeletePod _ _ _) = True"
| "is_delete (DeleteEJ _ _ _) = True"
| "is_delete _ = False"

definition no_deletes :: "log \<Rightarrow> bool" where
  "no_deletes log \<longleftrightarrow> (\<forall>e \<in> set log. \<not> is_delete e)"

interpretation kept: log_invariant no_deletes
proof
  show "no_deletes [e]" if "is_read e" for e
    using that by (cases e) (simp_all add: no_deletes_def)
qed (auto simp: no_deletes_def)

lemma kept_update [keep]: "keeps no_deletes (updateStatus K ej)"
  by (rule keeps_single) (simp add: no_deletes_def)

lemma kept_provisioning:
  "keeps no_deletes (job_provisioning K R ej job cap)"
  "keeps no_deletes (over_budget K R ej2 cap \<bind> (\<lambda>ej. update_then K ej res))"
  unfolding job_provisioning_def write_and_requeue_def update_then_def updateServiceStatus_def by (intro keep)+

lemma overdue_run:
  "\<exists>r new. run_state (capacity_overdue K ej) h = (r, h @ new) \<and> no_deletes new \<and>
     (\<forall>w l. r = Some (w, l) \<longrightarrow> sp_capacityWaitSeconds (ej_spec ej) = Some l \<and> 0 < l \<and> w = time_sub (k_now K h) (ej_created ej) \<and>
        Seconds l < w)"
  by (auto simp: capacity_overdue_def io_defs no_deletes_def split: option.splits)

text \<open>
  waiting for capacity destroys nothing. Whatever the assessment said, a pass that waits, in
  either mode, deletes a Job or a pod only when the submitter set a capacity wait and a reading of
  the clock is past it; with no such bound it deletes nothing, however long it has waited.
\<close>

theorem waiting_deletes_nothing:
  assumes "int32_range (case sp_capacityWaitSeconds (ej_spec ej) of Some l \<Rightarrow> l | None \<Rightarrow> 0)"
    and "run_state m h = (res, h')"
    and "m = job_waiting K R ej job cap \<or> m = service_waiting K R ej pod cap"
    and "e \<in> set h'" and "e \<notin> set h" and "is_delete e"
  shows "\<exists>l. sp_capacityWaitSeconds (ej_spec ej) = Some l \<and> 0 < l \<and> ej_created ej + l * 10 ^ 9 < k_now K h"
proof -
  obtain r new where over: "run_state (capacity_overdue K ej) h = (r, h @ new)" and new: "no_deletes new"
    and r: "\<And>w l. r = Some (w, l) \<Longrightarrow> sp_capacityWaitSeconds (ej_spec ej) = Some l \<and> 0 < l \<and>
        w = time_sub (k_now K h) (ej_created ej) \<and> Seconds l < w"
    using overdue_run [of K ej h] by blast
  show ?thesis
  proof (cases r)
    case None
    have "run_state m h = run_state (job_provisioning K R ej job cap) (h @ new) \<or>
      run_state m h = run_state (over_budget K R (setPhase K ej PhaseProvisioning cap) cap \<bind>
        (\<lambda>ej. update_then K ej (after defaultRequeue))) (h @ new)"
      using assms(3) over None by (auto simp: job_waiting_def service_waiting_def)
    then have "\<exists>x rest. run_state m h = (x, (h @ new) @ rest) \<and> no_deletes rest"
      by (elim disjE; simp only:) (rule keepsE [OF kept_provisioning(1)], blast,
          rule keepsE [OF kept_provisioning(2)], blast)
    with assms(2,4-6) new show ?thesis by (auto simp: no_deletes_def)
  next
    case (Some wl)
    obtain w l where "wl = (w, l)" by force
    with r Some have l: "sp_capacityWaitSeconds (ej_spec ej) = Some l" "0 < l"
      and late: "Seconds l < time_sub (k_now K h) (ej_created ej)" by auto
    have "l * 10 ^ 9 < k_now K h - ej_created ej"
      using late assms(1) l(1) time_sub_less [of l] by simp
    with l show ?thesis by auto
  qed
qed

definition demo_waiter :: ephemeralJob where
  "demo_waiter = demo_ej\<lparr>ej_spec := demo_spec\<lparr>sp_capacityWaitSeconds := Some 10\<rparr>\<rparr>"

theorem waiting_deletes_nothing_witness:
  "\<exists>e l. is_delete e \<and>
     e \<in> set (snd (run_state (job_waiting (demo_kube demo_waiter (11 * 10 ^ 9)) demo_reconciler demo_waiter
                                demo_foreign_job (waiting_for [])) [])) \<and>
     sp_capacityWaitSeconds (ej_spec demo_waiter) = Some l \<and> ej_created demo_waiter + l * 10 ^ 9 < 11 * 10 ^ 9"
proof -
  let ?K = "demo_kube demo_waiter (11 * 10 ^ 9)"
  let ?m = "job_waiting ?K demo_reconciler demo_waiter demo_foreign_job (waiting_for [])"
  let ?h = "[Clock, DeleteJob ''tenant-t'' ''ej-r1'' Background None]"
  let ?fin = "ended (capacity_timed_out ?K demo_waiter (capacity_timeout_message ?K (11 * 10 ^ 9) 10 (waiting_for [])))"
  obtain x new where rest: "run_state ?fin ?h = (x, ?h @ new)"
    by (rule keepsE [OF once.keeps_ended [OF once.keeps_timed_out]])
  have "run_state ?m [] = run_state ?fin ?h"
    by (simp add: job_waiting_def capacity_overdue_def io_defs demo_waiter_def time_sub_def sat64_def Seconds_def
        wrap64_def demo_foreign_job_def IgnoreNotFound_def)
  with rest have run: "run_state ?m [] = (x, ?h @ new)" by simp
  have "\<exists>l. sp_capacityWaitSeconds (ej_spec demo_waiter) = Some l \<and> 0 < l \<and>
      ej_created demo_waiter + l * 10 ^ 9 < k_now ?K []"
    by (rule waiting_deletes_nothing [OF _ run, where e = "DeleteJob ''tenant-t'' ''ej-r1'' Background None"])
      (auto simp: demo_waiter_def int32_range_def)
  with run show ?thesis
    by (intro exI [of _ "DeleteJob ''tenant-t'' ''ej-r1'' Background None"]) auto
qed

end
