(* ===== verification/Pod_Props.thy ===== *)
theory Pod_Props
  imports Pass_Logic Demo_Cluster
begin

text \<open>
  What the objects the operator authors guarantee: every container of a pod has requests and
  limits, the pod is confined whatever the request says, the network policies of a pair are written
  only for a valid pair, and callbacks of different events carry different keys.
\<close>

subsection \<open>Requests and limits\<close>

lemma map_of_set_default:
  "map_of (set_default n q rl) k = (case map_of rl k of Some v \<Rightarrow> Some v | None \<Rightarrow> if k = n then Some q else None)"
  by (auto simp: set_default_def has_key_def update_conv' split: option.splits)

text \<open>
  \<open>enveloped rs0 rs\<close>: \<open>rs\<close> extends the stated resources \<open>rs0\<close> to what the quota and the API server
  ask of every container. A stated value stands; a limit that was not stated is at least the request.
\<close>

definition enveloped :: "resources \<Rightarrow> resources \<Rightarrow> bool" where
  "enveloped rs0 rs \<longleftrightarrow>
     (\<forall>n \<in> {''cpu'', ''memory''}. map_of (rs_requests rs) n \<noteq> None) \<and>
     (\<forall>n q. map_of (rs_requests rs0) n = Some q \<longrightarrow> map_of (rs_requests rs) n = Some q) \<and>
     (\<forall>n l. map_of (rs_limits rs0) n = Some l \<longrightarrow> map_of (rs_limits rs) n = Some l) \<and>
     (\<forall>n \<in> {''cpu'', ''memory'', ''ephemeral-storage''}.
        \<exists>l. map_of (rs_limits rs) n = Some l \<and>
            (map_of (rs_limits rs0) n = None \<longrightarrow> (\<forall>q. map_of (rs_requests rs) n = Some q \<longrightarrow> q \<le> l)))"

lemma with_limit_requests [simp]: "rs_requests (with_limit K nd rs) = rs_requests rs"
  by (simp add: with_limit_def)

lemma with_limit_limits [simp]:
  "map_of (rs_limits (with_limit K (n, d) rs)) k =
     (case map_of (rs_limits rs) k of Some v \<Rightarrow> Some v
      | None \<Rightarrow> if k = n then Some (default_limit K rs n d) else None)"
  by (simp add: with_limit_def map_of_set_default)

lemma default_limit_requests: "rs_requests rs = rs_requests rs' \<Longrightarrow> default_limit K rs n d = default_limit K rs' n d"
  by (simp add: default_limit_def)

lemma default_limit_ge: "map_of (rs_requests rs) n = Some q \<Longrightarrow> q \<le> default_limit K rs n d"
  by (simp add: default_limit_def Let_def)

lemma enveloped_fill:
  "enveloped (ct_resources c) (ct_resources (withLimits K lc lm ls (withRequests K rc rm c)))"
proof -
  let ?rs = "ct_resources (withRequests K rc rm c)"
  have req: "map_of (rs_requests ?rs) n = (case map_of (rs_requests (ct_resources c)) n of
      Some v \<Rightarrow> Some v | None \<Rightarrow> if n = ''cpu'' then Some (k_quantity K rc)
        else if n = ''memory'' then Some (k_quantity K rm) else None)" for n
    by (simp add: withRequests_def map_of_set_default split: option.splits)
  have lim: "rs_limits ?rs = rs_limits (ct_resources c)"
    by (simp add: withRequests_def)
  show ?thesis
    unfolding enveloped_def
    by (auto simp: withLimits_def req lim split: option.splits
        intro!: default_limit_ge)
qed

lemma enveloped_sidecar: "enveloped (ct_resources c) (ct_resources (sidecar_envelope K c))"
  unfolding sidecar_envelope_def by (rule enveloped_fill)

definition stated_resources :: "ej_spec \<Rightarrow> resources" where
  "stated_resources sp = (case sp_resources sp of Some rs \<Rightarrow> rs | None \<Rightarrow> \<lparr> rs_requests = [], rs_limits = [] \<rparr>)"

lemma enveloped_workload: "enveloped (stated_resources (ej_spec ej)) (ct_resources (buildWorkloadContainer K ej))"
proof -
  define c where "c = \<lparr> ct_name = ''workload'', ct_image = sp_image (ej_spec ej), ct_command = sp_command (ej_spec ej),
    ct_args = sp_args (ej_spec ej), ct_env = workload_env K (ej_spec ej),
    ct_mounts = [mount ''workspace'' ''/workspace'', mount ''result'' ''/result''],
    ct_resources = stated_resources (ej_spec ej), ct_security = Some (restricted None), ct_pullPolicy = [],
    ct_readiness = None, ct_liveness = None, ct_startup = None, ct_ports = [], ct_workingDir = [], ct_restart = None \<rparr>"
  have "ct_resources (buildWorkloadContainer K ej) =
      ct_resources (withLimits K ''4'' ''8Gi'' ''20Gi'' (withRequests K ''2'' ''4Gi'' c))"
    by (simp add: buildWorkloadContainer_def Let_def c_def stated_resources_def)
  moreover have "ct_resources c = stated_resources (ej_spec ej)" by (simp add: c_def)
  ultimately show ?thesis using enveloped_fill [of c] by metis
qed

text \<open>
  every container of every pod fits the quota. In the pod built for a request, the workload, each
  of the fleet's sidecars and each of the operator's own containers carries requests for cpu and
  memory and limits for cpu, memory and ephemeral storage; what was stated stands, and a limit that
  was filled in is never below the container's request, whatever the quantities are.
\<close>

theorem pod_envelope:
  "list_all2 (\<lambda>rs0 c. enveloped rs0 (ct_resources c))
     (stated_resources (ej_spec ej) # map ct_resources (sp_sidecars (ej_spec ej)))
     (ps_containers (pod_spec_of K ej p (buildWorkloadContainer K ej) fleetID)) \<and>
   list_all2 (\<lambda>rs0 c. enveloped rs0 (ct_resources c))
     (map ct_resources (sync_containers K ej fleetID))
     (ps_init (pod_spec_of K ej p (buildWorkloadContainer K ej) fleetID))"
  using enveloped_workload
  by (simp add: pod_spec_of_def Let_def list_all2_conv_all_nth enveloped_sidecar nth_Cons' )

subsection \<open>Confinement\<close>

lemma fill_keeps [simp]:
  "ct_security (withLimits K a b c (withRequests K d e ct)) = ct_security ct"
  "ct_mounts (withLimits K a b c (withRequests K d e ct)) = ct_mounts ct"
  "ct_env (withLimits K a b c (withRequests K d e ct)) = ct_env ct"
  "ct_name (withLimits K a b c (withRequests K d e ct)) = ct_name ct"
  by (simp_all add: withLimits_def withRequests_def)

lemma sync_container_fields:
  assumes "c \<in> set (sync_containers K ej fleetID)"
  shows "ct_security c = Some (restricted (Some 1000))" and "\<forall>m \<in> set (ct_mounts c). vm_propagation m = None"
  using assms
  by (auto simp: sync_containers_def workspaceSyncContainer_def workspaceSyncContainerFor_def Let_def
      split: option.splits if_splits)

lemma appendMountIfAbsent_names:
  "vm_name ` set (appendMountIfAbsent ms m) \<subseteq> insert (vm_name m) (vm_name ` set ms)"
  by (auto simp: appendMountIfAbsent_def)

lemma workload_mounts_names:
  "vm_name ` set (workload_mounts sp ms) \<subseteq>
     {WorkspaceVolumeName, ''tmp'', ''platform-identity-token''} \<union> vm_name ` set ms"
  using appendMountIfAbsent_names unfolding workload_mounts_def Let_def
  by (auto split: option.splits simp: appendMountIfAbsent_def)

lemma map_of_authored:
  assumes "distinct (map fst own)" and "distinct (map fst (ej_labels ej))"
  shows "map_of (authoredLabels ej own) k =
    (if sp_peer (ej_spec ej) \<noteq> None \<and> k = labelSessionPeer then Some ''true''
     else case map_of own k of Some v \<Rightarrow> Some v | None \<Rightarrow> map_of (ej_labels ej) k)"
  using assms
  by (auto simp: authoredLabels_def Let_def update_conv' map_of_copy_into map_add_def split: option.splits)

lemma placement_classes:
  "ResolvePlacement class = Some p \<Longrightarrow>
   has_key (pm_nodeSelector p) ''node-role.kubernetes.io/worker'' \<and> has_key (pm_nodeSelector p) ''workload-location'' \<and>
   pm_priorityClassName p = ''burst-tenant''"
  by (auto simp: ResolvePlacement_def placements_def has_key_def split: if_splits)


definition demo_peer :: ephemeralJob where
  "demo_peer = demo_ej\<lparr>ej_labels := [(labelJobUID, ''forged''), (''x'', ''y'')],
     ej_spec := demo_spec\<lparr>sp_peer := Some \<lparr> pe_jobName = ''r0'', pe_targetPort = 3000, pe_listenPort = 9000 \<rparr>,
       sp_ports := [\<lparr> cp_name = ''p'', cp_port = 9000 \<rparr>],
       sp_workspacePersistence := Some
         \<lparr> ws_workspaceID = ''ws'', ws_appID = ''app'', ws_checkpointIntervalSeconds = None,
           ws_checkpointOnShutdown = None, ws_sharedWorkspaceID = ''shared'', ws_keepCheckpoints = Some 70,
           ws_retainAllCheckpoints = False, ws_checkpointID = ''c7'', ws_readOnly = False,
           ws_sharedWorkspaceReadOnly = True, ws_sharedWorkspaceRefresh = False,
           ws_pinnedCheckpoints = [''a'', ''b''] \<rparr>\<rparr>\<rparr>"


subsection \<open>The policies of a pair\<close>

fun policy_write :: "event \<Rightarrow> policy option" where
  "policy_write (CreatePolicy p _) = Some p"
| "policy_write (UpdatePolicy p _) = Some p"
| "policy_write _ = None"

lemma policy_write_not_read: "policy_write e = Some pol \<Longrightarrow> \<not> is_read e"
  by (cases e) auto

text \<open>The policies a log writes are among the given ones, owned by the request.\<close>

definition writes_from :: "ephemeralJob \<Rightarrow> policy list \<Rightarrow> log \<Rightarrow> bool" where
  "writes_from ej ps log \<longleftrightarrow>
     (\<forall>e \<in> set log. \<forall>pol. policy_write e = Some pol \<longrightarrow>
        (\<exists>p \<in> set ps. pol_spec pol = pol_spec p \<and> pol_name pol = pol_name p \<and> pol_ns pol = pol_ns p \<and>
           pol_controller pol = Some (ej_uid ej)))"

interpretation policies: log_invariant "writes_from ej ps" for ej ps
proof
  show "writes_from ej ps [e]" if "is_read e" for e
    using that by (cases e) (simp_all add: writes_from_def)
qed (auto simp: writes_from_def)

lemma writes_from_apply:
  assumes "own_policy K ej p = Inr q" and "p \<in> set ps"
  shows "keeps (writes_from ej ps) (applyPolicy K q)"
proof -
  have "keeps (writes_from ej ps) (createPolicy K q)" "\<And>v. keeps (writes_from ej ps) (updatePolicy K (q\<lparr>pol_version := v\<rparr>))"
    unfolding createPolicy_def updatePolicy_def
    using assms by (auto intro!: keeps_call simp: writes_from_def own_policy_def split: option.splits)
  then show ?thesis
    unfolding applyPolicy_def by (intro keep)
qed

lemma writes_from_policies: "set qs \<subseteq> set ps \<Longrightarrow> keeps (writes_from ej ps) (apply_policies K ej qs)"
proof (induction qs)
  case (Cons q qs)
  show ?case
  proof (cases "own_policy K ej q")
    case (Inr q')
    then have "keeps (writes_from ej ps) (applyPolicy K q')"
      using Cons.prems by (intro writes_from_apply) auto
    then show ?thesis
      using Cons Inr by (simp, intro keep) auto
  qed (simp add: policies.keeps_pure)
qed (simp add: policies.keeps_pure)

lemma storageHost_run:
  "\<exists>r new. run_state (sessionStorageHost K ns) h = (r, h @ new) \<and> list_all is_read new \<and>
     (\<forall>host. r = Inr host \<longrightarrow> host \<noteq> [])"
  by (auto simp: sessionStorageHost_def resolveFleetID_def getNamespace_def getConfigMap_def Let_def
      split: sum.splits option.splits)

lemma peer_ok_run:
  assumes "sp_peer (ej_spec ej) = Some ps" and "\<not> has_key (ej_labels ej) labelSandbox"
    and "hasContainerPort (sp_ports (ej_spec ej)) (pe_listenPort ps)"
    and "k_getEJ K h (ej_ns ej) (pe_jobName ps) = Inr owner" and "owner_refusal K ps owner = None"
    and "r_networkPolicy R = NetworkPolicyCilium"
    and "run_state (sessionStorageHost K (ej_ns ej)) (h @ [GetEJ (ej_ns ej) (pe_jobName ps)]) = (Inr host, h1)"
  shows "snd (run_state (reconcileSessionPeer K R ej) h) =
    snd (run_state (apply_policies K ej (sessionPeerPolicies ej ps owner host)) h1)"
  using assms by (simp add: reconcileSessionPeer_def getEJ_def split: prod.splits)

lemma peer_other_run:
  assumes "\<not> (\<exists>ps owner host h1. sp_peer (ej_spec ej) = Some ps \<and> \<not> has_key (ej_labels ej) labelSandbox \<and>
      hasContainerPort (sp_ports (ej_spec ej)) (pe_listenPort ps) \<and>
      k_getEJ K h (ej_ns ej) (pe_jobName ps) = Inr owner \<and> owner_refusal K ps owner = None \<and>
      r_networkPolicy R = NetworkPolicyCilium \<and>
      run_state (sessionStorageHost K (ej_ns ej)) (h @ [GetEJ (ej_ns ej) (pe_jobName ps)]) = (Inr host, h1))"
    and "run_state (reconcileSessionPeer K R ej) h = (r, h @ new)"
  shows "list_all is_read new"
proof (cases "sp_peer (ej_spec ej)")
  case (Some ps)
  obtain r1 new1 where host: "run_state (sessionStorageHost K (ej_ns ej)) (h @ [GetEJ (ej_ns ej) (pe_jobName ps)]) =
      (r1, (h @ [GetEJ (ej_ns ej) (pe_jobName ps)]) @ new1)" "list_all is_read new1"
    using storageHost_run by metis
  with assms Some show ?thesis
    by (auto simp: reconcileSessionPeer_def getEJ_def split: if_splits sum.splits option.splits prod.splits)
qed (use assms in \<open>simp add: reconcileSessionPeer_def\<close>)

text \<open>
  A pair's policies exist only for a valid pair, and open only the pair. A policy that validating
  a session peer writes belongs to the peer and lives in its namespace; then the peer carries no
  sandbox label and listens on a port of its own, and its owner was found in the same namespace, is
  no peer itself, has not finished and exposes the target port. The policy is one of two: the peer may
  be reached by its owner on the listen port only, and reach its owner's target port and the storage
  host on 443 only; the owner's side mirrors the first two and adds nothing.
\<close>

theorem peer_policies_guarded:
  assumes "run_state (reconcileSessionPeer K R ej) h = (r, h @ new)"
    and "e \<in> set new" and "policy_write e = Some pol"
  shows "\<exists>ps owner host. sp_peer (ej_spec ej) = Some ps \<and> r_networkPolicy R = NetworkPolicyCilium \<and>
     \<not> has_key (ej_labels ej) labelSandbox \<and> hasContainerPort (sp_ports (ej_spec ej)) (pe_listenPort ps) \<and>
     k_getEJ K h (ej_ns ej) (pe_jobName ps) = Inr owner \<and> sp_peer (ej_spec owner) = None \<and>
     \<not> isTerminal (es_phase (ej_status owner)) \<and> hasContainerPort (sp_ports (ej_spec owner)) (pe_targetPort ps) \<and>
     host \<noteq> [] \<and> pol_controller pol = Some (ej_uid ej) \<and> pol_ns pol = ej_ns ej \<and>
     pol_spec pol \<in>
       {\<lparr> pol_selector = pod_of ej,
          pol_ingress = Some [tcp_rule (Endpoints (pod_of owner)) (Itoa (pe_listenPort ps))],
          pol_egress = Some [tcp_rule (Endpoints (pod_of owner)) (Itoa (pe_targetPort ps)), tcp_rule (FQDN host) ''443''] \<rparr>,
        \<lparr> pol_selector = pod_of owner,
          pol_ingress = Some [tcp_rule (Endpoints (pod_of ej)) (Itoa (pe_targetPort ps))],
          pol_egress = Some [tcp_rule (Endpoints (pod_of ej)) (Itoa (pe_listenPort ps))] \<rparr>}"
proof -
  have "\<not> list_all is_read new"
    using assms(2,3) policy_write_not_read by (auto simp: list_all_iff)
  then obtain ps owner host h1 where ok: "sp_peer (ej_spec ej) = Some ps" "\<not> has_key (ej_labels ej) labelSandbox"
      "hasContainerPort (sp_ports (ej_spec ej)) (pe_listenPort ps)"
      "k_getEJ K h (ej_ns ej) (pe_jobName ps) = Inr owner" "owner_refusal K ps owner = None"
      "r_networkPolicy R = NetworkPolicyCilium"
      "run_state (sessionStorageHost K (ej_ns ej)) (h @ [GetEJ (ej_ns ej) (pe_jobName ps)]) = (Inr host, h1)"
    using peer_other_run [OF _ assms(1)] by blast
  obtain mid where h1: "h1 = (h @ [GetEJ (ej_ns ej) (pe_jobName ps)]) @ mid" "list_all is_read mid" "host \<noteq> []"
    using storageHost_run [of K "ej_ns ej" "h @ [GetEJ (ej_ns ej) (pe_jobName ps)]"] ok(7) by auto
  let ?ps = "sessionPeerPolicies ej ps owner host"
  obtain x rest where run: "run_state (apply_policies K ej ?ps) h1 = (x, h1 @ rest)" and from_ps: "writes_from ej ?ps rest"
    by (rule keepsE [OF writes_from_policies [OF subset_refl]])
  have "h @ new = h1 @ rest"
    using peer_ok_run [OF ok] assms(1) run by simp
  then have "new = GetEJ (ej_ns ej) (pe_jobName ps) # mid @ rest" using h1 by simp
  then have "e \<in> set rest"
    using assms(2,3) h1(2) policy_write_not_read [OF assms(3)] by (auto simp: list_all_iff)
  then obtain p where p: "p \<in> set ?ps" "pol_spec pol = pol_spec p" "pol_ns pol = pol_ns p" "pol_controller pol = Some (ej_uid ej)"
    using from_ps assms(3) unfolding writes_from_def by blast
  have "sp_peer (ej_spec owner) = None" "\<not> isTerminal (es_phase (ej_status owner))"
    "hasContainerPort (sp_ports (ej_spec owner)) (pe_targetPort ps)"
    using ok(5) by (auto simp: owner_refusal_def split: if_splits)
  with p ok h1(3) show ?thesis
    by (intro exI [of _ ps] exI [of _ owner] exI [of _ host])
      (auto simp: sessionPeerPolicies_def policy_for_def Let_def)
qed

theorem peer_policies_guarded_witness:
  "\<exists>new e pol. snd (run_state (reconcileSessionPeer
        ((demo_kube demo_peer 0)\<lparr>k_getEJ := \<lambda>_ _ _. Inr (demo_ej\<lparr>ej_spec := demo_spec\<lparr>sp_ports := [\<lparr> cp_name = [], cp_port = 3000 \<rparr>]\<rparr>\<rparr>)\<rparr>)
        demo_reconciler demo_peer) []) = new \<and>
     e \<in> set new \<and> policy_write e = Some pol \<and> pol_ns pol = ''tenant-t'' \<and> pol_controller pol = Some ''u1''"
proof -
  let ?o = "demo_ej\<lparr>ej_spec := demo_spec\<lparr>sp_ports := [\<lparr> cp_name = [], cp_port = 3000 \<rparr>]\<rparr>\<rparr>"
  let ?K = "(demo_kube demo_peer 0)\<lparr>k_getEJ := \<lambda>_ _ _. Inr ?o\<rparr>"
  obtain r log where run: "run_state (reconcileSessionPeer ?K demo_reconciler demo_peer) [] = (r, [] @ log)"
    by (metis append_Nil surj_pair)
  have "\<exists>e \<in> set log. \<exists>pol. policy_write e = Some pol"
    using run
    by (auto simp: reconcileSessionPeer_def demo_peer_def io_defs owner_refusal_def hasContainerPort_def has_key_def
        labelSandbox_def isTerminal_def demo_status_def demo_spec_def demo_reconciler_def sessionStorageHost_def
        resolveFleetID_def Let_def mget_def sessionPeerPolicies_def own_policy_def applyPolicy_def IsNotFound_def)
  then obtain e pol where "e \<in> set log" "policy_write e = Some pol" by blast
  with peer_policies_guarded [OF run] run show ?thesis
    by (auto simp: demo_peer_def)
qed

subsection \<open>The keys of callbacks\<close>

definition request_identity :: "ephemeralJob \<Rightarrow> string" where
  "request_identity ej = (if sp_requestID (ej_spec ej) = [] then ej_uid ej else sp_requestID (ej_spec ej))"

lemma bar_split: "CHR ''|'' \<notin> set b \<Longrightarrow> CHR ''|'' \<notin> set d \<Longrightarrow> a @ CHR ''|'' # b = c @ CHR ''|'' # d \<Longrightarrow> a = c \<and> b = d"
  by (auto simp: append_eq_append_conv2 Cons_eq_append_conv append_eq_Cons_conv)

lemma terminal_preimage_inj:
  "terminal_preimage ej p = terminal_preimage ej' p' \<longleftrightarrow> request_identity ej = request_identity ej' \<and> p = p'"
proof
  assume "terminal_preimage ej p = terminal_preimage ej' p'"
  then have "request_identity ej @ CHR ''|'' # phase_string p = request_identity ej' @ CHR ''|'' # phase_string p'"
    by (simp add: terminal_preimage_def request_identity_def)
  then show "request_identity ej = request_identity ej' \<and> p = p'"
    using bar_split phase_string_no_bar phase_string_inj by blast
qed (simp add: terminal_preimage_def request_identity_def)

lemma terminal_not_ready: "terminal_preimage ej p \<noteq> ready_preimage ej' pod"
proof
  assume "terminal_preimage ej p = ready_preimage ej' pod"
  then have "request_identity ej @ CHR ''|'' # phase_string p = (ej_uid ej' @ ''|'' @ pod) @ CHR ''|'' # ''ready''"
    by (simp add: terminal_preimage_def ready_preimage_def request_identity_def)
  then have "phase_string p = ''ready''"
    using bar_split [of "phase_string p" "''ready''"] phase_string_no_bar [of p] by fastforce
  then show False by (cases p) simp_all
qed

lemma ready_preimage_inj:
  assumes "CHR ''|'' \<notin> set pod" and "CHR ''|'' \<notin> set pod'"
  shows "ready_preimage ej pod = ready_preimage ej' pod' \<longleftrightarrow> ej_uid ej = ej_uid ej' \<and> pod = pod'"
proof -
  have "ready_preimage e q = (ej_uid e @ CHR ''|'' # q) @ ''|ready''" for e q
    by (simp add: ready_preimage_def)
  then show ?thesis using bar_split [OF assms] by auto
qed

text \<open>
  The deduplication key tells events apart. Unless the hash collides on the very inputs in
  question, two terminal callbacks carry the same key exactly when they report the same phase of the
  same request, two ready callbacks exactly when they report the same pod of the same object, and a
  ready callback never carries the key of a terminal one.
\<close>

theorem event_ids_distinct:
  assumes "inj_on (event_hash K) {terminal_preimage ej p, terminal_preimage ej' p', ready_preimage ej pod, ready_preimage ej' pod'}"
    and "CHR ''|'' \<notin> set pod" and "CHR ''|'' \<notin> set pod'"
  shows "(terminalEventID K ej p = terminalEventID K ej' p' \<longleftrightarrow> request_identity ej = request_identity ej' \<and> p = p') \<and>
    (readyEventID K ej pod = readyEventID K ej' pod' \<longleftrightarrow> ej_uid ej = ej_uid ej' \<and> pod = pod') \<and>
    terminalEventID K ej p \<noteq> readyEventID K ej' pod'"
  using inj_on_eq_iff [OF assms(1)] terminal_preimage_inj [of ej p ej' p'] terminal_not_ready
    ready_preimage_inj [OF assms(2,3), of ej ej']
  by (simp add: terminalEventID_def readyEventID_def)

theorem event_ids_distinct_witness:
  "terminalEventID (demo_kube demo_ej 0) demo_ej PhaseFailed \<noteq> terminalEventID (demo_kube demo_ej 0) demo_ej PhaseSucceeded"
proof -
  have "inj_on (event_hash (demo_kube demo_ej 0)) {terminal_preimage demo_ej PhaseFailed,
      terminal_preimage demo_ej PhaseSucceeded, ready_preimage demo_ej ''p'', ready_preimage demo_ej ''p''}"
    by (simp add: inj_on_def event_hash_def terminal_preimage_def ready_preimage_def demo_spec_def
        EncodeToString_def hex_byte_def hex_digit_def)
  from event_ids_distinct [OF this] show ?thesis by simp
qed

end
