(* ===== verification/Sidecar_Contract.thy ===== *)
theory Sidecar_Contract
  imports Pod_Props Workspace_Server
begin

text \<open>
  The operator and the sidecar meet in environment variables: \<open>workspaceSyncContainerFor\<close> writes
  them, \<open>FromEnv\<close> and the server read them. This theory composes the two models.
\<close>

subsection \<open>The environment of a container\<close>

text \<open>
  What a process of the container reads for a variable: the kubelet resolves a reference to its
  value, the empty string when an optional one is missing, and a later entry of a name wins.
\<close>

definition env_value :: "(env_source \<Rightarrow> string) \<Rightarrow> env_var \<Rightarrow> string" where
  "env_value refs e = (case ev_from e of None \<Rightarrow> ev_value e | Some s \<Rightarrow> refs s)"

definition container_env :: "(env_source \<Rightarrow> string) \<Rightarrow> env_var list \<Rightarrow> string \<Rightarrow> string" where
  "container_env refs vars v =
     (case List.find (\<lambda>e. ev_name e = v) (rev vars) of Some e \<Rightarrow> env_value refs e | None \<Rightarrow> [])"

lemma find_append: "List.find P (xs @ ys) = (case List.find P xs of Some x \<Rightarrow> Some x | None \<Rightarrow> List.find P ys)"
  by (induction xs) auto

lemma find_None: "List.find P xs = None \<longleftrightarrow> \<not> list_ex P xs"
  by (induction xs) auto

lemma find_rev_distinct:
  "distinct (map ev_name vars) \<Longrightarrow> List.find (\<lambda>e. ev_name e = v) (rev vars) = List.find (\<lambda>e. ev_name e = v) vars"
proof (induction vars)
  case (Cons e es)
  have "List.find (\<lambda>e. ev_name e = v) es = None" if "ev_name e = v"
    using Cons.prems that by (auto simp: find_None list_ex_iff image_iff)
  with Cons show ?case by (auto simp: find_append split: option.splits)
qed simp

lemma container_env_distinct:
  "distinct (map ev_name vars) \<Longrightarrow>
   container_env refs vars v = (case List.find (\<lambda>e. ev_name e = v) vars of Some e \<Rightarrow> env_value refs e | None \<Rightarrow> [])"
  by (simp add: container_env_def find_rev_distinct)

lemma conditional_entry:
  "List.find P (if c then [e] else []) = (if c \<and> P e then Some e else None)"
  "ev_name ` set (if c then [e] else []) = (if c then {ev_name e} else {})"
  "map ev_name (if c then [e] else []) = (if c then [ev_name e] else [])"
  by simp_all

text \<open>The optional entries as a list of conditional ones.\<close>

definition periodic :: "workspace_spec \<Rightarrow> bool" where
  "periodic ws = (case ws_checkpointIntervalSeconds ws of Some n \<Rightarrow> 0 < n | None \<Rightarrow> False)"

lemma sync_optional_env_conditional:
  "sync_optional_env ws t =
     (if ws_checkpointID ws \<noteq> [] then [plain_env ''CHECKPOINT_ID'' (ws_checkpointID ws)] else []) @
     (if ws_readOnly ws \<or> tg_readOnly t then [plain_env ''WORKSPACE_READ_ONLY'' ''true''] else []) @
     (if tg_refresh t then [plain_env ''WORKSPACE_REFRESH'' ''true''] else []) @
     [plain_env ''WORKSPACE_NO_ARCHIVE'' ''true''] @
     (if ws_checkpointOnShutdown ws = Some False then [plain_env ''WORKSPACE_SYNC_TEARDOWN'' ''false''] else []) @
     (if periodic ws
      then [plain_env ''WORKSPACE_SYNC_INTERVAL_SECONDS'' (Itoa (the (ws_checkpointIntervalSeconds ws)))] else []) @
     (if ws_pinnedCheckpoints ws \<noteq> [] then [plain_env ''PINNED_CHECKPOINTS'' (Join (ws_pinnedCheckpoints ws) '','')] else [])"
  unfolding sync_optional_env_def
  by (cases "ws_checkpointOnShutdown ws"; cases "ws_checkpointIntervalSeconds ws") (auto simp: periodic_def split: bool.split)

definition sidecar_env :: "kube \<Rightarrow> (env_source \<Rightarrow> string) \<Rightarrow> workspace_spec \<Rightarrow> string \<Rightarrow> string \<Rightarrow> sync_target \<Rightarrow> string \<Rightarrow> string" where
  "sidecar_env K refs ws namespace fleetID t =
     container_env refs (ct_env (workspaceSyncContainerFor K ws (resolveKeepCheckpoints (Some ws)) namespace fleetID t))"

lemma sync_env_distinct: "distinct (map ev_name (ct_env (workspaceSyncContainerFor K ws keep ns fleetID t)))"
  by (simp add: workspaceSyncContainerFor_def sync_optional_env_conditional sync_base_env_def Let_def conditional_entry
      del: set_map image_set)

lemma sidecar_env_lookups:
  fixes K refs ws ns fleetID t
  defines "env \<equiv> sidecar_env K refs ws ns fleetID t"
  shows "env ''WORKSPACE_ID'' = tg_workspaceID t"
    and "env ''STAGING_ROOT'' = tg_staging t"
    and "env ''WORKSPACE_SYNC_PORT'' = tg_port t"
    and "env ''WORKSPACE_ROOT'' = tg_root t"
    and "env ''APP_ID'' = ws_appID ws"
    and "env ''WORKSPACE_UID'' = ''1000''"
    and "env ''KEEP_CHECKPOINTS'' = keepCheckpointsEnv (resolveKeepCheckpoints (Some ws))"
    and "env ''CHECKPOINT_ID'' = ws_checkpointID ws"
    and "env ''WORKSPACE_READ_ONLY'' = (if ws_readOnly ws \<or> tg_readOnly t then ''true'' else [])"
    and "env ''WORKSPACE_REFRESH'' = (if tg_refresh t then ''true'' else [])"
    and "env ''WORKSPACE_NO_ARCHIVE'' = ''true''"
    and "env ''WORKSPACE_SYNC_TEARDOWN'' = (if ws_checkpointOnShutdown ws = Some False then ''false'' else [])"
    and "env ''WORKSPACE_SYNC_INTERVAL_SECONDS'' = (if periodic ws
           then Itoa (the (ws_checkpointIntervalSeconds ws)) else [])"
    and "env ''PINNED_CHECKPOINTS'' = Join (ws_pinnedCheckpoints ws) '',''"
    and "env ''S3_ENDPOINT_URL'' = refs (ConfigMapKeyRef (resolveWorkspaceSyncConfig K ns fleetID) ''S3_ENDPOINT_URL'' True)"
    and "env ''S3_BUCKET_NAME'' = refs (ConfigMapKeyRef (resolveWorkspaceSyncConfig K ns fleetID) ''S3_BUCKET_NAME'' True)"
    and "env ''S3_ACCESS_KEY_ID'' = refs (SecretKeyRef (resolveWorkspaceSyncSecret K ns fleetID) ''S3_ACCESS_KEY_ID'' True)"
    and "env ''S3_SECRET_ACCESS_KEY'' = refs (SecretKeyRef (resolveWorkspaceSyncSecret K ns fleetID) ''S3_SECRET_ACCESS_KEY'' True)"
  unfolding env_def sidecar_env_def container_env_distinct [OF sync_env_distinct]
  by (simp_all add: workspaceSyncContainerFor_def sync_optional_env_conditional sync_base_env_def Let_def find_append
      conditional_entry env_value_def)


subsection \<open>The contract\<close>

lemma splitList_Join:
  assumes "\<forall>p \<in> set ps. p \<noteq> [] \<and> CHR '','' \<notin> set p \<and> (\<forall>c \<in> set p. \<not> is_space c)"
  shows "splitList (Join ps '','') = ps"
proof (cases "ps = []")
  case False
  have comma: "\<not> is_space CHR '',''" by (simp add: is_space_def)
  have "\<forall>c \<in> set (Join ps '',''). \<not> is_space c"
    using assms comma by (induction ps "'',''" rule: Join.induct) auto
  moreover have "Join ps '','' \<noteq> []"
    using False assms by (induction ps "'',''" rule: Join.induct) auto
  ultimately have "TrimSpace (Join ps '','') \<noteq> []" by (simp add: TrimSpace_id)
  moreover have "split_on CHR '','' (Join ps '','') = ps"
    using False assms by (intro split_on_Join) auto
  moreover have "map TrimSpace ps = ps"
    using assms by (intro map_idI) (simp add: TrimSpace_id)
  moreover have "filter (\<lambda>p. p \<noteq> []) ps = ps"
    using assms by (simp add: filter_id_conv)
  ultimately show ?thesis by (simp add: splitList_def)
qed (simp add: splitList_def TrimSpace_def)

lemma FromEnv_fields:
  assumes "FromEnv env = Inr cfg"
  shows "c_workspaceID cfg = env ''WORKSPACE_ID''" and "c_appID cfg = env ''APP_ID''"
    and "c_staging cfg = (if env ''STAGING_ROOT'' = [] then ''/ws-staging'' else env ''STAGING_ROOT'')"
    and "c_keepCheckpoints cfg = keep_from_env (env ''KEEP_CHECKPOINTS'')"
    and "c_checkpointID cfg = env ''CHECKPOINT_ID''" and "c_readOnly cfg = (env ''WORKSPACE_READ_ONLY'' = ''true'')"
    and "c_noArchive cfg = (env ''WORKSPACE_NO_ARCHIVE'' = ''true'')"
    and "c_pinnedCheckpoints cfg = splitList (env ''PINNED_CHECKPOINTS'')"
  using assms by (auto simp: FromEnv_def Let_def split: if_splits)

lemma Atoi_1000: "Atoi ''1000'' = Some 1000"
  by (simp add: Atoi_def parse_nat_def digit_val_def in_int64_def int64_range_def Let_def)

definition kept_checkpoints :: "workspace_spec \<Rightarrow> int" where
  "kept_checkpoints ws =
     (if ws_retainAllCheckpoints ws then -1
      else case ws_keepCheckpoints ws of None \<Rightarrow> 5 | Some n \<Rightarrow> max 1 (min 50 n))"

lemma keep_round_trip:
  "keep_from_env (keepCheckpointsEnv (resolveKeepCheckpoints (Some ws))) = kept_checkpoints ws"
proof -
  let ?n = "resolveKeepCheckpoints (Some ws)"
  have n: "ws_retainAllCheckpoints ws \<or> 1 \<le> ?n \<and> ?n \<le> 50"
    by (auto simp: resolveKeepCheckpoints_def minKeepCheckpoints_def maxKeepCheckpoints_def
        crdDefaultKeepCheckpoints_def split: option.splits)
  show ?thesis
  proof (cases "ws_retainAllCheckpoints ws")
    case True
    then show ?thesis
      by (simp add: keepCheckpointsEnv_def resolveKeepCheckpoints_def unboundedKeepCheckpoints_def keep_from_env_def
          kept_checkpoints_def UnboundedKeepCheckpoints_def)
  next
    case False
    with n have b: "1 \<le> ?n" "?n \<le> 50" by auto
    have at: "Atoi (Itoa ?n) = Some ?n"
      using b by (intro Atoi_Itoa) (simp add: int64_range_def)
    have "Itoa ?n \<noteq> []" "Itoa ?n \<noteq> ''unbounded''"
      using at b by (auto simp: Atoi_def parse_nat_def digit_val_def Let_def)
    with at b have "keep_from_env (keepCheckpointsEnv ?n) = ?n"
      by (simp add: keepCheckpointsEnv_def unboundedKeepCheckpoints_def keep_from_env_def)
    moreover have "?n = kept_checkpoints ws"
      using False by (auto simp: resolveKeepCheckpoints_def kept_checkpoints_def minKeepCheckpoints_def
          maxKeepCheckpoints_def crdDefaultKeepCheckpoints_def split: option.splits)
    ultimately show ?thesis by simp
  qed
qed


definition demo_ws :: workspace_spec where
  "demo_ws = the (sp_workspacePersistence (ej_spec demo_peer))"


text \<open>
  Both instances get the checkpoint the spec names: the one of the shared workspace is told to restore
  a checkpoint of the session's.
\<close>

lemma shared_instance_gets_session_checkpoint:
  "sidecar_env K refs ws ns fleetID (shared_target ws) ''CHECKPOINT_ID'' = ws_checkpointID ws"
  by (rule sidecar_env_lookups)

end
