(* ===== verification/Base64URL.thy ===== *)
theory Base64URL
  imports Go_Numbers
begin

text \<open>
  \<^verbatim>\<open>base64.RawURLEncoding\<close>: the URL alphabet without padding. The decoder is Go's default one: it
  skips carriage returns and line feeds, refuses every other character outside the alphabet and a
  final group of one character, and does not look at the unused low bits of a final group. The
  lemmas give the round trip and the characters an encoding can contain.
\<close>

definition b64_char :: "nat \<Rightarrow> char" where
  "b64_char n =
     char_of (if n < 26 then 65 + n else if n < 52 then 71 + n else if n < 62 then n - 4
              else if n = 62 then 45 else 95)"

definition b64_val :: "char \<Rightarrow> nat option" where
  "b64_val c =
     (let n = of_char c in
      if 65 \<le> n \<and> n \<le> 90 then Some (n - 65)
      else if 97 \<le> n \<and> n \<le> 122 then Some (n - 71)
      else if 48 \<le> n \<and> n \<le> 57 then Some (n + 4)
      else if n = 45 then Some 62
      else if n = 95 then Some 63
      else None)"

abbreviation byte :: "char \<Rightarrow> nat" where
  "byte c \<equiv> of_char c"

fun RawURL_Encode :: "string \<Rightarrow> string" where
  "RawURL_Encode [] = []"
| "RawURL_Encode [a] = [b64_char (byte a div 4), b64_char (byte a mod 4 * 16)]"
| "RawURL_Encode [a, b] =
     [b64_char (byte a div 4), b64_char (byte a mod 4 * 16 + byte b div 16), b64_char (byte b mod 16 * 4)]"
| "RawURL_Encode (a # b # c # s) =
     b64_char (byte a div 4) # b64_char (byte a mod 4 * 16 + byte b div 16) #
     b64_char (byte b mod 16 * 4 + byte c div 64) # b64_char (byte c mod 64) # RawURL_Encode s"

fun b64_groups :: "nat list \<Rightarrow> string option" where
  "b64_groups [] = Some []"
| "b64_groups [_] = None"
| "b64_groups [p, q] = Some [char_of (p * 4 + q div 16)]"
| "b64_groups [p, q, r] = Some [char_of (p * 4 + q div 16), char_of (q mod 16 * 16 + r div 4)]"
| "b64_groups (p # q # r # t # vs) =
     map_option (\<lambda>s. char_of (p * 4 + q div 16) # char_of (q mod 16 * 16 + r div 4) #
                      char_of (r mod 4 * 64 + t) # s) (b64_groups vs)"

fun b64_vals :: "string \<Rightarrow> nat list option" where
  "b64_vals [] = Some []"
| "b64_vals (c # cs) =
     (case b64_val c of None \<Rightarrow> None | Some v \<Rightarrow> map_option ((#) v) (b64_vals cs))"

definition is_newline :: "char \<Rightarrow> bool" where
  "is_newline c \<longleftrightarrow> byte c = 10 \<or> byte c = 13"

definition RawURL_Decode :: "string \<Rightarrow> string option" where
  "RawURL_Decode s = Option.bind (b64_vals (filter (\<lambda>c. \<not> is_newline c) s)) b64_groups"

subsection \<open>Round trip\<close>

lemma byte_less: "byte c < 256"
  by (rule of_char_less_256)

lemma byte_b64_char:
  "n < 64 \<Longrightarrow> byte (b64_char n) =
     (if n < 26 then 65 + n else if n < 52 then 71 + n else if n < 62 then n - 4 else if n = 62 then 45 else 95)"
  by (simp add: b64_char_def)

lemma b64_val_char [simp]: "n < 64 \<Longrightarrow> b64_val (b64_char n) = Some n"
  by (auto simp: b64_val_def Let_def byte_b64_char)

definition b64_alphabet :: "char \<Rightarrow> bool" where
  "b64_alphabet c \<longleftrightarrow> b64_val c \<noteq> None"

lemma b64_alphabet_char [simp]: "n < 64 \<Longrightarrow> b64_alphabet (b64_char n)"
  by (simp add: b64_alphabet_def)

lemma byte_parts [simp]:
  "byte c div 4 < 64" "byte c div 16 < 16" "byte c div 64 < 4"
  "byte c div 16 div 16 = 0" "byte c div 64 div 4 = 0"
  "byte c div 16 mod 16 = byte c div 16" "byte c div 64 mod 4 = byte c div 64"
  using byte_less [of c] by (simp_all add: div_less_iff_less_mult div_mult2_eq [symmetric])

lemma sextets [simp]:
  fixes m n :: nat
  shows "m mod 4 * 16 < 64" and "n < 16 \<Longrightarrow> m mod 4 * 16 + n < 64"
    and "m mod 16 * 4 < 64" and "n < 4 \<Longrightarrow> m mod 16 * 4 + n < 64"
proof -
  have "m mod 4 < 4" and "m mod 16 < 16" by simp_all
  then show "m mod 4 * 16 < 64" and "n < 16 \<Longrightarrow> m mod 4 * 16 + n < 64"
    and "m mod 16 * 4 < 64" and "n < 4 \<Longrightarrow> m mod 16 * 4 + n < 64" by linarith+
qed

lemma RawURL_Encode_alphabet: "c \<in> set (RawURL_Encode s) \<Longrightarrow> b64_alphabet c"
  by (induction s rule: RawURL_Encode.induct) auto

lemma b64_alphabetD: "b64_alphabet c \<Longrightarrow> byte c \<in> {65..90} \<union> {97..122} \<union> {48..57} \<union> {45, 95}"
  by (auto simp: b64_alphabet_def b64_val_def Let_def split: if_splits)

lemma RawURL_Encode_no_newline: "c \<in> set (RawURL_Encode s) \<Longrightarrow> \<not> is_newline c"
  by (drule RawURL_Encode_alphabet, drule b64_alphabetD) (auto simp: is_newline_def)

lemma RawURL_Encode_no_dot: "CHR ''.'' \<notin> set (RawURL_Encode s)"
  by (auto dest!: RawURL_Encode_alphabet b64_alphabetD)

lemma b64_vals_groups: "Option.bind (b64_vals (RawURL_Encode s)) b64_groups = Some s"
  by (induction s rule: RawURL_Encode.induct)
     (auto simp: Option.bind_map_option comp_def split: Option.bind_splits)

text \<open>What was encoded is decoded back.\<close>

lemma RawURL_roundtrip [simp]: "RawURL_Decode (RawURL_Encode s) = Some s"
  by (simp add: RawURL_Decode_def filter_id_conv RawURL_Encode_no_newline b64_vals_groups)

lemma RawURL_Encode_inject [simp]: "RawURL_Encode s = RawURL_Encode t \<longleftrightarrow> s = t"
  by (metis RawURL_roundtrip option.inject)

end
