(* ===== verification/Go_HTTP.thy ===== *)
theory Go_HTTP
  imports Kube_API Base64URL
begin

text \<open>
  What the preview gateway uses of \<^verbatim>\<open>net/http\<close>, \<^verbatim>\<open>net/url\<close> and \<^verbatim>\<open>net\<close>: header maps, requests and
  responses, how a server reads a cookie from a request and prints one, the host of a connection's
  address, query escaping.
\<close>

subsection \<open>Headers and requests\<close>

text \<open>A header maps a canonical name to its values, in order.\<close>

type_synonym header = "string list gomap"

definition Header_Values :: "header \<Rightarrow> string \<Rightarrow> string list" where
  "Header_Values h k = (case map_of h k of Some vs \<Rightarrow> vs | None \<Rightarrow> [])"

definition Header_Get :: "header \<Rightarrow> string \<Rightarrow> string" where
  "Header_Get h k = (case Header_Values h k of [] \<Rightarrow> [] | v # _ \<Rightarrow> v)"

definition Header_Set :: "string \<Rightarrow> string \<Rightarrow> header \<Rightarrow> header" where
  "Header_Set k v h = AList.update k [v] h"

definition Header_Add :: "string \<Rightarrow> string \<Rightarrow> header \<Rightarrow> header" where
  "Header_Add k v h = AList.update k (Header_Values h k @ [v]) h"

definition Header_Del :: "string \<Rightarrow> header \<Rightarrow> header" where
  "Header_Del k h = AList.delete k h"

lemma Header_Values_Set [simp]: "Header_Values (Header_Set k v h) j = (if j = k then [v] else Header_Values h j)"
  by (simp add: Header_Values_def Header_Set_def update_conv')

lemma Header_Values_Add [simp]:
  "Header_Values (Header_Add k v h) j = (if j = k then Header_Values h k @ [v] else Header_Values h j)"
  by (simp add: Header_Values_def Header_Add_def update_conv')

lemma Header_Values_Del [simp]: "Header_Values (Header_Del k h) j = (if j = k then [] else Header_Values h j)"
  by (simp add: Header_Values_def Header_Del_def delete_conv')

text \<open>A request as the server hands it to a handler: the URL's path, and its query, are decoded.\<close>

record request =
  rq_method :: string
  rq_host :: string
  rq_remote :: string
  rq_path :: string
  rq_query :: smap
  rq_headers :: header
  rq_body :: string

subsection \<open>Reading a cookie\<close>

text \<open>\<^verbatim>\<open>textproto.TrimString\<close>: space, tab, line feed and carriage return.\<close>

definition is_http_space :: "char \<Rightarrow> bool" where
  "is_http_space c \<longleftrightarrow> byte c \<in> {32, 9, 10, 13}"

definition TrimString :: "string \<Rightarrow> string" where
  "TrimString s = rev (dropWhile is_http_space (rev (dropWhile is_http_space s)))"

definition validCookieValueByte :: "char \<Rightarrow> bool" where
  "validCookieValueByte c \<longleftrightarrow>
     32 \<le> byte c \<and> byte c < 127 \<and> c \<noteq> CHR 0x22 \<and> c \<noteq> CHR '';'' \<and> c \<noteq> CHR 0x5C"

definition parseCookieValue :: "string \<Rightarrow> string option" where
  "parseCookieValue raw =
     (let v = (if length raw > 1 \<and> hd raw = CHR 0x22 \<and> last raw = CHR 0x22 then butlast (tl raw) else raw)
      in if list_all validCookieValueByte v then Some v else None)"

text \<open>One part of a \<^verbatim>\<open>Cookie\<close> line: the value it gives the cookie \<open>name\<close>, if it does.\<close>

definition cookie_in_part :: "string \<Rightarrow> string \<Rightarrow> string option" where
  "cookie_in_part name part =
     (case Cut (TrimString part) (CHR ''='') of (n, v, _) \<Rightarrow>
        if TrimString n = name then parseCookieValue v else None)"

text \<open>
  \<^verbatim>\<open>r.Cookie(name)\<close> for a non-empty \<open>name\<close>: the first value any part of any line gives it. The
  check of \<^verbatim>\<open>readCookies\<close> that a name is a token holds for the one name the gateway asks for.
\<close>

definition Request_Cookie :: "header \<Rightarrow> string \<Rightarrow> string option" where
  "Request_Cookie h name =
     (case List.map_filter (cookie_in_part name)
             (concat (map (\<lambda>line. split_on (CHR '';'') (TrimString line)) (Header_Values h ''Cookie''))) of
        [] \<Rightarrow> None | v # _ \<Rightarrow> Some v)"

lemma TrimString_id:
  assumes "\<forall>c \<in> set s. \<not> is_http_space c"
  shows "TrimString s = s"
proof -
  have "dropWhile is_http_space s = s"
    using assms by (cases s) auto
  moreover have "dropWhile is_http_space (rev s) = rev s"
    using assms by (cases "rev s") (auto simp: dropWhile_eq_self_iff hd_rev)
  ultimately show ?thesis by (simp add: TrimString_def)
qed

subsection \<open>Printing a cookie\<close>

record cookie =
  ck_name :: string
  ck_value :: string
  ck_path :: string
  ck_maxAge :: int
  ck_secure :: bool
  ck_httpOnly :: bool
  ck_sameSiteNone :: bool
  ck_partitioned :: bool

definition sanitizeCookieValue :: "string \<Rightarrow> string" where
  "sanitizeCookieValue v =
     (let v = filter validCookieValueByte v in
      if CHR '' '' \<in> set v \<or> CHR '','' \<in> set v then [CHR 0x22] @ v @ [CHR 0x22] else v)"

definition cookie_String :: "cookie \<Rightarrow> string" where
  "cookie_String c =
     ck_name c @ ''='' @ sanitizeCookieValue (ck_value c) @
     (if ck_path c \<noteq> [] then ''; Path='' @ ck_path c else []) @
     (if ck_maxAge c > 0 then ''; Max-Age='' @ Itoa (ck_maxAge c)
      else if ck_maxAge c < 0 then ''; Max-Age=0'' else []) @
     (if ck_httpOnly c then ''; HttpOnly'' else []) @
     (if ck_secure c then ''; Secure'' else []) @
     (if ck_sameSiteNone c then ''; SameSite=None'' else []) @
     (if ck_partitioned c then ''; Partitioned'' else [])"

subsection \<open>Responses\<close>

datatype json_value = JStr string | JInt int | JNull

text \<open>The refusal page: state, preview, origins and the nonce its script carries.\<close>

datatype body =
    Empty
  | Plain string
  | Json "(string \<times> json_value) list"
  | RefusalPage string string "string list" string

record response =
  re_code :: nat
  re_headers :: header
  re_body :: body

definition http_error :: "header \<Rightarrow> string \<Rightarrow> nat \<Rightarrow> response" where
  "http_error h msg code =
     \<lparr> re_code = code,
       re_headers = Header_Set ''X-Content-Type-Options'' ''nosniff''
                      (Header_Set ''Content-Type'' ''text/plain; charset=utf-8'' (Header_Del ''Content-Length'' h)),
       re_body = Plain msg \<rparr>"

text \<open>\<^verbatim>\<open>http.Redirect(w, r, "/", http.StatusSeeOther)\<close>.\<close>

definition http_redirect :: "header \<Rightarrow> request \<Rightarrow> response" where
  "http_redirect h r =
     (let fresh = Header_Values h ''Content-Type'' = [];
          h = Header_Set ''Location'' ''/'' h;
          h = (if fresh \<and> (rq_method r = ''GET'' \<or> rq_method r = ''HEAD'')
               then Header_Set ''Content-Type'' ''text/html; charset=utf-8'' h else h)
      in \<lparr> re_code = 303, re_headers = h,
           re_body = (if fresh \<and> rq_method r = ''GET'' then Plain (''<a href='' @ [CHR 0x22] @ ''/'' @ [CHR 0x22] @ ''>See Other</a>.'' @ [CHR 0x0A, CHR 0x0A])
                      else Empty) \<rparr>)"

subsection \<open>Addresses and URLs\<close>

text \<open>
  The host \<^verbatim>\<open>net.SplitHostPort\<close> returns: empty when it fails. \<open>last_colon\<close> splits at the last colon.
\<close>

definition last_colon :: "string \<Rightarrow> (string \<times> string) option" where
  "last_colon s =
     (case Cut (rev s) (CHR '':'') of (b, a, ok) \<Rightarrow> if ok then Some (rev a, rev b) else None)"

definition SplitHostPort_host :: "string \<Rightarrow> string" where
  "SplitHostPort_host hostport =
     (case last_colon hostport of
        None \<Rightarrow> []
      | Some (before, port) \<Rightarrow>
          if hd hostport = CHR ''['' then
            (case Cut (tl hostport) (CHR '']'') of (host, rest, ok) \<Rightarrow>
               if ok \<and> rest = CHR '':'' # port \<and> CHR ''['' \<notin> set host \<and> CHR ''['' \<notin> set port \<and> CHR '']'' \<notin> set port
               then host else [])
          else if CHR '':'' \<in> set before \<or> CHR ''['' \<in> set hostport \<or> CHR '']'' \<in> set hostport then []
          else before)"

definition hex_upper :: "nat \<Rightarrow> char" where
  "hex_upper n = (if n < 10 then char_of (48 + n) else char_of (55 + n))"

definition unreserved :: "char \<Rightarrow> bool" where
  "unreserved c \<longleftrightarrow> b64_alphabet c \<or> c = CHR ''.'' \<or> c = CHR ''~''"

definition QueryEscape :: "string \<Rightarrow> string" where
  "QueryEscape s = concat (map (\<lambda>c.
     if unreserved c then [c] else if c = CHR '' '' then ''+''
     else [CHR ''%'', hex_upper (byte c div 16), hex_upper (byte c mod 16)]) s)"

lemma QueryEscape_RawURL [simp]: "QueryEscape (RawURL_Encode s) = RawURL_Encode s"
proof -
  have "list_all b64_alphabet t \<Longrightarrow> QueryEscape t = t" for t
    by (induction t) (auto simp: QueryEscape_def unreserved_def)
  then show ?thesis by (simp add: list_all_iff RawURL_Encode_alphabet)
qed

end
