(* ===== verification/Preview_Types.thy ===== *)
theory Preview_Types
  imports EphemeralJob Go_HTTP
begin

text \<open>
  The preview gateway's data: the \<^verbatim>\<open>PreviewAccess\<close> resource
  (\<^verbatim>\<open>api/v1alpha1/previewaccess_types.go\<close>), tickets and handoff codes, the state its process keeps in
  memory, and what it is run in. The watch cache, the clock, the random source, HMAC, RSA, JSON
  and the issuer's key endpoint are outside the repository: they are parameters. A handler reads
  the clock and the cache several times; each read sees a moment of its own.
\<close>

subsection \<open>The resource\<close>

record pa_spec =
  ps_jobRef :: string
  ps_port :: int
  ps_ownerSubject :: string
  ps_sharedWith :: "string list"
  ps_embeddableBy :: "string list"
  ps_expiresAt :: "int option"

record pa_status =
  st_host :: string
  st_conditions :: "condition list"
  st_observedGeneration :: int

text \<open>Of the owner references only their number is read.\<close>

record previewAccess =
  pa_name :: string
  pa_ns :: string
  pa_uid :: string
  pa_generation :: int
  pa_created :: int
  pa_deleting :: bool
  pa_owners :: nat
  pa_spec :: pa_spec
  pa_status :: pa_status

abbreviation pa_host :: "previewAccess \<Rightarrow> string" where
  "pa_host rec \<equiv> st_host (pa_status rec)"

record namespace =
  ns_name :: string
  ns_labels :: smap
  ns_annotations :: smap

text \<open>A pod as the gateway reads it.\<close>

record gw_pod =
  gp_ns :: string
  gp_ip :: string
  gp_labels :: smap
  gp_deleting :: bool

subsection \<open>Indexes of the record cache\<close>

datatype pa_index = IndexHost | IndexTarget | IndexJobRef | IndexEmbeddableBy

definition EmbedKey :: "string \<Rightarrow> string \<Rightarrow> string" where
  "EmbedKey app name = app @ ''/'' @ name"

definition TargetKey :: "string \<Rightarrow> int \<Rightarrow> string" where
  "TargetKey jobRef port = jobRef @ ''/'' @ Itoa port"

text \<open>The extractors \<^verbatim>\<open>SetupWithManager\<close> registers.\<close>

fun index_values :: "pa_index \<Rightarrow> previewAccess \<Rightarrow> string list" where
  "index_values IndexHost rec = (if pa_host rec \<noteq> [] then [pa_host rec] else [])"
| "index_values IndexTarget rec = [TargetKey (ps_jobRef (pa_spec rec)) (ps_port (pa_spec rec))]"
| "index_values IndexJobRef rec = [ps_jobRef (pa_spec rec)]"
| "index_values IndexEmbeddableBy rec = map (\<lambda>app. EmbedKey app (pa_name rec)) (ps_embeddableBy (pa_spec rec))"

subsection \<open>The cache\<close>

text \<open>
  \<^verbatim>\<open>client.Reader\<close> over the manager's cache: \<^verbatim>\<open>Get\<close> by name, namespaces by the two labels of an
  application, records by namespace (if given) and the value of an index.
\<close>

record reader =
  rd_getNS :: "string \<Rightarrow> (kerr, namespace) result"
  rd_listNS :: "string \<Rightarrow> string \<Rightarrow> (kerr, namespace list) result"
  rd_getPA :: "string \<Rightarrow> string \<Rightarrow> (kerr, previewAccess) result"
  rd_listPA :: "string option \<Rightarrow> pa_index \<Rightarrow> string \<Rightarrow> (kerr, previewAccess list) result"
  rd_getEJ :: "string \<Rightarrow> string \<Rightarrow> (kerr, ephemeralJob) result"
  rd_getPod :: "string \<Rightarrow> string \<Rightarrow> (kerr, gw_pod) result"
  rd_getPolicy :: "string \<Rightarrow> string \<Rightarrow> (kerr, policy) result"
  rd_getSecret :: "string \<Rightarrow> string \<Rightarrow> (kerr, smap) result"

subsection \<open>Tickets, codes and the process's memory\<close>

record ticket =
  tk_record :: string
  tk_host :: string
  tk_subject :: string
  tk_expiry :: int
  tk_origin :: string

definition no_ticket :: ticket where
  "no_ticket = \<lparr> tk_record = [], tk_host = [], tk_subject = [], tk_expiry = 0, tk_origin = [] \<rparr>"

record code =
  cd_ticket :: ticket
  cd_issued :: int

record endedHost =
  eh_namespace :: string
  eh_embeddableBy :: "string list"
  eh_at :: int

record pubkey =
  pk_n :: nat
  pk_e :: nat

record verifier =
  v_issuer :: string
  v_keys :: "pubkey gomap option"
  v_fetchedAt :: int

text \<open>
  \<open>gw_codes\<close> is \<^verbatim>\<open>Codes.m\<close>, \<open>gw_redeemed\<close> the map of \<^verbatim>\<open>CookieSession\<close>, \<open>gw_ended\<close> the tombstones of
  \<^verbatim>\<open>Index\<close>; \<open>gw_key\<close> is the signing key, \<open>gw_verifier\<close> the \<^verbatim>\<open>Verifier\<close>.
\<close>

record gateway =
  gw_key :: string
  gw_codes :: "string \<rightharpoonup> code"
  gw_redeemed :: "string \<times> string \<rightharpoonup> int"
  gw_ended :: "string \<rightharpoonup> endedHost"
  gw_verifier :: verifier

subsection \<open>Library functions\<close>

record jwk =
  jw_kty :: string
  jw_kid :: string
  jw_use :: string
  jw_n :: string
  jw_e :: string

text \<open>The claims of a token; a time is the \<^verbatim>\<open>int64\<close> its JSON number converts to.\<close>

record claim_set =
  cl_iss :: string
  cl_sub :: string
  cl_exp :: "int option"
  cl_nbf :: "int option"

record url =
  u_scheme :: string
  u_host :: string
  u_path :: string
  u_rawQuery :: string
  u_fragment :: string
  u_hasUser :: bool

text \<open>
  Unmarshalling a ticket yields the ticket it filled in and whether it succeeded. A parser of a
  value that is dropped on failure yields an option.
\<close>

record golib =
  gl_hmac :: "string \<Rightarrow> string \<Rightarrow> string"
  gl_sha256 :: "string \<Rightarrow> string"
  gl_rsaVerify :: "pubkey \<Rightarrow> string \<Rightarrow> string \<Rightarrow> bool"
  gl_ticketJSON :: "ticket \<Rightarrow> string"
  gl_ticketParse :: "string \<Rightarrow> ticket \<times> bool"
  gl_urlParse :: "string \<Rightarrow> url option"
  gl_headerParse :: "string \<Rightarrow> (string \<times> string) option"
  gl_claimsParse :: "string \<Rightarrow> claim_set option"
  gl_previewIDParse :: "string \<Rightarrow> string option"
  gl_mediaType :: "string \<Rightarrow> string"
  gl_rfc3339 :: "int \<Rightarrow> string"
  gl_quote :: "string \<Rightarrow> string"
  gl_setCondition :: "condition list \<Rightarrow> condition \<Rightarrow> condition list"
  gl_isTrue :: "condition list \<Rightarrow> string \<Rightarrow> bool"
  gl_schemeErr :: "kerr option"

subsection \<open>Moments\<close>

text \<open>What the controller writes to the API server.\<close>

datatype pwrite =
    UpdatePAStatus previewAccess
  | CreateCNP policy
  | UpdateCNP policy
  | DeleteCNP string string
  | CreateSecret string string smap

text \<open>
  A moment is what a read or a write finds: the time, the cache, the gateway pods' addresses, the random
  source (\<open>None\<close> when it fails) and the issuer's key endpoint (the error of the request, or the
  status of the answer and its body, \<open>None\<close> when that is not a key set). \<open>E n\<close> is what the \<open>n\<close>-th read of a run finds.
\<close>

record moment =
  mo_now :: int
  mo_cache :: reader
  mo_callers :: "string \<rightharpoonup> string"
  mo_random :: "string option"
  mo_jwks :: "(string, nat \<times> jwk list option) result"
  mo_write :: "pwrite \<Rightarrow> kerr option"

type_synonym env = "nat \<Rightarrow> moment"

text \<open>
  A handler runs in a state of the number of reads made and the memory of the process; the
  controller in one of the number of calls made and the writes among them with their outcomes.
\<close>

type_synonym 'a gw = "(nat \<times> gateway, 'a) state"
type_synonym writes = "(pwrite \<times> kerr option) list"
type_synonym 'a rw = "(nat \<times> writes, 'a) state"

definition look :: "env \<Rightarrow> (moment \<Rightarrow> 'a) \<Rightarrow> (nat \<times> 's, 'a) state" where
  "look E f = State (\<lambda>(n, g). (f (E n), (Suc n, g)))"

definition issue_write :: "env \<Rightarrow> pwrite \<Rightarrow> kerr option rw" where
  "issue_write E w = State (\<lambda>(n, ws). let r = mo_write (E n) w in (r, (Suc n, ws @ [(w, r)])))"

definition memory :: "(gateway \<Rightarrow> 'a \<times> gateway) \<Rightarrow> 'a gw" where
  "memory f = State (\<lambda>(n, g). case f g of (a, g') \<Rightarrow> (a, (n, g')))"

abbreviation return_gw :: "'a \<Rightarrow> (nat \<times> 's, 'a) state" where
  "return_gw \<equiv> State_Monad.return"

lemma run_look [simp]: "run_state (look E f) (n, g) = (f (E n), (Suc n, g))"
  by (simp add: look_def)

lemma run_write [simp]:
  "run_state (issue_write E w) (n, ws) = (mo_write (E n) w, (Suc n, ws @ [(w, mo_write (E n) w)]))"
  by (simp add: issue_write_def Let_def)

lemma run_memory [simp]: "run_state (memory f) (n, g) = (fst (f g), (n, snd (f g)))"
  by (simp add: memory_def split: prod.split)

text \<open>A step that only reads: it leaves the memory alone and never goes back in time.\<close>

definition reads_only :: "'a gw \<Rightarrow> bool" where
  "reads_only m \<longleftrightarrow> (\<forall>n g. snd (snd (run_state m (n, g))) = g \<and> n \<le> fst (snd (run_state m (n, g))))"

subsection \<open>Time\<close>

text \<open>
  \<^verbatim>\<open>time.Unix(sec, 0)\<close>: seconds are kept since year 1 in an \<^verbatim>\<open>int64\<close>, so a value near the ends of the
  range wraps. \<^verbatim>\<open>t.Add(d)\<close> saturates there. \<^verbatim>\<open>t.Unix()\<close> rounds down to a second.
\<close>

definition unixToInternal :: int where
  "unixToInternal = 62135596800"

definition Unix :: "int \<Rightarrow> int" where
  "Unix sec = (wrap64 (sec + unixToInternal) - unixToInternal) * 10 ^ 9"

definition time_add :: "int \<Rightarrow> int \<Rightarrow> int" where
  "time_add t d =
     (let u = t + d; sec = u div 10 ^ 9 + unixToInternal in
      if sec > 2 ^ 63 - 1 then (2 ^ 63 - 1 - unixToInternal) * 10 ^ 9 + u mod 10 ^ 9
      else if sec < - (2 ^ 63 - 1) then (- (2 ^ 63 - 1) - unixToInternal) * 10 ^ 9 + u mod 10 ^ 9
      else u)"

definition unix_of :: "int \<Rightarrow> int" where
  "unix_of t = wrap64 (t div 10 ^ 9)"

text \<open>A point in time a clock shows: within 146 years of the epoch.\<close>

definition near :: "int \<Rightarrow> bool" where
  "near t \<longleftrightarrow> \<bar>t\<bar> \<le> 2 ^ 62"

lemma Unix_unix_of: "near t \<Longrightarrow> Unix (unix_of t) = t div 10 ^ 9 * 10 ^ 9"
  by (simp add: near_def Unix_def unix_of_def unixToInternal_def wrap64_def)

end
