(* ===== verification/Preview_Index.thy ===== *)
theory Preview_Index
  imports Preview_Types
begin

text \<open>
  \<^verbatim>\<open>internal/previewaccess/state.go\<close> and the interfaces of \<^verbatim>\<open>mechanism.go\<close>: hosts, tombstones, how a
  record is found for an application or a host, who may open it, where it is served from, and the
  state of one caller.
\<close>

definition StateActive :: string where "StateActive = ''active''"
definition StateExpired :: string where "StateExpired = ''expired''"
definition StateDenied :: string where "StateDenied = ''denied''"
definition StateRevoked :: string where "StateRevoked = ''revoked''"
definition StateEnded :: string where "StateEnded = ''ended''"
definition StateUnavailable :: string where "StateUnavailable = ''unavailable''"

lemmas state_defs = StateActive_def StateExpired_def StateDenied_def StateRevoked_def
  StateEnded_def StateUnavailable_def

definition LabelTenant :: string where "LabelTenant = ''tenant-id''"
definition LabelApp :: string where "LabelApp = ''app-id''"

definition AppOriginAnnotation :: string where
  "AppOriginAnnotation = ''preview-access.zero-ops.io/app-origin''"

definition HostFor :: "golib \<Rightarrow> string \<Rightarrow> string \<Rightarrow> string" where
  "HostFor L uid domain = ''p'' @ take 24 (EncodeToString (gl_sha256 L uid)) @ ''.'' @ domain"

subsection \<open>Tombstones\<close>

definition tombstoneTTL :: int where
  "tombstoneTTL = 24 * 3600 * 10 ^ 9"

text \<open>Dropping the entries of a map that are older than a bound: the loop over the map with \<^verbatim>\<open>delete\<close>.\<close>

definition drop_older :: "('v \<Rightarrow> int) \<Rightarrow> int \<Rightarrow> int \<Rightarrow> ('k \<rightharpoonup> 'v) \<Rightarrow> ('k \<rightharpoonup> 'v)" where
  "drop_older at ttl at_now m = (\<lambda>k. case m k of
     Some v \<Rightarrow> if time_sub at_now (at v) > ttl then None else Some v | None \<Rightarrow> None)"

definition noteEnded :: "int \<Rightarrow> string \<Rightarrow> string \<Rightarrow> string list \<Rightarrow> gateway \<Rightarrow> gateway" where
  "noteEnded at_now host namespace embeddableBy g =
     g\<lparr>gw_ended := (drop_older eh_at tombstoneTTL at_now (gw_ended g))
        (host \<mapsto> \<lparr> eh_namespace = namespace, eh_embeddableBy = embeddableBy, eh_at = at_now \<rparr>)\<rparr>"

definition endedRecord :: "string \<Rightarrow> (string \<times> string list) option gw" where
  "endedRecord host = memory (\<lambda>g.
     (map_option (\<lambda>e. (eh_namespace e, eh_embeddableBy e)) (gw_ended g host), g))"

subsection \<open>Finding records\<close>

definition getNS :: "env \<Rightarrow> string \<Rightarrow> (nat \<times> 's, (kerr, namespace) result) state" where
  "getNS E n = look E (\<lambda>mo. rd_getNS (mo_cache mo) n)"

definition listNS :: "env \<Rightarrow> string \<Rightarrow> string \<Rightarrow> (nat \<times> 's, (kerr, namespace list) result) state" where
  "listNS E tenant app = look E (\<lambda>mo. rd_listNS (mo_cache mo) tenant app)"

definition getPA :: "env \<Rightarrow> string \<Rightarrow> string \<Rightarrow> (nat \<times> 's, (kerr, previewAccess) result) state" where
  "getPA E ns n = look E (\<lambda>mo. rd_getPA (mo_cache mo) ns n)"

definition listPA :: "env \<Rightarrow> string option \<Rightarrow> pa_index \<Rightarrow> string \<Rightarrow> (nat \<times> 's, (kerr, previewAccess list) result) state" where
  "listPA E ns i v = look E (\<lambda>mo. rd_listPA (mo_cache mo) ns i v)"

definition gwNow :: "env \<Rightarrow> (nat \<times> 's, int) state" where
  "gwNow E = look E mo_now"

definition AppNamespace :: "golib \<Rightarrow> env \<Rightarrow> string \<Rightarrow> string \<Rightarrow> (kerr, string) result gw" where
  "AppNamespace L E tenant app = do {
     r \<leftarrow> listNS E tenant app;
     return_gw (case r of
       Inl e \<Rightarrow> Inl e
     | Inr [] \<Rightarrow> Inr []
     | Inr [n] \<Rightarrow> Inr (ns_name n)
     | Inr ns \<Rightarrow> Inl (KErr KOther (''tenant '' @ gl_quote L tenant @ '' has '' @ Itoa (int (length ns)) @
         '' namespaces labelled app '' @ gl_quote L app @ ''; ADR-088 gives an application one'')))
   }"

text \<open>The loop over the records that name the application, skipping those of its own namespace.\<close>

fun sibling_records :: "env \<Rightarrow> string \<Rightarrow> string \<Rightarrow> previewAccess list \<Rightarrow> (kerr, previewAccess list) result gw" where
  "sibling_records E tenant own [] = return_gw (Inr [])"
| "sibling_records E tenant own (rec # recs) =
     (if pa_ns rec = own then sibling_records E tenant own recs
      else do {
        r \<leftarrow> getNS E (pa_ns rec);
        case r of
          Inl e \<Rightarrow> if IsNotFound e then sibling_records E tenant own recs else return_gw (Inl e)
        | Inr n \<Rightarrow> do {
            rest \<leftarrow> sibling_records E tenant own recs;
            return_gw (map_sum id (\<lambda>rs. if mget (ns_labels n) LabelTenant = tenant then rec # rs else rs) rest)
          }
      })"

definition own_record :: "env \<Rightarrow> string \<Rightarrow> string \<Rightarrow> (kerr, previewAccess list) result gw" where
  "own_record E own name =
     (if own = [] then return_gw (Inr [])
      else do {
        r \<leftarrow> getPA E own name;
        return_gw (case r of
          Inr rec \<Rightarrow> Inr [rec]
        | Inl e \<Rightarrow> if IsNotFound e then Inr [] else Inl e)
      })"

definition Reachable :: "golib \<Rightarrow> env \<Rightarrow> string \<Rightarrow> string \<Rightarrow> string \<Rightarrow> (kerr, previewAccess list) result gw" where
  "Reachable L E tenant app name = do {
     ns \<leftarrow> AppNamespace L E tenant app;
     case ns of
       Inl e \<Rightarrow> return_gw (Inl e)
     | Inr own \<Rightarrow> do {
         f \<leftarrow> own_record E own name;
         case f of
           Inl e \<Rightarrow> return_gw (Inl e)
         | Inr found \<Rightarrow> do {
             l \<leftarrow> listPA E None IndexEmbeddableBy (EmbedKey app name);
             case l of
               Inl e \<Rightarrow> return_gw (Inl e)
             | Inr items \<Rightarrow> do {
                 rest \<leftarrow> sibling_records E tenant own items;
                 return_gw (map_sum id (\<lambda>rs. found @ rs) rest)
               }
           }
       }
   }"

definition ByHost :: "env \<Rightarrow> string \<Rightarrow> (kerr, previewAccess option) result gw" where
  "ByHost E host = do {
     r \<leftarrow> listPA E None IndexHost host;
     return_gw (case r of Inl e \<Rightarrow> Inl e | Inr [] \<Rightarrow> Inr None | Inr (rec # _) \<Rightarrow> Inr (Some rec))
   }"

subsection \<open>Judging a record\<close>

definition Allowed :: "previewAccess \<Rightarrow> string \<Rightarrow> bool" where
  "Allowed rec subject \<longleftrightarrow>
     subject \<noteq> [] \<and> (ps_ownerSubject (pa_spec rec) = subject \<or> subject \<in> set (ps_sharedWith (pa_spec rec)))"

definition RecordEnded :: "previewAccess \<Rightarrow> int \<Rightarrow> bool" where
  "RecordEnded rec at_now = (case ps_expiresAt (pa_spec rec) of Some t \<Rightarrow> \<not> at_now < t | None \<Rightarrow> False)"

text \<open>\<^verbatim>\<open>Resolve\<close>: the address of the running sandbox; \<open>None\<close> is \<^verbatim>\<open>ok == false\<close>.\<close>

definition ResolveTarget :: "golib \<Rightarrow> env \<Rightarrow> previewAccess \<Rightarrow> (kerr, string option) result gw" where
  "ResolveTarget L E rec =
     (if \<not> gl_isTrue L (st_conditions (pa_status rec)) ''Ready'' then return_gw (Inr None)
      else do {
        j \<leftarrow> look E (\<lambda>mo. rd_getEJ (mo_cache mo) (pa_ns rec) (ps_jobRef (pa_spec rec)));
        case j of
          Inl e \<Rightarrow> return_gw (if IsNotFound e then Inr None else Inl e)
        | Inr ej \<Rightarrow>
            if es_phase (ej_status ej) \<noteq> PhaseRunning \<or> es_podName (ej_status ej) = [] then return_gw (Inr None)
            else do {
              p \<leftarrow> look E (\<lambda>mo. rd_getPod (mo_cache mo) (pa_ns rec) (es_podName (ej_status ej)));
              return_gw (case p of
                Inl e \<Rightarrow> if IsNotFound e then Inr None else Inl e
              | Inr pod \<Rightarrow>
                  if gp_ip pod = [] \<or> mget (gp_labels pod) ''compute.nutgraf.in/ephemeraljob-uid'' \<noteq> ej_uid ej
                  then Inr None
                  else Inr (Some (gp_ip pod @ '':'' @ Itoa (ps_port (pa_spec rec)))))
            }
      })"

subsection \<open>The interfaces: who calls, how a browser is admitted\<close>

record caller =
  ca_namespace :: string
  ca_tenant :: string
  ca_app :: string
  ca_origin :: string
  ca_subject :: string

text \<open>\<^verbatim>\<open>*Refused\<close> carries the status it is answered with; any other error is a failed lookup.\<close>

datatype caller_err = Refused nat string | LookupErr string

record identity =
  id_Caller :: "request \<Rightarrow> (caller_err, caller) result gw"
  id_AppOrigins :: "string \<Rightarrow> string list \<Rightarrow> (kerr, string list) result gw"

text \<open>
  \<open>se_ServeOwn\<close> yields \<open>None\<close> when the request is not the mechanism's own. Its \<^verbatim>\<open>refuse\<close> argument
  takes the headers already set on the response. \<open>se_Admit\<close> yields subject, origin and state.
\<close>

record session =
  se_Begin :: "previewAccess \<Rightarrow> caller \<Rightarrow> int \<Rightarrow> (string \<times> int) option gw"
  se_ServeOwn :: "request \<Rightarrow> string \<Rightarrow> (header \<Rightarrow> string \<Rightarrow> string \<Rightarrow> response gw) \<Rightarrow> response option gw"
  se_Admit :: "request \<Rightarrow> previewAccess \<Rightarrow> (string \<times> string \<times> string) gw"
  se_Holds :: "previewAccess \<Rightarrow> string \<Rightarrow> int \<Rightarrow> (bool \<times> int option) gw"
  se_WasAdmitted :: "previewAccess \<Rightarrow> string \<Rightarrow> bool gw"

definition CookieMaxAge :: int where
  "CookieMaxAge = 8 * 3600 * 10 ^ 9"

definition SessionLifetime :: "previewAccess \<Rightarrow> int \<Rightarrow> int" where
  "SessionLifetime rec at_now =
     (case ps_expiresAt (pa_spec rec) of
        None \<Rightarrow> CookieMaxAge
      | Some t \<Rightarrow> (let left = TruncateSecond (time_sub t at_now) in if left < CookieMaxAge then left else CookieMaxAge))"

definition StateFor ::
    "golib \<Rightarrow> env \<Rightarrow> session \<Rightarrow> previewAccess option \<Rightarrow> string \<Rightarrow> (kerr, string \<times> int option) result gw" where
  "StateFor L E sess rec_opt subject = do {
     at_now \<leftarrow> gwNow E;
     case rec_opt of
       None \<Rightarrow> return_gw (Inr (StateEnded, None))
     | Some rec \<Rightarrow>
         if RecordEnded rec at_now then return_gw (Inr (StateEnded, None))
         else if \<not> Allowed rec subject then do {
           was \<leftarrow> se_WasAdmitted sess rec subject;
           return_gw (Inr (if was then StateRevoked else StateDenied, None))
         }
         else do {
           t \<leftarrow> ResolveTarget L E rec;
           case t of
             Inl e \<Rightarrow> return_gw (Inl e)
           | Inr None \<Rightarrow> return_gw (Inr (StateUnavailable, None))
           | Inr (Some _) \<Rightarrow> do {
               (held, til) \<leftarrow> se_Holds sess rec subject at_now;
               return_gw (Inr (if held then (StateActive, til) else (StateExpired, None)))
             }
         }
   }"

end
