(* ===== verification/Preview_Session.thy ===== *)
theory Preview_Session
  imports Preview_Index
begin

text \<open>
  How a caller is identified and a browser admitted: \<^verbatim>\<open>cookie.go\<close> (signed tickets, single-use
  codes), \<^verbatim>\<open>jwt.go\<close> (the session credential), \<^verbatim>\<open>platform.go\<close> (the platform's \<^verbatim>\<open>Identity\<close> and
  \<^verbatim>\<open>Session\<close>) and \<^verbatim>\<open>localmode.go\<close> (the ones of local development).
\<close>

subsection \<open>Signed tickets\<close>

definition CookieName :: string where
  "CookieName = ''__Host-zo-preview''"

definition NewSigner :: "string \<Rightarrow> (string, string) result" where
  "NewSigner key =
     (if length key < 32
      then Inl (''preview signing key is '' @ Itoa (int (length key)) @ '' bytes; at least 32 are required'')
      else Inr key)"

definition mac :: "golib \<Rightarrow> string \<Rightarrow> string \<Rightarrow> string" where
  "mac L key payload = RawURL_Encode (gl_hmac L key payload)"

definition seal :: "golib \<Rightarrow> string \<Rightarrow> ticket \<Rightarrow> string" where
  "seal L key t = (let p = RawURL_Encode (gl_ticketJSON L t) in p @ ''.'' @ mac L key p)"

text \<open>\<^verbatim>\<open>open\<close>: the ticket, and whether the error is nil.\<close>

definition open_ticket :: "golib \<Rightarrow> string \<Rightarrow> string \<Rightarrow> ticket \<times> bool" where
  "open_ticket L key v =
     (case Cut v (CHR ''.'') of (p, sig, ok) \<Rightarrow>
        if \<not> ok \<or> sig \<noteq> mac L key p then (no_ticket, False)
        else (case RawURL_Decode p of
                None \<Rightarrow> (no_ticket, False)
              | Some b \<Rightarrow> gl_ticketParse L b))"

text \<open>\<^verbatim>\<open>int(d / time.Second)\<close>: division of an integer by a positive one, towards zero.\<close>

definition in_seconds :: "int \<Rightarrow> int" where
  "in_seconds d = TruncateSecond d div 10 ^ 9"

definition ticket_cookie :: "golib \<Rightarrow> string \<Rightarrow> ticket \<Rightarrow> int \<Rightarrow> cookie" where
  "ticket_cookie L key t maxAge =
     \<lparr> ck_name = CookieName, ck_value = seal L key t, ck_path = ''/'', ck_maxAge = in_seconds maxAge,
       ck_secure = True, ck_httpOnly = True, ck_sameSiteNone = True, ck_partitioned = True \<rparr>"

subsection \<open>Single-use codes\<close>

definition CodeTTL :: int where
  "CodeTTL = 10 * 10 ^ 9"

text \<open>What \<^verbatim>\<open>Issue\<close> and \<^verbatim>\<open>Redeem\<close> do to the map while they hold its lock.\<close>

definition codes_put :: "int \<Rightarrow> string \<Rightarrow> ticket \<Rightarrow> gateway \<Rightarrow> gateway" where
  "codes_put at_now k t g =
     g\<lparr>gw_codes := (drop_older cd_issued CodeTTL at_now (gw_codes g))
        (k \<mapsto> \<lparr> cd_ticket = t, cd_issued = at_now \<rparr>)\<rparr>"

definition codes_take :: "string \<Rightarrow> gateway \<Rightarrow> code option \<times> gateway" where
  "codes_take k g = (gw_codes g k, g\<lparr>gw_codes := (gw_codes g)(k := None)\<rparr>)"

definition Issue :: "env \<Rightarrow> ticket \<Rightarrow> string option gw" where
  "Issue E t = do {
     r \<leftarrow> look E mo_random;
     case r of
       None \<Rightarrow> return_gw None
     | Some b \<Rightarrow> do {
         at_now \<leftarrow> gwNow E;
         let k = RawURL_Encode b;
         memory (\<lambda>g. ((), codes_put at_now k t g));
         return_gw (Some k)
       }
   }"

text \<open>The three refusals of \<^verbatim>\<open>Redeem\<close>, on the code it took and the time it then read.\<close>

definition redeem_check :: "int \<Rightarrow> string \<Rightarrow> code \<Rightarrow> (string, ticket) result" where
  "redeem_check at_now host v =
     (if time_sub at_now (cd_issued v) > CodeTTL then Inl ''code expired''
      else if tk_host (cd_ticket v) \<noteq> host then Inl ''code was issued for another host''
      else Inr (cd_ticket v))"

definition Redeem :: "env \<Rightarrow> string \<Rightarrow> string \<Rightarrow> (string, ticket) result gw" where
  "Redeem E k host = do {
     c \<leftarrow> memory (codes_take k);
     case c of
       None \<Rightarrow> return_gw (Inl ''unknown or already used code'')
     | Some v \<Rightarrow> do {
         at_now \<leftarrow> gwNow E;
         return_gw (redeem_check at_now host v)
       }
   }"

subsection \<open>The session credential\<close>

definition clockSkew :: int where
  "clockSkew = 60 * 10 ^ 9"

definition jwksMinRefetchGap :: int where
  "jwksMinRefetchGap = 30 * 10 ^ 9"

text \<open>\<^verbatim>\<open>new(big.Int).SetBytes\<close>.\<close>

definition bytes_nat :: "string \<Rightarrow> nat" where
  "bytes_nat s = foldl (\<lambda>n c. 256 * n + byte c) 0 s"

definition usable_key :: "jwk \<Rightarrow> pubkey option" where
  "usable_key k =
     (if jw_kty k \<noteq> ''RSA'' \<or> (jw_use k \<noteq> [] \<and> jw_use k \<noteq> ''sig'') then None
      else (case (RawURL_Decode (jw_n k), RawURL_Decode (jw_e k)) of
              (Some n, Some e) \<Rightarrow>
                if length e = 0 \<or> length e > 4 then None
                else Some \<lparr> pk_n = bytes_nat n, pk_e = bytes_nat e \<rparr>
            | _ \<Rightarrow> None))"

definition fetch_keys :: "(string, nat \<times> jwk list option) result \<Rightarrow> (string, pubkey gomap) result" where
  "fetch_keys answer =
     (case answer of
        Inl e \<Rightarrow> Inl e
      | Inr (status, body) \<Rightarrow>
          if status \<noteq> 200 then Inl (''answered '' @ Itoa (int status))
          else (case body of
              None \<Rightarrow> Inl ''not a key set''
            | Some keys \<Rightarrow>
                (let out = fold (\<lambda>k m. case usable_key k of None \<Rightarrow> m | Some pk \<Rightarrow> AList.update (jw_kid k) pk m) keys []
                 in if out = [] then Inl ''the key set holds no RSA signing key'' else Inr out)))"

definition unknown_key :: "golib \<Rightarrow> string \<Rightarrow> string" where
  "unknown_key L kid = ''signing key '' @ gl_quote L kid @ '' is not in the issuer's key set''"

definition signing_key :: "golib \<Rightarrow> env \<Rightarrow> string \<Rightarrow> (string, pubkey) result gw" where
  "signing_key L E kid = do {
     v \<leftarrow> memory (\<lambda>g. (gw_verifier g, g));
     case Option.bind (v_keys v) (\<lambda>ks. map_of ks kid) of
       Some k \<Rightarrow> return_gw (Inr k)
     | None \<Rightarrow> do {
         at_now \<leftarrow> gwNow E;
         if time_sub at_now (v_fetchedAt v) < jwksMinRefetchGap \<and> v_keys v \<noteq> None
         then return_gw (Inl (unknown_key L kid))
         else do {
           answer \<leftarrow> look E mo_jwks;
           fetched \<leftarrow> gwNow E;
           memory (\<lambda>g. ((), g\<lparr>gw_verifier := (gw_verifier g)\<lparr>v_fetchedAt := fetched\<rparr>\<rparr>));
           case fetch_keys answer of
             Inl e \<Rightarrow> return_gw (Inl (''fetching the issuer's key set: '' @ e))
           | Inr keys \<Rightarrow> do {
               memory (\<lambda>g. ((), g\<lparr>gw_verifier := (gw_verifier g)\<lparr>v_keys := Some keys\<rparr>\<rparr>));
               return_gw (case map_of keys kid of
                 Some k \<Rightarrow> Inr k | None \<Rightarrow> Inl (unknown_key L kid))
             }
         }
       }
   }"

definition claims_refusal :: "golib \<Rightarrow> string \<Rightarrow> int \<Rightarrow> claim_set \<Rightarrow> string option" where
  "claims_refusal L issuer at_now c =
     (if cl_iss c \<noteq> issuer then Some (''issuer '' @ gl_quote L (cl_iss c) @ '' is not the platform's'')
      else if cl_sub c = [] then Some ''token names no subject''
      else (case cl_exp c of
          None \<Rightarrow> Some ''token has no expiry''
        | Some e \<Rightarrow>
            if time_add (Unix e) clockSkew < at_now then Some ''token has expired''
            else (case cl_nbf c of
                Some b \<Rightarrow> if time_add at_now clockSkew < Unix b then Some ''token is not valid yet'' else None
              | None \<Rightarrow> None)))"

definition Verify :: "golib \<Rightarrow> env \<Rightarrow> string \<Rightarrow> (string, string) result gw" where
  "Verify L E raw =
     (case split_on (CHR ''.'') raw of
        [p0, p1, p2] \<Rightarrow>
          (case Option.bind (RawURL_Decode p0) (gl_headerParse L) of
             None \<Rightarrow> return_gw (Inl ''header'')
           | Some (alg, kid) \<Rightarrow>
               if alg \<noteq> ''RS256'' then return_gw (Inl (''algorithm '' @ gl_quote L alg @ '' is not accepted''))
               else do {
                 k \<leftarrow> signing_key L E kid;
                 case k of
                   Inl e \<Rightarrow> return_gw (Inl e)
                 | Inr key \<Rightarrow>
                     (case RawURL_Decode p2 of
                        None \<Rightarrow> return_gw (Inl ''signature encoding'')
                      | Some sig \<Rightarrow>
                          if \<not> gl_rsaVerify L key (gl_sha256 L (p0 @ ''.'' @ p1)) sig
                          then return_gw (Inl ''signature does not verify'')
                          else (case Option.bind (RawURL_Decode p1) (gl_claimsParse L) of
                              None \<Rightarrow> return_gw (Inl ''claims'')
                            | Some c \<Rightarrow> do {
                                at_now \<leftarrow> gwNow E;
                                v \<leftarrow> memory (\<lambda>g. (gw_verifier g, g));
                                return_gw (case claims_refusal L (v_issuer v) at_now c of
                                  Some e \<Rightarrow> Inl e | None \<Rightarrow> Inr (cl_sub c))
                              }))
               })
      | _ \<Rightarrow> return_gw (Inl ''not a compact JWS''))"

subsection \<open>The platform's identity\<close>

definition gateway_Caller :: "golib \<Rightarrow> env \<Rightarrow> request \<Rightarrow> (caller_err, caller) result gw" where
  "gateway_Caller L E r = do {
     from \<leftarrow> look E (\<lambda>mo. mo_callers mo (SplitHostPort_host (rq_remote r)));
     case from of
       None \<Rightarrow> return_gw (Inl (Refused 403 ''not a tenant gateway''))
     | Some ns \<Rightarrow> do {
         n \<leftarrow> getNS E ns;
         case n of
           Inl e \<Rightarrow> return_gw (Inl (LookupErr (''reading the caller's namespace '' @ ns @ '': '' @ err_text e)))
         | Inr n \<Rightarrow>
             (let origin = mget (ns_annotations n) AppOriginAnnotation;
                  tenant = mget (ns_labels n) LabelTenant; app = mget (ns_labels n) LabelApp;
                  auth = Header_Get (rq_headers r) ''Authorization''
              in if origin = [] \<or> tenant = [] \<or> app = []
                 then return_gw (Inl (Refused 403 ''namespace declares no app origin, tenant or app''))
                 else if \<not> HasPrefix auth ''Bearer '' then return_gw (Inl (Refused 401 ''no session credential''))
                 else do {
                   c \<leftarrow> Verify L E (TrimPrefix auth ''Bearer '');
                   return_gw (case c of
                     Inl e \<Rightarrow> Inl (Refused 401 e)
                   | Inr subject \<Rightarrow> Inr \<lparr> ca_namespace = ns, ca_tenant = tenant, ca_app = app,
                                          ca_origin = origin, ca_subject = subject \<rparr>)
                 })
       }
   }"

definition add_origin :: "namespace \<Rightarrow> string list \<Rightarrow> string list" where
  "add_origin n origins =
     (let o1 = mget (ns_annotations n) AppOriginAnnotation
      in if o1 \<noteq> [] \<and> o1 \<notin> set origins then origins @ [o1] else origins)"

fun sibling_origins ::
    "golib \<Rightarrow> env \<Rightarrow> string \<Rightarrow> string list \<Rightarrow> string list \<Rightarrow> (kerr, string list) result gw" where
  "sibling_origins L E tenant origins [] = return_gw (Inr origins)"
| "sibling_origins L E tenant origins (app # apps) = do {
     ns \<leftarrow> AppNamespace L E tenant app;
     case ns of
       Inl e \<Rightarrow> return_gw (Inl e)
     | Inr ns \<Rightarrow>
         if ns = [] then sibling_origins L E tenant origins apps
         else do {
           sib \<leftarrow> getNS E ns;
           case sib of
             Inl e \<Rightarrow> if IsNotFound e then sibling_origins L E tenant origins apps else return_gw (Inl e)
           | Inr n \<Rightarrow> sibling_origins L E tenant (add_origin n origins) apps
         }
   }"

definition gateway_AppOrigins :: "golib \<Rightarrow> env \<Rightarrow> string \<Rightarrow> string list \<Rightarrow> (kerr, string list) result gw" where
  "gateway_AppOrigins L E namespace embeddableBy = do {
     n \<leftarrow> getNS E namespace;
     case n of
       Inl e \<Rightarrow> return_gw (if IsNotFound e then Inr [] else Inl e)
     | Inr n \<Rightarrow>
         (let origins = add_origin n []; tenant = mget (ns_labels n) LabelTenant
          in if tenant = [] then return_gw (Inr origins)
             else sibling_origins L E tenant origins embeddableBy)
   }"

definition GatewayIdentity :: "golib \<Rightarrow> env \<Rightarrow> identity" where
  "GatewayIdentity L E = \<lparr> id_Caller = gateway_Caller L E, id_AppOrigins = gateway_AppOrigins L E \<rparr>"

subsection \<open>The platform's session\<close>

definition begin_ticket :: "previewAccess \<Rightarrow> caller \<Rightarrow> int \<Rightarrow> ticket" where
  "begin_ticket rec c at_now =
     \<lparr> tk_record = pa_uid rec, tk_host = pa_host rec, tk_subject = ca_subject c,
       tk_expiry = unix_of (time_add at_now (SessionLifetime rec at_now)), tk_origin = ca_origin c \<rparr>"

definition cookie_Begin :: "env \<Rightarrow> previewAccess \<Rightarrow> caller \<Rightarrow> int \<Rightarrow> (string \<times> int) option gw" where
  "cookie_Begin E rec c at_now = do {
     k \<leftarrow> Issue E (begin_ticket rec c at_now);
     return_gw (map_option (\<lambda>k. (''https://'' @ pa_host rec @ ''/_handoff?code='' @ QueryEscape k,
                                    SessionLifetime rec at_now)) k)
   }"

definition zero_time :: int where
  "zero_time = - unixToInternal * 10 ^ 9"

definition noteRedeemed :: "string \<Rightarrow> string \<Rightarrow> int \<Rightarrow> gateway \<Rightarrow> gateway" where
  "noteRedeemed uid subject exp g =
     (if (case gw_redeemed g (uid, subject) of Some u \<Rightarrow> u | None \<Rightarrow> zero_time) < exp
      then g\<lparr>gw_redeemed := (gw_redeemed g)((uid, subject) \<mapsto> exp)\<rparr> else g)"

text \<open>The second half of the handoff: the record is read again and must still be the ticket's.\<close>

definition handoff_valid :: "ticket \<Rightarrow> (kerr, previewAccess option) result \<Rightarrow> previewAccess option" where
  "handoff_valid t found =
     (case found of
        Inr (Some rec) \<Rightarrow> if pa_uid rec = tk_record t \<and> Allowed rec (tk_subject t) then Some rec else None
      | _ \<Rightarrow> None)"

definition handoff_finish ::
    "golib \<Rightarrow> env \<Rightarrow> header \<Rightarrow> request \<Rightarrow> string \<Rightarrow> (header \<Rightarrow> string \<Rightarrow> string \<Rightarrow> response gw) \<Rightarrow> ticket \<Rightarrow> response gw" where
  "handoff_finish L E h r host refuse t = do {
     found \<leftarrow> ByHost E host;
     case handoff_valid t found of
       None \<Rightarrow> refuse h StateRevoked (tk_origin t)
     | Some rec \<Rightarrow> do {
         at_now \<leftarrow> gwNow E;
         key \<leftarrow> memory (\<lambda>g. (gw_key g, g));
         let exp = Unix (tk_expiry t);
         let ck = ticket_cookie L key t (time_sub exp at_now);
         memory (\<lambda>g. ((), noteRedeemed (pa_uid rec) (tk_subject t) exp g));
         return_gw (http_redirect (Header_Add ''Set-Cookie'' (cookie_String ck) h) r)
       }
   }"

definition handoff_headers :: header where
  "handoff_headers = Header_Set ''Referrer-Policy'' ''no-referrer'' (Header_Set ''Cache-Control'' ''no-store'' [])"

definition cookie_ServeOwn ::
    "golib \<Rightarrow> env \<Rightarrow> request \<Rightarrow> string \<Rightarrow> (header \<Rightarrow> string \<Rightarrow> string \<Rightarrow> response gw) \<Rightarrow> response option gw" where
  "cookie_ServeOwn L E r host refuse =
     (if rq_path r \<noteq> ''/_handoff'' then return_gw None
      else do {
        t \<leftarrow> Redeem E (mget (rq_query r) ''code'') host;
        resp \<leftarrow> (case t of
          Inl _ \<Rightarrow> refuse handoff_headers StateExpired []
        | Inr t \<Rightarrow> handoff_finish L E handoff_headers r host refuse t);
        return_gw (Some resp)
      })"

definition cookie_Admit :: "golib \<Rightarrow> env \<Rightarrow> request \<Rightarrow> previewAccess \<Rightarrow> (string \<times> string \<times> string) gw" where
  "cookie_Admit L E r rec = do {
     key \<leftarrow> memory (\<lambda>g. (gw_key g, g));
     let (t, err_nil) = (case Request_Cookie (rq_headers r) CookieName of
                           None \<Rightarrow> (no_ticket, False) | Some v \<Rightarrow> open_ticket L key v);
     ok \<leftarrow> (if err_nil \<and> tk_record t = pa_uid rec \<and> tk_host t = pa_host rec
            then do { at_now \<leftarrow> gwNow E; return_gw (at_now < Unix (tk_expiry t)) }
            else return_gw False);
     return_gw (tk_subject t, tk_origin t,
       if \<not> ok then StateExpired else if \<not> Allowed rec (tk_subject t) then StateRevoked else [])
   }"

definition cookie_Holds :: "previewAccess \<Rightarrow> string \<Rightarrow> int \<Rightarrow> (bool \<times> int option) gw" where
  "cookie_Holds rec subject at_now = memory (\<lambda>g.
     (case gw_redeemed g (pa_uid rec, subject) of
        Some til \<Rightarrow> if at_now < til then (True, Some til) else (False, None)
      | None \<Rightarrow> (False, None), g))"

definition cookie_WasAdmitted :: "previewAccess \<Rightarrow> string \<Rightarrow> bool gw" where
  "cookie_WasAdmitted rec subject = memory (\<lambda>g. (gw_redeemed g (pa_uid rec, subject) \<noteq> None, g))"

definition CookieSession :: "golib \<Rightarrow> env \<Rightarrow> session" where
  "CookieSession L E =
     \<lparr> se_Begin = cookie_Begin E, se_ServeOwn = cookie_ServeOwn L E, se_Admit = cookie_Admit L E,
       se_Holds = cookie_Holds, se_WasAdmitted = cookie_WasAdmitted \<rparr>"

subsection \<open>Local development mode\<close>

record local_config =
  lc_namespace :: string
  lc_appOrigins :: "string list"
  lc_subject :: string
  lc_previewBase :: string

definition is_origin :: "golib \<Rightarrow> string \<Rightarrow> bool" where
  "is_origin L s =
     (case gl_urlParse L s of
        None \<Rightarrow> False
      | Some u \<Rightarrow> (u_scheme u = ''http'' \<or> u_scheme u = ''https'') \<and> u_host u \<noteq> [] \<and> u_path u = [] \<and>
                   u_rawQuery u = [] \<and> u_fragment u = [] \<and> \<not> u_hasUser u)"

fun read_origins :: "golib \<Rightarrow> string list \<Rightarrow> string list \<Rightarrow> (string, string list) result" where
  "read_origins L seen [] = Inr seen"
| "read_origins L seen (s # ss) =
     (let s1 = TrimSpace s in
      if \<not> is_origin L s1 then Inl (''LOCAL_APP_ORIGINS: '' @ gl_quote L s1 @ '' is not an origin (scheme://host[:port], nothing after)'')
      else if s1 \<in> set seen then Inl (''LOCAL_APP_ORIGINS lists '' @ gl_quote L s1 @ '' twice'')
      else read_origins L (seen @ [s1]) ss)"

text \<open>\<open>order\<close> is the order in which the \<^verbatim>\<open>range\<close> over the map of required variables visits them.\<close>

definition ConfigFromEnv :: "golib \<Rightarrow> string list \<Rightarrow> (string \<Rightarrow> string) \<Rightarrow> (string, local_config) result" where
  "ConfigFromEnv L order getenv =
     (case filter (\<lambda>name. getenv name = []) order of
        name # _ \<Rightarrow> Inl (''local mode requires '' @ name)
      | [] \<Rightarrow> (case read_origins L [] (split_on (CHR '','') (getenv ''LOCAL_APP_ORIGINS'')) of
          Inl e \<Rightarrow> Inl e
        | Inr origins \<Rightarrow>
            if \<not> Contains (getenv ''LOCAL_PREVIEW_BASE'') ''{host}''
            then Inl (''LOCAL_PREVIEW_BASE '' @ gl_quote L (getenv ''LOCAL_PREVIEW_BASE'') @ '' must contain {host}'')
            else Inr \<lparr> lc_namespace = getenv ''LOCAL_NAMESPACE'', lc_appOrigins = origins,
                       lc_subject = getenv ''LOCAL_SUBJECT'', lc_previewBase = getenv ''LOCAL_PREVIEW_BASE'' \<rparr>))"

text \<open>Nodes by name and provider id.\<close>

definition RequireKind :: "golib \<Rightarrow> (kerr, (string \<times> string) list) result \<Rightarrow> string option" where
  "RequireKind L nodes =
     (case nodes of
        Inl e \<Rightarrow> Some (''listing nodes to confirm this is a Kind cluster: '' @ err_text e)
      | Inr [] \<Rightarrow> Some ''local mode runs only on a Kind cluster; this cluster reports no nodes''
      | Inr items \<Rightarrow>
          (case List.find (\<lambda>(n, pid). \<not> HasPrefix pid ''kind://'') items of
             Some (n, pid) \<Rightarrow> Some (''local mode runs only on a Kind cluster; node '' @ n @ '' is '' @ gl_quote L pid)
           | None \<Rightarrow> None))"

definition local_Caller :: "local_config \<Rightarrow> request \<Rightarrow> (caller_err, caller) result gw" where
  "local_Caller cfg r =
     (let o1 = Header_Get (rq_headers r) ''Origin''
      in return_gw (Inr \<lparr> ca_namespace = lc_namespace cfg, ca_tenant = [], ca_app = [],
           ca_origin = (if o1 \<in> set (lc_appOrigins cfg) then o1 else []), ca_subject = lc_subject cfg \<rparr>))"

definition local_AppOrigins :: "local_config \<Rightarrow> string \<Rightarrow> string list \<Rightarrow> (kerr, string list) result gw" where
  "local_AppOrigins cfg namespace embeddableBy = return_gw (Inr (lc_appOrigins cfg))"

definition LocalIdentity :: "local_config \<Rightarrow> identity" where
  "LocalIdentity cfg = \<lparr> id_Caller = local_Caller cfg, id_AppOrigins = local_AppOrigins cfg \<rparr>"

definition local_Begin :: "local_config \<Rightarrow> previewAccess \<Rightarrow> caller \<Rightarrow> int \<Rightarrow> (string \<times> int) option gw" where
  "local_Begin cfg rec c at_now =
     return_gw (Some (ReplaceAll (lc_previewBase cfg) ''{host}'' (pa_host rec) @ ''/'', SessionLifetime rec at_now))"

definition local_Admit :: "local_config \<Rightarrow> request \<Rightarrow> previewAccess \<Rightarrow> (string \<times> string \<times> string) gw" where
  "local_Admit cfg r rec =
     return_gw (lc_subject cfg, [], if Allowed rec (lc_subject cfg) then [] else StateDenied)"

definition LocalSession :: "local_config \<Rightarrow> session" where
  "LocalSession cfg =
     \<lparr> se_Begin = local_Begin cfg, se_ServeOwn = (\<lambda>_ _ _. return_gw None), se_Admit = local_Admit cfg,
       se_Holds = (\<lambda>_ _ _. return_gw (True, None)), se_WasAdmitted = (\<lambda>_ _. return_gw False) \<rparr>"

end
