(* ===== verification/Preview_Controller.thy ===== *)
theory Preview_Controller
  imports Preview_Session "HOL-Library.Product_Lexorder"
begin

text \<open>
  \<^verbatim>\<open>reconciler.go\<close> (each record's host, its rank on its target and its network policy), \<^verbatim>\<open>webhook.go\<close>
  (admission) and the parts of \<^verbatim>\<open>cmd/preview-access/main.go\<close> that decide something: the signing
  key, the map of gateway addresses, the start in one of the two modes.
\<close>

subsection \<open>The controller\<close>

record pa_reconciler =
  rc_domain :: string
  rc_namespace :: string
  rc_podLabels :: smap
  rc_renderPolicies :: bool

definition ReasonTargetInUse :: string where "ReasonTargetInUse = ''PreviewTargetInUse''"
definition ReasonNameInUse :: string where "ReasonNameInUse = ''PreviewNameInUse''"
definition ReasonServing :: string where "ReasonServing = ''Serving''"
definition pa_labelJobUID :: string where "pa_labelJobUID = ''compute.nutgraf.in/ephemeraljob-uid''"
definition labelPreviewAccessOwner :: string where
  "labelPreviewAccessOwner = ''compute.nutgraf.in/previewaccess''"

text \<open>The oldest record on a target, then the lexically first.\<close>

definition ranked :: "previewAccess list \<Rightarrow> previewAccess list" where
  "ranked items = sort_key (\<lambda>p. (pa_created p, pa_name p)) items"

definition targetOwner :: "env \<Rightarrow> previewAccess \<Rightarrow> (kerr, string) result rw" where
  "targetOwner E rec = do {
     l \<leftarrow> listPA E (Some (pa_ns rec)) IndexTarget (TargetKey (ps_jobRef (pa_spec rec)) (ps_port (pa_spec rec)));
     return_gw (case l of
       Inl e \<Rightarrow> Inl e
     | Inr items \<Rightarrow> Inr (case ranked items of [] \<Rightarrow> pa_name rec | p # _ \<Rightarrow> pa_name p))
   }"

definition ingress_policy :: "pa_reconciler \<Rightarrow> previewAccess \<Rightarrow> ephemeralJob \<Rightarrow> policy" where
  "ingress_policy R rec ej =
     (let from = copy_into (rc_podLabels R) [(''k8s:io.kubernetes.pod.namespace'', rc_namespace R)]
      in \<lparr> pol_ns = pa_ns rec, pol_name = pa_name rec @ ''-preview'',
           pol_labels = [(labelPreviewAccessOwner, pa_name rec)],
           pol_controller = Some (pa_uid rec), pol_version = [],
           pol_spec = \<lparr> pol_selector = [(pa_labelJobUID, ej_uid ej)],
             pol_ingress = Some [\<lparr> ru_peer = Endpoints from, ru_port = Itoa (ps_port (pa_spec rec)), ru_protocol = ''TCP'' \<rparr>],
             pol_egress = None \<rparr> \<rparr>)"

text \<open>\<^verbatim>\<open>Semantic.DeepEqual\<close> of two specs: maps compare as maps.\<close>

fun peer_eq :: "rule_peer \<Rightarrow> rule_peer \<Rightarrow> bool" where
  "peer_eq (Endpoints m) (Endpoints n) \<longleftrightarrow> map_eq m n"
| "peer_eq (FQDN a) (FQDN b) \<longleftrightarrow> a = b"
| "peer_eq _ _ \<longleftrightarrow> False"

definition rule_eq :: "rule \<Rightarrow> rule \<Rightarrow> bool" where
  "rule_eq a b \<longleftrightarrow> peer_eq (ru_peer a) (ru_peer b) \<and> ru_port a = ru_port b \<and> ru_protocol a = ru_protocol b"

fun rules_eq :: "rule list option \<Rightarrow> rule list option \<Rightarrow> bool" where
  "rules_eq None None \<longleftrightarrow> True"
| "rules_eq (Some as) (Some bs) \<longleftrightarrow> list_all2 rule_eq as bs"
| "rules_eq _ _ \<longleftrightarrow> False"

definition spec_eq :: "policy_spec \<Rightarrow> policy_spec \<Rightarrow> bool" where
  "spec_eq a b \<longleftrightarrow> map_eq (pol_selector a) (pol_selector b) \<and>
     rules_eq (pol_ingress a) (pol_ingress b) \<and> rules_eq (pol_egress a) (pol_egress b)"

definition reconcileIngress ::
    "golib \<Rightarrow> env \<Rightarrow> pa_reconciler \<Rightarrow> previewAccess \<Rightarrow> bool \<Rightarrow> kerr option rw" where
  "reconcileIngress L E R rec serving = do {
     j \<leftarrow> look E (\<lambda>mo. rd_getEJ (mo_cache mo) (pa_ns rec) (ps_jobRef (pa_spec rec)));
     case j of
       Inl e \<Rightarrow>
         if \<not> IsNotFound e then return_gw (Some e)
         else do { d \<leftarrow> issue_write E (DeleteCNP (pa_ns rec) (pa_name rec @ ''-preview'')); return_gw (IgnoreNotFound d) }
     | Inr ej \<Rightarrow>
         if \<not> serving
         then do { d \<leftarrow> issue_write E (DeleteCNP (pa_ns rec) (pa_name rec @ ''-preview'')); return_gw (IgnoreNotFound d) }
         else (case gl_schemeErr L of
             Some e \<Rightarrow> return_gw (Some e)
           | None \<Rightarrow> do {
               let want = ingress_policy R rec ej;
               g \<leftarrow> look E (\<lambda>mo. rd_getPolicy (mo_cache mo) (pol_ns want) (pol_name want));
               case g of
                 Inl e \<Rightarrow> if IsNotFound e then issue_write E (CreateCNP want) else return_gw (Some e)
               | Inr got \<Rightarrow>
                   if spec_eq (pol_spec got) (pol_spec want) then return_gw None
                   else issue_write E (UpdateCNP (want\<lparr>pol_version := pol_version got\<rparr>))
             })
   }"

text \<open>The status a pass wants, given the record that serves the target.\<close>

definition target_condition :: "golib \<Rightarrow> pa_reconciler \<Rightarrow> previewAccess \<Rightarrow> string \<Rightarrow> condition" where
  "target_condition L R rec winner =
     (if winner \<noteq> pa_name rec
      then \<lparr> cd_type = ''Ready'', cd_status = ''False'', cd_reason = ReasonTargetInUse,
             cd_message = ''PreviewAccess '' @ gl_quote L winner @ '' already serves '' @
               ps_jobRef (pa_spec rec) @ '' port '' @ Itoa (ps_port (pa_spec rec)),
             cd_generation = pa_generation rec \<rparr>
      else \<lparr> cd_type = ''Ready'', cd_status = ''True'', cd_reason = ReasonServing,
             cd_message = ''served at https://'' @ HostFor L (pa_uid rec) (rc_domain R),
             cd_generation = pa_generation rec \<rparr>)"

definition wanted_status :: "golib \<Rightarrow> pa_reconciler \<Rightarrow> previewAccess \<Rightarrow> string \<Rightarrow> pa_status" where
  "wanted_status L R rec winner =
     \<lparr> st_host = (if winner \<noteq> pa_name rec then pa_host rec else HostFor L (pa_uid rec) (rc_domain R)),
       st_conditions = gl_setCondition L (st_conditions (pa_status rec)) (target_condition L R rec winner),
       st_observedGeneration = pa_generation rec \<rparr>"

definition pa_Reconcile :: "golib \<Rightarrow> env \<Rightarrow> pa_reconciler \<Rightarrow> string \<Rightarrow> string \<Rightarrow> kerr option rw" where
  "pa_Reconcile L E R ns name = do {
     r \<leftarrow> getPA E ns name;
     case r of
       Inl e \<Rightarrow> return_gw (IgnoreNotFound (Some e))
     | Inr rec \<Rightarrow>
         if pa_deleting rec then return_gw None
         else do {
           w \<leftarrow> targetOwner E rec;
           case w of
             Inl e \<Rightarrow> return_gw (Some e)
           | Inr winner \<Rightarrow> do {
               let want = wanted_status L R rec winner;
               i \<leftarrow> (if rc_renderPolicies R then reconcileIngress L E R rec (winner = pa_name rec) else return_gw None);
               case i of
                 Some e \<Rightarrow> return_gw (Some e)
               | None \<Rightarrow>
                   if pa_status rec \<noteq> want then issue_write E (UpdatePAStatus (rec\<lparr>pa_status := want\<rparr>))
                   else return_gw None
             }
         }
   }"

subsection \<open>Watches\<close>

text \<open>Which records an event on a job, or on a record, queues; a failed list queues none.\<close>

definition byJob :: "reader \<Rightarrow> string \<Rightarrow> string \<Rightarrow> (string \<times> string) list" where
  "byJob R ns job =
     (case rd_listPA R (Some ns) IndexJobRef job of Inl _ \<Rightarrow> [] | Inr items \<Rightarrow> map (\<lambda>p. (pa_ns p, pa_name p)) items)"

definition byTarget :: "reader \<Rightarrow> previewAccess \<Rightarrow> (string \<times> string) list" where
  "byTarget R rec =
     (case rd_listPA R (Some (pa_ns rec)) IndexTarget (TargetKey (ps_jobRef (pa_spec rec)) (ps_port (pa_spec rec))) of
        Inl _ \<Rightarrow> [] | Inr items \<Rightarrow> map (\<lambda>p. (pa_ns p, pa_name p)) items)"

definition tombstone :: "int \<Rightarrow> previewAccess \<Rightarrow> gateway \<Rightarrow> gateway" where
  "tombstone at_now rec g =
     (if pa_host rec \<noteq> [] then noteEnded at_now (pa_host rec) (pa_ns rec) (ps_embeddableBy (pa_spec rec)) g else g)"

subsection \<open>Admission\<close>

datatype operation = OpCreate | OpUpdate | OpDelete | OpConnect

datatype admission = Admitted | Denied nat string string | Errored nat

text \<open>The first record found for an application that is not the one being admitted.\<close>

definition other_record :: "string \<Rightarrow> previewAccess \<Rightarrow> previewAccess list \<Rightarrow> previewAccess option" where
  "other_record namespace rec found =
     List.find (\<lambda>other. \<not> (pa_ns other = namespace \<and> pa_name other = pa_name rec)) found"

fun check_embedders ::
    "golib \<Rightarrow> env \<Rightarrow> string \<Rightarrow> string \<Rightarrow> previewAccess \<Rightarrow> string list \<Rightarrow> admission gw" where
  "check_embedders L E namespace tenant rec [] = return_gw Admitted"
| "check_embedders L E namespace tenant rec (app # apps) = do {
     f \<leftarrow> Reachable L E tenant app (pa_name rec);
     case f of
       Inl _ \<Rightarrow> return_gw (Errored 500)
     | Inr found \<Rightarrow>
         (case other_record namespace rec found of
            Some other \<Rightarrow> return_gw (Denied 409 ReasonNameInUse
              (''application '' @ gl_quote L app @ '' already embeds PreviewAccess '' @ pa_ns other @ ''/'' @ pa_name other @
               '' under the name '' @ gl_quote L (pa_name rec) @
               ''; a record's name must be unique among the previews each app that may embed it can reach''))
          | None \<Rightarrow> check_embedders L E namespace tenant rec apps)
   }"

definition checkEmbedding :: "golib \<Rightarrow> env \<Rightarrow> string \<Rightarrow> previewAccess \<Rightarrow> admission gw" where
  "checkEmbedding L E namespace rec = do {
     n \<leftarrow> getNS E namespace;
     case n of
       Inl _ \<Rightarrow> return_gw (Errored 500)
     | Inr n \<Rightarrow>
         (let tenant = mget (ns_labels n) LabelTenant; app = mget (ns_labels n) LabelApp in
          if tenant = [] \<or> app = [] then
            return_gw (if ps_embeddableBy (pa_spec rec) \<noteq> []
                       then Denied 422 ''Invalid'' (''spec.embeddableBy needs an application namespace; '' @ namespace @
                         '' has no '' @ LabelTenant @ '' and '' @ LabelApp @ '' labels'') else Admitted)
          else if app \<in> set (ps_embeddableBy (pa_spec rec))
          then return_gw (Denied 422 ''Invalid'' (''spec.embeddableBy names '' @ gl_quote L app @
                 '', the record's own application, which always may embed it''))
          else check_embedders L E namespace tenant rec (app # ps_embeddableBy (pa_spec rec)))
   }"

text \<open>\<open>obj\<close> is the decoded object of the request, \<open>None\<close> when it does not decode.\<close>

definition Handle :: "golib \<Rightarrow> env \<Rightarrow> operation \<Rightarrow> string \<Rightarrow> previewAccess option \<Rightarrow> admission gw" where
  "Handle L E op namespace obj =
     (if op \<noteq> OpCreate \<and> op \<noteq> OpUpdate then return_gw Admitted
      else (case obj of
          None \<Rightarrow> return_gw (Errored 400)
        | Some rec \<Rightarrow>
            if pa_owners rec = 0 \<and> ps_expiresAt (pa_spec rec) = None
            then return_gw (Denied 422 ''Invalid'' 
              (''spec.expiresAt is required when the PreviewAccess has no ownerReference: '' @ ''nothing else would ever end it''))
            else do {
              l \<leftarrow> listPA E (Some namespace) IndexTarget (TargetKey (ps_jobRef (pa_spec rec)) (ps_port (pa_spec rec)));
              case l of
                Inl _ \<Rightarrow> return_gw (Errored 500)
              | Inr items \<Rightarrow>
                  (case List.find (\<lambda>other. pa_name other \<noteq> pa_name rec) items of
                     Some other \<Rightarrow> return_gw (Denied 409 ReasonTargetInUse
                       (''PreviewAccess '' @ gl_quote L (pa_name other) @ '' already serves '' @
                        ps_jobRef (pa_spec rec) @ '' port '' @ Itoa (ps_port (pa_spec rec)) @
                        ''; one record per (jobRef, port)''))
                   | None \<Rightarrow> checkEmbedding L E namespace rec)
            }))"

subsection \<open>Process start\<close>

definition signingKeySecret :: string where
  "signingKeySecret = ''preview-access-signing-key''"

definition signingKey :: "env \<Rightarrow> string \<Rightarrow> (string, string) result rw" where
  "signingKey E ns = do {
     s \<leftarrow> look E (\<lambda>mo. rd_getSecret (mo_cache mo) ns signingKeySecret);
     case s of
       Inr data \<Rightarrow> return_gw (Inr (mget data ''key''))
     | Inl e \<Rightarrow>
         if \<not> IsNotFound e then return_gw (Inl (err_text e))
         else do {
           r \<leftarrow> look E mo_random;
           case r of
             None \<Rightarrow> return_gw (Inl ''random source failed'')
           | Some b \<Rightarrow> do {
               w \<leftarrow> issue_write E (CreateSecret ns signingKeySecret [(''key'', b)]);
               return_gw (case w of
                 Some e \<Rightarrow> Inl (''creating '' @ ns @ ''/'' @ signingKeySecret @ '': '' @ err_text e)
               | None \<Rightarrow> Inr b)
             }
         }
   }"

text \<open>The relist of the tenant gateway pods: a failed one keeps the previous map.\<close>

definition rebuild_callers :: "(kerr, gw_pod list) result \<Rightarrow> (string \<rightharpoonup> string) \<Rightarrow> (string \<rightharpoonup> string)" where
  "rebuild_callers l byIP =
     (case l of
        Inl _ \<Rightarrow> byIP
      | Inr pods \<Rightarrow> fold (\<lambda>p m. if gp_ip p \<noteq> [] \<and> \<not> gp_deleting p then m(gp_ip p \<mapsto> gp_ns p) else m) pods Map.empty)"

datatype mechanism = Platform string string | Local local_config

text \<open>Of the platform's mechanisms the key can fail; the watch of the gateway pods is the caller map.\<close>

definition platformMechanisms :: "env \<Rightarrow> string \<Rightarrow> string \<Rightarrow> (string, mechanism) result rw" where
  "platformMechanisms E ns issuer = do {
     k \<leftarrow> signingKey E ns;
     return_gw (case k of
       Inl _ \<Rightarrow> Inl ''preview signing key unavailable''
     | Inr b \<Rightarrow> (case NewSigner b of
         Inl _ \<Rightarrow> Inl ''preview signing key unusable''
       | Inr key \<Rightarrow> Inr (Platform key issuer)))
   }"

text \<open>
  The configuration \<^verbatim>\<open>main\<close> requires before it serves: the two flags, the environment, then the
  mechanism of the mode. In platform mode the key is read and checked; in local mode the cluster
  must be a Kind one.
\<close>

definition start :: "golib \<Rightarrow> env \<Rightarrow> string list \<Rightarrow> (string \<Rightarrow> string) \<Rightarrow> (kerr, (string \<times> string) list) result
    \<Rightarrow> string \<Rightarrow> string \<Rightarrow> (string, mechanism) result rw" where
  "start L E order getenv nodes mode networkPolicy =
     (if mode \<noteq> ''platform'' \<and> mode \<noteq> ''local'' then return_gw (Inl ''--mode must be platform or local'')
      else if networkPolicy \<noteq> ''cilium'' \<and> networkPolicy \<noteq> ''none''
      then return_gw (Inl ''--network-policy must be cilium or none'')
      else if getenv ''POD_NAMESPACE'' = [] then return_gw (Inl ''POD_NAMESPACE'')
      else if getenv ''PREVIEW_DOMAIN'' = [] then return_gw (Inl ''PREVIEW_DOMAIN'')
      else if mode = ''platform'' then
        (if getenv ''OIDC_ISSUER'' = [] then return_gw (Inl ''OIDC_ISSUER'')
         else if getenv ''OIDC_JWKS_URL'' = [] then return_gw (Inl ''OIDC_JWKS_URL'')
         else platformMechanisms E (getenv ''POD_NAMESPACE'') (getenv ''OIDC_ISSUER''))
      else (case ConfigFromEnv L order getenv of
          Inl e \<Rightarrow> return_gw (Inl e)
        | Inr cfg \<Rightarrow> return_gw (case RequireKind L nodes of Some e \<Rightarrow> Inl e | None \<Rightarrow> Inr (Local cfg))))"

end
