(* ===== verification/Preview_Server.thy ===== *)
theory Preview_Server
  imports Preview_Session
begin

text \<open>
  \<^verbatim>\<open>server.go\<close>: the app API (codes and state), the preview hosts, refusals and the proxy's rewriting
  of requests and responses. The two mechanisms are arguments, as in the code.
\<close>

definition writeJSON :: "header \<Rightarrow> nat \<Rightarrow> (string \<times> json_value) list \<Rightarrow> response" where
  "writeJSON h code v =
     \<lparr> re_code = code, re_headers = Header_Set ''Content-Type'' ''application/json'' h, re_body = Json v \<rparr>"

subsection \<open>The app API\<close>

text \<open>\<^verbatim>\<open>s.caller\<close>: the caller, or the response that was written.\<close>

definition server_caller :: "identity \<Rightarrow> request \<Rightarrow> (response, caller) result gw" where
  "server_caller I r = do {
     c \<leftarrow> id_Caller I r;
     return_gw (case c of
       Inr c \<Rightarrow> Inr c
     | Inl (Refused status _) \<Rightarrow> Inl (writeJSON [] status [(''previewAccess'', JStr StateDenied)])
     | Inl (LookupErr _) \<Rightarrow> Inl (http_error [] ''caller lookup failed'' 503))
   }"

datatype lookup_err = ErrAmbiguous | ErrLookup kerr

definition server_record :: "env \<Rightarrow> string \<Rightarrow> string \<Rightarrow> (kerr, previewAccess option) result gw" where
  "server_record E ns name = do {
     r \<leftarrow> getPA E ns name;
     return_gw (case r of
       Inr rec \<Rightarrow> Inr (Some rec)
     | Inl e \<Rightarrow> if IsNotFound e then Inr None else Inl e)
   }"

definition server_lookup :: "golib \<Rightarrow> env \<Rightarrow> caller \<Rightarrow> string \<Rightarrow> (lookup_err, previewAccess option) result gw" where
  "server_lookup L E c name =
     (if ca_app c = [] then do {
        r \<leftarrow> server_record E (ca_namespace c) name;
        return_gw (map_sum ErrLookup id r)
      }
      else do {
        found \<leftarrow> Reachable L E (ca_tenant c) (ca_app c) name;
        return_gw (case found of
          Inl e \<Rightarrow> Inl (ErrLookup e)
        | Inr [] \<Rightarrow> Inr None
        | Inr [rec] \<Rightarrow> Inr (Some rec)
        | Inr _ \<Rightarrow> Inl ErrAmbiguous)
      })"

definition lookupFailed :: "lookup_err \<Rightarrow> response" where
  "lookupFailed e =
     (case e of
        ErrAmbiguous \<Rightarrow> writeJSON [] 409
          [(''error'', JStr ''previewId names more than one preview this application may embed'')]
      | ErrLookup _ \<Rightarrow> http_error [] ''record lookup failed'' 503)"

definition no_store :: "header \<Rightarrow> header" where
  "no_store h = Header_Set ''Cache-Control'' ''no-store'' h"

text \<open>Same-origin JSON only.\<close>

definition same_origin_json :: "golib \<Rightarrow> caller \<Rightarrow> request \<Rightarrow> bool" where
  "same_origin_json L c r \<longleftrightarrow>
     gl_mediaType L (Header_Get (rq_headers r) ''Content-Type'') = ''application/json'' \<and>
     ca_origin c \<noteq> [] \<and> Header_Get (rq_headers r) ''Origin'' = ca_origin c"

definition previewID_required :: string where
  "previewID_required =
     ''{'' @ [CHR 0x22] @ ''error'' @ [CHR 0x22] @ '':'' @ [CHR 0x22] @ ''previewId is required'' @ [CHR 0x22] @ ''}''"

definition handleCodes :: "golib \<Rightarrow> env \<Rightarrow> identity \<Rightarrow> session \<Rightarrow> request \<Rightarrow> response gw" where
  "handleCodes L E I S r = do {
     cr \<leftarrow> server_caller I r;
     case cr of
       Inl resp \<Rightarrow> return_gw resp
     | Inr c \<Rightarrow>
         if \<not> same_origin_json L c r then return_gw (writeJSON [] 403 [(''previewAccess'', JStr StateDenied)])
         else (case gl_previewIDParse L (take 4096 (rq_body r)) of
             None \<Rightarrow> return_gw (http_error [] previewID_required 400)
           | Some pid \<Rightarrow>
               if pid = [] then return_gw (http_error [] previewID_required 400)
               else do {
                 found \<leftarrow> server_lookup L E c pid;
                 case found of
                   Inl e \<Rightarrow> return_gw (lookupFailed e)
                 | Inr rec_opt \<Rightarrow> do {
                     at_now \<leftarrow> gwNow E;
                     case rec_opt of
                       None \<Rightarrow> return_gw (writeJSON [] 404 [(''previewAccess'', JStr ''not-found'')])
                     | Some rec \<Rightarrow>
                         if RecordEnded rec at_now
                         then return_gw (writeJSON [] 404 [(''previewAccess'', JStr ''not-found'')])
                         else if \<not> Allowed rec (ca_subject c)
                         then return_gw (writeJSON [] 403 [(''previewAccess'', JStr StateDenied)])
                         else if pa_host rec = []
                         then return_gw (writeJSON [] 503 [(''previewAccess'', JStr StateUnavailable)])
                         else do {
                           b \<leftarrow> se_Begin S rec c at_now;
                           return_gw (case b of
                             None \<Rightarrow> http_error [] ''could not start the preview session'' 500
                           | Some (handoff, lifetime) \<Rightarrow> writeJSON (no_store []) 200
                               [(''codeExpiresInSeconds'', JInt (in_seconds CodeTTL)),
                                (''cookieMaxAgeSeconds'', JInt (in_seconds lifetime)),
                                (''handoffUrl'', JStr handoff)])
                         }
                   }
               })
   }"

definition handleState :: "golib \<Rightarrow> env \<Rightarrow> identity \<Rightarrow> session \<Rightarrow> string \<Rightarrow> request \<Rightarrow> response gw" where
  "handleState L E I S pid r = do {
     cr \<leftarrow> server_caller I r;
     case cr of
       Inl resp \<Rightarrow> return_gw resp
     | Inr c \<Rightarrow> do {
         found \<leftarrow> server_lookup L E c pid;
         case found of
           Inl e \<Rightarrow> return_gw (lookupFailed e)
         | Inr rec_opt \<Rightarrow> do {
             st \<leftarrow> StateFor L E S rec_opt (ca_subject c);
             return_gw (case st of
               Inl _ \<Rightarrow> http_error [] ''state lookup failed'' 503
             | Inr (state, til) \<Rightarrow> writeJSON (no_store []) 200
                 [(''cookieExpiresAt'', case til of Some u \<Rightarrow> JStr (gl_rfc3339 L u) | None \<Rightarrow> JNull),
                  (''host'', case rec_opt of
                      Some rec \<Rightarrow> if state \<noteq> StateEnded then JStr (pa_host rec) else JNull | None \<Rightarrow> JNull),
                  (''previewId'', JStr pid), (''state'', JStr state)])
           }
       }
   }"

subsection \<open>Refusals\<close>

definition refusal_code :: "string \<Rightarrow> nat" where
  "refusal_code state = (if state = StateExpired then 401 else if state = StateUnavailable then 503 else 403)"

text \<open>\<^verbatim>\<open>base64.RawStdEncoding\<close>: the standard alphabet differs in its last two characters.\<close>

definition RawStd_Encode :: "string \<Rightarrow> string" where
  "RawStd_Encode s = map (\<lambda>c. if c = CHR ''-'' then CHR ''+'' else if c = CHR ''_'' then CHR ''/'' else c) (RawURL_Encode s)"

text \<open>Where a refusal may be posted: the origin given, else those that may embed the record.\<close>

definition refusal_origins ::
    "identity \<Rightarrow> string \<Rightarrow> string \<Rightarrow> string list \<Rightarrow> (kerr, string list) result gw" where
  "refusal_origins I origin ns embeddableBy =
     (if origin \<noteq> [] then return_gw (Inr [origin])
      else if ns \<noteq> [] then id_AppOrigins I ns embeddableBy
      else return_gw (Inr []))"

definition refusal_answer ::
    "env \<Rightarrow> request \<Rightarrow> header \<Rightarrow> string \<Rightarrow> string \<Rightarrow> string list \<Rightarrow> response gw" where
  "refusal_answer E r h state preview origins =
     (let h = no_store (Header_Set ''X-Preview-Access'' state h);
          dest = Header_Get (rq_headers r) ''Sec-Fetch-Dest''
      in if dest = ''document'' \<or> dest = ''iframe'' then do {
           rand \<leftarrow> look E mo_random;
           let n = RawStd_Encode (case rand of Some b \<Rightarrow> b | None \<Rightarrow> replicate 16 (CHR 0x00));
           let h = Header_Set ''Content-Security-Policy''
                     (''default-src 'none'; script-src 'nonce-'' @ n @ [CHR 0x27])
                     (Header_Set ''Content-Type'' ''text/html; charset=utf-8'' h);
           return_gw \<lparr> re_code = refusal_code state, re_headers = h, re_body = RefusalPage state preview origins n \<rparr>
         }
         else return_gw (writeJSON h (refusal_code state) [(''previewAccess'', JStr state)]))"

definition refuse ::
    "env \<Rightarrow> identity \<Rightarrow> request \<Rightarrow> string \<Rightarrow> header \<Rightarrow> string \<Rightarrow> string \<Rightarrow> response gw" where
  "refuse E I r host h state origin = do {
     found \<leftarrow> ByHost E host;
     case found of
       Inl _ \<Rightarrow> return_gw (http_error h ''preview lookup failed'' 503)
     | Inr rec_opt \<Rightarrow> do {
         (preview, ns, embeddableBy) \<leftarrow> (case rec_opt of
           Some rec \<Rightarrow> return_gw (pa_name rec, pa_ns rec, ps_embeddableBy (pa_spec rec))
         | None \<Rightarrow> do {
             e \<leftarrow> endedRecord host;
             return_gw (case e of Some (n, em) \<Rightarrow> ([], n, em) | None \<Rightarrow> ([], [], []))
           });
         os \<leftarrow> refusal_origins I origin ns embeddableBy;
         case os of
           Inl _ \<Rightarrow> return_gw (http_error h ''preview lookup failed'' 503)
         | Inr origins \<Rightarrow> refusal_answer E r h state preview origins
       }
   }"

subsection \<open>Preview hosts\<close>

text \<open>A request is answered here, or forwarded to the sandbox at an address.\<close>

datatype answer = Answer response | Forward string

definition handlePreview ::
    "golib \<Rightarrow> env \<Rightarrow> identity \<Rightarrow> session \<Rightarrow> request \<Rightarrow> string \<Rightarrow> answer gw" where
  "handlePreview L E I S r host = do {
     found \<leftarrow> ByHost E host;
     case found of
       Inl _ \<Rightarrow> return_gw (Answer (http_error [] ''preview lookup failed'' 503))
     | Inr None \<Rightarrow> do { resp \<leftarrow> refuse E I r host [] StateEnded []; return_gw (Answer resp) }
     | Inr (Some rec) \<Rightarrow> do {
         at_now \<leftarrow> gwNow E;
         if RecordEnded rec at_now
         then do { resp \<leftarrow> refuse E I r host [] StateEnded []; return_gw (Answer resp) }
         else do {
           (subject, origin, state) \<leftarrow> se_Admit S r rec;
           if state \<noteq> []
           then do { resp \<leftarrow> refuse E I r host [] state origin; return_gw (Answer resp) }
           else do {
             target \<leftarrow> ResolveTarget L E rec;
             case target of
               Inl _ \<Rightarrow> return_gw (Answer (http_error [] ''target lookup failed'' 503))
             | Inr None \<Rightarrow> do { resp \<leftarrow> refuse E I r host [] StateUnavailable origin; return_gw (Answer resp) }
             | Inr (Some addr) \<Rightarrow> return_gw (Forward addr)
           }
         }
       }
   }"

definition request_host :: "request \<Rightarrow> string" where
  "request_host r = ToLower (hd (split_on (CHR '':'') (rq_host r)))"

definition Previews :: "golib \<Rightarrow> env \<Rightarrow> identity \<Rightarrow> session \<Rightarrow> request \<Rightarrow> answer gw" where
  "Previews L E I S r = do {
     let host = request_host r;
     own \<leftarrow> se_ServeOwn S r host (refuse E I r host);
     case own of
       Some resp \<Rightarrow> return_gw (Answer resp)
     | None \<Rightarrow> handlePreview L E I S r host
   }"

subsection \<open>What the proxy changes\<close>

text \<open>The parts of one \<^verbatim>\<open>Cookie\<close> line that are kept, and the header rebuilt from those of every line.\<close>

definition kept_parts :: "string \<Rightarrow> string \<Rightarrow> string list" where
  "kept_parts name line =
     filter (\<lambda>p. p \<noteq> [] \<and> \<not> HasPrefix p (name @ ''='')) (map TrimSpace (split_on (CHR '';'') line))"

definition stripCookie :: "string \<Rightarrow> header \<Rightarrow> header" where
  "stripCookie name h =
     (let kept = concat (map (kept_parts name) (Header_Values h ''Cookie'')); h = Header_Del ''Cookie'' h
      in if kept \<noteq> [] then Header_Set ''Cookie'' (Join kept ''; '') h else h)"

text \<open>
  \<^verbatim>\<open>Rewrite\<close>, on the outgoing request the reverse proxy has prepared from the incoming one.
  \<^verbatim>\<open>SetXForwarded\<close> appends to a prior \<^verbatim>\<open>X-Forwarded-For\<close>, of which the reverse proxy leaves none.
\<close>

definition set_x_forwarded :: "request \<Rightarrow> header \<Rightarrow> header" where
  "set_x_forwarded inp h =
     (let ip = SplitHostPort_host (rq_remote inp);
          h = (if ip \<noteq> [] then Header_Set ''X-Forwarded-For'' ip h else Header_Del ''X-Forwarded-For'' h)
      in Header_Set ''X-Forwarded-Proto'' ''http'' (Header_Set ''X-Forwarded-Host'' (rq_host inp) h))"

definition proxy_rewrite :: "request \<Rightarrow> request \<Rightarrow> request" where
  "proxy_rewrite inp out =
     out\<lparr>rq_host := rq_host inp, rq_headers := stripCookie CookieName (set_x_forwarded inp (rq_headers out))\<rparr>"

definition sets_cookie :: "string \<Rightarrow> string \<Rightarrow> bool" where
  "sets_cookie name v \<longleftrightarrow> HasPrefix (TrimSpace v) (name @ ''='')"

definition proxy_modify_response :: "header \<Rightarrow> header" where
  "proxy_modify_response h =
     (let h = Header_Del ''X-Preview-Access'' h;
          kept = filter (\<lambda>v. \<not> sets_cookie CookieName v) (Header_Values h ''Set-Cookie'')
      in fold (Header_Add ''Set-Cookie'') kept (Header_Del ''Set-Cookie'' h))"

definition proxy_error :: response where
  "proxy_error =
     \<lparr> re_code = 503, re_headers = Header_Set ''X-Preview-Access'' StateUnavailable [], re_body = Empty \<rparr>"

end
