(* ===== verification/Preview_Access.thy ===== *)
theory Preview_Access
  imports Preview_Server
begin

text \<open>
  What reaches a sandbox. The locale \<open>admission_mechanism\<close> states what the server relies on of a
  \<^verbatim>\<open>Session\<close>: admitting a request means the record allows the subject, and deciding it changes
  nothing. Both sessions of the code satisfy it. What a forwarded request implies is proved once,
  for any such mechanism.
\<close>

lemma run_bindE:
  assumes "run_state (m \<bind> f) s = (y, s2)"
  obtains x s1 where "run_state m s = (x, s1)" and "run_state (f x) s1 = (y, s2)"
  using assms by (cases "run_state m s") auto

lemma run_cases: obtains x s1 where "run_state m s = (x, s1)"
  by (cases "run_state m s") auto

lemma run_reads_only:
  assumes "reads_only m" and "run_state m (n, g) = (x, s)"
  obtains n1 where "s = (n1, g)" and "n \<le> n1"
proof -
  have "snd s = g \<and> n \<le> fst s"
    using assms unfolding reads_only_def by (metis snd_conv)
  then show thesis using that by (cases s) auto
qed

lemma reads_only_return [simp]: "reads_only (return_gw x)"
  by (simp add: reads_only_def)

lemma reads_only_look [simp]: "reads_only (look E f)"
  by (simp add: reads_only_def)

lemma reads_only_memory: "(\<And>g. snd (f g) = g) \<Longrightarrow> reads_only (memory f)"
  by (simp add: reads_only_def)

lemma reads_only_bind:
  assumes "reads_only m" and "\<And>x. reads_only (f x)"
  shows "reads_only (m \<bind> f)"
  unfolding reads_only_def
proof (intro allI)
  fix n g
  obtain x n1 where m: "run_state m (n, g) = (x, (n1, g))" "n \<le> n1"
    using assms(1) by (metis run_reads_only surj_pair)
  obtain y n2 where f: "run_state (f x) (n1, g) = (y, (n2, g))" "n1 \<le> n2"
    using assms(2) by (metis run_reads_only surj_pair)
  show "snd (snd (run_state (m \<bind> f) (n, g))) = g \<and> n \<le> fst (snd (run_state (m \<bind> f) (n, g)))"
    using m f by simp
qed

lemma reads_only_if: "(b \<Longrightarrow> reads_only m) \<Longrightarrow> (\<not> b \<Longrightarrow> reads_only k) \<Longrightarrow> reads_only (if b then m else k)"
  by simp

subsection \<open>Where a record is served from\<close>

text \<open>
  \<open>serves L E n rec addr\<close>: the record is Ready, its job, read at \<open>n\<close>, is running, and the job's pod in
  the record's namespace, read next, carries the job's UID and has the address.
\<close>

definition serves :: "golib \<Rightarrow> env \<Rightarrow> nat \<Rightarrow> previewAccess \<Rightarrow> string \<Rightarrow> bool" where
  "serves L E n rec addr \<longleftrightarrow>
     gl_isTrue L (st_conditions (pa_status rec)) ''Ready'' \<and>
     (\<exists>ej pod. rd_getEJ (mo_cache (E n)) (pa_ns rec) (ps_jobRef (pa_spec rec)) = Inr ej \<and>
        es_phase (ej_status ej) = PhaseRunning \<and> es_podName (ej_status ej) \<noteq> [] \<and>
        rd_getPod (mo_cache (E (Suc n))) (pa_ns rec) (es_podName (ej_status ej)) = Inr pod \<and>
        gp_ip pod \<noteq> [] \<and> mget (gp_labels pod) ''compute.nutgraf.in/ephemeraljob-uid'' = ej_uid ej \<and>
        addr = gp_ip pod @ '':'' @ Itoa (ps_port (pa_spec rec)))"

lemma ResolveTarget_serves:
  "run_state (ResolveTarget L E rec) (n, g) = (Inr (Some addr), s) \<longleftrightarrow> serves L E n rec addr \<and> s = (Suc (Suc n), g)"
  by (auto simp: ResolveTarget_def serves_def split: if_splits sum.splits)

lemma reads_only_ResolveTarget: "reads_only (ResolveTarget L E rec)"
  unfolding ResolveTarget_def
  by (intro reads_only_if reads_only_bind reads_only_return reads_only_look) (auto intro!: reads_only_bind split: sum.splits)

text \<open>The record a host is served by: the first the cache lists for it.\<close>

definition record_at :: "env \<Rightarrow> nat \<Rightarrow> string \<Rightarrow> previewAccess \<Rightarrow> bool" where
  "record_at E n host rec \<longleftrightarrow> (\<exists>more. rd_listPA (mo_cache (E n)) None IndexHost host = Inr (rec # more))"

lemma ByHost_record:
  "run_state (ByHost E host) (n, g) = (Inr (Some rec), s) \<longleftrightarrow> record_at E n host rec \<and> s = (Suc n, g)"
  by (auto simp: ByHost_def listPA_def record_at_def split: sum.splits list.splits)

lemma ByHost_next: "run_state (ByHost E host) (n, g) = (x, s) \<Longrightarrow> s = (Suc n, g)"
  by (auto simp: ByHost_def listPA_def)

subsection \<open>Any mechanism\<close>

locale admission_mechanism =
  fixes S :: session
  assumes admit_allowed:
      "run_state (se_Admit S r rec) s = ((subject, origin, []), s1) \<Longrightarrow> Allowed rec subject"
    and admit_reads: "reads_only (se_Admit S r rec)"
begin

text \<open>A forwarded request: the record, the time and the target at the reads the handler made.\<close>

lemma handlePreview_forward:
  assumes "run_state (handlePreview L E I S r host) (n, g) = (Forward addr, s)"
  obtains rec subject origin m where
    "record_at E n host rec" and "\<not> RecordEnded rec (mo_now (E (Suc n)))"
    and "run_state (se_Admit S r rec) (Suc (Suc n), g) = ((subject, origin, []), (m, g))"
    and "Suc (Suc n) \<le> m" and "Allowed rec subject" and "serves L E m rec addr" and "s = (Suc (Suc m), g)"
proof -
  obtain found s1 where b: "run_state (ByHost E host) (n, g) = (found, s1)" by (rule run_cases)
  with ByHost_next have s1: "s1 = (Suc n, g)" by blast
  from assms b s1 obtain rec where rec: "found = Inr (Some rec)" and
    nend: "\<not> RecordEnded rec (mo_now (E (Suc n)))"
    by (auto simp: handlePreview_def gwNow_def split: sum.splits option.splits if_splits prod.splits)
  obtain subject origin state s2 where a: "run_state (se_Admit S r rec) (Suc (Suc n), g) = ((subject, origin, state), s2)"
    by (metis surj_pair)
  obtain m where m: "s2 = (m, g)" "Suc (Suc n) \<le> m"
    using run_reads_only [OF admit_reads a] by blast
  obtain t s3 where t: "run_state (ResolveTarget L E rec) (m, g) = (t, s3)" by (rule run_cases)
  from assms b s1 rec nend a m t have st: "state = []" and fwd: "t = Inr (Some addr)" and s: "s = s3"
    by (auto simp: handlePreview_def gwNow_def split: sum.splits option.splits if_splits prod.splits)
  show thesis
  proof (rule that)
    show "record_at E n host rec" using b rec ByHost_record by blast
    show "run_state (se_Admit S r rec) (Suc (Suc n), g) = ((subject, origin, []), (m, g))" using a m st by simp
    then show "Allowed rec subject" by (rule admit_allowed)
    show "serves L E m rec addr" and "s = (Suc (Suc m), g)"
      using t fwd s ResolveTarget_serves by blast+
  qed (use nend m in auto)
qed

text \<open>No request is forwarded that the record does not allow, whatever the mechanism.\<close>

lemma forwarded_allowed:
  assumes "run_state (handlePreview L E I S r host) (n, g) = (Forward addr, s)"
  shows "\<exists>rec subject. record_at E n host rec \<and> Allowed rec subject \<and> \<not> RecordEnded rec (mo_now (E (Suc n)))"
  using assms by (rule handlePreview_forward) blast

end

subsection \<open>The code's two mechanisms\<close>

lemma cookie_Admit_run:
  "run_state (cookie_Admit L E r rec) (n, g) =
     (let (t, err_nil) = (case Request_Cookie (rq_headers r) CookieName of
                            None \<Rightarrow> (no_ticket, False) | Some v \<Rightarrow> open_ticket L (gw_key g) v);
          bound = (err_nil \<and> tk_record t = pa_uid rec \<and> tk_host t = pa_host rec)
      in ((tk_subject t, tk_origin t,
           if \<not> (bound \<and> mo_now (E n) < Unix (tk_expiry t)) then StateExpired
           else if \<not> Allowed rec (tk_subject t) then StateRevoked else []),
          (if bound then Suc n else n, g)))"
  by (auto simp: cookie_Admit_def gwNow_def Let_def split: prod.splits option.splits)

lemma states_nonempty [simp]: "StateExpired \<noteq> []" "StateRevoked \<noteq> []" "StateDenied \<noteq> []"
  by (simp_all add: state_defs)

interpretation cookie: admission_mechanism "CookieSession L E" for L E
proof
  fix r rec s subject origin s1
  assume "run_state (se_Admit (CookieSession L E) r rec) s = ((subject, origin, []), s1)"
  then show "Allowed rec subject"
    by (cases s) (auto simp: CookieSession_def cookie_Admit_run Let_def split: prod.splits if_splits)
next
  show "reads_only (se_Admit (CookieSession L E) r rec)" for r rec
    by (simp add: reads_only_def CookieSession_def cookie_Admit_run Let_def split: prod.split)
qed

interpretation local_mode: admission_mechanism "LocalSession cfg" for cfg
  by unfold_locales (auto simp: LocalSession_def local_Admit_def split: if_splits)

end
