(* ===== verification/Preview_Tickets.thy ===== *)
theory Preview_Tickets
  imports Preview_Access
begin

text \<open>
  Tickets on their way: a sealed ticket is a cookie value no printer or parser changes, what a
  browser stores of the \<^verbatim>\<open>Set-Cookie\<close> line is the sealed ticket, what it sends back is read as
  that value, and opening it yields the ticket.
\<close>

definition ascii7 :: "string \<Rightarrow> bool" where
  "ascii7 s \<longleftrightarrow> list_all (\<lambda>c. byte c < 128) s"

text \<open>A ticket JSON carries unchanged: its strings are ASCII, its time an \<^verbatim>\<open>int64\<close>.\<close>

definition plain_ticket :: "ticket \<Rightarrow> bool" where
  "plain_ticket t \<longleftrightarrow> ascii7 (tk_record t) \<and> ascii7 (tk_host t) \<and> ascii7 (tk_subject t) \<and> ascii7 (tk_origin t) \<and>
     int64_range (tk_expiry t)"

text \<open>The contract of \<^verbatim>\<open>encoding/json\<close> on tickets.\<close>

definition tickets_ok :: "golib \<Rightarrow> bool" where
  "tickets_ok L \<longleftrightarrow> (\<forall>t. plain_ticket t \<longrightarrow> gl_ticketParse L (gl_ticketJSON L t) = (t, True))"

subsection \<open>Sealed tickets\<close>

definition value_char :: "char \<Rightarrow> bool" where
  "value_char c \<longleftrightarrow> b64_alphabet c \<or> c = CHR ''.''"

lemma seal_chars: "c \<in> set (seal L key t) \<Longrightarrow> value_char c"
  by (auto simp: seal_def mac_def value_char_def Let_def RawURL_Encode_alphabet)

lemma value_charD:
  assumes "value_char c"
  shows "validCookieValueByte c" and "c \<noteq> CHR '' ''" and "c \<noteq> CHR '',''" and "c \<noteq> CHR '';''"
    and "c \<noteq> CHR ''=''" and "\<not> is_http_space c" and "c \<noteq> CHR 0x22"
proof -
  have "byte c \<in> {65..90} \<union> {97..122} \<union> {48..57} \<union> {45, 46, 95}"
    using assms b64_alphabetD by (auto simp: value_char_def)
  then show "validCookieValueByte c" and "c \<noteq> CHR '' ''" and "c \<noteq> CHR '',''" and "c \<noteq> CHR '';''"
    and "c \<noteq> CHR ''=''" and "\<not> is_http_space c" and "c \<noteq> CHR 0x22"
    by (auto simp: validCookieValueByte_def is_http_space_def)
qed

lemma seal_free: "CHR '';'' \<notin> set (seal L key t)" "CHR ''='' \<notin> set (seal L key t)"
  using seal_chars value_charD by blast+

lemma sanitize_seal [simp]: "sanitizeCookieValue (seal L key t) = seal L key t"
proof -
  have "filter validCookieValueByte (seal L key t) = seal L key t"
    by (simp add: filter_id_conv seal_chars value_charD)
  moreover have "CHR '' '' \<notin> set (seal L key t)" and "CHR '','' \<notin> set (seal L key t)"
    using seal_chars value_charD by blast+
  ultimately show ?thesis by (simp add: sanitizeCookieValue_def)
qed

lemma parse_seal [simp]: "parseCookieValue (seal L key t) = Some (seal L key t)"
proof -
  have "seal L key t \<noteq> []" by (simp add: seal_def Let_def)
  then have "hd (seal L key t) \<noteq> CHR 0x22"
    using seal_chars value_charD by (metis hd_in_set)
  then show ?thesis
    by (auto simp: parseCookieValue_def list_all_iff seal_chars value_charD)
qed

text \<open>Opening is the inverse of sealing, and nothing else opens than what carries the MAC.\<close>

lemma open_seal:
  assumes "tickets_ok L" and "plain_ticket t"
  shows "open_ticket L key (seal L key t) = (t, True)"
proof -
  let ?p = "RawURL_Encode (gl_ticketJSON L t)"
  have "Cut (?p @ CHR ''.'' # mac L key ?p) (CHR ''.'') = (?p, mac L key ?p, True)"
    by (rule Cut_found) (rule RawURL_Encode_no_dot)
  then show ?thesis
    using assms by (simp add: open_ticket_def seal_def Let_def tickets_ok_def)
qed

lemma open_ticketD:
  assumes "open_ticket L key v = (t, True)"
  obtains p b where "v = p @ ''.'' @ mac L key p" and "RawURL_Decode p = Some b" and "gl_ticketParse L b = (t, True)"
  using assms Cut_TrueD by (fastforce simp: open_ticket_def split: prod.splits if_splits option.splits)

subsection \<open>The browser\<close>

text \<open>What a browser stores of a \<^verbatim>\<open>Set-Cookie\<close> line: the value is what stands between the first
  equals sign and the first semicolon. It sends back \<^verbatim>\<open>name=value\<close>, cookies separated by \<^verbatim>\<open>; \<close>.\<close>

definition stored_value :: "string \<Rightarrow> string" where
  "stored_value line = (case Cut line (CHR ''='') of (_, rest, _) \<Rightarrow> fst (Cut rest (CHR '';'')))"

lemma stored_cookie: "stored_value (cookie_String (ticket_cookie L key t d)) = seal L key t"
proof -
  have name: "CHR ''='' \<notin> set CookieName" by (simp add: CookieName_def)
  obtain rest where "cookie_String (ticket_cookie L key t d) = CookieName @ CHR ''='' # seal L key t @ CHR '';'' # rest"
    by (auto simp: cookie_String_def ticket_cookie_def)
  then show ?thesis
    by (simp add: stored_value_def Cut_found [OF name] Cut_found [OF seal_free(1)])
qed

text \<open>A pair a browser sends: no separator and no white space in it, no equals sign in the name.\<close>

definition sent_pair :: "string \<times> string \<Rightarrow> bool" where
  "sent_pair p \<longleftrightarrow> CHR ''='' \<notin> set (fst p) \<and>
     (\<forall>c \<in> set (fst p) \<union> set (snd p). c \<noteq> CHR '';'' \<and> \<not> is_http_space c)"

abbreviation pair_text :: "string \<times> string \<Rightarrow> string" where
  "pair_text p \<equiv> fst p @ CHR ''='' # snd p"

definition cookie_line :: "(string \<times> string) list \<Rightarrow> string" where
  "cookie_line cs = Join (map pair_text cs) ''; ''"

lemma split_Join_cookies:
  assumes "\<forall>p \<in> set (q # qs). CHR '';'' \<notin> set p"
  shows "split_on (CHR '';'') (Join (q # qs) ''; '') = q # map ((#) (CHR '' '')) qs"
  using assms
proof (induction qs arbitrary: q)
  case Nil
  then show ?case by (simp add: split_on_free)
next
  case (Cons x qs)
  have "split_on (CHR '';'') (Join (x # qs) ''; '') = x # map ((#) (CHR '' '')) qs"
    by (rule Cons.IH) (use Cons.prems in simp)
  with Cons.prems show ?case by (simp add: split_on_append)
qed

lemma TrimString_ends:
  assumes "s \<noteq> []" and "\<not> is_http_space (hd s)" and "\<not> is_http_space (last s)"
  shows "TrimString s = s"
proof -
  have "dropWhile is_http_space s = s" using assms by (cases s) auto
  moreover have "dropWhile is_http_space (rev s) = rev s"
    using assms by (simp add: dropWhile_eq_self_iff hd_rev)
  ultimately show ?thesis by (simp add: TrimString_def)
qed

lemma TrimString_space: "TrimString (CHR '' '' # s) = TrimString s"
  by (simp add: TrimString_def is_http_space_def)

lemma equals_no_space [simp]: "\<not> is_http_space (CHR ''='')"
  by (simp add: is_http_space_def)

lemma pair_text_no_space:
  assumes "sent_pair p" and "c \<in> set (pair_text p)"
  shows "\<not> is_http_space c"
proof -
  have "c = CHR ''='' \<or> c \<in> set (fst p) \<union> set (snd p)" using assms(2) by auto
  then show ?thesis using assms(1) equals_no_space unfolding sent_pair_def by blast
qed

lemma cookie_in_pair:
  assumes "sent_pair p"
  shows "cookie_in_part name (pair_text p) = (if fst p = name then parseCookieValue (snd p) else None)"
    and "cookie_in_part name (CHR '' '' # pair_text p) = (if fst p = name then parseCookieValue (snd p) else None)"
proof -
  have "TrimString (pair_text p) = pair_text p"
    by (intro TrimString_id ballI) (rule pair_text_no_space [OF assms])
  moreover have "Cut (pair_text p) (CHR ''='') = (fst p, snd p, True)"
    using assms by (intro Cut_found) (simp add: sent_pair_def)
  moreover have "TrimString (fst p) = fst p"
    using assms by (intro TrimString_id) (auto simp: sent_pair_def)
  ultimately show "cookie_in_part name (pair_text p) = (if fst p = name then parseCookieValue (snd p) else None)"
    and "cookie_in_part name (CHR '' '' # pair_text p) = (if fst p = name then parseCookieValue (snd p) else None)"
    by (simp_all add: cookie_in_part_def TrimString_space)
qed

lemma Join_ne: "q \<noteq> [] \<Longrightarrow> Join (q # qs) sep \<noteq> []"
  by (cases qs) auto

lemma hd_Join: "q \<noteq> [] \<Longrightarrow> hd (Join (q # qs) sep) = hd q"
  by (cases qs) auto

lemma last_Join: "\<forall>p \<in> set (q # qs). p \<noteq> [] \<Longrightarrow> last (Join (q # qs) sep) = last (last (q # qs))"
proof (induction qs arbitrary: q)
  case (Cons x qs)
  moreover have "Join (x # qs) sep \<noteq> []" using Cons.prems by (intro Join_ne) simp
  ultimately show ?case by simp
qed simp

lemma cookie_line_Cons: "cookie_line (p # ps) = Join (pair_text p # map pair_text ps) ''; ''"
  by (simp add: cookie_line_def)

lemma TrimString_cookie_line:
  assumes "\<forall>p \<in> set cs. sent_pair p"
  shows "TrimString (cookie_line cs) = cookie_line cs"
proof (cases cs)
  case (Cons p ps)
  let ?qs = "pair_text p # map pair_text ps"
  have ne: "\<forall>q \<in> set ?qs. q \<noteq> []" by simp
  have ok: "\<not> is_http_space c" if q: "q \<in> set ?qs" and c: "c \<in> set q" for q c
  proof -
    have "q \<in> pair_text ` set cs" using q by (simp add: Cons)
    then obtain x where x: "q = pair_text x" and "x \<in> set cs" by (rule imageE)
    then have "sent_pair x" using assms by simp
    then show ?thesis using c unfolding x by (rule pair_text_no_space)
  qed
  have "hd (pair_text p) \<in> set (pair_text p)" by (rule hd_in_set) simp
  then have "\<not> is_http_space (hd (pair_text p))" by (rule ok [rotated]) simp
  moreover have "\<not> is_http_space (last (last ?qs))"
  proof (rule ok)
    show "last ?qs \<in> set ?qs" by (rule last_in_set) simp
    then show "last (last ?qs) \<in> set (last ?qs)" using ne by (intro last_in_set) blast
  qed
  ultimately show ?thesis
    using ne unfolding Cons cookie_line_Cons by (intro TrimString_ends) (simp_all add: Join_ne hd_Join last_Join del: last.simps)
qed (simp add: cookie_line_def TrimString_def)

text \<open>The server reads of a browser's cookies the first value it sends under the name.\<close>

lemma Request_Cookie_line:
  assumes cs: "\<forall>p \<in> set cs. sent_pair p" and first: "map_of cs name = Some v" and v: "parseCookieValue v = Some v"
    and h: "Header_Values h ''Cookie'' = [cookie_line cs]"
  shows "Request_Cookie h name = Some v"
proof (cases cs)
  case (Cons p ps)
  let ?f = "cookie_in_part name"
  have "split_on (CHR '';'') (cookie_line cs) = pair_text p # map ((#) (CHR '' '')) (map pair_text ps)"
    unfolding Cons cookie_line_Cons
    by (rule split_Join_cookies) (use cs Cons in \<open>auto simp: sent_pair_def\<close>)
  moreover have rest: "\<exists>vs. List.map_filter ?f (map ((#) (CHR '' '')) (map pair_text qs)) = v # vs"
    if "\<forall>q \<in> set qs. sent_pair q" "map_of qs name = Some v" for qs
    using that by (induction qs) (auto simp: cookie_in_pair v List.map_filter_simps split: if_splits)
  ultimately have "\<exists>vs. List.map_filter ?f (split_on (CHR '';'') (cookie_line cs)) = v # vs"
    using cs first v Cons rest [of ps] by (cases "fst p = name") (auto simp: cookie_in_pair List.map_filter_simps)
  then show ?thesis
    by (auto simp: Request_Cookie_def h TrimString_cookie_line [OF cs])
qed (use first in simp)

lemma sent_ticket: "sent_pair (CookieName, seal L key t)"
proof -
  have "\<forall>c \<in> set CookieName. c \<noteq> CHR '';'' \<and> \<not> is_http_space c"
    by (simp add: CookieName_def is_http_space_def)
  moreover have "c \<noteq> CHR '';'' \<and> \<not> is_http_space c" if "c \<in> set (seal L key t)" for c
    using value_charD [OF seal_chars [OF that]] by simp
  ultimately show ?thesis
    by (auto simp: sent_pair_def CookieName_def)
qed

end
