(* ===== verification/Preview_Vault.thy ===== *)
theory Preview_Vault
  imports Preview_Tickets
begin

text \<open>
  Admission over time. The platform's session keeps no table of who is admitted: handoff codes
  live in a map that is pruned, and an admission is a signed cookie. The specification \<open>vault\<close> is
  the table one would keep instead: offers by code, never pruned, and sessions by identifier. Any
  interleaving of issuing, redeeming, finishing a handoff and judging a request answers the same
  in both, as long as no client forges a MAC.
\<close>

subsection \<open>Runs of the handoff's halves\<close>

definition host_lookup :: "moment \<Rightarrow> string \<Rightarrow> (kerr, previewAccess option) result" where
  "host_lookup mo host =
     (case rd_listPA (mo_cache mo) None IndexHost host of
        Inl e \<Rightarrow> Inl e | Inr [] \<Rightarrow> Inr None | Inr (rec # _) \<Rightarrow> Inr (Some rec))"

lemma ByHost_run: "run_state (ByHost E host) (n, g) = (host_lookup (E n) host, (Suc n, g))"
  by (simp add: ByHost_def listPA_def host_lookup_def)

lemma reads_only_cases:
  "(\<And>e. x = Inl e \<Longrightarrow> reads_only (f e)) \<Longrightarrow> (\<And>y. x = Inr y \<Longrightarrow> reads_only (k y)) \<Longrightarrow>
   reads_only (case x of Inl e \<Rightarrow> f e | Inr y \<Rightarrow> k y)"
  by (cases x) auto

lemma reads_only_option:
  "(x = None \<Longrightarrow> reads_only m) \<Longrightarrow> (\<And>y. x = Some y \<Longrightarrow> reads_only (k y)) \<Longrightarrow>
   reads_only (case x of None \<Rightarrow> m | Some y \<Rightarrow> k y)"
  by (cases x) auto

lemma reads_only_prod: "(\<And>a b. reads_only (k a b)) \<Longrightarrow> reads_only (case x of (a, b) \<Rightarrow> k a b)"
  by (cases x) auto

lemma reads_only_Let: "(\<And>x. reads_only (k x)) \<Longrightarrow> reads_only (let x = v in k x)"
  by simp

lemmas reads_only_rules = reads_only_bind reads_only_if reads_only_cases reads_only_option reads_only_prod
  reads_only_Let reads_only_return reads_only_look

lemma reads_only_basic [simp]:
  "reads_only (getNS E x)" "reads_only (listNS E x y)" "reads_only (getPA E x y)" "reads_only (listPA E z i v)"
  "reads_only (gwNow E)" "reads_only (endedRecord host)"
  by (simp_all add: getNS_def listNS_def getPA_def listPA_def gwNow_def endedRecord_def reads_only_memory)

lemma reads_only_AppNamespace [simp]: "reads_only (AppNamespace L E tenant app)"
  unfolding AppNamespace_def by (intro reads_only_rules reads_only_basic)

lemma reads_only_ByHost [simp]: "reads_only (ByHost E host)"
  unfolding ByHost_def by (intro reads_only_rules reads_only_basic)

lemma reads_only_sibling_origins [simp]: "reads_only (sibling_origins L E tenant os apps)"
proof (induction apps arbitrary: os)
  case (Cons app apps)
  show ?case
    unfolding sibling_origins.simps
    by (intro reads_only_rules Cons.IH reads_only_AppNamespace reads_only_basic)
qed simp

lemma reads_only_AppOrigins [simp]: "reads_only (gateway_AppOrigins L E ns apps)"
  unfolding gateway_AppOrigins_def by (intro reads_only_rules reads_only_basic reads_only_sibling_origins)

lemma reads_only_refuse: "reads_only (refuse E (GatewayIdentity L E) r host h state origin)"
  unfolding refuse_def refusal_origins_def refusal_answer_def GatewayIdentity_def identity.simps
  by (intro reads_only_rules reads_only_basic reads_only_ByHost reads_only_AppOrigins)

text \<open>A refusal sets no cookie.\<close>

lemma refusal_answer_cookies:
  "run_state (refusal_answer E r h state preview origins) s = (resp, s1) \<Longrightarrow>
   Header_Values (re_headers resp) ''Set-Cookie'' = Header_Values h ''Set-Cookie''"
  by (cases s) (auto simp: refusal_answer_def writeJSON_def no_store_def Let_def split: if_splits)

lemma refuse_cookies:
  assumes "run_state (refuse E I r host h state origin) s = (resp, s1)"
  shows "Header_Values (re_headers resp) ''Set-Cookie'' = Header_Values h ''Set-Cookie''"
  using assms unfolding refuse_def
  by (elim run_bindE)
     (auto simp: http_error_def split: sum.splits option.splits prod.splits elim!: run_bindE dest!: refusal_answer_cookies)

subsection \<open>Events\<close>

text \<open>
  Each event carries the environment it runs in and its first read there. \<open>FinishHandoff\<close> is the
  second half of the handoff for the \<open>i\<close>-th ticket redeemed and not finished: between the two halves
  other requests run.
\<close>

datatype gw_event =
    IssueCode env nat ticket
  | RedeemCode env nat string string
  | FinishHandoff env nat nat request string
  | Judge env nat request previewAccess

text \<open>What a client learns: the code, whether redeeming succeeded, the cookies set, the judgement.\<close>

datatype gw_out =
    Issued "string option"
  | Redeemed "ticket option"
  | Finished "string list"
  | Judged "string \<times> string \<times> string"

definition set_cookies :: "response \<Rightarrow> string list" where
  "set_cookies resp = map stored_value (Header_Values (re_headers resp) ''Set-Cookie'')"

definition remove_nth :: "nat \<Rightarrow> 'a list \<Rightarrow> 'a list" where
  "remove_nth i xs = take i xs @ drop (Suc i) xs"

subsection \<open>The code\<close>

text \<open>The process's memory, the tickets between the halves of a handoff, the cookies handed out.\<close>

record cstate =
  cs_gw :: gateway
  cs_pending :: "ticket list"
  cs_handed :: "string list"

fun cstep :: "golib \<Rightarrow> gw_event \<Rightarrow> cstate \<Rightarrow> gw_out \<times> cstate" where
  "cstep L (IssueCode E n t) s =
     (case run_state (Issue E t) (n, cs_gw s) of (k, (_, g)) \<Rightarrow> (Issued k, s\<lparr>cs_gw := g\<rparr>))"
| "cstep L (RedeemCode E n k host) s =
     (case run_state (Redeem E k host) (n, cs_gw s) of (r, (_, g)) \<Rightarrow>
        (case r of
           Inl _ \<Rightarrow> (Redeemed None, s\<lparr>cs_gw := g\<rparr>)
         | Inr t \<Rightarrow> (Redeemed (Some t), s\<lparr>cs_gw := g, cs_pending := cs_pending s @ [t]\<rparr>)))"
| "cstep L (FinishHandoff E n i r host) s =
     (if i < length (cs_pending s) then
        (case run_state (handoff_finish L E handoff_headers r host (refuse E (GatewayIdentity L E) r host)
                          (cs_pending s ! i)) (n, cs_gw s) of
           (resp, (_, g)) \<Rightarrow> (Finished (set_cookies resp),
             \<lparr> cs_gw = g, cs_pending = remove_nth i (cs_pending s), cs_handed = cs_handed s @ set_cookies resp \<rparr>))
      else (Finished [], s))"
| "cstep L (Judge E n r rec) s =
     (case run_state (cookie_Admit L E r rec) (n, cs_gw s) of (j, (_, g)) \<Rightarrow> (Judged j, s\<lparr>cs_gw := g\<rparr>))"

fun crun :: "golib \<Rightarrow> gw_event list \<Rightarrow> cstate \<Rightarrow> gw_out list" where
  "crun L [] s = []"
| "crun L (e # es) s = fst (cstep L e s) # crun L es (snd (cstep L e s))"

subsection \<open>The specification\<close>

record vault =
  vt_offers :: "string \<rightharpoonup> ticket \<times> int"
  vt_pending :: "ticket list"
  vt_sessions :: "string \<rightharpoonup> ticket"

text \<open>\<open>name\<close> gives a session its identifier.\<close>

definition vault_judge :: "env \<Rightarrow> nat \<Rightarrow> request \<Rightarrow> previewAccess \<Rightarrow> vault \<Rightarrow> string \<times> string \<times> string" where
  "vault_judge E n r rec v =
     (case Option.bind (Request_Cookie (rq_headers r) CookieName) (vt_sessions v) of
        None \<Rightarrow> ([], [], StateExpired)
      | Some t \<Rightarrow> (tk_subject t, tk_origin t,
          if \<not> (tk_record t = pa_uid rec \<and> tk_host t = pa_host rec \<and> mo_now (E n) < Unix (tk_expiry t)) then StateExpired
          else if \<not> Allowed rec (tk_subject t) then StateRevoked else []))"

text \<open>An offer can be claimed for ten seconds, at its own host.\<close>

fun claim_offer :: "int \<Rightarrow> string \<Rightarrow> (ticket \<times> int) option \<Rightarrow> ticket option" where
  "claim_offer at_now host None = None"
| "claim_offer at_now host (Some (t, issued)) =
     (if at_now - issued \<le> CodeTTL \<and> tk_host t = host then Some t else None)"

fun astep :: "(ticket \<Rightarrow> string) \<Rightarrow> gw_event \<Rightarrow> vault \<Rightarrow> gw_out \<times> vault" where
  "astep name (IssueCode E n t) v =
     (case mo_random (E n) of
        None \<Rightarrow> (Issued None, v)
      | Some b \<Rightarrow> (Issued (Some (RawURL_Encode b)),
          v\<lparr>vt_offers := (vt_offers v)(RawURL_Encode b \<mapsto> (t, mo_now (E (Suc n))))\<rparr>))"
| "astep name (RedeemCode E n k host) v =
     (case claim_offer (mo_now (E n)) host (vt_offers v k) of
        None \<Rightarrow> (Redeemed None, v\<lparr>vt_offers := (vt_offers v)(k := None)\<rparr>)
      | Some t \<Rightarrow> (Redeemed (Some t), v\<lparr>vt_offers := (vt_offers v)(k := None), vt_pending := vt_pending v @ [t]\<rparr>))"
| "astep name (FinishHandoff E n i r host) v =
     (if i < length (vt_pending v) then
        (let t = vt_pending v ! i; v = v\<lparr>vt_pending := remove_nth i (vt_pending v)\<rparr> in
         case handoff_valid t (host_lookup (E n) host) of
           None \<Rightarrow> (Finished [], v)
         | Some rec \<Rightarrow> (Finished [name t], v\<lparr>vt_sessions := (vt_sessions v)(name t \<mapsto> t)\<rparr>))
      else (Finished [], v))"
| "astep name (Judge E n r rec) v = (Judged (vault_judge E n r rec v), v)"

fun arun :: "(ticket \<Rightarrow> string) \<Rightarrow> gw_event list \<Rightarrow> vault \<Rightarrow> gw_out list" where
  "arun name [] v = []"
| "arun name (e # es) v = fst (astep name e v) # arun name es (snd (astep name e v))"

subsection \<open>What is assumed of clients and of the clock\<close>

text \<open>A value carries a valid MAC; such a value, when presented, was handed out before.\<close>

definition mac_valid :: "golib \<Rightarrow> string \<Rightarrow> string \<Rightarrow> bool" where
  "mac_valid L key v = (case Cut v (CHR ''.'') of (p, sig, ok) \<Rightarrow> ok \<and> sig = mac L key p)"

fun event_ok :: "golib \<Rightarrow> int \<Rightarrow> gw_event \<Rightarrow> cstate \<Rightarrow> bool" where
  "event_ok L last_issue (IssueCode E n t) s \<longleftrightarrow> plain_ticket t"
| "event_ok L last_issue (RedeemCode E n k host) s \<longleftrightarrow> last_issue \<le> mo_now (E n)"
| "event_ok L last_issue (FinishHandoff E n i r host) s \<longleftrightarrow> True"
| "event_ok L last_issue (Judge E n r rec) s \<longleftrightarrow>
     (case Request_Cookie (rq_headers r) CookieName of
        Some v \<Rightarrow> mac_valid L (gw_key (cs_gw s)) v \<longrightarrow> v \<in> set (cs_handed s) | None \<Rightarrow> True)"

fun issue_time :: "gw_event \<Rightarrow> int \<Rightarrow> int" where
  "issue_time (IssueCode E n t) last_issue = max last_issue (mo_now (E (Suc n)))"
| "issue_time _ last_issue = last_issue"

fun admissible :: "golib \<Rightarrow> int \<Rightarrow> gw_event list \<Rightarrow> cstate \<Rightarrow> bool" where
  "admissible L last_issue [] s \<longleftrightarrow> True"
| "admissible L last_issue (e # es) s \<longleftrightarrow>
     event_ok L last_issue e s \<and> admissible L (issue_time e last_issue) es (snd (cstep L e s))"

subsection \<open>The simulation\<close>

text \<open>A code that was pruned is an offer too old to be claimed.\<close>

fun offer_matches :: "int \<Rightarrow> code option \<Rightarrow> (ticket \<times> int) option \<Rightarrow> bool" where
  "offer_matches last_issue (Some c) off \<longleftrightarrow> off = Some (cd_ticket c, cd_issued c)"
| "offer_matches last_issue None (Some (t, issued)) \<longleftrightarrow> last_issue - issued > CodeTTL"
| "offer_matches last_issue None None \<longleftrightarrow> True"

definition codes_match :: "int \<Rightarrow> (string \<rightharpoonup> code) \<Rightarrow> (string \<rightharpoonup> ticket \<times> int) \<Rightarrow> bool" where
  "codes_match last_issue codes offers \<longleftrightarrow> (\<forall>k. offer_matches last_issue (codes k) (offers k))"

definition sessions_match :: "golib \<Rightarrow> string \<Rightarrow> string list \<Rightarrow> (string \<rightharpoonup> ticket) \<Rightarrow> bool" where
  "sessions_match L key handed sessions \<longleftrightarrow>
     dom sessions = set handed \<and> (\<forall>x t. sessions x = Some t \<longrightarrow> x = seal L key t \<and> plain_ticket t)"

definition sim :: "golib \<Rightarrow> string \<Rightarrow> int \<Rightarrow> cstate \<Rightarrow> vault \<Rightarrow> bool" where
  "sim L key last_issue s v \<longleftrightarrow>
     gw_key (cs_gw s) = key \<and> cs_pending s = vt_pending v \<and> (\<forall>t \<in> set (cs_pending s). plain_ticket t) \<and>
     (\<forall>k c. gw_codes (cs_gw s) k = Some c \<longrightarrow> plain_ticket (cd_ticket c)) \<and>
     codes_match last_issue (gw_codes (cs_gw s)) (vt_offers v) \<and>
     sessions_match L key (cs_handed s) (vt_sessions v)"

lemma time_sub_TTL: "time_sub a b > CodeTTL \<longleftrightarrow> a - b > CodeTTL"
  by (auto simp: time_sub_def sat64_def CodeTTL_def)

lemma offer_matches_mono: "offer_matches l c off \<Longrightarrow> l \<le> l' \<Longrightarrow> offer_matches l' c off"
  by (induction l c off rule: offer_matches.induct) auto

lemma codes_match_mono: "codes_match l codes offers \<Longrightarrow> l \<le> l' \<Longrightarrow> codes_match l' codes offers"
  using offer_matches_mono unfolding codes_match_def by blast

lemma offer_matches_drop:
  "offer_matches l (m k) off \<Longrightarrow> offer_matches (max l at_now) (drop_older cd_issued CodeTTL at_now m k) off"
  by (cases "m k"; cases off) (auto simp: drop_older_def time_sub_TTL)

lemma codes_match_put:
  assumes "codes_match l codes offers"
  shows "codes_match (max l at_now)
           ((drop_older cd_issued CodeTTL at_now codes)(k \<mapsto> \<lparr> cd_ticket = t, cd_issued = at_now \<rparr>)) (offers(k \<mapsto> (t, at_now)))"
  using assms by (simp add: codes_match_def offer_matches_drop)

lemma codes_match_take: "codes_match l codes offers \<Longrightarrow> codes_match l (codes(k := None)) (offers(k := None))"
  by (simp add: codes_match_def)

definition redeem_result :: "int \<Rightarrow> string \<Rightarrow> code option \<Rightarrow> ticket option" where
  "redeem_result at_now host c =
     (case c of None \<Rightarrow> None | Some c \<Rightarrow> (case redeem_check at_now host c of Inl _ \<Rightarrow> None | Inr t \<Rightarrow> Some t))"

lemma claim_redeem: "offer_matches l c off \<Longrightarrow> l \<le> at_now \<Longrightarrow> claim_offer at_now host off = redeem_result at_now host c"
  by (induction l c off rule: offer_matches.induct) (auto simp: redeem_result_def redeem_check_def time_sub_TTL)

abbreviation simulates :: "golib \<Rightarrow> string \<Rightarrow> int \<Rightarrow> gw_event \<Rightarrow> cstate \<Rightarrow> vault \<Rightarrow> bool" where
  "simulates L key last_issue e s v \<equiv>
     fst (cstep L e s) = fst (astep (seal L key) e v) \<and>
     sim L key (issue_time e last_issue) (snd (cstep L e s)) (snd (astep (seal L key) e v))"

lemma Issue_run:
  "run_state (Issue E t) (n, g) =
     (case mo_random (E n) of
        None \<Rightarrow> (None, (Suc n, g))
      | Some b \<Rightarrow> (Some (RawURL_Encode b), (Suc (Suc n), codes_put (mo_now (E (Suc n))) (RawURL_Encode b) t g)))"
  by (simp add: Issue_def gwNow_def Let_def split: option.split)

lemma sim_issue:
  assumes "sim L key last_issue s v" and "plain_ticket t"
  shows "simulates L key last_issue (IssueCode E n t) s v"
proof (cases "mo_random (E n)")
  case None
  with assms show ?thesis
    by (auto simp: Issue_run sim_def elim: codes_match_mono)
next
  case (Some b)
  have "codes_match last_issue (gw_codes (cs_gw s)) (vt_offers v)"
    using assms(1) by (simp add: sim_def)
  from codes_match_put [OF this, of "mo_now (E (Suc n))" "RawURL_Encode b" t] Some assms show ?thesis
    by (auto simp: Issue_run sim_def codes_put_def drop_older_def split: option.splits if_splits)
qed

lemma Redeem_run:
  "run_state (Redeem E k host) (n, g) =
     (case gw_codes g k of
        None \<Rightarrow> (Inl ''unknown or already used code'', (n, g\<lparr>gw_codes := (gw_codes g)(k := None)\<rparr>))
      | Some c \<Rightarrow> (redeem_check (mo_now (E n)) host c, (Suc n, g\<lparr>gw_codes := (gw_codes g)(k := None)\<rparr>)))"
  by (simp add: Redeem_def codes_take_def gwNow_def split: option.split)

lemma redeem_check_ticket: "redeem_check at_now host c = Inr t \<Longrightarrow> t = cd_ticket c"
  by (auto simp: redeem_check_def split: if_splits)

lemma sim_redeem:
  assumes "sim L key last_issue s v" and "last_issue \<le> mo_now (E n)"
  shows "simulates L key last_issue (RedeemCode E n k host) s v"
proof -
  let ?codes = "gw_codes (cs_gw s)"
  have m: "codes_match last_issue ?codes (vt_offers v)"
    using assms(1) by (simp add: sim_def)
  then have "offer_matches last_issue (?codes k) (vt_offers v k)" by (simp add: codes_match_def)
  then have "claim_offer (mo_now (E n)) host (vt_offers v k) = redeem_result (mo_now (E n)) host (?codes k)"
    using assms(2) by (rule claim_redeem)
  then show ?thesis
    using assms(1) codes_match_take [OF m, of k]
    by (auto simp: Redeem_run redeem_result_def sim_def dest: redeem_check_ticket split: option.splits sum.splits)
qed

lemma handoff_finish_run:
  "run_state (handoff_finish L E h r host rf t) (n, g) =
     (case handoff_valid t (host_lookup (E n) host) of
        None \<Rightarrow> run_state (rf h StateRevoked (tk_origin t)) (Suc n, g)
      | Some rec \<Rightarrow>
          (http_redirect (Header_Add ''Set-Cookie''
             (cookie_String (ticket_cookie L (gw_key g) t (time_sub (Unix (tk_expiry t)) (mo_now (E (Suc n)))))) h) r,
           (Suc (Suc n), noteRedeemed (pa_uid rec) (tk_subject t) (Unix (tk_expiry t)) g)))"
  by (simp add: handoff_finish_def ByHost_run gwNow_def Let_def split: option.split)

lemma redirect_cookies: "Header_Values (re_headers (http_redirect h r)) ''Set-Cookie'' = Header_Values h ''Set-Cookie''"
  by (simp add: http_redirect_def Let_def)

lemma handoff_headers_cookies: "Header_Values handoff_headers ''Set-Cookie'' = []"
  by (simp add: handoff_headers_def) (simp add: Header_Values_def)

lemma noteRedeemed_keeps [simp]:
  "gw_key (noteRedeemed u x e g) = gw_key g" "gw_codes (noteRedeemed u x e g) = gw_codes g"
  by (simp_all add: noteRedeemed_def)

lemma set_remove_nth: "set (remove_nth i xs) \<subseteq> set xs"
  unfolding remove_nth_def using set_take_subset [of i xs] set_drop_subset [of "Suc i" xs] by auto

text \<open>What the second half of a handoff leaves: either nothing but a refusal, or the cookie.\<close>

lemma finish_step:
  assumes "i < length (cs_pending s)"
  defines "t \<equiv> cs_pending s ! i"
  obtains g where "gw_key g = gw_key (cs_gw s)" and "gw_codes g = gw_codes (cs_gw s)"
    and "cstep L (FinishHandoff E n i r host) s =
      (let cks = (case handoff_valid t (host_lookup (E n) host) of None \<Rightarrow> [] | Some _ \<Rightarrow> [seal L (gw_key (cs_gw s)) t]) in
       (Finished cks, \<lparr> cs_gw = g, cs_pending = remove_nth i (cs_pending s), cs_handed = cs_handed s @ cks \<rparr>))"
proof (cases "handoff_valid t (host_lookup (E n) host)")
  case None
  obtain resp s1 where run: "run_state (refuse E (GatewayIdentity L E) r host handoff_headers StateRevoked (tk_origin t))
      (Suc n, cs_gw s) = (resp, s1)" by (rule run_cases)
  moreover obtain n1 where "s1 = (n1, cs_gw s)"
    using run_reads_only [OF reads_only_refuse run] by blast
  ultimately show thesis
    using that [of "cs_gw s"] None assms refuse_cookies [OF run]
    by (simp add: handoff_finish_run t_def set_cookies_def handoff_headers_cookies)
next
  case (Some rec)
  let ?g = "noteRedeemed (pa_uid rec) (tk_subject t) (Unix (tk_expiry t)) (cs_gw s)"
  show thesis
    using that [of ?g] Some assms
    by (simp add: handoff_finish_run t_def set_cookies_def redirect_cookies handoff_headers_cookies stored_cookie Let_def)
qed

lemma sim_finish:
  assumes sim: "sim L key last_issue s v"
  shows "simulates L key last_issue (FinishHandoff E n i r host) s v"
proof (cases "i < length (cs_pending s)")
  case False
  with sim show ?thesis by (simp add: sim_def)
next
  case True
  let ?t = "cs_pending s ! i"
  have pend: "cs_pending s = vt_pending v" and key: "gw_key (cs_gw s) = key" and t: "plain_ticket ?t"
    using sim True by (auto simp: sim_def)
  obtain g where g: "gw_key g = key" "gw_codes g = gw_codes (cs_gw s)"
    and step: "cstep L (FinishHandoff E n i r host) s =
      (let cks = (case handoff_valid ?t (host_lookup (E n) host) of None \<Rightarrow> [] | Some _ \<Rightarrow> [seal L key ?t]) in
       (Finished cks, \<lparr> cs_gw = g, cs_pending = remove_nth i (cs_pending s), cs_handed = cs_handed s @ cks \<rparr>))"
    using finish_step [OF True, of L E n r host] key by metis
  have "\<forall>x \<in> set (remove_nth i (cs_pending s)). plain_ticket x"
    using sim set_remove_nth [of i "cs_pending s"] by (auto simp: sim_def)
  then show ?thesis
    using sim g t True pend unfolding step
    by (auto simp: sim_def sessions_match_def Let_def split: option.splits if_splits)
qed

lemma mac_invalid: "\<not> mac_valid L key x \<Longrightarrow> open_ticket L key x = (no_ticket, False)"
  by (auto simp: mac_valid_def open_ticket_def split: prod.splits)

lemma mac_valid_seal: "mac_valid L key (seal L key t)"
proof -
  let ?p = "RawURL_Encode (gl_ticketJSON L t)"
  have "Cut (?p @ CHR ''.'' # mac L key ?p) (CHR ''.'') = (?p, mac L key ?p, True)"
    by (rule Cut_found) (rule RawURL_Encode_no_dot)
  then show ?thesis by (simp add: mac_valid_def seal_def Let_def)
qed

lemma sim_judge:
  assumes sim: "sim L key last_issue s v" and codec: "tickets_ok L" and ok: "event_ok L last_issue (Judge E n r rec) s"
  shows "simulates L key last_issue (Judge E n r rec) s v"
proof -
  have key: "gw_key (cs_gw s) = key" using sim by (simp add: sim_def)
  have ss: "dom (vt_sessions v) = set (cs_handed s)"
    "\<And>x t. vt_sessions v x = Some t \<Longrightarrow> x = seal L key t \<and> plain_ticket t"
    using sim by (auto simp: sim_def sessions_match_def)
  have judged: "fst (run_state (cookie_Admit L E r rec) (n, cs_gw s)) = vault_judge E n r rec v"
  proof (cases "Option.bind (Request_Cookie (rq_headers r) CookieName) (vt_sessions v)")
    case (Some t)
    then obtain x where "Request_Cookie (rq_headers r) CookieName = Some x" and "x = seal L key t" and "plain_ticket t"
      using ss(2) by (auto simp: bind_eq_Some_conv)
    with Some show ?thesis
      by (simp add: cookie_Admit_run vault_judge_def key open_seal [OF codec])
  next
    case None
    have "(case Request_Cookie (rq_headers r) CookieName of
             None \<Rightarrow> (no_ticket, False) | Some x \<Rightarrow> open_ticket L key x) = (no_ticket, False)"
      using None ok ss(1) key by (auto simp: mac_invalid split: option.splits)
    then show ?thesis
      unfolding cookie_Admit_run key by (simp add: vault_judge_def None Let_def) (simp add: no_ticket_def)
  qed
  have "snd (snd (run_state (cookie_Admit L E r rec) (n, cs_gw s))) = cs_gw s"
    by (simp add: cookie_Admit_run Let_def split: prod.split)
  with judged sim show ?thesis
    by (simp add: case_prod_beta)
qed

lemma sim_step:
  assumes "sim L key last_issue s v" and "tickets_ok L" and "event_ok L last_issue e s"
  shows "simulates L key last_issue e s v"
  using assms by (cases e) (simp_all only: event_ok.simps sim_issue sim_redeem sim_finish sim_judge)

lemma runs_agree:
  "sim L key last_issue s v \<Longrightarrow> tickets_ok L \<Longrightarrow> admissible L last_issue es s \<Longrightarrow>
   crun L es s = arun (seal L key) es v"
proof (induction es arbitrary: s v last_issue)
  case (Cons e es)
  then have "simulates L key last_issue e s v" by (simp only: admissible.simps sim_step)
  moreover from this have "crun L es (snd (cstep L e s)) = arun (seal L key) es (snd (astep (seal L key) e v))"
    by (intro Cons.IH) (use Cons.prems in auto)
  ultimately show ?case by simp
qed simp

subsection \<open>A code is redeemed at most once\<close>

definition cafter :: "golib \<Rightarrow> gw_event list \<Rightarrow> cstate \<Rightarrow> cstate" where
  "cafter L es s = fold (\<lambda>e s. snd (cstep L e s)) es s"

lemma cafter_simps [simp]:
  "cafter L [] s = s" "cafter L (e # es) s = cafter L es (snd (cstep L e s))"
  "cafter L (es @ [e]) s = snd (cstep L e (cafter L es s))"
  by (simp_all add: cafter_def)

lemma length_crun [simp]: "length (crun L es s) = length es"
  by (induction es arbitrary: s) auto

lemma crun_nth: "i < length es \<Longrightarrow> crun L es s ! i = fst (cstep L (es ! i) (cafter L (take i es) s))"
  by (induction es arbitrary: s i) (auto simp: nth_Cons take_Cons split: nat.splits)

lemma cstep_codes:
  assumes "gw_codes (cs_gw (snd (cstep L e s))) k = Some c"
  shows "(gw_codes (cs_gw s) k = Some c \<and> (\<forall>E n host. e \<noteq> RedeemCode E n k host)) \<or>
         (\<exists>E n. e = IssueCode E n (cd_ticket c) \<and> fst (cstep L e s) = Issued (Some k) \<and> cd_issued c = mo_now (E (Suc n)))"
proof (cases e)
  case (IssueCode E n t)
  with assms show ?thesis
    by (auto simp: Issue_run codes_put_def drop_older_def split: option.splits if_splits)
next
  case (RedeemCode E n k' host)
  with assms show ?thesis
    by (auto simp: Redeem_run split: option.splits sum.splits if_splits)
next
  case (FinishHandoff E n i r host)
  show ?thesis
  proof (cases "i < length (cs_pending s)")
    case True
    show ?thesis
      using assms unfolding FinishHandoff
      by (rule_tac finish_step [OF True, of L E n r host]) (auto simp: Let_def)
  qed (use assms FinishHandoff in simp)
next
  case (Judge E n r rec)
  with assms show ?thesis
    by (simp add: cookie_Admit_run Let_def split: prod.splits)
qed

text \<open>Every code that waits was issued, and nobody has tried to redeem it since.\<close>

lemma waiting_code_issued:
  assumes "gw_codes (cs_gw s) = Map.empty" and "gw_codes (cs_gw (cafter L es s)) k = Some c"
  shows "\<exists>i E n. i < length es \<and> es ! i = IssueCode E n (cd_ticket c) \<and> crun L es s ! i = Issued (Some k) \<and>
    cd_issued c = mo_now (E (Suc n)) \<and> (\<forall>m E' n' host. i < m \<longrightarrow> m < length es \<longrightarrow> es ! m \<noteq> RedeemCode E' n' k host)"
  using assms(2)
proof (induction es rule: rev_induct)
  case Nil
  with assms(1) show ?case by simp
next
  case (snoc e es)
  from cstep_codes [OF snoc.prems [unfolded cafter_simps]] show ?case
  proof
    assume old: "gw_codes (cs_gw (cafter L es s)) k = Some c \<and> (\<forall>E n host. e \<noteq> RedeemCode E n k host)"
    then obtain i E n where i: "i < length es" "es ! i = IssueCode E n (cd_ticket c)" "crun L es s ! i = Issued (Some k)"
      "cd_issued c = mo_now (E (Suc n))"
      and none: "\<forall>m E' n' host. i < m \<longrightarrow> m < length es \<longrightarrow> es ! m \<noteq> RedeemCode E' n' k host"
      using snoc.IH by blast
    have "crun L (es @ [e]) s ! i = crun L es s ! i"
      using i(1) by (simp add: crun_nth nth_append)
    moreover have "(es @ [e]) ! m \<noteq> RedeemCode E' n' k host" if "i < m" "m < length (es @ [e])" for m E' n' host
      using that none old by (cases "m < length es") (auto simp: nth_append)
    ultimately show ?thesis
      using i by (intro exI [of _ i] exI [of _ E] exI [of _ n]) (auto simp: nth_append)
  next
    assume "\<exists>E n. e = IssueCode E n (cd_ticket c) \<and> fst (cstep L e (cafter L es s)) = Issued (Some k) \<and>
      cd_issued c = mo_now (E (Suc n))"
    then obtain E n where "e = IssueCode E n (cd_ticket c)" "fst (cstep L e (cafter L es s)) = Issued (Some k)"
      "cd_issued c = mo_now (E (Suc n))" by blast
    then show ?thesis
      by (intro exI [of _ "length es"] exI [of _ E] exI [of _ n]) (auto simp: crun_nth)
  qed
qed

lemma redeemed_code:
  assumes "fst (cstep L (RedeemCode E n k host) s) = Redeemed (Some t)"
  obtains c where "gw_codes (cs_gw s) k = Some c" and "cd_ticket c = t" and "tk_host t = host"
    and "mo_now (E n) - cd_issued c \<le> CodeTTL"
proof -
  obtain c where c: "gw_codes (cs_gw s) k = Some c" "redeem_check (mo_now (E n)) host c = Inr t"
    using assms by (auto simp: Redeem_run split: option.splits sum.splits)
  then have "cd_ticket c = t \<and> tk_host t = host \<and> \<not> time_sub (mo_now (E n)) (cd_issued c) > CodeTTL"
    by (auto simp: redeem_check_def split: if_splits)
  with c(1) that show thesis by (auto simp: time_sub_TTL)
qed

end
