(* ===== verification/Preview_Records.thy ===== *)
theory Preview_Records
  imports Preview_Controller Preview_Vault
begin

text \<open>
  Which records exist, who finds them and which one serves a target. \<open>cache_ok\<close> is the contract of
  the watch cache; \<open>mirrors\<close> says that a cache holds exactly a given set of records and namespaces.
  On such caches \<open>Reachable\<close> finds exactly the records an application may embed, admission keeps
  names and targets unambiguous, and the controller ranks the records of a target.
\<close>

subsection \<open>The contract of the cache\<close>

text \<open>
  An object is found under its own name, a list holds only objects with the labels or the index
  value asked for. Application ids have no slash: they are label values.
\<close>

definition no_slash :: "string \<Rightarrow> bool" where
  "no_slash s \<longleftrightarrow> CHR ''/'' \<notin> set s"

definition has_labels :: "string \<Rightarrow> string \<Rightarrow> namespace \<Rightarrow> bool" where
  "has_labels tenant app n \<longleftrightarrow>
     map_of (ns_labels n) LabelTenant = Some tenant \<and> map_of (ns_labels n) LabelApp = Some app"

definition valid_record :: "previewAccess \<Rightarrow> bool" where
  "valid_record rec \<longleftrightarrow> list_all no_slash (ps_embeddableBy (pa_spec rec))"

definition cache_ok :: "reader \<Rightarrow> bool" where
  "cache_ok R \<longleftrightarrow>
     (\<forall>n x. rd_getNS R n = Inr x \<longrightarrow> ns_name x = n \<and> no_slash (mget (ns_labels x) LabelApp)) \<and>
     (\<forall>t a l. rd_listNS R t a = Inr l \<longrightarrow> (\<forall>x \<in> set l. has_labels t a x)) \<and>
     (\<forall>ns n x. rd_getPA R ns n = Inr x \<longrightarrow> pa_ns x = ns \<and> pa_name x = n \<and> valid_record x) \<and>
     (\<forall>z i v l. rd_listPA R z i v = Inr l \<longrightarrow>
        (\<forall>x \<in> set l. v \<in> set (index_values i x) \<and> valid_record x \<and> (case z of Some ns \<Rightarrow> pa_ns x = ns | None \<Rightarrow> True)))"

lemma cache_okD:
  assumes "cache_ok R"
  shows "rd_getNS R n = Inr y \<Longrightarrow> ns_name y = n \<and> no_slash (mget (ns_labels y) LabelApp)"
    and "rd_listNS R t a = Inr ys \<Longrightarrow> y \<in> set ys \<Longrightarrow> has_labels t a y"
    and "rd_getPA R ns n = Inr x \<Longrightarrow> pa_ns x = ns \<and> pa_name x = n \<and> valid_record x"
    and "rd_listPA R z i v = Inr l \<Longrightarrow> x \<in> set l \<Longrightarrow> v \<in> set (index_values i x) \<and> valid_record x"
    and "rd_listPA R (Some ns) i v = Inr l \<Longrightarrow> x \<in> set l \<Longrightarrow> pa_ns x = ns"
proof -
  note ok = assms [unfolded cache_ok_def]
  show "rd_getNS R n = Inr y \<Longrightarrow> ns_name y = n \<and> no_slash (mget (ns_labels y) LabelApp)" using ok by blast
  show "rd_listNS R t a = Inr ys \<Longrightarrow> y \<in> set ys \<Longrightarrow> has_labels t a y" using ok by blast
  show "rd_getPA R ns n = Inr x \<Longrightarrow> pa_ns x = ns \<and> pa_name x = n \<and> valid_record x" using ok by blast
  have list: "rd_listPA R z i v = Inr l \<Longrightarrow> x \<in> set l \<Longrightarrow>
      v \<in> set (index_values i x) \<and> valid_record x \<and> (case z of Some ns \<Rightarrow> pa_ns x = ns | None \<Rightarrow> True)" for z
    using ok by blast
  then show "rd_listPA R z i v = Inr l \<Longrightarrow> x \<in> set l \<Longrightarrow> v \<in> set (index_values i x) \<and> valid_record x"
    by blast
  show "rd_listPA R (Some ns) i v = Inr l \<Longrightarrow> x \<in> set l \<Longrightarrow> pa_ns x = ns"
    using list [of "Some ns"] by simp
qed

lemma EmbedKey_inj:
  assumes "no_slash a" and "no_slash b" and "EmbedKey a m = EmbedKey b n"
  shows "a = b \<and> m = n"
proof -
  have "Cut (a @ CHR ''/'' # m) (CHR ''/'') = (a, m, True)"
    using assms(1) unfolding no_slash_def by (rule Cut_found)
  moreover have "Cut (b @ CHR ''/'' # n) (CHR ''/'') = (b, n, True)"
    using assms(2) unfolding no_slash_def by (rule Cut_found)
  moreover have "a @ CHR ''/'' # m = b @ CHR ''/'' # n"
    using assms(3) unfolding EmbedKey_def append_Cons append_Nil .
  ultimately show ?thesis by (metis Pair_inject)
qed

lemma embedded_name:
  assumes "EmbedKey app name \<in> set (index_values IndexEmbeddableBy rec)" and "valid_record rec" and "no_slash app"
  shows "pa_name rec = name \<and> app \<in> set (ps_embeddableBy (pa_spec rec))"
proof -
  obtain a where "a \<in> set (ps_embeddableBy (pa_spec rec))" "EmbedKey app name = EmbedKey a (pa_name rec)"
    using assms(1) by auto
  moreover have "no_slash a"
    using assms(2) calculation(1) by (simp add: valid_record_def list_all_iff)
  ultimately show ?thesis using EmbedKey_inj [OF assms(3)] by blast
qed

lemma run_resultE:
  assumes "run_state (m \<bind> (\<lambda>r. case r of Inl e \<Rightarrow> return_gw (Inl e) | Inr x \<Rightarrow> f x)) s = (Inr y, s2)"
  obtains x s1 where "run_state m s = (Inr x, s1)" and "run_state (f x) s1 = (Inr y, s2)"
proof -
  obtain r s1 where r: "run_state m s = (r, s1)" by (rule run_cases)
  with assms that show thesis by (cases r) auto
qed

subsection \<open>Who may embed a record\<close>

text \<open>
  The record lives in a namespace of the tenant, and either that namespace is the application's or
  the record names the application.
\<close>

definition embeddable_in :: "namespace \<Rightarrow> string \<Rightarrow> string \<Rightarrow> previewAccess \<Rightarrow> bool" where
  "embeddable_in n tenant app rec \<longleftrightarrow>
     ns_name n = pa_ns rec \<and> mget (ns_labels n) LabelTenant = tenant \<and>
     (mget (ns_labels n) LabelApp = app \<or> app \<in> set (ps_embeddableBy (pa_spec rec)))"

lemma has_labels_mget: "has_labels t a n \<Longrightarrow> mget (ns_labels n) LabelTenant = t \<and> mget (ns_labels n) LabelApp = a"
  by (simp add: has_labels_def mget_def)

lemma sibling_records_sound:
  assumes ok: "\<forall>n. cache_ok (mo_cache (E n))"
    and "run_state (sibling_records E tenant own recs) s = (Inr found, s1)" and "rec \<in> set found"
  shows "rec \<in> set recs \<and> (\<exists>m n. rd_getNS (mo_cache (E m)) (pa_ns rec) = Inr n \<and> mget (ns_labels n) LabelTenant = tenant)"
  using assms(2,3)
proof (induction recs arbitrary: s s1 found)
  case (Cons r recs)
  obtain m g where s: "s = (m, g)" by (cases s)
  show ?case
  proof (cases "pa_ns r = own")
    case True
    with Cons show ?thesis by auto
  next
    case False
    show ?thesis
    proof (cases "rd_getNS (mo_cache (E m)) (pa_ns r)")
      case (Inl e)
      with Cons False s show ?thesis by (auto simp: getNS_def split: if_splits)
    next
      case (Inr n)
      obtain rest s2 where run: "run_state (sibling_records E tenant own recs) (Suc m, g) = (rest, s2)" by (rule run_cases)
      with Cons.prems False s Inr obtain rs where rs: "rest = Inr rs"
        and found: "found = (if mget (ns_labels n) LabelTenant = tenant then r # rs else rs)"
        by (cases rest) (auto simp: getNS_def)
      with Cons.IH [OF run [unfolded rs]] Cons.prems(2) Inr show ?thesis by (auto split: if_splits)
    qed
  qed
qed simp

lemma AppNamespace_sound:
  assumes "run_state (AppNamespace L E tenant app) (n, g) = (Inr own, s)" and "own \<noteq> []"
  shows "s = (Suc n, g) \<and> (\<exists>x. rd_listNS (mo_cache (E n)) tenant app = Inr [x] \<and> ns_name x = own)"
  using assms by (auto simp: AppNamespace_def listNS_def split: sum.splits list.splits)

lemma Reachable_runE:
  assumes "run_state (Reachable L E tenant app name) s = (Inr found, s1)"
  obtains own mine items sib s2 m h where "run_state (AppNamespace L E tenant app) s = (Inr own, s2)"
    and "run_state (own_record E own name) s2 = (Inr mine, (m, h))"
    and "rd_listPA (mo_cache (E m)) None IndexEmbeddableBy (EmbedKey app name) = Inr items"
    and "run_state (sibling_records E tenant own items) (Suc m, h) = (Inr sib, s1)" and "found = mine @ sib"
  using assms unfolding Reachable_def
proof (elim run_resultE)
  fix own s2 mine s3 items s4
  assume own: "run_state (AppNamespace L E tenant app) s = (Inr own, s2)"
    and mine: "run_state (own_record E own name) s2 = (Inr mine, s3)"
    and items: "run_state (listPA E None IndexEmbeddableBy (EmbedKey app name)) s3 = (Inr items, s4)"
    and last: "run_state (sibling_records E tenant own items \<bind> (\<lambda>rest. return_gw (map_sum id ((@) mine) rest))) s4 = (Inr found, s1)"
  obtain m h where s3: "s3 = (m, h)" by (cases s3)
  obtain rest s5 where rest: "run_state (sibling_records E tenant own items) s4 = (rest, s5)" by (rule run_cases)
  then obtain sib where "rest = Inr sib" "found = mine @ sib" "s5 = s1" using last by (cases rest) auto
  with that own mine items rest s3 show thesis by (auto simp: listPA_def)
qed

text \<open>Objects some read of a run found in the cache.\<close>

definition seen_ns :: "env \<Rightarrow> namespace \<Rightarrow> bool" where
  "seen_ns E x \<longleftrightarrow> (\<exists>m. rd_getNS (mo_cache (E m)) (ns_name x) = Inr x \<or>
     (\<exists>t a l. rd_listNS (mo_cache (E m)) t a = Inr l \<and> x \<in> set l))"

definition seen_pa :: "env \<Rightarrow> previewAccess \<Rightarrow> bool" where
  "seen_pa E x \<longleftrightarrow> (\<exists>m. rd_getPA (mo_cache (E m)) (pa_ns x) (pa_name x) = Inr x \<or>
     (\<exists>z i v l. rd_listPA (mo_cache (E m)) z i v = Inr l \<and> x \<in> set l))"

text \<open>What \<open>Reachable\<close> finds may be embedded by the application that asked.\<close>

lemma Reachable_sound:
  assumes ok: "\<forall>n. cache_ok (mo_cache (E n))" and app: "no_slash app"
    and run: "run_state (Reachable L E tenant app name) s = (Inr found, s1)" and rec: "rec \<in> set found"
  shows "pa_name rec = name \<and> seen_pa E rec \<and> (\<exists>n. seen_ns E n \<and> embeddable_in n tenant app rec)"
proof -
  obtain n g where s: "s = (n, g)" by (cases s)
  from run obtain own mine items sib s2 m h where own: "run_state (AppNamespace L E tenant app) s = (Inr own, s2)"
    and mine: "run_state (own_record E own name) s2 = (Inr mine, (m, h))"
    and items: "rd_listPA (mo_cache (E m)) None IndexEmbeddableBy (EmbedKey app name) = Inr items"
    and sib: "run_state (sibling_records E tenant own items) (Suc m, h) = (Inr sib, s1)" and found: "found = mine @ sib"
    by (rule Reachable_runE)
  from rec found consider "rec \<in> set mine" | "rec \<in> set sib" by auto
  then show ?thesis
  proof cases
    case 1
    then have ne: "own \<noteq> []" using mine by (auto simp: own_record_def)
    obtain x where x: "rd_listNS (mo_cache (E n)) tenant app = Inr [x]" "ns_name x = own" and s2: "s2 = (Suc n, g)"
      using AppNamespace_sound [OF own [unfolded s] ne] by blast
    have get: "rd_getPA (mo_cache (E (Suc n))) own name = Inr rec"
      using mine 1 ne s2 by (auto simp: own_record_def getPA_def split: sum.splits if_splits)
    then have name: "pa_ns rec = own \<and> pa_name rec = name" using ok cache_okD(3) by blast
    moreover have "has_labels tenant app x" using ok cache_okD(2) x(1) by fastforce
    moreover have "seen_ns E x" unfolding seen_ns_def using x(1) by (metis list.set_intros(1))
    moreover have "seen_pa E rec" unfolding seen_pa_def using get name by blast
    ultimately show ?thesis
      using x(2) has_labels_mget by (auto simp: embeddable_in_def)
  next
    case 2
    then obtain k y where rec_in: "rec \<in> set items" and y: "rd_getNS (mo_cache (E k)) (pa_ns rec) = Inr y"
      "mget (ns_labels y) LabelTenant = tenant"
      using sibling_records_sound [OF ok sib] by blast
    have "EmbedKey app name \<in> set (index_values IndexEmbeddableBy rec)" "valid_record rec"
      using ok cache_okD(4) items rec_in by blast+
    then have "pa_name rec = name" "app \<in> set (ps_embeddableBy (pa_spec rec))"
      using embedded_name app by blast+
    moreover have ny: "ns_name y = pa_ns rec" using ok cache_okD(1) y(1) by blast
    moreover have "seen_ns E y" unfolding seen_ns_def using y(1) ny by auto
    moreover have "seen_pa E rec" unfolding seen_pa_def using items rec_in by blast
    ultimately show ?thesis using y(2) by (auto simp: embeddable_in_def)
  qed
qed

subsection \<open>Caches that hold a known world\<close>

text \<open>
  The cache mirrors a set of records and one of namespaces: what it returns is in them, a list is
  complete, and an object it does not find is not there. Any call may still fail otherwise.
\<close>

definition mirrors :: "previewAccess set \<Rightarrow> namespace set \<Rightarrow> reader \<Rightarrow> bool" where
  "mirrors P NS R \<longleftrightarrow>
     (\<forall>n. case rd_getNS R n of Inr x \<Rightarrow> x \<in> NS \<and> ns_name x = n | Inl e \<Rightarrow> IsNotFound e \<longrightarrow> (\<forall>x \<in> NS. ns_name x \<noteq> n)) \<and>
     (\<forall>t a l. rd_listNS R t a = Inr l \<longrightarrow> set l = {x \<in> NS. has_labels t a x}) \<and>
     (\<forall>ns n. case rd_getPA R ns n of
        Inr x \<Rightarrow> x \<in> P \<and> pa_ns x = ns \<and> pa_name x = n
      | Inl e \<Rightarrow> IsNotFound e \<longrightarrow> (\<forall>x \<in> P. \<not> (pa_ns x = ns \<and> pa_name x = n))) \<and>
     (\<forall>z i v l. rd_listPA R z i v = Inr l \<longrightarrow>
        set l = {x \<in> P. v \<in> set (index_values i x) \<and> (case z of Some ns \<Rightarrow> pa_ns x = ns | None \<Rightarrow> True)})"

lemma mirrors_getNS:
  assumes "mirrors P NS R"
  shows "rd_getNS R n = Inr x \<Longrightarrow> x \<in> NS \<and> ns_name x = n"
    and "rd_getNS R n = Inl e \<Longrightarrow> IsNotFound e \<Longrightarrow> x \<in> NS \<Longrightarrow> ns_name x \<noteq> n"
proof -
  have "case rd_getNS R n of Inr x \<Rightarrow> x \<in> NS \<and> ns_name x = n | Inl e \<Rightarrow> IsNotFound e \<longrightarrow> (\<forall>x \<in> NS. ns_name x \<noteq> n)"
    using assms unfolding mirrors_def by blast
  then show "rd_getNS R n = Inr x \<Longrightarrow> x \<in> NS \<and> ns_name x = n"
    and "rd_getNS R n = Inl e \<Longrightarrow> IsNotFound e \<Longrightarrow> x \<in> NS \<Longrightarrow> ns_name x \<noteq> n" by auto
qed

lemma mirrors_getPA:
  assumes "mirrors P NS R"
  shows "rd_getPA R ns n = Inr x \<Longrightarrow> x \<in> P \<and> pa_ns x = ns \<and> pa_name x = n"
    and "rd_getPA R ns n = Inl e \<Longrightarrow> IsNotFound e \<Longrightarrow> x \<in> P \<Longrightarrow> \<not> (pa_ns x = ns \<and> pa_name x = n)"
proof -
  have "case rd_getPA R ns n of
        Inr x \<Rightarrow> x \<in> P \<and> pa_ns x = ns \<and> pa_name x = n
      | Inl e \<Rightarrow> IsNotFound e \<longrightarrow> (\<forall>x \<in> P. \<not> (pa_ns x = ns \<and> pa_name x = n))"
    using assms unfolding mirrors_def by blast
  then show "rd_getPA R ns n = Inr x \<Longrightarrow> x \<in> P \<and> pa_ns x = ns \<and> pa_name x = n"
    and "rd_getPA R ns n = Inl e \<Longrightarrow> IsNotFound e \<Longrightarrow> x \<in> P \<Longrightarrow> \<not> (pa_ns x = ns \<and> pa_name x = n)" by auto
qed

lemma mirrors_lists:
  assumes "mirrors P NS R"
  shows "rd_listNS R t a = Inr ys \<Longrightarrow> set ys = {x \<in> NS. has_labels t a x}"
    and "rd_listPA R None i v = Inr l \<Longrightarrow> set l = {x \<in> P. v \<in> set (index_values i x)}"
    and "rd_listPA R (Some ns) i v = Inr l \<Longrightarrow> set l = {x \<in> P. v \<in> set (index_values i x) \<and> pa_ns x = ns}"
proof -
  have list: "rd_listPA R z i v = Inr l \<Longrightarrow>
      set l = {x \<in> P. v \<in> set (index_values i x) \<and> (case z of Some ns \<Rightarrow> pa_ns x = ns | None \<Rightarrow> True)}" for z
    using assms unfolding mirrors_def by blast
  show "rd_listNS R t a = Inr ys \<Longrightarrow> set ys = {x \<in> NS. has_labels t a x}"
    using assms unfolding mirrors_def by blast
  show "rd_listPA R None i v = Inr l \<Longrightarrow> set l = {x \<in> P. v \<in> set (index_values i x)}"
    using list [of None] by simp
  show "rd_listPA R (Some ns) i v = Inr l \<Longrightarrow> set l = {x \<in> P. v \<in> set (index_values i x) \<and> pa_ns x = ns}"
    using list [of "Some ns"] by simp
qed

text \<open>What the API server guarantees of records and namespaces.\<close>

definition world :: "previewAccess set \<Rightarrow> namespace set \<Rightarrow> bool" where
  "world P NS \<longleftrightarrow>
     inj_on (\<lambda>r. (pa_ns r, pa_name r)) P \<and> inj_on ns_name NS \<and> (\<forall>n \<in> NS. ns_name n \<noteq> []) \<and>
     (\<forall>r \<in> P. valid_record r) \<and> (\<forall>n \<in> NS. no_slash (mget (ns_labels n) LabelApp))"

definition embeddable :: "namespace set \<Rightarrow> string \<Rightarrow> string \<Rightarrow> previewAccess \<Rightarrow> bool" where
  "embeddable NS tenant app rec \<longleftrightarrow> (\<exists>n \<in> NS. embeddable_in n tenant app rec)"

lemma labels_of_mget: "t \<noteq> [] \<Longrightarrow> a \<noteq> [] \<Longrightarrow> has_labels t a n \<longleftrightarrow> mget (ns_labels n) LabelTenant = t \<and> mget (ns_labels n) LabelApp = a"
  by (auto simp: has_labels_def mget_def split: option.splits)

lemma sibling_records_exact:
  assumes "\<forall>n. mirrors P NS (mo_cache (E n))" and inj: "inj_on ns_name NS"
    and "run_state (sibling_records E tenant own recs) s = (Inr found, s1)"
  shows "set found = {r \<in> set recs. pa_ns r \<noteq> own \<and> (\<exists>n \<in> NS. ns_name n = pa_ns r \<and> mget (ns_labels n) LabelTenant = tenant)}"
  using assms(3)
proof (induction recs arbitrary: s s1 found)
  case (Cons r recs)
  obtain m g where s: "s = (m, g)" by (cases s)
  have mir: "mirrors P NS (mo_cache (E m))" using assms(1) by blast
  show ?case
  proof (cases "pa_ns r = own")
    case True
    with Cons show ?thesis by auto
  next
    case False
    show ?thesis
    proof (cases "rd_getNS (mo_cache (E m)) (pa_ns r)")
      case (Inl e)
      with Cons.prems False s have "IsNotFound e" and "run_state (sibling_records E tenant own recs) (Suc m, g) = (Inr found, s1)"
        by (auto simp: getNS_def split: if_splits)
      moreover from this have "\<forall>x \<in> NS. ns_name x \<noteq> pa_ns r" using mirrors_getNS(2) [OF mir Inl] by blast
      ultimately show ?thesis using Cons.IH by auto
    next
      case (Inr n)
      then have n: "n \<in> NS" "ns_name n = pa_ns r" using mirrors_getNS(1) [OF mir] by blast+
      then have only: "n' = n" if "n' \<in> NS" "ns_name n' = pa_ns r" for n'
        using inj_onD [OF inj, of n' n] that by simp
      obtain rest s2 where run: "run_state (sibling_records E tenant own recs) (Suc m, g) = (rest, s2)" by (rule run_cases)
      with Cons.prems False s Inr obtain rs where rs: "rest = Inr rs"
        and found: "found = (if mget (ns_labels n) LabelTenant = tenant then r # rs else rs)"
        by (cases rest) (auto simp: getNS_def)
      have "(\<exists>x \<in> NS. ns_name x = pa_ns r \<and> mget (ns_labels x) LabelTenant = tenant) \<longleftrightarrow> mget (ns_labels n) LabelTenant = tenant"
        using n only by blast
      with Cons.IH [OF run [unfolded rs]] False show ?thesis
        unfolding found by (simp add: Collect_disj_eq [symmetric] insert_compr) blast
    qed
  qed
qed simp

lemma own_record_exact:
  assumes mir: "\<forall>n. mirrors P NS (mo_cache (E n))" and inj: "inj_on (\<lambda>r. (pa_ns r, pa_name r)) P"
    and run: "run_state (own_record E own name) s = (Inr mine, s1)"
  shows "set mine = {r \<in> P. own \<noteq> [] \<and> pa_ns r = own \<and> pa_name r = name}"
proof (cases "own = []")
  case True
  with run show ?thesis by (simp add: own_record_def)
next
  case False
  obtain m g where s: "s = (m, g)" by (cases s)
  have mir: "mirrors P NS (mo_cache (E m))" using mir by blast
  show ?thesis
  proof (cases "rd_getPA (mo_cache (E m)) own name")
    case (Inl e)
    with run False s have "IsNotFound e" "mine = []"
      by (auto simp: own_record_def getPA_def split: if_splits)
    with mirrors_getPA(2) [OF mir Inl] show ?thesis by auto
  next
    case (Inr x)
    with run False s have "mine = [x]" by (auto simp: own_record_def getPA_def)
    moreover have "x \<in> P \<and> pa_ns x = own \<and> pa_name x = name" using mirrors_getPA(1) [OF mir Inr] .
    ultimately show ?thesis using inj False by (auto dest: inj_onD)
  qed
qed

lemma embeddable_app_no_slash: "world P NS \<Longrightarrow> valid_record r \<Longrightarrow> embeddable NS tenant app r \<Longrightarrow> no_slash app"
  by (auto simp: world_def embeddable_def embeddable_in_def valid_record_def list_all_iff)

text \<open>\<open>Reachable\<close> finds exactly the records of that name the application may embed.\<close>

lemma Reachable_exact:
  assumes w: "world P NS" and mir: "\<forall>n. mirrors P NS (mo_cache (E n))"
    and ne: "tenant \<noteq> []" "app \<noteq> []" and app: "no_slash app"
    and run: "run_state (Reachable L E tenant app name) s = (Inr found, s1)"
  shows "set found = {r \<in> P. pa_name r = name \<and> embeddable NS tenant app r}"
proof -
  obtain n g where s: "s = (n, g)" by (cases s)
  from run obtain own mine items sib s2 m h where own: "run_state (AppNamespace L E tenant app) s = (Inr own, s2)"
    and mine: "run_state (own_record E own name) s2 = (Inr mine, (m, h))"
    and items: "rd_listPA (mo_cache (E m)) None IndexEmbeddableBy (EmbedKey app name) = Inr items"
    and sib: "run_state (sibling_records E tenant own items) (Suc m, h) = (Inr sib, s1)" and found: "found = mine @ sib"
    by (rule Reachable_runE)
  have inj: "inj_on ns_name NS" "inj_on (\<lambda>r. (pa_ns r, pa_name r)) P" and nonempty: "\<forall>x \<in> NS. ns_name x \<noteq> []"
    and valid: "\<forall>r \<in> P. valid_record r"
    using w by (auto simp: world_def)
  have items_iff: "r \<in> set items \<longleftrightarrow> r \<in> P \<and> pa_name r = name \<and> app \<in> set (ps_embeddableBy (pa_spec r))" for r
  proof -
    have "r \<in> set items \<longleftrightarrow> r \<in> P \<and> EmbedKey app name \<in> set (index_values IndexEmbeddableBy r)"
      using mirrors_lists(2) [OF spec [OF mir] items] by auto
    moreover have "pa_name r = name \<and> app \<in> set (ps_embeddableBy (pa_spec r))"
      if "r \<in> P" "EmbedKey app name \<in> set (index_values IndexEmbeddableBy r)"
      using embedded_name [OF that(2) _ app] valid that(1) by blast
    ultimately show ?thesis by auto
  qed
  obtain ys where ys: "rd_listNS (mo_cache (E n)) tenant app = Inr ys" and own_is: "own = (case ys of [] \<Rightarrow> [] | x # _ \<Rightarrow> ns_name x)" "length ys \<le> 1"
    using own s by (auto simp: AppNamespace_def listNS_def split: sum.splits list.splits)
  have ys_iff: "x \<in> set ys \<longleftrightarrow> x \<in> NS \<and> mget (ns_labels x) LabelTenant = tenant \<and> mget (ns_labels x) LabelApp = app" for x
    using mirrors_lists(1) [OF spec [OF mir] ys] labels_of_mget [OF ne] by auto
  have own_iff: "ns_name x = own \<longleftrightarrow> x \<in> set ys" if "x \<in> NS" for x
  proof (cases ys)
    case Nil
    with own_is nonempty that show ?thesis by auto
  next
    case (Cons y zs)
    then have "ys = [y]" using own_is(2) by simp
    moreover have "y \<in> NS" using ys_iff [of y] Cons by simp
    ultimately show ?thesis using own_is(1) inj(1) that by (auto dest: inj_onD)
  qed
  show ?thesis
  proof (intro equalityI subsetI)
    fix r assume "r \<in> set found"
    then consider "r \<in> set mine" | "r \<in> set sib" using found by auto
    then show "r \<in> {r \<in> P. pa_name r = name \<and> embeddable NS tenant app r}"
    proof cases
      case 1
      then have r: "r \<in> P" "own \<noteq> []" "pa_ns r = own" "pa_name r = name"
        using own_record_exact [OF mir inj(2) mine] by auto
      then obtain y zs where "ys = y # zs" using own_is(1) by (cases ys) auto
      then have "y \<in> NS" "ns_name y = own" using ys_iff own_is(1) by auto
      with r ys_iff own_iff show ?thesis by (auto simp: embeddable_def embeddable_in_def)
    next
      case 2
      then show ?thesis
        using sibling_records_exact [OF mir inj(1) sib] items_iff by (auto simp: embeddable_def embeddable_in_def)
    qed
  next
    fix r assume "r \<in> {r \<in> P. pa_name r = name \<and> embeddable NS tenant app r}"
    then obtain x where r: "r \<in> P" "pa_name r = name" and x: "x \<in> NS" "ns_name x = pa_ns r"
      "mget (ns_labels x) LabelTenant = tenant" "mget (ns_labels x) LabelApp = app \<or> app \<in> set (ps_embeddableBy (pa_spec r))"
      by (auto simp: embeddable_def embeddable_in_def)
    show "r \<in> set found"
    proof (cases "pa_ns r = own")
      case True
      then have "own \<noteq> []" using x nonempty by auto
      with True r show ?thesis using own_record_exact [OF mir inj(2) mine] found by auto
    next
      case False
      then have "x \<notin> set ys" using own_iff [OF x(1)] x(2) by simp
      then have "app \<in> set (ps_embeddableBy (pa_spec r))" using ys_iff [of x] x by blast
      with False r x show ?thesis
        using sibling_records_exact [OF mir inj(1) sib] items_iff found by auto
    qed
  qed
qed

subsection \<open>Admission\<close>

text \<open>No application finds two records under one name, and no target has two records.\<close>

definition unambiguous :: "previewAccess set \<Rightarrow> namespace set \<Rightarrow> bool" where
  "unambiguous P NS \<longleftrightarrow> (\<forall>tenant app. \<forall>r \<in> P. \<forall>r' \<in> P.
     tenant \<noteq> [] \<longrightarrow> app \<noteq> [] \<longrightarrow> pa_name r = pa_name r' \<longrightarrow>
     embeddable NS tenant app r \<longrightarrow> embeddable NS tenant app r' \<longrightarrow> r = r')"

definition same_target :: "previewAccess \<Rightarrow> previewAccess \<Rightarrow> bool" where
  "same_target r r' \<longleftrightarrow> pa_ns r = pa_ns r' \<and> ps_jobRef (pa_spec r) = ps_jobRef (pa_spec r') \<and>
     ps_port (pa_spec r) = ps_port (pa_spec r')"

definition single_target :: "previewAccess set \<Rightarrow> bool" where
  "single_target P \<longleftrightarrow> (\<forall>r \<in> P. \<forall>r' \<in> P. same_target r r' \<longrightarrow> r = r')"

text \<open>The records after one is created, or updated under its name.\<close>

definition stored :: "previewAccess \<Rightarrow> previewAccess set \<Rightarrow> previewAccess set" where
  "stored rec P = insert rec {r \<in> P. \<not> (pa_ns r = pa_ns rec \<and> pa_name r = pa_name rec)}"

lemma check_embedders_admits:
  assumes "fst (run_state (check_embedders L E ns tenant rec apps) s) = Admitted" and "app \<in> set apps"
  shows "\<exists>s' found s''. run_state (Reachable L E tenant app (pa_name rec)) s' = (Inr found, s'') \<and>
    (\<forall>r \<in> set found. pa_ns r = ns \<and> pa_name r = pa_name rec)"
  using assms
proof (induction apps arbitrary: s)
  case (Cons a apps)
  obtain f s1 where f: "run_state (Reachable L E tenant a (pa_name rec)) s = (f, s1)" by (rule run_cases)
  with Cons.prems obtain found where found: "f = Inr found" "other_record ns rec found = None"
    and rest: "fst (run_state (check_embedders L E ns tenant rec apps) s1) = Admitted"
    by (auto split: sum.splits option.splits)
  show ?case
  proof (cases "app = a")
    case True
    have "\<forall>r \<in> set found. pa_ns r = ns \<and> pa_name r = pa_name rec"
      using found(2) by (auto simp: other_record_def find_None_iff)
    with f found(1) True show ?thesis by blast
  next
    case False
    with Cons.IH [OF rest] Cons.prems(2) show ?thesis by simp
  qed
qed simp

text \<open>What an admitted record satisfies, in terms of the records it was checked against.\<close>

lemma Handle_admits:
  assumes mir: "\<forall>n. mirrors P NS (mo_cache (E n))"
    and op: "op = OpCreate \<or> op = OpUpdate"
    and adm: "fst (run_state (Handle L E op ns (Some rec)) s) = Admitted"
  obtains n s1 where "n \<in> NS" and "ns_name n = ns"
    and "pa_owners rec \<noteq> 0 \<or> ps_expiresAt (pa_spec rec) \<noteq> None"
    and "\<forall>r \<in> P. pa_ns r = ns \<longrightarrow> ps_jobRef (pa_spec r) = ps_jobRef (pa_spec rec) \<longrightarrow>
           ps_port (pa_spec r) = ps_port (pa_spec rec) \<longrightarrow> pa_name r = pa_name rec"
    and "let tenant = mget (ns_labels n) LabelTenant; app = mget (ns_labels n) LabelApp in
           if tenant = [] \<or> app = [] then ps_embeddableBy (pa_spec rec) = []
           else fst (run_state (check_embedders L E ns tenant rec (app # ps_embeddableBy (pa_spec rec))) s1) = Admitted"
proof -
  obtain k g where s: "s = (k, g)" by (cases s)
  let ?key = "TargetKey (ps_jobRef (pa_spec rec)) (ps_port (pa_spec rec))"
  have life: "pa_owners rec \<noteq> 0 \<or> ps_expiresAt (pa_spec rec) \<noteq> None"
    using adm op by (auto simp: Handle_def split: if_splits)
  with adm op s obtain items where items: "rd_listPA (mo_cache (E k)) (Some ns) IndexTarget ?key = Inr items"
    and none: "List.find (\<lambda>other. pa_name other \<noteq> pa_name rec) items = None"
    and emb: "fst (run_state (checkEmbedding L E ns rec) (Suc k, g)) = Admitted"
    by (auto simp: Handle_def listPA_def split: if_splits sum.splits option.splits)
  obtain n where n: "rd_getNS (mo_cache (E (Suc k))) ns = Inr n"
    using emb by (auto simp: checkEmbedding_def getNS_def split: sum.splits)
  have names: "\<forall>r \<in> P. pa_ns r = ns \<longrightarrow> ps_jobRef (pa_spec r) = ps_jobRef (pa_spec rec) \<longrightarrow>
      ps_port (pa_spec r) = ps_port (pa_spec rec) \<longrightarrow> pa_name r = pa_name rec"
    using mirrors_lists(3) [OF spec [OF mir] items] none by (auto simp: find_None_iff)
  show thesis
  proof (rule that [of n "(Suc (Suc k), g)"])
    show "n \<in> NS" and "ns_name n = ns" using mirrors_getNS(1) [OF spec [OF mir] n] by blast+
    show "let tenant = mget (ns_labels n) LabelTenant; app = mget (ns_labels n) LabelApp in
           if tenant = [] \<or> app = [] then ps_embeddableBy (pa_spec rec) = []
           else fst (run_state (check_embedders L E ns tenant rec (app # ps_embeddableBy (pa_spec rec))) (Suc (Suc k), g)) = Admitted"
      using emb n by (auto simp: checkEmbedding_def getNS_def Let_def simp del: check_embedders.simps split: if_splits)
  qed (use life names in auto)
qed

lemma admitted_single_target:
  assumes old: "single_target P" and rec: "\<forall>r \<in> P. pa_ns r = pa_ns rec \<longrightarrow> ps_jobRef (pa_spec r) = ps_jobRef (pa_spec rec) \<longrightarrow>
           ps_port (pa_spec r) = ps_port (pa_spec rec) \<longrightarrow> pa_name r = pa_name rec"
  shows "single_target (stored rec P)"
  using assms by (auto simp: single_target_def stored_def same_target_def)

lemma admitted_name_free:
  assumes w: "world P NS" and mir: "\<forall>n. mirrors P NS (mo_cache (E n))" and valid: "valid_record rec"
    and n: "n \<in> NS" "ns_name n = pa_ns rec"
    and chk: "let tenant = mget (ns_labels n) LabelTenant; app = mget (ns_labels n) LabelApp in
           if tenant = [] \<or> app = [] then ps_embeddableBy (pa_spec rec) = []
           else fst (run_state (check_embedders L E (pa_ns rec) tenant rec (app # ps_embeddableBy (pa_spec rec))) s) = Admitted"
    and emb: "embeddable NS tenant app rec" "tenant \<noteq> []" "app \<noteq> []"
    and r: "r \<in> P" "pa_name r = pa_name rec" "embeddable NS tenant app r"
  shows "pa_ns r = pa_ns rec"
proof -
  obtain x where x: "x \<in> NS" "ns_name x = pa_ns rec" "mget (ns_labels x) LabelTenant = tenant"
    "mget (ns_labels x) LabelApp = app \<or> app \<in> set (ps_embeddableBy (pa_spec rec))"
    using emb(1) by (auto simp: embeddable_def embeddable_in_def)
  have "x = n" using w x n inj_onD [of ns_name NS x n] by (simp add: world_def)
  with x chk emb have in_apps: "app \<in> set (mget (ns_labels n) LabelApp # ps_embeddableBy (pa_spec rec))"
    and checks: "fst (run_state (check_embedders L E (pa_ns rec) tenant rec
        (mget (ns_labels n) LabelApp # ps_embeddableBy (pa_spec rec))) s) = Admitted"
    by (auto simp: Let_def simp del: check_embedders.simps split: if_splits)
  obtain s' found s'' where run: "run_state (Reachable L E tenant app (pa_name rec)) s' = (Inr found, s'')"
    and own: "\<forall>r \<in> set found. pa_ns r = pa_ns rec \<and> pa_name r = pa_name rec"
    using check_embedders_admits [OF checks in_apps] by blast
  have "set found = {r \<in> P. pa_name r = pa_name rec \<and> embeddable NS tenant app r}"
    using Reachable_exact [OF w mir emb(2,3) embeddable_app_no_slash [OF w valid emb(1)] run] .
  with own r show ?thesis by blast
qed

lemma admitted_unambiguous:
  assumes "unambiguous P NS"
    and free: "\<And>tenant app r. embeddable NS tenant app rec \<Longrightarrow> tenant \<noteq> [] \<Longrightarrow> app \<noteq> [] \<Longrightarrow> r \<in> P \<Longrightarrow>
      pa_name r = pa_name rec \<Longrightarrow> embeddable NS tenant app r \<Longrightarrow> pa_ns r = pa_ns rec"
  shows "unambiguous (stored rec P) NS"
  unfolding unambiguous_def
proof (intro allI ballI impI)
  fix tenant app r r'
  assume in_s: "r \<in> stored rec P" "r' \<in> stored rec P" and ne: "tenant \<noteq> []" "app \<noteq> []"
    and same: "pa_name r = pa_name r'" and emb: "embeddable NS tenant app r" "embeddable NS tenant app r'"
  have only: "x = rec" if "x \<in> stored rec P" "pa_name x = pa_name rec" "embeddable NS tenant app x" "embeddable NS tenant app rec" for x
    using free [OF that(4) ne _ that(2,3)] that(1,2) unfolding stored_def by blast
  show "r = r'"
  proof (cases "r = rec \<or> r' = rec")
    case True
    then show ?thesis using only [OF in_s(1) _ emb(1)] only [OF in_s(2) _ emb(2)] same emb by metis
  next
    case False
    with in_s have "r \<in> P" "r' \<in> P" by (auto simp: stored_def)
    with assms(1) ne same emb show ?thesis unfolding unambiguous_def by blast
  qed
qed

subsection \<open>Ranking the records of a target\<close>

lemma Itoa_inj: "Itoa m = Itoa n \<Longrightarrow> m = n"
proof -
  have nat: "nat_digits a = nat_digits b \<Longrightarrow> a = b" for a b
    by (metis option.inject parse_nat_digits)
  have sign: "CHR ''-'' # nat_digits a \<noteq> nat_digits b" for a b
    using hd_nat_digits(1) [of b] by (metis list.sel(1))
  assume "Itoa m = Itoa n"
  then show "m = n"
    using nat sign sign [symmetric] by (auto simp: Itoa_def split: if_splits dest!: nat)
qed

lemma Itoa_no_slash: "no_slash (Itoa n)"
proof -
  have "CHR ''/'' \<noteq> digit_char d" if "d < 10" for d
  proof
    assume "CHR ''/'' = digit_char d"
    then have "byte (CHR ''/'') = 48 + d" using digit_char_range [OF that] by simp
    then show False by simp
  qed
  then have "CHR ''/'' \<notin> set (nat_digits k)" for k
    using set_nat_digits [of "CHR ''/''" k] by blast
  then show ?thesis by (simp add: no_slash_def Itoa_def)
qed

lemma TargetKey_inj:
  assumes "TargetKey j p = TargetKey j' p'"
  shows "j = j' \<and> p = p'"
proof -
  have "EmbedKey (rev (Itoa p)) (rev j) = EmbedKey (rev (Itoa p')) (rev j')"
    using arg_cong [OF assms, of rev] by (simp add: TargetKey_def EmbedKey_def)
  moreover have "no_slash (rev (Itoa q))" for q
    using Itoa_no_slash [of q] by (simp add: no_slash_def)
  ultimately have "rev (Itoa p) = rev (Itoa p') \<and> rev j = rev j'" using EmbedKey_inj by blast
  then show ?thesis using Itoa_inj by simp
qed

abbreviation rank :: "previewAccess \<Rightarrow> int \<times> string" where
  "rank r \<equiv> (pa_created r, pa_name r)"

lemma ranked_least:
  assumes "ranked items = x # rest"
  shows "x \<in> set items" and "r \<in> set items \<Longrightarrow> rank x \<le> rank r"
proof -
  have set: "set items = insert x (set rest)"
    using assms by (metis list.simps(15) ranked_def set_sort)
  have "sorted (map rank (x # rest))"
    using assms sorted_sort_key [of rank items] by (simp add: ranked_def)
  with set show "x \<in> set items" and "r \<in> set items \<Longrightarrow> rank x \<le> rank r" by auto
qed

text \<open>A record wins its target exactly when no record of the target is older, or as old with a lesser name.\<close>

lemma targetOwner_wins:
  assumes w: "world P NS" and mir: "\<forall>n. mirrors P NS (mo_cache (E n))" and rec: "rec \<in> P"
    and run: "run_state (targetOwner E rec) s = (Inr winner, s1)"
  shows "winner = pa_name rec \<longleftrightarrow> (\<forall>r \<in> P. same_target r rec \<longrightarrow> rank rec \<le> rank r)"
proof -
  obtain n g where s: "s = (n, g)" by (cases s)
  let ?key = "TargetKey (ps_jobRef (pa_spec rec)) (ps_port (pa_spec rec))"
  obtain items where items: "rd_listPA (mo_cache (E n)) (Some (pa_ns rec)) IndexTarget ?key = Inr items"
    and win: "winner = (case ranked items of [] \<Rightarrow> pa_name rec | p # _ \<Rightarrow> pa_name p)"
    using run s by (auto simp: targetOwner_def listPA_def split: sum.splits)
  have mem: "r \<in> set items \<longleftrightarrow> r \<in> P \<and> same_target r rec" for r
  proof -
    have "TargetKey (ps_jobRef (pa_spec rec)) (ps_port (pa_spec rec)) = TargetKey (ps_jobRef (pa_spec r)) (ps_port (pa_spec r)) \<longleftrightarrow>
        ps_jobRef (pa_spec r) = ps_jobRef (pa_spec rec) \<and> ps_port (pa_spec r) = ps_port (pa_spec rec)"
      by (metis TargetKey_inj)
    then show ?thesis
      using mirrors_lists(3) [OF spec [OF mir] items] by (auto simp: same_target_def)
  qed
  have self: "rec \<in> set items" using mem rec by (simp add: same_target_def)
  then obtain x rest where x: "ranked items = x # rest"
    by (metis list.exhaust ranked_def set_empty sort_key_simps(1) empty_iff set_sort)
  have least: "x \<in> P" "same_target x rec" "\<And>r. r \<in> P \<Longrightarrow> same_target r rec \<Longrightarrow> rank x \<le> rank r"
    using ranked_least [OF x] mem by auto
  show ?thesis
  proof
    assume "winner = pa_name rec"
    then have "(pa_ns x, pa_name x) = (pa_ns rec, pa_name rec)" using win x least(2) by (simp add: same_target_def)
    then have "x = rec" using w rec least(1) inj_onD [of "\<lambda>r. (pa_ns r, pa_name r)" P x rec] by (simp add: world_def)
    with least(3) show "\<forall>r \<in> P. same_target r rec \<longrightarrow> rank rec \<le> rank r" by blast
  next
    assume "\<forall>r \<in> P. same_target r rec \<longrightarrow> rank rec \<le> rank r"
    then have "rank rec \<le> rank x" using least by blast
    moreover have "rank x \<le> rank rec" using least(3) [OF rec] by (simp add: same_target_def)
    ultimately have "rank x = rank rec" by (rule order_antisym [rotated])
    with win x show "winner = pa_name rec" by simp
  qed
qed

text \<open>The contract of the condition list, and the status a pass leaves.\<close>

definition conditions_kept :: "golib \<Rightarrow> bool" where
  "conditions_kept L \<longleftrightarrow> (\<forall>cs c t. gl_isTrue L (gl_setCondition L cs c) t =
     (if t = cd_type c then cd_status c = ''True'' else gl_isTrue L cs t))"

lemma wanted_ready: "conditions_kept L \<Longrightarrow>
    gl_isTrue L (st_conditions (wanted_status L R rec winner)) ''Ready'' \<longleftrightarrow> winner = pa_name rec"
  by (simp add: conditions_kept_def wanted_status_def target_condition_def)

text \<open>What a pass may write to the network policy of the record.\<close>

definition opens_only :: "pa_reconciler \<Rightarrow> previewAccess \<Rightarrow> policy \<Rightarrow> bool" where
  "opens_only R rec p \<longleftrightarrow> (\<exists>ej v. p = (ingress_policy R rec ej)\<lparr>pol_version := v\<rparr>)"

lemma reconcileIngress_writes:
  assumes "run_state (reconcileIngress L E R rec serving) (n, ws) = (e, (n1, ws1))"
  obtains new where "ws1 = ws @ new"
    and "\<forall>w r. (w, r) \<in> set new \<longrightarrow> w = DeleteCNP (pa_ns rec) (pa_name rec @ ''-preview'') \<or>
           serving \<and> (\<exists>p. opens_only R rec p \<and> (w = CreateCNP p \<or> w = UpdateCNP p))"
proof -
  have self: "opens_only R rec (ingress_policy R rec ej)" for ej
    unfolding opens_only_def by (intro exI [of _ ej] exI [of _ "[]"]) (simp add: ingress_policy_def Let_def)
  have versioned: "opens_only R rec ((ingress_policy R rec ej)\<lparr>pol_version := v\<rparr>)" for ej v
    unfolding opens_only_def by blast
  show thesis
    using assms that self versioned
    by (auto simp: reconcileIngress_def Let_def split: sum.splits if_splits option.splits)
qed

lemma pa_Reconcile_steps:
  assumes run: "run_state (pa_Reconcile L E R ns name) (n, ws) = (None, (n1, ws1))"
    and rec: "rd_getPA (mo_cache (E n)) ns name = Inr rec" and live: "\<not> pa_deleting rec"
  obtains winner s2 new where "run_state (targetOwner E rec) (Suc n, ws) = (Inr winner, s2)"
    and "\<forall>w r. (w, r) \<in> set new \<longrightarrow> w = DeleteCNP (pa_ns rec) (pa_name rec @ ''-preview'') \<or>
           winner = pa_name rec \<and> (\<exists>p. opens_only R rec p \<and> (w = CreateCNP p \<or> w = UpdateCNP p))"
    and "ws1 = ws @ new \<and> pa_status rec = wanted_status L R rec winner \<or>
         ws1 = ws @ new @ [(UpdatePAStatus (rec\<lparr>pa_status := wanted_status L R rec winner\<rparr>), None)]"
proof -
  obtain w s2 where own: "run_state (targetOwner E rec) (Suc n, ws) = (w, s2)" by (rule run_cases)
  then have s2: "s2 = (Suc (Suc n), ws)" by (auto simp: targetOwner_def listPA_def)
  from run rec live own obtain winner where w: "w = Inr winner"
    by (cases w) (auto simp: pa_Reconcile_def getPA_def)
  let ?ing = "if rc_renderPolicies R then reconcileIngress L E R rec (winner = pa_name rec) else return_gw None"
  obtain i n2 ws2 where ing: "run_state ?ing (Suc (Suc n), ws) = (i, (n2, ws2))"
    by (metis surj_pair)
  obtain new where new: "ws2 = ws @ new" and only: "\<forall>w r. (w, r) \<in> set new \<longrightarrow> w = DeleteCNP (pa_ns rec) (pa_name rec @ ''-preview'') \<or>
      winner = pa_name rec \<and> (\<exists>p. opens_only R rec p \<and> (w = CreateCNP p \<or> w = UpdateCNP p))"
  proof (cases "rc_renderPolicies R")
    case True
    with ing that show ?thesis by (auto elim!: reconcileIngress_writes)
  next
    case False
    with ing that [of "[]"] show ?thesis by auto
  qed
  have "ws1 = ws2 \<and> pa_status rec = wanted_status L R rec winner \<or>
      ws1 = ws2 @ [(UpdatePAStatus (rec\<lparr>pa_status := wanted_status L R rec winner\<rparr>), None)]"
    using run rec live own s2 w ing
    by (auto simp: pa_Reconcile_def getPA_def Let_def split: option.splits if_splits)
  with that own w new only show thesis by auto
qed

end
