(* ===== verification/Preview_Entry.thy ===== *)
theory Preview_Entry
  imports Preview_Records
begin

text \<open>
  The app API: what a verified credential, an identified caller and an issued code imply.
\<close>

subsection \<open>A verified credential\<close>

text \<open>
  \<open>credential L issuer at_now raw key sub\<close>: three segments; the signature verifies under \<open>key\<close> over
  the very bytes of the first two; the claims of the second name the issuer and the subject, and
  the token is neither expired nor early, up to a minute.
\<close>

definition credential :: "golib \<Rightarrow> string \<Rightarrow> int \<Rightarrow> string \<Rightarrow> string \<Rightarrow> pubkey \<Rightarrow> string \<Rightarrow> bool" where
  "credential L issuer at_now raw kid key sub \<longleftrightarrow> (\<exists>p0 p1 p2 sig c e.
     raw = p0 @ ''.'' @ p1 @ ''.'' @ p2 \<and>
     Option.bind (RawURL_Decode p0) (gl_headerParse L) = Some (''RS256'', kid) \<and>
     RawURL_Decode p2 = Some sig \<and> gl_rsaVerify L key (gl_sha256 L (p0 @ ''.'' @ p1)) sig \<and>
     Option.bind (RawURL_Decode p1) (gl_claimsParse L) = Some c \<and>
     cl_iss c = issuer \<and> cl_sub c = sub \<and> sub \<noteq> [] \<and> cl_exp c = Some e \<and>
     at_now \<le> time_add (Unix e) clockSkew \<and>
     (\<forall>b. cl_nbf c = Some b \<longrightarrow> Unix b \<le> time_add at_now clockSkew))"

lemma split_three:
  assumes "split_on c s = [p0, p1, p2]"
  shows "s = p0 @ [c] @ p1 @ [c] @ p2"
proof -
  have join: "Join (split_on c s) [c] = s" for s
  proof (induction s)
    case (Cons x s)
    have cons: "Join ((x # a) # l) [c] = x # Join (a # l) [c]" for a l by (cases l) simp_all
    obtain a l where al: "split_on c s = a # l" by (cases "split_on c s") auto
    then have "Join (a # l) [c] = s" using Cons by simp
    with al show ?case by (simp add: cons)
  qed simp
  show ?thesis using join [of s] assms by simp
qed

lemma claims_ok:
  "claims_refusal L issuer at_now c = None \<longleftrightarrow>
     cl_iss c = issuer \<and> cl_sub c \<noteq> [] \<and> (\<exists>e. cl_exp c = Some e \<and> at_now \<le> time_add (Unix e) clockSkew) \<and>
     (\<forall>b. cl_nbf c = Some b \<longrightarrow> Unix b \<le> time_add at_now clockSkew)"
  by (auto simp: claims_refusal_def split: option.splits)

text \<open>The key a kid names is in the key set the verifier holds afterwards; the rest of the memory is kept.\<close>

definition same_but_keys :: "gateway \<Rightarrow> gateway \<Rightarrow> bool" where
  "same_but_keys g g' \<longleftrightarrow> (\<exists>v. g' = g\<lparr>gw_verifier := v\<rparr> \<and> v_issuer v = v_issuer (gw_verifier g))"

lemma same_but_keysD:
  "same_but_keys g g' \<Longrightarrow> gw_key g' = gw_key g \<and> gw_codes g' = gw_codes g \<and> v_issuer (gw_verifier g') = v_issuer (gw_verifier g)"
  by (auto simp: same_but_keys_def)

lemma same_but_keys_refl: "same_but_keys g g"
  unfolding same_but_keys_def by (rule exI [of _ "gw_verifier g"]) simp

lemma signing_key_run:
  assumes "run_state (signing_key L E kid) (n, g) = (r, (n1, g1))"
  shows "same_but_keys g g1 \<and> n \<le> n1"
    and "r = Inr key \<Longrightarrow> \<exists>ks. v_keys (gw_verifier g1) = Some ks \<and> map_of ks kid = Some key"
proof -
  have upd: "same_but_keys g (g\<lparr>gw_verifier := (gw_verifier g)\<lparr>v_fetchedAt := t\<rparr>\<rparr>)" for t
    unfolding same_but_keys_def by (rule exI [of _ "(gw_verifier g)\<lparr>v_fetchedAt := t\<rparr>"]) simp
  have upd2: "same_but_keys g (g\<lparr>gw_verifier := (gw_verifier g)\<lparr>v_fetchedAt := t, v_keys := ks\<rparr>\<rparr>)" for t ks
    unfolding same_but_keys_def by (rule exI [of _ "(gw_verifier g)\<lparr>v_fetchedAt := t, v_keys := ks\<rparr>"]) simp
  show "same_but_keys g g1 \<and> n \<le> n1"
    using assms same_but_keys_refl [of g] upd upd2
    by (auto simp: signing_key_def gwNow_def bind_eq_Some_conv split: option.splits if_splits sum.splits)
  show "r = Inr key \<Longrightarrow> \<exists>ks. v_keys (gw_verifier g1) = Some ks \<and> map_of ks kid = Some key"
    using assms by (auto simp: signing_key_def gwNow_def bind_eq_Some_conv split: option.splits if_splits sum.splits)
qed

text \<open>
  While no key set was ever obtained, every unverified credential makes the gateway ask the issuer
  again, however recent the last attempt.
\<close>

lemma no_keys_refetch:
  assumes "v_keys (gw_verifier g) = None" and "fetch_keys (mo_jwks (E (Suc n))) = Inl e"
  shows "\<exists>g'. run_state (signing_key L E kid) (n, g) = (Inl (''fetching the issuer's key set: '' @ e), (Suc (Suc (Suc n)), g')) \<and>
    v_keys (gw_verifier g') = None"
  using assms by (simp add: signing_key_def gwNow_def)

text \<open>What each shape of a token leads to.\<close>

lemma three_or_else:
  "(\<nexists>a b c. l = [a, b, c]) \<Longrightarrow> (case l of [a, b, c] \<Rightarrow> f a b c | _ \<Rightarrow> z) = z"
  by (auto split: list.split)

lemma Verify_parts:
  assumes "run_state (Verify L E raw) (n, g) = (Inr sub, s)"
  obtains p0 p1 p2 kid where "raw = p0 @ ''.'' @ p1 @ ''.'' @ p2" "split_on (CHR ''.'') raw = [p0, p1, p2]"
    "Option.bind (RawURL_Decode p0) (gl_headerParse L) = Some (''RS256'', kid)"
proof -
  consider p0 p1 p2 where "split_on (CHR ''.'') raw = [p0, p1, p2]"
    | "\<nexists>p0 p1 p2. split_on (CHR ''.'') raw = [p0, p1, p2]"
    by blast
  then show thesis
  proof cases
    case (1 p0 p1 p2)
    moreover obtain alg kid where h: "Option.bind (RawURL_Decode p0) (gl_headerParse L) = Some (alg, kid)"
      using assms 1 by (cases "Option.bind (RawURL_Decode p0) (gl_headerParse L)") (auto simp: Verify_def)
    moreover have "alg = ''RS256''"
      using assms 1 h by (cases "alg = ''RS256''") (simp_all add: Verify_def)
    ultimately show ?thesis using that split_three [OF 1] by simp
  next
    case 2
    then have "Verify L E raw = return_gw (Inl ''not a compact JWS'')"
      unfolding Verify_def by (rule three_or_else)
    then show ?thesis using assms by simp
  qed
qed

lemma Verify_sound:
  assumes "run_state (Verify L E raw) (n, g) = (Inr sub, (n1, g1))"
  shows "same_but_keys g g1 \<and> n < n1 \<and>
    (\<exists>kid key ks. credential L (v_issuer (gw_verifier g)) (mo_now (E (n1 - 1))) raw kid key sub \<and>
       v_keys (gw_verifier g1) = Some ks \<and> map_of ks kid = Some key)"
proof -
  obtain p0 p1 p2 kid where raw: "raw = p0 @ ''.'' @ p1 @ ''.'' @ p2" and parts: "split_on (CHR ''.'') raw = [p0, p1, p2]"
    and hdr: "Option.bind (RawURL_Decode p0) (gl_headerParse L) = Some (''RS256'', kid)"
    using Verify_parts [OF assms] .
  obtain r m g2 where k: "run_state (signing_key L E kid) (n, g) = (r, (m, g2))" by (metis surj_pair)
  obtain key where r: "r = Inr key" using assms parts hdr k by (cases r) (simp_all add: Verify_def)
  obtain sig where sig: "RawURL_Decode p2 = Some sig"
    using assms parts hdr k r by (cases "RawURL_Decode p2") (simp_all add: Verify_def)
  have sigok: "gl_rsaVerify L key (gl_sha256 L (p0 @ ''.'' @ p1)) sig"
    using assms parts hdr k r sig by (rule_tac ccontr) (simp add: Verify_def)
  obtain c where c: "Option.bind (RawURL_Decode p1) (gl_claimsParse L) = Some c"
    using assms parts hdr k r sig sigok
    by (cases "Option.bind (RawURL_Decode p1) (gl_claimsParse L)") (simp_all add: Verify_def)
  have ok: "claims_refusal L (v_issuer (gw_verifier g2)) (mo_now (E m)) c = None" "sub = cl_sub c" "n1 = Suc m" "g1 = g2"
    using assms parts hdr k r sig sigok c
    by (cases "claims_refusal L (v_issuer (gw_verifier g2)) (mo_now (E m)) c"; simp add: Verify_def gwNow_def)+
  note key = signing_key_run [OF k]
  have issuer: "v_issuer (gw_verifier g2) = v_issuer (gw_verifier g)" using key(1) same_but_keysD by blast
  have "credential L (v_issuer (gw_verifier g)) (mo_now (E (n1 - 1))) raw kid key sub"
    unfolding credential_def
    by (rule exI [of _ p0], rule exI [of _ p1], rule exI [of _ p2])
      (use raw hdr sig sigok c ok issuer claims_ok [of L "v_issuer (gw_verifier g2)" "mo_now (E m)" c] in auto)
  with key(1) key(2) [OF r] ok show ?thesis by auto
qed

subsection \<open>An identified caller\<close>

text \<open>
  The connection comes from a tenant gateway's pod; its namespace declares the caller's tenant,
  application and origin; and the bearer credential verified for the subject.
\<close>

definition identified :: "golib \<Rightarrow> env \<Rightarrow> string \<Rightarrow> nat \<Rightarrow> request \<Rightarrow> caller \<Rightarrow> bool" where
  "identified L E issuer n r c \<longleftrightarrow> (\<exists>x m kid key.
     mo_callers (E n) (SplitHostPort_host (rq_remote r)) = Some (ca_namespace c) \<and>
     rd_getNS (mo_cache (E (Suc n))) (ca_namespace c) = Inr x \<and>
     mget (ns_labels x) LabelTenant = ca_tenant c \<and> ca_tenant c \<noteq> [] \<and>
     mget (ns_labels x) LabelApp = ca_app c \<and> ca_app c \<noteq> [] \<and>
     mget (ns_annotations x) AppOriginAnnotation = ca_origin c \<and> ca_origin c \<noteq> [] \<and>
     credential L issuer (mo_now (E m)) (TrimPrefix (Header_Get (rq_headers r) ''Authorization'') ''Bearer '') kid key
       (ca_subject c))"

lemma gateway_Caller_ok:
  assumes "run_state (gateway_Caller L E r) (n, g) = (Inr c, (n1, g1))"
  shows "identified L E (v_issuer (gw_verifier g)) n r c \<and> same_but_keys g g1 \<and> n < n1"
proof -
  define auth where "auth = Header_Get (rq_headers r) ''Authorization''"
  note run = assms [unfolded gateway_Caller_def Let_def auth_def [symmetric]]
  obtain ns where ns: "mo_callers (E n) (SplitHostPort_host (rq_remote r)) = Some ns"
    using run by (cases "mo_callers (E n) (SplitHostPort_host (rq_remote r))") simp_all
  obtain x where x: "rd_getNS (mo_cache (E (Suc n))) ns = Inr x"
    using run ns by (cases "rd_getNS (mo_cache (E (Suc n))) ns") (simp_all add: getNS_def)
  have labels: "mget (ns_annotations x) AppOriginAnnotation \<noteq> []" "mget (ns_labels x) LabelTenant \<noteq> []"
    "mget (ns_labels x) LabelApp \<noteq> []" and bearer: "HasPrefix auth ''Bearer ''"
    using run ns x by (simp_all add: getNS_def split: if_splits)
  obtain v s where v: "run_state (Verify L E (TrimPrefix auth ''Bearer '')) (Suc (Suc n), g) = (v, s)" by (rule run_cases)
  obtain sub where sub: "v = Inr sub" and s: "s = (n1, g1)"
    and c: "c = \<lparr> ca_namespace = ns, ca_tenant = mget (ns_labels x) LabelTenant, ca_app = mget (ns_labels x) LabelApp,
      ca_origin = mget (ns_annotations x) AppOriginAnnotation, ca_subject = sub \<rparr>"
    using run ns x labels bearer v by (cases v) (simp_all add: getNS_def)
  note ver = Verify_sound [OF v [unfolded sub s]]
  then obtain kid key where "credential L (v_issuer (gw_verifier g)) (mo_now (E (n1 - 1))) (TrimPrefix auth ''Bearer '') kid key sub"
    by blast
  then have "identified L E (v_issuer (gw_verifier g)) n r c"
    unfolding identified_def auth_def [symmetric] c using ns x labels by auto
  with ver show ?thesis by simp
qed

subsection \<open>An issued code\<close>

text \<open>A refusal or an error of the app API never carries status 200 when no refusal of the identity does.\<close>

lemma gateway_Caller_refusals:
  assumes "run_state (gateway_Caller L E r) s = (Inl (Refused status msg), s1)"
  shows "status \<in> {401, 403}"
  using assms unfolding gateway_Caller_def Let_def
  by (cases s) (auto simp: getNS_def split: option.splits sum.splits if_splits prod.splits)

lemma gateway_refusals:
  assumes "run_state (id_Caller (GatewayIdentity L E) r) s = (Inl (Refused status msg), s1)"
  shows "status \<noteq> 200"
  using gateway_Caller_refusals [of L E r s status msg s1] assms by (auto simp: GatewayIdentity_def)

lemma json_codes [simp]: "re_code (writeJSON h c v) = c"
  by (simp add: writeJSON_def)

lemma error_codes [simp]: "re_code (http_error h m c) = c"
  by (simp add: http_error_def)

text \<open>
  The lookup of an identified caller yields a record of the caller's tenant that its application
  may embed, under the name it asked for, and leaves the memory alone.
\<close>

lemma server_lookup_sound:
  assumes ok: "\<forall>n. cache_ok (mo_cache (E n))" and app: "no_slash (ca_app c)" "ca_app c \<noteq> []"
    and run: "run_state (server_lookup L E c pid) s = (Inr (Some rec), s1)"
  shows "pa_name rec = pid \<and> seen_pa E rec \<and> (\<exists>x. seen_ns E x \<and> embeddable_in x (ca_tenant c) (ca_app c) rec)"
proof -
  obtain found s2 where f: "run_state (Reachable L E (ca_tenant c) (ca_app c) pid) s = (found, s2)" by (rule run_cases)
  then have "found = Inr [rec]"
    using run app by (simp add: server_lookup_def split: sum.splits list.splits)
  then show ?thesis using Reachable_sound [OF ok app(1)] f by fastforce
qed

text \<open>What an answer 200 of the codes endpoint means, step by step.\<close>

lemma handleCodes_ok:
  assumes run: "run_state (handleCodes L E I (CookieSession L E) r) s = (resp, s4)" and ok: "re_code resp = 200"
    and refusals: "\<And>s status msg s1. run_state (id_Caller I r) s = (Inl (Refused status msg), s1) \<Longrightarrow> status \<noteq> 200"
  obtains c s1 pid rec n g b where "run_state (id_Caller I r) s = (Inr c, s1)" "same_origin_json L c r"
    "gl_previewIDParse L (take 4096 (rq_body r)) = Some pid" "pid \<noteq> []"
    "run_state (server_lookup L E c pid) s1 = (Inr (Some rec), (n, g))"
    "\<not> RecordEnded rec (mo_now (E n))" "Allowed rec (ca_subject c)" "pa_host rec \<noteq> []"
    "mo_random (E (Suc n)) = Some b"
    "s4 = (Suc (Suc (Suc n)), codes_put (mo_now (E (Suc (Suc n)))) (RawURL_Encode b) (begin_ticket rec c (mo_now (E n))) g)"
    "re_body resp = Json [(''codeExpiresInSeconds'', JInt (in_seconds CodeTTL)),
       (''cookieMaxAgeSeconds'', JInt (in_seconds (SessionLifetime rec (mo_now (E n))))),
       (''handoffUrl'', JStr (''https://'' @ pa_host rec @ ''/_handoff?code='' @ RawURL_Encode b))]"
proof -
  obtain cr s1 where c1: "run_state (id_Caller I r) s = (cr, s1)" by (rule run_cases)
  obtain c where c: "cr = Inr c"
    using run ok c1 refusals [of s _ _ s1]
    by (cases cr) (auto simp: handleCodes_def server_caller_def split: caller_err.splits)
  have same: "same_origin_json L c r"
    using run ok c1 c by (rule_tac ccontr) (auto simp: handleCodes_def server_caller_def)
  obtain pid where pid: "gl_previewIDParse L (take 4096 (rq_body r)) = Some pid" "pid \<noteq> []"
    using run ok c1 c same
    by (cases "gl_previewIDParse L (take 4096 (rq_body r))") (auto simp: handleCodes_def server_caller_def split: if_splits)
  obtain found n g where f: "run_state (server_lookup L E c pid) s1 = (found, (n, g))" by (metis surj_pair)
  note rest = run [unfolded handleCodes_def server_caller_def]
  obtain rec where rec: "found = Inr (Some rec)"
    using rest ok c1 c same pid f
    by (cases found) (auto simp: lookupFailed_def gwNow_def split: option.splits lookup_err.splits)
  have live: "\<not> RecordEnded rec (mo_now (E n))" "Allowed rec (ca_subject c)" "pa_host rec \<noteq> []"
    using rest ok c1 c same pid f rec by (auto simp: gwNow_def split: if_splits)
  obtain b where b: "mo_random (E (Suc n)) = Some b"
    using rest ok c1 c same pid f rec live
    by (cases "mo_random (E (Suc n))") (auto simp: gwNow_def CookieSession_def cookie_Begin_def Issue_def)
  have "s4 = (Suc (Suc (Suc n)), codes_put (mo_now (E (Suc (Suc n)))) (RawURL_Encode b) (begin_ticket rec c (mo_now (E n))) g)"
    using rest ok c1 c same pid f rec live b by (auto simp: gwNow_def CookieSession_def cookie_Begin_def Issue_def Let_def)
  moreover have "re_body resp = Json [(''codeExpiresInSeconds'', JInt (in_seconds CodeTTL)),
       (''cookieMaxAgeSeconds'', JInt (in_seconds (SessionLifetime rec (mo_now (E n))))),
       (''handoffUrl'', JStr (''https://'' @ pa_host rec @ ''/_handoff?code='' @ RawURL_Encode b))]"
    using rest ok c1 c same pid f rec live b
    by (auto simp: gwNow_def CookieSession_def cookie_Begin_def Issue_def Let_def writeJSON_def)
  ultimately show thesis using that c1 c same pid f rec live b by blast
qed

subsection \<open>Steps that issue nothing\<close>

definition keeps_codes :: "'a gw \<Rightarrow> bool" where
  "keeps_codes m \<longleftrightarrow> (\<forall>s. gw_codes (snd (snd (run_state m s))) = gw_codes (snd s))"

lemma keeps_codes_return [simp]: "keeps_codes (return_gw x)"
  by (simp add: keeps_codes_def)

lemma keeps_codes_look [simp]: "keeps_codes (look E f)"
  by (simp add: keeps_codes_def)

lemma keeps_codes_memory: "(\<And>g. gw_codes (snd (f g)) = gw_codes g) \<Longrightarrow> keeps_codes (memory f)"
  by (simp add: keeps_codes_def)

lemma keeps_codes_bind: "keeps_codes m \<Longrightarrow> (\<And>x. keeps_codes (f x)) \<Longrightarrow> keeps_codes (m \<bind> f)"
  by (simp add: keeps_codes_def split: prod.split) (metis snd_conv)

lemmas keeps_codes_rules = keeps_codes_bind keeps_codes_return keeps_codes_look keeps_codes_memory

lemma keeps_codes_signing_key: "keeps_codes (signing_key L E kid)"
  unfolding signing_key_def gwNow_def
  by (auto intro!: keeps_codes_rules split: option.split sum.split)

lemma keeps_codes_Verify: "keeps_codes (Verify L E raw)"
  unfolding Verify_def gwNow_def
  by (auto intro!: keeps_codes_rules keeps_codes_signing_key split: option.split sum.split list.split)

lemma keeps_codes_Caller: "keeps_codes (gateway_Caller L E r)"
  unfolding gateway_Caller_def getNS_def Let_def
  by (auto intro!: keeps_codes_rules keeps_codes_Verify split: option.split sum.split)

lemma keeps_codes_sibling_records: "keeps_codes (sibling_records E tenant own recs)"
  by (induction recs) (auto intro!: keeps_codes_rules simp: getNS_def split: sum.split)

lemma keeps_codes_lookup: "keeps_codes (server_lookup L E c pid)"
  unfolding server_lookup_def server_record_def Reachable_def AppNamespace_def own_record_def getPA_def listPA_def listNS_def Let_def
  by (auto intro!: keeps_codes_rules keeps_codes_sibling_records split: sum.split list.split)

text \<open>Every other answer of the codes endpoint leaves the codes alone.\<close>

lemma handleCodes_not_ok:
  assumes run: "run_state (handleCodes L E (GatewayIdentity L E) (CookieSession L E) r) s = (resp, s4)"
    and bad: "re_code resp \<noteq> 200"
  shows "gw_codes (snd s4) = gw_codes (snd s)"
proof -
  have caller: "id_Caller (GatewayIdentity L E) = gateway_Caller L E" by (simp add: GatewayIdentity_def)
  obtain cr s1 where c1: "run_state (gateway_Caller L E r) s = (cr, s1)" by (rule run_cases)
  then have k1: "gw_codes (snd s1) = gw_codes (snd s)"
    using keeps_codes_Caller [of L E r] unfolding keeps_codes_def by (metis snd_conv)
  note rest = run [unfolded handleCodes_def server_caller_def caller]
  show ?thesis
  proof (cases "(\<exists>c pid. cr = Inr c \<and> same_origin_json L c r \<and> gl_previewIDParse L (take 4096 (rq_body r)) = Some pid \<and> pid \<noteq> [])")
    case False
    then show ?thesis using rest c1 k1 by (auto split: sum.splits if_splits option.splits caller_err.splits)
  next
    case True
    then obtain c pid where c: "cr = Inr c" "same_origin_json L c r"
      "gl_previewIDParse L (take 4096 (rq_body r)) = Some pid" "pid \<noteq> []" by blast
    obtain found n g where f: "run_state (server_lookup L E c pid) s1 = (found, (n, g))" by (metis surj_pair)
    then have k2: "gw_codes g = gw_codes (snd s1)"
      using keeps_codes_lookup [of L E c pid] unfolding keeps_codes_def by (metis snd_conv)
    show ?thesis
      using rest bad c1 c f k1 k2
      by (auto simp: gwNow_def CookieSession_def cookie_Begin_def Issue_def Let_def
          split: sum.splits option.splits if_splits)
  qed
qed

end
