(* ===== verification/Preview_Demo.thy ===== *)
theory Preview_Demo
  imports Preview_Vault Preview_Controller Demo_Cluster Mem_Storage
begin

text \<open>
  A concrete cluster for the preview gateway: one application namespace, one record served by a
  running job, a codec for tickets. The hypotheses of the gateway's properties hold on it, and the
  properties are evaluated on it.
\<close>

definition enc_ticket :: "ticket \<Rightarrow> string" where
  "enc_ticket t = enc_str (tk_record t) @ enc_str (tk_host t) @ enc_str (tk_subject t) @ enc_int (tk_expiry t) @ enc_str (tk_origin t)"

definition dec_ticket :: "string \<Rightarrow> ticket" where
  "dec_ticket s =
     (case dec_str s of (r, s) \<Rightarrow> case dec_str s of (h, s) \<Rightarrow> case dec_str s of (u, s) \<Rightarrow>
      case dec_int s of (e, s) \<Rightarrow> case dec_str s of (og, s) \<Rightarrow>
      \<lparr> tk_record = r, tk_host = h, tk_subject = u, tk_expiry = e, tk_origin = og \<rparr>)"

lemma dec_enc_last: "dec_str (enc_str s) = (s, [])"
  using dec_enc_str [of s "[]"] by simp

lemma dec_enc_ticket [simp]: "dec_ticket (enc_ticket t) = t"
  by (simp add: dec_ticket_def enc_ticket_def dec_enc_last)

text \<open>The credential of the examples is a token whose payload is the subject itself.\<close>

definition demo_lib :: golib where
  "demo_lib =
     \<lparr> gl_hmac = (\<lambda>k p. k @ p), gl_sha256 = (\<lambda>s. s), gl_rsaVerify = (\<lambda>k d s. s = d),
       gl_ticketJSON = enc_ticket, gl_ticketParse = (\<lambda>s. (dec_ticket s, True)), gl_urlParse = (\<lambda>_. None),
       gl_headerParse = (\<lambda>s. Some (''RS256'', s)),
       gl_claimsParse = (\<lambda>s. Some \<lparr> cl_iss = ''iss'', cl_sub = s, cl_exp = Some 5000, cl_nbf = None \<rparr>),
       gl_previewIDParse = Some, gl_mediaType = (\<lambda>s. s), gl_rfc3339 = Itoa, gl_quote = (\<lambda>s. s),
       gl_setCondition = list_setCondition,
       gl_isTrue = (\<lambda>cs t. case list_findCondition cs t of Some c \<Rightarrow> cd_status c = ''True'' | None \<Rightarrow> False),
       gl_schemeErr = None \<rparr>"

definition demo_rec :: previewAccess where
  "demo_rec =
     \<lparr> pa_name = ''app'', pa_ns = ''ta'', pa_uid = ''u9'', pa_generation = 1, pa_created = 0, pa_deleting = False,
       pa_owners = 1,
       pa_spec = \<lparr> ps_jobRef = ''r1'', ps_port = 3000, ps_ownerSubject = ''al'', ps_sharedWith = [''bo''],
                   ps_embeddableBy = [], ps_expiresAt = None \<rparr>,
       pa_status = \<lparr> st_host = ''p.d'', st_conditions = [\<lparr> cd_type = ''Ready'', cd_status = ''True'',
                       cd_reason = ''Serving'', cd_message = [], cd_generation = 1 \<rparr>], st_observedGeneration = 1 \<rparr> \<rparr>"

definition demo_ns :: namespace where
  "demo_ns = \<lparr> ns_name = ''ta'', ns_labels = [(LabelTenant, ''t''), (LabelApp, ''a'')],
               ns_annotations = [(AppOriginAnnotation, ''https://a'')] \<rparr>"

definition demo_running :: ephemeralJob where
  "demo_running = demo_ej\<lparr>ej_status := demo_status\<lparr>es_phase := PhaseRunning, es_podName := ''pod''\<rparr>\<rparr>"

definition demo_pod :: gw_pod where
  "demo_pod = \<lparr> gp_ns = ''ta'', gp_ip = ''10.0.0.7'',
                gp_labels = [(''compute.nutgraf.in/ephemeraljob-uid'', ''u1'')], gp_deleting = False \<rparr>"

text \<open>A cache that holds a list of records and of namespaces.\<close>

definition list_reader :: "previewAccess list \<Rightarrow> namespace list \<Rightarrow> reader" where
  "list_reader pas nss =
     \<lparr> rd_getNS = (\<lambda>n. case List.find (\<lambda>x. ns_name x = n) nss of Some x \<Rightarrow> Inr x | None \<Rightarrow> Inl not_found),
       rd_listNS = (\<lambda>t a. Inr (filter (\<lambda>x. map_of (ns_labels x) LabelTenant = Some t \<and> map_of (ns_labels x) LabelApp = Some a) nss)),
       rd_getPA = (\<lambda>ns n. case List.find (\<lambda>x. pa_ns x = ns \<and> pa_name x = n) pas of Some x \<Rightarrow> Inr x | None \<Rightarrow> Inl not_found),
       rd_listPA = (\<lambda>ns i v. Inr (filter (\<lambda>x. (case ns of Some y \<Rightarrow> pa_ns x = y | None \<Rightarrow> True) \<and> v \<in> set (index_values i x)) pas)),
       rd_getEJ = (\<lambda>ns n. if n = ''r1'' then Inr demo_running else Inl not_found),
       rd_getPod = (\<lambda>ns n. if n = ''pod'' then Inr demo_pod else Inl not_found),
       rd_getPolicy = (\<lambda>_ _. Inl not_found), rd_getSecret = (\<lambda>_ _. Inl not_found) \<rparr>"

definition demo_moment :: "previewAccess list \<Rightarrow> namespace list \<Rightarrow> int \<Rightarrow> moment" where
  "demo_moment pas nss t =
     \<lparr> mo_now = t, mo_cache = list_reader pas nss, mo_callers = (\<lambda>ip. if ip = ''10.0.0.1'' then Some ''ta'' else None),
       mo_random = Some ''rnd'',
       mo_jwks = Inr (200, Some [\<lparr> jw_kty = ''RSA'', jw_kid = ''k'', jw_use = [], jw_n = ''AQAB'', jw_e = ''AQAB'' \<rparr>]),
       mo_write = (\<lambda>_. None) \<rparr>"

definition demo_env :: "int \<Rightarrow> env" where
  "demo_env t = (\<lambda>_. demo_moment [demo_rec] [demo_ns] t)"

definition demo_gw :: gateway where
  "demo_gw =
     \<lparr> gw_key = ''key'', gw_codes = Map.empty, gw_redeemed = Map.empty, gw_ended = Map.empty,
       gw_verifier = \<lparr> v_issuer = ''iss'', v_keys = None, v_fetchedAt = zero_time \<rparr> \<rparr>"

definition demo_ticket :: ticket where
  "demo_ticket = \<lparr> tk_record = ''u9'', tk_host = ''p.d'', tk_subject = ''al'', tk_expiry = 100, tk_origin = ''https://a'' \<rparr>"

definition get_request :: "string \<Rightarrow> smap \<Rightarrow> header \<Rightarrow> request" where
  "get_request path q h =
     \<lparr> rq_method = ''GET'', rq_host = ''p.d'', rq_remote = ''10.0.0.1:80'', rq_path = path, rq_query = q,
       rq_headers = h, rq_body = [] \<rparr>"

definition demo_visit :: request where
  "demo_visit = get_request ''/'' [] [(''Cookie'', [cookie_line [(CookieName, seal demo_lib ''key'' demo_ticket)]])]"

lemma demo_tickets_ok: "tickets_ok demo_lib"
  by (simp add: tickets_ok_def) (simp add: demo_lib_def)

lemma demo_ticket_plain: "plain_ticket demo_ticket"
  by (simp add: plain_ticket_def demo_ticket_def ascii7_def int64_range_def)

lemma list_reader_simps [simp]:
  "rd_getNS (list_reader pas nss) n = (case List.find (\<lambda>x. ns_name x = n) nss of Some x \<Rightarrow> Inr x | None \<Rightarrow> Inl not_found)"
  "rd_listNS (list_reader pas nss) t a =
     Inr (filter (\<lambda>x. map_of (ns_labels x) LabelTenant = Some t \<and> map_of (ns_labels x) LabelApp = Some a) nss)"
  "rd_getPA (list_reader pas nss) ns n =
     (case List.find (\<lambda>x. pa_ns x = ns \<and> pa_name x = n) pas of Some x \<Rightarrow> Inr x | None \<Rightarrow> Inl not_found)"
  "rd_listPA (list_reader pas nss) z i v =
     Inr (filter (\<lambda>x. (case z of Some y \<Rightarrow> pa_ns x = y | None \<Rightarrow> True) \<and> v \<in> set (index_values i x)) pas)"
  "rd_getEJ (list_reader pas nss) ns n = (if n = ''r1'' then Inr demo_running else Inl not_found)"
  "rd_getPod (list_reader pas nss) ns n = (if n = ''pod'' then Inr demo_pod else Inl not_found)"
  "rd_getPolicy (list_reader pas nss) ns n = Inl not_found"
  "rd_getSecret (list_reader pas nss) ns n = Inl not_found"
  by (simp_all add: list_reader_def)

lemma demo_moment_simps [simp]:
  "mo_now (demo_moment pas nss t) = t" "mo_cache (demo_moment pas nss t) = list_reader pas nss"
  "mo_random (demo_moment pas nss t) = Some ''rnd''" "mo_write (demo_moment pas nss t) w = None"
  "mo_callers (demo_moment pas nss t) ip = (if ip = ''10.0.0.1'' then Some ''ta'' else None)"
  by (simp_all add: demo_moment_def)

lemma demo_rec_simps [simp]:
  "pa_name demo_rec = ''app''" "pa_ns demo_rec = ''ta''" "pa_uid demo_rec = ''u9''" "pa_host demo_rec = ''p.d''"
  "ps_jobRef (pa_spec demo_rec) = ''r1''" "ps_port (pa_spec demo_rec) = 3000" "ps_embeddableBy (pa_spec demo_rec) = []"
  "ps_expiresAt (pa_spec demo_rec) = None" "\<not> pa_deleting demo_rec" "pa_generation demo_rec = 1" "pa_owners demo_rec = 1"
  "pa_created demo_rec = 0"
  by (simp_all add: demo_rec_def)

lemma demo_allowed [simp]: "Allowed demo_rec ''al''"
  by (simp add: Allowed_def demo_rec_def)

lemma demo_ready [simp]: "gl_isTrue demo_lib (st_conditions (pa_status demo_rec)) ''Ready''"
  by (simp add: demo_lib_def demo_rec_def list_findCondition_def)

lemma demo_ended [simp]: "\<not> RecordEnded demo_rec t"
  by (simp add: RecordEnded_def)

lemma demo_gw_simps [simp]:
  "gw_key demo_gw = ''key''" "gw_codes demo_gw = Map.empty" "gw_redeemed demo_gw = Map.empty"
  by (simp_all add: demo_gw_def)

lemma demo_env_simps [simp]: "demo_env t n = demo_moment [demo_rec] [demo_ns] t"
  by (simp add: demo_env_def)

lemma demo_Itoa: "Itoa 3000 = ''3000''"
  by code_simp

lemma demo_lookup [simp]: "host_lookup (demo_moment [demo_rec] nss t) ''p.d'' = Inr (Some demo_rec)"
  by (simp add: host_lookup_def)

lemma demo_resolve [simp]:
  "run_state (ResolveTarget demo_lib (demo_env t) demo_rec) (n, g) = (Inr (Some ''10.0.0.7:3000''), (Suc (Suc n), g))"
  by (simp add: ResolveTarget_def demo_running_def demo_ej_def demo_status_def demo_pod_def mget_def demo_Itoa)

lemma demo_cookie: "Request_Cookie (rq_headers demo_visit) CookieName = Some (seal demo_lib ''key'' demo_ticket)"
  by (rule Request_Cookie_line [where cs = "[(CookieName, seal demo_lib ''key'' demo_ticket)]"])
     (simp_all add: sent_ticket demo_visit_def get_request_def Header_Values_def)

lemma demo_admitted:
  "run_state (cookie_Admit demo_lib (demo_env 5) demo_visit demo_rec) (n, demo_gw) = ((''al'', ''https://a'', []), (Suc n, demo_gw))"
  by (simp add: cookie_Admit_run demo_cookie open_seal demo_tickets_ok demo_ticket_plain)
     (simp add: demo_ticket_def Unix_def unixToInternal_def wrap64_def)

lemma demo_forward:
  "fst (run_state (Previews demo_lib (demo_env 5) I (CookieSession demo_lib (demo_env 5)) demo_visit) (0, demo_gw)) =
     Forward ''10.0.0.7:3000''"
proof -
  have host: "request_host demo_visit = ''p.d''"
    by (simp add: demo_visit_def get_request_def request_host_def ToLower_def to_lower_char_def)
  have path: "rq_path demo_visit = ''/''"
    by (simp add: demo_visit_def get_request_def)
  show ?thesis
    by (simp add: Previews_def CookieSession_def cookie_ServeOwn_def path host handlePreview_def ByHost_run gwNow_def demo_admitted Let_def)
qed

end
