(* ===== verification/Preview_Visit.thy ===== *)
theory Preview_Visit
  imports Preview_Entry Preview_Demo
begin

text \<open>
  The journey of a visitor: from the codes endpoint through the handoff to the sandbox.
\<close>

lemma reads_only_sibling_records [simp]: "reads_only (sibling_records E tenant own recs)"
  by (induction recs) (auto intro!: reads_only_rules)

lemma reads_only_lookup: "reads_only (server_lookup L E c pid)"
  unfolding server_lookup_def server_record_def Reachable_def own_record_def
  by (intro reads_only_rules) simp_all

text \<open>A handoff in time turns a code into a cookie.\<close>

lemma handoff_gives_cookie:
  assumes "rq_path r = ''/_handoff''" and "mget (rq_query r) ''code'' = k" and "request_host r = tk_host t"
    and code: "gw_codes g k = Some \<lparr> cd_ticket = t, cd_issued = issued \<rparr>" and time: "mo_now (E n) - issued \<le> CodeTTL"
    and rec: "host_lookup (E (Suc n)) (tk_host t) = Inr (Some rec)" "pa_uid rec = tk_record t" "Allowed rec (tk_subject t)"
  shows "\<exists>resp n' g'. run_state (Previews L E I (CookieSession L E) r) (n, g) = (Answer resp, (n', g')) \<and> gw_key g' = gw_key g \<and>
    re_code resp = 303 \<and> Header_Values (re_headers resp) ''Location'' = [''/''] \<and>
    (\<exists>d. Header_Values (re_headers resp) ''Set-Cookie'' = [cookie_String (ticket_cookie L (gw_key g) t d)])"
proof -
  have "\<not> time_sub (mo_now (E n)) issued > CodeTTL" using time by (simp add: time_sub_TTL)
  then have "redeem_check (mo_now (E n)) (tk_host t) \<lparr> cd_ticket = t, cd_issued = issued \<rparr> = Inr t"
    by (simp add: redeem_check_def)
  moreover have "handoff_valid t (Inr (Some rec)) = Some rec" using rec by (simp add: handoff_valid_def)
  ultimately show ?thesis
    using assms
    by (auto simp: Previews_def CookieSession_def cookie_ServeOwn_def Redeem_run handoff_finish_run Let_def
        redirect_cookies handoff_headers_cookies http_redirect_def)
qed

text \<open>The cookie opens the sandbox to its holder, whichever process with the key is asked.\<close>

lemma cookie_admits:
  assumes lib: "tickets_ok L" "plain_ticket t" and path: "rq_path r \<noteq> ''/_handoff''" and host: "request_host r = pa_host rec"
    and cs: "\<forall>p \<in> set cs. sent_pair p" "map_of cs CookieName = Some (seal L (gw_key g) t)"
      "Header_Values (rq_headers r) ''Cookie'' = [cookie_line cs]"
    and rec: "host_lookup (E n) (pa_host rec) = Inr (Some rec)" "\<not> RecordEnded rec (mo_now (E (Suc n)))"
    and t: "tk_record t = pa_uid rec" "tk_host t = pa_host rec" "mo_now (E (Suc (Suc n))) < Unix (tk_expiry t)" "Allowed rec (tk_subject t)"
    and srv: "serves L E (Suc (Suc (Suc n))) rec addr"
  shows "fst (run_state (Previews L E I (CookieSession L E) r) (n, g)) = Forward addr"
proof -
  have "Request_Cookie (rq_headers r) CookieName = Some (seal L (gw_key g) t)"
    by (rule Request_Cookie_line [OF cs(1,2) _ cs(3)]) simp
  then have "run_state (cookie_Admit L E r rec) (Suc (Suc n), g) = ((tk_subject t, tk_origin t, []), (Suc (Suc (Suc n)), g))"
    using t by (simp add: cookie_Admit_run open_seal [OF lib])
  moreover have "run_state (ResolveTarget L E rec) (Suc (Suc (Suc n)), g) = (Inr (Some addr), (Suc (Suc (Suc (Suc (Suc n)))), g))"
    using srv by (simp add: ResolveTarget_serves)
  ultimately show ?thesis
    using path host rec by (simp add: Previews_def CookieSession_def cookie_ServeOwn_def handlePreview_def ByHost_run gwNow_def Let_def)
qed

text \<open>A request that brings a code in time, while the record still serves the host and allows the subject.\<close>

definition brings_code :: "env \<Rightarrow> nat \<Rightarrow> request \<Rightarrow> string \<Rightarrow> ticket \<Rightarrow> int \<Rightarrow> bool" where
  "brings_code E n r k t issued \<longleftrightarrow>
     rq_path r = ''/_handoff'' \<and> mget (rq_query r) ''code'' = k \<and> request_host r = tk_host t \<and>
     mo_now (E n) - issued \<le> CodeTTL \<and>
     (\<exists>rec. host_lookup (E (Suc n)) (tk_host t) = Inr (Some rec) \<and> pa_uid rec = tk_record t \<and> Allowed rec (tk_subject t))"

text \<open>A request that brings a cookie before it expires, while the record is served from \<open>addr\<close> and allows the subject.\<close>

definition brings_cookie :: "golib \<Rightarrow> env \<Rightarrow> nat \<Rightarrow> request \<Rightarrow> string \<Rightarrow> ticket \<Rightarrow> string \<Rightarrow> bool" where
  "brings_cookie L E n r v t addr \<longleftrightarrow>
     rq_path r \<noteq> ''/_handoff'' \<and> request_host r = tk_host t \<and>
     (\<exists>cs. (\<forall>p \<in> set cs. sent_pair p) \<and> map_of cs CookieName = Some v \<and> Header_Values (rq_headers r) ''Cookie'' = [cookie_line cs]) \<and>
     (\<exists>rec. host_lookup (E n) (tk_host t) = Inr (Some rec) \<and> pa_uid rec = tk_record t \<and> pa_host rec = tk_host t \<and>
        \<not> RecordEnded rec (mo_now (E (n + 1))) \<and> mo_now (E (n + 2)) < Unix (tk_expiry t) \<and>
        Allowed rec (tk_subject t) \<and> serves L E (n + 3) rec addr)"

lemma brings_cookie_forward:
  assumes lib: "tickets_ok L" "plain_ticket t" and "brings_cookie L E n r (seal L (gw_key g) t) t addr"
  shows "fst (run_state (Previews L E I (CookieSession L E) r) (n, g)) = Forward addr"
proof -
  from assms(3) obtain cs rec where c: "rq_path r \<noteq> ''/_handoff''" "request_host r = tk_host t" "\<forall>p \<in> set cs. sent_pair p"
    "map_of cs CookieName = Some (seal L (gw_key g) t)" "Header_Values (rq_headers r) ''Cookie'' = [cookie_line cs]"
    and rec: "host_lookup (E n) (tk_host t) = Inr (Some rec)" "pa_uid rec = tk_record t" "pa_host rec = tk_host t"
    "\<not> RecordEnded rec (mo_now (E (n + 1)))" "mo_now (E (n + 2)) < Unix (tk_expiry t)" "Allowed rec (tk_subject t)"
    "serves L E (n + 3) rec addr"
    unfolding brings_cookie_def by blast
  show ?thesis
    by (rule cookie_admits [OF lib c(1) _ c(3-5), of rec])
       (use c rec in \<open>simp_all add: numeral_2_eq_2 numeral_3_eq_3\<close>)
qed

text \<open>From a waiting code to the sandbox.\<close>

lemma code_journey:
  assumes lib: "tickets_ok L" "plain_ticket t" and code: "gw_codes g2 k = Some \<lparr> cd_ticket = t, cd_issued = issued \<rparr>"
    and brings: "brings_code E1 n2 r1 k t issued"
  shows "\<exists>resp n3 g3 line. run_state (Previews L E1 I (CookieSession L E1) r1) (n2, g2) = (Answer resp, (n3, g3)) \<and>
     re_code resp = 303 \<and> Header_Values (re_headers resp) ''Set-Cookie'' = [line] \<and> sent_pair (CookieName, stored_value line) \<and>
     (\<forall>E2 n4 g4 r2 I2 addr. gw_key g4 = gw_key g2 \<longrightarrow> brings_cookie L E2 n4 r2 (stored_value line) t addr \<longrightarrow>
        fst (run_state (Previews L E2 I2 (CookieSession L E2) r2) (n4, g4)) = Forward addr)"
proof -
  obtain rec where h: "rq_path r1 = ''/_handoff''" "mget (rq_query r1) ''code'' = k" "request_host r1 = tk_host t"
    "mo_now (E1 n2) - issued \<le> CodeTTL" "host_lookup (E1 (Suc n2)) (tk_host t) = Inr (Some rec)"
    "pa_uid rec = tk_record t" "Allowed rec (tk_subject t)"
    using brings unfolding brings_code_def by blast
  obtain resp n3 g3 d where a: "run_state (Previews L E1 I (CookieSession L E1) r1) (n2, g2) = (Answer resp, (n3, g3))"
    "re_code resp = 303" "Header_Values (re_headers resp) ''Set-Cookie'' = [cookie_String (ticket_cookie L (gw_key g2) t d)]"
    using handoff_gives_cookie [OF h(1-3) code h(4-7)] by blast
  show ?thesis
    by (intro exI conjI, rule a(1), rule a(2), rule a(3))
       (use brings_cookie_forward [OF lib] sent_ticket in \<open>auto simp: stored_cookie\<close>)
qed

end
