(* ===== verification/Preview_Proxy.thy ===== *)
theory Preview_Proxy
  imports Preview_Tickets Preview_Server
begin

text \<open>
  What the proxy passes on: the cookies a sandbox receives and the headers a visitor receives.
\<close>

subsection \<open>Trimming\<close>

lemma TrimSpace_ends:
  assumes "s \<noteq> []" and "\<not> is_space (hd s)" and "\<not> is_space (last s)"
  shows "TrimSpace s = s"
proof -
  have "dropWhile is_space s = s" using assms by (cases s) auto
  moreover have "dropWhile is_space (rev s) = rev s"
    using assms by (simp add: dropWhile_eq_self_iff hd_rev)
  ultimately show ?thesis by (simp add: TrimSpace_def)
qed

lemma TrimSpace_part: "\<exists>a b. s = a @ TrimSpace s @ b"
proof -
  let ?t = "dropWhile is_space s"
  have "rev ?t = takeWhile is_space (rev ?t) @ dropWhile is_space (rev ?t)" by simp
  then have "?t = TrimSpace s @ rev (takeWhile is_space (rev ?t))"
    unfolding TrimSpace_def by (metis rev_append rev_rev_ident)
  then show ?thesis by (metis takeWhile_dropWhile_id)
qed

lemma TrimSpace_set: "set (TrimSpace s) \<subseteq> set s"
  using TrimSpace_part [of s] by (metis Un_upper1 Un_upper2 set_append subset_trans)

lemma TrimSpace_trimmed:
  assumes "TrimSpace s \<noteq> []"
  shows "\<not> is_space (hd (TrimSpace s)) \<and> \<not> is_space (last (TrimSpace s))"
proof -
  let ?t = "dropWhile is_space s" and ?u = "dropWhile is_space (rev (dropWhile is_space s))"
  have ne: "?u \<noteq> []" using assms by (simp add: TrimSpace_def)
  then have ne': "?t \<noteq> []" by (metis dropWhile.simps(1) rev.simps(1))
  have "rev ?t = takeWhile is_space (rev ?t) @ ?u" by simp
  then have "?t = rev ?u @ rev (takeWhile is_space (rev ?t))" by (metis rev_append rev_rev_ident)
  then have "hd ?t = hd (rev ?u)" using ne by (metis hd_append rev_is_Nil_conv)
  moreover have "\<not> is_space (hd ?t)" "\<not> is_space (hd ?u)" using ne ne' hd_dropWhile by blast+
  ultimately show ?thesis by (simp add: TrimSpace_def last_rev)
qed

lemma TrimSpace_idem [simp]: "TrimSpace (TrimSpace s) = TrimSpace s"
proof (cases "TrimSpace s = []")
  case True
  show ?thesis unfolding True by (simp add: TrimSpace_def)
next
  case False
  then show ?thesis using TrimSpace_ends TrimSpace_trimmed by blast
qed

lemma TrimSpace_space: "TrimSpace (CHR '' '' # s) = TrimSpace s"
  by (simp add: TrimSpace_def is_space_def)

subsection \<open>The cookies of a request\<close>

text \<open>The parts of all \<^verbatim>\<open>Cookie\<close> lines, in order.\<close>

definition cookie_parts :: "header \<Rightarrow> string list" where
  "cookie_parts h =
     concat (map (\<lambda>line. filter (\<lambda>p. p \<noteq> []) (map TrimSpace (split_on (CHR '';'') line))) (Header_Values h ''Cookie''))"

lemma kept_parts_filter:
  "concat (map (kept_parts name) (Header_Values h ''Cookie'')) = filter (\<lambda>p. \<not> HasPrefix p (name @ ''='')) (cookie_parts h)"
  by (simp add: cookie_parts_def kept_parts_def [abs_def] filter_concat comp_def conj_commute)

lemma cookie_parts_clean:
  assumes "p \<in> set (cookie_parts h)"
  shows "TrimSpace p = p \<and> p \<noteq> [] \<and> CHR '';'' \<notin> set p"
proof -
  obtain line q where q: "q \<in> set (split_on (CHR '';'') line)" "p = TrimSpace q" "p \<noteq> []"
    using assms by (auto simp: cookie_parts_def)
  then have "CHR '';'' \<notin> set q" using split_on_pieces by metis
  then show ?thesis using q TrimSpace_set [of q] by auto
qed

lemma joined_parts:
  assumes "\<forall>p \<in> set ps. TrimSpace p = p \<and> p \<noteq> [] \<and> CHR '';'' \<notin> set p" and "ps \<noteq> []"
  shows "filter (\<lambda>p. p \<noteq> []) (map TrimSpace (split_on (CHR '';'') (Join ps ''; ''))) = ps"
proof (cases ps)
  case (Cons q qs)
  have "map TrimSpace (split_on (CHR '';'') (Join (q # qs) ''; '')) = q # map TrimSpace qs"
    using assms(1) Cons by (simp add: split_Join_cookies TrimSpace_space comp_def)
  also have "\<dots> = ps" using assms(1) Cons by (simp add: map_idI)
  finally have "map TrimSpace (split_on (CHR '';'') (Join ps ''; '')) = ps" unfolding Cons .
  moreover have "filter (\<lambda>p. p \<noteq> []) ps = ps" using assms(1) by (intro filter_True) auto
  ultimately show ?thesis by simp
qed (use assms in simp)

text \<open>Stripping removes the parts that begin with the name, keeps the others in order, and touches no other header.\<close>

lemma stripCookie_parts:
  "cookie_parts (stripCookie name h) = filter (\<lambda>p. \<not> HasPrefix p (name @ ''='')) (cookie_parts h)"
proof -
  let ?kept = "filter (\<lambda>p. \<not> HasPrefix p (name @ ''='')) (cookie_parts h)"
  have clean: "\<forall>p \<in> set ?kept. TrimSpace p = p \<and> p \<noteq> [] \<and> CHR '';'' \<notin> set p"
    using cookie_parts_clean by auto
  have vals: "Header_Values (stripCookie name h) ''Cookie'' = (if ?kept = [] then [] else [Join ?kept ''; ''])"
    by (simp add: stripCookie_def kept_parts_filter Let_def)
  show ?thesis
  proof (cases "?kept = []")
    case True
    then show ?thesis using vals by (simp add: cookie_parts_def)
  next
    case False
    then show ?thesis using vals joined_parts [OF clean] by (simp add: cookie_parts_def)
  qed
qed

lemma stripCookie_others [simp]: "j \<noteq> ''Cookie'' \<Longrightarrow> Header_Values (stripCookie name h) j = Header_Values h j"
  by (simp add: stripCookie_def Let_def)

text \<open>A cookie line of a browser: white space of the broader kind does not occur in it either.\<close>

definition plain_pair :: "string \<times> string \<Rightarrow> bool" where
  "plain_pair p \<longleftrightarrow> sent_pair p \<and> (\<forall>c \<in> set (fst p) \<union> set (snd p). \<not> is_space c)"

lemma is_space_eq [simp]: "\<not> is_space (CHR ''='')"
  by (simp add: is_space_def)

lemma plain_pair_part:
  assumes "plain_pair p"
  shows "TrimSpace (pair_text p) = pair_text p \<and> pair_text p \<noteq> [] \<and> CHR '';'' \<notin> set (pair_text p)"
proof -
  have "TrimSpace (pair_text p) = pair_text p"
  proof (rule TrimSpace_id, rule ballI)
    fix c assume "c \<in> set (pair_text p)"
    then consider "c = CHR ''=''" | "c \<in> set (fst p) \<union> set (snd p)" by auto
    then show "\<not> is_space c" using assms unfolding plain_pair_def by cases (simp, blast)
  qed
  moreover have "CHR '';'' \<notin> set (pair_text p)"
    using assms unfolding plain_pair_def sent_pair_def by auto
  ultimately show ?thesis by simp
qed

lemma cookie_parts_line:
  assumes "\<forall>p \<in> set cs. plain_pair p" and "Header_Values h ''Cookie'' = [cookie_line cs]"
  shows "cookie_parts h = map pair_text cs"
proof (cases "cs = []")
  case False
  have "\<forall>q \<in> set (map pair_text cs). TrimSpace q = q \<and> q \<noteq> [] \<and> CHR '';'' \<notin> set q"
    using assms(1) plain_pair_part by auto
  then show ?thesis
    using False joined_parts [of "map pair_text cs"] by (simp add: cookie_parts_def assms(2) cookie_line_def)
qed (simp add: cookie_parts_def assms(2) cookie_line_def TrimSpace_def)

lemma pair_prefix:
  assumes "CHR ''='' \<notin> set (fst p)" and "CHR ''='' \<notin> set name"
  shows "HasPrefix (pair_text p) (name @ ''='') \<longleftrightarrow> fst p = name"
proof
  assume "HasPrefix (pair_text p) (name @ ''='')"
  then obtain t where "pair_text p = name @ CHR ''='' # t" by (auto simp: HasPrefix_iff)
  then have "Cut (pair_text p) (CHR ''='') = Cut (name @ CHR ''='' # t) (CHR ''='')" by simp
  then show "fst p = name" using assms by (simp add: Cut_found)
qed (auto simp: HasPrefix_iff)

text \<open>Of a browser's cookies exactly the others are sent on.\<close>

lemma stripCookie_line:
  assumes cs: "\<forall>p \<in> set cs. plain_pair p" and name: "CHR ''='' \<notin> set name"
    and h: "Header_Values h ''Cookie'' = [cookie_line cs]"
  shows "Header_Values (stripCookie name h) ''Cookie'' =
    (let rest = filter (\<lambda>p. fst p \<noteq> name) cs in if rest = [] then [] else [cookie_line rest])"
proof -
  have "filter (\<lambda>p. \<not> HasPrefix (pair_text p) (name @ ''='')) cs = filter (\<lambda>p. fst p \<noteq> name) cs"
    using cs name by (intro filter_cong) (auto simp: pair_prefix plain_pair_def sent_pair_def)
  then have "filter (\<lambda>p. \<not> HasPrefix p (name @ ''='')) (cookie_parts h) = map pair_text (filter (\<lambda>p. fst p \<noteq> name) cs)"
    by (simp add: cookie_parts_line [OF cs h] filter_map comp_def)
  then show ?thesis
    by (simp add: stripCookie_def kept_parts_filter Let_def cookie_line_def)
qed

subsection \<open>The headers of a response\<close>

lemma add_all_values:
  "Header_Values (fold (Header_Add k) vs h) j = Header_Values h j @ (if j = k then vs else [])"
  by (induction vs arbitrary: h) auto

lemma modify_response_values:
  "Header_Values (proxy_modify_response h) j =
     (if j = ''Set-Cookie'' then filter (\<lambda>v. \<not> sets_cookie CookieName v) (Header_Values h j)
      else if j = ''X-Preview-Access'' then [] else Header_Values h j)"
  by (simp add: proxy_modify_response_def Let_def add_all_values)

end
