(* ===== verification/Preview_Props.thy ===== *)
theory Preview_Props
  imports Preview_Visit Preview_Proxy
begin

text \<open>
  The properties of the preview gateway: what reaches a sandbox, how cookies and codes implement
  admission, who gets a code, which records answer a name and a target, and that the credential
  stays with the gateway.
\<close>

lemma demo_ns_simps [simp]:
  "ns_name demo_ns = ''ta''" "mget (ns_labels demo_ns) LabelTenant = ''t''" "mget (ns_labels demo_ns) LabelApp = ''a''"
  "map_of (ns_labels demo_ns) LabelTenant = Some ''t''" "map_of (ns_labels demo_ns) LabelApp = Some ''a''"
  by (simp_all add: demo_ns_def mget_def LabelTenant_def LabelApp_def)

lemma demo_cache_ok: "cache_ok (list_reader [demo_rec] [demo_ns])"
  by (auto simp: cache_ok_def has_labels_def valid_record_def no_slash_def)

subsection \<open>What reaches a sandbox\<close>

lemma Previews_forward:
  assumes "fst (run_state (Previews L E I (CookieSession L E) r) (n, g)) = Forward addr"
  obtains s where "run_state (handlePreview L E I (CookieSession L E) r (request_host r)) (n, g) = (Forward addr, s)"
    and "run_state (Previews L E I (CookieSession L E) r) (n, g) = (Forward addr, s)"
proof -
  have path: "rq_path r \<noteq> ''/_handoff''"
    using assms by (auto simp: Previews_def CookieSession_def cookie_ServeOwn_def Let_def split: sum.splits prod.splits)
  then have "run_state (Previews L E I (CookieSession L E) r) (n, g) =
      run_state (handlePreview L E I (CookieSession L E) r (request_host r)) (n, g)"
    by (simp add: Previews_def CookieSession_def cookie_ServeOwn_def Let_def)
  then show thesis using assms that by (metis prod.collapse)
qed

text \<open>
  C20: A request on a preview host is forwarded only to the running sandbox of the record that
  serves the host, and only with a cookie this gateway signed, issued for that record and host,
  not expired, for a subject the record, as read by this very request, still allows; the record is
  not past its own bound. Forwarding changes nothing in the gateway.
\<close>

theorem forward_guarded:
  assumes cache: "\<forall>m. cache_ok (mo_cache (E m))"
    and fwd: "fst (run_state (Previews L E I (CookieSession L E) r) (n, g)) = Forward addr"
  shows "snd (snd (run_state (Previews L E I (CookieSession L E) r) (n, g))) = g \<and>
    (\<exists>rec v p b t.
       record_at E n (request_host r) rec \<and> pa_host rec = request_host r \<and>
       \<not> RecordEnded rec (mo_now (E (n + 1))) \<and>
       Request_Cookie (rq_headers r) CookieName = Some v \<and> v = p @ ''.'' @ mac L (gw_key g) p \<and>
       RawURL_Decode p = Some b \<and> gl_ticketParse L b = (t, True) \<and>
       tk_record t = pa_uid rec \<and> tk_host t = request_host r \<and>
       mo_now (E (n + 2)) < Unix (tk_expiry t) \<and> Allowed rec (tk_subject t) \<and>
       serves L E (n + 3) rec addr)"
proof -
  obtain s where run: "run_state (handlePreview L E I (CookieSession L E) r (request_host r)) (n, g) = (Forward addr, s)"
    and whole: "run_state (Previews L E I (CookieSession L E) r) (n, g) = (Forward addr, s)"
    using Previews_forward [OF fwd] .
  from run obtain rec subject origin m where rec: "record_at E n (request_host r) rec"
    and live: "\<not> RecordEnded rec (mo_now (E (Suc n)))"
    and adm: "run_state (se_Admit (CookieSession L E) r rec) (Suc (Suc n), g) = ((subject, origin, []), (m, g))"
    and srv: "serves L E m rec addr" and s: "s = (Suc (Suc m), g)"
    by (rule cookie.handlePreview_forward)
  obtain more where "rd_listPA (mo_cache (E n)) None IndexHost (request_host r) = Inr (rec # more)"
    using rec by (auto simp: record_at_def)
  then have "request_host r \<in> set (index_values IndexHost rec)"
    using cache cache_okD(4) by (metis list.set_intros(1))
  then have host: "pa_host rec = request_host r" by (simp split: if_splits)
  from adm obtain v t where v: "Request_Cookie (rq_headers r) CookieName = Some v" "open_ticket L (gw_key g) v = (t, True)"
    "tk_record t = pa_uid rec" "tk_host t = pa_host rec" "mo_now (E (Suc (Suc n))) < Unix (tk_expiry t)"
    "Allowed rec (tk_subject t)" "m = Suc (Suc (Suc n))"
    by (auto simp: CookieSession_def cookie_Admit_run Let_def split: prod.splits option.splits if_splits)
  obtain p b where "v = p @ ''.'' @ mac L (gw_key g) p" "RawURL_Decode p = Some b" "gl_ticketParse L b = (t, True)"
    using open_ticketD [OF v(2)] .
  with rec host live v srv show ?thesis
    unfolding whole s by (auto simp: numeral_2_eq_2 numeral_3_eq_3)
qed

theorem forward_guarded_witness:
  "\<exists>rec v (t :: ticket). record_at (demo_env 5) 0 ''p.d'' rec \<and> Request_Cookie (rq_headers demo_visit) CookieName = Some v \<and>
     tk_record t = pa_uid rec \<and> Allowed rec (tk_subject t) \<and> serves demo_lib (demo_env 5) 3 rec ''10.0.0.7:3000''"
proof -
  have host: "request_host demo_visit = ''p.d''"
    by (simp add: demo_visit_def get_request_def request_host_def ToLower_def to_lower_char_def)
  have "\<forall>m. cache_ok (mo_cache (demo_env 5 m))" by (simp add: demo_cache_ok)
  from forward_guarded [OF this demo_forward [of "GatewayIdentity demo_lib (demo_env 5)"]] show ?thesis
    unfolding host add_0 by (elim conjE exE) blast
qed

subsection \<open>Cookies implement a table of sessions\<close>

text \<open>
  C21: Whatever the interleaving of issuing codes, redeeming them, finishing handoffs and judging
  requests, the gateway answers as a server that keeps every offer and a table of open sessions:
  the signed cookie replaces the table, and dropping codes older than ten seconds is never seen.
  Assumed are that a presented MAC was handed out before, that the clock read by a redemption is
  not behind the one of an earlier issue, and that JSON carries the tickets.
\<close>

theorem cookies_refine_sessions:
  assumes "tickets_ok L" and "gw_codes g = Map.empty"
    and "admissible L start_time es \<lparr> cs_gw = g, cs_pending = [], cs_handed = [] \<rparr>"
  shows "crun L es \<lparr> cs_gw = g, cs_pending = [], cs_handed = [] \<rparr> =
    arun (seal L (gw_key g)) es \<lparr> vt_offers = Map.empty, vt_pending = [], vt_sessions = Map.empty \<rparr>"
proof -
  have "sim L (gw_key g) start_time \<lparr> cs_gw = g, cs_pending = [], cs_handed = [] \<rparr>
      \<lparr> vt_offers = Map.empty, vt_pending = [], vt_sessions = Map.empty \<rparr>"
    using assms(2) by (simp add: sim_def codes_match_def sessions_match_def)
  then show ?thesis using assms(1,3) by (rule runs_agree)
qed

definition demo_start :: cstate where
  "demo_start = \<lparr> cs_gw = demo_gw, cs_pending = [], cs_handed = [] \<rparr>"

definition demo_events :: "gw_event list" where
  "demo_events =
     [IssueCode (demo_env 0) 0 demo_ticket, RedeemCode (demo_env 3) 0 (RawURL_Encode ''rnd'') ''p.d'',
      RedeemCode (demo_env 4) 0 (RawURL_Encode ''rnd'') ''p.d'',
      FinishHandoff (demo_env 4) 0 0 demo_visit ''p.d'', Judge (demo_env 5) 0 demo_visit demo_rec]"

theorem cookies_refine_sessions_witness:
  "crun demo_lib demo_events demo_start =
     arun (seal demo_lib ''key'') demo_events \<lparr> vt_offers = Map.empty, vt_pending = [], vt_sessions = Map.empty \<rparr>"
proof -
  have "handoff_valid demo_ticket (Inr (Some demo_rec)) = Some demo_rec"
    by (simp add: handoff_valid_def demo_ticket_def)
  then have "admissible demo_lib 0 demo_events \<lparr> cs_gw = demo_gw, cs_pending = [], cs_handed = [] \<rparr>"
    by (simp add: demo_events_def demo_ticket_plain Issue_run Redeem_run codes_put_def drop_older_def redeem_check_def
        time_sub_def sat64_def CodeTTL_def demo_ticket_def [THEN arg_cong [of _ _ tk_host]] handoff_finish_run
        set_cookies_def redirect_cookies handoff_headers_cookies stored_cookie demo_cookie)
  from cookies_refine_sessions [OF demo_tickets_ok _ this] show ?thesis
    by (simp add: demo_start_def)
qed

text \<open>
  C24: A redemption succeeds only for a code that was issued, with the ticket it was issued for, at
  the host of that ticket, at most ten seconds later, and without any attempt to redeem the code
  in between: a code is used up by its first attempt.
\<close>

theorem code_single_use:
  assumes "gw_codes (cs_gw s) = Map.empty" and "j < length es" and "es ! j = RedeemCode E n k host"
    and "crun L es s ! j = Redeemed (Some t)"
  shows "tk_host t = host \<and> (\<exists>i E' n'. i < j \<and> es ! i = IssueCode E' n' t \<and> crun L es s ! i = Issued (Some k) \<and>
    mo_now (E n) - mo_now (E' (Suc n')) \<le> CodeTTL \<and>
    (\<forall>m E'' n'' host'. i < m \<longrightarrow> m < j \<longrightarrow> es ! m \<noteq> RedeemCode E'' n'' k host'))"
proof -
  have "fst (cstep L (RedeemCode E n k host) (cafter L (take j es) s)) = Redeemed (Some t)"
    using assms by (simp only: crun_nth)
  then obtain c where c: "gw_codes (cs_gw (cafter L (take j es) s)) k = Some c" "cd_ticket c = t" "tk_host t = host"
    "mo_now (E n) - cd_issued c \<le> CodeTTL"
    by (rule redeemed_code)
  obtain i E' n' where i: "i < length (take j es)" "take j es ! i = IssueCode E' n' t" "crun L (take j es) s ! i = Issued (Some k)"
    "cd_issued c = mo_now (E' (Suc n'))"
    and none: "\<forall>m E'' n'' host'. i < m \<longrightarrow> m < length (take j es) \<longrightarrow> take j es ! m \<noteq> RedeemCode E'' n'' k host'"
    using waiting_code_issued [OF assms(1) c(1)] c(2) by blast
  have "crun L es s ! i = Issued (Some k)"
    using i(1,3) assms(2) by (simp add: crun_nth min_def)
  moreover have "i < j" "es ! i = IssueCode E' n' t" using i(1,2) assms(2) by auto
  moreover have "\<forall>m E'' n'' host'. i < m \<longrightarrow> m < j \<longrightarrow> es ! m \<noteq> RedeemCode E'' n'' k host'"
    using none assms(2) by simp
  ultimately show ?thesis using c(3,4) i(4) by metis
qed

theorem code_single_use_witness:
  "tk_host demo_ticket = ''p.d'' \<and> (\<exists>i E' n'. i < 1 \<and> demo_events ! i = IssueCode E' n' demo_ticket \<and>
     crun demo_lib demo_events demo_start ! i = Issued (Some (RawURL_Encode ''rnd'')))"
proof -
  have "crun demo_lib demo_events demo_start ! 1 = Redeemed (Some demo_ticket)"
    by (simp add: demo_events_def demo_start_def Issue_run Redeem_run codes_put_def drop_older_def redeem_check_def
        time_sub_def sat64_def CodeTTL_def demo_ticket_def [THEN arg_cong [of _ _ tk_host]])
  from code_single_use [OF _ _ _ this, of "demo_env 3" 0 "RawURL_Encode ''rnd''" "''p.d''"] show ?thesis
    by (auto simp: demo_start_def demo_events_def)
qed

subsection \<open>Who gets a code\<close>


definition demo_token :: string where
  "demo_token =
     (let p = RawURL_Encode ''k'' @ ''.'' @ RawURL_Encode ''al'' in p @ ''.'' @ RawURL_Encode p)"

definition demo_ask :: request where
  "demo_ask =
     \<lparr> rq_method = ''POST'', rq_host = ''gw'', rq_remote = ''10.0.0.1:80'', rq_path = ''/codes'', rq_query = [],
       rq_headers = [(''Authorization'', [''Bearer '' @ demo_token]), (''Content-Type'', [''application/json'']),
                     (''Origin'', [''https://a''])], rq_body = ''app'' \<rparr>"

lemma demo_key: "fetch_keys (mo_jwks (demo_moment pas nss t)) = Inr [(''k'', \<lparr> pk_n = 65537, pk_e = 65537 \<rparr>)]"
proof -
  have "RawURL_Decode ''AQAB'' = Some [CHR 0x01, CHR 0x00, CHR 0x01]" by code_simp
  then show ?thesis
    by (simp add: demo_moment_def fetch_keys_def usable_key_def bytes_nat_def)
qed

lemma demo_verified:
  "fst (run_state (Verify demo_lib (demo_env 0) demo_token) (n, demo_gw)) = Inr ''al''"
proof -
  let ?p = "RawURL_Encode ''k'' @ ''.'' @ RawURL_Encode ''al''"
  have "split_on (CHR ''.'') (RawURL_Encode a @ ''.'' @ RawURL_Encode b @ ''.'' @ RawURL_Encode c) =
      [RawURL_Encode a, RawURL_Encode b, RawURL_Encode c]" for a b c
    by (simp add: split_on_append split_on_free RawURL_Encode_no_dot)
  then have parts: "split_on (CHR ''.'') demo_token = [RawURL_Encode ''k'', RawURL_Encode ''al'', RawURL_Encode ?p]"
    unfolding demo_token_def Let_def by (simp only: append_assoc)
  have lib: "gl_headerParse demo_lib b = Some (''RS256'', b)" "gl_sha256 demo_lib b = b"
    "gl_rsaVerify demo_lib k d b \<longleftrightarrow> b = d"
    "gl_claimsParse demo_lib b = Some \<lparr> cl_iss = ''iss'', cl_sub = b, cl_exp = Some 5000, cl_nbf = None \<rparr>" for b d k
    by (simp_all add: demo_lib_def)
  have ver: "gw_verifier demo_gw = \<lparr> v_issuer = ''iss'', v_keys = None, v_fetchedAt = zero_time \<rparr>"
    by (simp add: demo_gw_def)
  show ?thesis
    by (simp add: Verify_def parts lib signing_key_def ver gwNow_def demo_key claims_refusal_def del: RawURL_Encode.simps)
       (simp add: time_add_def Unix_def unixToInternal_def wrap64_def clockSkew_def)
qed

definition demo_pass :: ticket where
  "demo_pass = \<lparr> tk_record = ''u9'', tk_host = ''p.d'', tk_subject = ''al'', tk_expiry = unix_of (time_add 0 CookieMaxAge), tk_origin = ''https://a'' \<rparr>"

lemma demo_codes_answer:
  obtains resp n1 g1 where "run_state (handleCodes demo_lib (demo_env 0) (GatewayIdentity demo_lib (demo_env 0))
     (CookieSession demo_lib (demo_env 0)) demo_ask) (0, demo_gw) = (resp, (n1, g1))"
    and "re_code resp = 200" and "gw_codes g1 = [RawURL_Encode ''rnd'' \<mapsto> \<lparr> cd_ticket = demo_pass, cd_issued = 0 \<rparr>]"
proof -
  obtain n g where v: "run_state (Verify demo_lib (demo_env 0) demo_token) (2, demo_gw) = (Inr ''al'', (n, g))"
    using demo_verified by (metis prod.collapse)
  then have g: "gw_codes g = Map.empty"
    using keeps_codes_Verify [of demo_lib "demo_env 0" demo_token] unfolding keeps_codes_def
    by (metis demo_gw_simps(2) snd_conv)
  have ip: "SplitHostPort_host (rq_remote demo_ask) = ''10.0.0.1''" unfolding demo_ask_def by code_simp
  have h: "Header_Get (rq_headers demo_ask) ''Authorization'' = ''Bearer '' @ demo_token"
    "Header_Get (rq_headers demo_ask) ''Content-Type'' = ''application/json''"
    "Header_Get (rq_headers demo_ask) ''Origin'' = ''https://a''" "rq_body demo_ask = ''app''"
    by (simp_all add: demo_ask_def Header_Get_def Header_Values_def)
  have lib: "gl_previewIDParse demo_lib b = Some b" "gl_mediaType demo_lib b = b" for b
    by (simp_all add: demo_lib_def)
  have ns: "mget (ns_annotations demo_ns) AppOriginAnnotation = ''https://a''"
    by (simp add: demo_ns_def mget_def)
  let ?c = "\<lparr> ca_namespace = ''ta'', ca_tenant = ''t'', ca_app = ''a'', ca_origin = ''https://a'', ca_subject = ''al'' \<rparr>"
  have caller: "run_state (gateway_Caller demo_lib (demo_env 0) demo_ask) (0, demo_gw) = (Inr ?c, (n, g))"
    using v by (simp add: gateway_Caller_def ip getNS_def ns h Let_def numeral_2_eq_2 HasPrefix_def TrimPrefix_def)
  have pass: "begin_ticket demo_rec ?c 0 = demo_pass"
    by (simp add: begin_ticket_def demo_pass_def SessionLifetime_def)
  obtain resp n1 g1 where run: "run_state (handleCodes demo_lib (demo_env 0) (GatewayIdentity demo_lib (demo_env 0))
      (CookieSession demo_lib (demo_env 0)) demo_ask) (0, demo_gw) = (resp, (n1, g1))" by (metis surj_pair)
  then have "re_code resp = 200 \<and> gw_codes g1 = [RawURL_Encode ''rnd'' \<mapsto> \<lparr> cd_ticket = demo_pass, cd_issued = 0 \<rparr>]"
    by (simp add: handleCodes_def server_caller_def GatewayIdentity_def caller same_origin_json_def h lib
        server_lookup_def Reachable_def AppNamespace_def listNS_def own_record_def getPA_def listPA_def gwNow_def
        CookieSession_def cookie_Begin_def Issue_def Let_def pass codes_put_def drop_older_def g del: RawURL_Encode.simps) auto
  with run that show thesis by blast
qed


subsection \<open>The credential stays with the gateway\<close>



text \<open>
  The filters look for the name followed at once by an equals sign. A line with a space between
  the two passes both: browsers, and Go's own reader of cookies, trim the name, so the cookie of a
  visitor can be overwritten by a sandbox, and a client that sends its credential so spelled is
  admitted while the sandbox receives the credential.
\<close>

lemma spaced_name_passes:
  "Header_Values (proxy_modify_response [(''Set-Cookie'', [CookieName @ '' =x; Secure; Path=/''])]) ''Set-Cookie'' =
     [CookieName @ '' =x; Secure; Path=/'']"
  "Request_Cookie (stripCookie CookieName [(''Cookie'', [CookieName @ '' =x''])]) CookieName = Some ''x''"
  unfolding CookieName_def by code_simp+

subsection \<open>The journey of a visitor\<close>

text \<open>
  C23: The whole journey succeeds. After an answer 200 of the codes endpoint, the URL in it brings a
  visitor in: whoever follows it within ten seconds, before anyone else did, is redirected with one
  cookie, and a browser that presents what it stored of that cookie, before the session ends, reaches
  the running sandbox, on any process that has the same signing key, while the record stays and
  still allows the subject.
\<close>

theorem preview_end_to_end:
  assumes lib: "tickets_ok L"
    and run: "run_state (handleCodes L E (GatewayIdentity L E) (CookieSession L E) r) (n, g) = (resp, (n1, g1))"
    and ok: "re_code resp = 200"
  shows "\<exists>k t issued fields. gw_codes g1 k = Some \<lparr> cd_ticket = t, cd_issued = issued \<rparr> \<and>
    re_body resp = Json fields \<and> map_of fields ''handoffUrl'' = Some (JStr (''https://'' @ tk_host t @ ''/_handoff?code='' @ k)) \<and>
    (plain_ticket t \<longrightarrow>
     (\<forall>E1 n2 g2 r1 I. gw_codes g2 k = gw_codes g1 k \<longrightarrow> brings_code E1 n2 r1 k t issued \<longrightarrow>
       (\<exists>resp1 n3 g3 line. run_state (Previews L E1 I (CookieSession L E1) r1) (n2, g2) = (Answer resp1, (n3, g3)) \<and>
          re_code resp1 = 303 \<and> Header_Values (re_headers resp1) ''Set-Cookie'' = [line] \<and> sent_pair (CookieName, stored_value line) \<and>
          (\<forall>E2 n4 g4 r2 I2 addr. gw_key g4 = gw_key g2 \<longrightarrow> brings_cookie L E2 n4 r2 (stored_value line) t addr \<longrightarrow>
             fst (run_state (Previews L E2 I2 (CookieSession L E2) r2) (n4, g4)) = Forward addr))))"
proof -
  obtain c rec m h b where
    s: "(n1, g1) = (Suc (Suc (Suc m)), codes_put (mo_now (E (Suc (Suc m)))) (RawURL_Encode b) (begin_ticket rec c (mo_now (E m))) h)"
    and body: "re_body resp = Json [(''codeExpiresInSeconds'', JInt (in_seconds CodeTTL)),
       (''cookieMaxAgeSeconds'', JInt (in_seconds (SessionLifetime rec (mo_now (E m))))),
       (''handoffUrl'', JStr (''https://'' @ pa_host rec @ ''/_handoff?code='' @ RawURL_Encode b))]"
    using handleCodes_ok [OF run ok gateway_refusals] .
  define t where "t = begin_ticket rec c (mo_now (E m))"
  have host: "tk_host t = pa_host rec" by (simp add: t_def begin_ticket_def)
  have code: "gw_codes g1 (RawURL_Encode b) = Some \<lparr> cd_ticket = t, cd_issued = mo_now (E (Suc (Suc m))) \<rparr>"
    using s by (simp add: codes_put_def t_def)
  show ?thesis
    by (rule exI [of _ "RawURL_Encode b"], rule exI [of _ t], rule exI [of _ "mo_now (E (Suc (Suc m)))"],
        intro exI conjI, rule code, rule body, simp add: host, intro impI allI, rule code_journey [OF lib])
       (simp_all add: code)
qed

lemma demo_pass_facts:
  "plain_ticket demo_pass" "tk_host demo_pass = ''p.d''" "tk_record demo_pass = ''u9''" "tk_subject demo_pass = ''al''"
  "5 < Unix (tk_expiry demo_pass)"
  by (simp_all add: plain_ticket_def demo_pass_def ascii7_def int64_range_def unix_of_def wrap64_def Unix_def unixToInternal_def
      time_add_def CookieMaxAge_def Let_def)

lemma demo_serves: "serves demo_lib (demo_env t) n demo_rec ''10.0.0.7:3000''"
  using ResolveTarget_serves [of demo_lib "demo_env t" demo_rec n demo_gw] demo_resolve by blast

definition demo_cookie_visit :: "string \<Rightarrow> request" where
  "demo_cookie_visit v = get_request ''/'' [] [(''Cookie'', [cookie_line [(CookieName, v)]])]"

lemma demo_host: "request_host (get_request p q h) = ''p.d''"
  by (simp add: get_request_def request_host_def ToLower_def to_lower_char_def)

theorem preview_end_to_end_witness:
  "\<exists>line. fst (run_state (Previews demo_lib (demo_env 5) (GatewayIdentity demo_lib (demo_env 5)) (CookieSession demo_lib (demo_env 5))
     (demo_cookie_visit (stored_value line))) (0, demo_gw)) = Forward ''10.0.0.7:3000''"
proof -
  obtain resp n1 g1 where run: "run_state (handleCodes demo_lib (demo_env 0) (GatewayIdentity demo_lib (demo_env 0))
      (CookieSession demo_lib (demo_env 0)) demo_ask) (0, demo_gw) = (resp, (n1, g1))" and ok: "re_code resp = 200"
    and g1: "gw_codes g1 = [RawURL_Encode ''rnd'' \<mapsto> \<lparr> cd_ticket = demo_pass, cd_issued = 0 \<rparr>]"
    by (rule demo_codes_answer)
  let ?r1 = "get_request ''/_handoff'' [(''code'', RawURL_Encode ''rnd'')] []" and ?g2 = "demo_gw\<lparr>gw_codes := gw_codes g1\<rparr>"
  have brings: "brings_code (demo_env 3) 0 ?r1 (RawURL_Encode ''rnd'') demo_pass 0"
    by (simp add: brings_code_def demo_host demo_pass_facts CodeTTL_def) (simp add: get_request_def mget_def)
  have keys: "gw_key ?g2 = gw_key demo_gw" "gw_codes ?g2 k = gw_codes g1 k" for k by simp_all
  from preview_end_to_end [OF demo_tickets_ok run ok] obtain k t issued where
    code: "gw_codes g1 k = Some \<lparr> cd_ticket = t, cd_issued = issued \<rparr>"
    and all: "plain_ticket t \<longrightarrow>
     (\<forall>E1 n2 g2 r1 I. gw_codes g2 k = gw_codes g1 k \<longrightarrow> brings_code E1 n2 r1 k t issued \<longrightarrow>
       (\<exists>resp1 n3 g3 line. run_state (Previews demo_lib E1 I (CookieSession demo_lib E1) r1) (n2, g2) = (Answer resp1, (n3, g3)) \<and>
          re_code resp1 = 303 \<and> Header_Values (re_headers resp1) ''Set-Cookie'' = [line] \<and> sent_pair (CookieName, stored_value line) \<and>
          (\<forall>E2 n4 g4 r2 I2 addr. gw_key g4 = gw_key g2 \<longrightarrow> brings_cookie demo_lib E2 n4 r2 (stored_value line) t addr \<longrightarrow>
             fst (run_state (Previews demo_lib E2 I2 (CookieSession demo_lib E2) r2) (n4, g4)) = Forward addr)))"
    by (elim exE conjE)
  have k: "k = RawURL_Encode ''rnd''" "t = demo_pass" "issued = 0"
    using code unfolding g1 by (simp_all split: if_splits del: RawURL_Encode.simps)
  note all [unfolded k, rule_format, OF demo_pass_facts(1) keys(2) brings, of "GatewayIdentity demo_lib (demo_env 3)"]
  then have "\<exists>line. sent_pair (CookieName, stored_value line) \<and>
        (\<forall>E2 n4 g4 r2 I2 addr. gw_key g4 = gw_key ?g2 \<longrightarrow> brings_cookie demo_lib E2 n4 r2 (stored_value line) demo_pass addr \<longrightarrow>
           fst (run_state (Previews demo_lib E2 I2 (CookieSession demo_lib E2) r2) (n4, g4)) = Forward addr)"
    by blast
  then obtain line where line: "sent_pair (CookieName, stored_value line)"
    and fwd: "brings_cookie demo_lib (demo_env 5) 0 (demo_cookie_visit (stored_value line)) (stored_value line) demo_pass addr \<Longrightarrow>
        fst (run_state (Previews demo_lib (demo_env 5) (GatewayIdentity demo_lib (demo_env 5)) (CookieSession demo_lib (demo_env 5))
     (demo_cookie_visit (stored_value line))) (0, demo_gw)) = Forward addr" for addr
    using keys(1) by metis
  have "brings_cookie demo_lib (demo_env 5) 0 (demo_cookie_visit (stored_value line)) (stored_value line) demo_pass ''10.0.0.7:3000''"
    unfolding brings_cookie_def demo_cookie_visit_def demo_host demo_pass_facts
    by (intro conjI exI [of _ "[(CookieName, stored_value line)]"] exI [of _ demo_rec])
       (use line demo_serves demo_pass_facts(5) in \<open>simp_all add: get_request_def Header_Values_def\<close>)
  then show ?thesis using fwd by blast
qed

subsection \<open>Records, names and targets\<close>


definition demo_rec2 :: previewAccess where
  "demo_rec2 = demo_rec\<lparr>pa_name := ''two'', pa_uid := ''u10'',
     pa_spec := (pa_spec demo_rec)\<lparr>ps_port := 4000, ps_embeddableBy := [''b'']\<rparr>\<rparr>"

lemma demo_mirrors: "mirrors {demo_rec} {demo_ns} (list_reader [demo_rec] [demo_ns])"
  by (auto simp: mirrors_def has_labels_def IsNotFound_def split: option.splits)

lemma demo_world: "world {demo_rec} {demo_ns}"
  by (simp add: world_def valid_record_def no_slash_def)

lemma demo_admission:
  "fst (run_state (Handle demo_lib (demo_env 0) OpCreate ''ta'' (Some demo_rec2)) (0, demo_gw)) = Admitted"
  by (simp add: Handle_def demo_rec2_def listPA_def TargetKey_def checkEmbedding_def getNS_def Let_def Reachable_def
      AppNamespace_def listNS_def own_record_def getPA_def EmbedKey_def other_record_def IsNotFound_def)
     (code_simp)


text \<open>
  A pass of the controller over a record leaves it Ready exactly when no record of the same
  target is older, or as old with a lesser name; a record it leaves Ready has the host derived from
  its UID. While it is not the one, the pass opens nothing: it only removes the record's network
  policy. What it opens is the record's port on the pods of its job, to the gateway's own pods.
\<close>

theorem reconcile_ranks_target:
  assumes w: "world P NS" and mir: "\<forall>n. mirrors P NS (mo_cache (E n))" and conds: "conditions_kept L"
    and rec: "rd_getPA (mo_cache (E n)) ns name = Inr rec" and live: "\<not> pa_deleting rec"
    and ok: "fst (run_state (pa_Reconcile L E R ns name) (n, [])) = None"
  shows "\<exists>st new.
      (snd (snd (run_state (pa_Reconcile L E R ns name) (n, []))) = new \<and> st = pa_status rec \<or>
       snd (snd (run_state (pa_Reconcile L E R ns name) (n, []))) = new @ [(UpdatePAStatus (rec\<lparr>pa_status := st\<rparr>), None)]) \<and>
      (gl_isTrue L (st_conditions st) ''Ready'' \<longleftrightarrow> (\<forall>r \<in> P. same_target r rec \<longrightarrow> rank rec \<le> rank r)) \<and>
      (gl_isTrue L (st_conditions st) ''Ready'' \<longrightarrow> st_host st = HostFor L (pa_uid rec) (rc_domain R)) \<and>
      (\<forall>w r. (w, r) \<in> set new \<longrightarrow> w = DeleteCNP (pa_ns rec) (pa_name rec @ ''-preview'') \<or>
         gl_isTrue L (st_conditions st) ''Ready'' \<and> (\<exists>p. opens_only R rec p \<and> (w = CreateCNP p \<or> w = UpdateCNP p)))"
proof -
  obtain n1 ws1 where run: "run_state (pa_Reconcile L E R ns name) (n, []) = (None, (n1, ws1))"
    using ok by (metis prod.collapse)
  from run rec live obtain winner s2 new where own: "run_state (targetOwner E rec) (Suc n, []) = (Inr winner, s2)"
    and only: "\<forall>w r. (w, r) \<in> set new \<longrightarrow> w = DeleteCNP (pa_ns rec) (pa_name rec @ ''-preview'') \<or>
           winner = pa_name rec \<and> (\<exists>p. opens_only R rec p \<and> (w = CreateCNP p \<or> w = UpdateCNP p))"
    and ws: "ws1 = [] @ new \<and> pa_status rec = wanted_status L R rec winner \<or>
         ws1 = [] @ new @ [(UpdatePAStatus (rec\<lparr>pa_status := wanted_status L R rec winner\<rparr>), None)]"
    by (rule pa_Reconcile_steps)
  have "rec \<in> P" using mirrors_getPA(1) [OF spec [OF mir] rec] by blast
  note wins = targetOwner_wins [OF w mir this own] and ready = wanted_ready [OF conds, of R rec winner]
  have "winner = pa_name rec \<Longrightarrow> st_host (wanted_status L R rec winner) = HostFor L (pa_uid rec) (rc_domain R)"
    by (simp add: wanted_status_def)
  with only ws wins ready run show ?thesis
    by (intro exI [of _ "wanted_status L R rec winner"] exI [of _ new]) auto
qed

definition demo_controller :: pa_reconciler where
  "demo_controller = \<lparr> rc_domain = ''d'', rc_namespace = ''pv'', rc_podLabels = [(''app'', ''preview-access'')], rc_renderPolicies = True \<rparr>"

lemma demo_conditions_kept: "conditions_kept demo_lib"
  by (simp add: conditions_kept_def demo_lib_def list_find_set)

theorem reconcile_ranks_target_witness:
  "\<exists>st :: pa_status. gl_isTrue demo_lib (st_conditions st) ''Ready'' \<and> st_host st = HostFor demo_lib ''u9'' ''d''"
proof -
  have "\<forall>n. mirrors {demo_rec} {demo_ns} (mo_cache (demo_env 0 n))" by (simp add: demo_mirrors)
  moreover have "rd_getPA (mo_cache (demo_env 0 0)) ''ta'' ''app'' = Inr demo_rec" by simp
  moreover have "fst (run_state (pa_Reconcile demo_lib (demo_env 0) demo_controller ''ta'' ''app'') (0, [])) = None"
    by (simp add: pa_Reconcile_def getPA_def targetOwner_def listPA_def ranked_def demo_controller_def reconcileIngress_def
        Let_def IsNotFound_def demo_lib_def [THEN arg_cong [of _ _ gl_schemeErr]])
  ultimately have "\<exists>st :: pa_status. (gl_isTrue demo_lib (st_conditions st) ''Ready'' \<longleftrightarrow> (\<forall>r \<in> {demo_rec}. same_target r demo_rec \<longrightarrow> rank demo_rec \<le> rank r)) \<and>
      (gl_isTrue demo_lib (st_conditions st) ''Ready'' \<longrightarrow> st_host st = HostFor demo_lib (pa_uid demo_rec) (rc_domain demo_controller))"
    using reconcile_ranks_target [OF demo_world _ demo_conditions_kept, of "demo_env 0" 0 "''ta''" "''app''" demo_rec demo_controller]
    by simp blast
  then show ?thesis by (simp add: demo_controller_def) blast
qed

end
