(* ===== verification/VM_Types.thy ===== *)
theory VM_Types
  imports Go_Numbers
begin

text \<open>
  The VM provisioner's data (\<^verbatim>\<open>src/operators/ephemeral-vm-provisioner\<close>): job payloads, the rows of the
  table \<^verbatim>\<open>ephemeral_jobs\<close>, servers and volumes, and programs: what a goroutine of the provisioner does
  is a tree of statements sent to Postgres, requests sent to the Hetzner API and readings of the
  clock, each followed by what it does with the reply. Between any two of them other processes run.
\<close>

subsection \<open>Payloads\<close>

text \<open>A member of \<^verbatim>\<open>input\<close> is kept as its JSON text. \<^verbatim>\<open>resources\<close>, which nothing reads, is left out.\<close>

record vm_storage =
  vs_modelVolume :: "string option"
  vs_modelMountPath :: "string option"

record jobPayload =
  pl_image :: "string option"
  pl_command :: "string list"
  pl_args :: "string list"
  pl_env :: "(string \<times> string) list"
  pl_modelsVolume :: "bool option"
  pl_modelsVolumeKebab :: "bool option"
  pl_storage :: "vm_storage option"
  pl_input :: "(string \<times> string) list"
  pl_output :: "string option"
  pl_callbackURL :: "string option"
  pl_timeoutSeconds :: "int option"
  pl_serverType :: "string option"

record volumeMount =
  vm_host :: string
  vm_container :: string
  vm_readonly :: bool

text \<open>\<^verbatim>\<open>WorkerJobSpec\<close>; \<^verbatim>\<open>LogTailLines\<close> is never set.\<close>

record workerJobSpec =
  wj_jobId :: string
  wj_image :: string
  wj_command :: "string list"
  wj_args :: "string list"
  wj_env :: "(string \<times> string) list"
  wj_volumes :: "volumeMount list"
  wj_input :: "(string \<times> string) list"
  wj_outputPrefix :: string
  wj_callbackURL :: string
  wj_s3EndpointURL :: string
  wj_s3BucketName :: string
  wj_timeoutSeconds :: int

subsection \<open>Rows and jobs\<close>

text \<open>The constants of \<^verbatim>\<open>JobStatus\<close>; a string that is none of them is the last case.\<close>

datatype jobStatus =
    StatusPending | StatusProvisioning | StatusRunning | StatusCompleted | StatusFailed | StatusOther string

definition terminal_status :: "jobStatus \<Rightarrow> bool" where
  "terminal_status s \<longleftrightarrow> s = StatusCompleted \<or> s = StatusFailed"

text \<open>A row; the payload is its JSON text. Times are nanoseconds since the epoch.\<close>

record row =
  r_id :: string
  r_tenant :: string
  r_execution :: string
  r_node :: string
  r_hookToken :: string
  r_status :: jobStatus
  r_payload :: string
  r_workerID :: "string option"
  r_workerIP :: "string option"
  r_volumeID :: "string option"
  r_startedAt :: "int option"
  r_completedAt :: "int option"
  r_claimedBy :: "string option"
  r_leaseUntil :: "int option"
  r_attempts :: int
  r_error :: "string option"
  r_createdAt :: int
  r_updatedAt :: int

record vjob =
  vj_ID :: string
  vj_TenantID :: string
  vj_Execution :: string
  vj_NodeID :: string
  vj_HookToken :: string
  vj_Status :: jobStatus
  vj_Payload :: jobPayload
  vj_WorkerID :: "string option"
  vj_WorkerIP :: "string option"
  vj_VolumeID :: "string option"
  vj_StartedAt :: "int option"
  vj_Completed :: "int option"
  vj_ClaimedBy :: "string option"
  vj_LeaseUntil :: "int option"
  vj_Attempts :: int

text \<open>The patch of \<^verbatim>\<open>UpdateDetails\<close>.\<close>

record patch =
  pt_status :: "jobStatus option"
  pt_workerID :: "string option"
  pt_workerIP :: "string option"
  pt_volumeID :: "string option"
  pt_error :: "string option"

definition no_patch :: patch where
  "no_patch = \<lparr> pt_status = None, pt_workerID = None, pt_workerIP = None, pt_volumeID = None, pt_error = None \<rparr>"

subsection \<open>Servers and volumes\<close>

record vserver =
  sv_ID :: string
  sv_Name :: string
  sv_IP :: string
  sv_Status :: string

record vvolume =
  vv_ID :: string
  vv_Name :: string
  vv_Size :: int
  vv_LinuxDevice :: string
  vv_Location :: string
  vv_Status :: string
  vv_ServerID :: string

text \<open>A request to the Hetzner API: its JSON body is kept as the value that is marshalled.\<close>

record server_request =
  sq_name :: string
  sq_serverType :: string
  sq_image :: string
  sq_location :: string
  sq_userData :: string
  sq_sshKeys :: "string list"
  sq_labels :: "(string \<times> string) list"

datatype api_body = NoBody | NewServer server_request | AttachTo int | EmptyObject

record api_request =
  aq_method :: string
  aq_path :: string
  aq_body :: api_body

subsection \<open>Statements and programs\<close>

datatype stmt =
    QGet string
  | QClaim string string int
  | QReclaim string string "jobStatus list" int
  | QRenew string string int
  | QUpdate string patch
  | QMark string jobStatus string
  | QClear string
  | QWorkerIDs
  | QList "jobStatus list" bool

text \<open>
  A statement is answered by an error or by the rows it returns; a request by a transport error or by a
  status and a body.
\<close>

type_synonym sql_reply = "(string, row list) result"
type_synonym api_reply = "(string, int \<times> string) result"

datatype 'a prog =
    Ret 'a
  | Sql stmt "sql_reply \<Rightarrow> 'a prog"
  | Api api_request "api_reply \<Rightarrow> 'a prog"
  | Clock "int \<Rightarrow> 'a prog"

primrec pbind :: "'a prog \<Rightarrow> ('a \<Rightarrow> 'b prog) \<Rightarrow> 'b prog" where
  "pbind (Ret x) f = f x"
| "pbind (Sql q k) f = Sql q (\<lambda>r. pbind (k r) f)"
| "pbind (Api q k) f = Api q (\<lambda>r. pbind (k r) f)"
| "pbind (Clock k) f = Clock (\<lambda>t. pbind (k t) f)"

text \<open>One after the other, whatever each returns (a loop that only logs an error).\<close>

primrec each :: "('a \<Rightarrow> 'e prog) \<Rightarrow> 'a list \<Rightarrow> unit prog" where
  "each f [] = Ret ()"
| "each f (x # xs) = pbind (f x) (\<lambda>_. each f xs)"

lemma pbind_Ret [simp]: "pbind p Ret = p"
  by (induction p) auto

lemma pbind_assoc: "pbind (pbind p f) g = pbind p (\<lambda>x. pbind (f x) g)"
  by (induction p) auto

subsection \<open>What lies outside\<close>

text \<open>
  The environment of a process and the parsers and printers of \<^verbatim>\<open>encoding/json\<close> it calls. A server in
  an answer is its number, name, status and address; a page of servers comes with its number and
  that of the last; a volume comes with the server it is attached to.
\<close>

record vm_config =
  vc_hostname :: string
  vc_getenv :: "string \<Rightarrow> string"
  vc_payload :: "string \<Rightarrow> jobPayload option"
  vc_specJSON :: "workerJobSpec \<Rightarrow> string option"
  vc_server :: "string \<Rightarrow> (int \<times> string \<times> string \<times> string) option"
  vc_servers :: "string \<Rightarrow> ((int \<times> string \<times> string \<times> string) list \<times> int \<times> int) option"
  vc_volume :: "string \<Rightarrow> (int \<times> string \<times> int \<times> string \<times> string \<times> string \<times> int option) option"
  vc_quote :: "string \<Rightarrow> string"
  vc_wait :: nat
  vc_pages :: nat

text \<open>
  \<open>vc_wait\<close> bounds the polls of a volume and \<open>vc_pages\<close> the pages of a listing: both loops of the code go on
  as long as the service and the clock let them. What they do within the bounds, and that large enough
  bounds are never reached, is shown in \<open>VM_Cloud\<close>.
\<close>

end
