(* ===== verification/VM_Store.thy ===== *)
theory VM_Store
  imports VM_Types
begin

text \<open>
  \<^verbatim>\<open>internal/store/store.go\<close>: the statements on the table of jobs, and the functions that send them and
  scan what they return.
\<close>

subsection \<open>The statements\<close>

text \<open>
  What Postgres does with a statement at time \<open>t\<close> (\<^verbatim>\<open>NOW()\<close>): the new table and the rows returned. The
  order of equal \<^verbatim>\<open>created_at\<close> is that of the table.
\<close>

type_synonym table = "row list"

definition lease_end :: "int \<Rightarrow> int \<Rightarrow> int" where
  "lease_end t secs = t + secs * 10 ^ 9"

text \<open>\<^verbatim>\<open>UPDATE ... SET ... WHERE ... RETURNING\<close>.\<close>

definition update_where :: "(row \<Rightarrow> bool) \<Rightarrow> (row \<Rightarrow> row) \<Rightarrow> table \<Rightarrow> table \<times> row list" where
  "update_where P f tb = (map (\<lambda>r. if P r then f r else r) tb, map f (filter P tb))"

definition lease_free :: "int \<Rightarrow> row \<Rightarrow> bool" where
  "lease_free t r \<longleftrightarrow> (case r_leaseUntil r of None \<Rightarrow> True | Some u \<Rightarrow> u < t)"

definition lease_expired :: "int \<Rightarrow> row \<Rightarrow> bool" where
  "lease_expired t r \<longleftrightarrow> (case r_leaseUntil r of None \<Rightarrow> False | Some u \<Rightarrow> u < t)"

definition claim_row :: "int \<Rightarrow> string \<Rightarrow> int \<Rightarrow> row \<Rightarrow> row" where
  "claim_row t by_host secs r =
     r\<lparr>r_status := StatusProvisioning, r_claimedBy := Some by_host, r_startedAt := Some t,
       r_leaseUntil := Some (lease_end t secs), r_attempts := r_attempts r + 1, r_updatedAt := t\<rparr>"

definition reclaim_row :: "int \<Rightarrow> string \<Rightarrow> int \<Rightarrow> row \<Rightarrow> row" where
  "reclaim_row t by_host secs r =
     r\<lparr>r_claimedBy := Some by_host, r_leaseUntil := Some (lease_end t secs),
       r_attempts := r_attempts r + 1, r_updatedAt := t\<rparr>"

definition renew_row :: "int \<Rightarrow> int \<Rightarrow> row \<Rightarrow> row" where
  "renew_row t secs r = r\<lparr>r_leaseUntil := Some (lease_end t secs), r_updatedAt := t\<rparr>"

definition or_else :: "'a option \<Rightarrow> 'a \<Rightarrow> 'a" where
  "or_else a b = (case a of Some x \<Rightarrow> x | None \<Rightarrow> b)"

definition set_some :: "'a option \<Rightarrow> 'a option \<Rightarrow> 'a option" where
  "set_some a b = (case a of Some x \<Rightarrow> Some x | None \<Rightarrow> b)"

definition patch_row :: "int \<Rightarrow> patch \<Rightarrow> row \<Rightarrow> row" where
  "patch_row t p r =
     r\<lparr>r_status := or_else (pt_status p) (r_status r), r_workerID := set_some (pt_workerID p) (r_workerID r),
       r_workerIP := set_some (pt_workerIP p) (r_workerIP r), r_volumeID := set_some (pt_volumeID p) (r_volumeID r),
       r_error := set_some (pt_error p) (r_error r), r_updatedAt := t\<rparr>"

definition mark_row :: "int \<Rightarrow> jobStatus \<Rightarrow> string \<Rightarrow> row \<Rightarrow> row" where
  "mark_row t s msg r =
     r\<lparr>r_status := s, r_error := (if msg = [] then None else Some msg), r_completedAt := Some t,
       r_leaseUntil := None, r_updatedAt := t\<rparr>"

definition clear_row :: "int \<Rightarrow> row \<Rightarrow> row" where
  "clear_row t r = r\<lparr>r_workerID := None, r_updatedAt := t\<rparr>"

fun sql_exec :: "int \<Rightarrow> stmt \<Rightarrow> table \<Rightarrow> table \<times> row list" where
  "sql_exec t (QGet i) tb = (tb, filter (\<lambda>r. r_id r = i) tb)"
| "sql_exec t (QClaim i by_host secs) tb =
     update_where (\<lambda>r. r_id r = i \<and> r_status r = StatusPending \<and> lease_free t r) (claim_row t by_host secs) tb"
| "sql_exec t (QReclaim i by_host ss secs) tb =
     update_where (\<lambda>r. r_id r = i \<and> r_status r \<in> set ss \<and> lease_expired t r) (reclaim_row t by_host secs) tb"
| "sql_exec t (QRenew i by_host secs) tb =
     update_where (\<lambda>r. r_id r = i \<and> r_claimedBy r = Some by_host) (renew_row t secs) tb"
| "sql_exec t (QUpdate i p) tb = update_where (\<lambda>r. r_id r = i) (patch_row t p) tb"
| "sql_exec t (QMark i s msg) tb = update_where (\<lambda>r. r_id r = i) (mark_row t s msg) tb"
| "sql_exec t (QClear i) tb = (fst (update_where (\<lambda>r. r_id r = i) (clear_row t) tb), [])"
| "sql_exec t QWorkerIDs tb = (tb, filter (\<lambda>r. r_workerID r \<noteq> None \<and> r_workerID r \<noteq> Some []) tb)"
| "sql_exec t (QList ss expired) tb =
     (tb, sort_key r_createdAt (filter (\<lambda>r. r_status r \<in> set ss \<and> (expired \<longrightarrow> lease_expired t r)) tb))"

subsection \<open>The functions of the store\<close>

definition scanJob :: "vm_config \<Rightarrow> row \<Rightarrow> (string, vjob) result" where
  "scanJob C r =
     (case vc_payload C (r_payload r) of
        None \<Rightarrow> Inl (''failed to parse job payload for '' @ r_id r)
      | Some p \<Rightarrow> Inr
          \<lparr> vj_ID = r_id r, vj_TenantID = r_tenant r, vj_Execution = r_execution r, vj_NodeID = r_node r,
            vj_HookToken = r_hookToken r, vj_Status = r_status r, vj_Payload = p, vj_WorkerID = r_workerID r,
            vj_WorkerIP = r_workerIP r, vj_VolumeID = r_volumeID r, vj_StartedAt = r_startedAt r,
            vj_Completed = r_completedAt r, vj_ClaimedBy = r_claimedBy r, vj_LeaseUntil = r_leaseUntil r,
            vj_Attempts = r_attempts r \<rparr>)"

text \<open>\<^verbatim>\<open>QueryRow\<close> followed by \<^verbatim>\<open>scanJob\<close>, with no row as no job.\<close>

definition one_job :: "vm_config \<Rightarrow> sql_reply \<Rightarrow> (string, vjob option) result" where
  "one_job C reply =
     (case reply of
        Inl e \<Rightarrow> Inl e
      | Inr [] \<Rightarrow> Inr None
      | Inr (r # _) \<Rightarrow> map_sum id Some (scanJob C r))"

definition store_Get :: "vm_config \<Rightarrow> string \<Rightarrow> ((string, vjob option) result \<Rightarrow> 'a prog) \<Rightarrow> 'a prog" where
  "store_Get C i k = Sql (QGet i) (\<lambda>reply. k (one_job C reply))"

definition ClaimPending ::
    "vm_config \<Rightarrow> string \<Rightarrow> string \<Rightarrow> int \<Rightarrow> ((string, vjob option) result \<Rightarrow> 'a prog) \<Rightarrow> 'a prog" where
  "ClaimPending C i by_host secs k = Sql (QClaim i by_host secs) (\<lambda>reply. k (one_job C reply))"

definition ReclaimExpiredLease ::
    "vm_config \<Rightarrow> string \<Rightarrow> string \<Rightarrow> jobStatus list \<Rightarrow> int \<Rightarrow> ((string, vjob option) result \<Rightarrow> 'a prog) \<Rightarrow> 'a prog" where
  "ReclaimExpiredLease C i by_host ss secs k = Sql (QReclaim i by_host ss secs) (\<lambda>reply. k (one_job C reply))"

definition RenewLease ::
    "vm_config \<Rightarrow> string \<Rightarrow> string \<Rightarrow> int \<Rightarrow> ((string, vjob option) result \<Rightarrow> 'a prog) \<Rightarrow> 'a prog" where
  "RenewLease C i by_host secs k = Sql (QRenew i by_host secs) (\<lambda>reply. k (one_job C reply))"

definition UpdateDetails ::
    "vm_config \<Rightarrow> string \<Rightarrow> patch \<Rightarrow> ((string, vjob option) result \<Rightarrow> 'a prog) \<Rightarrow> 'a prog" where
  "UpdateDetails C i p k =
     (if p = no_patch then store_Get C i k else Sql (QUpdate i p) (\<lambda>reply. k (one_job C reply)))"

definition MarkTerminal ::
    "vm_config \<Rightarrow> string \<Rightarrow> jobStatus \<Rightarrow> string \<Rightarrow> ((string, vjob option) result \<Rightarrow> 'a prog) \<Rightarrow> 'a prog" where
  "MarkTerminal C i s msg k = Sql (QMark i s msg) (\<lambda>reply. k (one_job C reply))"

definition ClearWorkerID :: "string \<Rightarrow> (string option \<Rightarrow> 'a prog) \<Rightarrow> 'a prog" where
  "ClearWorkerID i k = Sql (QClear i) (\<lambda>reply. k (case reply of Inl e \<Rightarrow> Some e | Inr _ \<Rightarrow> None))"

definition ListWorkerIDs :: "((string, string set) result \<Rightarrow> 'a prog) \<Rightarrow> 'a prog" where
  "ListWorkerIDs k = Sql QWorkerIDs (\<lambda>reply. k (map_sum id (\<lambda>rows. set (List.map_filter r_workerID rows)) reply))"

lemma worker_set [simp]: "set (List.map_filter r_workerID rows) = {w. Some w \<in> r_workerID ` set rows}"
  by (induction rows) (auto simp: List.map_filter_simps split: option.split)

text \<open>One row that does not scan fails the whole listing.\<close>

fun scan_all :: "vm_config \<Rightarrow> row list \<Rightarrow> (string, vjob list) result" where
  "scan_all C [] = Inr []"
| "scan_all C (r # rs) =
     (case scanJob C r of
        Inl e \<Rightarrow> Inl e
      | Inr j \<Rightarrow> map_sum id (\<lambda>js. j # js) (scan_all C rs))"

definition ListByStatus ::
    "vm_config \<Rightarrow> jobStatus list \<Rightarrow> bool \<Rightarrow> ((string, vjob list) result \<Rightarrow> 'a prog) \<Rightarrow> 'a prog" where
  "ListByStatus C ss expired k =
     Sql (QList ss expired) (\<lambda>reply. k (case reply of Inl e \<Rightarrow> Inl e | Inr rows \<Rightarrow> scan_all C rows))"

lemma map_sum_eq [simp]:
  "map_sum id f x = Inr y \<longleftrightarrow> (\<exists>z. x = Inr z \<and> y = f z)" "map_sum id f x = Inl e \<longleftrightarrow> x = Inl e"
  by (cases x; auto)+

end
