(* ===== verification/VM_Cloud.thy ===== *)
theory VM_Cloud
  imports VM_Types
begin

text \<open>
  \<^verbatim>\<open>internal/hetzner/client.go\<close> (requests, the paged listing, waiting for volumes) and
  \<^verbatim>\<open>internal/provision/hclouderrors.go\<close> (the reading of its errors).
\<close>

definition ManagedBy :: string where
  "ManagedBy = ''ephemeral-vm-provisioner''"

text \<open>
  \<^verbatim>\<open>doRequest\<close>: the body of an answer in the 200s, or the text of an error: that of a request that could not
  be built, sent or read, or the status and the body of any other answer.
\<close>

definition doRequest :: "string \<Rightarrow> string \<Rightarrow> api_body \<Rightarrow> ((string, string) result \<Rightarrow> 'a prog) \<Rightarrow> 'a prog" where
  "doRequest meth path body k = Api \<lparr> aq_method = meth, aq_path = path, aq_body = body \<rparr> (\<lambda>reply.
     k (case reply of
          Inl e \<Rightarrow> Inl e
        | Inr (status, text) \<Rightarrow>
            if status < 200 \<or> status \<ge> 300 then Inl (''API error '' @ Itoa status @ '': '' @ text) else Inr text))"

definition as_server :: "int \<times> string \<times> string \<times> string \<Rightarrow> vserver" where
  "as_server s = (case s of (n, name, status, ip) \<Rightarrow>
     \<lparr> sv_ID = Itoa n, sv_Name = name, sv_IP = ip, sv_Status = status \<rparr>)"

definition ssh_keys :: "vm_config \<Rightarrow> string list" where
  "ssh_keys C = (let e = vc_getenv C ''HCLOUD_SSH_KEYS'' in if e \<noteq> [] then split_on (CHR '','') e else [''mac-mini-ssh''])"

definition new_server :: "vm_config \<Rightarrow> string \<Rightarrow> string \<Rightarrow> string \<Rightarrow> server_request" where
  "new_server C name cloudInit serverType =
     \<lparr> sq_name = name, sq_serverType = (if serverType = [] then ''cpx22'' else serverType),
       sq_image = ''ubuntu-24.04'', sq_location = ''hel1'', sq_userData = cloudInit, sq_sshKeys = ssh_keys C,
       sq_labels = [(''compute.nutgraf.in/job-type'', ''ephemeral''), (''compute.nutgraf.in/managed-by'', ManagedBy)] \<rparr>"

definition CreateServer ::
    "vm_config \<Rightarrow> string \<Rightarrow> string \<Rightarrow> string \<Rightarrow> ((string, vserver) result \<Rightarrow> 'a prog) \<Rightarrow> 'a prog" where
  "CreateServer C name cloudInit serverType k =
     doRequest ''POST'' ''/servers'' (NewServer (new_server C name cloudInit serverType)) (\<lambda>r.
       k (case r of
            Inl e \<Rightarrow> Inl (''failed to create server: '' @ e)
          | Inr text \<Rightarrow> (case vc_server C text of
              None \<Rightarrow> Inl ''failed to parse response''
            | Some s \<Rightarrow> Inr ((as_server s)\<lparr>sv_Status := ''creating''\<rparr>))))"

definition GetServer :: "vm_config \<Rightarrow> string \<Rightarrow> ((string, vserver) result \<Rightarrow> 'a prog) \<Rightarrow> 'a prog" where
  "GetServer C i k =
     doRequest ''GET'' (''/servers/'' @ i) NoBody (\<lambda>r.
       k (case r of
            Inl e \<Rightarrow> Inl (''failed to get server: '' @ e)
          | Inr text \<Rightarrow> (case vc_server C text of
              None \<Rightarrow> Inl ''failed to parse response'' | Some s \<Rightarrow> Inr (as_server s))))"

definition page_path :: "int \<Rightarrow> string" where
  "page_path page =
     ''/servers?label_selector=compute.nutgraf.in/managed-by='' @ ManagedBy @ ''&page='' @ Itoa page @ ''&per_page=50''"

text \<open>
  The loop over the pages, from page \<open>page\<close> with the servers found so far, for at most \<open>fuel\<close> pages; the
  continuation receives \<open>None\<close> when these are used up.
\<close>

fun list_pages ::
    "vm_config \<Rightarrow> nat \<Rightarrow> int \<Rightarrow> vserver list \<Rightarrow> ((string, vserver list) result option \<Rightarrow> 'a prog) \<Rightarrow> 'a prog" where
  "list_pages C 0 page acc k = k None"
| "list_pages C (Suc fuel) page acc k =
     doRequest ''GET'' (page_path page) NoBody (\<lambda>r.
       case r of
         Inl e \<Rightarrow> k (Some (Inl (''failed to list servers: '' @ e)))
       | Inr text \<Rightarrow> (case vc_servers C text of
           None \<Rightarrow> k (Some (Inl ''failed to parse servers response''))
         | Some (ss, at_page, last_page) \<Rightarrow>
             (let acc = acc @ map as_server ss in
              if at_page \<ge> last_page \<or> last_page = 0 then k (Some (Inr acc))
              else list_pages C fuel (page + 1) acc k)))"

definition ListServers :: "vm_config \<Rightarrow> ((string, vserver list) result option \<Rightarrow> 'a prog) \<Rightarrow> 'a prog" where
  "ListServers C k = list_pages C (vc_pages C) 1 [] k"

definition DeleteServer :: "string \<Rightarrow> (string option \<Rightarrow> 'a prog) \<Rightarrow> 'a prog" where
  "DeleteServer i k =
     doRequest ''DELETE'' (''/servers/'' @ i) NoBody (\<lambda>r.
       k (case r of Inl e \<Rightarrow> Some (''failed to delete server: '' @ e) | Inr _ \<Rightarrow> None))"

definition GetVolume :: "vm_config \<Rightarrow> string \<Rightarrow> ((string, vvolume) result \<Rightarrow> 'a prog) \<Rightarrow> 'a prog" where
  "GetVolume C i k =
     doRequest ''GET'' (''/volumes/'' @ i) NoBody (\<lambda>r.
       k (case r of
            Inl e \<Rightarrow> Inl (''failed to get volume: '' @ e)
          | Inr text \<Rightarrow> (case vc_volume C text of
              None \<Rightarrow> Inl ''failed to parse response''
            | Some (n, name, gb, dev, loc, status, srv) \<Rightarrow> Inr
                \<lparr> vv_ID = Itoa n, vv_Name = name, vv_Size = gb, vv_LinuxDevice = dev, vv_Location = loc,
                  vv_Status = status, vv_ServerID = (case srv of Some s \<Rightarrow> Itoa s | None \<Rightarrow> []) \<rparr>)))"

text \<open>
  The polling loop of \<^verbatim>\<open>WaitForVolumeAttached\<close> and \<^verbatim>\<open>WaitForVolumeDetached\<close>: until the volume's server is
  \<open>want\<close> (empty for a detached volume), a read fails or the deadline has passed.
\<close>

fun wait_volume ::
    "vm_config \<Rightarrow> nat \<Rightarrow> string \<Rightarrow> string \<Rightarrow> int \<Rightarrow> string \<Rightarrow> ((string, vvolume) result option \<Rightarrow> 'a prog) \<Rightarrow> 'a prog" where
  "wait_volume C 0 i want deadline timeout_text k = k None"
| "wait_volume C (Suc fuel) i want deadline timeout_text k = Clock (\<lambda>at_now.
     if at_now < deadline
     then GetVolume C i (\<lambda>r. case r of
         Inl e \<Rightarrow> k (Some (Inl e))
       | Inr v \<Rightarrow> if vv_ServerID v = want then k (Some (Inr v)) else wait_volume C fuel i want deadline timeout_text k)
     else k (Some (Inl timeout_text)))"

definition WaitForVolumeAttached ::
    "vm_config \<Rightarrow> string \<Rightarrow> string \<Rightarrow> int \<Rightarrow> ((string, vvolume) result option \<Rightarrow> 'a prog) \<Rightarrow> 'a prog" where
  "WaitForVolumeAttached C i serverID timeout k = Clock (\<lambda>at_now.
     wait_volume C (vc_wait C) i serverID (at_now + timeout)
       (''timed out waiting for volume '' @ i @ '' to attach to server '' @ serverID) k)"

definition WaitForVolumeDetached ::
    "vm_config \<Rightarrow> string \<Rightarrow> int \<Rightarrow> ((string, vvolume) result option \<Rightarrow> 'a prog) \<Rightarrow> 'a prog" where
  "WaitForVolumeDetached C i timeout k = Clock (\<lambda>at_now.
     wait_volume C (vc_wait C) i [] (at_now + timeout) (''timed out waiting for volume '' @ i @ '' to detach'') k)"

text \<open>The callers treat used-up fuel like the loop's own timeout: the bound is never reached first.\<close>

definition wait_error :: "string \<Rightarrow> (string, vvolume) result option \<Rightarrow> string option" where
  "wait_error prefix r = (case r of Some (Inr _) \<Rightarrow> None | Some (Inl e) \<Rightarrow> Some (prefix @ e) | None \<Rightarrow> Some prefix)"

definition AttachVolume :: "vm_config \<Rightarrow> string \<Rightarrow> string \<Rightarrow> (string option \<Rightarrow> 'a prog) \<Rightarrow> 'a prog" where
  "AttachVolume C volumeID serverID k =
     (case Atoi serverID of
        None \<Rightarrow> k (Some (''invalid server ID '' @ vc_quote C serverID))
      | Some n \<Rightarrow> doRequest ''POST'' (''/volumes/'' @ volumeID @ ''/actions/attach'') (AttachTo n) (\<lambda>r.
          case r of
            Inl e \<Rightarrow> k (Some (''failed to attach volume '' @ volumeID @ '' to server '' @ serverID @ '': '' @ e))
          | Inr _ \<Rightarrow> WaitForVolumeAttached C volumeID serverID (30 * 10 ^ 9) (\<lambda>w.
              k (wait_error (''failed waiting for volume '' @ volumeID @ '' to attach to server '' @ serverID @ '': '') w))))"

definition DetachVolume :: "vm_config \<Rightarrow> string \<Rightarrow> (string option \<Rightarrow> 'a prog) \<Rightarrow> 'a prog" where
  "DetachVolume C volumeID k =
     doRequest ''POST'' (''/volumes/'' @ volumeID @ ''/actions/detach'') EmptyObject (\<lambda>r.
       case r of
         Inl e \<Rightarrow> k (Some (''failed to detach volume '' @ volumeID @ '': '' @ e))
       | Inr _ \<Rightarrow> WaitForVolumeDetached C volumeID (30 * 10 ^ 9) (\<lambda>w.
           k (wait_error (''failed waiting for volume '' @ volumeID @ '' to detach: '') w)))"

subsection \<open>Reading errors\<close>

definition unrecoverableHcloudError :: "string \<Rightarrow> bool" where
  "unrecoverableHcloudError msg \<longleftrightarrow>
     list_ex (\<lambda>code. Contains msg code)
       [''API error 400'', ''API error 401'', ''API error 403'', ''API error 409'', ''API error 422'']"

definition isGone :: "string \<Rightarrow> bool" where
  "isGone msg \<longleftrightarrow> Contains msg ''API error 404'' \<or> Contains msg ''volume not attached to a server''"

end
