(* ===== verification/VM_CloudInit.thy ===== *)
theory VM_CloudInit
  imports VM_Types
begin

text \<open>
  \<^verbatim>\<open>internal/hetzner/cloudinit.go\<close>: when a job needs the model volume, which worker images are accepted,
  what is written for the worker to read, and the user data that boots its machine.
\<close>

subsection \<open>Images\<close>

text \<open>
  \<^verbatim>\<open>validImageRegex\<close>: two or more components separated by slashes, each of one or more name characters,
  the last followed by nothing, by a digest of 64 hexadecimal digits or by a tag.
\<close>

definition name_char :: "char \<Rightarrow> bool" where
  "name_char c \<longleftrightarrow>
     (let n = of_char c :: nat in
      65 \<le> n \<and> n \<le> 90 \<or> 97 \<le> n \<and> n \<le> 122 \<or> 48 \<le> n \<and> n \<le> 57 \<or> c = CHR ''_'' \<or> c = CHR ''.'' \<or> c = CHR ''-'')"

definition hex_char :: "char \<Rightarrow> bool" where
  "hex_char c \<longleftrightarrow>
     (let n = of_char c :: nat in 97 \<le> n \<and> n \<le> 102 \<or> 65 \<le> n \<and> n \<le> 70 \<or> 48 \<le> n \<and> n \<le> 57)"

definition name_part :: "string \<Rightarrow> bool" where
  "name_part s \<longleftrightarrow> s \<noteq> [] \<and> list_all name_char s"

definition last_part :: "string \<Rightarrow> bool" where
  "last_part s \<longleftrightarrow>
     (let name = takeWhile name_char s; rest = dropWhile name_char s in
      name \<noteq> [] \<and>
      (rest = [] \<or>
       HasPrefix rest ''@sha256:'' \<and> length (TrimPrefix rest ''@sha256:'') = 64 \<and> list_all hex_char (TrimPrefix rest ''@sha256:'') \<or>
       HasPrefix rest '':'' \<and> name_part (TrimPrefix rest '':'')))"

definition valid_image :: "string \<Rightarrow> bool" where
  "valid_image s \<longleftrightarrow>
     (let parts = split_on (CHR ''/'') s in
      length parts \<ge> 2 \<and> list_all name_part (butlast parts) \<and> last_part (last parts))"

subsection \<open>The model volume\<close>

definition image_needs_volume :: "string option \<Rightarrow> bool" where
  "image_needs_volume img =
     (case img of None \<Rightarrow> False | Some i \<Rightarrow> Contains i ''tts-worker'' \<or> Contains i ''whisper-worker'')"

definition RequiresModelVolume :: "jobPayload \<Rightarrow> bool" where
  "RequiresModelVolume p =
     (if pl_modelsVolume p = Some False then False
      else if pl_modelsVolumeKebab p = Some False then False
      else (case Option.bind (pl_storage p) vs_modelVolume of
          Some v \<Rightarrow>
            (let mv = ToLower (TrimSpace v) in
             if mv \<in> {''false'', ''none'', ''disabled'', ''0''} then False
             else if mv \<noteq> [] then True
             else image_needs_volume (pl_image p))
        | None \<Rightarrow> image_needs_volume (pl_image p)))"

text \<open>The volume a job uses: the one it names, else the shared one; none when it needs none.\<close>

definition job_volume :: "vm_config \<Rightarrow> jobPayload \<Rightarrow> string" where
  "job_volume C p =
     (if RequiresModelVolume p
      then (case Option.bind (pl_storage p) vs_modelVolume of
          Some v \<Rightarrow> if v \<noteq> [] then v else vc_getenv C ''VOLUME_ID''
        | None \<Rightarrow> vc_getenv C ''VOLUME_ID'')
      else [])"

text \<open>\<^verbatim>\<open>cleanEnv\<close>: the first line that is not blank, trimmed.\<close>

definition cleanEnv :: "string \<Rightarrow> string" where
  "cleanEnv v = (case filter (\<lambda>l. l \<noteq> []) (map TrimSpace (split_on (CHR 0x0A) v)) of [] \<Rightarrow> [] | l # _ \<Rightarrow> l)"

subsection \<open>The user data\<close>

record cloudInitData =
  cd_jobID :: string
  cd_requestJSON :: string
  cd_workerImage :: string
  cd_command :: string
  cd_volumeDevice :: string
  cd_mountPath :: string
  cd_callbackURL :: string
  cd_s3EndpointURL :: string
  cd_s3BucketName :: string
  cd_s3AccessKeyID :: string
  cd_s3SecretKey :: string
  cd_tailscaleAuthKey :: string
  cd_ghcrUsername :: string
  cd_ghcrToken :: string

text \<open>The template, part by part: a line, a part that is there when a value is not empty, two characters.\<close>

definition ln :: "string \<Rightarrow> string" where
  "ln s = s @ [CHR 0x0A]"

definition given :: "string \<Rightarrow> string \<Rightarrow> string" where
  "given v s = (if v \<noteq> [] then s else [])"

definition sq :: string where
  "sq = [CHR 0x27]"

definition bs :: string where
  "bs = [CHR 0x5C]"

definition files_part :: "cloudInitData \<Rightarrow> string" where
  \<open>files_part D =
     ln ''#cloud-config'' @
     ln ''package_update: true'' @
     ln ''packages:'' @
     ln ''  - docker.io'' @
     ln ''  - curl'' @
     ln [] @
     ln ''write_files:'' @
     ln ''  - path: /tmp/job/request.json'' @
     ln (''    permissions: '' @ sq @ ''0666'' @ sq) @
     ln ''    content: |'' @
     ln (cd_requestJSON D) @
     ln ''  - path: /tmp/job/run-job.sh'' @
     ln (''    permissions: '' @ sq @ ''0755'' @ sq) @
     ln ''    content: |'' @
     ln ''      #!/bin/bash'' @
     ln ''      set -o pipefail'' @
     ln [] @
     ln ''      chmod -R 777 /tmp/job'' @
     ln [] @
     ln ''      DOCKER_ARGS=()'' @
     ln ''      DOCKER_ARGS+=("-v" "/tmp/job:/tmp/job")'' @
     ln ''      DOCKER_ARGS+=("-v" "/var/run/docker.sock:/var/run/docker.sock")'' @
     ln ''      DOCKER_ARGS+=("--shm-size=2g")'' @
     given (cd_volumeDevice D) (ln (''      DOCKER_ARGS+=("-v" "'' @ cd_mountPath D @ '':'' @ cd_mountPath D @ ''")'')) @
     given (cd_s3EndpointURL D) (ln (''      DOCKER_ARGS+=("-e" "S3_ENDPOINT_URL='' @ cd_s3EndpointURL D @ ''")'')) @
     given (cd_s3BucketName D) (ln (''      DOCKER_ARGS+=("-e" "S3_BUCKET_NAME='' @ cd_s3BucketName D @ ''")'')) @
     given (cd_s3AccessKeyID D) (ln (''      DOCKER_ARGS+=("-e" "S3_ACCESS_KEY_ID='' @ cd_s3AccessKeyID D @ ''")'')) @
     given (cd_s3SecretKey D) (ln (''      DOCKER_ARGS+=("-e" "S3_SECRET_ACCESS_KEY='' @ cd_s3SecretKey D @ ''")''))\<close>

definition docker_part :: "cloudInitData \<Rightarrow> string" where
  \<open>docker_part D =
     ln [] @
     ln ''      EXIT_CODE=0'' @
     ''      docker run --rm --name job-'' @ cd_jobID D @ '' "${DOCKER_ARGS[@]}" '' @ cd_workerImage D @
     given (cd_command D) ('' '' @ cd_command D) @
     ln '' || EXIT_CODE=$?'' @
     ln [] @
     ln ''      chmod -R 777 /tmp/job'' @
     ln [] @
     ln ''      echo "[cloudinit-runner] Container finished with exit code ${EXIT_CODE}"'' @
     ln []\<close>

definition callback_part :: "cloudInitData \<Rightarrow> string" where
  \<open>callback_part D =
     ln ''      CALLBACK_URL=""'' @
     ln ''      if [ -f /tmp/job/request.json ]; then'' @
     ln (''        CALLBACK_URL=$(grep -o '' @ sq @ ''"callbackUrl": *"[^"]*"'' @ sq @ '' /tmp/job/request.json | cut -d'' @ sq @ ''"'' @ sq @ '' -f4 || true)'') @
     ln ''      fi'' @
     given (cd_callbackURL D) (ln ''      if [ -z "$CALLBACK_URL" ]; then'' @
       ln (''        CALLBACK_URL="'' @ cd_callbackURL D @ ''"'') @
       ln ''      fi'') @
     ln [] @
     ln ''      if [ -n "$CALLBACK_URL" ]; then'' @
     ln ''        PAYLOAD=""'' @
     ln ''        if [ -f /tmp/job/result.json ]; then'' @
     ln ''          RESULT_CONTENT=$(cat /tmp/job/result.json)'' @
     ln (''          TOKEN=$(echo "$CALLBACK_URL" | grep -o '' @ sq @ ''token=[^&]*'' @ sq @ '' | cut -d= -f2 || true)'') @
     ln ''          if [ -n "$TOKEN" ]; then'' @
     ln (''            PAYLOAD="{'' @ bs @ ''"token'' @ bs @ ''":'' @ bs @ ''"$TOKEN'' @ bs @ ''",'' @ bs @ ''"answer'' @ bs @ ''":$RESULT_CONTENT}"'') @
     ln ''          else'' @
     ln ''            PAYLOAD="$RESULT_CONTENT"'' @
     ln ''          fi'' @
     ln ''        else'' @
     ln (''          TOKEN=$(echo "$CALLBACK_URL" | grep -o '' @ sq @ ''token=[^&]*'' @ sq @ '' | cut -d= -f2 || true)'') @
     ln ''          if [ $EXIT_CODE -eq 0 ]; then'' @
     ln (''            STATUS_JSON="{'' @ bs @ ''"status'' @ bs @ ''":'' @ bs @ ''"COMPLETED'' @ bs @ ''",'' @ bs @ ''"exitCode'' @ bs @ ''":0}"'') @
     ln ''          else'' @
     ln (''            STATUS_JSON="{'' @ bs @ ''"status'' @ bs @ ''":'' @ bs @ ''"FAILED'' @ bs @ ''",'' @ bs @ ''"exitCode'' @ bs @ ''":$EXIT_CODE,'' @ bs @ ''"error'' @ bs @ ''":'' @ bs @ ''"Container exited with code $EXIT_CODE'' @ bs @ ''"}"'') @
     ln ''          fi'' @
     ln ''          if [ -n "$TOKEN" ]; then'' @
     ln (''            PAYLOAD="{'' @ bs @ ''"token'' @ bs @ ''":'' @ bs @ ''"$TOKEN'' @ bs @ ''",'' @ bs @ ''"answer'' @ bs @ ''":$STATUS_JSON}"'') @
     ln ''          else'' @
     ln ''            PAYLOAD="$STATUS_JSON"'' @
     ln ''          fi'' @
     ln ''        fi'' @
     ln ''        echo "[cloudinit-runner] Sending callback to $CALLBACK_URL"'' @
     ln ''        curl -s -X POST -H "Content-Type: application/json" -d "$PAYLOAD" "$CALLBACK_URL" || true'' @
     ln ''      fi'' @
     ln [] @
     ln ''      echo "[cloudinit-runner] Halting VM."'' @
     ln ''      shutdown -h now'' @
     ln []\<close>

definition runcmd_part :: "cloudInitData \<Rightarrow> string" where
  \<open>runcmd_part D =
     ln ''runcmd:'' @
     given (cd_tailscaleAuthKey D) (ln ''  - curl -fsSL https://tailscale.com/install.sh | sh'' @
       ln (''  - tailscale up --authkey='' @ cd_tailscaleAuthKey D @ '' --hostname=ephemeral-'' @ cd_jobID D @ '' --accept-routes'')) @
     ln ''  - systemctl enable docker'' @
     ln ''  - systemctl start docker'' @
     ln (''  - mkdir -p '' @ cd_mountPath D @ '' /tmp/job'') @
     given (cd_volumeDevice D) (ln (''  - for i in $(seq 1 30); do [ -b '' @ cd_volumeDevice D @ '' ] && break; sleep 1; done'') @
       ln (''  - blkid '' @ cd_volumeDevice D @ '' >/dev/null 2>&1 || mkfs.ext4 '' @ cd_volumeDevice D @ '' || true'') @
       ln (''  - mount -o discard,defaults '' @ cd_volumeDevice D @ '' '' @ cd_mountPath D @ '' || true'') @
       ln (''  - echo '' @ sq @ cd_volumeDevice D @ '' '' @ cd_mountPath D @ '' ext4 discard,nofail,defaults 0 0'' @ sq @ '' >> /etc/fstab || true'')) @
     given (cd_ghcrToken D) (ln (''  - echo "'' @ cd_ghcrToken D @ ''" | docker login ghcr.io -u "'' @ cd_ghcrUsername D @ ''" --password-stdin'')) @
     ln (''  - docker pull '' @ cd_workerImage D) @
     ln ''  - /tmp/job/run-job.sh''\<close>

definition cloudInitTemplate :: "cloudInitData \<Rightarrow> string" where
  "cloudInitTemplate D = files_part D @ docker_part D @ callback_part D @ runcmd_part D"

definition or_env :: "string option \<Rightarrow> string \<Rightarrow> string" where
  "or_env v fallback = (case v of Some s \<Rightarrow> if s \<noteq> [] then s else fallback | None \<Rightarrow> fallback)"

definition mount_path :: "jobPayload \<Rightarrow> string" where
  "mount_path p = or_env (Option.bind (pl_storage p) vs_modelMountPath) ''/models''"

definition volume_device :: "vm_config \<Rightarrow> jobPayload \<Rightarrow> string" where
  "volume_device C p = (if job_volume C p \<noteq> [] then ''/dev/disk/by-id/scsi-0HC_Volume_'' @ job_volume C p else [])"

definition callback_url :: "vm_config \<Rightarrow> jobPayload \<Rightarrow> string" where
  "callback_url C p =
     (case pl_callbackURL p of
        Some u \<Rightarrow> if u \<noteq> [] then cleanEnv u else cleanEnv (vc_getenv C ''CALLBACK_BFF_BASE_URL'')
      | None \<Rightarrow> cleanEnv (vc_getenv C ''CALLBACK_BFF_BASE_URL''))"

definition worker_image :: "vm_config \<Rightarrow> jobPayload \<Rightarrow> string" where
  "worker_image C p = or_env (pl_image p) (vc_getenv C ''EPHEMERAL_WORKER_IMAGE'')"

definition worker_spec :: "vm_config \<Rightarrow> jobPayload \<Rightarrow> string \<Rightarrow> workerJobSpec" where
  "worker_spec C p jobID =
     \<lparr> wj_jobId = jobID, wj_image = worker_image C p, wj_command = pl_command p, wj_args = pl_args p, wj_env = pl_env p,
       wj_volumes = (if volume_device C p \<noteq> [] \<and> mount_path p \<noteq> []
                     then [\<lparr> vm_host = mount_path p, vm_container = mount_path p, vm_readonly = True \<rparr>] else []),
       wj_input = pl_input p, wj_outputPrefix = (case pl_output p of Some s \<Rightarrow> s | None \<Rightarrow> []),
       wj_callbackURL = callback_url C p,
       wj_s3EndpointURL = cleanEnv (vc_getenv C ''S3_ENDPOINT_URL''), wj_s3BucketName = cleanEnv (vc_getenv C ''S3_BUCKET_NAME''),
       wj_timeoutSeconds = (case pl_timeoutSeconds p of Some t \<Rightarrow> if t > 0 then t else 1200 | None \<Rightarrow> 1200) \<rparr>"

definition command_text :: "jobPayload \<Rightarrow> string \<Rightarrow> string" where
  "command_text p img =
     (if pl_command p \<noteq> []
      then Join (pl_command p) '' '' @ (if pl_args p \<noteq> [] then '' '' @ Join (pl_args p) '' '' else [])
      else if Contains img ''remotion'' then ''node scripts/worker-entrypoint.js''
      else ''python -u /app/worker-entrypoint.py'')"

definition init_data :: "vm_config \<Rightarrow> jobPayload \<Rightarrow> string \<Rightarrow> string \<Rightarrow> cloudInitData" where
  "init_data C p jobID json =
     \<lparr> cd_jobID = jobID, cd_requestJSON = ''      '' @ json, cd_workerImage = worker_image C p,
       cd_command = command_text p (worker_image C p), cd_volumeDevice = volume_device C p, cd_mountPath = mount_path p,
       cd_callbackURL = callback_url C p,
       cd_s3EndpointURL = cleanEnv (vc_getenv C ''S3_ENDPOINT_URL''), cd_s3BucketName = cleanEnv (vc_getenv C ''S3_BUCKET_NAME''),
       cd_s3AccessKeyID = cleanEnv (vc_getenv C ''S3_ACCESS_KEY_ID''), cd_s3SecretKey = cleanEnv (vc_getenv C ''S3_SECRET_ACCESS_KEY''),
       cd_tailscaleAuthKey = cleanEnv (vc_getenv C ''TAILSCALE_AUTHKEY''),
       cd_ghcrUsername = (let u = cleanEnv (vc_getenv C ''GHCR_USERNAME'') in if u = [] then ''arun4infra'' else u),
       cd_ghcrToken = cleanEnv (vc_getenv C ''GHCR_TOKEN'') \<rparr>"

definition GenerateCloudInit :: "vm_config \<Rightarrow> jobPayload \<Rightarrow> string \<Rightarrow> (string, string) result" where
  "GenerateCloudInit C p jobID =
     (if worker_image C p = [] then Inl ''EPHEMERAL_WORKER_IMAGE environment variable is required''
      else if \<not> valid_image (worker_image C p) then Inl (''invalid or unsafe worker image: '' @ vc_quote C (worker_image C p))
      else (case vc_specJSON C (worker_spec C p jobID) of
          None \<Rightarrow> Inl ''failed to marshal worker job spec''
        | Some json \<Rightarrow>
            (let text = cloudInitTemplate (init_data C p jobID json) in
             if length text > 32768
             then Inl (''generated cloud-init size ('' @ Itoa (int (length text)) @
                       '' bytes) exceeds Hetzner 32KB user_data limit (32768 bytes)'')
             else Inr text)))"

end
