(* ===== verification/VM_Reconciler.thy ===== *)
theory VM_Reconciler
  imports VM_Store VM_Cloud VM_CloudInit
begin

text \<open>
  \<^verbatim>\<open>internal/provision/reconciler.go\<close> and \<^verbatim>\<open>server.go\<close>: the programs of the provisioner. The result of a
  step is the error it returns, if any. Log lines are left out.
\<close>

definition leaseSeconds :: int where
  "leaseSeconds = 300"

definition provisioningTimeout :: int where
  "provisioningTimeout = 15 * 60 * 10 ^ 9"

type_synonym pass_result = "string option prog"

subsection \<open>Ending a job\<close>

definition some_id :: "string option \<Rightarrow> string option" where
  "some_id w = (case w of Some i \<Rightarrow> if i \<noteq> [] then Some i else None | None \<Rightarrow> None)"

text \<open>The second half of \<^verbatim>\<open>cleanup\<close>: a volume of the job's own is detached; what fails is only logged.\<close>

definition cleanup_volume :: "vm_config \<Rightarrow> vjob \<Rightarrow> pass_result" where
  "cleanup_volume C job =
     (case some_id (vj_VolumeID job) of
        None \<Rightarrow> Ret None
      | Some v \<Rightarrow> if v = vc_getenv C ''VOLUME_ID'' then Ret None else DetachVolume C v (\<lambda>_. Ret None))"

definition cleanup :: "vm_config \<Rightarrow> string \<Rightarrow> pass_result" where
  "cleanup C jobID = store_Get C jobID (\<lambda>r.
     case r of
       Inl e \<Rightarrow> Ret (Some e)
     | Inr None \<Rightarrow> Ret None
     | Inr (Some job) \<Rightarrow>
         (case some_id (vj_WorkerID job) of
            None \<Rightarrow> cleanup_volume C job
          | Some w \<Rightarrow> DeleteServer w (\<lambda>e.
              if (case e of None \<Rightarrow> True | Some m \<Rightarrow> isGone m)
              then ClearWorkerID (vj_ID job) (\<lambda>_. cleanup_volume C job)
              else cleanup_volume C job)))"

definition fail :: "vm_config \<Rightarrow> vjob \<Rightarrow> string \<Rightarrow> pass_result" where
  "fail C job reason = MarkTerminal C (vj_ID job) StatusFailed reason (\<lambda>r.
     case r of Inl e \<Rightarrow> Ret (Some e) | Inr _ \<Rightarrow> cleanup C (vj_ID job))"

subsection \<open>Provisioning\<close>

definition attach_volume :: "vm_config \<Rightarrow> string \<Rightarrow> vserver \<Rightarrow> pass_result" where
  "attach_volume C volumeID server =
     (if volumeID \<noteq> [] then AttachVolume C volumeID (sv_ID server) (\<lambda>_. Ret None) else Ret None)"

definition worker_patch :: "vserver \<Rightarrow> string \<Rightarrow> patch" where
  "worker_patch server volumeID =
     no_patch\<lparr>pt_workerID := Some (sv_ID server), pt_workerIP := Some (sv_IP server),
       pt_volumeID := (if volumeID \<noteq> [] then Some volumeID else None)\<rparr>"

definition provision :: "vm_config \<Rightarrow> vjob \<Rightarrow> pass_result" where
  "provision C job =
     (if some_id (vj_WorkerID job) \<noteq> None then Ret None
      else (case GenerateCloudInit C (vj_Payload job) (vj_ID job) of
          Inl e \<Rightarrow> fail C job (''failed to generate cloud-init: '' @ e)
        | Inr cloudInit \<Rightarrow>
            CreateServer C (vj_ID job) cloudInit (case pl_serverType (vj_Payload job) of Some t \<Rightarrow> t | None \<Rightarrow> []) (\<lambda>r.
              case r of
                Inl e \<Rightarrow>
                  if unrecoverableHcloudError e then fail C job (''failed to create server: '' @ e) else Ret (Some e)
              | Inr server \<Rightarrow>
                  (let volumeID = job_volume C (vj_Payload job) in
                   UpdateDetails C (vj_ID job) (worker_patch server volumeID) (\<lambda>u.
                     case u of Inl e \<Rightarrow> Ret (Some e) | Inr _ \<Rightarrow> attach_volume C volumeID server)))))"

definition claimAndProvision :: "vm_config \<Rightarrow> vjob \<Rightarrow> pass_result" where
  "claimAndProvision C job = ClaimPending C (vj_ID job) (vc_hostname C) leaseSeconds (\<lambda>r.
     case r of
       Inl e \<Rightarrow> Ret (Some e)
     | Inr None \<Rightarrow> Ret None
     | Inr (Some claimed) \<Rightarrow> provision C claimed)"

text \<open>The lease is renewed when it is this process's own.\<close>

definition renewed :: "vm_config \<Rightarrow> vjob \<Rightarrow> pass_result \<Rightarrow> pass_result" where
  "renewed C job k =
     (if vj_ClaimedBy job = Some (vc_hostname C)
      then RenewLease C (vj_ID job) (vc_hostname C) leaseSeconds (\<lambda>r. case r of Inl e \<Rightarrow> Ret (Some e) | Inr _ \<Rightarrow> k)
      else k)"

text \<open>\<^verbatim>\<open>provisioningTimedOut\<close>, which reads the clock unless the job was never started.\<close>

definition provisioningTimedOut :: "vjob \<Rightarrow> (bool \<Rightarrow> 'a prog) \<Rightarrow> 'a prog" where
  "provisioningTimedOut job k =
     (case vj_StartedAt job of
        None \<Rightarrow> k False
      | Some t \<Rightarrow> Clock (\<lambda>at_now. k (time_sub at_now t > provisioningTimeout)))"

definition check_provisioning :: "vm_config \<Rightarrow> vjob \<Rightarrow> string \<Rightarrow> pass_result" where
  "check_provisioning C job w = GetServer C w (\<lambda>r.
     case r of
       Inl e \<Rightarrow> Ret (Some e)
     | Inr server \<Rightarrow>
         if sv_Status server = ''off'' \<or> sv_Status server = ''stopped''
         then fail C job ''worker VM powered off during provisioning''
         else if sv_Status server = ''running''
         then UpdateDetails C (vj_ID job) (no_patch\<lparr>pt_status := Some StatusRunning\<rparr>) (\<lambda>u.
                case u of Inl e \<Rightarrow> Ret (Some e) | Inr _ \<Rightarrow> Ret None)
         else Ret None)"

definition reconcileProvisioning :: "vm_config \<Rightarrow> vjob \<Rightarrow> pass_result" where
  "reconcileProvisioning C job = renewed C job
     (case vj_WorkerID job of
        None \<Rightarrow> provision C job
      | Some w \<Rightarrow> provisioningTimedOut job (\<lambda>late.
          if late then fail C job ''VM did not become ready before the provisioning timeout''
          else check_provisioning C job w))"

subsection \<open>A running job\<close>

text \<open>The global timeout; the product of the seconds wraps.\<close>

definition jobTimedOut :: "vjob \<Rightarrow> (bool \<Rightarrow> 'a prog) \<Rightarrow> 'a prog" where
  "jobTimedOut job k =
     (case (vj_StartedAt job, pl_timeoutSeconds (vj_Payload job)) of
        (Some t, Some secs) \<Rightarrow>
          if secs > 0 then Clock (\<lambda>at_now. k (time_sub at_now t > Seconds secs)) else k False
      | _ \<Rightarrow> k False)"

definition lost_status :: "string \<Rightarrow> bool" where
  "lost_status s \<longleftrightarrow> s \<in> {''deleting'', ''deleted'', ''off'', ''stopped''}"

definition check_running :: "vm_config \<Rightarrow> vjob \<Rightarrow> pass_result" where
  "check_running C job =
     (case some_id (vj_WorkerID job) of
        None \<Rightarrow> Ret None
      | Some w \<Rightarrow> GetServer C w (\<lambda>r.
          case r of
            Inl e \<Rightarrow> if isGone e then fail C job (''worker VM no longer reachable: '' @ e) else Ret (Some e)
          | Inr server \<Rightarrow>
              if lost_status (sv_Status server)
              then fail C job ''worker VM powered off or deleted while the job was running''
              else Ret None))"

definition reconcileRunning :: "vm_config \<Rightarrow> vjob \<Rightarrow> pass_result" where
  "reconcileRunning C job = renewed C job
     (jobTimedOut job (\<lambda>late. if late then fail C job ''job timed out'' else check_running C job))"

subsection \<open>Passes\<close>

definition reconcileJob :: "vm_config \<Rightarrow> string \<Rightarrow> pass_result" where
  "reconcileJob C jobID = store_Get C jobID (\<lambda>r.
     case r of
       Inl e \<Rightarrow> Ret (Some e)
     | Inr None \<Rightarrow> Ret None
     | Inr (Some job) \<Rightarrow>
         (case vj_Status job of
            StatusPending \<Rightarrow> claimAndProvision C job
          | StatusProvisioning \<Rightarrow> reconcileProvisioning C job
          | StatusRunning \<Rightarrow> reconcileRunning C job
          | StatusCompleted \<Rightarrow> cleanup C (vj_ID job)
          | StatusFailed \<Rightarrow> cleanup C (vj_ID job)
          | StatusOther _ \<Rightarrow> Ret None))"

definition Trigger :: "vm_config \<Rightarrow> string \<Rightarrow> unit prog" where
  "Trigger C jobID = pbind (reconcileJob C jobID) (\<lambda>_. Ret ())"

definition sweep_deletes :: "string set \<Rightarrow> vserver \<Rightarrow> bool" where
  "sweep_deletes managed s \<longleftrightarrow> sv_Status s \<noteq> ''deleting'' \<and> sv_ID s \<notin> managed"

definition orphanSweep :: "vm_config \<Rightarrow> pass_result" where
  "orphanSweep C = ListWorkerIDs (\<lambda>ids.
     case ids of
       Inl e \<Rightarrow> Ret (Some e)
     | Inr managed \<Rightarrow> ListServers C (\<lambda>ls.
         case ls of
           None \<Rightarrow> Ret None
         | Some (Inl e) \<Rightarrow> Ret (Some e)
         | Some (Inr servers) \<Rightarrow>
             pbind (each (\<lambda>s. DeleteServer (sv_ID s) Ret) (filter (sweep_deletes managed) servers)) (\<lambda>_. Ret None)))"

text \<open>Jobs of the given statuses, each by its id; a listing that fails is only logged.\<close>

definition for_status :: "vm_config \<Rightarrow> jobStatus list \<Rightarrow> (string \<Rightarrow> pass_result) \<Rightarrow> unit prog" where
  "for_status C ss f = ListByStatus C ss False (\<lambda>r.
     case r of Inl _ \<Rightarrow> Ret () | Inr jobs \<Rightarrow> each f (map vj_ID jobs))"

definition reconcilePending :: "vm_config \<Rightarrow> unit prog" where
  "reconcilePending C = for_status C [StatusPending] (reconcileJob C)"

definition reconcileAll :: "vm_config \<Rightarrow> unit prog" where
  "reconcileAll C =
     pbind (reconcilePending C) (\<lambda>_.
     pbind (for_status C [StatusProvisioning] (reconcileJob C)) (\<lambda>_.
     pbind (for_status C [StatusRunning] (reconcileJob C)) (\<lambda>_.
     pbind (for_status C [StatusCompleted, StatusFailed] (cleanup C)) (\<lambda>_.
     pbind (orphanSweep C) (\<lambda>_. Ret ())))))"

subsection \<open>The endpoint\<close>

text \<open>
  The answer of \<^verbatim>\<open>POST /internal/provision\<close>: a code with an error text, or the job, the status reported
  and, where it is reported, the owner. The request is the decoded \<^verbatim>\<open>jobId\<close>, if the body decodes.
\<close>

datatype answer = Refuse int string | Report string jobStatus "string option option"

definition handle_provision :: "vm_config \<Rightarrow> string option \<Rightarrow> answer prog" where
  "handle_provision C req =
     (case req of
        None \<Rightarrow> Ret (Refuse 400 ''jobId is required'')
      | Some i \<Rightarrow>
          if TrimSpace i = [] then Ret (Refuse 400 ''jobId is required'')
          else store_Get C i (\<lambda>r.
            case r of
              Inl _ \<Rightarrow> Ret (Refuse 500 ''failed to load job'')
            | Inr None \<Rightarrow> Ret (Refuse 404 ''job not found'')
            | Inr (Some job) \<Rightarrow>
                (case vj_Status job of
                   StatusCompleted \<Rightarrow> Ret (Report (vj_ID job) StatusCompleted None)
                 | StatusFailed \<Rightarrow> Ret (Report (vj_ID job) StatusFailed None)
                 | StatusPending \<Rightarrow> ClaimPending C (vj_ID job) (vc_hostname C) leaseSeconds (\<lambda>c.
                     case c of
                       Inl _ \<Rightarrow> Ret (Refuse 500 ''failed to claim job'')
                     | Inr None \<Rightarrow> Ret (Report (vj_ID job) StatusPending None)
                     | Inr (Some claimed) \<Rightarrow>
                         pbind (Trigger C (vj_ID job)) (\<lambda>_. Ret (Report (vj_ID job) StatusProvisioning None)))
                 | StatusProvisioning \<Rightarrow>
                     pbind (Trigger C (vj_ID job)) (\<lambda>_. Ret (Report (vj_ID job) StatusProvisioning (Some (vj_ClaimedBy job))))
                 | StatusRunning \<Rightarrow>
                     pbind (Trigger C (vj_ID job)) (\<lambda>_. Ret (Report (vj_ID job) StatusRunning (Some (vj_ClaimedBy job))))
                 | StatusOther s \<Rightarrow> Ret (Report (vj_ID job) (StatusOther s) None))))"

end
