(* ===== verification/VM_Runs.thy ===== *)
theory VM_Runs
  imports VM_Reconciler
begin

text \<open>
  How programs run: the calls a program can make, its runs when nothing else touches the table, and
  the whole system, in which any number of provisioners and the SDK that owns the table interleave
  statement by statement, statements and answers get lost, and processes die.
\<close>

subsection \<open>The calls of a program\<close>

text \<open>The rows a statement about one job returns are that job's; those of a listing have its statuses.\<close>

fun stmt_id :: "stmt \<Rightarrow> string option" where
  "stmt_id (QGet i) = Some i"
| "stmt_id (QClaim i _ _) = Some i"
| "stmt_id (QReclaim i _ _ _) = Some i"
| "stmt_id (QRenew i _ _) = Some i"
| "stmt_id (QUpdate i _) = Some i"
| "stmt_id (QMark i _ _) = Some i"
| "stmt_id (QClear i) = Some i"
| "stmt_id QWorkerIDs = None"
| "stmt_id (QList _ _) = None"

definition plausible :: "stmt \<Rightarrow> sql_reply \<Rightarrow> bool" where
  "plausible q reply \<longleftrightarrow>
     (\<forall>i rows r. stmt_id q = Some i \<longrightarrow> reply = Inr rows \<longrightarrow> r \<in> set rows \<longrightarrow> r_id r = i) \<and>
     (\<forall>ss e rows r. q = QList ss e \<longrightarrow> reply = Inr rows \<longrightarrow> r \<in> set rows \<longrightarrow> r_status r \<in> set ss)"

lemma row_ids [simp]:
  "r_id (claim_row t h n r) = r_id r" "r_id (reclaim_row t h n r) = r_id r" "r_id (renew_row t n r) = r_id r"
  "r_id (patch_row t p r) = r_id r" "r_id (mark_row t s m r) = r_id r" "r_id (clear_row t r) = r_id r"
  by (simp_all add: claim_row_def reclaim_row_def renew_row_def patch_row_def mark_row_def clear_row_def)

lemma exec_plausible: "plausible q (Inr (snd (sql_exec t q tb)))" "plausible q (Inl e)"
  by (cases q; auto simp: plausible_def update_where_def)+

lemma one_job_id: "plausible q reply \<Longrightarrow> stmt_id q = Some i \<Longrightarrow> one_job C reply = Inr (Some j) \<Longrightarrow> vj_ID j = i"
  by (auto simp: one_job_def scanJob_def plausible_def split: sum.splits list.splits option.splits)

primrec calls_ok :: "(stmt \<Rightarrow> bool) \<Rightarrow> (api_request \<Rightarrow> bool) \<Rightarrow> 'a prog \<Rightarrow> bool" where
  "calls_ok P Q (Ret x) \<longleftrightarrow> True"
| "calls_ok P Q (Sql q k) \<longleftrightarrow> P q \<and> (\<forall>r. plausible q r \<longrightarrow> calls_ok P Q (k r))"
| "calls_ok P Q (Api q k) \<longleftrightarrow> Q q \<and> (\<forall>r. calls_ok P Q (k r))"
| "calls_ok P Q (Clock k) \<longleftrightarrow> (\<forall>t. calls_ok P Q (k t))"

lemma calls_ok_bind: "calls_ok P Q p \<Longrightarrow> (\<And>x. calls_ok P Q (f x)) \<Longrightarrow> calls_ok P Q (pbind p f)"
  by (induction p) auto

lemma calls_ok_each: "(\<And>x. calls_ok P Q (f x)) \<Longrightarrow> calls_ok P Q (each f xs)"
  by (induction xs) (auto intro: calls_ok_bind)

text \<open>A call whose continuation is fine whatever the reply.\<close>

lemma calls_ok_store:
  assumes "\<And>e. calls_ok P Q (k (Inl e))" and "calls_ok P Q (k (Inr None))" and "\<And>j. vj_ID j = i \<Longrightarrow> calls_ok P Q (k (Inr (Some j)))"
  shows "P (QGet i) \<Longrightarrow> calls_ok P Q (store_Get C i k)"
    and "P (QClaim i h secs) \<Longrightarrow> calls_ok P Q (ClaimPending C i h secs k)"
    and "P (QRenew i h secs) \<Longrightarrow> calls_ok P Q (RenewLease C i h secs k)"
    and "P (QMark i s msg) \<Longrightarrow> calls_ok P Q (MarkTerminal C i s msg k)"
    and "P (QGet i) \<Longrightarrow> P (QUpdate i p) \<Longrightarrow> calls_ok P Q (UpdateDetails C i p k)"
proof -
  have k: "calls_ok P Q (k (one_job C reply))" if "plausible q reply" "stmt_id q = Some i" for q reply
  proof (cases "one_job C reply")
    case (Inr x)
    then show ?thesis using assms one_job_id [OF that] by (cases x) auto
  qed (use assms in simp)
  show "P (QGet i) \<Longrightarrow> calls_ok P Q (store_Get C i k)"
    and "P (QClaim i h secs) \<Longrightarrow> calls_ok P Q (ClaimPending C i h secs k)"
    and "P (QRenew i h secs) \<Longrightarrow> calls_ok P Q (RenewLease C i h secs k)"
    and "P (QMark i s msg) \<Longrightarrow> calls_ok P Q (MarkTerminal C i s msg k)"
    and "P (QGet i) \<Longrightarrow> P (QUpdate i p) \<Longrightarrow> calls_ok P Q (UpdateDetails C i p k)"
    by (auto simp: store_Get_def ClaimPending_def RenewLease_def MarkTerminal_def UpdateDetails_def
        intro: k [of "QGet i"] k [of "QClaim i h secs"] k [of "QRenew i h secs"] k [of "QMark i s msg"] k [of "QUpdate i p"])
qed

lemma calls_ok_clear: "P (QClear i) \<Longrightarrow> (\<And>x. calls_ok P Q (k x)) \<Longrightarrow> calls_ok P Q (ClearWorkerID i k)"
  by (simp add: ClearWorkerID_def)

lemma calls_ok_request:
  "Q \<lparr> aq_method = m, aq_path = path, aq_body = b \<rparr> \<Longrightarrow> (\<And>x. calls_ok P Q (k x)) \<Longrightarrow> calls_ok P Q (doRequest m path b k)"
  by (simp add: doRequest_def)

text \<open>The requests that leave machines alone: everything but a deletion.\<close>

lemma calls_ok_cloud:
  assumes "\<And>m path b. m \<noteq> ''DELETE'' \<Longrightarrow> Q \<lparr> aq_method = m, aq_path = path, aq_body = b \<rparr>"
  shows "(\<And>x. calls_ok P Q (k1 x)) \<Longrightarrow> calls_ok P Q (CreateServer C n ci t k1)"
    and "(\<And>x. calls_ok P Q (k1 x)) \<Longrightarrow> calls_ok P Q (GetServer C i k1)"
    and "(\<And>x. calls_ok P Q (k2 x)) \<Longrightarrow> calls_ok P Q (GetVolume C i k2)"
  using assms by (simp_all add: CreateServer_def GetServer_def GetVolume_def calls_ok_request)

lemma calls_ok_wait:
  assumes "\<And>m path b. m \<noteq> ''DELETE'' \<Longrightarrow> Q \<lparr> aq_method = m, aq_path = path, aq_body = b \<rparr>" and "\<And>x. calls_ok P Q (k x)"
  shows "calls_ok P Q (wait_volume C n i want d txt k)"
  using assms by (induction n) (auto intro!: calls_ok_cloud(3) split: sum.split)

lemma calls_ok_volume:
  assumes "\<And>m path b. m \<noteq> ''DELETE'' \<Longrightarrow> Q \<lparr> aq_method = m, aq_path = path, aq_body = b \<rparr>" and "\<And>x. calls_ok P Q (k x)"
  shows "calls_ok P Q (AttachVolume C v s k)" and "calls_ok P Q (DetachVolume C v k)"
  using assms
  by (auto simp: AttachVolume_def DetachVolume_def WaitForVolumeAttached_def WaitForVolumeDetached_def
      intro!: calls_ok_request calls_ok_wait split: option.split sum.split)

lemma calls_ok_pages:
  assumes "\<And>path. Q \<lparr> aq_method = ''GET'', aq_path = path, aq_body = NoBody \<rparr>" and "\<And>x. calls_ok P Q (k x)"
  shows "calls_ok P Q (list_pages C n page acc k)"
  using assms
  by (induction n arbitrary: page acc) (auto intro!: calls_ok_request split: sum.split option.split prod.split simp: Let_def)

subsection \<open>What the provisioner sends\<close>

text \<open>
  The statements that touch only job \<open>i\<close> and give it no status outside \<open>T\<close>. Those of the provisioner,
  for whatever job, never take over a lease and set no status but \<^verbatim>\<open>PROVISIONING\<close> by a claim, \<^verbatim>\<open>RUNNING\<close> and \<^verbatim>\<open>FAILED\<close>.
\<close>

fun sets :: "jobStatus set \<Rightarrow> stmt \<Rightarrow> bool" where
  "sets T (QClaim _ _ _) \<longleftrightarrow> StatusProvisioning \<in> T"
| "sets T (QReclaim _ _ _ _) \<longleftrightarrow> False"
| "sets T (QUpdate _ p) \<longleftrightarrow> (case pt_status p of None \<Rightarrow> True | Some s \<Rightarrow> s \<in> T)"
| "sets T (QMark _ s _) \<longleftrightarrow> s \<in> T"
| "sets T _ \<longleftrightarrow> True"

abbreviation vm_stmt :: "stmt \<Rightarrow> bool" where
  "vm_stmt q \<equiv> sets {StatusProvisioning, StatusRunning, StatusFailed} q"

abbreviation vm_prog :: "'a prog \<Rightarrow> bool" where
  "vm_prog p \<equiv> calls_ok vm_stmt (\<lambda>_. True) p"

definition on_job :: "string \<Rightarrow> jobStatus set \<Rightarrow> stmt \<Rightarrow> bool" where
  "on_job i T q \<longleftrightarrow> stmt_id q = Some i \<and> sets T q"

abbreviation job_prog :: "string \<Rightarrow> jobStatus set \<Rightarrow> 'a prog \<Rightarrow> bool" where
  "job_prog i T p \<equiv> calls_ok (on_job i T) (\<lambda>_. True) p"

lemma calls_ok_mono: "calls_ok P Q p \<Longrightarrow> (\<And>q. P q \<Longrightarrow> P' q) \<Longrightarrow> (\<And>q. Q q \<Longrightarrow> Q' q) \<Longrightarrow> calls_ok P' Q' p"
  by (induction p) auto

lemma no_patch_simps [simp]:
  "pt_status no_patch = None" "pt_workerID no_patch = None" "pt_volumeID no_patch = None"
  by (simp_all add: no_patch_def)

lemmas prog_rules = calls_ok_store calls_ok_clear calls_ok_request calls_ok_cloud calls_ok_volume

lemma job_cleanup: "job_prog i T (cleanup C i)"
  unfolding cleanup_def cleanup_volume_def DeleteServer_def
  by (auto intro!: prog_rules simp: on_job_def split: option.split)

lemma job_fail: "vj_ID job = i \<Longrightarrow> StatusFailed \<in> T \<Longrightarrow> job_prog i T (fail C job reason)"
  unfolding fail_def by (auto intro!: prog_rules simp: on_job_def job_cleanup)

lemma job_provision: "vj_ID job = i \<Longrightarrow> StatusFailed \<in> T \<Longrightarrow> job_prog i T (provision C job)"
  unfolding provision_def attach_volume_def Let_def
  by (auto intro!: prog_rules job_fail simp: on_job_def worker_patch_def split: sum.split)

lemma job_renewed: "vj_ID job = i \<Longrightarrow> job_prog i T k \<Longrightarrow> job_prog i T (renewed C job k)"
  unfolding renewed_def by (auto intro!: prog_rules simp: on_job_def)

lemma job_claim:
  "vj_ID job = i \<Longrightarrow> StatusProvisioning \<in> T \<Longrightarrow> StatusFailed \<in> T \<Longrightarrow> job_prog i T (claimAndProvision C job)"
  unfolding claimAndProvision_def by (auto intro!: prog_rules job_provision simp: on_job_def)

lemma job_provisioning:
  "vj_ID job = i \<Longrightarrow> StatusRunning \<in> T \<Longrightarrow> StatusFailed \<in> T \<Longrightarrow> job_prog i T (reconcileProvisioning C job)"
  unfolding reconcileProvisioning_def provisioningTimedOut_def check_provisioning_def
  by (auto intro!: prog_rules job_provision job_fail job_renewed simp: on_job_def split: option.split sum.split)

lemma job_running: "vj_ID job = i \<Longrightarrow> StatusFailed \<in> T \<Longrightarrow> job_prog i T (reconcileRunning C job)"
  unfolding reconcileRunning_def jobTimedOut_def check_running_def
  by (auto intro!: prog_rules job_fail job_renewed simp: on_job_def split: option.split sum.split prod.split)

lemma job_reconcile: "job_prog i {StatusProvisioning, StatusRunning, StatusFailed} (reconcileJob C i)"
  unfolding reconcileJob_def
  by (auto intro!: prog_rules job_claim job_provisioning job_running simp: on_job_def job_cleanup split: jobStatus.split)

lemma vm_cleanup: "vm_prog (cleanup C i)"
  by (rule calls_ok_mono [OF job_cleanup]) (auto simp: on_job_def)

lemma vm_reconcileJob: "vm_prog (reconcileJob C i)"
  by (rule calls_ok_mono [OF job_reconcile]) (auto simp: on_job_def)

lemma vm_sweep: "vm_prog (orphanSweep C)"
  by (auto simp: orphanSweep_def ListWorkerIDs_def ListServers_def DeleteServer_def
      intro!: calls_ok_pages calls_ok_bind calls_ok_each calls_ok_request split: sum.split option.split)

lemma vm_for_status: "(\<And>i. vm_prog (f i)) \<Longrightarrow> vm_prog (for_status C ss f)"
  by (auto simp: for_status_def ListByStatus_def intro!: calls_ok_each split: sum.split)

lemma vm_reconcileAll: "vm_prog (reconcileAll C)"
  by (auto simp: reconcileAll_def reconcilePending_def vm_reconcileJob vm_cleanup vm_sweep
      intro!: calls_ok_bind vm_for_status)

lemma vm_endpoint: "vm_prog (handle_provision C req)"
  by (auto simp: handle_provision_def Trigger_def vm_reconcileJob intro!: calls_ok_bind prog_rules
      split: option.split sum.split jobStatus.split)

subsection \<open>The system\<close>

text \<open>
  What a provisioner may be doing: a tick of its loop, or answering a request. Each instance has its
  own configuration.
\<close>

datatype activity = Tick vm_config | Ask vm_config "string option"

primrec prog_of :: "activity \<Rightarrow> unit prog" where
  "prog_of (Tick C) = reconcileAll C"
| "prog_of (Ask C req) = pbind (handle_provision C req) (\<lambda>_. Ret ())"

lemma vm_activity: "vm_prog (prog_of a)"
  by (cases a) (auto simp: vm_reconcileAll vm_endpoint intro: calls_ok_bind)

text \<open>
  What happened, newest first: a statement that took effect, with the time and the rows it changed or
  read; a request with its reply.
\<close>

datatype happening = Did int stmt "row list" | Called api_request api_reply

record vsys =
  sy_table :: table
  sy_procs :: "unit prog list"
  sy_past :: "happening list"

text \<open>
  What can happen next: an activity begins; a process's statement is executed and acknowledged, lost
  before it takes effect, or executed without an acknowledgement; its request is answered; it reads
  the clock; it dies. The SDK enters a job or ends one.
\<close>

datatype fate = Acked | Lost string | Unacked string

datatype choice =
    Begin activity
  | DoSql nat int fate
  | DoApi nat api_reply
  | DoClock nat int
  | Die nat
  | Enter row
  | Finish string jobStatus int

definition fresh_row :: "row \<Rightarrow> table \<Rightarrow> bool" where
  "fresh_row r tb \<longleftrightarrow> r_id r \<notin> r_id ` set tb \<and> r_status r = StatusPending \<and> r_startedAt r = None \<and>
     r_workerID r = None \<and> r_claimedBy r = None \<and> r_leaseUntil r = None \<and> r_attempts r = 0"

definition finish_row :: "jobStatus \<Rightarrow> int \<Rightarrow> row \<Rightarrow> row" where
  "finish_row s t r = r\<lparr>r_status := s, r_completedAt := Some t, r_leaseUntil := None, r_updatedAt := t\<rparr>"

definition sql_step :: "nat \<Rightarrow> int \<Rightarrow> fate \<Rightarrow> stmt \<Rightarrow> (sql_reply \<Rightarrow> unit prog) \<Rightarrow> vsys \<Rightarrow> vsys" where
  "sql_step i t f q k s =
     (case sql_exec t q (sy_table s) of (tb, rows) \<Rightarrow>
        (case f of
           Acked \<Rightarrow> s\<lparr>sy_table := tb, sy_procs := (sy_procs s)[i := k (Inr rows)], sy_past := Did t q rows # sy_past s\<rparr>
         | Lost e \<Rightarrow> s\<lparr>sy_procs := (sy_procs s)[i := k (Inl e)]\<rparr>
         | Unacked e \<Rightarrow> s\<lparr>sy_table := tb, sy_procs := (sy_procs s)[i := k (Inl e)], sy_past := Did t q rows # sy_past s\<rparr>))"

definition at_proc :: "nat \<Rightarrow> vsys \<Rightarrow> unit prog option" where
  "at_proc i s = (if i < length (sy_procs s) then Some (sy_procs s ! i) else None)"

fun vstep :: "choice \<Rightarrow> vsys \<Rightarrow> vsys option" where
  "vstep (Begin a) s = Some (s\<lparr>sy_procs := sy_procs s @ [prog_of a]\<rparr>)"
| "vstep (DoSql i t f) s =
     (case at_proc i s of Some (Sql q k) \<Rightarrow> Some (sql_step i t f q k s) | _ \<Rightarrow> None)"
| "vstep (DoApi i r) s =
     (case at_proc i s of
        Some (Api q k) \<Rightarrow> Some (s\<lparr>sy_procs := (sy_procs s)[i := k r], sy_past := Called q r # sy_past s\<rparr>)
      | _ \<Rightarrow> None)"
| "vstep (DoClock i t) s =
     (case at_proc i s of Some (Clock k) \<Rightarrow> Some (s\<lparr>sy_procs := (sy_procs s)[i := k t]\<rparr>) | _ \<Rightarrow> None)"
| "vstep (Die i) s = (if i < length (sy_procs s) then Some (s\<lparr>sy_procs := (sy_procs s)[i := Ret ()]\<rparr>) else None)"
| "vstep (Enter r) s = (if fresh_row r (sy_table s) then Some (s\<lparr>sy_table := sy_table s @ [r]\<rparr>) else None)"
| "vstep (Finish i st t) s =
     (if terminal_status st then Some (s\<lparr>sy_table := fst (update_where (\<lambda>r. r_id r = i) (finish_row st t) (sy_table s))\<rparr>) else None)"

fun vrun :: "choice list \<Rightarrow> vsys \<Rightarrow> vsys option" where
  "vrun [] s = Some s"
| "vrun (c # cs) s = Option.bind (vstep c s) (vrun cs)"

definition no_jobs :: vsys where
  "no_jobs = \<lparr> sy_table = [], sy_procs = [], sy_past = [] \<rparr>"

inductive reachable :: "vsys \<Rightarrow> bool" where
  start: "reachable no_jobs"
| step: "reachable s \<Longrightarrow> vstep c s = Some s' \<Longrightarrow> reachable s'"

lemma vrun_reachable: "reachable s \<Longrightarrow> vrun cs s = Some s' \<Longrightarrow> reachable s'"
  by (induction cs arbitrary: s) (auto simp: bind_eq_Some_conv intro: reachable.step)

text \<open>What holds of a program when it begins and after each reply holds of every process.\<close>

lemma at_proc_mem: "at_proc i s = Some p \<Longrightarrow> i < length (sy_procs s) \<and> p = sy_procs s ! i \<and> p \<in> set (sy_procs s)"
  by (auto simp: at_proc_def split: if_splits)

lemma set_update_cases: "x \<in> set (xs[i := y]) \<Longrightarrow> x = y \<or> x \<in> set xs"
  using set_update_subset_insert by fast

lemma procs_inv:
  assumes "reachable s" and "p \<in> set (sy_procs s)"
    and "\<And>a. P (prog_of a)" and dead: "P (Ret ())" and sql: "\<And>q k r. P (Sql q k) \<Longrightarrow> plausible q r \<Longrightarrow> P (k r)"
    and api: "\<And>q k r. P (Api q k) \<Longrightarrow> P (k r)" and clock: "\<And>k t. P (Clock k) \<Longrightarrow> P (k t)"
  shows "P p"
  using assms(1,2)
proof (induction arbitrary: p)
  case start
  then show ?case by (simp add: no_jobs_def)
next
  case (step s c s')
  have cont: "P q" if "at_proc i s = Some q" for i q using at_proc_mem [OF that] step.IH by blast
  show ?case
  proof (cases c)
    case (Begin a)
    with step assms(3) show ?thesis by auto
  next
    case (DoSql i t f)
    with step.hyps(2) obtain q k where q: "at_proc i s = Some (Sql q k)" and s': "s' = sql_step i t f q k s"
      by (auto split: option.splits prog.splits)
    obtain tb rows where e: "sql_exec t q (sy_table s) = (tb, rows)" by fastforce
    obtain r where "plausible q r" "sy_procs s' = (sy_procs s)[i := k r]"
      using s' e exec_plausible(1) [of q t "sy_table s"] exec_plausible(2) [of q] by (cases f) (auto simp: sql_step_def)
    then show ?thesis using step.prems step.IH sql [OF cont [OF q]] by (auto dest!: set_update_cases)
  next
    case (DoApi i r)
    with step.hyps(2) obtain q k where q: "at_proc i s = Some (Api q k)" and s': "sy_procs s' = (sy_procs s)[i := k r]"
      by (auto split: option.splits prog.splits)
    then show ?thesis using step.prems step.IH api [OF cont [OF q]] by (auto dest!: set_update_cases)
  next
    case (DoClock i t)
    with step.hyps(2) obtain k where q: "at_proc i s = Some (Clock k)" and s': "sy_procs s' = (sy_procs s)[i := k t]"
      by (auto split: option.splits prog.splits)
    then show ?thesis using step.prems step.IH clock [OF cont [OF q]] by (auto dest!: set_update_cases)
  next
    case (Die i)
    with step have "p \<in> set ((sy_procs s)[i := Ret ()])" by (auto split: if_splits)
    with step.IH dead show ?thesis by (auto dest!: set_update_cases)
  qed (use step in \<open>auto split: if_splits\<close>)
qed

lemma procs_ok: "reachable s \<Longrightarrow> p \<in> set (sy_procs s) \<Longrightarrow> vm_prog p"
  by (rule procs_inv [where P = vm_prog]) (auto simp: vm_activity)

text \<open>A change of the table in a step: a statement of the provisioner, a new job or the SDK's ending of one.\<close>

lemma step_table:
  assumes "reachable s" and "vstep c s = Some s'"
  obtains (same) "sy_table s' = sy_table s" and "\<exists>hs. sy_past s' = hs @ sy_past s \<and> (\<forall>h \<in> set hs. \<exists>q r. h = Called q r)"
  | (stmt) t q rows where "vm_stmt q" and "sql_exec t q (sy_table s) = (sy_table s', rows)" and "sy_past s' = Did t q rows # sy_past s"
  | (enter) r where "fresh_row r (sy_table s)" and "sy_table s' = sy_table s @ [r]" and "sy_past s' = sy_past s"
  | (finish) i st t where "terminal_status st" and "sy_table s' = map (\<lambda>r. if r_id r = i then finish_row st t r else r) (sy_table s)"
      and "sy_past s' = sy_past s"
proof (cases c)
  case (DoSql i t f)
  with assms(2) obtain q k where q: "at_proc i s = Some (Sql q k)" and s': "s' = sql_step i t f q k s"
    by (auto split: option.splits prog.splits)
  have "vm_prog (Sql q k)" using procs_ok [OF assms(1)] at_proc_mem [OF q] by blast
  then have ok: "vm_stmt q" by simp
  obtain tb rows where e: "sql_exec t q (sy_table s) = (tb, rows)" by fastforce
  show thesis
  proof (cases f)
    case (Lost x)
    with s' e show thesis by (intro same) (simp_all add: sql_step_def)
  qed (use s' e ok in \<open>auto simp: sql_step_def intro: stmt\<close>)
next
  case (DoApi i r)
  with assms(2) obtain q k where "s' = s\<lparr>sy_procs := (sy_procs s)[i := k r], sy_past := Called q r # sy_past s\<rparr>"
    by (auto split: option.splits prog.splits)
  then show thesis by (intro same) auto
qed (use assms(2) in \<open>auto simp: update_where_def split: option.splits prog.splits if_splits intro: same enter finish\<close>)

end
