(* ===== verification/VM_Justified.thy ===== *)
theory VM_Justified
  imports VM_Runs
begin

text \<open>
  What the provisioner knows when it creates or deletes a machine, whatever the other processes do: every
  such request follows replies that justify it.
\<close>

datatype vevent = SqlE stmt sql_reply | ApiE api_request api_reply | ClockE int

subsection \<open>Exchanges\<close>

text \<open>
  \<open>exchange p es p'\<close>: the program \<open>p\<close> can send what \<open>es\<close> records and receive these replies, after which \<open>p'\<close> is
  left to do. The replies are arbitrary up to \<open>plausible\<close>, as other processes may have run in between.
\<close>

inductive exchange :: "'a prog \<Rightarrow> vevent list \<Rightarrow> 'a prog \<Rightarrow> bool" where
  none: "exchange p [] p"
| sql: "plausible q r \<Longrightarrow> exchange (k r) es p \<Longrightarrow> exchange (Sql q k) (SqlE q r # es) p"
| api: "exchange (k r) es p \<Longrightarrow> exchange (Api q k) (ApiE q r # es) p"
| clock: "exchange (k t) es p \<Longrightarrow> exchange (Clock k) (ClockE t # es) p"

text \<open>Every request of \<open>p\<close> satisfies \<open>J\<close> with all that was exchanged before it, starting from \<open>H\<close>.\<close>

primrec follows :: "(vevent set \<Rightarrow> api_request \<Rightarrow> bool) \<Rightarrow> vevent set \<Rightarrow> 'a prog \<Rightarrow> bool" where
  "follows J H (Ret x) \<longleftrightarrow> True"
| "follows J H (Sql q k) \<longleftrightarrow> (\<forall>r. plausible q r \<longrightarrow> follows J (insert (SqlE q r) H) (k r))"
| "follows J H (Api q k) \<longleftrightarrow> J H q \<and> (\<forall>r. follows J (insert (ApiE q r) H) (k r))"
| "follows J H (Clock k) \<longleftrightarrow> (\<forall>t. follows J (insert (ClockE t) H) (k t))"

lemma follows_exchange:
  assumes "exchange p es p'" and "follows J H p" and "es = pre @ ApiE q r # post"
  shows "J (H \<union> set pre) q"
  using assms
proof (induction arbitrary: H pre rule: exchange.induct)
  case (sql q1 r1 k es p)
  then obtain pre' where "pre = SqlE q1 r1 # pre'" "es = pre' @ ApiE q r # post" by (cases pre) auto
  with sql.IH [of "insert (SqlE q1 r1) H" pre'] sql.prems(1) sql.hyps(1) show ?case by simp
next
  case (api k r1 es p q1)
  show ?case
  proof (cases pre)
    case Nil
    with api.prems show ?thesis by simp
  next
    case (Cons e pre')
    with api.prems(2) have "e = ApiE q1 r1" "es = pre' @ ApiE q r # post" by auto
    with api.IH [of "insert (ApiE q1 r1) H" pre'] api.prems(1) Cons show ?thesis by simp
  qed
next
  case (clock k t es p)
  then obtain pre' where "pre = ClockE t # pre'" "es = pre' @ ApiE q r # post" by (cases pre) auto
  with clock.IH [of "insert (ClockE t) H" pre'] clock.prems(1) show ?case by simp
qed simp

lemmas grows [simp] = subset_insertI subset_insertI2

text \<open>A judgement that more knowledge cannot revoke, and that has no objection to reading.\<close>

locale judgement =
  fixes J :: "vevent set \<Rightarrow> api_request \<Rightarrow> bool"
  assumes more: "J H q \<Longrightarrow> H \<subseteq> H' \<Longrightarrow> J H' q"
    and harmless: "aq_method q \<noteq> ''DELETE'' \<Longrightarrow> aq_path q \<noteq> ''/servers'' \<Longrightarrow> J H q"
begin

lemma follows_more: "follows J H p \<Longrightarrow> H \<subseteq> H' \<Longrightarrow> follows J H' p"
proof (induction p arbitrary: H H')
  case (Sql q k)
  then show ?case by simp (meson insert_mono rangeI)
next
  case (Api q k)
  then show ?case by simp (meson insert_mono rangeI more)
next
  case (Clock k)
  then show ?case by simp (meson insert_mono rangeI)
qed simp

lemma follows_bind:
  assumes "follows J H p" and "\<And>x H'. H \<subseteq> H' \<Longrightarrow> follows J H' (f x)"
  shows "follows J H (pbind p f)"
  using assms
proof (induction p arbitrary: H)
  case (Sql q k)
  have "follows J (insert (SqlE q r) H) (pbind (k r) f)" if "plausible q r" for r
    by (rule Sql.IH) (use that Sql.prems in auto)
  then show ?case by simp
next
  case (Api q k)
  have "follows J (insert (ApiE q r) H) (pbind (k r) f)" for r
    by (rule Api.IH) (use Api.prems in auto)
  then show ?case using Api.prems(1) by simp
next
  case (Clock k)
  have "follows J (insert (ClockE t) H) (pbind (k t) f)" for t
    by (rule Clock.IH) (use Clock.prems in auto)
  then show ?case by simp
qed auto

lemma follows_each: "(\<And>x H'. x \<in> set xs \<Longrightarrow> H \<subseteq> H' \<Longrightarrow> follows J H' (f x)) \<Longrightarrow> follows J H (each f xs)"
  by (induction xs arbitrary: H) (auto intro!: follows_bind)

text \<open>A statement about one job, by what it returns.\<close>

lemma follows_one:
  assumes "stmt_id q = Some i"
    and none: "\<And>e H'. H \<subseteq> H' \<Longrightarrow> follows J H' (k (Inl e))" "\<And>H'. H \<subseteq> H' \<Longrightarrow> SqlE q (Inr []) \<in> H' \<Longrightarrow> follows J H' (k (Inr None))"
    and some: "\<And>row rows j H'. H \<subseteq> H' \<Longrightarrow> SqlE q (Inr (row # rows)) \<in> H' \<Longrightarrow> r_id row = i \<Longrightarrow> scanJob C row = Inr j \<Longrightarrow>
      follows J H' (k (Inr (Some j)))"
  shows "follows J H (Sql q (\<lambda>reply. k (one_job C reply)))"
proof -
  have "follows J (insert (SqlE q r) H) (k (one_job C r))" if pl: "plausible q r" for r
  proof (cases "one_job C r")
    case (Inr x)
    show ?thesis
    proof (cases x)
      case (Some j)
      then obtain row rows where r: "r = Inr (row # rows)" "scanJob C row = Inr j"
        using Inr by (auto simp: one_job_def split: sum.splits list.splits)
      then have "r_id row = i" using pl assms(1) by (auto simp: plausible_def)
      with r show ?thesis using Inr Some by (auto intro!: some [of _ row rows])
    next
      case None
      then have "r = Inr []" using Inr by (auto simp: one_job_def split: sum.splits list.splits)
      with Inr None show ?thesis by (auto intro!: none)
    qed
  qed (use none in auto)
  then show ?thesis by simp
qed

lemma follows_request:
  assumes "J H \<lparr> aq_method = m, aq_path = path, aq_body = b \<rparr>" and "\<And>x H'. H \<subseteq> H' \<Longrightarrow> follows J H' (k x)"
  shows "follows J H (doRequest m path b k)"
  using assms by (auto simp: doRequest_def)

lemma follows_read:
  assumes "\<And>x H'. H \<subseteq> H' \<Longrightarrow> follows J H' (k x)"
  shows "path \<noteq> ''/servers'' \<Longrightarrow> m \<noteq> ''DELETE'' \<Longrightarrow> follows J H (doRequest m path b k)"
  using assms by (auto intro!: follows_request harmless)

lemma follows_wait:
  assumes "\<And>x H'. H \<subseteq> H' \<Longrightarrow> follows J H' (k x)"
  shows "follows J H (wait_volume C n i want d txt k)"
  using assms
proof (induction n arbitrary: H)
  case (Suc n)
  have next_poll: "follows J H' (wait_volume C n i want d txt k)" if "H \<subseteq> H'" for H'
    by (rule Suc.IH) (use Suc.prems that in auto)
  have "follows J (insert (ClockE t) H) (GetVolume C i (\<lambda>r. case r of Inl e \<Rightarrow> k (Some (Inl e))
       | Inr v \<Rightarrow> if vv_ServerID v = want then k (Some (Inr v)) else wait_volume C n i want d txt k))" for t
    unfolding GetVolume_def
    by (rule follows_read) (use Suc.prems next_poll in \<open>auto split: sum.split\<close>)
  then show ?case using Suc.prems by auto
qed auto

lemma follows_timed:
  assumes "\<And>x H'. H \<subseteq> H' \<Longrightarrow> follows J H' (k x)"
  shows "follows J H (Clock (\<lambda>t. wait_volume C n i want (t + d) msg k))"
proof -
  have "follows J (insert (ClockE t) H) (wait_volume C n i want (t + d) msg k)" for t
    by (rule follows_wait, rule assms) auto
  then show ?thesis by simp
qed

lemma follows_volume:
  assumes k: "\<And>x H'. H \<subseteq> H' \<Longrightarrow> follows J H' (k x)"
  shows "follows J H (AttachVolume C v s k)" and "follows J H (DetachVolume C v k)"
  unfolding AttachVolume_def DetachVolume_def WaitForVolumeAttached_def WaitForVolumeDetached_def
  by (auto simp del: follows.simps intro!: follows_read follows_timed k split: option.split sum.split) blast+

end

subsection \<open>What justifies a request\<close>

text \<open>A reply said that job \<open>i\<close> is over.\<close>

definition heard_over :: "vevent set \<Rightarrow> string \<Rightarrow> bool" where
  "heard_over H i \<longleftrightarrow>
     (\<exists>row rows. SqlE (QGet i) (Inr (row # rows)) \<in> H \<and> terminal_status (r_status row)) \<or>
     (\<exists>ss rows row. SqlE (QList ss False) (Inr rows) \<in> H \<and> row \<in> set rows \<and> r_id row = i \<and> terminal_status (r_status row)) \<or>
     (\<exists>msg rows. SqlE (QMark i StatusFailed msg) (Inr rows) \<in> H)"

definition heard_worker :: "vevent set \<Rightarrow> string \<Rightarrow> string \<Rightarrow> bool" where
  "heard_worker H i w \<longleftrightarrow> (\<exists>row rows. SqlE (QGet i) (Inr (row # rows)) \<in> H \<and> r_workerID row = Some w)"

text \<open>A listing of the machines showed \<open>w\<close>, not being deleted, and no job had it as its worker.\<close>

definition heard_unowned :: "vm_config \<Rightarrow> vevent set \<Rightarrow> string \<Rightarrow> bool" where
  "heard_unowned C H w \<longleftrightarrow>
     (\<exists>rows. SqlE QWorkerIDs (Inr rows) \<in> H \<and> Some w \<notin> r_workerID ` set rows) \<and>
     (\<exists>page code text ss at_page last_page s.
        ApiE \<lparr> aq_method = ''GET'', aq_path = page_path page, aq_body = NoBody \<rparr> (Inr (code, text)) \<in> H \<and>
        vc_servers C text = Some (ss, at_page, last_page) \<and> s \<in> set ss \<and>
        sv_ID (as_server s) = w \<and> sv_Status (as_server s) \<noteq> ''deleting'')"

text \<open>The job \<open>i\<close> was claimed, or read while being provisioned, and had no worker.\<close>

definition heard_needy :: "vevent set \<Rightarrow> string \<Rightarrow> bool" where
  "heard_needy H i \<longleftrightarrow>
     (\<exists>row rows. r_id row = i \<and> some_id (r_workerID row) = None \<and>
       ((\<exists>host secs. SqlE (QClaim i host secs) (Inr (row # rows)) \<in> H) \<or>
        SqlE (QGet i) (Inr (row # rows)) \<in> H \<and> r_status row = StatusProvisioning))"

definition justified :: "vm_config \<Rightarrow> vevent set \<Rightarrow> api_request \<Rightarrow> bool" where
  "justified C H q \<longleftrightarrow>
     (aq_method q = ''DELETE'' \<longrightarrow>
        (\<exists>w. aq_path q = ''/servers/'' @ w \<and> ((\<exists>i. heard_worker H i w \<and> heard_over H i) \<or> heard_unowned C H w))) \<and>
     (aq_path q = ''/servers'' \<longrightarrow>
        (\<exists>sq. aq_body q = NewServer sq \<and> heard_needy H (sq_name sq)))"

lemma heard_more:
  "H \<subseteq> H' \<Longrightarrow> heard_over H i \<Longrightarrow> heard_over H' i" "H \<subseteq> H' \<Longrightarrow> heard_worker H i w \<Longrightarrow> heard_worker H' i w"
  "H \<subseteq> H' \<Longrightarrow> heard_needy H i \<Longrightarrow> heard_needy H' i"
  unfolding heard_over_def heard_worker_def heard_needy_def by blast+

lemma heard_unowned_more: "H \<subseteq> H' \<Longrightarrow> heard_unowned C H w \<Longrightarrow> heard_unowned C H' w"
  unfolding heard_unowned_def by blast

interpretation jg: judgement "justified C" for C
proof
  fix H H' q
  assume "justified C H q" and "H \<subseteq> H'"
  then show "justified C H' q"
    unfolding justified_def by (meson heard_more heard_unowned_more)
qed (simp add: justified_def)

lemmas follows_store = store_Get_def ClaimPending_def RenewLease_def MarkTerminal_def

lemma scan_fields: "scanJob C row = Inr j \<Longrightarrow> vj_ID j = r_id row \<and> vj_WorkerID j = r_workerID row \<and> vj_Status j = r_status row"
  by (auto simp: scanJob_def split: option.splits)

subsection \<open>The programs\<close>

text \<open>A deletion in a clean-up is that of the worker the row names, once the job is known to be over.\<close>

lemma follows_cleanup_volume: "follows (justified C) H (cleanup_volume C job)"
  unfolding cleanup_volume_def by (auto intro!: jg.follows_volume split: option.split)

lemma follows_cleanup:
  assumes "heard_over H i"
  shows "follows (justified C) H (cleanup C i)"
  unfolding cleanup_def store_Get_def
proof (rule jg.follows_one, simp)
  fix row rows j H'
  assume H': "H \<subseteq> H'" "SqlE (QGet i) (Inr (row # rows)) \<in> H'" and row: "r_id row = i" "scanJob C row = Inr j"
  note f = scan_fields [OF row(2)]
  have del: "justified C H' \<lparr> aq_method = ''DELETE'', aq_path = ''/servers/'' @ w, aq_body = NoBody \<rparr>" if "r_workerID row = Some w" for w
    using that H'(2) heard_more(1) [OF H'(1) assms] by (auto simp: justified_def heard_worker_def)
  show "follows (justified C) H' (case Inr (Some j) of Inl e \<Rightarrow> Ret (Some e) | Inr None \<Rightarrow> Ret None
     | Inr (Some job) \<Rightarrow> (case some_id (vj_WorkerID job) of
            None \<Rightarrow> cleanup_volume C job
          | Some w \<Rightarrow> DeleteServer w (\<lambda>e.
              if (case e of None \<Rightarrow> True | Some m \<Rightarrow> isGone m)
              then ClearWorkerID (vj_ID job) (\<lambda>_. cleanup_volume C job)
              else cleanup_volume C job)))"
    using f del
    by (auto simp: DeleteServer_def ClearWorkerID_def some_id_def follows_cleanup_volume
        intro!: jg.follows_request split: option.split if_splits)
qed auto

lemma follows_fail: "vj_ID job = i \<Longrightarrow> follows (justified C) H (fail C job reason)"
  unfolding fail_def MarkTerminal_def
  by (rule jg.follows_one [where i = i]) (auto simp: heard_over_def intro!: follows_cleanup)

lemma follows_provision:
  assumes "some_id (vj_WorkerID job) = None \<Longrightarrow> heard_needy H (vj_ID job)"
  shows "follows (justified C) H (provision C job)"
proof -
  have upd: "follows (justified C) H' (UpdateDetails C (vj_ID job) (worker_patch server v) (\<lambda>u.
      case u of Inl e \<Rightarrow> Ret (Some e) | Inr _ \<Rightarrow> attach_volume C v server))" for H' server v
    unfolding UpdateDetails_def store_Get_def attach_volume_def
    by (auto simp del: follows.simps intro!: jg.follows_one [where i = "vj_ID job"] jg.follows_volume) auto
  show ?thesis
    unfolding provision_def CreateServer_def Let_def
    using assms
    by (auto simp del: follows.simps simp: justified_def new_server_def upd intro!: jg.follows_request follows_fail split: sum.split) auto
qed

lemma follows_claim: "follows (justified C) H (claimAndProvision C job)"
  unfolding claimAndProvision_def ClaimPending_def
proof (rule jg.follows_one [where i = "vj_ID job"])
  fix row rows j H'
  assume "SqlE (QClaim (vj_ID job) (vc_hostname C) leaseSeconds) (Inr (row # rows)) \<in> H'" "r_id row = vj_ID job" "scanJob C row = Inr j"
  moreover from this have "heard_needy H' (vj_ID j)" if "some_id (vj_WorkerID j) = None"
    using that scan_fields by (auto simp: heard_needy_def)
  ultimately show "follows (justified C) H' (case Inr (Some j) of Inl e \<Rightarrow> Ret (Some e) | Inr None \<Rightarrow> Ret None
     | Inr (Some claimed) \<Rightarrow> provision C claimed)"
    by (auto intro: follows_provision)
qed auto

lemma follows_renewed:
  assumes "\<And>H'. H \<subseteq> H' \<Longrightarrow> follows (justified C) H' k"
  shows "follows (justified C) H (renewed C job k)"
  unfolding renewed_def RenewLease_def
  by (auto simp del: follows.simps intro!: jg.follows_one [where i = "vj_ID job"] assms) auto

lemma follows_provisioning:
  assumes "vj_WorkerID job = None \<Longrightarrow> heard_needy H (vj_ID job)"
  shows "follows (justified C) H (reconcileProvisioning C job)"
  unfolding reconcileProvisioning_def
proof (rule follows_renewed)
  fix H' assume H': "H \<subseteq> H'"
  have check: "follows (justified C) H1 (check_provisioning C job w)" for H1 w
    unfolding check_provisioning_def GetServer_def UpdateDetails_def store_Get_def
    by (auto simp del: follows.simps intro!: jg.follows_read jg.follows_one [where i = "vj_ID job"] follows_fail
        split: sum.split option.split) auto
  show "follows (justified C) H' (case vj_WorkerID job of None \<Rightarrow> provision C job
      | Some w \<Rightarrow> provisioningTimedOut job (\<lambda>late.
          if late then fail C job ''VM did not become ready before the provisioning timeout''
          else check_provisioning C job w))"
    using H' assms heard_more(3) [OF H']
    by (auto simp: provisioningTimedOut_def check intro!: follows_provision follows_fail split: option.split)
qed

lemma follows_running: "follows (justified C) H (reconcileRunning C job)"
  unfolding reconcileRunning_def
proof (rule follows_renewed)
  fix H'
  have check: "follows (justified C) H1 (check_running C job)" for H1
    unfolding check_running_def GetServer_def
    by (auto simp del: follows.simps intro!: jg.follows_read follows_fail split: sum.split option.split) auto
  show "follows (justified C) H' (jobTimedOut job (\<lambda>late. if late then fail C job ''job timed out'' else check_running C job))"
    by (auto simp: jobTimedOut_def check intro!: follows_fail split: option.split)
qed

lemma follows_reconcileJob: "follows (justified C) H (reconcileJob C i)"
  unfolding reconcileJob_def store_Get_def
proof (rule jg.follows_one [where i = i])
  fix row rows j H'
  assume read: "SqlE (QGet i) (Inr (row # rows)) \<in> H'" and row: "r_id row = i" "scanJob C row = Inr j"
  note f = scan_fields [OF row(2)]
  have needy: "heard_needy H' (vj_ID j)" if "vj_Status j = StatusProvisioning" "vj_WorkerID j = None"
    using that read f row(1) by (auto simp: heard_needy_def some_id_def)
  have over: "heard_over H' (vj_ID j)" if "terminal_status (vj_Status j)" using that read f row(1) by (auto simp: heard_over_def)
  show "follows (justified C) H' (case Inr (Some j) of Inl e \<Rightarrow> Ret (Some e) | Inr None \<Rightarrow> Ret None
     | Inr (Some job) \<Rightarrow>
         (case vj_Status job of
            StatusPending \<Rightarrow> claimAndProvision C job
          | StatusProvisioning \<Rightarrow> reconcileProvisioning C job
          | StatusRunning \<Rightarrow> reconcileRunning C job
          | StatusCompleted \<Rightarrow> cleanup C (vj_ID job)
          | StatusFailed \<Rightarrow> cleanup C (vj_ID job)
          | StatusOther _ \<Rightarrow> Ret None))"
    using needy over
    by (cases "vj_Status j")
       (simp_all add: follows_claim follows_provisioning follows_running follows_cleanup terminal_status_def)
qed auto

text \<open>The sweep: the machines it collects were listed, and not among the workers read before.\<close>

definition heard_listed :: "vm_config \<Rightarrow> vevent set \<Rightarrow> vserver \<Rightarrow> bool" where
  "heard_listed C H sv \<longleftrightarrow>
     (\<exists>page code text ss at_page last_page s.
        ApiE \<lparr> aq_method = ''GET'', aq_path = page_path page, aq_body = NoBody \<rparr> (Inr (code, text)) \<in> H \<and>
        vc_servers C text = Some (ss, at_page, last_page) \<and> s \<in> set ss \<and> sv = as_server s)"

lemma heard_listed_more: "H \<subseteq> H' \<Longrightarrow> heard_listed C H sv \<Longrightarrow> heard_listed C H' sv"
  unfolding heard_listed_def by blast

lemma page_path_other: "page_path page \<noteq> ''/servers''"
  by (simp add: page_path_def)

lemma follows_pages:
  assumes "\<forall>sv \<in> set acc. heard_listed C H sv"
    and fails: "\<And>x H'. H \<subseteq> H' \<Longrightarrow> (\<nexists>svs. x = Some (Inr svs)) \<Longrightarrow> follows (justified C) H' (k x)"
    and found: "\<And>svs H'. H \<subseteq> H' \<Longrightarrow> \<forall>sv \<in> set svs. heard_listed C H' sv \<Longrightarrow> follows (justified C) H' (k (Some (Inr svs)))"
  shows "follows (justified C) H (list_pages C n page acc k)"
  using assms
proof (induction n arbitrary: H page acc)
  case (Suc n)
  let ?q = "\<lparr> aq_method = ''GET'', aq_path = page_path page, aq_body = NoBody \<rparr>"
  have ok: "justified C H ?q" using page_path_other by (simp add: justified_def)
  have page: "follows (justified C) (insert (ApiE ?q (Inr (code, content))) H)
      (let acc = acc @ map as_server ss in if at_page \<ge> last_page \<or> last_page = 0 then k (Some (Inr acc))
       else list_pages C n (page + 1) acc k)"
    if "vc_servers C content = Some (ss, at_page, last_page)" for code content ss at_page last_page
  proof -
    let ?H = "insert (ApiE ?q (Inr (code, content))) H"
    have "heard_listed C ?H (as_server s)" if "s \<in> set ss" for s
      using that \<open>vc_servers C content = _\<close> unfolding heard_listed_def by blast
    then have acc: "\<forall>sv \<in> set (acc @ map as_server ss). heard_listed C ?H sv"
      using Suc.prems(1) heard_listed_more [OF subset_insertI] by auto
    have "follows (justified C) ?H (list_pages C n (page + 1) (acc @ map as_server ss) k)"
      by (rule Suc.IH [OF acc]) (use Suc.prems(2,3) in auto)
    moreover have "follows (justified C) ?H (k (Some (Inr (acc @ map as_server ss))))"
      by (rule Suc.prems(3)) (use acc in auto)
    ultimately show ?thesis by (simp add: Let_def)
  qed
  show ?case
    using ok page Suc.prems(2) by (auto simp: doRequest_def split: sum.split option.split prod.split)
qed auto

lemma follows_sweep: "follows (justified C) H (orphanSweep C)"
proof -
  have del: "follows (justified C) H2 (DeleteServer (sv_ID sv) Ret)"
    if "SqlE QWorkerIDs (Inr rows) \<in> H2" "heard_listed C H2 sv" "sweep_deletes {w. Some w \<in> r_workerID ` set rows} sv" for H2 sv rows
  proof -
    have "heard_unowned C H2 (sv_ID sv)"
      using that unfolding heard_unowned_def heard_listed_def sweep_deletes_def by blast
    then show ?thesis by (auto simp: DeleteServer_def justified_def intro!: jg.follows_request)
  qed
  have "follows (justified C) (insert (SqlE QWorkerIDs (Inr rows)) H) (ListServers C (\<lambda>ls. case ls of
           None \<Rightarrow> Ret None
         | Some (Inl e) \<Rightarrow> Ret (Some e)
         | Some (Inr servers) \<Rightarrow>
             pbind (each (\<lambda>s. DeleteServer (sv_ID s) Ret) (filter (sweep_deletes {w. Some w \<in> r_workerID ` set rows}) servers)) (\<lambda>_. Ret None)))" for rows
    unfolding ListServers_def
  proof (rule follows_pages)
    fix svs :: "vserver list" and H'
    assume H': "insert (SqlE QWorkerIDs (Inr rows)) H \<subseteq> H'" and listed: "\<forall>sv \<in> set svs. heard_listed C H' sv"
    show "follows (justified C) H' (case Some (Inr svs) of None \<Rightarrow> Ret None | Some (Inl e) \<Rightarrow> Ret (Some e)
         | Some (Inr servers) \<Rightarrow>
             pbind (each (\<lambda>s. DeleteServer (sv_ID s) Ret) (filter (sweep_deletes {w. Some w \<in> r_workerID ` set rows}) servers)) (\<lambda>_. Ret None))"
    proof (simp, rule jg.follows_bind, rule jg.follows_each)
      fix sv H2 assume "sv \<in> set (filter (sweep_deletes {w. Some w \<in> r_workerID ` set rows}) svs)" and H2: "H' \<subseteq> H2"
      then have "sweep_deletes {w. Some w \<in> r_workerID ` set rows} sv" "heard_listed C H2 sv"
        using listed heard_listed_more [OF H2] by auto
      moreover have "SqlE QWorkerIDs (Inr rows) \<in> H2" using H' H2 by blast
      ultimately show "follows (justified C) H2 (DeleteServer (sv_ID sv) Ret)" using del by blast
    qed simp
  qed (auto split: option.split sum.split)
  then show ?thesis by (auto simp: orphanSweep_def ListWorkerIDs_def split: sum.split)
qed

lemma scan_all_ids: "scan_all C rows = Inr jobs \<Longrightarrow> map vj_ID jobs = map r_id rows"
  by (induction rows arbitrary: jobs) (auto split: sum.splits dest: scan_fields)

lemma follows_for_status:
  assumes "\<And>i H'. H \<subseteq> H' \<Longrightarrow>
      (\<exists>rows row. SqlE (QList ss False) (Inr rows) \<in> H' \<and> row \<in> set rows \<and> r_id row = i \<and> r_status row \<in> set ss) \<Longrightarrow>
      follows (justified C) H' (f i)"
  shows "follows (justified C) H (for_status C ss f)"
proof -
  have "follows (justified C) (insert (SqlE (QList ss False) (Inr rows)) H) (each f (map vj_ID jobs))"
    if pl: "plausible (QList ss False) (Inr rows)" and sc: "scan_all C rows = Inr jobs" for rows jobs
  proof (rule jg.follows_each)
    fix i H' assume "i \<in> set (map vj_ID jobs)" and H': "insert (SqlE (QList ss False) (Inr rows)) H \<subseteq> H'"
    then obtain row where "row \<in> set rows" "r_id row = i" unfolding scan_all_ids [OF sc] by auto
    moreover have "r_status row \<in> set ss" using pl calculation(1) unfolding plausible_def by blast
    moreover have "SqlE (QList ss False) (Inr rows) \<in> H'" using H' by blast
    ultimately show "follows (justified C) H' (f i)" using assms H' by blast
  qed
  then show ?thesis by (auto simp: for_status_def ListByStatus_def split: sum.split)
qed

lemma follows_reconcileAll: "follows (justified C) H (reconcileAll C)"
proof -
  have ended: "follows (justified C) H' (for_status C [StatusCompleted, StatusFailed] (cleanup C))" for H'
  proof (rule follows_for_status, rule follows_cleanup)
    fix i H1
    assume "\<exists>rows row. SqlE (QList [StatusCompleted, StatusFailed] False) (Inr rows) \<in> H1 \<and> row \<in> set rows \<and>
      r_id row = i \<and> r_status row \<in> set [StatusCompleted, StatusFailed]"
    then show "heard_over H1 i" unfolding heard_over_def terminal_status_def by auto
  qed
  show ?thesis
    unfolding reconcileAll_def reconcilePending_def
    by (intro jg.follows_bind follows_for_status follows_reconcileJob ended follows_sweep) simp
qed

lemma follows_endpoint: "follows (justified C) H (handle_provision C req)"
proof -
  have trigger: "follows (justified C) H' (pbind (Trigger C i) (\<lambda>_. Ret a))" for H' i and a :: answer
    by (auto simp: Trigger_def intro!: jg.follows_bind follows_reconcileJob)
  show ?thesis
    unfolding handle_provision_def store_Get_def ClaimPending_def
    by (auto simp del: follows.simps intro!: jg.follows_one trigger split: option.split jobStatus.split) auto
qed

primrec config_of :: "activity \<Rightarrow> vm_config" where
  "config_of (Tick C) = C"
| "config_of (Ask C req) = C"

lemma follows_activity: "follows (justified (config_of a)) H (prog_of a)"
  by (cases a) (auto simp: follows_reconcileAll follows_endpoint intro!: jg.follows_bind)

text \<open>A process of the system is what is left of an activity after an exchange, or dead.\<close>

lemma exchange_more:
  "exchange p es (Sql q k) \<Longrightarrow> plausible q r \<Longrightarrow> exchange p (es @ [SqlE q r]) (k r)"
  "exchange p es (Api a j) \<Longrightarrow> exchange p (es @ [ApiE a x]) (j x)"
  "exchange p es (Clock l) \<Longrightarrow> exchange p (es @ [ClockE t]) (l t)"
proof -
  show "exchange p es (Sql q k) \<Longrightarrow> plausible q r \<Longrightarrow> exchange p (es @ [SqlE q r]) (k r)"
    by (induction p es "Sql q k" rule: exchange.induct) (auto intro: exchange.intros)
  show "exchange p es (Api a j) \<Longrightarrow> exchange p (es @ [ApiE a x]) (j x)"
    by (induction p es "Api a j" rule: exchange.induct) (auto intro: exchange.intros)
  show "exchange p es (Clock l) \<Longrightarrow> exchange p (es @ [ClockE t]) (l t)"
    by (induction p es "Clock l" rule: exchange.induct) (auto intro: exchange.intros)
qed

lemma process_exchanged:
  assumes "reachable s" and "p \<in> set (sy_procs s)"
  shows "p = Ret () \<or> (\<exists>a es. exchange (prog_of a) es p)"
proof (rule procs_inv [OF assms])
  show "prog_of a = Ret () \<or> (\<exists>b es. exchange (prog_of b) es (prog_of a))" for a
    using exchange.none by blast
qed (simp_all, (meson exchange_more)+)

lemma request_justified:
  assumes "reachable s" and "at_proc n s = Some (Api q k)"
  shows "\<exists>a es. exchange (prog_of a) es (Api q k) \<and> justified (config_of a) (set es) q"
proof -
  obtain a es where e: "exchange (prog_of a) es (Api q k)"
    using process_exchanged [OF assms(1)] at_proc_mem [OF assms(2)] by blast
  have "justified (config_of a) ({} \<union> set es) q"
    by (rule follows_exchange [OF exchange_more(2) [OF e] follows_activity, where post = "[]"]) simp
  with e show ?thesis by auto
qed

end
