(* ===== verification/VM_Claims.thy ===== *)
theory VM_Claims
  imports VM_Runs
begin

text \<open>
  Claims under every interleaving: the table's own condition makes them exclusive, and the start of a
  job is the time of its one claim.
\<close>

definition claim_times :: "happening list \<Rightarrow> string \<Rightarrow> int list" where
  "claim_times past i = List.map_filter (\<lambda>h.
     case h of Did t (QClaim j host secs) rows \<Rightarrow> if j = i \<and> rows \<noteq> [] then Some t else None | _ \<Rightarrow> None) past"

lemma claim_times_Cons:
  "claim_times (h # past) i =
     (case h of Did t (QClaim j host secs) rows \<Rightarrow> if j = i \<and> rows \<noteq> [] then t # claim_times past i else claim_times past i
      | _ \<Rightarrow> claim_times past i)"
  by (auto simp: claim_times_def List.map_filter_simps split: happening.split stmt.split)

lemma claim_times_calls: "\<forall>h \<in> set hs. \<exists>q r. h = Called q r \<Longrightarrow> claim_times (hs @ past) i = claim_times past i"
  by (induction hs) (auto simp: claim_times_Cons)

text \<open>A row agrees with the claims of its job that took effect: none, or one that started it.\<close>

definition agrees :: "int list \<Rightarrow> row \<Rightarrow> bool" where
  "agrees ts r \<longleftrightarrow>
     ts = [] \<and> r_startedAt r = None \<and> r_attempts r = 0 \<or>
     (\<exists>t. ts = [t] \<and> r_startedAt r = Some t \<and> r_attempts r = 1 \<and> r_status r \<noteq> StatusPending)"

definition claims_inv :: "vsys \<Rightarrow> bool" where
  "claims_inv s \<longleftrightarrow> distinct (map r_id (sy_table s)) \<and>
     (\<forall>r \<in> set (sy_table s). agrees (claim_times (sy_past s) (r_id r)) r) \<and>
     (\<forall>i. i \<notin> r_id ` set (sy_table s) \<longrightarrow> claim_times (sy_past s) i = [])"

text \<open>A change of rows that leaves the start, the attempts and a status other than pending alone.\<close>

definition calm :: "(row \<Rightarrow> row) \<Rightarrow> bool" where
  "calm f \<longleftrightarrow> (\<forall>r. r_id (f r) = r_id r \<and> r_startedAt (f r) = r_startedAt r \<and> r_attempts (f r) = r_attempts r \<and>
     (r_status r \<noteq> StatusPending \<longrightarrow> r_status (f r) \<noteq> StatusPending))"

lemma calm_agrees: "calm f \<Longrightarrow> agrees ts r \<Longrightarrow> agrees ts (f r)"
  by (auto simp: calm_def agrees_def)

lemma calm_rows:
  "calm (renew_row t secs)" "calm (clear_row t)" "s \<noteq> StatusPending \<Longrightarrow> calm (mark_row t s msg)"
  "pt_status p \<noteq> Some StatusPending \<Longrightarrow> calm (patch_row t p)"
  "terminal_status st \<Longrightarrow> calm (finish_row st t)"
  by (auto simp: calm_def renew_row_def clear_row_def mark_row_def patch_row_def finish_row_def or_else_def terminal_status_def
      split: option.splits)

lemma map_if_ids: "(\<And>r. r_id (f r) = r_id r) \<Longrightarrow> map r_id (map (\<lambda>r. if P r then f r else r) tb) = map r_id tb"
  by (induction tb) auto

lemma claims_inv_calm:
  assumes inv: "claims_inv s" and calm: "calm f" and upd: "fst (update_where P f (sy_table s)) = sy_table s'"
    and past: "\<And>i. claim_times (sy_past s') i = claim_times (sy_past s) i"
  shows "claims_inv s'"
proof -
  have tb: "sy_table s' = map (\<lambda>r. if P r then f r else r) (sy_table s)" using upd by (simp add: update_where_def)
  have ids: "map r_id (sy_table s') = map r_id (sy_table s)"
    unfolding tb by (rule map_if_ids) (use calm in \<open>auto simp: calm_def\<close>)
  then have "r_id ` set (sy_table s') = r_id ` set (sy_table s)" by (metis set_map)
  moreover have "\<forall>r \<in> set (sy_table s'). agrees (claim_times (sy_past s') (r_id r)) r"
    using inv calm_agrees [OF calm] calm unfolding tb by (auto simp: claims_inv_def past calm_def)
  ultimately show ?thesis using inv ids by (simp add: claims_inv_def past)
qed

text \<open>The claim itself finds its row pending, hence unclaimed.\<close>

lemma claims_inv_claim:
  assumes inv: "claims_inv s" and exec: "sql_exec t (QClaim i host secs) (sy_table s) = (sy_table s', rows)"
    and past: "sy_past s' = Did t (QClaim i host secs) rows # sy_past s"
  shows "claims_inv s'"
proof -
  let ?P = "\<lambda>r. r_id r = i \<and> r_status r = StatusPending \<and> lease_free t r" and ?f = "claim_row t host secs"
  have tb: "sy_table s' = map (\<lambda>r. if ?P r then ?f r else r) (sy_table s)" and rows: "rows = map ?f (filter ?P (sy_table s))"
    using exec by (auto simp: update_where_def)
  have id: "r_id (?f r) = r_id r" for r by (simp add: claim_row_def)
  have ids: "map r_id (sy_table s') = map r_id (sy_table s)" unfolding tb by (rule map_if_ids) (rule id)
  then have idset: "r_id ` set (sy_table s') = r_id ` set (sy_table s)" by (metis set_map)
  have agree: "agrees (claim_times (sy_past s') (r_id r')) r'" if r': "r' \<in> set (sy_table s')" for r'
  proof -
    obtain r where r: "r \<in> set (sy_table s)" "r' = (if ?P r then ?f r else r)" using r' unfolding tb by auto
    have old: "agrees (claim_times (sy_past s) (r_id r)) r" using inv r(1) by (simp add: claims_inv_def)
    show ?thesis
    proof (cases "?P r")
      case True
      then have "rows \<noteq> []" using r(1) rows by (auto simp: filter_empty_conv)
      moreover have "claim_times (sy_past s) i = []" using old True by (auto simp: agrees_def)
      ultimately show ?thesis
        using r(2) True old by (auto simp: past claim_times_Cons id agrees_def) (simp_all add: claim_row_def)
    next
      case False
      have "claim_times (sy_past s') (r_id r) = claim_times (sy_past s) (r_id r)"
      proof (cases "r_id r = i")
        case True
        have "rows = []"
        proof (rule ccontr)
          assume "rows \<noteq> []"
          then obtain x where "x \<in> set (sy_table s)" "?P x" using rows by (auto simp: filter_empty_conv)
          then have "x = r" using True r(1) inv by (auto simp: claims_inv_def distinct_map dest: inj_onD)
          then show False using \<open>?P x\<close> False by simp
        qed
        then show ?thesis by (simp add: past claim_times_Cons)
      next
        case False
        then show ?thesis by (auto simp: past claim_times_Cons)
      qed
      then show ?thesis using r(2) False old by simp
    qed
  qed
  have "claim_times (sy_past s') j = []" if "j \<notin> r_id ` set (sy_table s')" for j
  proof -
    have "j \<notin> r_id ` set (sy_table s)" using that idset by simp
    moreover from this have "rows = []" if "j = i" using that rows by (auto simp: filter_empty_conv)
    ultimately show ?thesis using inv by (auto simp: past claim_times_Cons claims_inv_def)
  qed
  with agree ids inv show ?thesis by (simp add: claims_inv_def)
qed

lemma claims_inv_reachable: "reachable s \<Longrightarrow> claims_inv s"
proof (induction rule: reachable.induct)
  case start
  show ?case by (simp add: claims_inv_def no_jobs_def claim_times_def List.map_filter_simps)
next
  case (step s c s')
  show ?case
    using step.hyps
  proof (cases rule: step_table)
    case same
    then have "claim_times (sy_past s') i = claim_times (sy_past s) i" for i using claim_times_calls by metis
    with same(1) step.IH show ?thesis by (simp add: claims_inv_def)
  next
    case (stmt t q rows)
    have other: "claim_times (sy_past s') i = claim_times (sy_past s) i" if "\<nexists>j h n. q = QClaim j h n" for i
      using that stmt(3) by (auto simp: claim_times_Cons split: stmt.split)
    show ?thesis
    proof (cases q)
      case (QClaim i host secs)
      with stmt step.IH show ?thesis using claims_inv_claim by blast
    next
      case (QRenew i host secs)
      then have upd: "fst (update_where (\<lambda>r. r_id r = i \<and> r_claimedBy r = Some host) (renew_row t secs) (sy_table s)) = sy_table s'" using stmt(1,2) by (auto split: option.splits)
      show ?thesis by (rule claims_inv_calm [OF step.IH _ upd other]) (use QRenew stmt(1) in \<open>auto simp: calm_rows\<close>)
    next
      case (QUpdate i p)
      then have upd: "fst (update_where (\<lambda>r. r_id r = i) (patch_row t p) (sy_table s)) = sy_table s'" using stmt(1,2) by (auto split: option.splits)
      show ?thesis by (rule claims_inv_calm [OF step.IH _ upd other]) (use QUpdate stmt(1) in \<open>auto intro!: calm_rows(4)\<close>)
    next
      case (QMark i st msg)
      then have upd: "fst (update_where (\<lambda>r. r_id r = i) (mark_row t st msg) (sy_table s)) = sy_table s'" using stmt(1,2) by (auto split: option.splits)
      show ?thesis by (rule claims_inv_calm [OF step.IH _ upd other]) (use QMark stmt(1) in \<open>auto intro!: calm_rows(3)\<close>)
    next
      case (QClear i)
      then have upd: "fst (update_where (\<lambda>r. r_id r = i) (clear_row t) (sy_table s)) = sy_table s'" using stmt(1,2) by (auto split: option.splits)
      show ?thesis by (rule claims_inv_calm [OF step.IH _ upd other]) (use QClear stmt(1) in \<open>auto simp: calm_rows\<close>)
    qed (use stmt step.IH other in \<open>auto simp: claims_inv_def\<close>)
  next
    case (enter r)
    then show ?thesis using step.IH by (auto simp: claims_inv_def fresh_row_def agrees_def)
  next
    case (finish i st t)
    show ?thesis
      by (rule claims_inv_calm [OF step.IH calm_rows(5) [OF finish(1)], of "\<lambda>r. r_id r = i" t])
         (simp_all add: finish update_where_def)
  qed
qed

end
