(* ===== verification/VM_Demo.thy ===== *)
theory VM_Demo
  imports VM_Justified VM_Claims
begin

text \<open>
  A small installation: two provisioners \<open>a\<close> and \<open>b\<close>, a job \<open>j\<close>, and answers of the cloud; and runs of it
  in which the steps of the processes fall badly.
\<close>

definition demo_payload :: jobPayload where
  "demo_payload =
     \<lparr> pl_image = Some ''ghcr.io/x/w:1'', pl_command = [''run''], pl_args = [], pl_env = [], pl_modelsVolume = None,
       pl_modelsVolumeKebab = None, pl_storage = None, pl_input = [], pl_output = None, pl_callbackURL = None,
       pl_timeoutSeconds = Some 60, pl_serverType = None \<rparr>"

definition demo_server :: "string \<Rightarrow> (int \<times> string \<times> string \<times> string) option" where
  "demo_server content = (if content = ''server'' then Some (42, ''j'', ''running'', ''1.2.3.4'') else None)"

definition demo_servers :: "string \<Rightarrow> ((int \<times> string \<times> string \<times> string) list \<times> int \<times> int) option" where
  "demo_servers content = (if content = ''servers'' then Some ([(42, ''j'', ''running'', ''1.2.3.4'')], 1, 1) else None)"

definition demo_config :: "string \<Rightarrow> vm_config" where
  "demo_config host =
     \<lparr> vc_hostname = host, vc_getenv = (\<lambda>_. []), vc_payload = (\<lambda>content. if content = ''payload'' then Some demo_payload else None),
       vc_specJSON = (\<lambda>_. Some ''{}''), vc_server = demo_server, vc_servers = demo_servers, vc_volume = (\<lambda>_. None),
       vc_quote = (\<lambda>s. s), vc_wait = 31, vc_pages = Suc 0 \<rparr>"

lemma demo_config_simps [simp]:
  "vc_hostname (demo_config h) = h" "vc_getenv (demo_config h) v = []"
  "vc_payload (demo_config h) content = (if content = ''payload'' then Some demo_payload else None)"
  "vc_server (demo_config h) = demo_server" "vc_servers (demo_config h) = demo_servers" "vc_pages (demo_config h) = Suc 0"
  by (simp_all add: demo_config_def)

definition demo_row :: row where
  "demo_row =
     \<lparr> r_id = ''j'', r_tenant = ''t'', r_execution = ''e'', r_node = ''n'', r_hookToken = ''h'', r_status = StatusPending,
       r_payload = ''payload'', r_workerID = None, r_workerIP = None, r_volumeID = None, r_startedAt = None, r_completedAt = None,
       r_claimedBy = None, r_leaseUntil = None, r_attempts = 0, r_error = None, r_createdAt = 0, r_updatedAt = 0 \<rparr>"

text \<open>The run of a schedule from the empty system, and what is asked about its end.\<close>

definition ends_in :: "choice list \<Rightarrow> (vsys \<Rightarrow> bool) \<Rightarrow> bool" where
  "ends_in cs P \<longleftrightarrow> (case vrun cs no_jobs of Some s \<Rightarrow> P s | None \<Rightarrow> False)"

definition calls :: "happening list \<Rightarrow> (string \<times> string) list" where
  "calls past = List.map_filter (\<lambda>h. case h of Called q r \<Rightarrow> Some (aq_method q, aq_path q) | _ \<Rightarrow> None) past"

lemma ends_in_reachable: "ends_in cs P \<Longrightarrow> \<exists>s. reachable s \<and> P s"
  using vrun_reachable [OF reachable.start] by (auto simp: ends_in_def split: option.splits)

text \<open>The endpoint of \<open>b\<close> claims the job \<open>j\<close>, creates the machine 42 and records it.\<close>

definition provision_j :: "nat \<Rightarrow> choice list" where
  "provision_j n =
     [Begin (Ask (demo_config ''b'') (Some ''j'')), DoSql n 10 Acked, DoSql n 10 Acked, DoSql n 10 Acked, DoSql n 10 Acked,
      DoApi n (Inr (201, ''server'')), DoSql n 10 Acked]"

text \<open>
  The sweep of \<open>a\<close> reads the workers of the jobs, and only then lists the machines: the machine of a job
  provisioned in between is listed without an owner, and deleted.
\<close>

definition sweep_race :: "choice list" where
  "sweep_race =
     Begin (Tick (demo_config ''a'')) # [DoSql 0 9 Acked, DoSql 0 9 Acked, DoSql 0 9 Acked, DoSql 0 9 Acked, DoSql 0 9 Acked] @ [Enter demo_row] @ provision_j 1 @
     [DoApi 0 (Inr (200, ''servers'')), DoApi 0 (Inr (200, []))]"

text \<open>The user data of the job.\<close>

definition demo_init :: string where
  "demo_init = cloudInitTemplate (init_data (demo_config ''b'') demo_payload ''j'' ''{}'')"

lemma demo_init_b: "GenerateCloudInit (demo_config ''b'') demo_payload ''j'' = Inr demo_init"
proof -
  have "length demo_init \<le> 32768" by code_simp
  moreover have "worker_image (demo_config ''b'') demo_payload = ''ghcr.io/x/w:1''" by code_simp
  moreover have "valid_image ''ghcr.io/x/w:1''" by code_simp
  moreover have "vc_specJSON (demo_config ''b'') = (\<lambda>_. Some ''{}'')" by (simp add: demo_config_def)
  ultimately show ?thesis by (simp add: GenerateCloudInit_def Let_def flip: demo_init_def)
qed

lemma host_free: "GenerateCloudInit ((C :: vm_config)\<lparr>vc_hostname := h\<rparr>) p i = GenerateCloudInit C p i"
proof -
  have same: "vc_getenv (C\<lparr>vc_hostname := h\<rparr>) = vc_getenv C" "vc_specJSON (C\<lparr>vc_hostname := h\<rparr>) = vc_specJSON C"
    "vc_quote (C\<lparr>vc_hostname := h\<rparr>) = vc_quote C"
    by simp_all
  show ?thesis
    unfolding GenerateCloudInit_def init_data_def worker_spec_def worker_image_def volume_device_def job_volume_def callback_url_def same
    by (rule refl)
qed

lemma demo_init: "GenerateCloudInit (demo_config h) demo_payload ''j'' = Inr demo_init"
  using host_free [of h "demo_config ''b''" demo_payload "''j''"] by (simp add: demo_init_b) (simp add: demo_config_def)

text \<open>Programs are computed call by call: what follows a call is left alone until its reply is there.\<close>

lemma lazy:
  "q = q' \<Longrightarrow> Sql q k = Sql q' k" "a = a' \<Longrightarrow> Api a l = Api a' l" "Clock m = Clock m"
  "p = p' \<Longrightarrow> pbind p f = pbind p' f" "store_Get C i k1 = store_Get C i k1" "ClaimPending C i h n k1 = ClaimPending C i h n k1"
  "RenewLease C i h n k1 = RenewLease C i h n k1" "UpdateDetails C i pt k1 = UpdateDetails C i pt k1"
  "MarkTerminal C i st e k1 = MarkTerminal C i st e k1" "ClearWorkerID i k2 = ClearWorkerID i k2" "ListWorkerIDs k3 = ListWorkerIDs k3"
  "ListByStatus C ss b k4 = ListByStatus C ss b k4" "doRequest mt pa bo k5 = doRequest mt pa bo k5"
  "CreateServer C nm ci ty k6 = CreateServer C nm ci ty k6" "GetServer C i k6 = GetServer C i k6" "DeleteServer i k2 = DeleteServer i k2"
  "ListServers C k7 = ListServers C k7" "fu = fu' \<Longrightarrow> ac = ac' \<Longrightarrow> list_pages C fu pg ac k7 = list_pages C fu' pg ac' k7" "renewed C j k8 = renewed C j k8"
  "provisioningTimedOut j k9 = provisioningTimedOut j k9" "jobTimedOut j k9 = jobTimedOut j k9" "for_status C ss g = for_status C ss g"
  by simp_all

lemmas provisioner_defs =
  reconcileAll_def reconcilePending_def for_status_def reconcileJob_def claimAndProvision_def provision_def reconcileProvisioning_def
  check_provisioning_def reconcileRunning_def jobTimedOut_def check_running_def renewed_def provisioningTimedOut_def
  cleanup_def cleanup_volume_def fail_def orphanSweep_def handle_provision_def Trigger_def attach_volume_def
  store_Get_def ClaimPending_def RenewLease_def UpdateDetails_def MarkTerminal_def ClearWorkerID_def ListWorkerIDs_def ListByStatus_def
  CreateServer_def GetServer_def DeleteServer_def ListServers_def doRequest_def

lemma demo_texts [simp]: "Itoa 42 = ''42''" "TrimSpace ''j'' = ''j''"
  by code_simp+

lemma demo_payload_simps [simp]:
  "pl_serverType demo_payload = None" "pl_timeoutSeconds demo_payload = Some 60" "job_volume C demo_payload = []"
  by (simp_all add: demo_payload_def job_volume_def RequiresModelVolume_def image_needs_volume_def) code_simp

lemmas table_defs =
  update_where_def lease_free_def lease_expired_def claim_row_def renew_row_def patch_row_def mark_row_def clear_row_def
  or_else_def set_some_def one_job_def scanJob_def worker_patch_def no_patch_def some_id_def fresh_row_def finish_row_def terminal_status_def

lemmas demo_run =
  at_proc_def sql_step_def provisioner_defs table_defs demo_init demo_row_def demo_server_def demo_servers_def as_server_def
  sweep_deletes_def calls_def List.map_filter_simps

lemma sweep_deletes_live:
  "ends_in sweep_race (\<lambda>s. map (\<lambda>r. (r_id r, r_status r, r_workerID r)) (sy_table s) = [(''j'', StatusProvisioning, Some ''42'')] \<and>
     hd (calls (sy_past s)) = (''DELETE'', ''/servers/42''))"
  unfolding ends_in_def sweep_race_def provision_j_def no_jobs_def
  by (simp add: demo_run cong: lazy)

lemma sweep_run_state:
  "ends_in sweep_race (\<lambda>s. map (\<lambda>r. (r_id r, r_status r, r_workerID r, r_attempts r)) (sy_table s) =
     [(''j'', StatusProvisioning, Some ''42'', 1)])"
  unfolding ends_in_def sweep_race_def provision_j_def no_jobs_def
  by (simp add: demo_run cong: lazy)

text \<open>
  A lease keeps no one away: while \<open>b\<close> is creating the machine of the job it has just claimed, the tick of \<open>a\<close>
  finds the job without a worker and creates one too. The service refuses the second of that name, and the
  refusal ends the job and deletes the machine of \<open>b\<close>.
\<close>

definition lease_race :: "choice list" where
  "lease_race =
     [Enter demo_row, Begin (Ask (demo_config ''b'') (Some ''j'')), DoSql 0 10 Acked, DoSql 0 10 Acked, DoSql 0 10 Acked, DoSql 0 10 Acked,
      Begin (Tick (demo_config ''a'')), DoSql (Suc 0) 11 Acked, DoSql (Suc 0) 11 Acked, DoSql (Suc 0) 11 Acked,
      DoApi 0 (Inr (201, ''server'')), DoSql 0 12 Acked, DoApi (Suc 0) (Inr (409, [])),
      DoSql (Suc 0) 13 Acked, DoSql (Suc 0) 13 Acked, DoApi (Suc 0) (Inr (200, []))]"

lemma demo_conflict [simp]: "unrecoverableHcloudError ''failed to create server: API error 409: ''" "Itoa 409 = ''409''"
  by code_simp+

lemma lease_ignored:
  "ends_in lease_race (\<lambda>s. map (\<lambda>r. (r_status r, r_claimedBy r)) (sy_table s) = [(StatusFailed, Some ''b'')] \<and>
     calls (sy_past s) = [(''DELETE'', ''/servers/42''), (''POST'', ''/servers''), (''POST'', ''/servers'')])"
  unfolding ends_in_def lease_race_def no_jobs_def
  by (simp add: demo_run cong: lazy)

text \<open>The same run before its last step: the deletion is about to be sent.\<close>

lemma lease_run_state:
  "ends_in (butlast lease_race) (\<lambda>s. \<exists>q k. at_proc (Suc 0) s = Some (Api q k) \<and> aq_method q = ''DELETE'' \<and> aq_path q = ''/servers/42'')"
  unfolding ends_in_def lease_race_def no_jobs_def
  by (simp add: demo_run cong: lazy)

text \<open>
  A provisioner that dies between creating a machine and recording it: the next pass meets the name taken,
  and fails the job for good.
\<close>

definition crash_run :: "choice list" where
  "crash_run =
     [Enter demo_row, Begin (Ask (demo_config ''b'') (Some ''j'')), DoSql 0 10 Acked, DoSql 0 10 Acked, DoSql 0 10 Acked, DoSql 0 10 Acked,
      DoApi 0 (Inr (201, ''server'')), Die 0,
      Begin (Tick (demo_config ''b'')), DoSql (Suc 0) 11 Acked, DoSql (Suc 0) 11 Acked, DoSql (Suc 0) 11 Acked, DoSql (Suc 0) 11 Acked,
      DoApi (Suc 0) (Inr (409, [])), DoSql (Suc 0) 13 Acked]"

lemma crash_fails_job:
  "ends_in crash_run (\<lambda>s. map (\<lambda>r. (r_status r, r_workerID r)) (sy_table s) = [(StatusFailed, None)] \<and>
     calls (sy_past s) = [(''POST'', ''/servers''), (''POST'', ''/servers'')])"
  unfolding ends_in_def crash_run_def no_jobs_def
  by (simp add: demo_run cong: lazy)

text \<open>
  The ending of a job is overwritten: the SDK completes it after a pass has read it as provisioning, and the
  pass then reports it running.
\<close>

definition late_update :: "choice list" where
  "late_update =
     Enter demo_row # provision_j 0 @
     [Begin (Tick (demo_config ''a'')), DoSql (Suc 0) 11 Acked, DoSql (Suc 0) 11 Acked, DoSql (Suc 0) 11 Acked, DoClock (Suc 0) 12,
      DoApi (Suc 0) (Inr (200, ''server'')), Finish ''j'' StatusCompleted 13, DoSql (Suc 0) 14 Acked]"

lemma ending_overwritten:
  "ends_in late_update (\<lambda>s. map (\<lambda>r. (r_status r, r_completedAt r)) (sy_table s) = [(StatusRunning, Some 13)])"
  unfolding ends_in_def late_update_def provision_j_def no_jobs_def
  by (simp add: demo_run time_sub_def sat64_def provisioningTimeout_def cong: lazy)

end
