(* ===== verification/VM_Passes.thy ===== *)
theory VM_Passes
  imports VM_Justified
begin

text \<open>
  A pass over one job: its runs while no other process touches the table, the statuses it can set,
  and which machine it can delete, whatever the others do.
\<close>

subsection \<open>Undisturbed runs\<close>

text \<open>
  \<open>alone p tb es x tb'\<close>: started on the table \<open>tb\<close>, the program exchanges \<open>es\<close>, returns \<open>x\<close> and leaves
  \<open>tb'\<close>. A statement may be lost, or take effect without an acknowledgement.
\<close>

inductive alone :: "'a prog \<Rightarrow> table \<Rightarrow> vevent list \<Rightarrow> 'a \<Rightarrow> table \<Rightarrow> bool" where
  ret: "alone (Ret x) tb [] x tb"
| acked: "sql_exec t q tb = (tb1, rows) \<Longrightarrow> alone (k (Inr rows)) tb1 es x tb2 \<Longrightarrow> alone (Sql q k) tb (SqlE q (Inr rows) # es) x tb2"
| lost: "alone (k (Inl e)) tb es x tb2 \<Longrightarrow> alone (Sql q k) tb (SqlE q (Inl e) # es) x tb2"
| unacked: "sql_exec t q tb = (tb1, rows) \<Longrightarrow> alone (k (Inl e)) tb1 es x tb2 \<Longrightarrow> alone (Sql q k) tb (SqlE q (Inl e) # es) x tb2"
| api: "alone (k r) tb es x tb2 \<Longrightarrow> alone (Api q k) tb (ApiE q r # es) x tb2"
| clock: "alone (k t) tb es x tb2 \<Longrightarrow> alone (Clock k) tb (ClockE t # es) x tb2"

inductive_cases alone_RetE: "alone (Ret x) tb es y tb2"
inductive_cases alone_SqlE: "alone (Sql q k) tb es y tb2"
inductive_cases alone_ApiE: "alone (Api q k) tb es y tb2"
inductive_cases alone_ClockE: "alone (Clock k) tb es y tb2"

lemma alone_Ret [simp]: "alone (Ret x) tb es y tb2 \<longleftrightarrow> es = [] \<and> y = x \<and> tb2 = tb"
  by (auto elim: alone_RetE intro: alone.ret)

text \<open>Every program ends, whatever it is told.\<close>

lemma alone_ends: "\<exists>es x tb2. alone p tb es x tb2 \<and> (\<forall>e. SqlE q (Inl e) \<notin> set es)"
proof (induction p arbitrary: tb)
  case (Ret x)
  then show ?case by auto
next
  case (Sql s k)
  obtain tb1 rows where e: "sql_exec 0 s tb = (tb1, rows)" by fastforce
  obtain es x tb2 where "alone (k (Inr rows)) tb1 es x tb2" "\<forall>e. SqlE q (Inl e) \<notin> set es" using Sql by blast
  with e alone.acked [OF e] show ?case
    by (intro exI [of _ "SqlE s (Inr rows) # es"] exI [of _ x] exI [of _ tb2]) auto
next
  case (Api a k)
  obtain es x tb2 where "alone (k (Inl [])) tb es x tb2" "\<forall>e. SqlE q (Inl e) \<notin> set es" using Api by blast
  then show ?case by (intro exI [of _ "ApiE a (Inl []) # es"] exI [of _ x] exI [of _ tb2]) (auto intro: alone.api)
next
  case (Clock k)
  obtain es x tb2 where "alone (k 0) tb es x tb2" "\<forall>e. SqlE q (Inl e) \<notin> set es" using Clock by blast
  then show ?case by (intro exI [of _ "ClockE 0 # es"] exI [of _ x] exI [of _ tb2]) (auto intro: alone.clock)
qed

subsection \<open>The life of a job\<close>

text \<open>Where a pass may take a job: the edges of the intended life, two of which one pass can take together.\<close>

fun life_step :: "jobStatus \<Rightarrow> jobStatus set" where
  "life_step StatusPending = {StatusProvisioning, StatusFailed}"
| "life_step StatusProvisioning = {StatusRunning, StatusFailed}"
| "life_step StatusRunning = {StatusFailed}"
| "life_step _ = {}"

text \<open>The rows of other jobs stay as they are; a row of the job keeps its id, and its status or takes one of \<open>T\<close>.\<close>

definition only_job :: "string \<Rightarrow> jobStatus set \<Rightarrow> table \<Rightarrow> table \<Rightarrow> bool" where
  "only_job i T tb tb' \<longleftrightarrow>
     list_all2 (\<lambda>r r'. r_id r' = r_id r \<and> (if r_id r = i then r_status r' = r_status r \<or> r_status r' \<in> T else r' = r)) tb tb'"

lemma only_job_refl: "only_job i T tb tb"
  by (simp add: only_job_def list.rel_refl)

lemma only_job_trans: "only_job i T a b \<Longrightarrow> only_job i T b c \<Longrightarrow> only_job i T a c"
  unfolding only_job_def by (erule (1) list_all2_trans [rotated]) (auto split: if_splits)

lemma only_job_mono: "only_job i T a b \<Longrightarrow> T \<subseteq> U \<Longrightarrow> only_job i U a b"
  unfolding only_job_def by (erule list_all2_mono) auto

lemma only_job_update:
  assumes "\<And>r. P r \<Longrightarrow> r_id r = i" and "\<And>r. P r \<Longrightarrow> r_id (f r) = r_id r \<and> (r_status (f r) = r_status r \<or> r_status (f r) \<in> T)"
  shows "only_job i T tb (fst (update_where P f tb))"
  using assms by (simp add: only_job_def update_where_def list_all2_map2 list.rel_refl_strong)

lemma exec_only_job: "on_job i T q \<Longrightarrow> only_job i T tb (fst (sql_exec t q tb))"
  by (cases q)
     (auto simp: on_job_def only_job_refl claim_row_def renew_row_def patch_row_def mark_row_def clear_row_def or_else_def
       intro!: only_job_update split: option.splits)

lemma alone_only_job:
  assumes "alone p tb es x tb'" and "job_prog i T p"
  shows "only_job i T tb tb'"
  using assms
proof (induction rule: alone.induct)
  case (acked t q tb tb1 rows k es x tb2)
  then have "only_job i T tb tb1" using exec_only_job [of i T q tb t] by simp
  moreover have "plausible q (Inr rows)" using exec_plausible(1) [of q t tb] acked.hyps(1) by simp
  ultimately show ?case using acked only_job_trans by auto
next
  case (unacked t q tb tb1 rows k e es x tb2)
  then have "only_job i T tb tb1" using exec_only_job [of i T q tb t] by simp
  then show ?case using unacked exec_plausible(2) [of q e] only_job_trans by auto
qed (auto simp: only_job_refl exec_plausible)

text \<open>After its first statement, a pass goes on with the job it read.\<close>

lemma status_prog:
  assumes "one_job C (Inr (filter (\<lambda>r. r_id r = i) tb)) = Inr (Some job)"
  shows "vj_ID job = i" and "\<exists>r \<in> set tb. r_id r = i \<and> r_status r = vj_Status job \<and> r_workerID r = vj_WorkerID job"
proof -
  obtain r rs where f: "filter (\<lambda>r. r_id r = i) tb = r # rs" and j: "scanJob C r = Inr job"
    using assms by (auto simp: one_job_def split: list.splits)
  have "r \<in> set tb" "r_id r = i" using f by (auto simp: filter_eq_Cons_iff)
  with j show "vj_ID job = i" and "\<exists>r \<in> set tb. r_id r = i \<and> r_status r = vj_Status job \<and> r_workerID r = vj_WorkerID job"
    by (auto simp: scanJob_def split: option.splits)
qed

lemma alone_get:
  assumes "alone (Sql (QGet i) k) tb es x tb'"
  obtains reply es1 where "reply = Inr (filter (\<lambda>r. r_id r = i) tb) \<or> (\<exists>e. reply = Inl e)"
    and "alone (k reply) tb es1 x tb'" and "es = SqlE (QGet i) reply # es1"
  using assms by (rule alone_SqlE) auto

lemma same_row: "distinct (map r_id tb) \<Longrightarrow> a \<in> set tb \<Longrightarrow> b \<in> set tb \<Longrightarrow> r_id a = r_id b \<Longrightarrow> a = b"
  unfolding distinct_map by (blast dest: inj_onD)

lemma reconcileJob_only_job:
  assumes run: "alone (reconcileJob C i) tb es x tb'" and ids: "distinct (map r_id tb)" and r: "r \<in> set tb" "r_id r = i"
  shows "only_job i (life_step (r_status r)) tb tb'"
proof -
  let ?k = "\<lambda>res. case res of Inl e \<Rightarrow> Ret (Some e) | Inr None \<Rightarrow> Ret None | Inr (Some job) \<Rightarrow>
         (case vj_Status job of
            StatusPending \<Rightarrow> claimAndProvision C job | StatusProvisioning \<Rightarrow> reconcileProvisioning C job
          | StatusRunning \<Rightarrow> reconcileRunning C job | StatusCompleted \<Rightarrow> cleanup C (vj_ID job)
          | StatusFailed \<Rightarrow> cleanup C (vj_ID job) | StatusOther _ \<Rightarrow> Ret None)"
  define k where "k = (\<lambda>reply. ?k (one_job C reply))"
  have "alone (Sql (QGet i) k) tb es x tb'" using run unfolding reconcileJob_def store_Get_def k_def .
  then obtain reply es1 where reply: "reply = Inr (filter (\<lambda>r. r_id r = i) tb) \<or> (\<exists>e. reply = Inl e)"
    and rest: "alone (k reply) tb es1 x tb'" and "es = SqlE (QGet i) reply # es1"
    by (rule alone_get)
  have "job_prog i (life_step (r_status r)) (k reply)"
  proof (cases "one_job C reply")
    case (Inr o1)
    then have full: "reply = Inr (filter (\<lambda>r. r_id r = i) tb)" using reply by (auto simp: one_job_def)
    show ?thesis
    proof (cases o1)
      case (Some job)
      note j = status_prog [OF Inr [unfolded full Some]]
      then obtain r' where "r' \<in> set tb" "r_id r' = i" "r_status r' = vj_Status job" by blast
      then have "vj_Status job = r_status r" using r same_row [OF ids] by metis
      with Inr Some j(1) show ?thesis
        by (cases "r_status r") (simp_all add: k_def job_claim job_provisioning job_running job_cleanup)
    qed (simp add: Inr k_def)
  qed (simp add: k_def)
  with rest show ?thesis by (rule alone_only_job)
qed

end
