(* ===== verification/VM_Play.thy ===== *)
theory VM_Play
  imports VM_Passes
begin

text \<open>
  Undisturbed passes computed: every statement is acknowledged, the cloud answers as a function of the
  request, and the clock gives its next reading. What a pass does to the table and asks of the cloud, the
  end of the two loops that have no bound of their own, and the sweep.
\<close>

subsection \<open>Playing a program\<close>

text \<open>The result, the new table, the number of clock readings so far and the requests made.\<close>

primrec play :: "(api_request \<Rightarrow> api_reply) \<Rightarrow> (nat \<Rightarrow> int) \<Rightarrow> 'a prog \<Rightarrow> table \<Rightarrow> nat \<Rightarrow> 'a \<times> table \<times> nat \<times> api_request list" where
  "play svc clk (Ret x) tb n = (x, tb, n, [])"
| "play svc clk (Sql q k) tb n =
     (case sql_exec (clk n) q tb of (tb1, rows) \<Rightarrow> play svc clk (k (Inr rows)) tb1 n)"
| "play svc clk (Api q k) tb n =
     (case play svc clk (k (svc q)) tb n of (x, tb1, m, qs) \<Rightarrow> (x, tb1, m, q # qs))"
| "play svc clk (Clock k) tb n = play svc clk (k (clk n)) tb (Suc n)"

definition table_after :: "'a \<times> table \<times> nat \<times> api_request list \<Rightarrow> table" where
  "table_after r = fst (snd r)"

definition requests :: "'a \<times> table \<times> nat \<times> api_request list \<Rightarrow> api_request list" where
  "requests r = snd (snd (snd r))"

lemma table_after_simps [simp]:
  "table_after (play svc clk (Ret x) tb n) = tb"
  "table_after (play svc clk (Sql q k) tb n) =
     table_after (play svc clk (k (Inr (snd (sql_exec (clk n) q tb)))) (fst (sql_exec (clk n) q tb)) n)"
  "table_after (play svc clk (Api a j) tb n) = table_after (play svc clk (j (svc a)) tb n)"
  "table_after (play svc clk (Clock l) tb n) = table_after (play svc clk (l (clk n)) tb (Suc n))"
  by (simp_all add: table_after_def split: prod.split)

lemma requests_simps [simp]:
  "requests (play svc clk (Ret x) tb n) = []"
  "requests (play svc clk (Sql q k) tb n) =
     requests (play svc clk (k (Inr (snd (sql_exec (clk n) q tb)))) (fst (sql_exec (clk n) q tb)) n)"
  "requests (play svc clk (Api a j) tb n) = a # requests (play svc clk (j (svc a)) tb n)"
  "requests (play svc clk (Clock l) tb n) = requests (play svc clk (l (clk n)) tb (Suc n))"
  by (simp_all add: requests_def split: prod.split)

lemma pair_simps [simp]: "table_after (x, tb, n, qs) = tb" "requests (x, tb, n, qs) = qs"
  by (simp_all add: table_after_def requests_def)

declare play.simps [simp del]

lemma play_bind_requests:
  "requests (play svc clk (pbind p f) tb n) =
     requests (play svc clk p tb n) @
     (case play svc clk p tb n of (x, tb1, m, _) \<Rightarrow> requests (play svc clk (f x) tb1 m))"
proof (induction p arbitrary: tb n)
  case (Api q k)
  show ?case using Api [of "k (svc q)" tb n] by (simp add: play.simps(3) [of svc clk q k] split: prod.split)
qed (simp_all add: play.simps split: prod.split)

text \<open>A program that sends no statement leaves the table.\<close>

lemma play_no_sql: "calls_ok (\<lambda>_. False) Q p \<Longrightarrow> table_after (play svc clk p tb n) = tb"
  by (induction p arbitrary: tb n) auto

lemma volume_no_sql:
  "table_after (play svc clk (attach_volume C v s) tb n) = tb" "table_after (play svc clk (cleanup_volume C job) tb n) = tb"
  by (rule play_no_sql [where Q = "\<lambda>_. True"],
      auto simp: attach_volume_def cleanup_volume_def intro!: calls_ok_volume split: option.split)+

subsection \<open>One row\<close>

text \<open>The table with the row of job \<open>i\<close> replaced; a statement about that job reads and writes this row only.\<close>

definition put_row :: "string \<Rightarrow> row \<Rightarrow> table \<Rightarrow> table" where
  "put_row i r tb = map (\<lambda>x. if r_id x = i then r else x) tb"

definition has_row :: "string \<Rightarrow> row \<Rightarrow> table \<Rightarrow> bool" where
  "has_row i r tb \<longleftrightarrow> distinct (map r_id tb) \<and> r \<in> set tb \<and> r_id r = i"

lemma has_row_filter: "has_row i r tb \<Longrightarrow> filter (\<lambda>x. r_id x = i) tb = [r]"
proof -
  assume h: "has_row i r tb"
  then obtain xs ys where tb: "tb = xs @ r # ys" unfolding has_row_def using split_list [of r tb] by blast
  have "distinct (map r_id xs @ i # map r_id ys)" using h by (auto simp: tb has_row_def)
  then have "i \<notin> r_id ` set xs" "i \<notin> r_id ` set ys" by simp_all
  then have "filter (\<lambda>x. r_id x = i) xs = []" "filter (\<lambda>x. r_id x = i) ys = []" by (auto simp: filter_empty_conv)
  with tb h show ?thesis by (simp add: has_row_def)
qed

lemma has_row_only: "has_row i r tb \<Longrightarrow> x \<in> set tb \<Longrightarrow> r_id x = i \<longleftrightarrow> x = r"
  unfolding has_row_def using same_row by blast

lemma has_row_put:
  assumes "has_row i r tb" and "r_id r' = i"
  shows "has_row i r' (put_row i r' tb)"
proof -
  have "map r_id (put_row i r' tb) = map r_id tb" using assms(2) by (simp add: put_row_def)
  moreover have "r' \<in> set (put_row i r' tb)" using assms(1) unfolding has_row_def put_row_def by force
  ultimately show ?thesis using assms by (simp add: has_row_def)
qed

lemma put_put [simp]: "r_id r = i \<Longrightarrow> put_row i r' (put_row i r tb) = put_row i r' tb"
  by (simp add: put_row_def)

lemma put_same: "has_row i r tb \<Longrightarrow> put_row i r tb = tb"
  unfolding put_row_def by (rule map_idI) (simp add: has_row_only)

lemma update_row:
  assumes h: "has_row i r tb" and P: "\<And>x. P x \<Longrightarrow> r_id x = i"
  shows "update_where P f tb = (if P r then (put_row i (f r) tb, [f r]) else (tb, []))"
proof (cases "P r")
  case True
  have *: "P x \<longleftrightarrow> r_id x = i" if "x \<in> set tb" for x
    using has_row_only [OF h that] P [of x] True by blast
  have "filter P tb = [r]" using has_row_filter [OF h] by (simp cong: filter_cong add: *)
  moreover have "map (\<lambda>x. if P x then f x else x) tb = put_row i (f r) tb"
    unfolding put_row_def using has_row_only [OF h] by (auto simp: * intro!: map_cong)
  ultimately show ?thesis using True by (simp add: update_where_def)
next
  case False
  have *: "\<not> P x" if "x \<in> set tb" for x using has_row_only [OF h that] P [of x] False by blast
  then have "filter P tb = []" "map (\<lambda>x. if P x then f x else x) tb = tb" by (auto intro!: map_idI)
  with False show ?thesis by (simp add: update_where_def)
qed

subsection \<open>The functions of the store on one row\<close>

definition job_of :: "jobPayload \<Rightarrow> row \<Rightarrow> vjob" where
  "job_of p r =
     \<lparr> vj_ID = r_id r, vj_TenantID = r_tenant r, vj_Execution = r_execution r, vj_NodeID = r_node r,
       vj_HookToken = r_hookToken r, vj_Status = r_status r, vj_Payload = p, vj_WorkerID = r_workerID r,
       vj_WorkerIP = r_workerIP r, vj_VolumeID = r_volumeID r, vj_StartedAt = r_startedAt r,
       vj_Completed = r_completedAt r, vj_ClaimedBy = r_claimedBy r, vj_LeaseUntil = r_leaseUntil r,
       vj_Attempts = r_attempts r \<rparr>"

text \<open>Job \<open>i\<close> is the row \<open>r\<close>, whose payload parses to \<open>p\<close>.\<close>

definition holds_job :: "vm_config \<Rightarrow> string \<Rightarrow> row \<Rightarrow> jobPayload \<Rightarrow> table \<Rightarrow> bool" where
  "holds_job C i r p tb \<longleftrightarrow> has_row i r tb \<and> vc_payload C (r_payload r) = Some p"

lemma holds_put: "holds_job C i r p tb \<Longrightarrow> r_id r' = i \<Longrightarrow> r_payload r' = r_payload r \<Longrightarrow> holds_job C i r' p (put_row i r' tb)"
  unfolding holds_job_def using has_row_put by metis

lemma one_job_row: "vc_payload C (r_payload r) = Some p \<Longrightarrow> one_job C (Inr [r]) = Inr (Some (job_of p r))"
  by (simp add: one_job_def scanJob_def job_of_def)

lemma row_payloads [simp]:
  "r_payload (claim_row t h s r) = r_payload r" "r_payload (renew_row t s r) = r_payload r" "r_payload (patch_row t pt r) = r_payload r"
  "r_payload (mark_row t st m r) = r_payload r" "r_payload (clear_row t r) = r_payload r"
  by (simp_all add: claim_row_def renew_row_def patch_row_def mark_row_def clear_row_def)

lemma play_Sql: "play svc clk (Sql q k) tb n = play svc clk (k (Inr (snd (sql_exec (clk n) q tb)))) (fst (sql_exec (clk n) q tb)) n"
  by (simp add: play.simps split: prod.split)

lemma play_store:
  assumes "holds_job C i r p tb"
  shows "play svc clk (store_Get C i k) tb n = play svc clk (k (Inr (Some (job_of p r)))) tb n"
    and "r_status r = StatusPending \<Longrightarrow> lease_free (clk n) r \<Longrightarrow>
      play svc clk (ClaimPending C i h secs k) tb n =
      play svc clk (k (Inr (Some (job_of p (claim_row (clk n) h secs r))))) (put_row i (claim_row (clk n) h secs r) tb) n"
    and "r_claimedBy r = Some h \<Longrightarrow>
      play svc clk (RenewLease C i h secs k) tb n =
      play svc clk (k (Inr (Some (job_of p (renew_row (clk n) secs r))))) (put_row i (renew_row (clk n) secs r) tb) n"
    and "pt \<noteq> no_patch \<Longrightarrow>
      play svc clk (UpdateDetails C i pt k) tb n =
      play svc clk (k (Inr (Some (job_of p (patch_row (clk n) pt r))))) (put_row i (patch_row (clk n) pt r) tb) n"
    and "play svc clk (MarkTerminal C i st msg k) tb n =
      play svc clk (k (Inr (Some (job_of p (mark_row (clk n) st msg r))))) (put_row i (mark_row (clk n) st msg r) tb) n"
    and "play svc clk (ClearWorkerID i k2) tb n = play svc clk (k2 None) (put_row i (clear_row (clk n) r) tb) n"
proof -
  have h: "has_row i r tb" and p: "vc_payload C (r_payload r) = Some p" and i: "r_id r = i"
    using assms by (auto simp: holds_job_def has_row_def)
  note upd = update_row [OF h, of "\<lambda>x. r_id x = i"] update_row [OF h, of "\<lambda>x. r_id x = i \<and> Q x" for Q]
  show "play svc clk (store_Get C i k) tb n = play svc clk (k (Inr (Some (job_of p r)))) tb n"
    by (simp add: store_Get_def play_Sql has_row_filter [OF h] one_job_row p)
  show "play svc clk (ClaimPending C i h secs k) tb n =
      play svc clk (k (Inr (Some (job_of p (claim_row (clk n) h secs r))))) (put_row i (claim_row (clk n) h secs r) tb) n"
    if "r_status r = StatusPending" "lease_free (clk n) r"
    using that i by (simp add: ClaimPending_def play_Sql upd one_job_row p)
  show "play svc clk (RenewLease C i h secs k) tb n =
      play svc clk (k (Inr (Some (job_of p (renew_row (clk n) secs r))))) (put_row i (renew_row (clk n) secs r) tb) n"
    if "r_claimedBy r = Some h"
    using that i by (simp add: RenewLease_def play_Sql upd one_job_row p)
qed (use assms in \<open>auto simp: holds_job_def has_row_def UpdateDetails_def MarkTerminal_def ClearWorkerID_def play_Sql
    update_row [of i r tb] one_job_row\<close>)

subsection \<open>Ending a job\<close>

definition delete_req :: "string \<Rightarrow> api_request" where
  "delete_req w = \<lparr> aq_method = ''DELETE'', aq_path = ''/servers/'' @ w, aq_body = NoBody \<rparr>"

text \<open>The machine is gone, or was before.\<close>

definition deletion_done :: "(api_request \<Rightarrow> api_reply) \<Rightarrow> string \<Rightarrow> bool" where
  "deletion_done svc w \<longleftrightarrow>
     (case svc (delete_req w) of
        Inl e \<Rightarrow> isGone (''failed to delete server: '' @ e)
      | Inr (code, text) \<Rightarrow> code \<ge> 200 \<and> code < 300 \<or>
          isGone (''failed to delete server: '' @ ''API error '' @ Itoa code @ '': '' @ text))"

definition cleaned :: "(api_request \<Rightarrow> api_reply) \<Rightarrow> int \<Rightarrow> row \<Rightarrow> row" where
  "cleaned svc t r = (case some_id (r_workerID r) of None \<Rightarrow> r | Some w \<Rightarrow> if deletion_done svc w then clear_row t r else r)"

lemma play_cleanup:
  assumes "holds_job C i r p tb"
  shows "table_after (play svc clk (cleanup C i) tb n) = put_row i (cleaned svc (clk n) r) tb"
    and "some_id (r_workerID r) = Some w \<Longrightarrow> delete_req w \<in> set (requests (play svc clk (cleanup C i) tb n))"
proof -
  have r: "r_id r = i" "put_row i r tb = tb" using assms put_same by (auto simp: holds_job_def has_row_def)
  note play = play_store(1,6) [OF assms]
  show "table_after (play svc clk (cleanup C i) tb n) = put_row i (cleaned svc (clk n) r) tb"
    using r
    by (auto simp: cleanup_def play job_of_def DeleteServer_def doRequest_def cleaned_def deletion_done_def delete_req_def
        volume_no_sql split: option.splits sum.splits prod.splits)
  show "delete_req w \<in> set (requests (play svc clk (cleanup C i) tb n))" if "some_id (r_workerID r) = Some w"
    using that r by (auto simp: cleanup_def play job_of_def DeleteServer_def doRequest_def delete_req_def)
qed

lemma job_of_simps [simp]:
  "vj_ID (job_of p r) = r_id r" "vj_Status (job_of p r) = r_status r" "vj_Payload (job_of p r) = p"
  "vj_WorkerID (job_of p r) = r_workerID r" "vj_StartedAt (job_of p r) = r_startedAt r" "vj_ClaimedBy (job_of p r) = r_claimedBy r"
  by (simp_all add: job_of_def)

lemma play_fail:
  assumes "holds_job C i r p tb" and "vj_ID job = i"
  shows "table_after (play svc clk (fail C job reason) tb n) =
      put_row i (cleaned svc (clk n) (mark_row (clk n) StatusFailed reason r)) tb"
    and "some_id (r_workerID r) = Some w \<Longrightarrow> delete_req w \<in> set (requests (play svc clk (fail C job reason) tb n))"
proof -
  have i: "r_id r = i" using assms by (simp add: holds_job_def has_row_def)
  have h: "holds_job C i (mark_row (clk n) StatusFailed reason r) p (put_row i (mark_row (clk n) StatusFailed reason r) tb)"
    by (rule holds_put [OF assms(1)]) (simp_all add: i)
  have w: "r_workerID (mark_row (clk n) StatusFailed reason r) = r_workerID r" by (simp add: mark_row_def)
  show "table_after (play svc clk (fail C job reason) tb n) =
      put_row i (cleaned svc (clk n) (mark_row (clk n) StatusFailed reason r)) tb"
    by (simp add: fail_def assms(2) play_store(5) [OF assms(1)] play_cleanup(1) [OF h] i)
  show "delete_req w \<in> set (requests (play svc clk (fail C job reason) tb n))" if "some_id (r_workerID r) = Some w"
    using that play_cleanup(2) [OF h, of w] by (simp add: fail_def assms(2) play_store(5) [OF assms(1)] w)
qed

subsection \<open>Passes\<close>

text \<open>The row once the lease has been renewed, when it is this process's.\<close>

definition renewed_row :: "vm_config \<Rightarrow> int \<Rightarrow> row \<Rightarrow> row" where
  "renewed_row C t r = (if r_claimedBy r = Some (vc_hostname C) then renew_row t leaseSeconds r else r)"

lemma renewed_row_simps [simp]:
  "r_id (renewed_row C t r) = r_id r" "r_payload (renewed_row C t r) = r_payload r"
  "r_workerID (renewed_row C t r) = r_workerID r" "r_status (renewed_row C t r) = r_status r"
  by (simp_all add: renewed_row_def renew_row_def)

lemma play_renewed:
  assumes "holds_job C i r p tb"
  shows "play svc clk (renewed C (job_of p r) k) tb n = play svc clk k (put_row i (renewed_row C (clk n) r) tb) n"
    and "holds_job C i (renewed_row C (clk n) r) p (put_row i (renewed_row C (clk n) r) tb)"
proof -
  have i: "r_id r = i" "put_row i r tb = tb" using assms put_same by (auto simp: holds_job_def has_row_def)
  then show "play svc clk (renewed C (job_of p r) k) tb n = play svc clk k (put_row i (renewed_row C (clk n) r) tb) n"
    by (simp add: renewed_def renewed_row_def play_store(3) [OF assms])
  show "holds_job C i (renewed_row C (clk n) r) p (put_row i (renewed_row C (clk n) r) tb)"
    by (rule holds_put [OF assms]) (simp_all add: i)
qed

text \<open>A running job past its time: it is failed, and its machine deleted.\<close>

lemma play_overdue:
  assumes job: "holds_job C i r p tb" "r_status r = StatusRunning"
    and late: "r_startedAt r = Some t" "pl_timeoutSeconds p = Some secs" "secs > 0" "time_sub (clk n) t > Seconds secs"
  shows "table_after (play svc clk (reconcileJob C i) tb n) =
      put_row i (cleaned svc (clk (Suc n)) (mark_row (clk (Suc n)) StatusFailed ''job timed out'' r)) tb"
    and "some_id (r_workerID r) = Some w \<Longrightarrow> delete_req w \<in> set (requests (play svc clk (reconcileJob C i) tb n))"
proof -
  have i: "r_id r = i" using job by (simp add: holds_job_def has_row_def)
  note ren = play_renewed [OF job(1), where n = n and clk = clk]
  have eq: "play svc clk (reconcileJob C i) tb n =
      play svc clk (fail C (job_of p r) ''job timed out'') (put_row i (renewed_row C (clk n) r) tb) (Suc n)"
    using late job(2)
    by (simp add: reconcileJob_def play_store(1) [OF job(1)] reconcileRunning_def jobTimedOut_def ren(1) play.simps)
  have m: "mark_row x StatusFailed msg (renewed_row C y r) = mark_row x StatusFailed msg r" for x y msg
    by (simp add: renewed_row_def renew_row_def mark_row_def)
  show "table_after (play svc clk (reconcileJob C i) tb n) =
      put_row i (cleaned svc (clk (Suc n)) (mark_row (clk (Suc n)) StatusFailed ''job timed out'' r)) tb"
    by (simp add: eq play_fail(1) [OF ren(2)] i m)
  show "delete_req w \<in> set (requests (play svc clk (reconcileJob C i) tb n))" if "some_id (r_workerID r) = Some w"
    using that play_fail(2) [OF ren(2), of "job_of p r" w svc clk] by (simp add: eq i)
qed

text \<open>A pending job: it is claimed and its machine created, recorded and given its volume.\<close>

definition create_req :: "vm_config \<Rightarrow> jobPayload \<Rightarrow> string \<Rightarrow> string \<Rightarrow> api_request" where
  "create_req C p i ci = \<lparr> aq_method = ''POST'', aq_path = ''/servers'',
     aq_body = NewServer (new_server C i ci (case pl_serverType p of Some t \<Rightarrow> t | None \<Rightarrow> [])) \<rparr>"

definition claimed_row :: "vm_config \<Rightarrow> jobPayload \<Rightarrow> int \<Rightarrow> vserver \<Rightarrow> row \<Rightarrow> row" where
  "claimed_row C p t srv r = patch_row t (worker_patch srv (job_volume C p)) (claim_row t (vc_hostname C) leaseSeconds r)"

lemma play_pending:
  assumes job: "holds_job C i r p tb" "r_status r = StatusPending" "lease_free (clk n) r" "some_id (r_workerID r) = None"
    and ci: "GenerateCloudInit C p i = Inr ci"
    and svc: "svc (create_req C p i ci) = Inr (code, content)" "200 \<le> code" "code < 300" "vc_server C content = Some s"
  shows "table_after (play svc clk (reconcileJob C i) tb n) = put_row i (claimed_row C p (clk n) (as_server s) r) tb"
    and "\<exists>qs. requests (play svc clk (reconcileJob C i) tb n) = create_req C p i ci # qs"
proof -
  let ?r = "claim_row (clk n) (vc_hostname C) leaseSeconds r" and ?srv = "(as_server s)\<lparr>sv_Status := ''creating''\<rparr>"
  let ?u = "UpdateDetails C i (worker_patch ?srv (job_volume C p)) (\<lambda>u. case u of Inl e \<Rightarrow> Ret (Some e) | Inr _ \<Rightarrow> attach_volume C (job_volume C p) ?srv)"
  have i: "r_id r = i" using job by (simp add: holds_job_def has_row_def)
  have h: "holds_job C i ?r p (put_row i ?r tb)" by (rule holds_put [OF job(1)]) (simp_all add: i)
  have w: "some_id (r_workerID ?r) = None" using job(4) by (simp add: claim_row_def)
  have np: "worker_patch (as_server s) v \<noteq> no_patch" for v by (simp add: worker_patch_def no_patch_def)
  have wp: "worker_patch ?srv v = worker_patch (as_server s) v" for v by (simp add: worker_patch_def)
  have eq: "play svc clk (reconcileJob C i) tb n = play svc clk (provision C (job_of p ?r)) (put_row i ?r tb) n"
    using job(2) by (simp add: reconcileJob_def play_store(1) [OF job(1)] claimAndProvision_def i play_store(2) [OF job(1,2), of clk n] job(3))
  have "table_after (play svc clk (provision C (job_of p ?r)) (put_row i ?r tb) n) = table_after (play svc clk ?u (put_row i ?r tb) n)"
    "requests (play svc clk (provision C (job_of p ?r)) (put_row i ?r tb) n) = create_req C p i ci # requests (play svc clk ?u (put_row i ?r tb) n)"
    using svc by (simp_all add: provision_def w i ci CreateServer_def doRequest_def create_req_def Let_def)
  then show "table_after (play svc clk (reconcileJob C i) tb n) = put_row i (claimed_row C p (clk n) (as_server s) r) tb"
    and "\<exists>qs. requests (play svc clk (reconcileJob C i) tb n) = create_req C p i ci # qs"
    by (auto simp: play_store(4) [OF h np] eq volume_no_sql claimed_row_def wp i)
qed

text \<open>A provisioned job whose machine runs: it is running.\<close>

definition get_req :: "string \<Rightarrow> api_request" where
  "get_req w = \<lparr> aq_method = ''GET'', aq_path = ''/servers/'' @ w, aq_body = NoBody \<rparr>"

definition running_row :: "vm_config \<Rightarrow> int \<Rightarrow> int \<Rightarrow> row \<Rightarrow> row" where
  "running_row C t t' r = (renewed_row C t r)\<lparr>r_status := StatusRunning, r_updatedAt := t'\<rparr>"

lemma play_provisioned:
  assumes job: "holds_job C i r p tb" "r_status r = StatusProvisioning" "r_workerID r = Some w"
    and time: "r_startedAt r = Some t" "time_sub (clk n) t \<le> provisioningTimeout"
    and svc: "svc (get_req w) = Inr (code, content)" "200 \<le> code" "code < 300" "vc_server C content = Some (num, name, ''running'', ip)"
  shows "table_after (play svc clk (reconcileJob C i) tb n) = put_row i (running_row C (clk n) (clk (Suc n)) r) tb"
    and "requests (play svc clk (reconcileJob C i) tb n) = [get_req w]"
proof -
  let ?pt = "no_patch\<lparr>pt_status := Some StatusRunning\<rparr>" and ?tb = "put_row i (renewed_row C (clk n) r) tb"
  have i: "r_id r = i" using job by (simp add: holds_job_def has_row_def)
  have np: "?pt \<noteq> no_patch" by (simp add: no_patch_def)
  note ren = play_renewed [OF job(1), where n = n and clk = clk]
  have pr: "patch_row t' ?pt (renewed_row C (clk n) r) = running_row C (clk n) t' r" for t'
    by (simp add: patch_row_def running_row_def or_else_def set_some_def no_patch_def)
  have eq: "play svc clk (reconcileJob C i) tb n = play svc clk (check_provisioning C (job_of p r) w) ?tb (Suc n)"
    using job(2,3) time
    by (simp add: reconcileJob_def play_store(1) [OF job(1)] reconcileProvisioning_def provisioningTimedOut_def ren(1) play.simps)
  show "table_after (play svc clk (reconcileJob C i) tb n) = put_row i (running_row C (clk n) (clk (Suc n)) r) tb"
    and "requests (play svc clk (reconcileJob C i) tb n) = [get_req w]"
    using svc
    by (simp_all add: play_store(4) [OF ren(2) np] eq check_provisioning_def GetServer_def doRequest_def as_server_def pr i get_req_def)
qed

end
