(* ===== verification/VM_Loops.thy ===== *)
theory VM_Loops
  imports VM_Play
begin

text \<open>
  The two loops without a bound of their own: the wait for a volume, which ends because the clock moves on,
  and the paged listing, which ends because the service's pages do; then the sweep over what was listed.
\<close>

subsection \<open>Waiting for a volume\<close>

text \<open>After the reading \<open>n\<close>, each reading of the clock is a second or more after the one before.\<close>

definition paced :: "(nat \<Rightarrow> int) \<Rightarrow> nat \<Rightarrow> bool" where
  "paced clk n \<longleftrightarrow> clk n \<le> clk (Suc n) \<and> (\<forall>m > n. clk m + 10 ^ 9 \<le> clk (Suc m))"

lemma wait_volume_ends:
  assumes "\<And>m. m \<ge> n \<Longrightarrow> clk m + 10 ^ 9 \<le> clk (Suc m)" and "deadline \<le> clk n + int j * 10 ^ 9" and "j < fuel"
  shows "\<exists>r m qs. play svc clk (wait_volume C fuel v want deadline msg Ret) tb n = (Some r, tb, m, qs) \<and> length qs \<le> j"
  using assms
proof (induction j arbitrary: n fuel)
  case 0
  then obtain f where "fuel = Suc f" by (cases fuel) auto
  with 0 show ?case by (simp add: play.simps)
next
  case (Suc j)
  then obtain f where f: "fuel = Suc f" by (cases fuel) auto
  have late: "deadline \<le> clk (Suc n) + int j * 10 ^ 9" using Suc.prems(2) Suc.prems(1) [of n] by (simp add: algebra_simps)
  obtain r m qs where later: "play svc clk (wait_volume C f v want deadline msg Ret) tb (Suc n) = (Some r, tb, m, qs)" "length qs \<le> j"
    using Suc.IH [OF _ late, of f] Suc.prems(1,3) f by auto
  show ?case
    using later by (auto simp: f play.simps GetVolume_def doRequest_def split: sum.split option.split prod.split)
qed

lemma volume_wait_ends:
  assumes "paced clk n" and "vc_wait C > 30"
  shows "\<exists>r m qs. play svc clk (WaitForVolumeAttached C v s (30 * 10 ^ 9) Ret) tb n = (Some r, tb, m, qs) \<and> length qs \<le> 30"
    and "\<exists>r m qs. play svc clk (WaitForVolumeDetached C v (30 * 10 ^ 9) Ret) tb n = (Some r, tb, m, qs) \<and> length qs \<le> 30"
proof -
  have steps: "clk m + 10 ^ 9 \<le> clk (Suc m)" if "m \<ge> Suc n" for m using assms(1) that by (simp add: paced_def)
  have deadline: "clk n + 30 * 10 ^ 9 \<le> clk (Suc n) + int 30 * 10 ^ 9" using assms(1) by (simp add: paced_def)
  note ends = wait_volume_ends [where n = "Suc n" and clk = clk and j = 30, OF steps deadline]
  show "\<exists>r m qs. play svc clk (WaitForVolumeAttached C v s (30 * 10 ^ 9) Ret) tb n = (Some r, tb, m, qs) \<and> length qs \<le> 30"
    unfolding WaitForVolumeAttached_def play.simps by (rule ends) (use assms(2) in simp_all)
  show "\<exists>r m qs. play svc clk (WaitForVolumeDetached C v (30 * 10 ^ 9) Ret) tb n = (Some r, tb, m, qs) \<and> length qs \<le> 30"
    unfolding WaitForVolumeDetached_def play.simps by (rule ends) (use assms(2) in simp_all)
qed

subsection \<open>The listing\<close>

definition page_req :: "int \<Rightarrow> api_request" where
  "page_req page = \<lparr> aq_method = ''GET'', aq_path = page_path page, aq_body = NoBody \<rparr>"

text \<open>The service has its machines on the pages \<open>chunks\<close> and says so on each of them.\<close>

definition serves :: "vm_config \<Rightarrow> (api_request \<Rightarrow> api_reply) \<Rightarrow> (int \<times> string \<times> string \<times> string) list list \<Rightarrow> bool" where
  "serves C svc chunks \<longleftrightarrow>
     (\<forall>k < length chunks. \<exists>code content. svc (page_req (int k + 1)) = Inr (code, content) \<and> 200 \<le> code \<and> code < 300 \<and>
        vc_servers C content = Some (chunks ! k, int k + 1, int (length chunks)))"

lemma list_pages_all:
  assumes "serves C svc chunks" and "k < length chunks" and "length chunks \<le> k + fuel"
  shows "play svc clk (list_pages C fuel (int k + 1) acc K) tb n =
      (case play svc clk (K (Some (Inr (acc @ map as_server (concat (drop k chunks)))))) tb n of (x, tb1, m, qs) \<Rightarrow>
         (x, tb1, m, map (\<lambda>j. page_req (int j + 1)) [k..<length chunks] @ qs))"
  using assms(2,3)
proof (induction fuel arbitrary: k acc)
  case (Suc fuel)
  obtain code content where svc: "svc (page_req (int k + 1)) = Inr (code, content)" "200 \<le> code" "code < 300"
    "vc_servers C content = Some (chunks ! k, int k + 1, int (length chunks))"
    using assms(1) Suc.prems(1) by (auto simp: serves_def)
  let ?acc = "acc @ map as_server (chunks ! k)"
  have drop: "drop k chunks = chunks ! k # drop (Suc k) chunks" and upt: "[k..<length chunks] = k # [Suc k..<length chunks]"
    using Suc.prems(1) by (simp_all add: Cons_nth_drop_Suc upt_conv_Cons)
  have eq: "play svc clk (list_pages C (Suc fuel) (int k + 1) acc K) tb n =
      (case play svc clk (if Suc k = length chunks then K (Some (Inr ?acc)) else list_pages C fuel (int (Suc k) + 1) ?acc K) tb n of
         (x, tb1, m, qs) \<Rightarrow> (x, tb1, m, page_req (int k + 1) # qs))"
    using svc Suc.prems(1) by (auto simp: play.simps doRequest_def page_req_def Let_def add.commute)
  show ?case
    using Suc.IH [of "Suc k" ?acc] Suc.prems
    by (cases "Suc k = length chunks") (simp_all add: eq drop upt del: list_pages.simps split: prod.splits)
qed simp

subsection \<open>The sweep\<close>

definition workers :: "table \<Rightarrow> string set" where
  "workers tb = {w. w \<noteq> [] \<and> Some w \<in> r_workerID ` set tb}"

lemma delete_each:
  "requests (play svc clk (each (\<lambda>s. DeleteServer (sv_ID s) Ret) svs) tb n) = map (\<lambda>s. delete_req (sv_ID s)) svs"
  "table_after (play svc clk (each (\<lambda>s. DeleteServer (sv_ID s) Ret) svs) tb n) = tb"
  by (induction svs) (simp_all add: DeleteServer_def doRequest_def delete_req_def)

lemma sweep_requests:
  assumes "serves C svc chunks" and "chunks \<noteq> []" and "length chunks \<le> vc_pages C"
  shows "requests (play svc clk (orphanSweep C) tb n) =
      map (\<lambda>j. page_req (int j + 1)) [0..<length chunks] @
      map (\<lambda>s. delete_req (sv_ID s)) (filter (sweep_deletes (workers tb)) (map as_server (concat chunks)))"
proof -
  have ids: "{w. Some w \<in> r_workerID ` set (filter (\<lambda>r. r_workerID r \<noteq> None \<and> r_workerID r \<noteq> Some []) tb)} = workers tb"
    by (simp only: workers_def image_iff Bex_def set_filter mem_Collect_eq) (metis option.distinct(1) option.inject)
  have "requests (play svc clk (ListServers C K) tb n) = map (\<lambda>j. page_req (int j + 1)) [0..<length chunks] @
      requests (play svc clk (K (Some (Inr (map as_server (concat chunks))))) tb n)" for K :: "_ \<Rightarrow> pass_result"
    using list_pages_all [OF assms(1), of 0 "vc_pages C" clk "[]" K tb n] assms(2,3)
    by (simp add: ListServers_def split: prod.split)
  then show ?thesis
    by (simp add: orphanSweep_def ListWorkerIDs_def ids [simplified] play_bind_requests delete_each split: prod.split)
qed

end
