(* ===== verification/VM_Boot.thy ===== *)
theory VM_Boot
  imports VM_CloudInit
begin

text \<open>
  What the user data of a machine promises: a size the service accepts, an image whose name holds nothing
  a shell would interpret, and a job file without the credentials that the machine gets beside it.
\<close>

definition image_char :: "char \<Rightarrow> bool" where
  "image_char c \<longleftrightarrow> name_char c \<or> c = CHR ''/'' \<or> c = CHR '':'' \<or> c = CHR ''@''"

lemma split_on_chars: "x \<in> set s \<Longrightarrow> x = c \<or> (\<exists>p \<in> set (split_on c s). x \<in> set p)"
  by (induction c s rule: split_on.induct) (auto split: if_splits list.splits)

lemma hex_name: "hex_char c \<Longrightarrow> name_char c"
  by (auto simp: hex_char_def name_char_def Let_def)

lemma list_all_trim: "HasPrefix s p \<Longrightarrow> list_all P p \<Longrightarrow> list_all P (TrimPrefix s p) \<Longrightarrow> list_all P s"
  by (auto simp: HasPrefix_iff)

lemma prefix_chars: "list_all image_char ''@sha256:''" "list_all image_char '':''"
  by code_simp+

lemma last_part_chars: "last_part s \<Longrightarrow> list_all image_char s"
proof -
  assume l: "last_part s"
  define rest where "rest = dropWhile name_char s"
  have "rest = [] \<or> HasPrefix rest ''@sha256:'' \<and> list_all hex_char (TrimPrefix rest ''@sha256:'') \<or>
      HasPrefix rest '':'' \<and> list_all name_char (TrimPrefix rest '':'')"
    using l unfolding last_part_def name_part_def rest_def [symmetric] Let_def by blast
  moreover have "list_all image_char x" if "list_all hex_char x \<or> list_all name_char x" for x
    using that hex_name by (auto simp: list_all_iff image_char_def)
  ultimately have "list_all image_char rest" using list_all_trim prefix_chars by (metis list.pred_inject(1))
  moreover have "list_all image_char (takeWhile name_char s)"
    by (auto simp: list_all_iff image_char_def dest: set_takeWhileD)
  ultimately show "list_all image_char s" by (metis list_all_append rest_def takeWhile_dropWhile_id)
qed

lemma valid_image_chars: "valid_image s \<Longrightarrow> list_all image_char s"
proof -
  assume v: "valid_image s"
  have part: "list_all image_char p" if "p \<in> set (split_on (CHR ''/'') s)" for p
  proof -
    have "p \<in> set (butlast (split_on (CHR ''/'') s)) \<or> p = last (split_on (CHR ''/'') s)"
      using that by (metis append_butlast_last_id empty_iff empty_set rotate1.simps(2) set_ConsD set_rotate1)
    then show ?thesis
      using v last_part_chars
      by (auto simp: valid_image_def Let_def list_all_iff name_part_def image_char_def)
  qed
  show "list_all image_char s"
    using split_on_chars [of _ s "CHR ''/''"] part by (fastforce simp: list_all_iff image_char_def)
qed

text \<open>The credentials of a machine.\<close>

definition credentials :: "string list" where
  "credentials = [''S3_ACCESS_KEY_ID'', ''S3_SECRET_ACCESS_KEY'', ''TAILSCALE_AUTHKEY'', ''GHCR_USERNAME'', ''GHCR_TOKEN'']"

lemma worker_spec_confined:
  assumes "\<And>v. v \<notin> set credentials \<Longrightarrow> env v = vc_getenv C v"
  shows "worker_spec (C\<lparr>vc_getenv := env\<rparr>) p jobID = worker_spec C p jobID"
proof -
  define C' where "C' = C\<lparr>vc_getenv := env\<rparr>"
  have env: "vc_getenv C' v = vc_getenv C v" if "v \<notin> set credentials" for v using assms that by (simp add: C'_def)
  have same: "vc_getenv C' ''VOLUME_ID'' = vc_getenv C ''VOLUME_ID''"
    "vc_getenv C' ''CALLBACK_BFF_BASE_URL'' = vc_getenv C ''CALLBACK_BFF_BASE_URL''"
    "vc_getenv C' ''EPHEMERAL_WORKER_IMAGE'' = vc_getenv C ''EPHEMERAL_WORKER_IMAGE''"
    "vc_getenv C' ''S3_ENDPOINT_URL'' = vc_getenv C ''S3_ENDPOINT_URL''" "vc_getenv C' ''S3_BUCKET_NAME'' = vc_getenv C ''S3_BUCKET_NAME''"
    by (rule env, simp add: credentials_def)+
  show ?thesis
    unfolding C'_def [symmetric] worker_spec_def worker_image_def volume_device_def job_volume_def callback_url_def same by (rule refl)
qed

lemma GenerateCloudInit_cases:
  assumes "GenerateCloudInit C p jobID = Inr content"
  obtains json where "worker_image C p \<noteq> []" and "valid_image (worker_image C p)" and "vc_specJSON C (worker_spec C p jobID) = Some json"
    and "content = cloudInitTemplate (init_data C p jobID json)" and "length content \<le> 32768"
  using assms by (auto simp: GenerateCloudInit_def Let_def split: if_splits option.splits)

lemma template_ends:
  "\<exists>pre. cloudInitTemplate D = pre @ ln (''  - docker pull '' @ cd_workerImage D) @ ln ''  - /tmp/job/run-job.sh''"
  unfolding cloudInitTemplate_def runcmd_part_def by (simp only: append.assoc [symmetric]) blast

lemma mid_found: "\<exists>pre post. m @ x = pre @ m @ post"
  by (rule exI [of _ "[]"]) simp

lemma mid_later: "\<exists>pre post. x = pre @ m @ post \<Longrightarrow> \<exists>pre post. a @ x = pre @ m @ post"
  by (metis append.assoc)

lemma template_job: "\<exists>pre post. cloudInitTemplate D = pre @ ln (cd_requestJSON D) @ post"
  unfolding cloudInitTemplate_def files_part_def append.assoc
  by (rule mid_found | rule mid_later)+

end
