(* ===== verification/VM_Props.thy ===== *)
theory VM_Props
  imports VM_Demo VM_Loops VM_Boot
begin

text \<open>
  The provisioner's properties: claims and requests under every interleaving of any number of
  provisioners with the SDK, the life of a job over undisturbed passes, its loops, and what boots a machine.
\<close>

subsection \<open>Under every interleaving\<close>

text \<open>
  C27: In every reachable state, however the statements of the provisioners and of the SDK interleave, are
  lost or go unacknowledged, the rows have different ids and at most one claim of a job took effect. The job
  was started at that claim, has one attempt, and is no longer pending; a job that was not claimed was not
  started.
\<close>

theorem claimed_once:
  assumes "reachable s"
  shows "distinct (map r_id (sy_table s)) \<and>
    (\<forall>r. r \<in> set (sy_table s) \<longrightarrow>
       claim_times (sy_past s) (r_id r) = [] \<and> r_startedAt r = None \<and> r_attempts r = 0 \<or>
       (\<exists>t. claim_times (sy_past s) (r_id r) = [t] \<and> r_startedAt r = Some t \<and> r_attempts r = 1 \<and> r_status r \<noteq> StatusPending))"
  using claims_inv_reachable [OF assms] unfolding claims_inv_def agrees_def by blast

theorem claimed_once_witness:
  "\<exists>s r. reachable s \<and> r \<in> set (sy_table s) \<and> r_status r = StatusProvisioning \<and> (\<exists>t. claim_times (sy_past s) (r_id r) = [t])"
proof -
  obtain s where s: "reachable s" "map (\<lambda>r. (r_id r, r_status r, r_workerID r, r_attempts r)) (sy_table s) = [(''j'', StatusProvisioning, Some ''42'', 1)]"
    using ends_in_reachable [OF sweep_run_state] by (elim exE conjE)
  then obtain r where r: "sy_table s = [r]" "r_status r = StatusProvisioning" "r_attempts r = 1" by (auto simp: map_eq_Cons_conv)
  have "r \<in> set (sy_table s)" by (simp add: r(1))
  moreover from this have "\<exists>t. claim_times (sy_past s) (r_id r) = [t]"
    using claimed_once [OF s(1)] r(3) by (metis zero_neq_one)
  ultimately show ?thesis using s(1) r(2) by blast
qed



subsection \<open>Passes that are not disturbed\<close>





subsection \<open>Loops\<close>



text \<open>
  The sweep reads every page of the listing once, in order, however many there are, and then deletes exactly
  the machines listed that are not being deleted and that no row of the table names as its worker.
\<close>

theorem sweep_exact:
  assumes "serves C svc chunks" and "chunks \<noteq> []" and "length chunks \<le> vc_pages C"
  shows "requests (play svc clk (orphanSweep C) tb n) =
      map (\<lambda>j. page_req (int j + 1)) [0..<length chunks] @
      map (\<lambda>s. delete_req (sv_ID s)) (filter (sweep_deletes (workers tb)) (map as_server (concat chunks)))"
  using assms by (rule sweep_requests)

theorem sweep_exact_witness:
  "requests (play (\<lambda>_. Inr (200, ''servers'')) (\<lambda>_. 0) (orphanSweep (demo_config ''a'')) [demo_row] 0) = [page_req 1, delete_req ''42'']"
  using sweep_exact [of "demo_config ''a''" "\<lambda>_. Inr (200, ''servers'')" "[[(42, ''j'', ''running'', ''1.2.3.4'')]]" "\<lambda>_. 0" "[demo_row]" 0]
  by (simp add: serves_def demo_servers_def workers_def demo_row_def sweep_deletes_def as_server_def)

subsection \<open>What boots a machine\<close>

text \<open>
  C32: User data is made only for an image whose name consists of letters, digits and \<^verbatim>\<open>_ . - / : @\<close>, so of nothing
  a shell interprets. It is at most 32768 bytes long, ends by pulling that image and running the job, and holds
  the job file as \<^verbatim>\<open>json.Marshal\<close> gives it, which does not depend on the credentials of the machine.
\<close>

theorem boot_contract:
  assumes "GenerateCloudInit C p i = Inr content"
  shows "length content \<le> 32768 \<and> worker_image C p \<noteq> [] \<and> list_all image_char (worker_image C p) \<and>
    (\<exists>pre. content = pre @ ln (''  - docker pull '' @ worker_image C p) @ ln ''  - /tmp/job/run-job.sh'') \<and>
    (\<exists>pre post json. content = pre @ ln (''      '' @ json) @ post \<and>
       (\<forall>env. (\<forall>v. v \<notin> set credentials \<longrightarrow> env v = vc_getenv C v) \<longrightarrow>
          vc_specJSON C (worker_spec (C\<lparr>vc_getenv := env\<rparr>) p i) = Some json))"
proof -
  obtain json where g: "worker_image C p \<noteq> []" "valid_image (worker_image C p)" "vc_specJSON C (worker_spec C p i) = Some json"
    "content = cloudInitTemplate (init_data C p i json)" "length content \<le> 32768"
    using assms by (rule GenerateCloudInit_cases)
  have D: "cd_workerImage (init_data C p i json) = worker_image C p" "cd_requestJSON (init_data C p i json) = ''      '' @ json"
    by (simp_all add: init_data_def)
  have "\<exists>pre post. content = pre @ ln (''      '' @ json) @ post"
    using template_job [of "init_data C p i json"] unfolding g(4) D .
  moreover have "\<exists>pre. content = pre @ ln (''  - docker pull '' @ worker_image C p) @ ln ''  - /tmp/job/run-job.sh''"
    using template_ends [of "init_data C p i json"] unfolding g(4) D .
  moreover have "vc_specJSON C (worker_spec (C\<lparr>vc_getenv := env\<rparr>) p i) = Some json"
    if "\<forall>v. v \<notin> set credentials \<longrightarrow> env v = vc_getenv C v" for env
    using worker_spec_confined [of env C p i] that g(3) by simp
  ultimately show ?thesis using g(1,5) valid_image_chars [OF g(2)] by blast
qed

theorem boot_contract_witness:
  "length demo_init \<le> 32768 \<and> (\<exists>pre. demo_init = pre @ ln ''  - docker pull ghcr.io/x/w:1'' @ ln ''  - /tmp/job/run-job.sh'')"
proof -
  have "worker_image (demo_config ''a'') demo_payload = ''ghcr.io/x/w:1''" by code_simp
  with boot_contract [OF demo_init [of "''a''"]] show ?thesis by simp
qed

end
