(* ===== verification/Day0_Boundaries.thy ===== *)
theory Day0_Boundaries
  imports Go_Numbers "HOL-Library.Product_Lexorder"
begin

text \<open>
  The boundaries of a Day-0 bootstrap: \<^verbatim>\<open>internal/kakt-cli/bootstrap/boundaries.go\<close> (what each boundary must
  answer, the table of the six, how one is run) and \<^verbatim>\<open>boundary_graph.go\<close> (the graph of what they need from each
  other, and the search for a cycle in it).
\<close>

subsection \<open>Contracts\<close>

text \<open>A check is known by its capability, which may be empty, and its name; what it runs is a task of the run.\<close>

record namedStep =
  ns_capability :: string
  ns_what :: string

record readiness =
  rd_checks :: "namedStep list"
  rd_because :: string
  rd_declared :: bool

record boundaryContract =
  bc_number :: int
  bc_label :: string
  bc_activates :: bool
  bc_refreshesSchema :: bool
  bc_prepare :: "namedStep option"
  bc_requires :: readiness
  bc_readiness :: readiness

definition asserts :: "namedStep list \<Rightarrow> readiness" where
  "asserts checks = \<lparr> rd_checks = checks, rd_because = [], rd_declared = True \<rparr>"

definition assertsNothingBecause :: "string \<Rightarrow> readiness" where
  "assertsNothingBecause reason = \<lparr> rd_checks = [], rd_because = reason, rd_declared = True \<rparr>"

definition requires :: "namedStep list \<Rightarrow> readiness" where
  "requires checks = \<lparr> rd_checks = checks, rd_because = [], rd_declared = True \<rparr>"

definition requiresNothingBecause :: "string \<Rightarrow> readiness" where
  "requiresNothingBecause reason = \<lparr> rd_checks = [], rd_because = reason, rd_declared = True \<rparr>"

definition checkNamed :: "string \<Rightarrow> namedStep" where
  "checkNamed what = \<lparr> ns_capability = [], ns_what = what \<rparr>"

definition check :: "string \<Rightarrow> namedStep" where
  "check c = \<lparr> ns_capability = c, ns_what = c \<rparr>"

definition capOperatorsReady :: string where
  "capOperatorsReady = ''platform operators and CRDs''"

definition capBootstrapDatabase :: string where
  "capBootstrapDatabase = ''the bootstrap database accepts connections''"

definition capDatabaseRoles :: string where
  "capDatabaseRoles = ''the platform'' @ [CHR 0x27] @ ''s database roles exist''"

definition capIdentityProvider :: string where
  "capIdentityProvider = ''the identity provider serves''"

definition boundaryContracts :: "boundaryContract list" where
  "boundaryContracts =
     [\<lparr> bc_number = 1, bc_label = ''01-platform-infra'', bc_activates = False, bc_refreshesSchema = False, bc_prepare = None,
        bc_requires = requiresNothingBecause (
          ''the first boundary. The seed has activated it and the phases before it created the '' @
          ''cluster; there is no earlier boundary to depend on.''),
        bc_readiness = asserts [check capOperatorsReady, checkNamed ''CRDs are queryable'', checkNamed ''operator pods are Ready''] \<rparr>,
      \<lparr> bc_number = 2, bc_label = ''02-platform-data'', bc_activates = True, bc_refreshesSchema = False, bc_prepare = None,
        bc_requires = requiresNothingBecause (
          ''boundary 01 guarantees the operators and CRDs this boundary'' @ [CHR 0x27] @ ''s objects are reconciled '' @
          ''by; nothing else is needed to start.''),
        bc_readiness = asserts [check capBootstrapDatabase] \<rparr>,
      \<lparr> bc_number = 3, bc_label = ''03-platform-services'', bc_activates = True, bc_refreshesSchema = True, bc_prepare = None,
        bc_requires = requiresNothingBecause (
          ''boundary 02 guarantees the database these services connect to. What they then DO with '' @
          ''it is gated by phase 11f, not here.''),
        bc_readiness = assertsNothingBecause (
          ''the services this boundary deploys cannot complete their own work until phase 11f '' @
          ''supplies the Infisical credential they authenticate with. Their deployment is what '' @
          ''this boundary guarantees; what they produce is required by boundary 04 and waited for '' @
          ''there.'') \<rparr>,
      \<lparr> bc_number = 4, bc_label = ''04-tenant-services'', bc_activates = True, bc_refreshesSchema = False,
        bc_prepare = Some \<lparr> ns_capability = [], ns_what = ''clear anything blocking Zitadel'' @ [CHR 0x27] @ ''s hooks'' \<rparr>,
        bc_requires = requires [check capDatabaseRoles], bc_readiness = asserts [check capIdentityProvider] \<rparr>,
      \<lparr> bc_number = 5, bc_label = ''05-tenant-app'', bc_activates = True, bc_refreshesSchema = True, bc_prepare = None,
        bc_requires = requiresNothingBecause (
          ''the application'' @ [CHR 0x27] @ ''s provisioning reads the credentials and CRDs earlier boundaries '' @
          ''guarantee; nothing further is needed to begin.''),
        bc_readiness = assertsNothingBecause (
          ''spoke provisioning is asynchronous by design (ADR-047): a spoke takes longer to build '' @
          ''than Day-0 runs, and the fleet converges after bootstrap rather than within it. '' @
          ''Gating here would make every bootstrap wait for machines that the tenant can watch '' @
          ''converge.'') \<rparr>,
      \<lparr> bc_number = 6, bc_label = ''06-tenant-public-tls'', bc_activates = True, bc_refreshesSchema = False, bc_prepare = None,
        bc_requires = requiresNothingBecause (
          ''issuance depends on DNS and the ACME issuer, both outside this sequence; no earlier '' @
          ''boundary gates it.''),
        bc_readiness = assertsNothingBecause (
          ''public certificates are issued by ACME against DNS this box has just published, on '' @
          ''the issuer'' @ [CHR 0x27] @ ''s schedule and not the platform'' @ [CHR 0x27] @ ''s. A box serves on its internal PKI '' @
          ''meanwhile, so nothing downstream of Day-0 waits on them.'') \<rparr>]"

definition contractFor :: "boundaryContract list \<Rightarrow> int \<Rightarrow> (string, boundaryContract) result" where
  "contractFor cs number =
     (case List.find (\<lambda>c. bc_number c = number) cs of
        Some c \<Rightarrow> Inr c
      | None \<Rightarrow> Inl (''boundary '' @ Itoa number @ '' has no declared contract''))"

text \<open>\<^verbatim>\<open>validateBoundaryContracts\<close>: the first objection, if any. A half of a contract is its precondition or its readiness.\<close>

definition half_objection :: "string \<Rightarrow> string \<Rightarrow> string \<Rightarrow> string \<Rightarrow> string \<Rightarrow> readiness \<Rightarrow> string option" where
  "half_objection n what verb with_reason yields rd =
     (if \<not> rd_declared rd
      then Some (''boundary '' @ n @ '' declares no '' @ what @ '': use '' @ verb @ ''(...) or '' @ with_reason @ ''(...)'')
      else if rd_checks rd = [] \<and> rd_because rd = []
      then Some (''boundary '' @ n @ '' '' @ yields @ '' nothing and gives no reason'')
      else if rd_checks rd \<noteq> [] \<and> rd_because rd \<noteq> []
      then Some (''boundary '' @ n @ '' both '' @ yields @ '' and waives; pick one'')
      else None)"

definition contract_objection :: "int set \<Rightarrow> boundaryContract \<Rightarrow> string option" where
  "contract_objection seen c =
     (let n = Itoa (bc_number c) in
      if bc_number c < 1 then Some ''boundary contract with no number''
      else if bc_number c \<in> seen then Some (''boundary '' @ n @ '' declared twice'')
      else if bc_label c = [] then Some (''boundary '' @ n @ '' has no label'')
      else (case half_objection n ''precondition'' ''requires'' ''requiresNothingBecause'' ''requires'' (bc_requires c) of
          Some e \<Rightarrow> Some e
        | None \<Rightarrow> half_objection n ''readiness'' ''asserts'' ''assertsNothingBecause'' ''asserts'' (bc_readiness c)))"

fun contracts_objection :: "int set \<Rightarrow> boundaryContract list \<Rightarrow> (string, int set) result" where
  "contracts_objection seen [] = Inr seen"
| "contracts_objection seen (c # cs) =
     (case contract_objection seen c of
        Some e \<Rightarrow> Inl e
      | None \<Rightarrow> contracts_objection (insert (bc_number c) seen) cs)"

definition validateBoundaryContracts :: "boundaryContract list \<Rightarrow> string option" where
  "validateBoundaryContracts cs =
     (case contracts_objection {} cs of
        Inl e \<Rightarrow> Some e
      | Inr seen \<Rightarrow>
          (case List.find (\<lambda>n. n \<notin> seen) [1..int (length cs)] of
             Some n \<Rightarrow> Some (''boundary '' @ Itoa n @ '' is not declared; every boundary the platform activates must answer this contract'')
           | None \<Rightarrow> None))"

subsection \<open>The graph\<close>

record boundaryEdge =
  be_from :: int
  be_to :: int
  be_via :: string

text \<open>The last contract that asserts a capability is its producer.\<close>

definition producers :: "boundaryContract list \<Rightarrow> (string \<times> int) list" where
  "producers cs = concat (map (\<lambda>c. map (\<lambda>k. (ns_capability k, bc_number c))
     (filter (\<lambda>k. ns_capability k \<noteq> []) (rd_checks (bc_readiness c)))) cs)"

definition producer :: "boundaryContract list \<Rightarrow> string \<Rightarrow> int option" where
  "producer cs cap = map_of (rev (producers cs)) cap"

definition contract_edges :: "boundaryContract list \<Rightarrow> boundaryContract \<Rightarrow> boundaryEdge list" where
  "contract_edges cs c = List.map_filter (\<lambda>r.
     if ns_capability r = [] then None
     else map_option (\<lambda>p. \<lparr> be_from = p, be_to = bc_number c, be_via = ns_capability r \<rparr>) (producer cs (ns_capability r)))
     (rd_checks (bc_requires c))"

text \<open>Edges between the same two boundaries, which \<^verbatim>\<open>sort.Slice\<close> may leave in any order, stay as they are.\<close>

definition dependencyEdges :: "boundaryContract list \<Rightarrow> boundaryEdge list" where
  "dependencyEdges cs = sort_key (\<lambda>e. (be_from e, be_to e)) (concat (map (contract_edges cs) cs))"

subsection \<open>The search for a cycle\<close>

datatype colour = White | Grey | Black

record search =
  sc_colour :: "int \<Rightarrow> colour"
  sc_stack :: "int list"
  sc_found :: "int list"

definition adj :: "boundaryEdge list \<Rightarrow> int \<Rightarrow> int list" where
  "adj es n = map be_to (filter (\<lambda>e. be_from e = n) es)"

definition nodes :: "boundaryEdge list \<Rightarrow> int set" where
  "nodes es = be_from ` set es \<union> be_to ` set es"

definition enter :: "int \<Rightarrow> search \<Rightarrow> search" where
  "enter n s = s\<lparr>sc_colour := (sc_colour s)(n := Grey), sc_stack := sc_stack s @ [n]\<rparr>"

definition leave :: "int \<Rightarrow> search \<Rightarrow> search" where
  "leave n s = s\<lparr>sc_colour := (sc_colour s)(n := Black), sc_stack := butlast (sc_stack s)\<rparr>"

definition whites :: "boundaryEdge list \<Rightarrow> search \<Rightarrow> int set" where
  "whites es s = {n \<in> nodes es. sc_colour s n = White}"

text \<open>\<^verbatim>\<open>visit\<close> from its loop on: the node \<open>n\<close> has been entered, \<open>ms\<close> are the neighbours still to look at.\<close>

function visit :: "boundaryEdge list \<Rightarrow> int \<Rightarrow> int list \<Rightarrow> search \<Rightarrow> bool \<times> search" where
  "visit es n [] s = (False, leave n s)"
| "visit es n (m # ms) s =
     (case sc_colour s m of
        Grey \<Rightarrow> (True, s\<lparr>sc_found := dropWhile (\<lambda>x. x \<noteq> m) (sc_stack s)\<rparr>)
      | White \<Rightarrow>
          (case visit es m (adj es m) (enter m s) of
             (True, s1) \<Rightarrow> (True, s1)
           | (False, s1) \<Rightarrow> visit es n ms s1)
      | Black \<Rightarrow> visit es n ms s)"
  by pat_completeness auto

text \<open>The search never makes a node white again.\<close>

lemma visit_whites:
  "visit_dom (es, n, ms, s) \<Longrightarrow> whites es (snd (visit es n ms s)) \<subseteq> whites es s"
proof (induction es n ms s rule: visit.pinduct)
  case (1 es n s)
  then show ?case by (auto simp: visit.psimps whites_def leave_def)
next
  case (2 es n m ms s)
  have "whites es (enter m s) \<subseteq> whites es s" by (auto simp: whites_def enter_def)
  moreover have "whites es (s\<lparr>sc_found := f\<rparr>) = whites es s" for f by (simp add: whites_def)
  ultimately show ?case
    using 2 by (auto simp: visit.psimps split: colour.split prod.split bool.split) blast+
qed

lemma adj_nodes: "m \<notin> nodes es \<Longrightarrow> adj es m = []"
  by (auto simp: nodes_def adj_def filter_empty_conv)

lemma finite_nodes [simp]: "finite (nodes es)"
  by (simp add: nodes_def)

lemma finite_whites [simp]: "finite (whites es s)"
  by (simp add: whites_def)

termination visit
proof (relation "measures [\<lambda>(es, n, ms, s). card (whites es s), \<lambda>(es, n, ms, s). length ms]")
  fix es n m ms and s :: search
  assume white: "sc_colour s m = White"
  show "((es, m, adj es m, enter m s), es, n, m # ms, s) \<in> measures [\<lambda>(es, n, ms, s). card (whites es s), \<lambda>(es, n, ms, s). length ms]"
  proof (cases "m \<in> nodes es")
    case True
    then have "whites es (enter m s) \<subset> whites es s" using white by (auto simp: whites_def enter_def)
    then show ?thesis by (simp add: psubset_card_mono)
  next
    case False
    then have "whites es (enter m s) = whites es s" by (auto simp: whites_def enter_def)
    then show ?thesis using adj_nodes [OF False] by simp
  qed
next
  fix es n m ms s x s1
  assume dom: "visit_dom (es, m, adj es m, enter m s)" and eq: "(x, s1) = visit es m (adj es m) (enter m s)"
  have "whites es s1 \<subseteq> whites es (enter m s)" using visit_whites [OF dom] by (simp flip: eq)
  also have "\<dots> \<subseteq> whites es s" by (auto simp: whites_def enter_def)
  finally show "((es, n, ms, s1), es, n, m # ms, s) \<in> measures [\<lambda>(es, n, ms, s). card (whites es s), \<lambda>(es, n, ms, s). length ms]"
    using card_mono [OF finite_whites] by (auto simp: le_less [symmetric])
qed simp_all

text \<open>\<^verbatim>\<open>findCycle\<close>: every node that is still white is visited, in order.\<close>

fun find_from :: "boundaryEdge list \<Rightarrow> int list \<Rightarrow> search \<Rightarrow> int list option" where
  "find_from es [] s = None"
| "find_from es (n # ns) s =
     (if sc_colour s n = White
      then (case visit es n (adj es n) (enter n s) of
          (True, s1) \<Rightarrow> Some (sc_found s1)
        | (False, s1) \<Rightarrow> find_from es ns s1)
      else find_from es ns s)"

definition findCycle :: "boundaryEdge list \<Rightarrow> int list option" where
  "findCycle es = find_from es (sorted_list_of_set (nodes es)) \<lparr> sc_colour = (\<lambda>_. White), sc_stack = [], sc_found = [] \<rparr>"

definition via_edge :: "boundaryEdge list \<Rightarrow> int \<Rightarrow> int \<Rightarrow> string" where
  "via_edge es f t = (case List.find (\<lambda>e. be_from e = f \<and> be_to e = t) es of Some e \<Rightarrow> be_via e | None \<Rightarrow> [])"

text \<open>The message: each boundary of the cycle with the capability that leads to the next. The arrows are drawn with U+2500, here its bytes.\<close>

definition hbar :: string where
  "hbar = [CHR 0xE2, CHR 0x94, CHR 0x80]"

definition renderCycle :: "int list \<Rightarrow> boundaryEdge list \<Rightarrow> string" where
  "renderCycle cycle es =
     concat (map (\<lambda>i. ''boundary '' @ Itoa (cycle ! i) @ '' '' @ hbar @ hbar @ ''('' @
       via_edge es (cycle ! i) (cycle ! (Suc i mod length cycle)) @ '')'' @ hbar @ hbar @ ''> '') [0..<length cycle]) @
     ''boundary '' @ Itoa (hd cycle)"

text \<open>\<open>quote\<close> is what \<^verbatim>\<open>%q\<close> prints.\<close>

definition validateBoundaryGraph :: "(string \<Rightarrow> string) \<Rightarrow> boundaryContract list \<Rightarrow> string option" where
  "validateBoundaryGraph quote cs =
     (let es = dependencyEdges cs in
      case findCycle es of
        Some c \<Rightarrow> Some (''the boundaries depend on each other in a cycle that no ordering can satisfy: '' @ renderCycle c es)
      | None \<Rightarrow>
          map_option (\<lambda>e. ''boundary '' @ Itoa (be_to e) @ '' requires '' @ quote (be_via e) @ '', which boundary '' @
              Itoa (be_from e) @ '' produces. Boundaries run in order, so '' @ Itoa (be_from e) @ '' has not run when '' @
              Itoa (be_to e) @ '' starts'')
            (List.find (\<lambda>e. be_from e \<ge> be_to e) es))"

text \<open>\<^verbatim>\<open>init\<close>: what the process refuses to start with.\<close>

definition boundaries_init :: "(string \<Rightarrow> string) \<Rightarrow> boundaryContract list \<Rightarrow> string option" where
  "boundaries_init quote cs =
     (case validateBoundaryContracts cs of
        Some e \<Rightarrow> Some (''boundary contracts: '' @ e)
      | None \<Rightarrow> map_option (\<lambda>e. ''boundary dependency graph: '' @ e) (validateBoundaryGraph quote cs))"

end
