(* ===== verification/Day0_Graph.thy ===== *)
theory Day0_Graph
  imports Day0_Boundaries "HOL-Library.Multiset"
begin

text \<open>
  The search finds a cycle exactly when there is one, and a table is accepted exactly when every boundary needs
  only what an earlier one produces.
\<close>

definition edge_rel :: "boundaryEdge list \<Rightarrow> (int \<times> int) set" where
  "edge_rel es = (\<lambda>e. (be_from e, be_to e)) ` set es"

text \<open>A simple cycle, as the list of its nodes.\<close>

definition is_cycle :: "(int \<times> int) set \<Rightarrow> int list \<Rightarrow> bool" where
  "is_cycle R c \<longleftrightarrow> c \<noteq> [] \<and> distinct c \<and> successively (\<lambda>a b. (a, b) \<in> R) c \<and> (last c, hd c) \<in> R"

definition blacks :: "search \<Rightarrow> int set" where
  "blacks s = {n. sc_colour s n = Black}"

text \<open>
  The stack is a path of the grey nodes; the black nodes keep to themselves and hold no cycle.
\<close>

definition search_ok :: "(int \<times> int) set \<Rightarrow> search \<Rightarrow> bool" where
  "search_ok R s \<longleftrightarrow>
     distinct (sc_stack s) \<and> set (sc_stack s) = {n. sc_colour s n = Grey} \<and>
     successively (\<lambda>a b. (a, b) \<in> R) (sc_stack s) \<and>
     R `` blacks s \<subseteq> blacks s \<and> acyclic (R \<inter> blacks s \<times> blacks s)"

lemma set_adj: "set (adj es n) = edge_rel es `` {n}"
  by (force simp: adj_def edge_rel_def)

lemma cycle_not_acyclic: "is_cycle R c \<Longrightarrow> \<not> acyclic R"
proof -
  have path: "(hd c, last c) \<in> R\<^sup>*" if "c \<noteq> []" "successively (\<lambda>a b. (a, b) \<in> R) c" for c
    using that by (induction c rule: induct_list012) (auto intro: converse_rtrancl_into_rtrancl)
  assume "is_cycle R c"
  then have "(hd c, last c) \<in> R\<^sup>*" "(last c, hd c) \<in> R" using path by (auto simp: is_cycle_def)
  then have "(hd c, hd c) \<in> R\<^sup>+" by (rule rtrancl_into_trancl1)
  then show ?thesis by (auto simp: acyclic_def)
qed

text \<open>A node whose successors are all black can be made black.\<close>

lemma acyclic_grow:
  assumes acyc: "acyclic (R \<inter> B \<times> B)" and closed: "R `` B \<subseteq> B" and n: "n \<notin> B" "R `` {n} \<subseteq> B"
  shows "acyclic (R \<inter> insert n B \<times> insert n B)"
proof (rule acyclicI, rule allI, rule notI)
  let ?S = "R \<inter> insert n B \<times> insert n B"
  have inside: "b \<in> B \<and> (a, b) \<in> (R \<inter> B \<times> B)\<^sup>+" if "(a, b) \<in> ?S\<^sup>+" "a \<in> B" for a b
    using that
  proof (induction rule: trancl_induct)
    case (base y)
    then have "y \<in> B" using closed by blast
    with base show ?case by blast
  next
    case (step y z)
    then have "z \<in> B" using closed by blast
    with step have "(y, z) \<in> R \<inter> B \<times> B" by blast
    with step \<open>z \<in> B\<close> show ?case by (meson trancl.trancl_into_trancl)
  qed
  fix x assume x: "(x, x) \<in> ?S\<^sup>+"
  show False
  proof (cases "x \<in> B")
    case True
    then show False using inside [OF x True] acyc by (auto simp: acyclic_def)
  next
    case False
    obtain y where y: "(x, y) \<in> ?S" "(y, x) \<in> ?S\<^sup>*" using x by (meson tranclD)
    then have "x = n" using False by blast
    then have "y \<in> B" using y(1) n(2) by blast
    then have "y \<noteq> x" using False by blast
    then have "(y, x) \<in> ?S\<^sup>+" using y(2) by (simp add: rtrancl_eq_or_trancl)
    then show False using inside \<open>y \<in> B\<close> False by blast
  qed
qed

lemma ok_leave:
  assumes ok: "search_ok R s" and st: "sc_stack s \<noteq> []" "last (sc_stack s) = n" and succ: "R `` {n} \<subseteq> blacks s"
  shows "search_ok R (leave n s)" and "blacks (leave n s) = insert n (blacks s)"
proof -
  have grey: "sc_colour s n = Grey" using ok st last_in_set by (fastforce simp: search_ok_def)
  show b: "blacks (leave n s) = insert n (blacks s)" by (auto simp: blacks_def leave_def)
  have split: "sc_stack s = butlast (sc_stack s) @ [n]" using st by (metis append_butlast_last_id)
  have "distinct (butlast (sc_stack s) @ [n])" "set (butlast (sc_stack s) @ [n]) = {x. sc_colour s x = Grey}"
    "successively (\<lambda>a b. (a, b) \<in> R) (butlast (sc_stack s) @ [n])"
    using ok split by (simp_all add: search_ok_def)
  then have "distinct (butlast (sc_stack s))" "set (butlast (sc_stack s)) = {x. sc_colour (leave n s) x = Grey}"
    "successively (\<lambda>a b. (a, b) \<in> R) (butlast (sc_stack s))"
    by (auto simp: leave_def successively_append_iff)
  moreover have "n \<notin> blacks s" using grey by (simp add: blacks_def)
  ultimately show "search_ok R (leave n s)"
    using ok succ acyclic_grow [of R "blacks s" n] unfolding search_ok_def b by (auto simp: leave_def)
qed

lemma ok_enter:
  assumes ok: "search_ok R s" and m: "sc_colour s m = White" and st: "sc_stack s = [] \<or> (last (sc_stack s), m) \<in> R"
  shows "search_ok R (enter m s)" and "blacks (enter m s) = blacks s"
proof -
  show b: "blacks (enter m s) = blacks s" using m by (auto simp: blacks_def enter_def)
  have "m \<notin> set (sc_stack s)" using ok m by (auto simp: search_ok_def)
  with ok st show "search_ok R (enter m s)"
    unfolding search_ok_def b by (auto simp: enter_def successively_append_iff)
qed

lemma grey_cycle:
  assumes "search_ok R s" and "sc_colour s m = Grey" and "(last (sc_stack s), m) \<in> R"
  shows "is_cycle R (dropWhile (\<lambda>x. x \<noteq> m) (sc_stack s))"
proof -
  let ?d = "dropWhile (\<lambda>x. x \<noteq> m) (sc_stack s)"
  have "m \<in> set (sc_stack s)" using assms by (auto simp: search_ok_def)
  then have ne: "?d \<noteq> []" by (auto simp: dropWhile_eq_Nil_conv)
  have "hd ?d = m" using hd_dropWhile [OF ne] by simp
  moreover have split: "sc_stack s = takeWhile (\<lambda>x. x \<noteq> m) (sc_stack s) @ ?d" by simp
  then have "last ?d = last (sc_stack s)" using ne by (metis last_appendR)
  moreover have "successively (\<lambda>a b. (a, b) \<in> R) ?d"
  proof -
    have "successively (\<lambda>a b. (a, b) \<in> R) (takeWhile (\<lambda>x. x \<noteq> m) (sc_stack s) @ ?d)"
      using assms(1) by (simp add: search_ok_def)
    then show ?thesis by (auto simp only: successively_append_iff)
  qed
  ultimately show ?thesis using ne assms(1,3) by (simp add: is_cycle_def search_ok_def distinct_dropWhile)
qed

lemma visit_spec:
  assumes "search_ok (edge_rel es) s" and "sc_stack s \<noteq> []" and "last (sc_stack s) = n" and "set ms \<subseteq> edge_rel es `` {n}"
    and "edge_rel es `` {n} \<subseteq> set ms \<union> blacks s"
  shows "case visit es n ms s of
      (True, s1) \<Rightarrow> is_cycle (edge_rel es) (sc_found s1)
    | (False, s1) \<Rightarrow> search_ok (edge_rel es) s1 \<and> sc_stack s1 = butlast (sc_stack s) \<and> insert n (blacks s) \<subseteq> blacks s1"
  using assms
proof (induction es n ms s rule: visit.induct)
  case (1 es n s)
  then have "search_ok (edge_rel es) (leave n s)" "blacks (leave n s) = insert n (blacks s)"
    using ok_leave [of "edge_rel es" s n] by simp_all
  then show ?case by (auto simp: leave_def)
next
  case (2 es n m ms s)
  have edge: "(n, m) \<in> edge_rel es" using 2 by auto
  show ?case
  proof (cases "sc_colour s m")
    case White
    note enter = ok_enter [OF "2.prems"(1) White, unfolded "2.prems"(3), OF disjI2, OF edge]
    obtain found s1 where v: "visit es m (adj es m) (enter m s) = (found, s1)" by fastforce
    have IH: "case (found, s1) of (True, s1) \<Rightarrow> is_cycle (edge_rel es) (sc_found s1)
      | (False, s1) \<Rightarrow> search_ok (edge_rel es) s1 \<and> sc_stack s1 = butlast (sc_stack (enter m s)) \<and> insert m (blacks (enter m s)) \<subseteq> blacks s1"
      unfolding v [symmetric] by (rule "2.IH"(1) [OF White enter(1)]) (auto simp: enter_def set_adj)
    show ?thesis
    proof (cases found)
      case True
      then show ?thesis using IH v White by simp
    next
      case False
      then have s1: "search_ok (edge_rel es) s1" "sc_stack s1 = sc_stack s" "insert m (blacks s) \<subseteq> blacks s1"
        using IH enter(2) by (auto simp: enter_def)
      have "case visit es n ms s1 of (True, s2) \<Rightarrow> is_cycle (edge_rel es) (sc_found s2)
        | (False, s2) \<Rightarrow> search_ok (edge_rel es) s2 \<and> sc_stack s2 = butlast (sc_stack s1) \<and> insert n (blacks s1) \<subseteq> blacks s2"
        by (rule "2.IH"(2) [OF White v [symmetric]]) (use False s1 "2.prems" in auto)
      then show ?thesis using False v White s1 by (auto split: prod.splits bool.splits)
    qed
  next
    case Grey
    with "2.prems" edge show ?thesis using grey_cycle [of "edge_rel es" s m] by simp
  next
    case Black
    then have "m \<in> blacks s" by (simp add: blacks_def)
    then have "edge_rel es `` {n} \<subseteq> set ms \<union> blacks s" using "2.prems"(5) by auto
    with Black "2.IH"(3) [OF Black "2.prems"(1-3)] "2.prems"(4) show ?thesis by simp
  qed
qed

lemma find_from_spec:
  assumes "search_ok (edge_rel es) s" and "sc_stack s = []"
  shows "case find_from es ns s of
      Some c \<Rightarrow> is_cycle (edge_rel es) c
    | None \<Rightarrow> \<exists>s1. search_ok (edge_rel es) s1 \<and> sc_stack s1 = [] \<and> set ns \<union> blacks s \<subseteq> blacks s1"
  using assms
proof (induction es ns s rule: find_from.induct)
  case (2 es n ns s)
  show ?case
  proof (cases "sc_colour s n = White")
    case True
    note enter = ok_enter [OF "2.prems"(1) True disjI1, OF "2.prems"(2)]
    obtain found s1 where v: "visit es n (adj es n) (enter n s) = (found, s1)" by fastforce
    have spec: "case (found, s1) of (True, s1) \<Rightarrow> is_cycle (edge_rel es) (sc_found s1)
      | (False, s1) \<Rightarrow> search_ok (edge_rel es) s1 \<and> sc_stack s1 = butlast (sc_stack (enter n s)) \<and> insert n (blacks (enter n s)) \<subseteq> blacks s1"
      unfolding v [symmetric] by (rule visit_spec [OF enter(1)]) (auto simp: enter_def set_adj)
    show ?thesis
    proof (cases found)
      case True
      then show ?thesis using spec v \<open>sc_colour s n = White\<close> by simp
    next
      case False
      then have s1: "search_ok (edge_rel es) s1" "sc_stack s1 = []" "insert n (blacks s) \<subseteq> blacks s1"
        using spec enter(2) "2.prems"(2) by (auto simp: enter_def)
      have "case find_from es ns s1 of Some c \<Rightarrow> is_cycle (edge_rel es) c
        | None \<Rightarrow> \<exists>s2. search_ok (edge_rel es) s2 \<and> sc_stack s2 = [] \<and> set ns \<union> blacks s1 \<subseteq> blacks s2"
        by (rule "2.IH"(1) [OF True v [symmetric]]) (use False s1 in auto)
      with s1(3) show ?thesis using False v True by (auto split: option.splits)
    qed
  next
    case False
    have "n \<in> blacks s" using False "2.prems" by (cases "sc_colour s n") (auto simp: search_ok_def blacks_def)
    with "2.IH"(2) [OF False "2.prems"] False show ?thesis by (auto split: option.splits)
  qed
qed auto

lemma findCycle_spec: "case findCycle es of Some c \<Rightarrow> is_cycle (edge_rel es) c | None \<Rightarrow> acyclic (edge_rel es)"
proof -
  let ?s = "\<lparr> sc_colour = (\<lambda>_. White), sc_stack = [], sc_found = [] \<rparr> :: search"
  have ok: "search_ok (edge_rel es) ?s" by (simp add: search_ok_def blacks_def acyclic_def)
  have "edge_rel es \<inter> blacks s \<times> blacks s = edge_rel es" if "nodes es \<subseteq> blacks s" for s
    using that by (auto simp: edge_rel_def nodes_def)
  then have "acyclic (edge_rel es)" if "search_ok (edge_rel es) s" "nodes es \<subseteq> blacks s" for s
    using that by (metis search_ok_def)
  then show ?thesis
    using find_from_spec [OF ok, of "sorted_list_of_set (nodes es)"] by (auto simp: findCycle_def split: option.splits)
qed

lemma findCycle_None: "findCycle es = None \<longleftrightarrow> acyclic (edge_rel es)"
  using findCycle_spec [of es] cycle_not_acyclic by (auto split: option.splits)

lemma forward_acyclic: "\<forall>(a, b) \<in> R. a < (b :: int) \<Longrightarrow> acyclic R"
proof -
  assume fw: "\<forall>(a, b) \<in> R. a < b"
  have "a < b" if "(a, b) \<in> R\<^sup>+" for a b using that fw by (induction rule: trancl_induct) auto
  then show ?thesis by (auto simp: acyclic_def)
qed

lemma graph_accepted:
  "validateBoundaryGraph quote cs = None \<longleftrightarrow> (\<forall>e \<in> set (dependencyEdges cs). be_from e < be_to e)"
proof
  assume "validateBoundaryGraph quote cs = None"
  then show "\<forall>e \<in> set (dependencyEdges cs). be_from e < be_to e"
    by (auto simp: validateBoundaryGraph_def Let_def find_None_iff not_le split: option.splits)
next
  assume fw: "\<forall>e \<in> set (dependencyEdges cs). be_from e < be_to e"
  then have "acyclic (edge_rel (dependencyEdges cs))" by (intro forward_acyclic) (auto simp: edge_rel_def)
  then have "findCycle (dependencyEdges cs) = None" by (simp add: findCycle_None)
  with fw show "validateBoundaryGraph quote cs = None"
    by (auto simp: validateBoundaryGraph_def Let_def find_None_iff not_le)
qed

subsection \<open>The table\<close>

text \<open>A half is answered once: by checks or by a reason.\<close>

definition answered :: "readiness \<Rightarrow> bool" where
  "answered rd \<longleftrightarrow> rd_declared rd \<and> (rd_checks rd = [] \<longleftrightarrow> rd_because rd \<noteq> [])"

lemma half_accepted: "half_objection n a b c d rd = None \<longleftrightarrow> answered rd"
  by (auto simp: half_objection_def answered_def)

lemma contract_accepted:
  "contract_objection seen c = None \<longleftrightarrow>
     1 \<le> bc_number c \<and> bc_number c \<notin> seen \<and> bc_label c \<noteq> [] \<and> answered (bc_requires c) \<and> answered (bc_readiness c)"
proof -
  have "(case x of None \<Rightarrow> y | Some e \<Rightarrow> Some e) = None \<longleftrightarrow> x = None \<and> y = None" for x y :: "string option"
    by (cases x) simp_all
  then show ?thesis by (auto simp: contract_objection_def Let_def half_accepted)
qed

lemma contracts_pass:
  "contracts_objection seen cs = Inr all \<longleftrightarrow>
     all = seen \<union> bc_number ` set cs \<and> distinct (map bc_number cs) \<and> bc_number ` set cs \<inter> seen = {} \<and>
     (\<forall>c \<in> set cs. 1 \<le> bc_number c \<and> bc_label c \<noteq> [] \<and> answered (bc_requires c) \<and> answered (bc_readiness c))"
proof (induction cs arbitrary: seen)
  case (Cons c cs)
  have "contracts_objection seen (c # cs) = Inr all \<longleftrightarrow>
      contract_objection seen c = None \<and> contracts_objection (insert (bc_number c) seen) cs = Inr all"
    by (cases "contract_objection seen c") simp_all
  then show ?case unfolding contract_accepted Cons.IH by auto
qed auto

lemma numbers_exact:
  assumes "distinct ns"
  shows "set [1..int (length ns)] \<subseteq> set ns \<longleftrightarrow> mset ns = mset [1..int (length ns)]"
proof
  assume sub: "set [1..int (length ns)] \<subseteq> set ns"
  have "card (set ns) = card (set [1..int (length ns)])" using assms by (simp add: distinct_card)
  then have "set ns = set [1..int (length ns)]" using card_subset_eq [OF _ sub] by simp
  then show "mset ns = mset [1..int (length ns)]" using assms by (simp add: set_eq_iff_mset_eq_distinct [symmetric])
qed (metis mset_eq_setD order_refl)

lemma contracts_accepted:
  "validateBoundaryContracts cs = None \<longleftrightarrow>
     mset (map bc_number cs) = mset [1..int (length cs)] \<and>
     (\<forall>c \<in> set cs. bc_label c \<noteq> [] \<and> answered (bc_requires c) \<and> answered (bc_readiness c))"
proof -
  have "validateBoundaryContracts cs = None \<longleftrightarrow>
      (\<exists>all. contracts_objection {} cs = Inr all \<and> set [1..int (length cs)] \<subseteq> all)"
  proof -
    have "(case List.find P xs of None \<Rightarrow> None | Some x \<Rightarrow> Some (f x)) = None \<longleftrightarrow> (\<forall>x \<in> set xs. \<not> P x)" for P :: "int \<Rightarrow> bool" and xs and f :: "int \<Rightarrow> string"
      by (induction xs) auto
    then show ?thesis by (auto simp: validateBoundaryContracts_def split: sum.splits)
  qed
  also have "\<dots> \<longleftrightarrow> distinct (map bc_number cs) \<and> set [1..int (length (map bc_number cs))] \<subseteq> set (map bc_number cs) \<and>
      (\<forall>c \<in> set cs. 1 \<le> bc_number c \<and> bc_label c \<noteq> [] \<and> answered (bc_requires c) \<and> answered (bc_readiness c))"
    by (auto simp: contracts_pass)
  also have "\<dots> \<longleftrightarrow> mset (map bc_number cs) = mset [1..int (length cs)] \<and>
      (\<forall>c \<in> set cs. bc_label c \<noteq> [] \<and> answered (bc_requires c) \<and> answered (bc_readiness c))"
    (is "?l \<longleftrightarrow> ?r")
  proof
    assume ?l
    then show ?r using numbers_exact [of "map bc_number cs"] by simp
  next
    assume r: ?r
    then have "distinct (map bc_number cs)" by (metis distinct_upto mset_eq_imp_distinct_iff)
    moreover have "set (map bc_number cs) = set [1..int (length cs)]" using r by (metis mset_eq_setD)
    ultimately show ?l using r by auto
  qed
  finally show ?thesis .
qed

lemma table_edges: "dependencyEdges boundaryContracts = []"
  by code_simp

lemma table_accepted: "boundaries_init quote boundaryContracts = None"
proof -
  have "validateBoundaryContracts boundaryContracts = None" by code_simp
  moreover have "validateBoundaryGraph quote boundaryContracts = None" by (simp add: graph_accepted table_edges)
  ultimately show ?thesis by (simp add: boundaries_init_def)
qed

end
