(* ===== verification/Day0_State.thy ===== *)
theory Day0_State
  imports Go_Numbers
begin

text \<open>
  The record a Day-0 bootstrap keeps of itself: \<^verbatim>\<open>internal/kakt-cli/state/manager.go\<close>, and the runs it is kept by.
  A run is a process that asks things of the outside, one after the other, and has the state of its variables
  and of the disk; what the outside answers may depend on everything asked before.
\<close>

subsection \<open>The record\<close>

text \<open>A phase is a string; one that is none of the names declared is \<open>OtherPhase\<close>.\<close>

datatype bootstrapPhase =
    PhasePreFlight | PhaseBootstrapCreate | PhaseDayZero | PhaseCAPIInit | PhaseClusterProvision | PhaseArgoCDInstall
  | PhasePivotMove | PhasePivotReady | PhaseCleanup | PhaseClusterClassDeploy | PhasePlatformPreReqs | PhaseOnPremJoin
  | PhaseBoundary01 | PhaseGenerateLocalSecrets | PhaseBoundary02 | PhaseInjectCACert | PhaseBoundary03
  | PhaseBootstrapInfisicalAPI | PhaseBoundary04 | PhaseBoundary05 | PhaseBoundary06 | PhaseInitSecrets | PhasePlatformDeploy
  | PhaseFinalize | PhaseComplete | PlatformStateNew | PlatformStateInfisicalReady | PlatformStatePKIReady
  | PlatformStateSecretsReady | PlatformStateGitOpsReady | PlatformStatePlatformReady
  | OtherPhase string

text \<open>Times are nanoseconds; \<open>pt_Seconds\<close> is the number the code keeps as a float, in thousandths.\<close>

record phaseTiming =
  pt_Phase :: bootstrapPhase
  pt_StartedAt :: int
  pt_CompletedAt :: int
  pt_Seconds :: int

record bootstrapState =
  bs_Version :: string
  bs_ClusterName :: string
  bs_Provider :: string
  bs_Region :: string
  bs_BootstrapID :: string
  bs_CurrentPhase :: bootstrapPhase
  bs_CompletedPhases :: "bootstrapPhase list"
  bs_BootstrapContext :: string
  bs_BootstrapKubeconfig :: string
  bs_MgmtKubeconfig :: string
  bs_NetworkCIDR :: string
  bs_SSHKeys :: "string list"
  bs_Timestamp :: int
  bs_Metadata :: "(string \<times> string) list"
  bs_StartedAt :: "int option"
  bs_CompletedAt :: "int option"
  bs_PhaseTimings :: "phaseTiming list"

definition TenantStateDir :: string where
  "TenantStateDir = ''.state''"

text \<open>\<^verbatim>\<open>filepath.Join\<close> of a root, a directory and a name, where an empty root counts for nothing. The root is taken to be clean.\<close>

definition join3 :: "string \<Rightarrow> string \<Rightarrow> string \<Rightarrow> string" where
  "join3 root dir name = (if root = [] then [] else root @ ''/'') @ dir @ ''/'' @ name"

definition statePathFor :: "string \<Rightarrow> string \<Rightarrow> string" where
  "statePathFor root clusterName = join3 root TenantStateDir (clusterName @ ''.json'')"

text \<open>\<^verbatim>\<open>NewStateManager\<close> and \<^verbatim>\<open>NewTenantStateManager\<close>: a manager is its path.\<close>

definition NewStateManager :: "string \<Rightarrow> string" where
  "NewStateManager clusterName = statePathFor [] clusterName"

definition NewTenantStateManager :: "string \<Rightarrow> string \<Rightarrow> string" where
  "NewTenantStateManager gitopsDir clusterName = statePathFor gitopsDir clusterName"

subsection \<open>Runs\<close>

text \<open>
  What a run asks for: the time, an operation on the state file, a command, or a task of a package that is a
  parameter here (a provider, an installer, a wait). \<open>Began\<close> is the line a phase is announced with.
\<close>

datatype task =
    Validators | ProvisionDayZero | InstallCAPI | ProvisionManagementCluster | HubKubeconfig | JoinHomeWorkers
  | InstallArgoCDAndSeed | PivotMove | PivotReady | DeployClusterClasses | OnPlatformPreReqs
  | GenerateLocalSecrets | InstallPlatformCredentials | UpdateInfisicalSecretsWithCNPGCert | BootstrapInfisicalAPI
  | WriteFleetPKIValues | ReapplySeed | CommitGeneratedArtifacts | Adr045Consumers | WaitForArgoCDAppsHealthy string
  | Finalize | GetArgoCDPassword | KindCreate | CreateNamespace string
  | DeployBoundary int | RefreshArgoCDSchemaCache | AwaitBoundaryInventory int | Step string

datatype call =
    Now
  | MkdirAll string | WriteFile string | Rename string string | ReadFile string
  | Began bootstrapPhase
  | Exec string "string list"
  | Task task string

datatype reply = Failed string | Done string

record world =
  w_ask :: "call list \<Rightarrow> call \<Rightarrow> reply"
  w_now :: "call list \<Rightarrow> int"
  w_range :: "bootstrapPhase list"

text \<open>A file holds an encoded record or something that is not one.\<close>

datatype fileData = Encoded bootstrapState | Garbled

text \<open>The disk, what has been asked, the record in memory and the local variables of \<^verbatim>\<open>runFresh\<close>.\<close>

record run =
  r_disk :: "string \<Rightarrow> fileData option"
  r_log :: "call list"
  r_bs :: bootstrapState
  r_kubeconfig :: string
  r_context :: string
  r_mgmt :: string
  r_final :: string

text \<open>A program ends with an error or a value.\<close>

type_synonym 'a day0 = "run \<Rightarrow> (string, 'a) result \<times> run"

definition ok :: "'a \<Rightarrow> 'a day0" where
  "ok x s = (Inr x, s)"

definition err :: "string \<Rightarrow> 'a day0" where
  "err e s = (Inl e, s)"

text \<open>\<open>andthen\<close> returns early with an error; \<open>attempt\<close> looks at it.\<close>

definition andthen :: "'a day0 \<Rightarrow> ('a \<Rightarrow> 'b day0) \<Rightarrow> 'b day0" where
  "andthen m f s = (case m s of (Inl e, s1) \<Rightarrow> (Inl e, s1) | (Inr x, s1) \<Rightarrow> f x s1)"

definition attempt :: "'a day0 \<Rightarrow> ((string, 'a) result \<Rightarrow> 'b day0) \<Rightarrow> 'b day0" where
  "attempt m f s = (case m s of (r, s1) \<Rightarrow> f r s1)"

definition wrapped :: "string \<Rightarrow> 'a day0 \<Rightarrow> 'a day0" where
  "wrapped p m = attempt m (\<lambda>r. case r of Inl e \<Rightarrow> err (p @ e) | Inr x \<Rightarrow> ok x)"

definition gets :: "(run \<Rightarrow> 'a) \<Rightarrow> 'a day0" where
  "gets f s = (Inr (f s), s)"

definition change :: "(run \<Rightarrow> run) \<Rightarrow> unit day0" where
  "change f s = (Inr (), f s)"

definition set_bs :: "(bootstrapState \<Rightarrow> bootstrapState) \<Rightarrow> unit day0" where
  "set_bs f = change (\<lambda>s. s\<lparr>r_bs := f (r_bs s)\<rparr>)"

definition ask :: "world \<Rightarrow> call \<Rightarrow> string day0" where
  "ask W c s = ((case w_ask W (r_log s) c of Failed e \<Rightarrow> Inl e | Done x \<Rightarrow> Inr x), s\<lparr>r_log := r_log s @ [c]\<rparr>)"

definition now :: "world \<Rightarrow> int day0" where
  "now W s = (Inr (w_now W (r_log s)), s\<lparr>r_log := r_log s @ [Now]\<rparr>)"

definition began :: "bootstrapPhase \<Rightarrow> unit day0" where
  "began p = change (\<lambda>s. s\<lparr>r_log := r_log s @ [Began p]\<rparr>)"

definition todo :: "world \<Rightarrow> call \<Rightarrow> unit day0" where
  "todo W c = andthen (ask W c) (\<lambda>_. ok ())"

subsection \<open>Saving and loading\<close>

definition put_file :: "string \<Rightarrow> fileData option \<Rightarrow> unit day0" where
  "put_file p d = change (\<lambda>s. s\<lparr>r_disk := (r_disk s)(p := d)\<rparr>)"

text \<open>The directory of a state path is its root's \<open>TenantStateDir\<close>.\<close>

definition state_dir :: "string \<Rightarrow> string" where
  "state_dir path = rev (tl (dropWhile (\<lambda>c. c \<noteq> CHR ''/'') (rev path)))"

definition stamped :: "int \<Rightarrow> bootstrapState \<Rightarrow> bootstrapState" where
  "stamped t b = b\<lparr>bs_Timestamp := t, bs_StartedAt := (case bs_StartedAt b of None \<Rightarrow> Some t | Some u \<Rightarrow> Some u)\<rparr>"

lemma stamped_simps [simp]:
  "bs_CompletedPhases (stamped t b) = bs_CompletedPhases b" "bs_CurrentPhase (stamped t b) = bs_CurrentPhase b"
  "bs_MgmtKubeconfig (stamped t b) = bs_MgmtKubeconfig b" "bs_BootstrapKubeconfig (stamped t b) = bs_BootstrapKubeconfig b"
  "bs_Provider (stamped t b) = bs_Provider b" "bs_PhaseTimings (stamped t b) = bs_PhaseTimings b"
  "bs_ClusterName (stamped t b) = bs_ClusterName b" "bs_CompletedAt (stamped t b) = bs_CompletedAt b"
  by (simp_all add: stamped_def)

text \<open>\<^verbatim>\<open>Save\<close>: the record is written beside the file and renamed over it. A write that fails leaves anything there.\<close>

definition state_Save :: "world \<Rightarrow> string \<Rightarrow> unit day0" where
  "state_Save W path =
     andthen (now W) (\<lambda>t.
     andthen (set_bs (stamped t)) (\<lambda>_.
     andthen (wrapped ''failed to create state directory: '' (ask W (MkdirAll (state_dir path)))) (\<lambda>_.
     andthen (attempt (ask W (WriteFile (path @ ''.tmp''))) (\<lambda>r. case r of
         Inl e \<Rightarrow> andthen (put_file (path @ ''.tmp'') (Some Garbled)) (\<lambda>_. err (''failed to write temp state file: '' @ e))
       | Inr _ \<Rightarrow> andthen (gets r_bs) (\<lambda>b. put_file (path @ ''.tmp'') (Some (Encoded b))))) (\<lambda>_.
     andthen (wrapped ''failed to rename state file: '' (ask W (Rename (path @ ''.tmp'') path))) (\<lambda>_.
     andthen (gets (\<lambda>s. r_disk s (path @ ''.tmp''))) (\<lambda>d.
     andthen (put_file path d) (\<lambda>_. put_file (path @ ''.tmp'') None)))))))"

text \<open>\<^verbatim>\<open>Load\<close>: a file that is not there is no record and no error.\<close>

definition state_Load :: "world \<Rightarrow> string \<Rightarrow> bootstrapState option day0" where
  "state_Load W path =
     andthen (gets (\<lambda>s. r_disk s path)) (\<lambda>d.
     attempt (ask W (ReadFile path)) (\<lambda>r. case d of
         None \<Rightarrow> ok None
       | Some f \<Rightarrow>
           (case r of
              Inl e \<Rightarrow> err (''failed to read state file: '' @ e)
            | Inr _ \<Rightarrow> (case f of Encoded b \<Rightarrow> ok (Some b) | Garbled \<Rightarrow> err ''failed to unmarshal state''))))"

lemmas day0_defs = ok_def err_def andthen_def attempt_def wrapped_def gets_def change_def set_bs_def ask_def now_def
  began_def todo_def put_file_def

text \<open>
  A save that succeeds leaves exactly the record in memory; one that fails, at whatever step, leaves the file as it
  was. Either way the record in memory gains only its time stamps.
\<close>

lemma state_Save_ok:
  assumes "state_Save W path s = (Inr u, s1)"
  shows "r_disk s1 path = Some (Encoded (r_bs s1))" and "p \<noteq> path \<Longrightarrow> p \<noteq> path @ ''.tmp'' \<Longrightarrow> r_disk s1 p = r_disk s p"
  using assms by (auto simp: state_Save_def day0_defs split: reply.splits sum.splits)

lemma state_Save_err:
  assumes "state_Save W path s = (Inl e, s1)"
  shows "p \<noteq> path @ ''.tmp'' \<Longrightarrow> r_disk s1 p = r_disk s p"
  using assms by (auto simp: state_Save_def day0_defs split: reply.splits sum.splits)

lemma state_Save_bs: "r_bs (snd (state_Save W path s)) = stamped (w_now W (r_log s)) (r_bs s)"
  by (simp add: state_Save_def day0_defs split: reply.splits sum.splits)

lemma state_Save_locals [simp]:
  "r_kubeconfig (snd (state_Save W path s)) = r_kubeconfig s" "r_context (snd (state_Save W path s)) = r_context s"
  "r_mgmt (snd (state_Save W path s)) = r_mgmt s" "r_final (snd (state_Save W path s)) = r_final s"
  by (simp_all add: state_Save_def day0_defs split: reply.splits sum.splits)

lemma state_Save_log:
  "\<exists>cs. r_log (snd (state_Save W path s)) = r_log s @ cs \<and>
     set cs \<subseteq> {Now, MkdirAll (state_dir path), WriteFile (path @ ''.tmp''), Rename (path @ ''.tmp'') path}"
  by (simp add: state_Save_def day0_defs split: reply.splits sum.splits)

lemma state_Load_absent:
  "r_disk s path = None \<Longrightarrow> state_Load W path s = (Inr None, s\<lparr>r_log := r_log s @ [ReadFile path]\<rparr>)"
  by (simp add: state_Load_def day0_defs)

lemma state_Load_saved:
  assumes "r_disk s path = Some (Encoded b)" and "w_ask W (r_log s) (ReadFile path) = Done x"
  shows "state_Load W path s = (Inr (Some b), s\<lparr>r_log := r_log s @ [ReadFile path]\<rparr>)"
  using assms by (simp add: state_Load_def day0_defs)

lemma state_Load_state: "snd (state_Load W path s) = s\<lparr>r_log := r_log s @ [ReadFile path]\<rparr>"
  by (simp add: state_Load_def day0_defs split: option.splits sum.splits fileData.splits)

lemma state_Load_SomeD: "state_Load W path s = (Inr (Some b), s1) \<Longrightarrow> r_disk s path = Some (Encoded b)"
  by (auto simp: state_Load_def day0_defs split: option.splits sum.splits fileData.splits reply.splits)

end
