(* ===== verification/Day0_Pipeline.thy ===== *)
theory Day0_Pipeline
  imports Day0_State Day0_Boundaries "HOL-Library.Multiset"
begin

text \<open>
  The bootstrap itself: \<^verbatim>\<open>internal/kakt-cli/bootstrap/orchestrator.go\<close> (the phases, how one is run, how a run is
  resumed), \<^verbatim>\<open>phase_postcondition.go\<close> (what must hold for a phase to count as done) and \<^verbatim>\<open>runBoundary\<close> of
  \<^verbatim>\<open>boundaries.go\<close>. Lines that are only printed are left out. A context that is cancelled is a task or a command that
  fails.
\<close>

text \<open>
  The command's settings and surroundings. \<open>or_OnPremRequested\<close> and \<open>or_PlannedWorkerReplicas\<close> are \<open>None\<close> for a provider
  without that method; a bootstrap always has a provider.
\<close>

record orchestrator =
  or_ClusterName :: string
  or_GitopsDir :: string
  or_BootstrapContext :: string
  or_KeepBootstrap :: bool
  or_Provider :: string
  or_OnPremRequested :: "bool option"
  or_PlannedWorkerReplicas :: "int option"
  or_KUBECONFIG :: string
  or_home :: string
  or_tmp :: string
  or_quote :: "string \<Rightarrow> string"

definition providerName :: "orchestrator \<Rightarrow> string" where
  "providerName orc = or_Provider orc"

definition nl :: string where
  "nl = [CHR 0x0A]"

subsection \<open>Boundaries\<close>

definition boundary_tag :: "int \<Rightarrow> string" where
  "boundary_tag n = ''[boundary'' @ (if 0 \<le> n \<and> n < 10 then ''0'' else []) @ Itoa n @ '']''"

text \<open>Checks in order, until one fails.\<close>

fun run_steps :: "world \<Rightarrow> string \<Rightarrow> string \<Rightarrow> namedStep list \<Rightarrow> unit day0" where
  "run_steps W pre kubeconfig [] = ok ()"
| "run_steps W pre kubeconfig (k # ks) =
     andthen (wrapped (pre @ ns_what k @ '': '') (ask W (Task (Step (ns_what k)) kubeconfig))) (\<lambda>_. run_steps W pre kubeconfig ks)"

definition runBoundary :: "world \<Rightarrow> string \<Rightarrow> boundaryContract \<Rightarrow> unit day0" where
  "runBoundary W kubeconfig c =
     (let tag = boundary_tag (bc_number c) in
      andthen (if rd_declared (bc_requires c) then ok () else err (tag @ '' declares no precondition contract'')) (\<lambda>_.
      andthen (run_steps W (tag @ '' requires '') kubeconfig (rd_checks (bc_requires c))) (\<lambda>_.
      andthen (if bc_activates c then todo W (Task (DeployBoundary (bc_number c)) kubeconfig) else ok ()) (\<lambda>_.
      andthen (if bc_refreshesSchema c then todo W (Task RefreshArgoCDSchemaCache kubeconfig) else ok ()) (\<lambda>_.
      andthen (todo W (Task (AwaitBoundaryInventory (bc_number c)) kubeconfig)) (\<lambda>_.
      andthen (case bc_prepare c of None \<Rightarrow> ok () | Some p \<Rightarrow> run_steps W (tag @ '' '') kubeconfig [p]) (\<lambda>_.
      andthen (if rd_declared (bc_readiness c) then ok () else err (tag @ '' declares no readiness contract'')) (\<lambda>_.
      run_steps W (tag @ '' '') kubeconfig (rd_checks (bc_readiness c))))))))))"

definition deployBoundaryN :: "world \<Rightarrow> string \<Rightarrow> int \<Rightarrow> unit day0" where
  "deployBoundaryN W kubeconfig number =
     (case contractFor boundaryContracts number of Inl e \<Rightarrow> err e | Inr c \<Rightarrow> runBoundary W kubeconfig c)"

subsection \<open>What must hold of a phase that is done\<close>

definition kubectl :: "world \<Rightarrow> string \<Rightarrow> string list \<Rightarrow> string day0" where
  "kubectl W kubeconfig args = ask W (Exec ''kubectl'' ([''--kubeconfig'', kubeconfig] @ args))"

definition zitadelServing :: "world \<Rightarrow> string \<Rightarrow> unit day0" where
  "zitadelServing W kubeconfig =
     attempt (kubectl W kubeconfig [''get'', ''deployment'', ''zitadel'', ''-n'', ''platform-identity'', ''-o'',
       ''jsonpath={.status.readyReplicas}'']) (\<lambda>r. case r of
       Inl _ \<Rightarrow> err ''the zitadel deployment could not be read in platform-identity''
     | Inr out \<Rightarrow>
         if TrimSpace out = [] \<or> TrimSpace out = ''0'' then err ''the identity provider has no ready replica'' else ok ())"

definition on_prem :: "orchestrator \<Rightarrow> bool" where
  "on_prem orc \<longleftrightarrow> or_OnPremRequested orc = Some True"

definition tailnetCredentialStagedOnHub :: "world \<Rightarrow> orchestrator \<Rightarrow> string \<Rightarrow> unit day0" where
  "tailnetCredentialStagedOnHub W orc kubeconfig =
     (if \<not> on_prem orc then ok ()
      else attempt (kubectl W kubeconfig [''get'', ''secret'', ''tailscale-hybrid-psk'', ''-n'', ''platform-capi'']) (\<lambda>r. case r of
          Inl _ \<Rightarrow> err (''platform-capi/tailscale-hybrid-psk is not on the hub, so the hub-operator has nothing to upload '' @
            ''and the tailnet ExternalSecret cannot sync'')
        | Inr _ \<Rightarrow> ok ()))"

datatype hubWorkerState = HubWorkerUnknown | HubWorkerAbsent | HubWorkerNotReady | HubWorkerReady

text \<open>The lines of the answer: the first Ready node, or the last that is not.\<close>

fun worker_of :: "string list \<Rightarrow> hubWorkerState \<times> string \<Rightarrow> hubWorkerState \<times> string" where
  "worker_of [] best = best"
| "worker_of (l # ls) best =
     (case Cut (TrimSpace l) CHR ''='' of (n, status, found) \<Rightarrow>
        if \<not> found \<or> n = [] then worker_of ls best
        else if status = ''True'' then (HubWorkerReady, n)
        else worker_of ls (HubWorkerNotReady, n))"

definition hubWorkerSelector :: string where
  "hubWorkerSelector = ''hub-role=worker,workload-location=on-prem''"

definition probeHubWorker :: "world \<Rightarrow> string \<Rightarrow> (hubWorkerState \<times> string) day0" where
  "probeHubWorker W kubeconfig =
     attempt (kubectl W kubeconfig [''get'', ''nodes'', ''-l'', hubWorkerSelector, ''-o'',
       ''jsonpath={range .items[*]}{.metadata.name}{'' @ [CHR 0x22] @ ''='' @ [CHR 0x22] @ ''}{.status.conditions[?(@.type=='' @
       [CHR 0x22] @ ''Ready'' @ [CHR 0x22] @ '')].status}{'' @ [CHR 0x22, CHR 0x5C] @ ''n'' @ [CHR 0x22] @ ''}{end}'']) (\<lambda>r. case r of
       Inl _ \<Rightarrow> ok (HubWorkerUnknown, [])
     | Inr out \<Rightarrow> ok (worker_of (split_on CHR 0x0A out) (HubWorkerAbsent, [])))"

definition onPremWorkersPresent :: "world \<Rightarrow> orchestrator \<Rightarrow> string \<Rightarrow> unit day0" where
  "onPremWorkersPresent W orc kubeconfig =
     (if \<not> on_prem orc then ok ()
      else andthen (probeHubWorker W kubeconfig) (\<lambda>(st, name). case st of
          HubWorkerReady \<Rightarrow> ok ()
        | HubWorkerNotReady \<Rightarrow> err (name @ '' carries the on-prem labels but is NotReady, so nothing the platform pins to it can schedule'')
        | HubWorkerAbsent \<Rightarrow> err ''this box asked for on-prem nodes and none has joined''
        | HubWorkerUnknown \<Rightarrow> err (''the hub'' @ [CHR 0x27] @ ''s nodes could not be read to confirm on-prem capacity'')))"

definition ingress_path :: "string \<Rightarrow> string" where
  "ingress_path field =
     ''jsonpath={.status.conditions[?(@.type=='' @ [CHR 0x22] @ ''IngressAddressResolved'' @ [CHR 0x22] @ '')].'' @ field @ ''}''"

definition hubIngressAddressResolved :: "world \<Rightarrow> string \<Rightarrow> unit day0" where
  "hubIngressAddressResolved W kubeconfig =
     attempt (kubectl W kubeconfig [''get'', ''hubenvironment'', ''hub-environment'', ''-o'', ingress_path ''status'']) (\<lambda>r. case r of
       Inl _ \<Rightarrow> err (''the HubEnvironment could not be read to confirm the hub'' @ [CHR 0x27] @ ''s ingress address is known'')
     | Inr out \<Rightarrow>
         if TrimSpace out = ''True'' then ok ()
         else if TrimSpace out = []
         then err (''the hub-operator has not reported IngressAddressResolved.'' @ nl @
           ''  An operator that predates this condition never will -- upgrade the bundle,'' @ nl @ ''  which is what carries it'')
         else attempt (kubectl W kubeconfig [''get'', ''hubenvironment'', ''hub-environment'', ''-o'', ingress_path ''message'']) (\<lambda>m.
           err (''the hub'' @ [CHR 0x27] @ ''s ingress address is not resolved: '' @ TrimSpace (case m of Inl _ \<Rightarrow> [] | Inr x \<Rightarrow> x))))"

definition phasePostconditions :: "world \<Rightarrow> orchestrator \<Rightarrow> string \<Rightarrow> bootstrapPhase \<Rightarrow> unit day0 option" where
  "phasePostconditions W orc kubeconfig phase =
     (case phase of
        PhaseBoundary04 \<Rightarrow> Some (zitadelServing W kubeconfig)
      | PhasePivotReady \<Rightarrow> Some (tailnetCredentialStagedOnHub W orc kubeconfig)
      | PhaseOnPremJoin \<Rightarrow> Some (onPremWorkersPresent W orc kubeconfig)
      | PhaseBoundary06 \<Rightarrow> Some (hubIngressAddressResolved W kubeconfig)
      | _ \<Rightarrow> None)"

text \<open>The registry's phases, in the order a \<^verbatim>\<open>range\<close> over the map happens to take.\<close>

definition registry_phases :: "bootstrapPhase list" where
  "registry_phases = [PhaseBoundary04, PhasePivotReady, PhaseOnPremJoin, PhaseBoundary06]"

definition ranged :: "world \<Rightarrow> bootstrapPhase list" where
  "ranged W = (if mset (w_range W) = mset registry_phases then w_range W else registry_phases)"

definition phaseDone :: "bootstrapState \<Rightarrow> bootstrapPhase \<Rightarrow> bool" where
  "phaseDone b phase \<longleftrightarrow> phase \<in> set (bs_CompletedPhases b)"

definition markPhaseComplete :: "bootstrapPhase \<Rightarrow> bootstrapState \<Rightarrow> bootstrapState" where
  "markPhaseComplete phase b = b\<lparr>bs_CompletedPhases := bs_CompletedPhases b @ [phase], bs_CurrentPhase := phase\<rparr>"

definition removePhase :: "bootstrapPhase list \<Rightarrow> bootstrapPhase \<Rightarrow> bootstrapPhase list" where
  "removePhase phases phase = filter (\<lambda>p. p \<noteq> phase) phases"

definition withdraw :: "bootstrapPhase \<Rightarrow> bootstrapState \<Rightarrow> bootstrapState" where
  "withdraw phase b = b\<lparr>bs_CompletedPhases := removePhase (bs_CompletedPhases b) phase\<rparr>"

fun unmet_among :: "world \<Rightarrow> orchestrator \<Rightarrow> string \<Rightarrow> bootstrapPhase list \<Rightarrow> (bootstrapPhase \<times> string) list day0" where
  "unmet_among W orc kubeconfig [] = ok []"
| "unmet_among W orc kubeconfig (p # ps) =
     andthen (gets r_bs) (\<lambda>b.
     case phasePostconditions W orc kubeconfig p of
       None \<Rightarrow> unmet_among W orc kubeconfig ps
     | Some chk \<Rightarrow>
         if \<not> phaseDone b p then unmet_among W orc kubeconfig ps
         else attempt chk (\<lambda>r.
           andthen (unmet_among W orc kubeconfig ps) (\<lambda>us. ok (case r of Inl e \<Rightarrow> (p, e) # us | Inr _ \<Rightarrow> us))))"

definition unmetPostconditions :: "world \<Rightarrow> orchestrator \<Rightarrow> string \<Rightarrow> (bootstrapPhase \<times> string) list day0" where
  "unmetPostconditions W orc kubeconfig = unmet_among W orc kubeconfig (ranged W)"

definition withdrawCompletion :: "bootstrapPhase list \<Rightarrow> bootstrapState \<Rightarrow> bootstrapState" where
  "withdrawCompletion phases b =
     (let done = fold (\<lambda>p ps. removePhase ps p) phases (removePhase (bs_CompletedPhases b) PhaseComplete) in
      b\<lparr>bs_CompletedPhases := done, bs_CurrentPhase := (if done = [] then bs_CurrentPhase b else last done)\<rparr>)"

end
