(* ===== verification/Day0_Run.thy ===== *)
theory Day0_Run
  imports Day0_Pipeline
begin

text \<open>
  The rest of \<^verbatim>\<open>orchestrator.go\<close>: the bootstrap cluster and its kubeconfig, the runner of a phase, the phases in their
  order, and what a command does with a record it finds.
\<close>

subsection \<open>The bootstrap cluster\<close>

definition defaultKubeconfigPath :: "orchestrator \<Rightarrow> string" where
  "defaultKubeconfigPath orc =
     (let env = TrimSpace (or_KUBECONFIG orc); first = hd (split_on CHR '':'' env) in
      if env \<noteq> [] \<and> first \<noteq> [] then first else or_home orc @ ''/.kube/config'')"

definition pinned_path :: "orchestrator \<Rightarrow> string \<Rightarrow> string" where
  "pinned_path orc ctx = or_tmp orc @ ''/hub-bootstrap-'' @ ctx @ ''.kubeconfig''"

definition pinKubeconfig :: "world \<Rightarrow> orchestrator \<Rightarrow> string \<Rightarrow> string \<Rightarrow> string day0" where
  "pinKubeconfig W orc kubeconfig ctx =
     andthen (wrapped (''context '' @ or_quote orc ctx @ '' not resolvable in '' @ kubeconfig @ '': '')
       (ask W (Exec ''kubectl'' [''--kubeconfig'', kubeconfig, ''--context'', ctx, ''config'', ''view'', ''--minify'', ''--flatten'', ''-o'', ''yaml'']))) (\<lambda>_.
     andthen (wrapped ''failed to write a pinned kubeconfig: '' (ask W (WriteFile (pinned_path orc ctx)))) (\<lambda>_.
     ok (pinned_path orc ctx)))"

definition paths_context :: "orchestrator \<Rightarrow> bootstrapState \<Rightarrow> string" where
  "paths_context orc b =
     (if bs_BootstrapContext b \<noteq> [] then bs_BootstrapContext b
      else if or_BootstrapContext orc \<noteq> [] then or_BootstrapContext orc
      else ''kind-'' @ or_ClusterName orc)"

definition kubeconfigPaths :: "world \<Rightarrow> orchestrator \<Rightarrow> (string \<times> string) day0" where
  "kubeconfigPaths W orc =
     andthen (gets r_bs) (\<lambda>b.
     let recorded = bs_BootstrapKubeconfig b;
         kubeconfig = (if recorded = [] then defaultKubeconfigPath orc else recorded);
         ctx = paths_context orc b in
     attempt (pinKubeconfig W orc kubeconfig ctx) (\<lambda>r. case r of
         Inr pinned \<Rightarrow> ok (pinned, ctx)
       | Inl e \<Rightarrow>
           if recorded \<noteq> []
           then err (''the bootstrap cluster'' @ [CHR 0x27] @ ''s kubeconfig no longer resolves context '' @ or_quote orc ctx @ ''.'' @ nl @ nl @
             ''state records '' @ recorded @ '', written by bootstrap-create once that context was'' @ nl @
             ''present. It is not there now, so this run cannot tell the bootstrap'' @ nl @
             ''cluster apart from any other cluster that file names.'' @ nl @ nl @
             ''If the kind cluster is still up, re-run the bootstrap-create phase to'' @ nl @
             ''re-pin it. If it is gone, tear down and start over -- later phases'' @ nl @
             ''cannot be resumed without it: '' @ e)
           else ok (kubeconfig, ctx)))"

text \<open>\<^verbatim>\<open>KindManager.Exists\<close>; \<^verbatim>\<open>Create\<close> is a task.\<close>

definition kind_Exists :: "world \<Rightarrow> orchestrator \<Rightarrow> bool day0" where
  "kind_Exists W orc = attempt (ask W (Exec ''kind'' [''get'', ''clusters''])) (\<lambda>r. case r of
       Inl _ \<Rightarrow> ok False
     | Inr out \<Rightarrow> ok (or_ClusterName orc \<in> set (split_on CHR 0x0A (TrimSpace out))))"

definition checkKindClusterExists :: "world \<Rightarrow> orchestrator \<Rightarrow> unit day0" where
  "checkKindClusterExists W orc = attempt (ask W (Exec ''kind'' [''get'', ''clusters''])) (\<lambda>r. case r of
       Inl _ \<Rightarrow> ok ()
     | Inr out \<Rightarrow>
         if Contains out (or_ClusterName orc)
         then err (''kind cluster '' @ [CHR 0x27] @ or_ClusterName orc @ [CHR 0x27] @ '' already exists. Run teardown first'')
         else ok ())"

definition createKindCluster :: "world \<Rightarrow> orchestrator \<Rightarrow> unit day0" where
  "createKindCluster W orc =
     (if or_BootstrapContext orc \<noteq> [] then set_bs (\<lambda>b. b\<lparr>bs_BootstrapContext := or_BootstrapContext orc\<rparr>)
      else
        andthen (kind_Exists W orc) (\<lambda>there.
        andthen (if there then ok () else wrapped ''failed to create Kind cluster: '' (todo W (Task KindCreate []))) (\<lambda>_.
        let ctx = ''kind-'' @ or_ClusterName orc; kubeconfig = defaultKubeconfigPath orc in
        andthen (set_bs (\<lambda>b. b\<lparr>bs_BootstrapContext := ctx\<rparr>)) (\<lambda>_.
        andthen (wrapped (''the bootstrap cluster was created but context '' @ or_quote orc ctx @ '' is not in '' @ kubeconfig @ ''.'' @ nl @ nl @
            ''kind writes to $KUBECONFIG when it is set, so an exported KUBECONFIG pointing somewhere else puts the context '' @
            ''there while every kubectl call below reads this file. Unset it and re-run, or export the file kind actually wrote to: '')
          (pinKubeconfig W orc kubeconfig ctx)) (\<lambda>pinned.
        andthen (set_bs (\<lambda>b. b\<lparr>bs_BootstrapKubeconfig := pinned\<rparr>)) (\<lambda>_.
        wrapped ''failed to create namespace: '' (todo W (Task (CreateNamespace ctx) kubeconfig))))))))"

definition checkPlacementCapacityRequested :: "orchestrator \<Rightarrow> unit day0" where
  "checkPlacementCapacityRequested orc =
     (if on_prem orc then ok ()
      else if (case or_PlannedWorkerReplicas orc of Some n \<Rightarrow> n > 0 | None \<Rightarrow> False) then ok ()
      else err (''this box would have no worker capacity: '' @ providerName orc @ '' provisions no cloud'' @ nl @
        ''workers, and on-prem nodes were not requested.'' @ nl @ nl @
        ''Every platform workload pins node-role.kubernetes.io/worker, which a'' @ nl @
        ''control-plane node does not carry, so the cluster would come up with its'' @ nl @
        ''control plane Ready and everything else Pending -- roughly ninety minutes'' @ nl @
        ''in, at a CNPG cluster that never finishes setting up its primary.'' @ nl @ nl @
        ''Re-run with --on-prem --tailnet-name=<tailnet>, or with --workers >= 1.''))"

subsection \<open>The runner of a phase\<close>

definition git :: "world \<Rightarrow> string list \<Rightarrow> string day0" where
  "git W args = ask W (Exec ''git'' args)"

text \<open>What fails here is only reported.\<close>

definition persistTenantState :: "world \<Rightarrow> orchestrator \<Rightarrow> string \<Rightarrow> unit day0" where
  "persistTenantState W orc label =
     (if or_GitopsDir orc = [] then ok ()
      else attempt (git W [''add'', TenantStateDir]) (\<lambda>a. case a of Inl _ \<Rightarrow> ok () | Inr _ \<Rightarrow>
           attempt (git W [''diff'', ''--cached'', ''--quiet'']) (\<lambda>d. case d of Inr _ \<Rightarrow> ok () | Inl _ \<Rightarrow>
           attempt (git W [''commit'', ''-m'', ''chore(bootstrap): '' @ label @ '' [skip ci]'']) (\<lambda>c. case c of Inl _ \<Rightarrow> ok () | Inr _ \<Rightarrow>
           attempt (git W [''pull'', ''--rebase'', ''--autostash'']) (\<lambda>p. case p of Inl _ \<Rightarrow> ok () | Inr _ \<Rightarrow>
           attempt (git W [''push'']) (\<lambda>_. ok ()))))))"

text \<open>\<^verbatim>\<open>Round(time.Millisecond)\<close>, in milliseconds.\<close>

definition round_ms :: "int \<Rightarrow> int" where
  "round_ms d = (if d < 0 then - ((- d + 500000) div 1000000) else (d + 500000) div 1000000)"

definition add_timing :: "bootstrapPhase \<Rightarrow> int \<Rightarrow> int \<Rightarrow> bootstrapState \<Rightarrow> bootstrapState" where
  "add_timing phase started finished b = b\<lparr>bs_PhaseTimings := bs_PhaseTimings b @
     [\<lparr> pt_Phase = phase, pt_StartedAt = started, pt_CompletedAt = finished, pt_Seconds = round_ms (finished - started) \<rparr>]\<rparr>"

text \<open>\<^verbatim>\<open>runPhase\<close> from the header on.\<close>

definition perform :: "world \<Rightarrow> orchestrator \<Rightarrow> string \<Rightarrow> bootstrapPhase \<Rightarrow> string \<Rightarrow> unit day0 \<Rightarrow> unit day0" where
  "perform W orc path phase label action =
     andthen (began phase) (\<lambda>_.
     andthen (now W) (\<lambda>started.
     andthen (wrapped (''['' @ label @ ''] '') action) (\<lambda>_.
     andthen (now W) (\<lambda>finished.
     andthen (set_bs (add_timing phase started finished)) (\<lambda>_.
     andthen (set_bs (markPhaseComplete phase)) (\<lambda>_.
     andthen (state_Save W path) (\<lambda>_.
     persistTenantState W orc label)))))))"

definition runPhase :: "world \<Rightarrow> orchestrator \<Rightarrow> string \<Rightarrow> bootstrapPhase \<Rightarrow> string \<Rightarrow> unit day0 \<Rightarrow> unit day0 option \<Rightarrow> unit day0" where
  "runPhase W orc path phase label action post =
     andthen (gets r_bs) (\<lambda>b.
     if phaseDone b phase
     then (case post of
         None \<Rightarrow> ok ()
       | Some chk \<Rightarrow> attempt chk (\<lambda>r. case r of
             Inr _ \<Rightarrow> ok ()
           | Inl _ \<Rightarrow>
               andthen (set_bs (withdraw phase)) (\<lambda>_.
               andthen (state_Save W path) (\<lambda>_.
               perform W orc path phase label action))))
     else perform W orc path phase label action)"

subsection \<open>The phases\<close>

text \<open>The pipeline is a list: a phase with its action and postcondition, or what stands between two phases.\<close>

datatype stage =
    Phase bootstrapPhase string string "unit day0" "unit day0 option"
  | Inline "unit day0"

fun run_stages :: "world \<Rightarrow> orchestrator \<Rightarrow> string \<Rightarrow> stage list \<Rightarrow> unit day0" where
  "run_stages W orc path [] = ok ()"
| "run_stages W orc path (Phase phase label prefix action post # ss) =
     andthen (wrapped prefix (runPhase W orc path phase label action post)) (\<lambda>_. run_stages W orc path ss)"
| "run_stages W orc path (Inline m # ss) = andthen m (\<lambda>_. run_stages W orc path ss)"

definition on_bootstrap :: "world \<Rightarrow> task \<Rightarrow> unit day0" where
  "on_bootstrap W t = andthen (gets r_kubeconfig) (\<lambda>kc. todo W (Task t kc))"

definition on_hub :: "world \<Rightarrow> task \<Rightarrow> unit day0" where
  "on_hub W t = andthen (gets r_mgmt) (\<lambda>kc. todo W (Task t kc))"

definition resolveHubKubeconfig :: "world \<Rightarrow> string day0" where
  "resolveHubKubeconfig W =
     andthen (gets r_kubeconfig) (\<lambda>kc.
     attempt (ask W (Task HubKubeconfig kc)) (\<lambda>r. case r of
         Inl _ \<Rightarrow> gets (\<lambda>s. bs_MgmtKubeconfig (r_bs s))
       | Inr k \<Rightarrow> if k \<noteq> [] then ok k else gets (\<lambda>s. bs_MgmtKubeconfig (r_bs s))))"

definition postcondition :: "world \<Rightarrow> orchestrator \<Rightarrow> string day0 \<Rightarrow> bootstrapPhase \<Rightarrow> unit day0" where
  "postcondition W orc kc phase =
     andthen kc (\<lambda>k. case phasePostconditions W orc k phase of Some chk \<Rightarrow> chk | None \<Rightarrow> err ''no postcondition'')"

definition set_paths :: "world \<Rightarrow> orchestrator \<Rightarrow> unit day0" where
  "set_paths W orc = andthen (kubeconfigPaths W orc) (\<lambda>(kc, ctx). change (\<lambda>s. s\<lparr>r_kubeconfig := kc, r_context := ctx\<rparr>))"

text \<open>A pivot that is recorded without the kubeconfig it writes is done again.\<close>

definition before_pivot :: "unit day0" where
  "before_pivot =
     andthen (gets r_bs) (\<lambda>b.
     andthen (if bs_MgmtKubeconfig b = [] \<and> phaseDone b PhasePivotMove then set_bs (withdraw PhasePivotMove) else ok ()) (\<lambda>_.
     change (\<lambda>s. s\<lparr>r_mgmt := bs_MgmtKubeconfig (r_bs s)\<rparr>)))"

definition act_pivot :: "world \<Rightarrow> unit day0" where
  "act_pivot W =
     andthen (gets r_kubeconfig) (\<lambda>kc.
     andthen (ask W (Task PivotMove kc)) (\<lambda>m.
     change (\<lambda>s. s\<lparr>r_mgmt := m, r_bs := (r_bs s)\<lparr>bs_MgmtKubeconfig := m\<rparr>\<rparr>)))"

definition after_pivot :: "unit day0" where
  "after_pivot = change (\<lambda>s. if r_mgmt s \<noteq> [] then s\<lparr>r_bs := (r_bs s)\<lparr>bs_MgmtKubeconfig := r_mgmt s\<rparr>\<rparr> else s)"

definition cleanup_bootstrap :: "world \<Rightarrow> orchestrator \<Rightarrow> string \<Rightarrow> unit day0" where
  "cleanup_bootstrap W orc path =
     attempt (if or_KeepBootstrap orc then ok () else todo W (Exec ''kind'' [''delete'', ''cluster'', ''--name'', or_ClusterName orc])) (\<lambda>_.
     andthen (gets r_bs) (\<lambda>b.
     if phaseDone b PhaseCleanup then ok ()
     else andthen (set_bs (markPhaseComplete PhaseCleanup)) (\<lambda>_. attempt (state_Save W path) (\<lambda>_. ok ()))))"

definition after_infisical :: "world \<Rightarrow> unit day0" where
  "after_infisical W =
     andthen (on_hub W WriteFleetPKIValues) (\<lambda>_.
     andthen (wrapped ''re-apply seed with Infisical coordinates: '' (on_hub W ReapplySeed)) (\<lambda>_.
     todo W (Task CommitGeneratedArtifacts [])))"

definition await_consumers :: "world \<Rightarrow> unit day0" where
  "await_consumers W =
     wrapped ''[adr045-commit] '' (
     andthen (ask W (Task Adr045Consumers [])) (\<lambda>apps. on_hub W (WaitForArgoCDAppsHealthy apps)))"

definition act_finalize :: "world \<Rightarrow> unit day0" where
  "act_finalize W =
     andthen (gets r_mgmt) (\<lambda>kc. andthen (ask W (Task Finalize kc)) (\<lambda>k. change (\<lambda>s. s\<lparr>r_final := k\<rparr>)))"

definition completion :: "world \<Rightarrow> string \<Rightarrow> unit day0" where
  "completion W path =
     andthen (set_bs (markPhaseComplete PhaseComplete)) (\<lambda>_.
     andthen (now W) (\<lambda>t.
     andthen (set_bs (\<lambda>b. b\<lparr>bs_CompletedAt := Some t\<rparr>)) (\<lambda>_.
     attempt (state_Save W path) (\<lambda>_.
     andthen (change (\<lambda>s. if r_final s = [] then s\<lparr>r_final := bs_MgmtKubeconfig (r_bs s)\<rparr> else s)) (\<lambda>_.
     attempt (on_hub W GetArgoCDPassword) (\<lambda>_. ok ()))))))"

definition boundary_act :: "world \<Rightarrow> int \<Rightarrow> unit day0" where
  "boundary_act W n = andthen (gets r_mgmt) (\<lambda>kc. deployBoundaryN W kc n)"

definition pipeline :: "world \<Rightarrow> orchestrator \<Rightarrow> string \<Rightarrow> stage list" where
  "pipeline W orc path =
     [Phase PhasePreFlight ''preflight'' [] (andthen (checkPlacementCapacityRequested orc) (\<lambda>_. todo W (Task Validators []))) None,
      Phase PhaseBootstrapCreate ''bootstrap-create'' ''bootstrap create failed: '' (createKindCluster W orc) None,
      Inline (set_paths W orc),
      Phase PhaseDayZero ''day0-infra'' [] (on_bootstrap W ProvisionDayZero) None,
      Phase PhaseCAPIInit ''capi-init'' [] (on_bootstrap W InstallCAPI) None,
      Phase PhaseClusterProvision ''cluster-provision'' [] (on_bootstrap W ProvisionManagementCluster) None,
      Phase PhaseOnPremJoin ''on-prem-join'' [] (andthen (resolveHubKubeconfig W) (\<lambda>kc. todo W (Task JoinHomeWorkers kc)))
        (Some (postcondition W orc (resolveHubKubeconfig W) PhaseOnPremJoin)),
      Phase PhaseArgoCDInstall ''argocd-install'' [] (andthen (resolveHubKubeconfig W) (\<lambda>kc. todo W (Task InstallArgoCDAndSeed kc))) None,
      Inline before_pivot,
      Phase PhasePivotMove ''pivot-move'' [] (act_pivot W) None,
      Inline after_pivot,
      Phase PhasePivotReady ''pivot-ready'' [] (on_hub W PivotReady) (Some (postcondition W orc (gets r_mgmt) PhasePivotReady)),
      Inline (cleanup_bootstrap W orc path),
      Phase PhaseClusterClassDeploy ''clusterclass-deploy'' [] (on_hub W DeployClusterClasses) None,
      Phase PhasePlatformPreReqs ''platform-pre-reqs'' [] (on_hub W OnPlatformPreReqs) None,
      Phase PhaseBoundary01 ''boundary01'' [] (boundary_act W 1) None,
      Phase PhaseGenerateLocalSecrets ''generate-local-secrets'' []
        (andthen (on_hub W GenerateLocalSecrets) (\<lambda>_. on_hub W InstallPlatformCredentials)) None,
      Phase PhaseBoundary02 ''boundary02'' [] (boundary_act W 2) None,
      Phase PhaseInjectCACert ''inject-ca-cert'' [] (on_hub W UpdateInfisicalSecretsWithCNPGCert) None,
      Phase PhaseBoundary03 ''boundary03'' [] (boundary_act W 3) None,
      Phase PhaseBootstrapInfisicalAPI ''bootstrap-infisical-api'' [] (on_hub W BootstrapInfisicalAPI) None,
      Inline (after_infisical W),
      Phase PhaseBoundary04 ''boundary04'' [] (boundary_act W 4) (Some (postcondition W orc (gets r_mgmt) PhaseBoundary04)),
      Phase PhaseBoundary05 ''boundary05'' [] (boundary_act W 5) None,
      Phase PhaseBoundary06 ''boundary06'' [] (boundary_act W 6) None,
      Inline (await_consumers W),
      Phase PhaseFinalize ''finalize'' [] (act_finalize W) None,
      Inline (completion W path)]"

definition fresh_state :: "orchestrator \<Rightarrow> bootstrapState" where
  "fresh_state orc =
     \<lparr> bs_Version = ''1.0'', bs_ClusterName = or_ClusterName orc, bs_Provider = or_Provider orc, bs_Region = [], bs_BootstrapID = [],
       bs_CurrentPhase = PhasePreFlight, bs_CompletedPhases = [], bs_BootstrapContext = [], bs_BootstrapKubeconfig = [],
       bs_MgmtKubeconfig = [], bs_NetworkCIDR = [], bs_SSHKeys = [], bs_Timestamp = 0, bs_Metadata = [],
       bs_StartedAt = None, bs_CompletedAt = None, bs_PhaseTimings = [] \<rparr>"

definition runFresh :: "world \<Rightarrow> orchestrator \<Rightarrow> string \<Rightarrow> bootstrapState option \<Rightarrow> unit day0" where
  "runFresh W orc path existing =
     andthen (change (\<lambda>s. s\<lparr>r_bs := (case existing of None \<Rightarrow> fresh_state orc | Some b \<Rightarrow> b),
       r_kubeconfig := [], r_context := [], r_mgmt := [], r_final := []\<rparr>)) (\<lambda>_.
     run_stages W orc path (pipeline W orc path))"

definition provider_clash :: "orchestrator \<Rightarrow> bootstrapState \<Rightarrow> bool" where
  "provider_clash orc b \<longleftrightarrow>
     TrimSpace (bs_Provider b) \<noteq> [] \<and> TrimSpace (providerName orc) \<noteq> [] \<and> TrimSpace (providerName orc) \<noteq> TrimSpace (bs_Provider b)"

definition clash_error :: "string \<Rightarrow> string \<Rightarrow> string" where
  "clash_error recorded asked =
     ''this cluster was built with --provider '' @ recorded @ '' and this run says --provider '' @ asked @ ''.'' @ nl @
     ''  The provider decides the cluster'' @ [CHR 0x27] @ ''s topology -- how many cloud workers it has,'' @ nl @
     ''  and whether its workers come from the tenant'' @ [CHR 0x27] @ ''s own hardware -- so resuming with'' @ nl @
     ''  a different one applies half of it to a shape built for the other.'' @ nl @ nl @
     ''  Re-run with --provider '' @ recorded @ '', or tear the cluster down and build it as '' @ asked @ ''.''"

definition handleExistingState :: "world \<Rightarrow> orchestrator \<Rightarrow> string \<Rightarrow> unit day0" where
  "handleExistingState W orc path =
     andthen (gets r_bs) (\<lambda>b.
     if provider_clash orc b then err (clash_error (TrimSpace (bs_Provider b)) (TrimSpace (providerName orc)))
     else if phaseDone b PhaseComplete
     then andthen (unmetPostconditions W orc (bs_MgmtKubeconfig b)) (\<lambda>unmet.
       if unmet = [] then ok ()
       else andthen (set_bs (withdrawCompletion (map fst unmet))) (\<lambda>_.
         andthen (state_Save W path) (\<lambda>_.
         andthen (gets r_bs) (\<lambda>b1. runFresh W orc path (Some b1)))))
     else runFresh W orc path (Some b))"

definition state_path :: "orchestrator \<Rightarrow> string" where
  "state_path orc =
     (if or_GitopsDir orc \<noteq> [] then NewTenantStateManager (or_GitopsDir orc) (or_ClusterName orc) else NewStateManager (or_ClusterName orc))"

text \<open>\<^verbatim>\<open>Run\<close>: a record that cannot be read counts as none.\<close>

definition orchestrator_Run :: "world \<Rightarrow> orchestrator \<Rightarrow> unit day0" where
  "orchestrator_Run W orc =
     (let path = state_path orc in
      attempt (state_Load W path) (\<lambda>r. case r of
          Inr (Some b) \<Rightarrow> andthen (change (\<lambda>s. s\<lparr>r_bs := b\<rparr>)) (\<lambda>_. handleExistingState W orc path)
        | _ \<Rightarrow> andthen (checkKindClusterExists W orc) (\<lambda>_. runFresh W orc path None)))"

end
