(* ===== verification/Day0_Checkpoints.thy ===== *)
theory Day0_Checkpoints
  imports Day0_Run "HOL-Library.Sublist"
begin

text \<open>
  What a run leaves behind: the phases it began, the phases it has in memory and those the file records. The
  programs of single phases leave all three alone; the runner keeps the file in step with what it began.
\<close>

fun began_in :: "call list \<Rightarrow> bootstrapPhase list" where
  "began_in [] = []"
| "began_in (Began p # cs) = p # began_in cs"
| "began_in (_ # cs) = began_in cs"

lemma began_in_append [simp]: "began_in (xs @ ys) = began_in xs @ began_in ys"
  by (induction xs rule: began_in.induct) auto

definition held :: "run \<Rightarrow> bootstrapPhase list" where
  "held s = bs_CompletedPhases (r_bs s)"

definition recorded :: "string \<Rightarrow> run \<Rightarrow> bootstrapPhase set" where
  "recorded path s = (case r_disk s path of Some (Encoded b) \<Rightarrow> set (bs_CompletedPhases b) | _ \<Rightarrow> {})"

subsection \<open>Programs that leave the record alone\<close>

definition quiet :: "'a day0 \<Rightarrow> bool" where
  "quiet m \<longleftrightarrow> (\<forall>s. r_disk (snd (m s)) = r_disk s \<and> held (snd (m s)) = held s \<and>
     (\<exists>cs. r_log (snd (m s)) = r_log s @ cs \<and> began_in cs = []))"

lemma quietD:
  assumes "quiet m" and "m s = (r, s1)"
  obtains cs where "r_disk s1 = r_disk s" "held s1 = held s" "r_log s1 = r_log s @ cs" "began_in cs = []"
  using assms unfolding quiet_def by (metis snd_conv)

lemma quiet_basic [simp]: "quiet (ok x)" "quiet (err e)" "quiet (gets f)"
  by (simp_all add: quiet_def ok_def err_def gets_def)

lemma quiet_andthen [intro]:
  assumes "quiet m" and "\<And>x. quiet (f x)"
  shows "quiet (andthen m f)"
proof -
  { fix s
    obtain r s1 where m: "m s = (r, s1)" by fastforce
    obtain cs where s1: "r_disk s1 = r_disk s" "held s1 = held s" "r_log s1 = r_log s @ cs" "began_in cs = []"
      using quietD [OF assms(1) m] .
    have "r_disk (snd (andthen m f s)) = r_disk s \<and> held (snd (andthen m f s)) = held s \<and>
        (\<exists>cs. r_log (snd (andthen m f s)) = r_log s @ cs \<and> began_in cs = [])"
    proof (cases r)
      case (Inl e)
      with m s1 show ?thesis by (simp add: andthen_def)
    next
      case (Inr x)
      obtain r2 s2 where f: "f x s1 = (r2, s2)" by fastforce
      obtain ds where "r_disk s2 = r_disk s1" "held s2 = held s1" "r_log s2 = r_log s1 @ ds" "began_in ds = []"
        using quietD [OF assms(2) f] .
      with m f Inr s1 show ?thesis by (simp add: andthen_def)
    qed }
  then show ?thesis by (simp add: quiet_def)
qed

lemma attempt_as_andthen: "attempt m f = andthen (\<lambda>s. (Inr (fst (m s)), snd (m s))) f"
  by (rule ext) (simp add: attempt_def andthen_def split_beta)

lemma quiet_attempt [intro]:
  assumes "quiet m" and "\<And>r. quiet (f r)"
  shows "quiet (attempt m f)"
proof -
  have "quiet (\<lambda>s. (Inr (fst (m s)) :: (string, _) result, snd (m s)))" using assms(1) by (simp add: quiet_def)
  then show ?thesis using assms(2) unfolding attempt_as_andthen by blast
qed

lemma quiet_wrapped [intro]: "quiet m \<Longrightarrow> quiet (wrapped p m)"
  unfolding wrapped_def by (rule quiet_attempt) (auto split: sum.split)

lemma quiet_ask [simp]: "(\<And>p. c \<noteq> Began p) \<Longrightarrow> quiet (ask W c)"
  by (cases c) (auto simp: quiet_def ask_def held_def)

lemma quiet_now [simp]: "quiet (now W)"
  by (simp add: quiet_def now_def held_def)

lemma quiet_todo [simp]: "(\<And>p. c \<noteq> Began p) \<Longrightarrow> quiet (todo W c)"
  unfolding todo_def by (rule quiet_andthen) auto

lemma quiet_change:
  "(\<And>s. r_disk (f s) = r_disk s \<and> held (f s) = held s \<and> r_log (f s) = r_log s) \<Longrightarrow> quiet (change f)"
  by (simp add: quiet_def change_def)

lemma quiet_set_bs: "(\<And>b. bs_CompletedPhases (f b) = bs_CompletedPhases b) \<Longrightarrow> quiet (set_bs f)"
  unfolding set_bs_def by (rule quiet_change) (simp add: held_def)

lemma quiet_if [intro]: "(b \<Longrightarrow> quiet m) \<Longrightarrow> (\<not> b \<Longrightarrow> quiet n) \<Longrightarrow> quiet (if b then m else n)"
  by simp

lemma quiet_option [intro]: "quiet m \<Longrightarrow> (\<And>x. quiet (f x)) \<Longrightarrow> quiet (case x of None \<Rightarrow> m | Some x \<Rightarrow> f x)"
  by (cases x) auto

lemma quiet_sum [intro]: "(\<And>x. quiet (f x)) \<Longrightarrow> (\<And>x. quiet (g x)) \<Longrightarrow> quiet (case r of Inl x \<Rightarrow> f x | Inr x \<Rightarrow> g x)"
  by (cases r) auto

lemma quiet_prod [intro]: "(\<And>x y. quiet (f x y)) \<Longrightarrow> quiet (case r of (x, y) \<Rightarrow> f x y)"
  by (cases r) auto

lemmas quiet_rules = quiet_andthen quiet_attempt quiet_wrapped quiet_if quiet_option quiet_sum quiet_prod

lemma quiet_run_steps: "quiet (run_steps W pre kc ks)"
  by (induction ks) (auto intro!: quiet_rules)

lemma quiet_boundary: "quiet (deployBoundaryN W kc n)"
  unfolding deployBoundaryN_def runBoundary_def Let_def
  by (intro quiet_rules quiet_run_steps) (auto intro: quiet_run_steps)

lemma quiet_postconditions: "phasePostconditions W orc kc p = Some m \<Longrightarrow> quiet m"
proof -
  have "quiet (probeHubWorker W kc)" unfolding probeHubWorker_def kubectl_def by (intro quiet_rules) auto
  then have "quiet (onPremWorkersPresent W orc kc)"
    unfolding onPremWorkersPresent_def by (intro quiet_rules) (auto split: hubWorkerState.split)
  moreover have "quiet (zitadelServing W kc)" unfolding zitadelServing_def kubectl_def by (intro quiet_rules) auto
  moreover have "quiet (tailnetCredentialStagedOnHub W orc kc)"
    unfolding tailnetCredentialStagedOnHub_def kubectl_def by (intro quiet_rules) auto
  moreover have "quiet (hubIngressAddressResolved W kc)"
    unfolding hubIngressAddressResolved_def kubectl_def by (intro quiet_rules) auto
  ultimately show "phasePostconditions W orc kc p = Some m \<Longrightarrow> quiet m"
    by (auto simp: phasePostconditions_def split: bootstrapPhase.splits)
qed

lemma quiet_postcondition: "quiet kc \<Longrightarrow> quiet (postcondition W orc kc p)"
  unfolding postcondition_def
  by (rule quiet_andthen) (auto intro: quiet_postconditions split: option.split)

lemma quiet_resolve: "quiet (resolveHubKubeconfig W)"
  unfolding resolveHubKubeconfig_def by (intro quiet_rules) auto

lemma quiet_pin: "quiet (pinKubeconfig W orc kc ctx)"
  unfolding pinKubeconfig_def by (intro quiet_rules) auto

lemma quiet_create: "quiet (createKindCluster W orc)"
  unfolding createKindCluster_def kind_Exists_def Let_def
  by (intro quiet_rules quiet_set_bs quiet_pin) auto

lemma quiet_paths: "quiet (set_paths W orc)"
  unfolding set_paths_def kubeconfigPaths_def Let_def
  by (intro quiet_rules quiet_pin quiet_change) (auto simp: held_def)

lemma quiet_tasks: "quiet (on_bootstrap W t)" "quiet (on_hub W t)" "quiet (boundary_act W n)" "quiet (act_pivot W)" "quiet after_pivot"
  "quiet (act_finalize W)" "quiet (after_infisical W)" "quiet (await_consumers W)" "quiet (checkPlacementCapacityRequested orc)"
  "quiet (persistTenantState W orc l)" "quiet (checkKindClusterExists W orc)"
  unfolding on_bootstrap_def on_hub_def boundary_act_def act_pivot_def after_pivot_def act_finalize_def after_infisical_def
    await_consumers_def checkPlacementCapacityRequested_def persistTenantState_def git_def checkKindClusterExists_def
  by (intro quiet_rules quiet_boundary quiet_change; auto simp: held_def)+

subsection \<open>The runner\<close>

text \<open>What of a step shows: the phases it began, those held before and after, those recorded before and after.\<close>

definition shows_step :: "run \<Rightarrow> bootstrapPhase list \<Rightarrow> run \<Rightarrow> bool" where
  "shows_step s ps s1 \<longleftrightarrow> (\<exists>cs. r_log s1 = r_log s @ cs \<and> began_in cs = ps)"

lemma shows_refl [simp]: "shows_step s [] s"
  by (simp add: shows_step_def)

lemma shows_trans: "shows_step s ps s1 \<Longrightarrow> shows_step s1 qs s2 \<Longrightarrow> shows_step s (ps @ qs) s2"
  by (auto simp: shows_step_def)

lemma quiet_step:
  assumes "quiet m" and "m s = (r, s1)"
  shows "shows_step s [] s1" "held s1 = held s" "recorded path s1 = recorded path s"
  using assms by (auto elim!: quietD simp: shows_step_def recorded_def)

lemma Save_step:
  assumes "state_Save W path s = (r, s1)"
  shows "shows_step s [] s1" "held s1 = held s"
    "recorded path s1 = (case r of Inr _ \<Rightarrow> set (held s) | Inl _ \<Rightarrow> recorded path s)"
proof -
  have "r_bs s1 = stamped (w_now W (r_log s)) (r_bs s)" using state_Save_bs [of W path s] assms by simp
  then show held: "held s1 = held s" by (simp add: held_def)
  obtain cs where "r_log s1 = r_log s @ cs"
      "set cs \<subseteq> {Now, MkdirAll (state_dir path), WriteFile (path @ ''.tmp''), Rename (path @ ''.tmp'') path}"
    using state_Save_log [of W path s] assms by auto
  moreover from this(2) have "began_in cs = []" by (induction cs rule: began_in.induct) auto
  ultimately show "shows_step s [] s1" by (auto simp: shows_step_def)
  show "recorded path s1 = (case r of Inr _ \<Rightarrow> set (held s) | Inl _ \<Rightarrow> recorded path s)"
  proof (cases r)
    case (Inl e)
    with assms show ?thesis using state_Save_err [of W path s e s1 path] by (simp add: recorded_def)
  next
    case (Inr u)
    with assms have "r_disk s1 path = Some (Encoded (r_bs s1))" using state_Save_ok(1) [of W path s u s1] by simp
    with Inr held show ?thesis by (simp add: recorded_def held_def)
  qed
qed

lemma began_step: "began p s = (Inr (), s1) \<Longrightarrow> shows_step s [p] s1 \<and> held s1 = held s \<and> recorded path s1 = recorded path s"
  by (auto simp: began_def change_def shows_step_def held_def recorded_def)

lemma persist_ok: "\<exists>s1. persistTenantState W orc l s = (Inr (), s1)"
  by (simp add: persistTenantState_def day0_defs git_def split: reply.split)

lemma andthen_cases:
  assumes "andthen m f s = (r, s2)"
  obtains e s1 where "m s = (Inl e, s1)" "r = Inl e" "s2 = s1" | x s1 where "m s = (Inr x, s1)" "f x s1 = (r, s2)"
  using assms by (auto simp: andthen_def split: prod.splits sum.splits)

lemma andthen_via: "m s = (r, s1) \<Longrightarrow> andthen m f s = (case r of Inl e \<Rightarrow> (Inl e, s1) | Inr x \<Rightarrow> f x s1)"
  by (simp add: andthen_def)

lemma attempt_via: "m s = (r, s1) \<Longrightarrow> attempt m f s = f r s1"
  by (simp add: attempt_def)

lemma andthen_simps:
  "andthen (ok x) f0 s = f0 x s"
  "andthen (gets g) f1 s = f1 (g s) s"
  "andthen (change h) f s = f () (h s)"
  "andthen (set_bs k) f s = f () (s\<lparr>r_bs := k (r_bs s)\<rparr>)"
  "andthen (began p) f s = f () (s\<lparr>r_log := r_log s @ [Began p]\<rparr>)"
  "andthen (now W) f2 s = f2 (w_now W (r_log s)) (s\<lparr>r_log := r_log s @ [Now]\<rparr>)"
  by (simp_all add: day0_defs)

text \<open>From the header on: the phase is begun; it is recorded exactly when the run goes on.\<close>

lemma perform_step:
  assumes quiet: "quiet action" and run: "perform W orc path p l action s = (r, s1)"
  shows "shows_step s [p] s1"
    "case r of
       Inr _ \<Rightarrow> held s1 = held s @ [p] \<and> recorded path s1 = set (held s @ [p])
     | Inl _ \<Rightarrow> (held s1 = held s \<or> held s1 = held s @ [p]) \<and> recorded path s1 = recorded path s"
proof -
  define t where "t = s\<lparr>r_log := r_log s @ [Began p, Now]\<rparr>"
  define started where "started = w_now W (r_log s @ [Began p])"
  have t: "shows_step s [p] t" "held t = held s" "recorded path t = recorded path s"
    by (auto simp: t_def shows_step_def held_def recorded_def)
  obtain ra sa where a: "wrapped (''['' @ l @ ''] '') action t = (ra, sa)" by fastforce
  note act = quiet_step [OF quiet_wrapped [OF quiet] a]
  have "perform W orc path p l action s = andthen (wrapped (''['' @ l @ ''] '') action) (\<lambda>_.
      andthen (now W) (\<lambda>finished. andthen (set_bs (add_timing p started finished)) (\<lambda>_.
        andthen (set_bs (markPhaseComplete p)) (\<lambda>_. andthen (state_Save W path) (\<lambda>_. persistTenantState W orc l))))) t"
    unfolding perform_def andthen_simps t_def started_def by simp
  then have body: "(r, s1) = (case ra of Inl e \<Rightarrow> (Inl e, sa) | Inr _ \<Rightarrow>
      andthen (now W) (\<lambda>finished. andthen (set_bs (add_timing p started finished)) (\<lambda>_.
        andthen (set_bs (markPhaseComplete p)) (\<lambda>_. andthen (state_Save W path) (\<lambda>_. persistTenantState W orc l)))) sa)"
    unfolding run by (simp only: andthen_via [where m = "wrapped (''['' @ l @ ''] '') action" and s = t, OF a])
  have "shows_step s [p] s1 \<and> (case r of
       Inr _ \<Rightarrow> held s1 = held s @ [p] \<and> recorded path s1 = set (held s @ [p])
     | Inl _ \<Rightarrow> (held s1 = held s \<or> held s1 = held s @ [p]) \<and> recorded path s1 = recorded path s)"
  proof (cases ra)
    case (Inl e)
    with body act t show ?thesis using shows_trans [OF t(1) act(1)] by simp
  next
    case (Inr u)
    define b where "b = sa\<lparr>r_log := r_log sa @ [Now], r_bs := markPhaseComplete p (add_timing p started (w_now W (r_log sa)) (r_bs sa))\<rparr>"
    have b: "shows_step sa [] b" "held b = held sa @ [p]" "recorded path b = recorded path sa"
      by (auto simp: b_def shows_step_def held_def recorded_def markPhaseComplete_def add_timing_def)
    obtain rs sv where sv: "state_Save W path b = (rs, sv)" by fastforce
    note save = Save_step [OF sv]
    have rest: "(r, s1) = (case rs of Inl e \<Rightarrow> (Inl e, sv) | Inr _ \<Rightarrow> persistTenantState W orc l sv)"
      using body Inr by (simp add: andthen_simps b_def andthen_via [where m = "state_Save W path" and s = b, OF sv, unfolded b_def])
    have upto: "shows_step s [p] sv"
      using shows_trans [OF t(1) shows_trans [OF act(1) shows_trans [OF b(1) save(1)]]] by simp
    show ?thesis
    proof (cases rs)
      case (Inl e)
      with rest save upto b act t show ?thesis by simp
    next
      case (Inr v)
      then have p: "persistTenantState W orc l sv = (r, s1)" using rest by simp
      moreover obtain s2 where "persistTenantState W orc l sv = (Inr (), s2)" using persist_ok by blast
      ultimately have "r = Inr ()" by simp
      moreover note quiet_step [OF quiet_tasks(10) p]
      moreover have "shows_step s [p] s1" using shows_trans [OF upto quiet_step(1) [OF quiet_tasks(10) p]] by simp
      ultimately show ?thesis using save Inr b act t by simp
    qed
  qed
  then show "shows_step s [p] s1"
    "case r of
       Inr _ \<Rightarrow> held s1 = held s @ [p] \<and> recorded path s1 = set (held s @ [p])
     | Inl _ \<Rightarrow> (held s1 = held s \<or> held s1 = held s @ [p]) \<and> recorded path s1 = recorded path s" by simp_all
qed

text \<open>
  The runner as a whole. A phase that is recorded and whose postcondition holds is passed over; one that is not, or
  whose postcondition fails, is begun, and the run goes on only with the phase in the file.
\<close>

lemma held_withdraw: "held (s\<lparr>r_bs := withdraw p (r_bs s)\<rparr>) = filter (\<lambda>q. q \<noteq> p) (held s)"
  by (simp add: held_def withdraw_def removePhase_def)

lemma runPhase_step:
  assumes quiet: "quiet action" "\<forall>chk. post = Some chk \<longrightarrow> quiet chk" and run: "runPhase W orc path p l action post s = (r, s1)"
  obtains
    (skipped) "r = Inr ()" "p \<in> set (held s)" "shows_step s [] s1" "held s1 = held s" "recorded path s1 = recorded path s"
  | (ran) "r = Inr ()" "shows_step s [p] s1" "held s1 = filter (\<lambda>q. q \<noteq> p) (held s) @ [p]" "recorded path s1 = set (held s1)"
      "p \<in> set (held s) \<Longrightarrow> post \<noteq> None"
  | (unsaved) e where "r = Inl e" "p \<in> set (held s)" "post \<noteq> None" "shows_step s [] s1" "held s1 = filter (\<lambda>q. q \<noteq> p) (held s)"
      "recorded path s1 = recorded path s"
  | (failed) e where "r = Inl e" "shows_step s [p] s1" "held s1 = filter (\<lambda>q. q \<noteq> p) (held s) \<or> held s1 = filter (\<lambda>q. q \<noteq> p) (held s) @ [p]"
      "recorded path s1 = recorded path s \<or> recorded path s1 = set (held s) - {p}" "p \<in> set (held s) \<Longrightarrow> post \<noteq> None"
proof (cases "p \<in> set (held s)")
  case False
  then have p: "perform W orc path p l action s = (r, s1)"
    using run by (simp add: runPhase_def andthen_simps phaseDone_def held_def)
  have all: "filter (\<lambda>q. q \<noteq> p) (held s) = held s" using False by (auto simp: filter_id_conv)
  show ?thesis
  proof (cases r)
    case (Inl e)
    with perform_step [OF quiet(1) p] all False show ?thesis by (intro failed [of e]) auto
  next
    case (Inr u)
    with perform_step [OF quiet(1) p] all False show ?thesis by (intro ran) auto
  qed
next
  case True
  show ?thesis
  proof (cases post)
    case None
    with run True have "r = Inr ()" "s1 = s" by (simp_all add: runPhase_def andthen_simps phaseDone_def held_def ok_def)
    with True show ?thesis by (intro skipped) auto
  next
    case (Some chk)
    obtain rc sc where chk: "chk s = (rc, sc)" by fastforce
    note c = quiet_step [OF quiet(2) [rule_format, OF Some] chk]
    have cont: "runPhase W orc path p l action post s = (case rc of Inr _ \<Rightarrow> ok () sc | Inl _ \<Rightarrow>
        andthen (set_bs (withdraw p)) (\<lambda>_. andthen (state_Save W path) (\<lambda>_. perform W orc path p l action)) sc)"
      using True Some by (simp add: runPhase_def andthen_simps phaseDone_def held_def attempt_via [where m = chk and s = s, OF chk] split: sum.split)
    show ?thesis
    proof (cases rc)
      case (Inr u)
      with cont run have "r = Inr ()" "s1 = sc" by (simp_all add: ok_def)
      with True c show ?thesis by (intro skipped) auto
    next
      case (Inl e)
      define w where "w = sc\<lparr>r_bs := withdraw p (r_bs sc)\<rparr>"
      have w: "shows_step sc [] w" "held w = filter (\<lambda>q. q \<noteq> p) (held s)" "recorded path w = recorded path s"
        using c by (auto simp: w_def shows_step_def recorded_def held_withdraw)
      obtain rs sv where sv: "state_Save W path w = (rs, sv)" by fastforce
      note save = Save_step [OF sv]
      have upto: "shows_step s [] sv" using shows_trans [OF c(1) shows_trans [OF w(1) save(1)]] by simp
      have rest: "(r, s1) = (case rs of Inl e \<Rightarrow> (Inl e, sv) | Inr _ \<Rightarrow> perform W orc path p l action sv)"
        using cont run Inl by (simp add: andthen_simps flip: w_def) (simp add: andthen_via [where m = "state_Save W path" and s = w, OF sv])
      show ?thesis
      proof (cases rs)
        case (Inl e)
        with rest save w upto True Some show ?thesis by (intro unsaved [of e]) auto
      next
        case (Inr u)
        then have p: "perform W orc path p l action sv = (r, s1)" using rest by simp
        note pf = perform_step [OF quiet(1) p]
        have sh: "shows_step s [p] s1" using shows_trans [OF upto pf(1)] by simp
        have rec: "recorded path sv = set (held s) - {p}" using save(3) Inr w(2) by auto
        show ?thesis
        proof (cases r)
          case (Inl e)
          with pf(2) sh rec save(2) w(2) Some show ?thesis by (intro failed [of e]) auto
        next
          case (Inr u)
          with pf(2) sh rec save(2) w(2) Some show ?thesis by (intro ran) auto
        qed
      qed
    qed
  qed
qed

end
