(* ===== verification/Day0_Script.thy ===== *)
theory Day0_Script
  imports Day0_Checkpoints
begin

text \<open>A boundary as a script: the calls its contract comes down to, in order, up to the first that fails.\<close>

definition boundary_script :: "string \<Rightarrow> boundaryContract \<Rightarrow> call list" where
  "boundary_script kc c =
     map (\<lambda>k. Task (Step (ns_what k)) kc) (rd_checks (bc_requires c)) @
     (if bc_activates c then [Task (DeployBoundary (bc_number c)) kc] else []) @
     (if bc_refreshesSchema c then [Task RefreshArgoCDSchemaCache kc] else []) @
     [Task (AwaitBoundaryInventory (bc_number c)) kc] @
     (case bc_prepare c of None \<Rightarrow> [] | Some p \<Rightarrow> [Task (Step (ns_what p)) kc]) @
     map (\<lambda>k. Task (Step (ns_what k)) kc) (rd_checks (bc_readiness c))"

text \<open>The calls that are made of a script, and whether all are answered well.\<close>

fun played :: "world \<Rightarrow> call list \<Rightarrow> call list \<Rightarrow> call list \<times> bool" where
  "played W before [] = ([], True)"
| "played W before (c # cs) =
     (case w_ask W before c of
        Failed _ \<Rightarrow> ([c], False)
      | Done _ \<Rightarrow> (case played W (before @ [c]) cs of (made, good) \<Rightarrow> (c # made, good)))"

definition follows :: "world \<Rightarrow> call list \<Rightarrow> unit day0 \<Rightarrow> bool" where
  "follows W cs m \<longleftrightarrow> (\<forall>s. case played W (r_log s) cs of (made, good) \<Rightarrow>
     snd (m s) = s\<lparr>r_log := r_log s @ made\<rparr> \<and> is_ok (fst (m s)) = good)"

lemma played_append:
  "played W before (xs @ ys) =
     (case played W before xs of
        (made, True) \<Rightarrow> (case played W (before @ made) ys of (rest, good) \<Rightarrow> (made @ rest, good))
      | (made, False) \<Rightarrow> (made, False))"
  by (induction xs arbitrary: before) (auto split: reply.split prod.split bool.split)

lemma played_prefix: "\<exists>n. fst (played W before cs) = take n cs \<and> (snd (played W before cs) \<longrightarrow> n = length cs)"
proof (induction cs arbitrary: before)
  case (Cons c cs)
  then obtain n where "fst (played W (before @ [c]) cs) = take n cs \<and> (snd (played W (before @ [c]) cs) \<longrightarrow> n = length cs)" by blast
  then show ?case
    by (cases "w_ask W before c") (auto intro: exI [of _ 1] exI [of _ "Suc n"] split: prod.split)
qed simp

lemma played_good: "snd (played W before cs) \<longleftrightarrow> (\<forall>i < length cs. \<exists>x. w_ask W (before @ take i cs) (cs ! i) = Done x)"
proof (induction cs arbitrary: before)
  case (Cons c cs)
  show ?case
    unfolding length_Cons All_less_Suc2 using Cons [of "before @ [c]"] by (auto split: reply.split prod.split)
qed simp

lemma follows_nothing: "follows W [] (ok ())"
  by (simp add: follows_def ok_def)

lemma follows_ask: "follows W [c] (todo W c)" "follows W [c] (andthen (wrapped p (ask W c)) (\<lambda>_. ok ()))"
  by (auto simp: follows_def day0_defs split: reply.split)

lemma follows_andthen:
  assumes "follows W xs m" and "follows W ys n"
  shows "follows W (xs @ ys) (andthen m (\<lambda>_. n))"
  unfolding follows_def
proof
  fix s :: run
  obtain made good where p: "played W (r_log s) xs = (made, good)" by fastforce
  obtain r s1 where m: "m s = (r, s1)" by fastforce
  have s1: "s1 = s\<lparr>r_log := r_log s @ made\<rparr>" "is_ok r = good"
    using assms(1) p m by (auto simp: follows_def dest: spec [of _ s])
  show "case played W (r_log s) (xs @ ys) of (made, good) \<Rightarrow>
      snd (andthen m (\<lambda>_. n) s) = s\<lparr>r_log := r_log s @ made\<rparr> \<and> is_ok (fst (andthen m (\<lambda>_. n) s)) = good"
  proof (cases r)
    case (Inl e)
    with s1 p m show ?thesis by (simp add: played_append andthen_def)
  next
    case (Inr u)
    obtain rest good2 where q: "played W (r_log s @ made) ys = (rest, good2)" by fastforce
    have "snd (n s1) = s1\<lparr>r_log := r_log s1 @ rest\<rparr> \<and> is_ok (fst (n s1)) = good2"
      using assms(2) q s1(1) by (auto simp: follows_def dest: spec [of _ s1])
    with Inr s1 p q m show ?thesis by (simp add: played_append andthen_def)
  qed
qed

lemma follows_steps: "follows W (map (\<lambda>k. Task (Step (ns_what k)) kc) ks) (run_steps W pre kc ks)"
proof (induction ks)
  case (Cons k ks)
  have "andthen (wrapped (pre @ ns_what k @ '': '') (ask W (Task (Step (ns_what k)) kc))) (\<lambda>_. run_steps W pre kc ks) =
      andthen (andthen (wrapped (pre @ ns_what k @ '': '') (ask W (Task (Step (ns_what k)) kc))) (\<lambda>_. ok ())) (\<lambda>_. run_steps W pre kc ks)"
    by (rule ext) (simp add: andthen_def ok_def split: prod.split sum.split)
  with follows_andthen [OF follows_ask(2) Cons] show ?case by simp
qed (simp add: follows_nothing)

lemma follows_boundary:
  assumes "rd_declared (bc_requires c)" and "rd_declared (bc_readiness c)"
  shows "follows W (boundary_script kc c) (runBoundary W kc c)"
proof -
  have declared: "andthen (ok ()) f = f ()" for f :: "unit \<Rightarrow> unit day0" by (rule ext) (simp add: andthen_simps)
  have opt: "follows W (if b then [c] else []) (if b then todo W c else ok ())" for b c
    by (simp add: follows_ask follows_nothing)
  have prep: "follows W (case bc_prepare c of None \<Rightarrow> [] | Some p \<Rightarrow> [Task (Step (ns_what p)) kc])
      (case bc_prepare c of None \<Rightarrow> ok () | Some p \<Rightarrow> run_steps W pre kc [p])" for pre
    using follows_steps [of W kc "[p]" pre for p] by (auto simp: follows_nothing split: option.split)
  show ?thesis
    unfolding boundary_script_def runBoundary_def Let_def
    by (simp only: assms if_True declared) (intro follows_andthen follows_steps opt prep follows_ask)
qed

end
