(* ===== verification/Day0_Resume.thy ===== *)
theory Day0_Resume
  imports Day0_Checkpoints
begin

text \<open>
  A whole run: which phases it begins, which it passes over, and what the file records of it when it ends, however
  it ends.
\<close>

fun phases_of :: "stage list \<Rightarrow> bootstrapPhase list" where
  "phases_of [] = []"
| "phases_of (Phase p _ _ _ _ # ss) = p # phases_of ss"
| "phases_of (Inline _ # ss) = phases_of ss"

text \<open>What stands between phases begins none; of the phases still to come it adds none, and of the others it drops none.\<close>

definition inline_ok :: "string \<Rightarrow> bootstrapPhase set \<Rightarrow> unit day0 \<Rightarrow> bool" where
  "inline_ok path later m \<longleftrightarrow> (\<forall>s r s1. m s = (r, s1) \<longrightarrow>
     shows_step s [] s1 \<and> set (held s) - later \<subseteq> set (held s1) \<and> later \<inter> set (held s1) \<subseteq> set (held s) \<and>
     (recorded path s1 = recorded path s \<or> recorded path s1 = set (held s1)))"

fun stages_ok :: "string \<Rightarrow> stage list \<Rightarrow> bool" where
  "stages_ok path [] \<longleftrightarrow> True"
| "stages_ok path (Phase p _ _ action post # ss) \<longleftrightarrow>
     quiet action \<and> (\<forall>chk. post = Some chk \<longrightarrow> quiet chk) \<and> p \<notin> set (phases_of ss) \<and> stages_ok path ss"
| "stages_ok path (Inline m # ss) \<longleftrightarrow> inline_ok path (set (phases_of ss)) m \<and> stages_ok path ss"

lemma quiet_inline: "quiet m \<Longrightarrow> inline_ok path L m"
  by (auto simp: inline_ok_def dest: quiet_step)

text \<open>A run as seen from outside: the phases it reached, those of them it began, and the end of the record.\<close>

record account =
  ac_reached :: "bootstrapPhase list"
  ac_rest :: "bootstrapPhase list"
  ac_begun :: "bootstrapPhase list"

definition accounts :: "string \<Rightarrow> bootstrapPhase list \<Rightarrow> run \<Rightarrow> (string, unit) result \<Rightarrow> run \<Rightarrow> account \<Rightarrow> bool" where
  "accounts path phases s r s1 a \<longleftrightarrow>
     phases = ac_reached a @ ac_rest a \<and> shows_step s (ac_begun a) s1 \<and> subseq (ac_begun a) (ac_reached a) \<and>
     set (ac_reached a) - set (ac_begun a) \<subseteq> set (held s) \<and>
     set (butlast (ac_begun a)) \<subseteq> recorded path s1 \<and>
     (is_ok r \<longrightarrow> ac_rest a = [] \<and> set phases \<subseteq> set (held s1) \<and> set (ac_begun a) \<subseteq> recorded path s1)"

text \<open>What is held and recorded of phases not to come stays so.\<close>

lemma wrapped_via: "m s = (r, s1) \<Longrightarrow> wrapped p m s = (case r of Inl e \<Rightarrow> (Inl (p @ e), s1) | Inr x \<Rightarrow> (Inr x, s1))"
  by (simp add: wrapped_def attempt_def err_def ok_def split: sum.split)

lemma stage_Phase:
  assumes "run_stages W orc path (Phase p l x action post # ss) s = (r, s2)"
  obtains r1 s1 where "runPhase W orc path p l action post s = (r1, s1)"
    "(\<exists>e. r1 = Inl e) \<and> (\<exists>e. r = Inl e) \<and> s2 = s1 \<or> r1 = Inr () \<and> run_stages W orc path ss s1 = (r, s2)"
proof -
  obtain r1 s1 where r1: "runPhase W orc path p l action post s = (r1, s1)" by fastforce
  with assms have "(\<exists>e. r1 = Inl e) \<and> (\<exists>e. r = Inl e) \<and> s2 = s1 \<or> r1 = Inr () \<and> run_stages W orc path ss s1 = (r, s2)"
    by (cases r1) (auto simp: andthen_def wrapped_via [where m = "runPhase W orc path p l action post" and s = s, OF r1])
  with r1 show ?thesis using that by blast
qed

lemma stage_Inline:
  assumes "run_stages W orc path (Inline m # ss) s = (r, s2)"
  obtains r1 s1 where "m s = (r1, s1)" "(\<exists>e. r1 = Inl e) \<and> (\<exists>e. r = Inl e) \<and> s2 = s1 \<or> r1 = Inr () \<and> run_stages W orc path ss s1 = (r, s2)"
  using assms by (auto simp: andthen_def split: prod.splits sum.splits)

lemma kept:
  assumes "stages_ok path ss" and "run_stages W orc path ss s = (r, s2)"
    and "X \<subseteq> set (held s)" "X \<inter> set (phases_of ss) = {}"
  shows "X \<subseteq> set (held s2) \<and> (X \<subseteq> recorded path s \<longrightarrow> X \<subseteq> recorded path s2)"
  using assms
proof (induction ss arbitrary: s rule: phases_of.induct)
  case 1
  then show ?case by (simp add: ok_def)
next
  case (2 p l x action post ss)
  obtain r1 s1 where r1: "runPhase W orc path p l action post s = (r1, s1)"
    and next1: "(\<exists>e. r1 = Inl e) \<and> (\<exists>e. r = Inl e) \<and> s2 = s1 \<or> r1 = Inr () \<and> run_stages W orc path ss s1 = (r, s2)"
    using stage_Phase [OF "2.prems"(2)] .
  have q: "quiet action" "\<forall>chk. post = Some chk \<longrightarrow> quiet chk" using "2.prems"(1) by auto
  have "X \<subseteq> set (held s1) \<and> (X \<subseteq> recorded path s \<longrightarrow> X \<subseteq> recorded path s1)"
    using "2.prems"(3,4) by (cases rule: runPhase_step [OF q r1]) auto
  with 2 next1 show ?case by auto
next
  case (3 m ss)
  obtain r1 s1 where r1: "m s = (r1, s1)"
    and next1: "(\<exists>e. r1 = Inl e) \<and> (\<exists>e. r = Inl e) \<and> s2 = s1 \<or> r1 = Inr () \<and> run_stages W orc path ss s1 = (r, s2)"
    using stage_Inline [OF "3.prems"(2)] .
  have "X \<subseteq> set (held s1)" "X \<subseteq> recorded path s \<longrightarrow> X \<subseteq> recorded path s1"
    using "3.prems" r1 unfolding stages_ok.simps phases_of.simps inline_ok_def by blast+
  with 3 next1 show ?case by auto
qed

lemma shows_unique: "shows_step s ps s1 \<Longrightarrow> shows_step s qs s1 \<Longrightarrow> ps = qs"
  by (auto simp: shows_step_def)

lemma accounted:
  assumes "stages_ok path ss" and "run_stages W orc path ss s = (r, s2)"
  shows "\<exists>a. accounts path (phases_of ss) s r s2 a"
  using assms
proof (induction ss arbitrary: s rule: phases_of.induct)
  case 1
  then have "accounts path [] s r s2 \<lparr> ac_reached = [], ac_rest = [], ac_begun = [] \<rparr>" by (simp add: accounts_def ok_def)
  then show ?case by (metis phases_of.simps(1))
next
  case (2 p l x action post ss)
  obtain r1 s1 where r1: "runPhase W orc path p l action post s = (r1, s1)"
    and next1: "(\<exists>e. r1 = Inl e) \<and> (\<exists>e. r = Inl e) \<and> s2 = s1 \<or> r1 = Inr () \<and> run_stages W orc path ss s1 = (r, s2)"
    using stage_Phase [OF "2.prems"(2)] .
  have q: "quiet action" "\<forall>chk. post = Some chk \<longrightarrow> quiet chk" "p \<notin> set (phases_of ss)" "stages_ok path ss" using "2.prems"(1) by auto
  show ?case
  proof (cases rule: runPhase_step [OF q(1,2) r1, case_names skipped ran unsaved failed])
    case skipped
    then have go: "run_stages W orc path ss s1 = (r, s2)" using next1 by auto
    then obtain a where a: "accounts path (phases_of ss) s1 r s2 a" using 2 by auto
    have "p \<in> set (held s2)" using kept [OF q(4) go, of "{p}"] skipped q(3) by simp
    then have "accounts path (p # phases_of ss) s r s2 (a\<lparr>ac_reached := p # ac_reached a\<rparr>)"
      using a skipped shows_trans [OF skipped(3), of "ac_begun a" s2] by (auto simp: accounts_def)
    then show ?thesis by auto
  next
    case ran
    then have go: "run_stages W orc path ss s1 = (r, s2)" using next1 by auto
    then obtain a where a: "accounts path (phases_of ss) s1 r s2 a" using 2 by auto
    have "p \<in> recorded path s2 \<and> p \<in> set (held s2)" using kept [OF q(4) go, of "{p}"] ran q(3) by simp
    then have "accounts path (p # phases_of ss) s r s2 (a\<lparr>ac_reached := p # ac_reached a, ac_begun := p # ac_begun a\<rparr>)"
      using a ran shows_trans [OF ran(2), of "ac_begun a" s2] by (auto simp: accounts_def dest: in_set_butlastD)
    then show ?thesis by auto
  next
    case (unsaved e)
    then obtain f where f: "r = Inl f" "s2 = s1" using next1 by auto
    have "accounts path (p # phases_of ss) s r s2 \<lparr> ac_reached = [p], ac_rest = phases_of ss, ac_begun = [] \<rparr>"
      unfolding f using unsaved(2,4) by (simp add: accounts_def)
    then show ?thesis by auto
  next
    case (failed e)
    then obtain f where f: "r = Inl f" "s2 = s1" using next1 by auto
    have "accounts path (p # phases_of ss) s r s2 \<lparr> ac_reached = [p], ac_rest = phases_of ss, ac_begun = [p] \<rparr>"
      unfolding f using failed(2) by (simp add: accounts_def)
    then show ?thesis by auto
  qed
next
  case (3 m ss)
  obtain r1 s1 where r1: "m s = (r1, s1)"
    and next1: "(\<exists>e. r1 = Inl e) \<and> (\<exists>e. r = Inl e) \<and> s2 = s1 \<or> r1 = Inr () \<and> run_stages W orc path ss s1 = (r, s2)"
    using stage_Inline [OF "3.prems"(2)] .
  have i: "shows_step s [] s1" "set (phases_of ss) \<inter> set (held s1) \<subseteq> set (held s)"
    using "3.prems"(1) r1 unfolding stages_ok.simps inline_ok_def by blast+
  from next1 show ?case
  proof
    assume e: "(\<exists>e. r1 = Inl e) \<and> (\<exists>e. r = Inl e) \<and> s2 = s1"
    then have "accounts path (phases_of ss) s r s2 \<lparr> ac_reached = [], ac_rest = phases_of ss, ac_begun = [] \<rparr>"
      using i by (auto simp: accounts_def)
    then show ?thesis by auto
  next
    assume go: "r1 = Inr () \<and> run_stages W orc path ss s1 = (r, s2)"
    then obtain a where a: "accounts path (phases_of ss) s1 r s2 a" using 3 by auto
    then have "accounts path (phases_of ss) s r s2 a"
      using i shows_trans [OF i(1), of "ac_begun a" s2] unfolding accounts_def by (auto dest: subsetD)
    then show ?thesis by auto
  qed
qed

subsection \<open>Phases that are not begun again\<close>

definition keeps :: "bootstrapPhase \<Rightarrow> unit day0 \<Rightarrow> bool" where
  "keeps q m \<longleftrightarrow> (\<forall>s. q \<in> set (held s) \<longrightarrow> q \<in> set (held (snd (m s))))"

fun never_redone :: "bootstrapPhase \<Rightarrow> stage list \<Rightarrow> bool" where
  "never_redone q [] \<longleftrightarrow> True"
| "never_redone q (Phase p _ _ _ post # ss) \<longleftrightarrow> (p = q \<longrightarrow> post = None) \<and> never_redone q ss"
| "never_redone q (Inline m # ss) \<longleftrightarrow> keeps q m \<and> never_redone q ss"

lemma not_again:
  assumes "stages_ok path ss" and "run_stages W orc path ss s = (r, s2)" and "q \<in> set (held s)" and "never_redone q ss"
  shows "\<exists>ps. shows_step s ps s2 \<and> q \<notin> set ps"
  using assms
proof (induction ss arbitrary: s rule: phases_of.induct)
  case 1
  then show ?case by (intro exI [of _ "[]"]) (simp add: ok_def)
next
  case (2 p l x action post ss)
  obtain r1 s1 where r1: "runPhase W orc path p l action post s = (r1, s1)"
    and next1: "(\<exists>e. r1 = Inl e) \<and> (\<exists>e. r = Inl e) \<and> s2 = s1 \<or> r1 = Inr () \<and> run_stages W orc path ss s1 = (r, s2)"
    using stage_Phase [OF "2.prems"(2)] .
  have q: "quiet action" "\<forall>chk. post = Some chk \<longrightarrow> quiet chk" using "2.prems"(1) by auto
  have "(\<exists>ps. shows_step s ps s1 \<and> q \<notin> set ps) \<and> q \<in> set (held s1)"
  proof (cases "p = q")
    case True
    then have "post = None" using "2.prems"(4) by simp
    with r1 True "2.prems"(3) have "s1 = s" by (simp add: runPhase_def andthen_simps phaseDone_def held_def ok_def)
    with "2.prems"(3) show ?thesis using shows_refl by fastforce
  next
    case False
    then have "q \<notin> set [p]" "q \<notin> set []" by simp_all
    with False "2.prems"(3) show ?thesis by (cases rule: runPhase_step [OF q r1]) (use \<open>q \<notin> set [p]\<close> in fastforce)+
  qed
  then obtain ps where ps: "shows_step s ps s1" "q \<notin> set ps" "q \<in> set (held s1)" by blast
  from next1 show ?case
  proof
    assume "(\<exists>e. r1 = Inl e) \<and> (\<exists>e. r = Inl e) \<and> s2 = s1"
    with ps show ?thesis by blast
  next
    assume "r1 = Inr () \<and> run_stages W orc path ss s1 = (r, s2)"
    then obtain qs where "shows_step s1 qs s2" "q \<notin> set qs" using 2 ps(3) by auto
    with ps show ?thesis using shows_trans [of s ps s1 qs s2] by (metis Un_iff set_append)
  qed
next
  case (3 m ss)
  obtain r1 s1 where r1: "m s = (r1, s1)"
    and next1: "(\<exists>e. r1 = Inl e) \<and> (\<exists>e. r = Inl e) \<and> s2 = s1 \<or> r1 = Inr () \<and> run_stages W orc path ss s1 = (r, s2)"
    using stage_Inline [OF "3.prems"(2)] .
  have i: "shows_step s [] s1" using "3.prems"(1) r1 unfolding stages_ok.simps inline_ok_def by blast
  have held: "q \<in> set (held s1)" using "3.prems"(3,4) r1 by (auto simp: keeps_def)
  from next1 show ?case
  proof
    assume "(\<exists>e. r1 = Inl e) \<and> (\<exists>e. r = Inl e) \<and> s2 = s1"
    with i show ?thesis by (intro exI [of _ "[]"]) simp
  next
    assume "r1 = Inr () \<and> run_stages W orc path ss s1 = (r, s2)"
    then obtain qs where "shows_step s1 qs s2" "q \<notin> set qs" using 3 held by auto
    with i show ?thesis using shows_trans [of s "[]" s1 qs s2] by auto
  qed
qed

subsection \<open>The pipeline\<close>

definition pipeline_order :: "bootstrapPhase list" where
  "pipeline_order =
     [PhasePreFlight, PhaseBootstrapCreate, PhaseDayZero, PhaseCAPIInit, PhaseClusterProvision, PhaseOnPremJoin, PhaseArgoCDInstall,
      PhasePivotMove, PhasePivotReady, PhaseClusterClassDeploy, PhasePlatformPreReqs, PhaseBoundary01, PhaseGenerateLocalSecrets,
      PhaseBoundary02, PhaseInjectCACert, PhaseBoundary03, PhaseBootstrapInfisicalAPI, PhaseBoundary04, PhaseBoundary05,
      PhaseBoundary06, PhaseFinalize]"

lemma phases_of_pipeline: "phases_of (pipeline W orc path) = pipeline_order"
  by (simp add: pipeline_def pipeline_order_def)

lemma before_pivot_ok: "PhasePivotMove \<in> L \<Longrightarrow> inline_ok path L before_pivot"
  by (auto simp: inline_ok_def before_pivot_def day0_defs shows_step_def recorded_def held_def withdraw_def removePhase_def)

text \<open>Marking a phase and saving, whatever becomes of the save.\<close>

lemma mark_save:
  assumes "state_Save W path t = (r, s1)" and "held t = held s @ [p]" and "shows_step s [] t" and "recorded path t = recorded path s"
  shows "shows_step s [] s1" "held s1 = held s @ [p]" "recorded path s1 = recorded path s \<or> recorded path s1 = set (held s1)"
  using Save_step [OF assms(1)] assms(2-4) shows_trans [OF assms(3), of "[]" s1] by (auto split: sum.splits)

lemma cleanup_step:
  assumes "cleanup_bootstrap W orc path s = (r, s1)"
  shows "r = Inr ()" "shows_step s [] s1" "held s1 = (if PhaseCleanup \<in> set (held s) then held s else held s @ [PhaseCleanup])"
    "recorded path s1 = recorded path s \<or> recorded path s1 = set (held s1)"
proof -
  obtain rd sd where d: "(if or_KeepBootstrap orc then ok () else todo W (Exec ''kind'' [''delete'', ''cluster'', ''--name'', or_ClusterName orc])) s = (rd, sd)"
    by fastforce
  have q: "quiet (if or_KeepBootstrap orc then ok () else todo W (Exec ''kind'' [''delete'', ''cluster'', ''--name'', or_ClusterName orc]))"
    by auto
  note c = quiet_step [OF q d]
  obtain rs sv where sv: "state_Save W path (sd\<lparr>r_bs := markPhaseComplete PhaseCleanup (r_bs sd)\<rparr>) = (rs, sv)" by fastforce
  have "shows_step s [] sv \<and> held sv = held s @ [PhaseCleanup] \<and> (recorded path sv = recorded path s \<or> recorded path sv = set (held sv))"
    using mark_save [OF sv, of s PhaseCleanup] c by (auto simp: held_def markPhaseComplete_def shows_step_def recorded_def)
  moreover have "(r, s1) = (if PhaseCleanup \<in> set (held sd) then (Inr (), sd) else (Inr (), sv))"
    using assms d sv unfolding cleanup_bootstrap_def by (auto simp: attempt_def andthen_simps phaseDone_def held_def ok_def)
  ultimately show "r = Inr ()" "shows_step s [] s1" "held s1 = (if PhaseCleanup \<in> set (held s) then held s else held s @ [PhaseCleanup])"
    "recorded path s1 = recorded path s \<or> recorded path s1 = set (held s1)"
    using c by (simp_all split: if_splits)
qed

lemma cleanup_ok:
  assumes "PhaseCleanup \<notin> L"
  shows "inline_ok path L (cleanup_bootstrap W orc path)"
  unfolding inline_ok_def
proof (intro allI impI)
  fix s r s1
  assume "cleanup_bootstrap W orc path s = (r, s1)"
  note cleanup_step [OF this]
  with assms show "shows_step s [] s1 \<and> set (held s) - L \<subseteq> set (held s1) \<and> L \<inter> set (held s1) \<subseteq> set (held s) \<and>
      (recorded path s1 = recorded path s \<or> recorded path s1 = set (held s1))" by auto
qed

lemma completion_step:
  assumes "completion W path s = (r, s1)"
  shows "r = Inr ()" "shows_step s [] s1" "held s1 = held s @ [PhaseComplete]"
    "recorded path s1 = recorded path s \<or> recorded path s1 = set (held s1)"
proof -
  define t where "t = s\<lparr>r_log := r_log s @ [Now],
    r_bs := (markPhaseComplete PhaseComplete (r_bs s))\<lparr>bs_CompletedAt := Some (w_now W (r_log s))\<rparr>\<rparr>"
  have t: "held t = held s @ [PhaseComplete]" "shows_step s [] t" "recorded path t = recorded path s"
    by (auto simp: t_def held_def markPhaseComplete_def shows_step_def recorded_def)
  obtain rs sv where sv: "state_Save W path t = (rs, sv)" by fastforce
  note save = mark_save [OF sv t]
  let ?rest = "andthen (change (\<lambda>s. if r_final s = [] then s\<lparr>r_final := bs_MgmtKubeconfig (r_bs s)\<rparr> else s)) (\<lambda>_.
     attempt (on_hub W GetArgoCDPassword) (\<lambda>_. ok ()))"
  have q: "quiet ?rest" by (intro quiet_rules quiet_change quiet_tasks) (auto simp: held_def)
  have "completion W path s = attempt (state_Save W path) (\<lambda>_. ?rest) t"
    unfolding completion_def andthen_simps t_def by simp
  then have rest: "?rest sv = (r, s1)" using assms sv by (simp add: attempt_def)
  then show "r = Inr ()" by (auto simp: andthen_simps attempt_def ok_def split: prod.splits)
  show "shows_step s [] s1" "held s1 = held s @ [PhaseComplete]" "recorded path s1 = recorded path s \<or> recorded path s1 = set (held s1)"
    using quiet_step [OF q rest] save shows_trans [of s "[]" sv "[]" s1] by auto
qed

lemma completion_ok: "inline_ok path {} (completion W path)"
  by (auto simp: inline_ok_def dest: completion_step)

lemma pipeline_ok: "stages_ok path (pipeline W orc path)"
proof -
  have "inline_ok path L (set_paths W orc)" "inline_ok path L after_pivot" "inline_ok path L (after_infisical W)" "inline_ok path L (await_consumers W)" for L
    by (intro quiet_inline quiet_paths quiet_tasks)+
  moreover have "quiet (andthen (checkPlacementCapacityRequested orc) (\<lambda>_. todo W (Task Validators [])))"
    "quiet (andthen (resolveHubKubeconfig W) (\<lambda>kc. todo W (Task JoinHomeWorkers kc)))"
    "quiet (andthen (resolveHubKubeconfig W) (\<lambda>kc. todo W (Task InstallArgoCDAndSeed kc)))"
    "quiet (andthen (on_hub W GenerateLocalSecrets) (\<lambda>_. on_hub W InstallPlatformCredentials))"
    by (auto intro!: quiet_rules quiet_tasks quiet_resolve)
  ultimately show ?thesis
    unfolding pipeline_def
    by (simp add: quiet_tasks quiet_create quiet_postcondition quiet_resolve before_pivot_ok cleanup_ok completion_ok)
qed

end
