(* ===== verification/Day0_Whole.thy ===== *)
theory Day0_Whole
  imports Day0_Resume
begin

text \<open>A command from its start: the record it finds, and what it makes of it.\<close>

subsection \<open>The record stays tidy\<close>

definition tidy :: "bootstrapPhase list \<Rightarrow> bool" where
  "tidy ps \<longleftrightarrow> distinct ps \<and> PhaseComplete \<notin> set ps"

definition keeps_tidy :: "unit day0 \<Rightarrow> bool" where
  "keeps_tidy m \<longleftrightarrow> (\<forall>s. tidy (held s) \<longrightarrow> tidy (held (snd (m s))))"

fun tidy_stages :: "stage list \<Rightarrow> bool" where
  "tidy_stages [] \<longleftrightarrow> True"
| "tidy_stages (Phase p _ _ _ _ # ss) \<longleftrightarrow> p \<noteq> PhaseComplete \<and> tidy_stages ss"
| "tidy_stages (Inline m # ss) \<longleftrightarrow> keeps_tidy m \<and> tidy_stages ss"

lemma stages_tidy:
  assumes "stages_ok path ss" and "tidy_stages ss" and "run_stages W orc path ss s = (r, s2)" and "tidy (held s)"
  shows "tidy (held s2)"
  using assms
proof (induction ss arbitrary: s rule: phases_of.induct)
  case 1
  then show ?case by (simp add: ok_def)
next
  case (2 p l x action post ss)
  obtain r1 s1 where r1: "runPhase W orc path p l action post s = (r1, s1)"
    and next1: "(\<exists>e. r1 = Inl e) \<and> (\<exists>e. r = Inl e) \<and> s2 = s1 \<or> r1 = Inr () \<and> run_stages W orc path ss s1 = (r, s2)"
    using stage_Phase [OF "2.prems"(3)] .
  have q: "quiet action" "\<forall>chk. post = Some chk \<longrightarrow> quiet chk" using "2.prems"(1) by auto
  have "held s1 = held s \<or> held s1 = filter (\<lambda>q. q \<noteq> p) (held s) \<or> held s1 = filter (\<lambda>q. q \<noteq> p) (held s) @ [p]"
    by (cases rule: runPhase_step [OF q r1]) simp_all
  then have "tidy (held s1)" using "2.prems"(2,4) by (auto simp: tidy_def)
  with 2 next1 show ?case by auto
next
  case (3 m ss)
  obtain r1 s1 where r1: "m s = (r1, s1)"
    and next1: "(\<exists>e. r1 = Inl e) \<and> (\<exists>e. r = Inl e) \<and> s2 = s1 \<or> r1 = Inr () \<and> run_stages W orc path ss s1 = (r, s2)"
    using stage_Inline [OF "3.prems"(3)] .
  have "tidy (held s1)" using "3.prems"(2,4) r1 by (auto simp: keeps_tidy_def)
  with 3 next1 show ?case by auto
qed

lemma quiet_tidy: "quiet m \<Longrightarrow> keeps_tidy m"
  by (simp add: keeps_tidy_def quiet_def)

lemma run_stages_append: "run_stages W orc path (ss @ ts) s = andthen (run_stages W orc path ss) (\<lambda>_. run_stages W orc path ts) s"
proof (induction ss arbitrary: s rule: phases_of.induct)
  case (2 p l x a post ss)
  then show ?case by (auto simp: andthen_def split: prod.split sum.split)
next
  case (3 m ss)
  then show ?case by (auto simp: andthen_def split: prod.split sum.split)
qed (simp add: andthen_def ok_def)

lemma pipeline_split: "pipeline W orc path = butlast (pipeline W orc path) @ [Inline (completion W path)]"
  by (simp add: pipeline_def)

lemma stages_ok_prefix: "stages_ok path (ss @ ts) \<Longrightarrow> phases_of ts = [] \<Longrightarrow> stages_ok path ss"
proof (induction ss rule: phases_of.induct)
  case (2 p l x a post ss)
  have "phases_of (ss @ ts) = phases_of ss" using "2.prems"(2) by (induction ss rule: phases_of.induct) auto
  with 2 show ?case by auto
next
  case (3 m ss)
  have "phases_of (ss @ ts) = phases_of ss" using "3.prems"(2) by (induction ss rule: phases_of.induct) auto
  with 3 show ?case by auto
qed simp

lemma inlines_tidy: "keeps_tidy before_pivot" "keeps_tidy (cleanup_bootstrap W orc path)"
proof -
  show "keeps_tidy before_pivot"
    by (auto simp: keeps_tidy_def before_pivot_def day0_defs held_def withdraw_def removePhase_def tidy_def)
  { fix s
    obtain r s1 where c: "cleanup_bootstrap W orc path s = (r, s1)" by fastforce
    have "tidy (held s) \<Longrightarrow> tidy (held s1)" using cleanup_step(3) [OF c] by (simp add: tidy_def)
    then have "tidy (held s) \<longrightarrow> tidy (held (snd (cleanup_bootstrap W orc path s)))" using c by simp }
  then show "keeps_tidy (cleanup_bootstrap W orc path)" by (simp add: keeps_tidy_def)
qed

lemma pipeline_tidy:
  assumes "run_stages W orc path (pipeline W orc path) s = (r, s1)" and "tidy (held s)"
  shows "distinct (held s1)" and "is_ok r \<Longrightarrow> last (held s1) = PhaseComplete"
proof -
  have stages: "stages_ok path (butlast (pipeline W orc path))"
    using stages_ok_prefix [of path "butlast (pipeline W orc path)" "[Inline (completion W path)]"] pipeline_ok [of path W orc]
      pipeline_split [of W orc path] by simp
  have tidy: "tidy_stages (butlast (pipeline W orc path))"
    by (simp add: pipeline_def inlines_tidy quiet_tidy [OF quiet_paths] quiet_tidy [OF quiet_tasks(5)] quiet_tidy [OF quiet_tasks(7)]
        quiet_tidy [OF quiet_tasks(8)])
  obtain r0 t where t: "run_stages W orc path (butlast (pipeline W orc path)) s = (r0, t)" by fastforce
  have held: "tidy (held t)" by (rule stages_tidy [OF stages tidy t assms(2)])
  have "andthen (run_stages W orc path (butlast (pipeline W orc path))) (\<lambda>_. run_stages W orc path [Inline (completion W path)]) s = (r, s1)"
    using assms(1) pipeline_split [of W orc path] by (metis run_stages_append)
  then consider "\<exists>e. r = Inl e" "s1 = t" | "run_stages W orc path [Inline (completion W path)] t = (r, s1)"
    using t by (auto simp: andthen_def split: sum.splits)
  then have "distinct (held s1) \<and> (is_ok r \<longrightarrow> last (held s1) = PhaseComplete)"
  proof cases
    case 1
    with held show ?thesis by (auto simp: tidy_def)
  next
    case 2
    obtain rc sc where c: "completion W path t = (rc, sc)" by fastforce
    have "rc = Inr ()" using completion_step(1) [OF c] .
    with 2 c have "s1 = sc" by (simp add: andthen_def ok_def)
    with completion_step(3) [OF c] held show ?thesis by (simp add: tidy_def)
  qed
  then show "distinct (held s1)" "is_ok r \<Longrightarrow> last (held s1) = PhaseComplete" by simp_all
qed

subsection \<open>Phases that are never begun again\<close>

definition redoable :: "bootstrapPhase set" where
  "redoable = {PhaseOnPremJoin, PhasePivotReady, PhaseBoundary04, PhasePivotMove}"

lemma quiet_keeps: "quiet m \<Longrightarrow> keeps q m"
  by (simp add: keeps_def quiet_def)

lemma inlines_keep: "q \<noteq> PhasePivotMove \<Longrightarrow> keeps q before_pivot" "keeps q (cleanup_bootstrap W orc path)" "keeps q (completion W path)"
proof -
  show "q \<noteq> PhasePivotMove \<Longrightarrow> keeps q before_pivot"
    by (auto simp: keeps_def before_pivot_def day0_defs held_def withdraw_def removePhase_def)
  { fix s
    obtain r s1 where c: "cleanup_bootstrap W orc path s = (r, s1)" by fastforce
    have "set (held s) \<subseteq> set (held (snd (cleanup_bootstrap W orc path s)))" using cleanup_step(3) [OF c] c by auto }
  then show "keeps q (cleanup_bootstrap W orc path)" by (auto simp: keeps_def)
  { fix s
    obtain r s1 where c: "completion W path s = (r, s1)" by fastforce
    have "set (held s) \<subseteq> set (held (snd (completion W path s)))" using completion_step(3) [OF c] c by auto }
  then show "keeps q (completion W path)" by (auto simp: keeps_def)
qed

lemma pipeline_never_redone: "q \<notin> redoable \<Longrightarrow> never_redone q (pipeline W orc path)"
  by (auto simp: pipeline_def redoable_def inlines_keep quiet_keeps [OF quiet_paths] quiet_keeps [OF quiet_tasks(5)]
      quiet_keeps [OF quiet_tasks(7)] quiet_keeps [OF quiet_tasks(8)])

subsection \<open>Postconditions\<close>

lemma unmet_Cons:
  "unmet_among W orc kc (p # ps) s =
     (case phasePostconditions W orc kc p of
        None \<Rightarrow> unmet_among W orc kc ps s
      | Some chk \<Rightarrow>
          if \<not> phaseDone (r_bs s) p then unmet_among W orc kc ps s
          else (case chk s of (r, s1) \<Rightarrow>
            (case unmet_among W orc kc ps s1 of
               (Inl e, s2) \<Rightarrow> (Inl e, s2)
             | (Inr us, s2) \<Rightarrow> (Inr (case r of Inl e \<Rightarrow> (p, e) # us | Inr _ \<Rightarrow> us), s2))))"
  by (cases "phasePostconditions W orc kc p") (simp_all add: gets_def attempt_def andthen_def ok_def split: prod.split sum.split)

lemma quiet_unmet: "quiet (unmet_among W orc kc ps)"
proof (induction ps)
  case (Cons p ps)
  show ?case
  proof (cases "phasePostconditions W orc kc p")
    case None
    with Cons show ?thesis by (auto intro!: quiet_andthen)
  next
    case (Some chk)
    with Cons quiet_postconditions [OF Some] show ?thesis by (auto intro!: quiet_andthen quiet_attempt)
  qed
qed simp

lemma unmet_registry:
  "\<exists>us s1. unmet_among W orc kc ps s = (Inr us, s1) \<and> fst ` set us \<subseteq> set ps \<inter> set (held s)"
proof (induction ps arbitrary: s)
  case (Cons p ps)
  show ?case
  proof (cases "\<exists>chk. phasePostconditions W orc kc p = Some chk \<and> phaseDone (r_bs s) p")
    case False
    then have "unmet_among W orc kc (p # ps) s = unmet_among W orc kc ps s"
      unfolding unmet_Cons by (auto split: option.split)
    with Cons [of s] show ?thesis by fastforce
  next
    case True
    then obtain chk where chk: "phasePostconditions W orc kc p = Some chk" "phaseDone (r_bs s) p" by blast
    obtain rc sc where c: "chk s = (rc, sc)" by fastforce
    have "held sc = held s" by (rule quiet_step(2) [OF quiet_postconditions [OF chk(1)] c])
    then obtain us s1 where us: "unmet_among W orc kc ps sc = (Inr us, s1)" "fst ` set us \<subseteq> set ps \<inter> set (held s)"
      using Cons [of sc] by auto
    have "unmet_among W orc kc (p # ps) s = (Inr (case rc of Inl e \<Rightarrow> (p, e) # us | Inr _ \<Rightarrow> us), s1)"
      unfolding unmet_Cons using chk c us(1) by simp
    moreover have "fst ` set (case rc of Inl e \<Rightarrow> (p, e) # us | Inr _ \<Rightarrow> us) \<subseteq> set (p # ps) \<inter> set (held s)"
      using us(2) chk(2) by (auto simp: phaseDone_def held_def split: sum.split)
    ultimately show ?thesis by blast
  qed
qed (simp add: ok_def)

lemma set_ranged: "set (ranged W) = set registry_phases"
  by (auto simp: ranged_def dest: mset_eq_setD)

lemma withdrawn: "set (bs_CompletedPhases (withdrawCompletion ps b)) = set (bs_CompletedPhases b) - {PhaseComplete} - set ps"
proof -
  have "set (fold (\<lambda>p qs. removePhase qs p) ps qs) = set qs - set ps" for qs
    by (induction ps arbitrary: qs) (auto simp: removePhase_def)
  then show ?thesis by (simp add: withdrawCompletion_def Let_def removePhase_def) auto
qed

lemma withdrawn_distinct: "distinct (bs_CompletedPhases b) \<Longrightarrow> distinct (bs_CompletedPhases (withdrawCompletion ps b))"
proof -
  have "distinct qs \<Longrightarrow> distinct (fold (\<lambda>p qs. removePhase qs p) ps qs)" for qs
    by (induction ps arbitrary: qs) (auto simp: removePhase_def)
  then show "distinct (bs_CompletedPhases b) \<Longrightarrow> ?thesis" by (simp add: withdrawCompletion_def Let_def removePhase_def)
qed

subsection \<open>A command\<close>

lemma recorded_Load: "state_Load W path s = (Inr (Some b), s1) \<Longrightarrow> recorded path s = set (bs_CompletedPhases b)"
  by (drule state_Load_SomeD) (simp add: recorded_def)

lemma start_step:
  "shows_step s [] t \<Longrightarrow> shows_step s [] (t\<lparr>r_bs := b, r_kubeconfig := k, r_context := c, r_mgmt := m, r_final := f\<rparr>)"
  "recorded path (t\<lparr>r_bs := b, r_kubeconfig := k, r_context := c, r_mgmt := m, r_final := f\<rparr>) = recorded path t"
  "held (t\<lparr>r_bs := b, r_kubeconfig := k, r_context := c, r_mgmt := m, r_final := f\<rparr>) = bs_CompletedPhases b"
  by (simp_all add: shows_step_def recorded_def held_def)

lemma runFresh_eq:
  "runFresh W orc path existing s = run_stages W orc path (pipeline W orc path)
     (s\<lparr>r_bs := (case existing of None \<Rightarrow> fresh_state orc | Some b \<Rightarrow> b), r_kubeconfig := [], r_context := [], r_mgmt := [], r_final := []\<rparr>)"
  by (simp add: runFresh_def andthen_simps)

text \<open>Where a command with a record goes on, if it does: with what it found, less what it withdrew.\<close>

lemma existing_cases:
  assumes run: "handleExistingState W orc path s = (r, s1)"
  obtains
    (stopped) "shows_step s [] s1" "recorded path s1 = recorded path s" "is_ok r \<Longrightarrow> PhaseComplete \<in> set (held s)"
  | (went) t where "run_stages W orc path (pipeline W orc path) t = (r, s1)" "shows_step s [] t" "set (held t) \<subseteq> set (held s)"
      "set (held s) - set registry_phases - {PhaseComplete} \<subseteq> set (held t)" "PhaseComplete \<notin> set (held t)"
      "distinct (held s) \<Longrightarrow> distinct (held t)"
proof (cases "provider_clash orc (r_bs s)")
  case True
  then have "\<exists>e. r = Inl e" "s1 = s" using run by (auto simp: handleExistingState_def andthen_simps err_def)
  then show ?thesis by (intro stopped) auto
next
  case no_clash: False
  show ?thesis
  proof (cases "phaseDone (r_bs s) PhaseComplete")
    case False
    let ?t = "s\<lparr>r_kubeconfig := [], r_context := [], r_mgmt := [], r_final := []\<rparr>"
    have "run_stages W orc path (pipeline W orc path) ?t = (r, s1)"
      using run no_clash False by (simp add: handleExistingState_def andthen_simps runFresh_eq)
    moreover have "held ?t = held s" "shows_step s [] ?t" by (simp_all add: held_def shows_step_def)
    ultimately show ?thesis using False by (intro went [of ?t]) (auto simp: phaseDone_def held_def)
  next
    case True
    obtain us u where us: "unmet_among W orc (bs_MgmtKubeconfig (r_bs s)) (ranged W) s = (Inr us, u)"
        "fst ` set us \<subseteq> set (ranged W) \<inter> set (held s)"
      using unmet_registry by blast
    note u = quiet_step [OF quiet_unmet us(1)]
    define w where "w = u\<lparr>r_bs := withdrawCompletion (map fst us) (r_bs u)\<rparr>"
    have cont: "(r, s1) = (if us = [] then (Inr (), u) else andthen (state_Save W path) (\<lambda>_. andthen (gets r_bs) (\<lambda>b1. runFresh W orc path (Some b1))) w)"
      using run no_clash True us(1)
      by (simp add: handleExistingState_def andthen_simps unmetPostconditions_def ok_def w_def
          andthen_via [where m = "unmet_among W orc (bs_MgmtKubeconfig (r_bs s)) (ranged W)" and s = s, OF us(1)] split: if_splits)
    show ?thesis
    proof (cases "us = []")
      case empty: True
      then show ?thesis using cont u True by (intro stopped) (auto simp: phaseDone_def held_def)
    next
      case False
      obtain rs sv where sv: "state_Save W path w = (rs, sv)" by fastforce
      note save = Save_step [OF sv]
      have w: "shows_step u [] w" "recorded path w = recorded path s"
          "set (held w) = set (held s) - {PhaseComplete} - fst ` set us" "distinct (held s) \<Longrightarrow> distinct (held w)"
        using u by (simp_all add: w_def held_def shows_step_def recorded_def withdrawn withdrawn_distinct)
      have upto: "shows_step s [] sv" using shows_trans [OF u(1) shows_trans [OF w(1) save(1)]] by simp
      have after: "(r, s1) = (case rs of Inl e \<Rightarrow> (Inl e, sv) | Inr _ \<Rightarrow> runFresh W orc path (Some (r_bs sv)) sv)"
        using cont False by (simp add: andthen_via [where m = "state_Save W path" and s = w, OF sv] andthen_simps split: sum.split)
      show ?thesis
      proof (cases rs)
        case (Inl e)
        with after save w upto show ?thesis by (intro stopped) auto
      next
        case (Inr x)
        let ?t = "sv\<lparr>r_kubeconfig := [], r_context := [], r_mgmt := [], r_final := []\<rparr>"
        have t: "held ?t = held w" "shows_step s [] ?t" using save(2) upto by (simp_all add: held_def shows_step_def)
        have "run_stages W orc path (pipeline W orc path) ?t = (r, s1)"
          using after Inr by (simp add: runFresh_eq)
        then show ?thesis using t w us(2) set_ranged [of W] by (intro went [of ?t]) auto
      qed
    qed
  qed
qed

lemma Run_cases:
  assumes run: "orchestrator_Run W orc s = (r, s1)"
  defines "path \<equiv> state_path orc"
  obtains
    (stopped) "shows_step s [] s1" "recorded path s1 = recorded path s" "is_ok r \<Longrightarrow> PhaseComplete \<in> recorded path s"
  | (went) t where "run_stages W orc path (pipeline W orc path) t = (r, s1)" "shows_step s [] t" "set (held t) \<subseteq> recorded path s"
      "is_ok (fst (state_Load W path s)) \<Longrightarrow> recorded path s - set registry_phases - {PhaseComplete} \<subseteq> set (held t)"
      "PhaseComplete \<notin> set (held t)"
      "(\<And>b. r_disk s path = Some (Encoded b) \<Longrightarrow> distinct (bs_CompletedPhases b)) \<Longrightarrow> distinct (held t)"
proof -
  let ?s = "s\<lparr>r_log := r_log s @ [ReadFile path]\<rparr>"
  obtain rl where l: "state_Load W path s = (rl, ?s)" using state_Load_state [of W path s] by (metis prod.collapse)
  have base: "shows_step s [] ?s" "recorded path ?s = recorded path s" by (simp_all add: shows_step_def recorded_def)
  show ?thesis
  proof (cases "\<exists>b. rl = Inr (Some b)")
    case True
    then obtain b where b: "rl = Inr (Some b)" by blast
    let ?t = "?s\<lparr>r_bs := b\<rparr>"
    have h: "handleExistingState W orc path ?t = (r, s1)"
      using run l b by (simp add: orchestrator_Run_def Let_def attempt_def andthen_simps path_def)
    have disk: "r_disk s path = Some (Encoded b)" using state_Load_SomeD l b by blast
    have t: "shows_step s [] ?t" "recorded path ?t = recorded path s" "held ?t = bs_CompletedPhases b" "recorded path s = set (bs_CompletedPhases b)"
      using disk by (simp_all add: shows_step_def recorded_def held_def)
    show ?thesis
    proof (cases rule: existing_cases [OF h, case_names stopped went])
      case stopped
      then show ?thesis using t shows_trans [OF t(1)] by (intro that(1)) auto
    next
      case (went u)
      then show ?thesis using t disk shows_trans [OF t(1)] by (intro that(2) [of u]) auto
    qed
  next
    case False
    have empty: "is_ok (fst (state_Load W path s)) \<Longrightarrow> recorded path s = {}"
      using False l by (auto simp: state_Load_def day0_defs recorded_def split: option.splits sum.splits fileData.splits reply.splits)
    obtain rk sk where k: "checkKindClusterExists W orc ?s = (rk, sk)" by fastforce
    note q = quiet_step [OF quiet_tasks(11) k]
    have upto: "shows_step s [] sk" using shows_trans [OF base(1) q(1)] by simp
    have cont: "(r, s1) = (case rk of Inl e \<Rightarrow> (Inl e, sk) | Inr _ \<Rightarrow> runFresh W orc path None sk)"
      using run l k False unfolding path_def
      by (cases rl; cases "projr rl"; simp add: orchestrator_Run_def Let_def attempt_def andthen_def)
    show ?thesis
    proof (cases rk)
      case (Inl e)
      then show ?thesis using cont upto q base by (intro that(1)) auto
    next
      case (Inr x)
      let ?t = "sk\<lparr>r_bs := fresh_state orc, r_kubeconfig := [], r_context := [], r_mgmt := [], r_final := []\<rparr>"
      have "run_stages W orc path (pipeline W orc path) ?t = (r, s1)" using cont Inr by (simp add: runFresh_eq)
      moreover have "held ?t = []" "shows_step s [] ?t" using upto by (simp_all add: held_def fresh_state_def shows_step_def)
      ultimately show ?thesis using empty by (intro that(2) [of ?t]) auto
    qed
  qed
qed

end
