(* ===== verification/Day0_Props.thy ===== *)
theory Day0_Props
  imports Day0_Graph Day0_Script Day0_Whole
begin

text \<open>What is shown of a Day-0 bootstrap.\<close>

definition begun :: "run \<Rightarrow> run \<Rightarrow> bootstrapPhase list" where
  "begun s s1 = began_in (drop (length (r_log s)) (r_log s1))"

lemma begun_shows: "shows_step s ps s1 \<Longrightarrow> begun s s1 = ps"
  by (auto simp: shows_step_def begun_def)

subsection \<open>Runs\<close>

text \<open>The account of a command, from the record on disk to the record on disk.\<close>

lemma Run_account:
  assumes run: "orchestrator_Run W orc s = (r, s1)"
  defines "path \<equiv> state_path orc"
  obtains reached rest where "pipeline_order = reached @ rest" "subseq (begun s s1) reached"
    "set reached - set (begun s s1) \<subseteq> recorded path s" "set (butlast (begun s s1)) \<subseteq> recorded path s1"
    "is_ok r \<Longrightarrow> PhaseComplete \<in> recorded path s \<and> reached = [] \<or>
       rest = [] \<and> set pipeline_order \<subseteq> set (held s1) \<and> set (begun s s1) \<subseteq> recorded path s1"
proof (cases rule: Run_cases [OF run, case_names stopped went])
  case stopped
  then have "begun s s1 = []" by (simp add: begun_shows)
  with stopped show ?thesis by (intro that [of "[]" pipeline_order]) (auto simp: path_def)
next
  case (went t)
  obtain a where a: "accounts path pipeline_order t r s1 a"
    using accounted [OF pipeline_ok went(1)] unfolding path_def phases_of_pipeline by blast
  have b: "begun s s1 = ac_begun a"
    using shows_trans [OF went(2), of "ac_begun a" s1] a by (auto simp: accounts_def intro: begun_shows)
  show ?thesis
    using a went(3) unfolding accounts_def b path_def by (intro that [of "ac_reached a" "ac_rest a"]) (auto simp: path_def b)
qed

text \<open>A recorded phase with neither a postcondition nor a need to pivot again is not begun.\<close>

lemma Run_not_again:
  assumes run: "orchestrator_Run W orc s = (r, s1)"
    and load: "is_ok (fst (state_Load W (state_path orc) s))" and q: "q \<in> recorded (state_path orc) s"
      "q \<notin> redoable" "q \<notin> set registry_phases" "q \<noteq> PhaseComplete"
  shows "q \<notin> set (begun s s1)"
proof (cases rule: Run_cases [OF run, case_names stopped went])
  case stopped
  then show ?thesis by (simp add: begun_shows)
next
  case (went t)
  have "q \<in> set (held t)" using went(4) [OF load] q by blast
  then obtain ps where "shows_step t ps s1" "q \<notin> set ps"
    using not_again [OF pipeline_ok went(1) _ pipeline_never_redone [OF q(2)]] by blast
  with shows_trans [OF went(2)] show ?thesis by (metis append_Nil begun_shows)
qed

text \<open>
  A phase is recorded with the kubeconfig of the bootstrap cluster, a file under the temporary directory of the
  machine. Where that file is gone a resumed run stops before the third phase, whatever it still had to do.
\<close>

lemma fresh_runner_refused:
  assumes disk: "r_disk s (state_path orc) = Some (Encoded b)" and load: "w_ask W (r_log s) (ReadFile (state_path orc)) = Done x"
    and b: "\<not> provider_clash orc b" "PhaseComplete \<notin> set (bs_CompletedPhases b)" "PhasePreFlight \<in> set (bs_CompletedPhases b)"
      "PhaseBootstrapCreate \<in> set (bs_CompletedPhases b)" "bs_BootstrapKubeconfig b \<noteq> []"
    and gone: "\<And>log args. w_ask W log (Exec ''kubectl'' ([''--kubeconfig'', bs_BootstrapKubeconfig b] @ args)) = Failed e"
  shows "\<exists>e s1. orchestrator_Run W orc s = (Inl e, s1) \<and> begun s s1 = [] \<and> r_disk s1 = r_disk s"
proof -
  let ?s = "s\<lparr>r_log := r_log s @ [ReadFile (state_path orc)], r_bs := b, r_kubeconfig := [], r_context := [], r_mgmt := [], r_final := []\<rparr>"
  have l: "state_Load W (state_path orc) s = (Inr (Some b), s\<lparr>r_log := r_log s @ [ReadFile (state_path orc)]\<rparr>)"
    using state_Load_saved [OF disk load] .
  have start: "orchestrator_Run W orc s = run_stages W orc (state_path orc) (pipeline W orc (state_path orc)) ?s"
    using l b by (simp add: orchestrator_Run_def Let_def attempt_def andthen_simps handleExistingState_def phaseDone_def runFresh_eq)
  obtain e2 s2 where p: "set_paths W orc ?s = (Inl e2, s2)"
    using gone [of _ "[''--context'', paths_context orc b, ''config'', ''view'', ''--minify'', ''--flatten'', ''-o'', ''yaml'']"] b(5)
    by (simp add: set_paths_def kubeconfigPaths_def pinKubeconfig_def day0_defs Let_def)
  have "run_stages W orc (state_path orc) (pipeline W orc (state_path orc)) ?s = (Inl e2, s2)"
    using b p unfolding pipeline_def
    by (simp add: andthen_def wrapped_def attempt_def runPhase_def gets_def phaseDone_def ok_def)
  moreover have "shows_step ?s [] s2" "r_disk s2 = r_disk ?s" using quiet_step(1) [OF quiet_paths p] quietD [OF quiet_paths p] by blast+
  ultimately show ?thesis using start shows_trans [of s "[]" ?s "[]" s2] by (auto simp: shows_step_def begun_def)
qed

text \<open>A record that calls itself complete over a phase whose effect is missing: a command that succeeds has done that phase again.\<close>

lemma Run_repairs:
  assumes disk: "r_disk s (state_path orc) = Some (Encoded b)" and load: "w_ask W (r_log s) (ReadFile (state_path orc)) = Done x"
    and b: "\<not> provider_clash orc b" "PhaseComplete \<in> set (bs_CompletedPhases b)"
    and unmet: "unmetPostconditions W orc (bs_MgmtKubeconfig b) (s\<lparr>r_log := r_log s @ [ReadFile (state_path orc)], r_bs := b\<rparr>) = (Inr us, u)"
    and run: "orchestrator_Run W orc s = (Inr (), s1)"
  shows "fst ` set us \<subseteq> set (begun s s1)"
proof (cases "us = []")
  case False
  let ?path = "state_path orc" and ?s = "s\<lparr>r_log := r_log s @ [ReadFile (state_path orc)], r_bs := b\<rparr>"
  have un: "unmet_among W orc (bs_MgmtKubeconfig b) (ranged W) ?s = (Inr us, u)" using unmet by (simp add: unmetPostconditions_def)
  then have registry: "fst ` set us \<subseteq> set registry_phases"
    using unmet_registry [of W orc "bs_MgmtKubeconfig b" "ranged W" ?s] set_ranged [of W] by auto
  note q = quiet_step [OF quiet_unmet un]
  define w where "w = u\<lparr>r_bs := withdrawCompletion (map fst us) (r_bs u)\<rparr>"
  have l: "state_Load W ?path s = (Inr (Some b), s\<lparr>r_log := r_log s @ [ReadFile ?path]\<rparr>)" using state_Load_saved [OF disk load] .
  have "handleExistingState W orc ?path ?s = (Inr (), s1)"
    using run l by (simp add: orchestrator_Run_def Let_def attempt_def andthen_simps)
  then have cont: "andthen (state_Save W ?path) (\<lambda>_. andthen (gets r_bs) (\<lambda>b1. runFresh W orc ?path (Some b1))) w = (Inr (), s1)"
    using b False unmet by (simp add: handleExistingState_def andthen_simps phaseDone_def w_def
        andthen_via [where m = "unmetPostconditions W orc (bs_MgmtKubeconfig b)" and s = ?s, OF unmet])
  obtain rs sv where sv: "state_Save W ?path w = (rs, sv)" by fastforce
  with cont obtain y where "rs = Inr y" by (cases rs) (auto simp: andthen_def)
  let ?t = "sv\<lparr>r_kubeconfig := [], r_context := [], r_mgmt := [], r_final := []\<rparr>"
  have go: "run_stages W orc ?path (pipeline W orc ?path) ?t = (Inr (), s1)"
    using cont sv \<open>rs = Inr y\<close> by (simp add: andthen_def gets_def runFresh_eq)
  have held: "set (held ?t) \<inter> fst ` set us = {}"
    using Save_step(2) [OF sv] withdrawn [of "map fst us" "r_bs u"] by (auto simp: held_def w_def)
  have "shows_step s [] ?s" "shows_step u [] w" "shows_step sv [] ?t" by (simp_all add: shows_step_def w_def)
  with shows_trans [OF _ shows_trans [OF q(1) shows_trans [OF _ shows_trans [OF Save_step(1) [OF sv]]]]]
  have upto: "shows_step s [] ?t" by fastforce
  obtain a where "accounts ?path pipeline_order ?t (Inr ()) s1 a"
    using accounted [OF pipeline_ok go] unfolding phases_of_pipeline by blast
  then have a: "set pipeline_order - set (ac_begun a) \<subseteq> set (held ?t)" "shows_step ?t (ac_begun a) s1" by (auto simp: accounts_def)
  have b: "begun s s1 = ac_begun a" using shows_trans [OF upto a(2)] by (simp add: begun_shows)
  have "set registry_phases \<subseteq> set pipeline_order" by (simp add: registry_phases_def pipeline_order_def)
  show ?thesis
  proof
    fix p
    assume p: "p \<in> fst ` set us"
    then have "p \<in> set pipeline_order" using registry \<open>set registry_phases \<subseteq> _\<close> by (meson subsetD)
    moreover have "p \<notin> set (held ?t)" using held p by (meson disjoint_iff)
    ultimately show "p \<in> set (begun s s1)" using a(1) unfolding b by (meson DiffI subsetD)
  qed
qed simp

subsection \<open>A small world\<close>

text \<open>Everything succeeds but the Day-0 infrastructure, for which there is no quota.\<close>

definition demo_world :: world where
  "demo_world = \<lparr> w_ask = (\<lambda>_ c. case c of Task ProvisionDayZero _ \<Rightarrow> Failed ''quota'' | _ \<Rightarrow> Done []),
     w_now = (\<lambda>log. int (length log)), w_range = [] \<rparr>"

definition demo_orc :: orchestrator where
  "demo_orc = \<lparr> or_ClusterName = ''hub'', or_GitopsDir = [], or_BootstrapContext = ''dev'', or_KeepBootstrap = False,
     or_Provider = ''hetzner'', or_OnPremRequested = None, or_PlannedWorkerReplicas = Some 1, or_KUBECONFIG = [], or_home = ''/root'',
     or_tmp = ''/tmp'', or_quote = (\<lambda>x. x) \<rparr>"

definition demo_run :: run where
  "demo_run = \<lparr> r_disk = (\<lambda>_. None), r_log = [], r_bs = fresh_state demo_orc, r_kubeconfig = [], r_context = [], r_mgmt = [], r_final = [] \<rparr>"

lemma demo_pipeline: "\<exists>ss. pipeline demo_world demo_orc path =
   Phase PhasePreFlight ''preflight'' [] (andthen (checkPlacementCapacityRequested demo_orc) (\<lambda>_. todo demo_world (Task Validators []))) None #
   Phase PhaseBootstrapCreate ''bootstrap-create'' ''bootstrap create failed: '' (createKindCluster demo_world demo_orc) None #
   Inline (set_paths demo_world demo_orc) #
   Phase PhaseDayZero ''day0-infra'' [] (on_bootstrap demo_world ProvisionDayZero) None # ss"
  by (simp add: pipeline_def)

lemmas demo_eval = day0_defs runPhase_def perform_def phaseDone_def state_Save_def stamped_def markPhaseComplete_def add_timing_def
  persistTenantState_def checkPlacementCapacityRequested_def createKindCluster_def set_paths_def kubeconfigPaths_def pinKubeconfig_def
  on_bootstrap_def on_prem_def Let_def demo_world_def demo_orc_def demo_run_def fresh_state_def

lemma demo_first:
  "\<exists>e b s1. orchestrator_Run demo_world demo_orc demo_run = (Inl e, s1) \<and>
     began_in (r_log s1) = [PhasePreFlight, PhaseBootstrapCreate, PhaseDayZero] \<and> 
     r_disk s1 (state_path demo_orc) = Some (Encoded b) \<and> bs_CompletedPhases b = [PhasePreFlight, PhaseBootstrapCreate]"
proof -
  obtain ss where "pipeline demo_world demo_orc (state_path demo_orc) =
   Phase PhasePreFlight ''preflight'' [] (andthen (checkPlacementCapacityRequested demo_orc) (\<lambda>_. todo demo_world (Task Validators []))) None #
   Phase PhaseBootstrapCreate ''bootstrap-create'' ''bootstrap create failed: '' (createKindCluster demo_world demo_orc) None #
   Inline (set_paths demo_world demo_orc) #
   Phase PhaseDayZero ''day0-infra'' [] (on_bootstrap demo_world ProvisionDayZero) None # ss" using demo_pipeline by blast
  then show ?thesis
    by (simp add: orchestrator_Run_def runFresh_eq state_Load_def checkKindClusterExists_def demo_eval)
qed

subsection \<open>Properties\<close>

text \<open>
  C37: the search of the boundary graph is exact. \<^verbatim>\<open>findCycle\<close> ends on every graph; what it returns is a simple cycle of
  the graph, and it returns none exactly when the graph has no cycle of any length.
\<close>

theorem findCycle_exact:
  "case findCycle es of
     Some c \<Rightarrow> is_cycle (edge_rel es) c \<and> \<not> acyclic (edge_rel es)
   | None \<Rightarrow> acyclic (edge_rel es)"
  using findCycle_spec [of es] cycle_not_acyclic by (auto split: option.splits)

text \<open>
  C38: a process starts exactly with a table of boundaries that is numbered from 1 without a gap or a repetition, in
  which every contract has a label and answers both its halves, each by checks or by a reason, and in which every
  capability a boundary requires of another is one an earlier boundary asserts. The table of the code is one.
\<close>

theorem boundaries_accepted:
  "(boundaries_init quote cs = None \<longleftrightarrow>
      mset (map bc_number cs) = mset [1..int (length cs)] \<and>
      list_all (\<lambda>c. bc_label c \<noteq> [] \<and> answered (bc_requires c) \<and> answered (bc_readiness c)) cs \<and>
      list_all (\<lambda>e. be_from e < be_to e) (dependencyEdges cs)) \<and>
   boundaries_init quote boundaryContracts = None"
proof -
  have "boundaries_init quote cs = None \<longleftrightarrow> validateBoundaryContracts cs = None \<and> validateBoundaryGraph quote cs = None"
    by (cases "validateBoundaryContracts cs") (simp_all add: boundaries_init_def)
  then show ?thesis using table_accepted [of quote] by (simp add: contracts_accepted graph_accepted list_all_iff)
qed





text \<open>
  C34: work is not done twice. Of two commands on the same cluster, one after the other, whatever the first came to and
  provided the second can read the record, no phase that the first got past is begun again by the second, save those
  whose effect is looked at afresh: the phases with a postcondition, and a pivot that left no kubeconfig.
\<close>

theorem resumed_once:
  assumes "orchestrator_Run W orc s = (r, s1)" and "orchestrator_Run W2 orc2 s1 = (r2, s2)" and "state_path orc2 = state_path orc"
    and "is_ok (fst (state_Load W2 (state_path orc) s1))"
  shows "set (butlast (begun s s1)) \<inter> set (begun s1 s2) \<subseteq> set registry_phases \<union> {PhasePivotMove}"
proof
  fix q
  assume q: "q \<in> set (butlast (begun s s1)) \<inter> set (begun s1 s2)"
  obtain reached rest where acc: "pipeline_order = reached @ rest" "subseq (begun s s1) reached"
      "set (butlast (begun s s1)) \<subseteq> recorded (state_path orc) s1"
    using Run_account [OF assms(1)] by metis
  have "q \<in> set (begun s s1)" using q by (auto dest: in_set_butlastD)
  then have "q \<in> set reached" using list_emb_set [OF acc(2)] by blast
  then have "q \<in> set pipeline_order" unfolding acc(1) by simp
  then have "q \<noteq> PhaseComplete" by (auto simp: pipeline_order_def)
  then show "q \<in> set registry_phases \<union> {PhasePivotMove}"
  proof -
    have rec: "q \<in> recorded (state_path orc2) s1" using q acc(3) assms(3) by auto
    have load: "is_ok (fst (state_Load W2 (state_path orc2) s1))" using assms(3,4) by simp
    have "q \<in> redoable \<or> q \<in> set registry_phases"
      using Run_not_again [OF assms(2) load rec] \<open>q \<noteq> PhaseComplete\<close> q by blast
    then show ?thesis by (auto simp: redoable_def registry_phases_def)
  qed
qed

theorem resumed_once_witness:
  "\<exists>r s1 r2 s2. orchestrator_Run demo_world demo_orc demo_run = (r, s1) \<and> orchestrator_Run demo_world demo_orc s1 = (r2, s2) \<and>
     begun demo_run s1 = [PhasePreFlight, PhaseBootstrapCreate, PhaseDayZero] \<and>
     PhasePreFlight \<notin> set (begun s1 s2) \<and> PhaseBootstrapCreate \<notin> set (begun s1 s2)"
proof -
  obtain e b s1 where s1: "orchestrator_Run demo_world demo_orc demo_run = (Inl e, s1)"
      "began_in (r_log s1) = [PhasePreFlight, PhaseBootstrapCreate, PhaseDayZero]" "r_disk s1 (state_path demo_orc) = Some (Encoded b)"
    using demo_first by blast
  then have b: "begun demo_run s1 = [PhasePreFlight, PhaseBootstrapCreate, PhaseDayZero]" by (simp add: begun_def demo_run_def)
  obtain r2 s2 where r2: "orchestrator_Run demo_world demo_orc s1 = (r2, s2)" by fastforce
  have "w_ask demo_world (r_log s1) (ReadFile (state_path demo_orc)) = Done []" by (simp add: demo_world_def)
  then have "is_ok (fst (state_Load demo_world (state_path demo_orc) s1))" using state_Load_saved [OF s1(3)] by simp
  with resumed_once [OF s1(1) r2 refl] b s1(1) r2 show ?thesis by (auto simp: registry_phases_def)
qed


text \<open>A cluster that lacks only its last phase, and a world in which everything is answered with a 1.\<close>

definition late_world :: world where
  "late_world = \<lparr> w_ask = (\<lambda>_ _. Done ''1''), w_now = (\<lambda>log. int (length log)), w_range = [] \<rparr>"

definition late_state :: bootstrapState where
  "late_state = (fresh_state demo_orc)\<lparr>bs_CompletedPhases := butlast pipeline_order, bs_MgmtKubeconfig := ''hub.kubeconfig''\<rparr>"

definition late_run :: run where
  "late_run = demo_run\<lparr>r_disk := [state_path demo_orc \<mapsto> Encoded late_state]\<rparr>"

lemmas late_eval = day0_defs runPhase_def perform_def phaseDone_def state_Save_def stamped_def markPhaseComplete_def add_timing_def
  persistTenantState_def set_paths_def kubeconfigPaths_def pinKubeconfig_def on_hub_def on_prem_def Let_def late_world_def demo_orc_def
  demo_run_def fresh_state_def late_state_def late_run_def butlast.simps pipeline_order_def

lemma late_ok: "\<exists>s1. orchestrator_Run late_world demo_orc late_run = (Inr (), s1) \<and> begun late_run s1 = [PhaseFinalize]"
  by (simp add: orchestrator_Run_def runFresh_eq state_Load_def handleExistingState_def provider_clash_def providerName_def
      pipeline_def resolveHubKubeconfig_def postcondition_def phasePostconditions_def zitadelServing_def kubectl_def
      tailnetCredentialStagedOnHub_def onPremWorkersPresent_def before_pivot_def after_pivot_def cleanup_bootstrap_def after_infisical_def
      await_consumers_def act_finalize_def completion_def begun_def TrimSpace_def is_space_def late_eval)


end
