(* ===== verification/Auth_Proxy.thy ===== *)
theory Auth_Proxy
  imports Go_HTTP
begin

text \<open>
  The authentication proxy, \<^verbatim>\<open>internal/auth-proxy\<close>: its configuration (\<^verbatim>\<open>config.go\<close>), what it reads from a token
  (\<^verbatim>\<open>zitadel.go\<close>), the validator of tokens with its cache of keys (\<^verbatim>\<open>jwt.go\<close>), the endpoint the gateway asks
  (\<^verbatim>\<open>validate.go\<close>) and the documents it serves (\<^verbatim>\<open>handlers.go\<close>). Times are nanoseconds. Log lines are left out.
\<close>

subsection \<open>Configuration\<close>

record auth_config =
  ac_ListenAddr :: string
  ac_ZitadelIssuerURL :: string
  ac_ZitadelInternalURL :: string
  ac_JWKSCacheTTL :: int
  ac_JWKSFetchTimeout :: int
  ac_JWKSRefreshMinInterval :: int
  ac_ExpectedJWTAudience :: string
  ac_AuthPublicBaseURL :: string
  ac_MCPGatewayBaseURL :: string

text \<open>The value of a variable, and what is to be complained about.\<close>

definition env_get :: "(string \<Rightarrow> string) \<Rightarrow> string \<Rightarrow> string \<times> string list" where
  "env_get env key = (if TrimSpace (env key) = [] then ([], [key]) else (env key, []))"

text \<open>\<open>parse\<close> is \<^verbatim>\<open>time.ParseDuration\<close> and \<open>quote\<close> prints \<^verbatim>\<open>%q\<close>.\<close>

definition env_duration :: "(string \<Rightarrow> int option) \<Rightarrow> (string \<Rightarrow> string) \<Rightarrow> (string \<Rightarrow> string) \<Rightarrow> string \<Rightarrow> int \<times> string list" where
  "env_duration parse quote env key =
     (case env_get env key of (raw, miss) \<Rightarrow>
        if raw = [] then (0, miss)
        else (case parse raw of
            Some d \<Rightarrow> (d, miss)
          | None \<Rightarrow> (0, miss @ [key @ '' (invalid duration '' @ quote raw @ '')''])))"

definition auth_LoadConfig :: "(string \<Rightarrow> int option) \<Rightarrow> (string \<Rightarrow> string) \<Rightarrow> (string \<Rightarrow> string) \<Rightarrow> (string, auth_config) result" where
  "auth_LoadConfig parse quote env =
     (let get = env_get env; dur = env_duration parse quote env;
          names = snd (get ''LISTEN_ADDR'') @ snd (get ''ZITADEL_ISSUER_URL'') @ snd (get ''ZITADEL_INTERNAL_URL'') @
            snd (dur ''JWKS_CACHE_TTL'') @ snd (dur ''JWKS_FETCH_TIMEOUT'') @ snd (dur ''JWKS_REFRESH_MIN_INTERVAL'') @
            snd (get ''EXPECTED_JWT_AUDIENCE'') @ snd (get ''AUTH_PUBLIC_BASE_URL'') @ snd (get ''MCP_GATEWAY_BASE_URL'') in
      if names \<noteq> []
      then Inl (''auth-proxy configuration incomplete: '' @ Itoa (int (length names)) @
        '' required environment variable(s) missing or invalid: '' @ Join (sort names) '', '')
      else Inr \<lparr> ac_ListenAddr = fst (get ''LISTEN_ADDR''),
        ac_ZitadelIssuerURL = TrimSuffix (fst (get ''ZITADEL_ISSUER_URL'')) ''/'',
        ac_ZitadelInternalURL = TrimSuffix (fst (get ''ZITADEL_INTERNAL_URL'')) ''/'',
        ac_JWKSCacheTTL = fst (dur ''JWKS_CACHE_TTL''), ac_JWKSFetchTimeout = fst (dur ''JWKS_FETCH_TIMEOUT''),
        ac_JWKSRefreshMinInterval = fst (dur ''JWKS_REFRESH_MIN_INTERVAL''), ac_ExpectedJWTAudience = fst (get ''EXPECTED_JWT_AUDIENCE''),
        ac_AuthPublicBaseURL = TrimSuffix (fst (get ''AUTH_PUBLIC_BASE_URL'')) ''/'',
        ac_MCPGatewayBaseURL = TrimSuffix (fst (get ''MCP_GATEWAY_BASE_URL'')) ''/'' \<rparr>)"

subsection \<open>Claims\<close>

text \<open>A decoded JSON value; the order of a map is the one a \<^verbatim>\<open>range\<close> takes.\<close>

datatype jval = JText string | JList "jval list" | JMap "(string \<times> jval) list" | JElse

type_synonym claims = "jval gomap"

definition zitadelDiscoveryPath :: string where
  "zitadelDiscoveryPath = ''/.well-known/openid-configuration''"

definition zitadelJWKSPath :: string where
  "zitadelJWKSPath = ''/oauth/v2/keys''"

definition zitadelAuthorizePath :: string where
  "zitadelAuthorizePath = ''/oauth/v2/authorize''"

definition zitadelTokenPath :: string where
  "zitadelTokenPath = ''/oauth/v2/token''"

definition zitadelUserinfoPath :: string where
  "zitadelUserinfoPath = ''/oidc/v1/userinfo''"

definition zitadelRevocationPath :: string where
  "zitadelRevocationPath = ''/oauth/v2/revoke''"

definition zitadelIntrospectionPath :: string where
  "zitadelIntrospectionPath = ''/oauth/v2/introspect''"

definition zitadelEndSessionPath :: string where
  "zitadelEndSessionPath = ''/oidc/v1/end_session''"

definition tenantIDClaims :: "string list" where
  "tenantIDClaims = [''tenant_id'', ''urn:zitadel:iam:user:resourceowner:id'', ''urn:zitadel:iam:org:id'']"

definition scopedRolesClaim :: string where
  "scopedRolesClaim = ''urn:zitadel:iam:org:project:roles''"

text \<open>A claim as a string: empty where it is absent or not one.\<close>

definition text_claim :: "claims \<Rightarrow> string \<Rightarrow> string" where
  "text_claim raw name = (case map_of raw name of Some (JText v) \<Rightarrow> v | _ \<Rightarrow> [])"

definition tenantFromClaims :: "claims \<Rightarrow> string" where
  "tenantFromClaims raw =
     (case List.find (\<lambda>name. text_claim raw name \<noteq> []) tenantIDClaims of Some name \<Rightarrow> text_claim raw name | None \<Rightarrow> [])"

definition rolesGrantedInTenant :: "claims \<Rightarrow> string \<Rightarrow> string list" where
  "rolesGrantedInTenant raw tenantID =
     (if tenantID = [] then []
      else (case map_of raw ''roles'' of
          Some (JList flat) \<Rightarrow> List.map_filter (\<lambda>r. case r of JText s \<Rightarrow> Some s | _ \<Rightarrow> None) flat
        | _ \<Rightarrow>
            (case map_of raw scopedRolesClaim of
               Some (JMap nested) \<Rightarrow>
                 List.map_filter (\<lambda>(roleKey, grantedIn). case grantedIn of
                     JMap orgs \<Rightarrow> if map_of orgs tenantID \<noteq> None then Some roleKey else None
                   | _ \<Rightarrow> None) nested
             | _ \<Rightarrow> [])))"

definition hasRequiredScope :: "string \<Rightarrow> string \<Rightarrow> bool" where
  "hasRequiredScope tokenScope requiredScope \<longleftrightarrow> tokenScope \<noteq> [] \<and> requiredScope \<in> set (split_on CHR '' '' tokenScope)"

subsection \<open>Keys\<close>

record auth_jwk =
  jwk_kty :: string
  jwk_kid :: string
  jwk_use :: string
  jwk_alg :: string
  jwk_n :: string
  jwk_e :: string

record rsaKey =
  rk_N :: nat
  rk_E :: int

text \<open>\<^verbatim>\<open>eInt = eInt<<8 | uint64(b)\<close>, and \<^verbatim>\<open>big.Int.SetBytes\<close>.\<close>

unbundle bit_operations_syntax

definition exponent_of :: "string \<Rightarrow> 64 word" where
  "exponent_of bs = foldl (\<lambda>e b. push_bit 8 e OR word_of_nat (byte b)) 0 bs"

definition modulus_of :: "string \<Rightarrow> nat" where
  "modulus_of bs = foldl (\<lambda>n b. 256 * n + byte b) 0 bs"

definition jwkToPublicKey :: "auth_jwk \<Rightarrow> rsaKey option" where
  "jwkToPublicKey k =
     (if jwk_kty k \<noteq> ''RSA'' then None
      else (case RawURL_Decode (jwk_n k) of
          None \<Rightarrow> None
        | Some nBytes \<Rightarrow>
            (case RawURL_Decode (jwk_e k) of
               None \<Rightarrow> None
             | Some eBytes \<Rightarrow> Some \<lparr> rk_N = modulus_of nBytes, rk_E = sint (exponent_of eBytes) \<rparr>)))"

text \<open>
  What lies outside: the answer of a GET by URL and \<^verbatim>\<open>Host\<close> header (a transport error, or a status and a body), the
  decoder of key sets, the clock, and the library for tokens, which reads the header of a token, verifies it with a key
  and reads its audience. The time of a reading is that of the moment.
\<close>

record auth_world =
  aw_now :: "nat \<Rightarrow> int"
  aw_get :: "nat \<Rightarrow> string \<Rightarrow> string \<Rightarrow> (string, nat \<times> string) result"
  aw_keys :: "string \<Rightarrow> auth_jwk list option"
  aw_header :: "string \<Rightarrow> (string \<times> string option) option"
  aw_verify :: "rsaKey \<Rightarrow> string \<Rightarrow> claims option"
  aw_audience :: "claims \<Rightarrow> string list option"
  aw_urlHost :: "string \<Rightarrow> string option"

text \<open>A validator, and how many readings of clock and network it is made with.\<close>

record validator =
  vd_jwksURL :: string
  vd_expectedAudience :: string
  vd_cache :: "string \<Rightarrow> (rsaKey \<times> int) option"
  vd_lastRefresh :: "int option"
  vd_ttl :: int
  vd_jwksHost :: string
  vd_moment :: nat

definition refreshInterval :: int where
  "refreshInterval = 10 * 10 ^ 9"

definition NewJWTValidator :: "string \<Rightarrow> string \<Rightarrow> int \<Rightarrow> nat \<Rightarrow> validator" where
  "NewJWTValidator jwksURL expectedAudience ttl n =
     \<lparr> vd_jwksURL = jwksURL, vd_expectedAudience = expectedAudience, vd_cache = (\<lambda>_. None), vd_lastRefresh = None, vd_ttl = ttl,
       vd_jwksHost = [], vd_moment = n \<rparr>"

definition NewJWTValidatorWithHost :: "string \<Rightarrow> string \<Rightarrow> string \<Rightarrow> int \<Rightarrow> nat \<Rightarrow> validator" where
  "NewJWTValidatorWithHost jwksURL jwksHost expectedAudience ttl n =
     (NewJWTValidator jwksURL expectedAudience ttl n)\<lparr>vd_jwksHost := jwksHost\<rparr>"

text \<open>An empty \<^verbatim>\<open>Host\<close> leaves the URL's.\<close>

definition fetchJWKS :: "auth_world \<Rightarrow> validator \<Rightarrow> (string, auth_jwk list) result" where
  "fetchJWKS W v =
     (case aw_get W (vd_moment v) (vd_jwksURL v) (vd_jwksHost v) of
        Inl e \<Rightarrow> Inl e
      | Inr (code, body) \<Rightarrow>
          if code \<noteq> 200 then Inl (''failed to fetch JWKS: '' @ Itoa (int code))
          else (case aw_keys W body of None \<Rightarrow> Inl ''invalid JSON'' | Some ks \<Rightarrow> Inr ks))"

definition tick :: "validator \<Rightarrow> validator" where
  "tick v = v\<lparr>vd_moment := Suc (vd_moment v)\<rparr>"

definition cached :: "auth_world \<Rightarrow> validator \<Rightarrow> string \<Rightarrow> rsaKey option" where
  "cached W v kid =
     (case vd_cache v kid of Some (k, till) \<Rightarrow> if aw_now W (vd_moment v) < till then Some k else None | None \<Rightarrow> None)"

definition store_keys :: "int \<Rightarrow> auth_jwk list \<Rightarrow> (string \<Rightarrow> (rsaKey \<times> int) option) \<Rightarrow> string \<Rightarrow> (rsaKey \<times> int) option" where
  "store_keys till ks c = fold (\<lambda>j c. case jwkToPublicKey j of Some k \<Rightarrow> c(jwk_kid j := Some (k, till)) | None \<Rightarrow> c) ks c"

text \<open>
  \<^verbatim>\<open>getKey\<close>, run by itself: the cache, then under the lock the cache again, the limit on fetches, a fetch, and the
  cache as it is then.
\<close>

definition getKey :: "auth_world \<Rightarrow> validator \<Rightarrow> string \<Rightarrow> (string, rsaKey) result \<times> validator" where
  "getKey W v kid =
     (case cached W v kid of
        Some k \<Rightarrow> (Inr k, tick v)
      | None \<Rightarrow>
          (let v1 = tick (v\<lparr>vd_cache := (vd_cache v)(kid := None)\<rparr>) in
           case cached W v1 kid of
             Some k \<Rightarrow> (Inr k, tick v1)
           | None \<Rightarrow>
               (let v2 = tick v1 in
                if (case vd_lastRefresh v2 of Some t \<Rightarrow> aw_now W (vd_moment v2) - t < refreshInterval | None \<Rightarrow> False)
                then (Inl (''key '' @ kid @ '' not found (refresh rate limited)''), tick v2)
                else (let v3 = tick v2 in
                  case fetchJWKS W v3 of
                    Inl e \<Rightarrow> (Inl (''failed to fetch JWKS: '' @ e), tick v3)
                  | Inr ks \<Rightarrow>
                      (let v4 = tick v3; v5 = tick (v4\<lparr>vd_lastRefresh := Some (aw_now W (vd_moment v4))\<rparr>);
                           v6 = tick (v5\<lparr>vd_cache := store_keys (aw_now W (vd_moment v5) + vd_ttl v5) ks (vd_cache v5)\<rparr>) in
                       case vd_cache v6 kid of
                         Some (k, _) \<Rightarrow> (Inr k, v6)
                       | None \<Rightarrow> (Inl (''key not found in JWKS: '' @ kid), v6))))))"

definition validMethods :: "string list" where
  "validMethods = [''RS256'', ''ES256'']"

text \<open>\<^verbatim>\<open>Validate\<close>. The library reads the header, refuses a method that is not listed, asks for the key and verifies.\<close>

definition jwt_Validate :: "auth_world \<Rightarrow> validator \<Rightarrow> string \<Rightarrow> (string, claims) result \<times> validator" where
  "jwt_Validate W v tok =
     (case aw_header W tok of
        None \<Rightarrow> (Inl ''failed to parse token'', v)
      | Some (alg, kid) \<Rightarrow>
          if alg \<notin> set validMethods then (Inl ''failed to parse token: signing method is invalid'', v)
          else (case kid of
              None \<Rightarrow> (Inl ''failed to parse token: missing kid in token header'', v)
            | Some kid \<Rightarrow>
                (case getKey W v kid of
                   (Inl e, v1) \<Rightarrow> (Inl (''failed to parse token: failed to get key: '' @ e), v1)
                 | (Inr k, v1) \<Rightarrow>
                     (case aw_verify W k tok of
                        None \<Rightarrow> (Inl ''failed to parse token'', v1)
                      | Some cl \<Rightarrow>
                          (case aw_audience W cl of
                             None \<Rightarrow> (Inl ''failed to get audience'', v1)
                           | Some aud \<Rightarrow>
                               if vd_expectedAudience v1 \<in> set aud then (Inr cl, v1)
                               else (Inl (''invalid audience, expected: '' @ vd_expectedAudience v1), v1))))))"

subsection \<open>Handlers\<close>

record auth_handler =
  ah_issuerURL :: string
  ah_internalURL :: string
  ah_jwksURL :: string
  ah_expectedAudience :: string
  ah_authPublicBaseURL :: string
  ah_mcpGatewayBaseURL :: string
  ah_ready :: bool

definition NewHandler :: "string \<Rightarrow> string \<Rightarrow> string \<Rightarrow> string \<Rightarrow> string \<Rightarrow> auth_handler" where
  "NewHandler issuerURL internalURL expectedAudience authPublicBaseURL mcpGatewayBaseURL =
     \<lparr> ah_issuerURL = issuerURL, ah_internalURL = internalURL, ah_jwksURL = internalURL @ zitadelJWKSPath,
       ah_expectedAudience = expectedAudience, ah_authPublicBaseURL = authPublicBaseURL, ah_mcpGatewayBaseURL = mcpGatewayBaseURL,
       ah_ready = False \<rparr>"

definition issuerHost :: "auth_world \<Rightarrow> string \<Rightarrow> string" where
  "issuerHost W raw = (case aw_urlHost W raw of Some h \<Rightarrow> h | None \<Rightarrow> [])"

definition SetReady :: "auth_handler \<Rightarrow> auth_handler" where
  "SetReady h = h\<lparr>ah_ready := True\<rparr>"

definition HealthReady :: "auth_handler \<Rightarrow> response" where
  "HealthReady h =
     (if \<not> ah_ready h then http_error [] ''Not ready'' 503
      else \<lparr> re_code = 200, re_headers = [], re_body = Plain ''OK'' \<rparr>)"

text \<open>A header is set where there is something to say.\<close>

definition set_if :: "bool \<Rightarrow> string \<Rightarrow> string \<Rightarrow> header \<Rightarrow> header" where
  "set_if b k v h = (if b then Header_Set k v h else h)"

text \<open>\<^verbatim>\<open>ValidateHandler\<close>, at the moment \<open>n\<close>: a validator of its own for every request.\<close>

definition ValidateHandler :: "auth_world \<Rightarrow> auth_handler \<Rightarrow> nat \<Rightarrow> request \<Rightarrow> response" where
  "ValidateHandler W h n r =
     (if rq_method r \<noteq> ''POST'' then http_error [] ''Method not allowed'' 405
      else (let authHeader = Header_Get (rq_headers r) ''Authorization'' in
        if authHeader = [] then http_error [] ''Missing Authorization header'' 401
        else if \<not> HasPrefix authHeader ''Bearer '' then http_error [] ''Invalid Authorization header format'' 401
        else (case fst (jwt_Validate W
              (NewJWTValidatorWithHost (ah_jwksURL h) (issuerHost W (ah_issuerURL h)) (ah_expectedAudience h) (3600 * 10 ^ 9) n)
              (TrimPrefix authHeader ''Bearer '')) of
            Inl _ \<Rightarrow> http_error [] ''Invalid token'' 401
          | Inr cl \<Rightarrow>
              if \<not> hasRequiredScope (text_claim cl ''scope'') ''tenant:read'' then http_error [] ''Insufficient scope'' 403
              else (let tenantID = tenantFromClaims cl in
                if tenantID = [] then http_error [] ''Invalid token'' 401
                else (let sub = text_claim cl ''sub''; email = text_claim cl ''email''; roles = rolesGrantedInTenant cl tenantID in
                  \<lparr> re_code = 200,
                    re_headers = Header_Set ''X-Auth-Tenant-Id'' tenantID
                      (set_if (roles \<noteq> []) ''X-Auth-Roles'' (Join roles '','')
                      (set_if (email \<noteq> []) ''X-Auth-Email'' email
                      (set_if (sub \<noteq> []) ''X-Auth-User-Id'' sub []))),
                    re_body = Empty \<rparr>)))))"

text \<open>\<^verbatim>\<open>ServeAuthServerMetadata\<close>: the document it encodes, and its headers.\<close>

definition auth_metadata :: "auth_handler \<Rightarrow> claims" where
  "auth_metadata h =
     (let iss = ah_issuerURL h in
      [(''issuer'', JText iss), (''authorization_endpoint'', JText (iss @ zitadelAuthorizePath)),
       (''token_endpoint'', JText (iss @ zitadelTokenPath)), (''userinfo_endpoint'', JText (iss @ zitadelUserinfoPath)),
       (''revocation_endpoint'', JText (iss @ zitadelRevocationPath)), (''introspection_endpoint'', JText (iss @ zitadelIntrospectionPath)),
       (''end_session_endpoint'', JText (iss @ zitadelEndSessionPath)), (''jwks_uri'', JText (iss @ zitadelJWKSPath)),
       (''response_types_supported'', JList [JText ''code'']),
       (''grant_types_supported'', JList [JText ''authorization_code'', JText ''refresh_token'']),
       (''token_endpoint_auth_methods_supported'', JList [JText ''none'']),
       (''code_challenge_methods_supported'', JList [JText ''S256'']),
       (''scopes_supported'', JList [JText ''openid'', JText ''profile'', JText ''email'', JText ''offline_access'']),
       (''resource'', JText (ah_mcpGatewayBaseURL h @ ''/mcp''))])"

definition ServeAuthServerMetadata :: "(claims \<Rightarrow> string) \<Rightarrow> auth_handler \<Rightarrow> response" where
  "ServeAuthServerMetadata encode h =
     \<lparr> re_code = 200,
       re_headers = Header_Set ''Access-Control-Allow-Headers'' ''Authorization, Content-Type, MCP-Protocol-Version''
         (Header_Set ''Access-Control-Allow-Origin'' ''*'' (Header_Set ''Content-Type'' ''application/json'' [])),
       re_body = Plain (encode (auth_metadata h)) \<rparr>"

text \<open>
  \<^verbatim>\<open>proxy\<close>: the request as it is sent on, and the answer as it is passed back. \<open>mk\<close> tells
  whether a request can be made of a method and a URL; \<open>ask\<close> is the service, redirects not followed.
\<close>

record outgoing =
  og_method :: string
  og_url :: string
  og_host :: string
  og_query :: smap
  og_headers :: header
  og_body :: string

definition forwarded :: "auth_world \<Rightarrow> auth_handler \<Rightarrow> request \<Rightarrow> string \<Rightarrow> outgoing" where
  "forwarded W h r path =
     \<lparr> og_method = rq_method r, og_url = ah_internalURL h @ path, og_host = issuerHost W (ah_issuerURL h), og_query = rq_query r,
       og_headers = rq_headers r, og_body = rq_body r \<rparr>"

definition auth_proxy :: "auth_world \<Rightarrow> (string \<Rightarrow> string \<Rightarrow> bool) \<Rightarrow> (outgoing \<Rightarrow> response option) \<Rightarrow> auth_handler \<Rightarrow> request \<Rightarrow> string \<Rightarrow> response" where
  "auth_proxy W mk ask h r path =
     (if \<not> mk (rq_method r) (ah_internalURL h @ path) then http_error [] ''Internal server error'' 500
      else case ask (forwarded W h r path) of Some a \<Rightarrow> a | None \<Rightarrow> http_error [] ''Bad gateway'' 502)"

definition ProxyOpenIDConfiguration :: "auth_world \<Rightarrow> (string \<Rightarrow> string \<Rightarrow> bool) \<Rightarrow> (outgoing \<Rightarrow> response option) \<Rightarrow> auth_handler \<Rightarrow> request \<Rightarrow> response" where
  "ProxyOpenIDConfiguration W mk ask h r = auth_proxy W mk ask h r zitadelDiscoveryPath"

definition ProxyJWKS :: "auth_world \<Rightarrow> (string \<Rightarrow> string \<Rightarrow> bool) \<Rightarrow> (outgoing \<Rightarrow> response option) \<Rightarrow> auth_handler \<Rightarrow> request \<Rightarrow> response" where
  "ProxyJWKS W mk ask h r = auth_proxy W mk ask h r zitadelJWKSPath"

subsection \<open>The process\<close>

text \<open>One round of the loop in \<^verbatim>\<open>main\<close> that waits for the issuer: whether the process now reports ready.\<close>

definition probeToken :: string where
  "probeToken = ''eyJhbGciOiJSUzI1NiIsImtpZCI6InRlc3QifQ.e30.test''"

definition probe_round :: "auth_world \<Rightarrow> auth_handler \<times> validator \<Rightarrow> auth_handler \<times> validator" where
  "probe_round W s =
     (case s of (h, v) \<Rightarrow>
        if ah_ready h then (h, v)
        else (case jwt_Validate W v probeToken of
            (Inr _, v1) \<Rightarrow> (SetReady h, v1)
          | (Inl e, v1) \<Rightarrow> if \<not> Contains e ''failed to fetch JWKS'' then (SetReady h, v1) else (h, v1)))"

end
