(* ===== verification/Auth_Props.thy ===== *)
theory Auth_Props
  imports Auth_Proxy
begin

text \<open>What is shown of the authentication proxy.\<close>

subsection \<open>Keys\<close>

text \<open>The keys a document publishes: of several under one name the last that can be read.\<close>

definition published :: "auth_jwk list \<Rightarrow> string \<Rightarrow> rsaKey option" where
  "published ks = map_of (rev (List.map_filter (\<lambda>j. map_option (Pair (jwk_kid j)) (jwkToPublicKey j)) ks))"

lemma store_keys_published:
  "store_keys till ks c kid = (case published ks kid of Some k \<Rightarrow> Some (k, till) | None \<Rightarrow> c kid)"
proof (induction ks arbitrary: c)
  case (Cons j ks)
  then show ?case
    by (simp add: store_keys_def published_def map_filter_simps map_add_def split: option.splits)
qed (simp add: store_keys_def published_def map_filter_simps)

lemma published_SomeD: "published ks kid = Some k \<Longrightarrow> \<exists>j \<in> set ks. jwk_kid j = kid \<and> jwkToPublicKey j = Some k"
  by (auto simp: published_def map_filter_def dest!: map_of_SomeD) blast

text \<open>A validator that is new has nothing to go by but a fetch.\<close>

lemma fresh_getKey:
  assumes "vd_cache v = (\<lambda>_. None)" and "vd_lastRefresh v = None"
  shows "fst (getKey W v kid) =
    (case fetchJWKS W (v\<lparr>vd_moment := vd_moment v + 3\<rparr>) of
       Inl e \<Rightarrow> Inl (''failed to fetch JWKS: '' @ e)
     | Inr ks \<Rightarrow> (case published ks kid of Some k \<Rightarrow> Inr k | None \<Rightarrow> Inl (''key not found in JWKS: '' @ kid)))"
proof -
  have upd: "v\<lparr>vd_cache := \<lambda>_. None, vd_moment := m\<rparr> = v\<lparr>vd_moment := m\<rparr>" for m using assms(1) by (cases v) simp
  have nothing: "(vd_cache v)(kid := None) = (\<lambda>_. None)" using assms(1) by (simp add: fun_upd_def)
  show ?thesis
    using assms unfolding getKey_def Let_def
    by (simp add: cached_def tick_def nothing upd store_keys_published eval_nat_numeral split: sum.split option.split)
qed

text \<open>What it takes for a token to be valid in a request at the moment \<open>n\<close>.\<close>

definition valid_token :: "auth_world \<Rightarrow> auth_handler \<Rightarrow> nat \<Rightarrow> string \<Rightarrow> claims \<Rightarrow> bool" where
  "valid_token W h n tok cl \<longleftrightarrow>
     (\<exists>alg kid body ks k aud.
        aw_header W tok = Some (alg, Some kid) \<and> alg \<in> {''RS256'', ''ES256''} \<and>
        aw_get W (n + 3) (ah_jwksURL h) (issuerHost W (ah_issuerURL h)) = Inr (200, body) \<and> aw_keys W body = Some ks \<and>
        published ks kid = Some k \<and> aw_verify W k tok = Some cl \<and>
        aw_audience W cl = Some aud \<and> ah_expectedAudience h \<in> set aud)"

lemma fetch_fresh:
  "fetchJWKS W ((NewJWTValidatorWithHost url host aud ttl n)\<lparr>vd_moment := m\<rparr>) =
     (case aw_get W m url host of
        Inl e \<Rightarrow> Inl e
      | Inr (code, body) \<Rightarrow>
          if code \<noteq> 200 then Inl (''failed to fetch JWKS: '' @ Itoa (int code))
          else (case aw_keys W body of None \<Rightarrow> Inl ''invalid JSON'' | Some ks \<Rightarrow> Inr ks))"
  by (simp add: fetchJWKS_def NewJWTValidatorWithHost_def NewJWTValidator_def)

lemma getKey_audience: "vd_expectedAudience (snd (getKey W v kid)) = vd_expectedAudience v"
  by (simp add: getKey_def tick_def Let_def split: option.split sum.split prod.split)

lemma validate_fresh:
  "fst (jwt_Validate W (NewJWTValidatorWithHost (ah_jwksURL h) (issuerHost W (ah_issuerURL h)) (ah_expectedAudience h) ttl n) tok) = Inr cl \<longleftrightarrow>
   valid_token W h n tok cl" (is "?l \<longleftrightarrow> ?r")
proof -
  let ?v = "NewJWTValidatorWithHost (ah_jwksURL h) (issuerHost W (ah_issuerURL h)) (ah_expectedAudience h) ttl n"
  have v: "vd_cache ?v = (\<lambda>_. None)" "vd_lastRefresh ?v = None" "vd_moment ?v = n" "vd_expectedAudience ?v = ah_expectedAudience h"
    by (simp_all add: NewJWTValidatorWithHost_def NewJWTValidator_def)
  have key: "fst (getKey W ?v kid) = Inr k \<longleftrightarrow>
      (\<exists>body ks. aw_get W (n + 3) (ah_jwksURL h) (issuerHost W (ah_issuerURL h)) = Inr (200, body) \<and> aw_keys W body = Some ks \<and>
        published ks kid = Some k)" for kid k
    unfolding fresh_getKey [OF v(1,2)] v(3) fetch_fresh by (auto split: sum.splits option.splits prod.splits if_splits)
  have "?l \<longleftrightarrow> (\<exists>alg kid k aud. aw_header W tok = Some (alg, Some kid) \<and> alg \<in> set validMethods \<and> fst (getKey W ?v kid) = Inr k \<and>
      aw_verify W k tok = Some cl \<and> aw_audience W cl = Some aud \<and> ah_expectedAudience h \<in> set aud)"
  proof -
    have "vd_expectedAudience v1 = ah_expectedAudience h" if "getKey W ?v kid = (x, v1)" for kid x v1
      using getKey_audience [of W ?v kid] that v(4) by simp
    then show ?thesis
      unfolding jwt_Validate_def by (auto split: option.splits prod.splits sum.splits if_splits)
  qed
  then show ?thesis unfolding key valid_token_def validMethods_def list.set by blast
qed

subsection \<open>Roles\<close>

text \<open>A role is granted in a tenant by an entry of the nested claim that names the tenant.\<close>

definition granted_in :: "claims \<Rightarrow> string \<Rightarrow> string \<Rightarrow> bool" where
  "granted_in cl tenant role \<longleftrightarrow>
     (\<exists>nested orgs. map_of cl scopedRolesClaim = Some (JMap nested) \<and> (role, JMap orgs) \<in> set nested \<and> map_of orgs tenant \<noteq> None)"

lemma roles_scoped:
  assumes "\<nexists>flat. map_of cl ''roles'' = Some (JList flat)" and "role \<in> set (rolesGrantedInTenant cl tenant)"
  shows "granted_in cl tenant role"
  using assms
  by (auto simp: rolesGrantedInTenant_def granted_in_def set_map_filter split: option.splits jval.splits if_splits) blast+

text \<open>A flat list of roles is taken whole, whatever tenant they are granted in.\<close>

lemma roles_flat:
  "tenant \<noteq> [] \<Longrightarrow> map_of cl ''roles'' = Some (JList (map JText rs)) \<Longrightarrow> rolesGrantedInTenant cl tenant = rs"
  by (simp add: rolesGrantedInTenant_def map_filter_def comp_def)

subsection \<open>Readiness\<close>

text \<open>The process reports ready only after a key set has been fetched.\<close>

lemma probe_ready:
  assumes "aw_header W probeToken = Some (''RS256'', Some ''test'')" and "vd_cache v = (\<lambda>_. None)" and "vd_lastRefresh v = None"
    and "\<not> ah_ready h" and "ah_ready (fst (probe_round W (h, v)))"
  shows "\<exists>ks. fetchJWKS W (v\<lparr>vd_moment := vd_moment v + 3\<rparr>) = Inr ks"
proof (rule ccontr)
  assume "\<not> ?thesis"
  then obtain e where "fetchJWKS W (v\<lparr>vd_moment := vd_moment v + 3\<rparr>) = Inl e" by (metis sum.exhaust)
  then have "fst (getKey W v ''test'') = Inl (''failed to fetch JWKS: '' @ e)" using fresh_getKey [OF assms(2,3)] by simp
  then obtain v1 where "getKey W v ''test'' = (Inl (''failed to fetch JWKS: '' @ e), v1)" by (metis prod.collapse)
  then have "jwt_Validate W v probeToken = (Inl (''failed to parse token: failed to get key: failed to fetch JWKS: '' @ e), v1)"
    using assms(1) by (simp add: jwt_Validate_def validMethods_def)
  moreover have "Contains (''failed to parse token: failed to get key: failed to fetch JWKS: '' @ e) ''failed to fetch JWKS''"
    unfolding Contains_iff by (rule exI [of _ "''failed to parse token: failed to get key: ''"], rule exI [of _ "'': '' @ e"]) simp
  ultimately show False using assms(4,5) by (simp add: probe_round_def)
qed

subsection \<open>Configuration\<close>

definition required_vars :: "string list" where
  "required_vars = [''LISTEN_ADDR'', ''ZITADEL_ISSUER_URL'', ''ZITADEL_INTERNAL_URL'', ''JWKS_CACHE_TTL'', ''JWKS_FETCH_TIMEOUT'',
     ''JWKS_REFRESH_MIN_INTERVAL'', ''EXPECTED_JWT_AUDIENCE'', ''AUTH_PUBLIC_BASE_URL'', ''MCP_GATEWAY_BASE_URL'']"

definition duration_vars :: "string list" where
  "duration_vars = [''JWKS_CACHE_TTL'', ''JWKS_FETCH_TIMEOUT'', ''JWKS_REFRESH_MIN_INTERVAL'']"

lemma Join_contains: "x \<in> set xs \<Longrightarrow> \<exists>a b. Join xs sep = a @ x @ b"
proof (induction xs sep rule: Join.induct)
  case (3 x1 y ys sep)
  show ?case
  proof (cases "x = x1")
    case True
    then have "Join (x1 # y # ys) sep = [] @ x @ (sep @ Join (y # ys) sep)" by simp
    then show ?thesis by blast
  next
    case False
    with 3 obtain a b where "Join (y # ys) sep = a @ x @ b" by auto
    then show ?thesis by (intro exI [of _ "x1 @ sep @ a"] exI [of _ b]) simp
  qed
next
  case (2 s sep)
  then have "Join [s] sep = [] @ x @ []" by simp
  then show ?case by blast
qed simp

lemma env_ok:
  "snd (env_get env k) = (if TrimSpace (env k) = [] then [k] else [])"
  "snd (env_duration parse quote env k) = [] \<longleftrightarrow> TrimSpace (env k) \<noteq> [] \<and> parse (env k) \<noteq> None"
  "TrimSpace (env k) = [] \<Longrightarrow> snd (env_duration parse quote env k) = [k]"
proof -
  have ne: "TrimSpace (env k) \<noteq> [] \<Longrightarrow> env k \<noteq> []" by (auto simp: TrimSpace_def)
  show "snd (env_get env k) = (if TrimSpace (env k) = [] then [k] else [])" by (simp add: env_get_def)
  show "snd (env_duration parse quote env k) = [] \<longleftrightarrow> TrimSpace (env k) \<noteq> [] \<and> parse (env k) \<noteq> None"
    using ne by (auto simp: env_duration_def env_get_def split: option.split)
  show "TrimSpace (env k) = [] \<Longrightarrow> snd (env_duration parse quote env k) = [k]"
    by (simp add: env_duration_def env_get_def)
qed

subsection \<open>Properties\<close>


text \<open>A key set with one key, and a token with a role in its own tenant and one in another.\<close>

definition demo_jwk :: auth_jwk where
  "demo_jwk = \<lparr> jwk_kty = ''RSA'', jwk_kid = ''k1'', jwk_use = ''sig'', jwk_alg = ''RS256'', jwk_n = RawURL_Encode ''n'', jwk_e = RawURL_Encode ''e'' \<rparr>"

definition demo_claims :: claims where
  "demo_claims = [(''scope'', JText ''openid tenant:read''), (''urn:zitadel:iam:org:id'', JText ''t1''),
     (scopedRolesClaim, JMap [(''admin'', JMap [(''t1'', JText ''d'')]), (''owner'', JMap [(''t2'', JText ''d'')])])]"

definition demo_auth :: auth_world where
  "demo_auth = \<lparr> aw_now = (\<lambda>_. 0), aw_get = (\<lambda>_ _ _. Inr (200, [])), aw_keys = (\<lambda>_. Some [demo_jwk]),
     aw_header = (\<lambda>_. Some (''RS256'', Some ''k1'')), aw_verify = (\<lambda>_ _. Some demo_claims), aw_audience = (\<lambda>_. Some [''api'']),
     aw_urlHost = Some \<rparr>"

definition demo_handler :: auth_handler where
  "demo_handler = NewHandler ''https://id'' ''http://zitadel'' ''api'' ''https://auth'' ''https://mcp''"

definition demo_ask :: request where
  "demo_ask = \<lparr> rq_method = ''POST'', rq_host = [], rq_remote = [], rq_path = ''/internal/validate'', rq_query = [],
     rq_headers = [(''Authorization'', [''Bearer abc''])], rq_body = [] \<rparr>"

lemma demo_jwk_key: "jwkToPublicKey demo_jwk = Some \<lparr> rk_N = modulus_of ''n'', rk_E = sint (exponent_of ''e'') \<rparr>"
proof -
  have "jwk_kty demo_jwk = ''RSA''" "jwk_n demo_jwk = RawURL_Encode ''n''" "jwk_e demo_jwk = RawURL_Encode ''e''"
    by (simp_all add: demo_jwk_def)
  then show ?thesis by (simp add: jwkToPublicKey_def del: RawURL_Encode.simps)
qed

lemma demo_valid: "valid_token demo_auth demo_handler 0 ''abc'' demo_claims"
  by (simp add: valid_token_def demo_auth_def demo_handler_def NewHandler_def published_def map_filter_simps demo_jwk_key)
     (simp add: demo_jwk_def)

lemma demo_answer: "re_code (ValidateHandler demo_auth demo_handler 0 demo_ask) = 200"
proof -
  have pre: "Header_Get (rq_headers demo_ask) ''Authorization'' = ''Bearer '' @ ''abc''"
    by (simp add: demo_ask_def Header_Get_def Header_Values_def)
  have "hasRequiredScope (text_claim demo_claims ''scope'') ''tenant:read''" "tenantFromClaims demo_claims = ''t1''" by code_simp+
  then show ?thesis
    using demo_valid [folded validate_fresh [where ttl = "3600 * 10 ^ 9"]]
    by (simp add: ValidateHandler_def pre Let_def del: append.simps) (simp add: demo_ask_def)
qed


text \<open>
  C40: the configuration has no defaults. The process starts exactly when each of its nine variables is set and the
  three durations can be read; when it does not, the error names every variable that is missing.
\<close>

theorem auth_config_complete:
  "case auth_LoadConfig parse quote env of
     Inr c \<Rightarrow> list_all (\<lambda>k. TrimSpace (env k) \<noteq> []) required_vars \<and> list_all (\<lambda>k. parse (env k) \<noteq> None) duration_vars
   | Inl e \<Rightarrow> (list_ex (\<lambda>k. TrimSpace (env k) = []) required_vars \<or> list_ex (\<lambda>k. parse (env k) = None) duration_vars) \<and>
       list_all (\<lambda>k. TrimSpace (env k) \<noteq> [] \<or> Contains e k) required_vars"
proof -
  let ?get = "\<lambda>k. snd (env_get env k)" and ?dur = "\<lambda>k. snd (env_duration parse quote env k)"
  define names where "names = ?get ''LISTEN_ADDR'' @ ?get ''ZITADEL_ISSUER_URL'' @ ?get ''ZITADEL_INTERNAL_URL'' @
            ?dur ''JWKS_CACHE_TTL'' @ ?dur ''JWKS_FETCH_TIMEOUT'' @ ?dur ''JWKS_REFRESH_MIN_INTERVAL'' @
            ?get ''EXPECTED_JWT_AUDIENCE'' @ ?get ''AUTH_PUBLIC_BASE_URL'' @ ?get ''MCP_GATEWAY_BASE_URL''"
  have empty: "names = [] \<longleftrightarrow> list_all (\<lambda>k. TrimSpace (env k) \<noteq> []) required_vars \<and> list_all (\<lambda>k. parse (env k) \<noteq> None) duration_vars"
    unfolding names_def required_vars_def duration_vars_def append_is_Nil_conv list.pred_inject env_ok
    by (simp only: if_split_eq1 list.distinct list.pred_inject(1) not_False_eq_True simp_thms) blast
  have named: "k \<in> set names" if "k \<in> set required_vars" "TrimSpace (env k) = []" for k
    using that unfolding required_vars_def list.set insert_iff empty_iff
    by (elim disjE) (simp_all only: names_def set_append Un_iff env_ok(1,3) if_True list.set insert_iff simp_thms)
  show ?thesis
  proof (cases "names = []")
    case True
    then obtain c where "auth_LoadConfig parse quote env = Inr c"
      unfolding auth_LoadConfig_def Let_def names_def [symmetric] by simp
    with True empty show ?thesis by simp
  next
    case False
    then have e: "auth_LoadConfig parse quote env = Inl (''auth-proxy configuration incomplete: '' @ Itoa (int (length names)) @
        '' required environment variable(s) missing or invalid: '' @ Join (sort names) '', '')"
      unfolding auth_LoadConfig_def Let_def names_def [symmetric] by simp
    have "Contains (p @ q @ t @ Join (sort names) '', '') k" if "k \<in> set names" for p q t k
      using Join_contains [of k "sort names" "'', ''"] that unfolding Contains_iff by (metis append.assoc set_sort)
    with named have "list_all (\<lambda>k. TrimSpace (env k) \<noteq> [] \<or> Contains (''auth-proxy configuration incomplete: '' @ Itoa (int (length names)) @
        '' required environment variable(s) missing or invalid: '' @ Join (sort names) '', '') k) required_vars"
      unfolding list_all_iff by blast
    moreover have "list_ex (\<lambda>k. TrimSpace (env k) = []) required_vars \<or> list_ex (\<lambda>k. parse (env k) = None) duration_vars"
      using False empty by (auto simp: list_all_iff list_ex_iff)
    ultimately show ?thesis unfolding e by simp
  qed
qed

theorem auth_config_complete_witness:
  "\<exists>e. auth_LoadConfig (\<lambda>_. None) (\<lambda>x. x) (\<lambda>_. []) = Inl e \<and> Contains e ''LISTEN_ADDR'' \<and> Contains e ''MCP_GATEWAY_BASE_URL''"
proof -
  have empty: "TrimSpace [] = []" by (simp add: TrimSpace_def)
  have at_least: "''LISTEN_ADDR'' \<in> set required_vars" "''MCP_GATEWAY_BASE_URL'' \<in> set required_vars" by (simp_all add: required_vars_def)
  show ?thesis
    using auth_config_complete [where parse = "\<lambda>_. None" and quote = "\<lambda>x. x" and env = "\<lambda>_. []"] at_least
    by (cases "auth_LoadConfig (\<lambda>_. None) (\<lambda>x. x) (\<lambda>_. [])") (auto simp: list_all_iff empty)
qed

end
