(* ===== verification/Spec2Isabelle.thy ===== *)
theory Spec2Isabelle
  imports Server_Props Operator_Passes Sidecar_Contract Preview_Props VM_Props Day0_Props Auth_Props
begin

text \<open>
  A verification of the compute side of \<^verbatim>\<open>zero-ops\<close>: the operator that runs short-lived workloads
  and the gateway that lets browsers see them (\<^verbatim>\<open>src/operators/ephemeral-job-operator\<close>), the
  sidecar that keeps their workspaces in object storage (\<^verbatim>\<open>src/operators/workspace-sync\<close>), and the
  provisioner of one-job machines (\<^verbatim>\<open>src/operators/ephemeral-vm-provisioner\<close>); and of the bootstrap of a
  platform (\<^verbatim>\<open>src/internal/kakt-cli/bootstrap\<close> and \<^verbatim>\<open>state\<close>) and the proxy that vouches for its users
  (\<^verbatim>\<open>src/internal/auth-proxy\<close>).

  \<^bold>\<open>The program.\<close> A fleet submits an \<^verbatim>\<open>EphemeralJob\<close>. The operator turns it into a Job or a Pod with
  the platform's placement, labels, limits and network policies, follows it to an end, and posts
  lifecycle callbacks. For a persisted workspace the pod carries the sync sidecar: it restores a
  checkpoint before the workload starts, serves \<^verbatim>\<open>/checkpoint\<close>, \<^verbatim>\<open>/flush\<close>, \<^verbatim>\<open>/restore\<close>, \<^verbatim>\<open>/refresh\<close> and
  listings on the loopback, saves periodically and at shutdown, and prunes old checkpoints. The
  operator and the sidecar meet only in environment variables. A \<^verbatim>\<open>PreviewAccess\<close> record names a running
  request's port; the preview gateway gives each record a host, lets an application's signed-in user
  exchange a single-use code for a signed cookie, and proxies requests that carry it to the sandbox.
  Apart from these, an SDK writes rows into a Postgres table of jobs; provisioners claim them by a
  conditional update, create a Hetzner machine per job, watch it, and delete it when the job is over.
  The platform itself is built by a command that runs some twenty phases in order and keeps a record of
  those behind it, so that the next command goes on where the last one stopped; six of the phases open a
  boundary each, by a contract of what it requires and what it asserts. Requests to the platform's gateway
  are admitted by asking the proxy, which verifies a bearer token with the issuer's keys and answers with
  the tenant and roles of its user.

  \<^bold>\<open>Theories and sources.\<close>
  \<^item> \<open>Prelude\<close>, \<open>Go_Numbers\<close>: the functions of Go's \<^verbatim>\<open>strings\<close>, \<^verbatim>\<open>strconv\<close> and \<^verbatim>\<open>time\<close> packages the code
    calls, 64-bit durations with their wrap-around, and the fact collections.
  \<^item> \<open>File_Tree\<close>: directories, files and links with walking, placing and removing; \<open>Object_Store\<close>: the
    bucket (a map from keys to bodies), the storage service as a record of answers, the data and keys
    of \<^verbatim>\<open>internal/store/store.go\<close>; \<open>Checkpoint_Store\<close>: every operation of that file, from \<open>FromEnv\<close>
    and \<open>New\<close> to \<open>Snapshot\<close>, \<open>Prune\<close>, \<open>Resolve\<close> and \<open>Restore\<close>; \<open>Mem_Storage\<close>: a concrete storage on
    which witnesses evaluate.
  \<^item> \<open>Store_Retention\<close>: retention equals its reference rule, pruning removes exactly what the rule
    gives up and never an object a kept checkpoint names, ids order by time. \<open>Store_Snapshot\<close>: a
    snapshot captures exactly the tree, publishes a complete checkpoint, refuses what it must, and
    leaves only complete checkpoints wherever it stops. \<open>Store_Restore\<close>: snapshot and restore are
    inverse, restored bytes are verified, a pin never falls back. \<open>Store_Config\<close>: configuration,
    digests and time budgets.
  \<^item> \<open>Workspace_Server\<close>: \<^verbatim>\<open>cmd/main.go\<close> and \<^verbatim>\<open>cmd/refresh.go\<close>, one definition per handler and step;
    \<open>Save_Slot\<close>: the one-save-at-a-time slot as a step relation, with its invariant over every
    interleaving; \<open>Server_Props\<close>: startup, acknowledgement, restore, refresh, read-only mode, shutdown.
  \<^item> \<open>Kube_API\<close>, \<open>EphemeralJob\<close>: the Kubernetes objects, the resource
    (\<^verbatim>\<open>api/v1alpha1/ephemeraljob_types.go\<close>), the log of the calls of a pass. \<open>Job_Capacity\<close>:
    \<^verbatim>\<open>helpers.go\<close>, \<^verbatim>\<open>placement.go\<close>, \<^verbatim>\<open>capacity.go\<close>, \<^verbatim>\<open>job_storage.go\<close>. \<open>Pod_Builder\<close>: \<^verbatim>\<open>workspace_sync.go\<close>,
    \<^verbatim>\<open>output_storage.go\<close> and the builders of \<^verbatim>\<open>ephemeraljob_controller.go\<close>. \<open>Session_Peer\<close>:
    \<^verbatim>\<open>session_peer.go\<close>. \<open>Reconciler\<close>: the rest of \<^verbatim>\<open>ephemeraljob_controller.go\<close>, up to \<open>Reconcile\<close>.
  \<^item> \<open>Pass_Logic\<close>: rules for what the calls of a pass satisfy together, and the locale
    \<open>pass_invariant\<close> between the shape of the reconciler and a property of its logs. \<open>Demo_Cluster\<close>: a
    concrete cluster for witnesses. \<open>Lifecycle\<close>: callbacks follow the recorded status, an ending is
    final and told at most once, by induction over sequences of passes, edits and stale reads.
    \<open>Operator_Passes\<close>: the lifetime bound, cancellation, adoption of Jobs, capacity. \<open>Pod_Props\<close>:
    resource envelope, confinement, peer policies, callback keys. \<open>Sidecar_Contract\<close>: the composition
    of the operator's rendering with the sidecar's reading of the environment.
  \<^item> \<open>Base64URL\<close>, \<open>Go_HTTP\<close>: base64, headers, cookies and the error and redirect helpers of
    \<^verbatim>\<open>net/http\<close>. \<open>Preview_Types\<close>: the record (\<^verbatim>\<open>api/v1alpha1/previewaccess_types.go\<close>), tickets, codes
    and the gateway's memory. \<open>Preview_Index\<close>: \<^verbatim>\<open>internal/previewaccess/state.go\<close> and \<^verbatim>\<open>mechanism.go\<close>.
    \<open>Preview_Session\<close>: \<^verbatim>\<open>cookie.go\<close>, \<^verbatim>\<open>jwt.go\<close>, \<^verbatim>\<open>platform.go\<close>, \<^verbatim>\<open>localmode/localmode.go\<close>. \<open>Preview_Server\<close>:
    \<^verbatim>\<open>server.go\<close>. \<open>Preview_Controller\<close>: \<^verbatim>\<open>reconciler.go\<close>, \<^verbatim>\<open>webhook.go\<close> and the decisions of
    \<^verbatim>\<open>cmd/preview-access/main.go\<close>.
  \<^item> \<open>Preview_Access\<close>: the locale \<open>admission_mechanism\<close>, what the server relies on of a mechanism, with both
    mechanisms of the code as interpretations. \<open>Preview_Tickets\<close>: sealed tickets and cookie lines.
    \<open>Preview_Vault\<close>: a server with a table of sessions as the specification of codes and cookies, and
    the simulation. \<open>Preview_Records\<close>: caches, embedding, ranking, admission. \<open>Preview_Entry\<close>:
    credentials, callers, issued codes. \<open>Preview_Visit\<close>, \<open>Preview_Proxy\<close>: the visitor's journey and what
    the proxy passes on. \<open>Preview_Demo\<close>: a concrete cluster. \<open>Preview_Props\<close>: the gateway's properties.
  \<^item> \<open>VM_Types\<close>: payloads, rows, servers, and programs as trees of statements, requests and readings of
    the clock. \<open>VM_Store\<close>: \<^verbatim>\<open>internal/store/store.go\<close>. \<open>VM_Cloud\<close>: \<^verbatim>\<open>internal/hetzner/client.go\<close> and
    \<^verbatim>\<open>internal/provision/hclouderrors.go\<close>. \<open>VM_CloudInit\<close>: \<^verbatim>\<open>cloudinit.go\<close>. \<open>VM_Reconciler\<close>:
    \<^verbatim>\<open>reconciler.go\<close> and \<^verbatim>\<open>server.go\<close>.
  \<^item> \<open>VM_Runs\<close>: any number of provisioners and the SDK interleaving statement by statement, with lost
    statements, lost acknowledgements and crashes, as a step function with its reachable states.
    \<open>VM_Claims\<close>: claims are exclusive. \<open>VM_Justified\<close>: the locale \<open>judgement\<close>, what may be asked of a
    process given the replies it has seen, interpreted on what justifies creating and deleting.
    \<open>VM_Passes\<close>, \<open>VM_Play\<close>: undisturbed passes, as a relation and computed. \<open>VM_Loops\<close>: the waits and
    the listing end. \<open>VM_Boot\<close>: the user data. \<open>VM_Demo\<close>: a small installation and the runs in which
    the steps fall badly. \<open>VM_Props\<close>: the provisioner's properties.
  \<^item> \<open>Day0_Boundaries\<close>: \<^verbatim>\<open>bootstrap/boundaries.go\<close> and \<^verbatim>\<open>boundary_graph.go\<close>, up to the run of a boundary;
    \<open>Day0_Graph\<close>: the depth-first search is exact, the checks of the table accept what they mean to.
    \<open>Day0_State\<close>: the record of \<^verbatim>\<open>state/manager.go\<close>, its file, and programs that ask the outside one thing
    after the other. \<open>Day0_Pipeline\<close>: \<^verbatim>\<open>runBoundary\<close>, the postconditions of \<^verbatim>\<open>phase_postcondition.go\<close>.
    \<open>Day0_Run\<close>: \<^verbatim>\<open>orchestrator.go\<close> from \<^verbatim>\<open>runPhase\<close> to \<^verbatim>\<open>Run\<close>, the pipeline as a list of stages.
    \<open>Day0_Checkpoints\<close>: what the runner of a phase keeps of memory and file. \<open>Day0_Resume\<close>: what a whole
    pipeline does with a record. \<open>Day0_Whole\<close>: what a command does with the file it finds. \<open>Day0_Script\<close>: a
    boundary as a script. \<open>Day0_Props\<close>: the properties of a bootstrap.
  \<^item> \<open>Auth_Proxy\<close>: all of \<^verbatim>\<open>internal/auth-proxy\<close>, and the readiness probe of its \<^verbatim>\<open>main\<close>. \<open>Auth_Props\<close>: whom it
    vouches for, the roles it names, its configuration, when it reports ready.

  \<^bold>\<open>State and effects.\<close> The store's operations pass the bucket and the tree explicitly and return an
  error beside the state they leave, so a failure in the middle is a value. The server's handlers pass
  a record of the variables \<^verbatim>\<open>runServe\<close> closes over. A reconcile pass is a state-monad computation over
  its log; the object it holds is passed explicitly because a status update replaces it by the server's
  copy. A handler of the gateway runs over its memory and a counter of the reads it made: each read of
  the cache, the clock or the random source sees a moment of its own, so the world may change between
  any two. A process of the VM provisioner is a tree, so that others can run between any two of its
  calls. A bootstrap passes its record, its disk and the log of what it asked; an answer may depend on the
  whole log, so any call may fail at any time. Two loops of the VM provisioner go on as long as the service and the clock let them and carry fuel: \<open>vc_wait\<close>
  for the polls of a volume, of which 31 are shown to be enough when the clock moves by a second per
  poll, and \<open>vc_pages\<close> for the pages of a listing, of which as many are enough as the service has. Every
  other loop of the modelled code is bounded by a list it is given.

  \<^bold>\<open>Parameters.\<close> The object store, SHA-256, JSON, \<^verbatim>\<open>mksquashfs\<close>, FUSE, the Kubernetes API server, the
  clock, pod logs, the callback receiver, the condition list of \<^verbatim>\<open>apimachinery\<close>, quantities, URL parsing
  and duration printing are not code of the repository. They are fields of the records \<open>gosys\<close>,
  \<open>s3\<close>, \<open>kube\<close>, the pod of the server, \<open>golib\<close> (HMAC, RSA, the JSON of tickets and tokens), \<open>moment\<close>
  (the gateway's cache, clock, random source and key endpoint), \<open>vm_config\<close> (environment and JSON), \<open>world\<close>
  (what a bootstrap asks) and \<open>auth_world\<close> (the proxy's clock, network and token library). An answer of the cluster is an arbitrary function of the calls
  made before it, so reads may be inconsistent and any write may fail. What a theorem relies on of
  them is a hypothesis of its statement, and its witness instantiates the parameter.

  \<^bold>\<open>Not modelled.\<close> Log lines, metrics, the wording of some error texts, watch registration and process
  wiring; RetryLimit and RetryCount, which no code reads. \<^verbatim>\<open>strings.ToLower\<close> and \<^verbatim>\<open>TrimSpace\<close> are
  given on ASCII. A nil pod from \<open>ensurePod\<close> cannot occur and has no branch. Of the gateway, the routing of
  \<^verbatim>\<open>http.ServeMux\<close>, the copying of bodies by \<^verbatim>\<open>httputil.ReverseProxy\<close>, the refusal page's markup and the
  wiring of its managers. Of the VM provisioner, the connection pool, health probes and the ticker. Of the
  bootstrap, what single tasks do to the cluster: the providers, installers, seed, waits and repairs are
  tasks that are answered from outside, and a cancelled context is such an answer. The
  rest of the repository is outside this development: the hub and identity operators, the other commands
  of the command line and the tenant control plane, which drive external services and commands.
\<close>

end
